(* ===== verification/Go_Prelude.thy ===== *)
theory Go_Prelude
  imports Main "HOL-Library.Word"
begin

text \<open>
  Shared vocabulary of the development: the machine integers of Go as words of the
  same width, the outcome of a Go call (a value, a run-time panic, or a call that never
  returns), signed division and the integer conversions, the byte orders of
  \<open>encoding/binary\<close>, and the lemma collections the component theories use.
\<close>

unbundle bit_operations_syntax

type_synonym u8 = "8 word"
type_synonym u16 = "16 word"
type_synonym u32 = "32 word"
type_synonym u64 = "64 word"
type_synonym bytes = "u8 list"

named_theorems go_simps \<open>unfolding equations of the small Go helpers\<close>
named_theorems word_bounds \<open>unsigned and signed readings of words inside their range\<close>

section \<open>Outcomes of a call\<close>

text \<open>
  A run-time panic stops the goroutine with no result; a loop that never ends gives no
  result either. Both are values here, so that no theorem can hold by accident on a call
  that does not return.
\<close>

datatype go_panic = IndexOutOfRange | DivideByZero | NilDereference | SliceBounds | CalledPanic | TypeAssertion

datatype 'a outcome = Done 'a | Panic go_panic | Hang

fun obind :: "'a outcome \<Rightarrow> ('a \<Rightarrow> 'b outcome) \<Rightarrow> 'b outcome" where
  "obind (Done x) f = f x"
| "obind (Panic p) f = Panic p"
| "obind Hang f = Hang"

lemma obind_Done_iff [simp]:
  "obind x f = Done y \<longleftrightarrow> (\<exists>a. x = Done a \<and> f a = Done y)"
  by (cases x) auto

lemma obind_assoc: "obind (obind x f) g = obind x (\<lambda>a. obind (f a) g)"
  by (cases x) auto

text \<open>An error return: \<open>Inl\<close> is the error, \<open>Inr\<close> the result next to a nil error.\<close>

fun is_ok :: "'e + 'a \<Rightarrow> bool" where
  "is_ok (Inl e) = False"
| "is_ok (Inr a) = True"

text \<open>
  The statement sequence \<open>x, err := f(); if err != nil { return err }\<close>, for a pure call and for a
  call that may panic.
\<close>

fun ebind :: "'e + 'a \<Rightarrow> ('a \<Rightarrow> 'e + 'b) \<Rightarrow> 'e + 'b" where
  "ebind (Inl e) f = Inl e"
| "ebind (Inr a) f = f a"

definition rbind :: "('e + 'a) outcome \<Rightarrow> ('a \<Rightarrow> ('e + 'b) outcome) \<Rightarrow> ('e + 'b) outcome" where
  "rbind x f = obind x (\<lambda>r. case r of Inl e \<Rightarrow> Done (Inl e) | Inr a \<Rightarrow> f a)"

lemma ebind_Inr_iff [simp]: "ebind x f = Inr y \<longleftrightarrow> (\<exists>a. x = Inr a \<and> f a = Inr y)"
  by (cases x) auto

lemma rbind_simps [simp]:
  "rbind (Done (Inl e)) f = Done (Inl e)" "rbind (Done (Inr a)) f = f a"
  "rbind (Panic p) f = Panic p" "rbind Hang f = Hang"
  by (simp_all add: rbind_def)

lemma rbind_Inr_iff [simp]: "rbind x f = Done (Inr y) \<longleftrightarrow> (\<exists>a. x = Done (Inr a) \<and> f a = Done (Inr y))"
proof (cases x)
  case (Done r)
  then show ?thesis by (cases r) auto
qed auto

section \<open>Machine integers\<close>

text \<open>Go's \<open>/\<close> on signed integers truncates towards zero; on \<open>int64\<close> it wraps.\<close>

definition go_quot :: "int \<Rightarrow> int \<Rightarrow> int" where
  "go_quot a b = sgn a * sgn b * (\<bar>a\<bar> div \<bar>b\<bar>)"

definition sdiv64 :: "u64 \<Rightarrow> u64 \<Rightarrow> u64" where
  "sdiv64 a b = word_of_int (go_quot (sint a) (sint b))"

lemma go_quot_nonneg: "0 \<le> a \<Longrightarrow> 0 < b \<Longrightarrow> go_quot a b = a div b"
  by (auto simp: go_quot_def sgn_if)

text \<open>
  Readings of 64-bit words under bounds. Arithmetic is exact when the mathematical
  result fits; every no-overflow argument of the development goes through these rules.
\<close>

lemma sint_range64 [word_bounds]:
  "sint (x::u64) < 2 ^ 63" "- (2 ^ 63) \<le> sint (x::u64)"
  using sint_lt [of x] sint_ge [of x] by simp_all

lemma sint_of_int64: "- (2 ^ 63) \<le> i \<Longrightarrow> i < 2 ^ 63 \<Longrightarrow> sint (word_of_int i :: u64) = i"
  by (simp add: int_word_sint)

lemma uint_of_int64: "0 \<le> i \<Longrightarrow> i < 2 ^ 64 \<Longrightarrow> uint (word_of_int i :: u64) = i"
  by (simp add: uint_word_of_int take_bit_int_eq_self)

lemma sint_eq_uint64: "uint (x::u64) < 2 ^ 63 \<Longrightarrow> sint x = uint x"
  using sint_of_int64 [of "uint x"] uint_ge_0 [of x] by (simp del: uint_ge_0)

lemma uint_eq_sint64: "0 \<le> sint (x::u64) \<Longrightarrow> uint x = sint x"
  using uint_of_int64 [of "sint x"] sint_range64 [of x] by simp

lemma sint_minus64:
  assumes "- (2 ^ 63) \<le> sint a - sint b" and "sint a - sint b < 2 ^ 63"
  shows "sint (a - b :: u64) = sint a - sint b"
proof -
  have "a - b = word_of_int (sint a - sint b)" by simp
  then show ?thesis using sint_of_int64 [OF assms] by simp
qed

lemma sint_plus64:
  assumes "- (2 ^ 63) \<le> sint a + sint b" and "sint a + sint b < 2 ^ 63"
  shows "sint (a + b :: u64) = sint a + sint b"
proof -
  have "a + b = word_of_int (sint a + sint b)" by simp
  then show ?thesis using sint_of_int64 [OF assms] by simp
qed

lemma sint_times64:
  assumes "- (2 ^ 63) \<le> sint a * sint b" and "sint a * sint b < 2 ^ 63"
  shows "sint (a * b :: u64) = sint a * sint b"
proof -
  have "a * b = word_of_int (sint a * sint b)" by simp
  then show ?thesis using sint_of_int64 [OF assms] by simp
qed

lemma uint_minus64: "uint b \<le> uint a \<Longrightarrow> uint (a - b :: u64) = uint a - uint b"
  by (simp add: uint_minus_simple_iff word_le_def flip: uint_minus_simple_alt)

lemma uint_plus64: "uint a + uint b < 2 ^ 64 \<Longrightarrow> uint (a + b :: u64) = uint a + uint b"
  by (simp add: uint_word_ariths)

lemma uint_times64: "uint a * uint b < 2 ^ 64 \<Longrightarrow> uint (a * b :: u64) = uint a * uint b"
  by (simp add: uint_word_ariths)

lemma sdiv64_pos:
  assumes "0 \<le> sint a" and "0 < sint b"
  shows "sint (sdiv64 a b) = sint a div sint b"
proof -
  have "sint a div sint b \<le> sint a" using zdiv_mono2 [of "sint a" 1 "sint b"] assms by simp
  moreover have "0 \<le> sint a div sint b" using assms by (simp add: pos_imp_zdiv_nonneg_iff)
  ultimately show ?thesis
    using sint_range64 [of a] assms
    by (simp add: sdiv64_def go_quot_nonneg sint_of_int64)
qed

section \<open>Byte orders\<close>

text \<open>\<open>binary.LittleEndian\<close> and \<open>binary.BigEndian\<close> on two and four byte buffers.\<close>

definition le16 :: "u16 \<Rightarrow> bytes" where
  "le16 v = [ucast v, ucast (drop_bit 8 v)]"

definition be16 :: "u16 \<Rightarrow> bytes" where
  "be16 v = rev (le16 v)"

definition le32 :: "u32 \<Rightarrow> bytes" where
  "le32 v = [ucast v, ucast (drop_bit 8 v), ucast (drop_bit 16 v), ucast (drop_bit 24 v)]"

definition be32 :: "u32 \<Rightarrow> bytes" where
  "be32 v = rev (le32 v)"

text \<open>
  \<open>LittleEndian.Uint16\<close> and \<open>Uint32\<close> read the first bytes of a slice and panic on a
  shorter one.
\<close>

fun getle16 :: "bytes \<Rightarrow> u16 outcome" where
  "getle16 (b0 # b1 # _) = Done (ucast b0 OR push_bit 8 (ucast b1))"
| "getle16 _ = Panic IndexOutOfRange"

fun getbe16 :: "bytes \<Rightarrow> u16 outcome" where
  "getbe16 (b0 # b1 # _) = Done (ucast b1 OR push_bit 8 (ucast b0))"
| "getbe16 _ = Panic IndexOutOfRange"

fun getle32 :: "bytes \<Rightarrow> u32 outcome" where
  "getle32 (b0 # b1 # b2 # b3 # _) =
     Done (ucast b0 OR push_bit 8 (ucast b1) OR push_bit 16 (ucast b2) OR push_bit 24 (ucast b3))"
| "getle32 _ = Panic IndexOutOfRange"

fun getbe32 :: "bytes \<Rightarrow> u32 outcome" where
  "getbe32 (b0 # b1 # b2 # b3 # _) =
     Done (ucast b3 OR push_bit 8 (ucast b2) OR push_bit 16 (ucast b1) OR push_bit 24 (ucast b0))"
| "getbe32 _ = Panic IndexOutOfRange"

lemma length_le [simp]: "length (le16 v) = 2" "length (be16 v) = 2"
  "length (le32 w) = 4" "length (be32 w) = 4"
  by (simp_all add: le16_def be16_def le32_def be32_def)

lemma word_bytes16: "ucast (ucast v :: u8) OR push_bit 8 (ucast (ucast (drop_bit 8 v) :: u8)) = (v::u16)"
  by (rule bit_word_eqI) (auto simp: bit_simps)

lemma word_bytes32:
  "ucast (ucast v :: u8) OR push_bit 8 (ucast (ucast (drop_bit 8 v) :: u8))
     OR push_bit 16 (ucast (ucast (drop_bit 16 v) :: u8))
     OR push_bit 24 (ucast (ucast (drop_bit 24 v) :: u8)) = (v::u32)"
proof (rule bit_word_eqI)
  fix n :: nat
  assume n: "n < LENGTH(32)"
  then consider "n < 8" | "8 \<le> n" "n < 16" | "16 \<le> n" "n < 24" | "24 \<le> n" "n < 32"
    by fastforce
  then show "bit (ucast (ucast v :: u8) OR push_bit 8 (ucast (ucast (drop_bit 8 v) :: u8))
     OR push_bit 16 (ucast (ucast (drop_bit 16 v) :: u8))
     OR push_bit 24 (ucast (ucast (drop_bit 24 v) :: u8)) :: u32) n = bit v n"
    by cases (auto simp: bit_simps)
qed

lemma getle16_le16 [simp]: "getle16 (le16 v @ r) = Done v"
  by (simp add: le16_def word_bytes16)

lemma getbe16_be16 [simp]: "getbe16 (be16 v @ r) = Done v"
  by (simp add: be16_def le16_def word_bytes16)

lemma getle32_le32 [simp]: "getle32 (le32 v @ r) = Done v"
  by (simp add: le32_def word_bytes32)

lemma getbe32_be32 [simp]: "getbe32 (be32 v @ r) = Done v"
  by (simp add: be32_def le32_def word_bytes32)

lemma get_exact [simp]:
  "getle16 (le16 u) = Done u" "getbe16 (be16 u) = Done u" "getle32 (le32 v) = Done v" "getbe32 (be32 v) = Done v"
  using getle16_le16 [of u "[]"] getbe16_be16 [of u "[]"] getle32_le32 [of v "[]"] getbe32_be32 [of v "[]"] by simp_all

section \<open>Inverse partial maps\<close>

text \<open>Two maps that are each other's inverse, and the updates that keep them so.\<close>

definition linked :: "('a \<rightharpoonup> 'b) \<Rightarrow> ('b \<rightharpoonup> 'a) \<Rightarrow> bool" where
  "linked f g \<longleftrightarrow> (\<forall>a b. f a = Some b \<longleftrightarrow> g b = Some a)"

lemma linkedD: "linked f g \<Longrightarrow> f a = Some b \<longleftrightarrow> g b = Some a"
  by (simp add: linked_def)

lemma linked_empty [simp]: "linked Map.empty Map.empty"
  by (simp add: linked_def)

lemma linked_insert:
  "linked f g \<Longrightarrow> f a = None \<Longrightarrow> g b = None \<Longrightarrow> linked (f(a \<mapsto> b)) (g(b \<mapsto> a))"
  by (auto simp: linked_def) (metis option.distinct(1))

lemma linked_delete:
  "linked f g \<Longrightarrow> linked (\<lambda>a. if g b = Some a then None else f a) (g(b := None))"
  by (auto simp: linked_def) (metis option.inject)

lemma linked_refresh: "linked f g \<Longrightarrow> g b = Some a \<Longrightarrow> f(a \<mapsto> b) = f \<and> g(b \<mapsto> a) = g"
  unfolding linked_def by (metis fun_upd_triv)

end
