(* ===== verification/Common_Types.thy ===== *)
theory Common_Types
  imports Go_Prelude
begin

text \<open>
  The data that the daemons exchange, from \<open>cmd/daemon/common/types.go\<close>: the QoS request of
  one direction, of a pod or flow in both directions, and the descriptions of a pod, of a
  pod's annotations and of a host process. \<open>PodInfo\<close> and \<open>ProcessInfo\<close> embed
  \<open>NetQosReq\<close> in Go, so the embedded value is a field here.
\<close>

record QosConfig =
  BandWidthRequestM :: u64
  BandWidthLimitM :: u64
  qos_Priority :: u32

record NetQosReq =
  EgressQosConfig :: QosConfig
  IngressQosConfig :: QosConfig

record VethInfo =
  veth_HostMac :: string
  veth_VethHostIdx :: u32
  veth_VethLXCMac :: string
  veth_VethHostName :: string
  veth_VethLXCName :: string
  veth_VethIpv4 :: string
  veth_VethIpv6 :: string

record PodInfo =
  pod_NetQosReq :: NetQosReq
  pod_LocalId :: u16
  pod_K8SPodName :: string
  pod_K8SPodNamespace :: string
  pod_ContainerId :: string
  pod_Netns :: string
  pod_VethHostName :: string
  pod_VethLXCName :: string
  pod_VethIpv4 :: string
  pod_VethIpv6 :: string

record PatchPodData =
  patch_LocalId :: u16
  patch_ContainerId :: string
  patch_VethIpv4 :: string
  patch_VethIpv6 :: string

record ProcessInfo =
  proc_NetQosReq :: NetQosReq
  proc_ProcessId :: string
  proc_LocalId :: u16
  proc_Ip :: string
  proc_Port :: u32

text \<open>Go's zero values of these structs, which a composite literal fills partly.\<close>

definition zeroQosConfig :: QosConfig where
  "zeroQosConfig = \<lparr>BandWidthRequestM = 0, BandWidthLimitM = 0, qos_Priority = 0\<rparr>"

definition zeroNetQosReq :: NetQosReq where
  "zeroNetQosReq = \<lparr>EgressQosConfig = zeroQosConfig, IngressQosConfig = zeroQosConfig\<rparr>"

definition zeroPodInfo :: PodInfo where
  "zeroPodInfo = \<lparr>pod_NetQosReq = zeroNetQosReq, pod_LocalId = 0, pod_K8SPodName = [],
     pod_K8SPodNamespace = [], pod_ContainerId = [], pod_Netns = [], pod_VethHostName = [],
     pod_VethLXCName = [], pod_VethIpv4 = [], pod_VethIpv6 = []\<rparr>"

definition zeroProcessInfo :: ProcessInfo where
  "zeroProcessInfo = \<lparr>proc_NetQosReq = zeroNetQosReq, proc_ProcessId = [], proc_LocalId = 0,
     proc_Ip = [], proc_Port = 0\<rparr>"

definition zeroPatchPodData :: PatchPodData where
  "zeroPatchPodData = \<lparr>patch_LocalId = 0, patch_ContainerId = [], patch_VethIpv4 = [],
     patch_VethIpv6 = []\<rparr>"

end
