(* ===== verification/Tcbpf.thy ===== *)
theory Tcbpf
  imports Common_Types
begin

text \<open>
  The wrapper around the six pinned eBPF maps, \<open>pkg/bpfgo/tc_bpf.go\<close>, and the class-id
  packing of \<open>pkg/bpfgo/utils.go\<close> with its unpacking in \<open>bpf/include/tc_edt.h\<close>. The map
  operations belong to \<open>github.com/cilium/ebpf\<close> and the kernel, so they are a parameter
  \<open>E\<close> of every operation; what the kernel documents for the two map types that
  \<open>tc_edt.h\<close> declares is stated by the locales \<open>array_map\<close> and \<open>lru_map\<close>.
\<close>

section \<open>Data of the maps\<close>

record TcEdtIdKey =
  key_Ip :: u32
  key_Port :: u32

record TcEdtThrottleCfg =
  cfg_Priority :: u32
  cfg_Interval :: u32
  LowRate :: u64
  HighRate :: u64
  ReqRate :: u64

record TcEdtThrottleStat =
  T_last :: u64
  T_start :: u64
  Rate :: u64
  TxBytes :: u64
  TotalPkts :: u64

definition zeroThrottleCfg :: TcEdtThrottleCfg where
  "zeroThrottleCfg = \<lparr>cfg_Priority = 0, cfg_Interval = 0, LowRate = 0, HighRate = 0, ReqRate = 0\<rparr>"

definition zeroThrottleStat :: TcEdtThrottleStat where
  "zeroThrottleStat = \<lparr>T_last = 0, T_start = 0, Rate = 0, TxBytes = 0, TotalPkts = 0\<rparr>"

definition MAX_MAP_SIZE :: nat where "MAX_MAP_SIZE = 5000"

definition PerMB :: u64 where "PerMB = 1024 * 1024 div 8"
definition PeriodInterval :: u32 where "PeriodInterval = 10"

section \<open>The map library\<close>

text \<open>An error of the map library is an \<open>errno\<close>; its meaning is the kernel's.\<close>

type_synonym errno = nat

text \<open>
  The calls the wrapper makes on a map of state type \<open>'m\<close>. \<open>BatchLookup\<close> overwrites both
  buffers it is given and returns their new contents.
\<close>

record ('m, 'k, 'v) map_ops =
  ops_Update :: "'k \<Rightarrow> 'v \<Rightarrow> 'm \<Rightarrow> errno option \<times> 'm"
  ops_Lookup :: "'k \<Rightarrow> 'm \<Rightarrow> errno + 'v"
  ops_Delete :: "'k \<Rightarrow> 'm \<Rightarrow> errno option \<times> 'm"
  ops_BatchLookup :: "'k list \<Rightarrow> 'v list \<Rightarrow> 'm \<Rightarrow> errno option \<times> 'k list \<times> 'v list"
  ops_BatchUpdate :: "'k list \<Rightarrow> 'v list \<Rightarrow> 'm \<Rightarrow> errno option \<times> 'm"

record ('c, 's, 'i) ebpf_ops =
  cfg_ops :: "('c, u32, TcEdtThrottleCfg) map_ops"
  stat_ops :: "('s, u32, TcEdtThrottleStat) map_ops"
  id_ops :: "('i, TcEdtIdKey, u32) map_ops"

section \<open>The wrapper\<close>

record ('c, 's, 'i) Tcbpf =
  BpfFileName :: string
  BpfProgPath :: string
  EgressThrottleCfgMap :: 'c
  EgressThrottleStatMap :: 's
  IngressThrottleCfgMap :: 'c
  IngressThrottleStatMap :: 's
  EgressThrottleIdMap :: 'i
  IngressThrottleIdMap :: 'i

definition EdtBpfProgPath :: string where
  "EdtBpfProgPath = ''/usr/share/bwm/tcedt_bpfel.o''"
definition EgressThrottleCfgMapPath :: string where
  "EgressThrottleCfgMapPath = ''/sys/fs/bpf/tc/globals/egress_cfg''"
definition EgressThrottleStatMapPath :: string where
  "EgressThrottleStatMapPath = ''/sys/fs/bpf/tc/globals/egress_stat''"
definition IngressThrottleCfgMapPath :: string where
  "IngressThrottleCfgMapPath = ''/sys/fs/bpf/tc/globals/ingress_cfg''"
definition IngressThrottleStatMapPath :: string where
  "IngressThrottleStatMapPath = ''/sys/fs/bpf/tc/globals/ingress_stat''"
definition EgressThrottleIdMapPath :: string where
  "EgressThrottleIdMapPath = ''/sys/fs/bpf/tc/globals/egress_id''"
definition IngressThrottleIdMapPath :: string where
  "IngressThrottleIdMapPath = ''/sys/fs/bpf/tc/globals/ingress_id''"

text \<open>
  \<open>filepath.Base\<close> of a slash-separated path: trailing slashes are dropped, then everything
  up to the last slash; the empty path gives a dot and an all-slash path a slash.
\<close>

definition getFileName :: "string \<Rightarrow> string" where
  "getFileName path =
     (if path = [] then ''.''
      else (let p = rev (dropWhile (\<lambda>c. c = CHR ''/'') (rev path));
                b = rev (takeWhile (\<lambda>c. c \<noteq> CHR ''/'') (rev p))
            in if b = [] then ''/'' else b))"

text \<open>
  \<open>NewTcbpf\<close> opens the six pinned maps in order; the first path that cannot be opened is
  the error. The loaders are the library's \<open>LoadPinnedMap\<close>, one per value type.
\<close>

definition NewTcbpf ::
  "(string \<Rightarrow> errno + 'c) \<Rightarrow> (string \<Rightarrow> errno + 's) \<Rightarrow> (string \<Rightarrow> errno + 'i) \<Rightarrow>
   (string \<times> errno) + ('c, 's, 'i) Tcbpf" where
  "NewTcbpf loadCfg loadStat loadId =
     (case loadCfg EgressThrottleCfgMapPath of Inl e \<Rightarrow> Inl (EgressThrottleCfgMapPath, e)
      | Inr egressThrottleCfg \<Rightarrow>
     (case loadStat EgressThrottleStatMapPath of Inl e \<Rightarrow> Inl (EgressThrottleStatMapPath, e)
      | Inr egressThrottleStat \<Rightarrow>
     (case loadCfg IngressThrottleCfgMapPath of Inl e \<Rightarrow> Inl (IngressThrottleCfgMapPath, e)
      | Inr ingressThrottleCfg \<Rightarrow>
     (case loadStat IngressThrottleStatMapPath of Inl e \<Rightarrow> Inl (IngressThrottleStatMapPath, e)
      | Inr ingressThrottleStat \<Rightarrow>
     (case loadId EgressThrottleIdMapPath of Inl e \<Rightarrow> Inl (EgressThrottleIdMapPath, e)
      | Inr egressThrottleId \<Rightarrow>
     (case loadId IngressThrottleIdMapPath of Inl e \<Rightarrow> Inl (IngressThrottleIdMapPath, e)
      | Inr ingressThrottleId \<Rightarrow>
        Inr \<lparr>BpfFileName = getFileName EdtBpfProgPath, BpfProgPath = EdtBpfProgPath,
             EgressThrottleCfgMap = egressThrottleCfg, EgressThrottleStatMap = egressThrottleStat,
             IngressThrottleCfgMap = ingressThrottleCfg, IngressThrottleStatMap = ingressThrottleStat,
             EgressThrottleIdMap = egressThrottleId, IngressThrottleIdMap = ingressThrottleId\<rparr>))))))"

definition SingleWriteEgressThrottleStat ::
  "('c, 's, 'i) ebpf_ops \<Rightarrow> u32 \<Rightarrow> TcEdtThrottleStat \<Rightarrow> ('c, 's, 'i) Tcbpf \<Rightarrow> errno option \<times> ('c, 's, 'i) Tcbpf" where
  "SingleWriteEgressThrottleStat E k v e =
     (let (err, m) = ops_Update (stat_ops E) k v (EgressThrottleStatMap e)
      in (err, e\<lparr>EgressThrottleStatMap := m\<rparr>))"

definition SingleReadEgressThrottleStat ::
  "('c, 's, 'i) ebpf_ops \<Rightarrow> u32 \<Rightarrow> ('c, 's, 'i) Tcbpf \<Rightarrow> errno + TcEdtThrottleStat" where
  "SingleReadEgressThrottleStat E k e = ops_Lookup (stat_ops E) k (EgressThrottleStatMap e)"

text \<open>The batch reads hand the caller's key buffer to the library, which overwrites it.\<close>

definition BatchReadEgressThrottleStat ::
  "('c, 's, 'i) ebpf_ops \<Rightarrow> u32 list \<Rightarrow> ('c, 's, 'i) Tcbpf \<Rightarrow>
   errno option \<times> u32 list \<times> TcEdtThrottleStat list" where
  "BatchReadEgressThrottleStat E ks e =
     ops_BatchLookup (stat_ops E) ks (replicate (length ks) zeroThrottleStat) (EgressThrottleStatMap e)"

definition SingleWriteEgressThrottleCfg ::
  "('c, 's, 'i) ebpf_ops \<Rightarrow> u32 \<Rightarrow> TcEdtThrottleCfg \<Rightarrow> ('c, 's, 'i) Tcbpf \<Rightarrow> errno option \<times> ('c, 's, 'i) Tcbpf" where
  "SingleWriteEgressThrottleCfg E k v e =
     (let (err, m) = ops_Update (cfg_ops E) k v (EgressThrottleCfgMap e)
      in (err, e\<lparr>EgressThrottleCfgMap := m\<rparr>))"

definition BatchWriteEgressThrottleCfg ::
  "('c, 's, 'i) ebpf_ops \<Rightarrow> u32 list \<Rightarrow> TcEdtThrottleCfg list \<Rightarrow> ('c, 's, 'i) Tcbpf \<Rightarrow>
   errno option \<times> ('c, 's, 'i) Tcbpf" where
  "BatchWriteEgressThrottleCfg E ks vs e =
     (let (err, m) = ops_BatchUpdate (cfg_ops E) ks vs (EgressThrottleCfgMap e)
      in (err, e\<lparr>EgressThrottleCfgMap := m\<rparr>))"

definition BatchReadEgressThrottleCfg ::
  "('c, 's, 'i) ebpf_ops \<Rightarrow> u32 list \<Rightarrow> ('c, 's, 'i) Tcbpf \<Rightarrow>
   errno option \<times> u32 list \<times> TcEdtThrottleCfg list" where
  "BatchReadEgressThrottleCfg E ks e =
     ops_BatchLookup (cfg_ops E) ks (replicate (length ks) zeroThrottleCfg) (EgressThrottleCfgMap e)"

definition SingleWriteIngressThrottleStat ::
  "('c, 's, 'i) ebpf_ops \<Rightarrow> u32 \<Rightarrow> TcEdtThrottleStat \<Rightarrow> ('c, 's, 'i) Tcbpf \<Rightarrow> errno option \<times> ('c, 's, 'i) Tcbpf" where
  "SingleWriteIngressThrottleStat E k v e =
     (let (err, m) = ops_Update (stat_ops E) k v (IngressThrottleStatMap e)
      in (err, e\<lparr>IngressThrottleStatMap := m\<rparr>))"

definition SingleReadIngressThrottleStat ::
  "('c, 's, 'i) ebpf_ops \<Rightarrow> u32 \<Rightarrow> ('c, 's, 'i) Tcbpf \<Rightarrow> errno + TcEdtThrottleStat" where
  "SingleReadIngressThrottleStat E k e = ops_Lookup (stat_ops E) k (IngressThrottleStatMap e)"

definition BatchReadIngressThrottleStat ::
  "('c, 's, 'i) ebpf_ops \<Rightarrow> u32 list \<Rightarrow> ('c, 's, 'i) Tcbpf \<Rightarrow>
   errno option \<times> u32 list \<times> TcEdtThrottleStat list" where
  "BatchReadIngressThrottleStat E ks e =
     ops_BatchLookup (stat_ops E) ks (replicate (length ks) zeroThrottleStat) (IngressThrottleStatMap e)"

definition SingleWriteIngressThrottleCfg ::
  "('c, 's, 'i) ebpf_ops \<Rightarrow> u32 \<Rightarrow> TcEdtThrottleCfg \<Rightarrow> ('c, 's, 'i) Tcbpf \<Rightarrow> errno option \<times> ('c, 's, 'i) Tcbpf" where
  "SingleWriteIngressThrottleCfg E k v e =
     (let (err, m) = ops_Update (cfg_ops E) k v (IngressThrottleCfgMap e)
      in (err, e\<lparr>IngressThrottleCfgMap := m\<rparr>))"

definition BatchWriteIngressThrottleCfg ::
  "('c, 's, 'i) ebpf_ops \<Rightarrow> u32 list \<Rightarrow> TcEdtThrottleCfg list \<Rightarrow> ('c, 's, 'i) Tcbpf \<Rightarrow>
   errno option \<times> ('c, 's, 'i) Tcbpf" where
  "BatchWriteIngressThrottleCfg E ks vs e =
     (let (err, m) = ops_BatchUpdate (cfg_ops E) ks vs (IngressThrottleCfgMap e)
      in (err, e\<lparr>IngressThrottleCfgMap := m\<rparr>))"

definition BatchReadIngressThrottleCfg ::
  "('c, 's, 'i) ebpf_ops \<Rightarrow> u32 list \<Rightarrow> ('c, 's, 'i) Tcbpf \<Rightarrow>
   errno option \<times> u32 list \<times> TcEdtThrottleCfg list" where
  "BatchReadIngressThrottleCfg E ks e =
     ops_BatchLookup (cfg_ops E) ks (replicate (length ks) zeroThrottleCfg) (IngressThrottleCfgMap e)"

definition UpdateEgressThrottleId ::
  "('c, 's, 'i) ebpf_ops \<Rightarrow> TcEdtIdKey \<Rightarrow> u32 \<Rightarrow> ('c, 's, 'i) Tcbpf \<Rightarrow> errno option \<times> ('c, 's, 'i) Tcbpf" where
  "UpdateEgressThrottleId E k v e =
     (let (err, m) = ops_Update (id_ops E) k v (EgressThrottleIdMap e)
      in (err, e\<lparr>EgressThrottleIdMap := m\<rparr>))"

definition DeleteEgressThrottleId ::
  "('c, 's, 'i) ebpf_ops \<Rightarrow> TcEdtIdKey \<Rightarrow> ('c, 's, 'i) Tcbpf \<Rightarrow> errno option \<times> ('c, 's, 'i) Tcbpf" where
  "DeleteEgressThrottleId E k e =
     (let (err, m) = ops_Delete (id_ops E) k (EgressThrottleIdMap e)
      in (err, e\<lparr>EgressThrottleIdMap := m\<rparr>))"

definition UpdateIngressThrottleId ::
  "('c, 's, 'i) ebpf_ops \<Rightarrow> TcEdtIdKey \<Rightarrow> u32 \<Rightarrow> ('c, 's, 'i) Tcbpf \<Rightarrow> errno option \<times> ('c, 's, 'i) Tcbpf" where
  "UpdateIngressThrottleId E k v e =
     (let (err, m) = ops_Update (id_ops E) k v (IngressThrottleIdMap e)
      in (err, e\<lparr>IngressThrottleIdMap := m\<rparr>))"

definition DeleteIngressThrottleId ::
  "('c, 's, 'i) ebpf_ops \<Rightarrow> TcEdtIdKey \<Rightarrow> ('c, 's, 'i) Tcbpf \<Rightarrow> errno option \<times> ('c, 's, 'i) Tcbpf" where
  "DeleteIngressThrottleId E k e =
     (let (err, m) = ops_Delete (id_ops E) k (IngressThrottleIdMap e)
      in (err, e\<lparr>IngressThrottleIdMap := m\<rparr>))"

text \<open>The error of the map write is only logged by the two \<open>Add\<close> operations.\<close>

definition AddEgressConfig ::
  "('c, 's, 'i) ebpf_ops \<Rightarrow> u32 \<Rightarrow> QosConfig \<Rightarrow> ('c, 's, 'i) Tcbpf \<Rightarrow> ('c, 's, 'i) Tcbpf" where
  "AddEgressConfig E k egressConfig e =
     (let req = (if BandWidthRequestM egressConfig = 0 then 10 else BandWidthRequestM egressConfig);
          cfg = \<lparr>cfg_Priority = qos_Priority egressConfig,
                 cfg_Interval = PeriodInterval * 1000000,
                 LowRate = req * PerMB,
                 HighRate = BandWidthLimitM egressConfig * PerMB,
                 ReqRate = req * PerMB\<rparr>
      in snd (SingleWriteEgressThrottleCfg E k cfg e))"

definition AddIngressConfig ::
  "('c, 's, 'i) ebpf_ops \<Rightarrow> u32 \<Rightarrow> QosConfig \<Rightarrow> ('c, 's, 'i) Tcbpf \<Rightarrow> ('c, 's, 'i) Tcbpf" where
  "AddIngressConfig E k ingressConfig e =
     (let req = (if BandWidthRequestM ingressConfig = 0 then 10 else BandWidthRequestM ingressConfig);
          cfg = \<lparr>cfg_Priority = qos_Priority ingressConfig,
                 cfg_Interval = PeriodInterval * 1000000,
                 LowRate = req * PerMB,
                 HighRate = BandWidthLimitM ingressConfig * PerMB,
                 ReqRate = req * PerMB\<rparr>
      in snd (SingleWriteIngressThrottleCfg E k cfg e))"

section \<open>Class ids\<close>

definition GenerateClassId :: "u32 \<Rightarrow> u16 \<Rightarrow> u32" where
  "GenerateClassId priority podId = push_bit 16 (ucast podId) OR priority"

text \<open>\<open>SPLIT_ID_PRIORITY\<close> of \<open>tc_edt.h\<close>: the datapath's reading of a class id.\<close>

definition SPLIT_ID_PRIORITY :: "u32 \<Rightarrow> u32 \<times> u32" where
  "SPLIT_ID_PRIORITY id_priority = (id_priority AND 65535, drop_bit 16 id_priority AND 65535)"

section \<open>Map laws\<close>

text \<open>
  \<open>BPF_MAP_TYPE_ARRAY\<close> with \<open>n\<close> entries (\<open>bpf(2)\<close>): all entries exist, an index beyond the
  last is an error that changes nothing, an update replaces one entry. A batch lookup whose
  buffers have \<open>n\<close> elements returns the indices and entries in order; a batch update is the
  sequence of its single updates.
\<close>

locale array_map =
  fixes ops :: "('m, u32, 'v) map_ops" and n :: nat
  assumes update_in: "unat k < n \<Longrightarrow> fst (ops_Update ops k v m) = None"
    and lookup_update: "unat k < n \<Longrightarrow>
          ops_Lookup ops j (snd (ops_Update ops k v m)) = (if j = k then Inr v else ops_Lookup ops j m)"
    and update_out: "n \<le> unat k \<Longrightarrow> (\<exists>x. fst (ops_Update ops k v m) = Some x) \<and> snd (ops_Update ops k v m) = m"
    and lookup_in: "unat k < n \<Longrightarrow> \<exists>v. ops_Lookup ops k m = Inr v"
    and lookup_out: "n \<le> unat k \<Longrightarrow> \<exists>x. ops_Lookup ops k m = Inl x"
    and batch_lookup: "length ks = n \<Longrightarrow> length vs = n \<Longrightarrow>
          \<exists>vs'. ops_BatchLookup ops ks vs m = (None, map of_nat [0..<n], vs') \<and> length vs' = n
            \<and> (\<forall>i<n. ops_Lookup ops (of_nat i) m = Inr (vs' ! i))"
    and batch_update: "length ks = length vs \<Longrightarrow> (\<And>k. k \<in> set ks \<Longrightarrow> unat k < n) \<Longrightarrow>
          ops_BatchUpdate ops ks vs m
            = (None, fold (\<lambda>(k, v) m. snd (ops_Update ops k v m)) (zip ks vs) m)"
begin

lemma fold_update_lookup:
  "distinct ks \<Longrightarrow> length ks = length vs \<Longrightarrow> (\<And>k. k \<in> set ks \<Longrightarrow> unat k < n) \<Longrightarrow>
   ops_Lookup ops j (fold (\<lambda>(k, v) m. snd (ops_Update ops k v m)) (zip ks vs) m)
     = (case map_of (zip ks vs) j of Some v \<Rightarrow> Inr v | None \<Rightarrow> ops_Lookup ops j m)"
proof (induction ks vs arbitrary: m rule: list_induct2')
  case (4 k ks v vs)
  then have "k \<notin> set ks" by simp
  then have h: "map_of (zip ks vs) k = None"
    using 4(3) by (metis length_Cons length_map map_of_zip_is_None nat.inject)
  from 4 have "unat k < n" by simp
  note lu = lookup_update [OF this]
  have "ops_Lookup ops j (fold (\<lambda>(k, v) m. snd (ops_Update ops k v m)) (zip ks vs) (snd (ops_Update ops k v m)))
      = (case map_of (zip ks vs) j of Some v \<Rightarrow> Inr v | None \<Rightarrow> ops_Lookup ops j (snd (ops_Update ops k v m)))"
    using 4 by (intro 4(1)) auto
  then show ?case by (cases "j = k"; cases "map_of (zip ks vs) j") (simp_all add: lu h)
qed auto

text \<open>Writing back all entries in order replaces each of them.\<close>

lemma batch_write_lookup:
  assumes "length vs = n" and "n < 2 ^ 32" and "i < n"
  shows "ops_Lookup ops (of_nat i) (snd (ops_BatchUpdate ops (map of_nat [0..<n]) vs m)) = Inr (vs ! i)"
proof -
  let ?ks = "map of_nat [0..<n] :: u32 list"
  have u: "unat (of_nat j :: u32) = j" if "j < n" for j
    using that assms(2) by (simp add: unat_of_nat)
  have inj: "inj_on (of_nat :: nat \<Rightarrow> u32) {0..<n}"
    by (rule inj_onI) (metis atLeastLessThan_iff u)
  then have d: "distinct ?ks" by (simp add: distinct_map)
  have b: "unat k < n" if "k \<in> set ?ks" for k using that u by auto
  have l: "length ?ks = length vs" using assms(1) by simp
  have "map_of (zip ?ks vs) (?ks ! i) = Some (vs ! i)"
    using d l assms(1,3) by (intro map_of_zip_nth) auto
  then have "map_of (zip ?ks vs) (of_nat i) = Some (vs ! i)" using assms(3) by simp
  then show ?thesis
    using fold_update_lookup [OF d l b, of "of_nat i" m] batch_update [OF l b, of m] by simp
qed

end

text \<open>
  \<open>BPF_MAP_TYPE_LRU_HASH\<close>: an update that succeeds stores its key and may evict others; an
  update that fails changes nothing; after a delete the key is absent.
\<close>

locale lru_map =
  fixes ops :: "('m, TcEdtIdKey, u32) map_ops"
  assumes lru_update: "fst (ops_Update ops k v m) = None \<Longrightarrow>
          ops_Lookup ops k (snd (ops_Update ops k v m)) = Inr v"
    and lru_other: "j \<noteq> k \<Longrightarrow> ops_Lookup ops j (snd (ops_Update ops k v m)) = Inr w \<Longrightarrow>
          ops_Lookup ops j m = Inr w"
    and lru_fail: "fst (ops_Update ops k v m) = Some x \<Longrightarrow> snd (ops_Update ops k v m) = m"
    and lru_delete: "\<exists>x. ops_Lookup ops k (snd (ops_Delete ops k m)) = Inl x"
    and lru_delete_other: "j \<noteq> k \<Longrightarrow>
          ops_Lookup ops j (snd (ops_Delete ops k m)) = ops_Lookup ops j m"

text \<open>
  The maps \<open>tc_edt.h\<close> declares, as functions: an array of \<open>n\<close> entries (\<open>E2BIG\<close> and
  \<open>ENOENT\<close> outside), and a hash that has not reached the capacity at which it evicts.
\<close>

definition kernel_array :: "nat \<Rightarrow> (u32 \<Rightarrow> 'v, u32, 'v) map_ops" where
  "kernel_array n = \<lparr>
     ops_Update = (\<lambda>k v m. if unat k < n then (None, m(k := v)) else (Some 7, m)),
     ops_Lookup = (\<lambda>k m. if unat k < n then Inr (m k) else Inl 2),
     ops_Delete = (\<lambda>k m. (Some 22, m)),
     ops_BatchLookup = (\<lambda>ks vs m. (None, map of_nat [0..<n], map (\<lambda>i. m (of_nat i)) [0..<n])),
     ops_BatchUpdate = (\<lambda>ks vs m. (None, fold (\<lambda>(k, v) m. if unat k < n then m(k := v) else m) (zip ks vs) m))\<rparr>"

definition kernel_hash :: "(TcEdtIdKey \<rightharpoonup> u32, TcEdtIdKey, u32) map_ops" where
  "kernel_hash = \<lparr>
     ops_Update = (\<lambda>k v m. (None, m(k \<mapsto> v))),
     ops_Lookup = (\<lambda>k m. case m k of None \<Rightarrow> Inl 2 | Some v \<Rightarrow> Inr v),
     ops_Delete = (\<lambda>k m. (if m k = None then Some 2 else None, m(k := None))),
     ops_BatchLookup = (\<lambda>ks vs m. (Some 524, ks, vs)),
     ops_BatchUpdate = (\<lambda>ks vs m. (None, fold (\<lambda>(k, v) m. m(k \<mapsto> v)) (zip ks vs) m))\<rparr>"

lemma kernel_array_map: "n < 2 ^ 32 \<Longrightarrow> array_map (kernel_array n) n"
proof (unfold_locales, goal_cases)
  case (6 ks vs m)
  then show ?case by (auto simp: kernel_array_def unat_of_nat)
qed (auto simp: kernel_array_def intro!: fold_cong)

interpretation cfg_array: array_map "kernel_array MAX_MAP_SIZE :: (u32 \<Rightarrow> TcEdtThrottleCfg, u32, TcEdtThrottleCfg) map_ops" MAX_MAP_SIZE
  by (rule kernel_array_map) (simp add: MAX_MAP_SIZE_def)

interpretation stat_array: array_map "kernel_array MAX_MAP_SIZE :: (u32 \<Rightarrow> TcEdtThrottleStat, u32, TcEdtThrottleStat) map_ops" MAX_MAP_SIZE
  by (rule kernel_array_map) (simp add: MAX_MAP_SIZE_def)

interpretation id_hash: lru_map kernel_hash
  by unfold_locales (auto simp: kernel_hash_def split: option.splits if_splits)

text \<open>The hypotheses on the map library that the theorems of the development name.\<close>

definition ebpf_laws :: "('c, 's, 'i) ebpf_ops \<Rightarrow> bool" where
  "ebpf_laws E \<longleftrightarrow> array_map (cfg_ops E) MAX_MAP_SIZE \<and> array_map (stat_ops E) MAX_MAP_SIZE
     \<and> lru_map (id_ops E)"

definition kernel_ops ::
  "(u32 \<Rightarrow> TcEdtThrottleCfg, u32 \<Rightarrow> TcEdtThrottleStat, TcEdtIdKey \<rightharpoonup> u32) ebpf_ops" where
  "kernel_ops = \<lparr>cfg_ops = kernel_array MAX_MAP_SIZE, stat_ops = kernel_array MAX_MAP_SIZE,
     id_ops = kernel_hash\<rparr>"

lemma kernel_ops_laws: "ebpf_laws kernel_ops"
  using cfg_array.array_map_axioms stat_array.array_map_axioms id_hash.lru_map_axioms
  by (simp add: ebpf_laws_def kernel_ops_def)

lemma ebpf_lawsD:
  assumes "ebpf_laws E"
  shows "array_map (cfg_ops E) MAX_MAP_SIZE" "array_map (stat_ops E) MAX_MAP_SIZE" "lru_map (id_ops E)"
  using assms by (auto simp: ebpf_laws_def)

section \<open>One direction of the wrapper\<close>

text \<open>The configuration an \<open>Add\<close> operation writes for a request.\<close>

definition throttle_of :: "QosConfig \<Rightarrow> TcEdtThrottleCfg" where
  "throttle_of q =
     (let req = (if BandWidthRequestM q = 0 then 10 else BandWidthRequestM q)
      in \<lparr>cfg_Priority = qos_Priority q, cfg_Interval = 10000000, LowRate = req * 131072,
          HighRate = BandWidthLimitM q * 131072, ReqRate = req * 131072\<rparr>)"

text \<open>
  Egress and ingress have the same operations on different maps. The contract of one
  direction: its three maps are read by \<open>getc\<close>, \<open>gets\<close> and \<open>geti\<close>, every operation acts on
  one of them as the map library does, and nothing else of the wrapper changes.
\<close>

locale throttle_side =
  fixes E :: "('c, 's, 'i) ebpf_ops"
    and getc :: "('c, 's, 'i) Tcbpf \<Rightarrow> 'c"
    and gets :: "('c, 's, 'i) Tcbpf \<Rightarrow> 's"
    and geti :: "('c, 's, 'i) Tcbpf \<Rightarrow> 'i"
    and others :: "('c, 's, 'i) Tcbpf \<Rightarrow> 'c \<times> 's \<times> 'i"
    and wcfg :: "u32 \<Rightarrow> TcEdtThrottleCfg \<Rightarrow> ('c, 's, 'i) Tcbpf \<Rightarrow> errno option \<times> ('c, 's, 'i) Tcbpf"
    and wstat :: "u32 \<Rightarrow> TcEdtThrottleStat \<Rightarrow> ('c, 's, 'i) Tcbpf \<Rightarrow> errno option \<times> ('c, 's, 'i) Tcbpf"
    and upid :: "TcEdtIdKey \<Rightarrow> u32 \<Rightarrow> ('c, 's, 'i) Tcbpf \<Rightarrow> errno option \<times> ('c, 's, 'i) Tcbpf"
    and delid :: "TcEdtIdKey \<Rightarrow> ('c, 's, 'i) Tcbpf \<Rightarrow> errno option \<times> ('c, 's, 'i) Tcbpf"
    and addcfg :: "u32 \<Rightarrow> QosConfig \<Rightarrow> ('c, 's, 'i) Tcbpf \<Rightarrow> ('c, 's, 'i) Tcbpf"
  assumes wcfg_own: "fst (wcfg k v t) = fst (ops_Update (cfg_ops E) k v (getc t))"
      "getc (snd (wcfg k v t)) = snd (ops_Update (cfg_ops E) k v (getc t))"
    and wcfg_frame: "gets (snd (wcfg k v t)) = gets t" "geti (snd (wcfg k v t)) = geti t"
      "others (snd (wcfg k v t)) = others t"
    and wstat_own: "gets (snd (wstat k w t)) = snd (ops_Update (stat_ops E) k w (gets t))"
    and wstat_frame: "getc (snd (wstat k w t)) = getc t" "geti (snd (wstat k w t)) = geti t"
      "others (snd (wstat k w t)) = others t"
    and upid_own: "fst (upid j x t) = fst (ops_Update (id_ops E) j x (geti t))"
      "geti (snd (upid j x t)) = snd (ops_Update (id_ops E) j x (geti t))"
    and upid_frame: "getc (snd (upid j x t)) = getc t" "gets (snd (upid j x t)) = gets t"
      "others (snd (upid j x t)) = others t"
    and delid_own: "geti (snd (delid j t)) = snd (ops_Delete (id_ops E) j (geti t))"
    and delid_frame: "getc (snd (delid j t)) = getc t" "gets (snd (delid j t)) = gets t"
      "others (snd (delid j t)) = others t"
    and addcfg_wcfg: "addcfg k q t = snd (wcfg k (throttle_of q) t)"
begin

lemmas frames = wcfg_frame wstat_frame upid_frame delid_frame

lemma addcfg_frame: "gets (addcfg k q t) = gets t" "geti (addcfg k q t) = geti t"
  "others (addcfg k q t) = others t"
  by (simp_all add: addcfg_wcfg wcfg_frame)

lemma addcfg_lookup:
  assumes "array_map (cfg_ops E) n" and "unat k < n"
  shows "ops_Lookup (cfg_ops E) j (getc (addcfg k q t))
    = (if j = k then Inr (throttle_of q) else ops_Lookup (cfg_ops E) j (getc t))"
  using array_map.lookup_update [OF assms] by (simp add: addcfg_wcfg wcfg_own)

lemma addcfg_beyond:
  assumes "array_map (cfg_ops E) n" and "n \<le> unat k"
  shows "getc (addcfg k q t) = getc t"
  using array_map.update_out [OF assms] by (simp add: addcfg_wcfg wcfg_own)

lemma wcfg_lookup:
  assumes "array_map (cfg_ops E) n" and "unat k < n"
  shows "ops_Lookup (cfg_ops E) j (getc (snd (wcfg k v t)))
    = (if j = k then Inr v else ops_Lookup (cfg_ops E) j (getc t))"
  using array_map.lookup_update [OF assms] by (simp add: wcfg_own)

lemma wcfg_beyond:
  assumes "array_map (cfg_ops E) n" and "n \<le> unat k"
  shows "getc (snd (wcfg k v t)) = getc t"
  using array_map.update_out [OF assms] by (simp add: wcfg_own)

lemma wstat_lookup:
  assumes "array_map (stat_ops E) n" and "unat k < n"
  shows "ops_Lookup (stat_ops E) j (gets (snd (wstat k v t)))
    = (if j = k then Inr v else ops_Lookup (stat_ops E) j (gets t))"
  using array_map.lookup_update [OF assms] by (simp add: wstat_own)

lemma delid_absent:
  assumes "lru_map (id_ops E)"
  shows "\<exists>x. ops_Lookup (id_ops E) j (geti (snd (delid j t))) = Inl x"
  using lru_map.lru_delete [OF assms] by (simp add: delid_own)

lemma delid_others:
  assumes "lru_map (id_ops E)" and "j' \<noteq> j"
  shows "ops_Lookup (id_ops E) j' (geti (snd (delid j t))) = ops_Lookup (id_ops E) j' (geti t)"
  using lru_map.lru_delete_other [OF assms] by (simp add: delid_own)

end

definition ingress_maps :: "('c, 's, 'i) Tcbpf \<Rightarrow> 'c \<times> 's \<times> 'i" where
  "ingress_maps t = (IngressThrottleCfgMap t, IngressThrottleStatMap t, IngressThrottleIdMap t)"

definition egress_maps :: "('c, 's, 'i) Tcbpf \<Rightarrow> 'c \<times> 's \<times> 'i" where
  "egress_maps t = (EgressThrottleCfgMap t, EgressThrottleStatMap t, EgressThrottleIdMap t)"

lemmas tcbpf_defs =
  SingleWriteEgressThrottleStat_def SingleWriteEgressThrottleCfg_def
  SingleWriteIngressThrottleStat_def SingleWriteIngressThrottleCfg_def
  UpdateEgressThrottleId_def UpdateIngressThrottleId_def
  DeleteEgressThrottleId_def DeleteIngressThrottleId_def

interpretation egress: throttle_side E EgressThrottleCfgMap EgressThrottleStatMap
  EgressThrottleIdMap ingress_maps "SingleWriteEgressThrottleCfg E"
  "SingleWriteEgressThrottleStat E" "UpdateEgressThrottleId E" "DeleteEgressThrottleId E"
  "AddEgressConfig E" for E :: "('c, 's, 'i) ebpf_ops"
  by unfold_locales
    (simp_all add: tcbpf_defs ingress_maps_def split_beta AddEgressConfig_def throttle_of_def
      PeriodInterval_def PerMB_def Let_def)

interpretation ingress: throttle_side E IngressThrottleCfgMap IngressThrottleStatMap
  IngressThrottleIdMap egress_maps "SingleWriteIngressThrottleCfg E"
  "SingleWriteIngressThrottleStat E" "UpdateIngressThrottleId E" "DeleteIngressThrottleId E"
  "AddIngressConfig E" for E :: "('c, 's, 'i) ebpf_ops"
  by unfold_locales
    (simp_all add: tcbpf_defs egress_maps_def split_beta AddIngressConfig_def throttle_of_def
      PeriodInterval_def PerMB_def Let_def)

section \<open>Properties\<close>

text \<open>C27: \<open>AddEgressConfig\<close> on an id below 5000 makes the egress configuration of that id the
  request in bytes per second (131072 per requested Mb, at least 10 Mb) with a 10 ms interval and
  the request as the initial rate; every other entry and every other map keeps its contents. On an
  id of 5000 and above, which the pod range includes, the write fails, the failure is dropped and
  nothing changes.\<close>

theorem AddEgressConfig_spec:
  assumes "ebpf_laws E"
  shows "ops_Lookup (cfg_ops E) j (EgressThrottleCfgMap (AddEgressConfig E k q t))
      = (if j = k \<and> unat k < 5000
         then Inr \<lparr>cfg_Priority = qos_Priority q, cfg_Interval = 10000000,
                   LowRate = (if BandWidthRequestM q = 0 then 10 else BandWidthRequestM q) * 131072,
                   HighRate = BandWidthLimitM q * 131072,
                   ReqRate = (if BandWidthRequestM q = 0 then 10 else BandWidthRequestM q) * 131072\<rparr>
         else ops_Lookup (cfg_ops E) j (EgressThrottleCfgMap t))
    \<and> EgressThrottleStatMap (AddEgressConfig E k q t) = EgressThrottleStatMap t
    \<and> EgressThrottleIdMap (AddEgressConfig E k q t) = EgressThrottleIdMap t
    \<and> ingress_maps (AddEgressConfig E k q t) = ingress_maps t"
  using egress.addcfg_lookup [OF ebpf_lawsD(1) [OF assms], of k j q t]
    egress.addcfg_beyond [OF ebpf_lawsD(1) [OF assms], of k q t] egress.addcfg_frame [of E k q t]
  by (cases "unat k < 5000") (simp_all add: MAX_MAP_SIZE_def throttle_of_def Let_def)

definition example_qos :: QosConfig where
  "example_qos = \<lparr>BandWidthRequestM = 20, BandWidthLimitM = 100, qos_Priority = 1\<rparr>"

definition example_tcbpf ::
  "(u32 \<Rightarrow> TcEdtThrottleCfg, u32 \<Rightarrow> TcEdtThrottleStat, TcEdtIdKey \<rightharpoonup> u32) Tcbpf" where
  "example_tcbpf = \<lparr>BpfFileName = ''tcedt_bpfel.o'', BpfProgPath = EdtBpfProgPath,
     EgressThrottleCfgMap = (\<lambda>_. zeroThrottleCfg), EgressThrottleStatMap = (\<lambda>_. zeroThrottleStat),
     IngressThrottleCfgMap = (\<lambda>_. zeroThrottleCfg), IngressThrottleStatMap = (\<lambda>_. zeroThrottleStat),
     EgressThrottleIdMap = Map.empty, IngressThrottleIdMap = Map.empty\<rparr>"

theorem AddEgressConfig_spec_witness:
  "ebpf_laws kernel_ops
   \<and> ops_Lookup (cfg_ops kernel_ops) 1000 (EgressThrottleCfgMap (AddEgressConfig kernel_ops 1000 example_qos example_tcbpf))
     = Inr \<lparr>cfg_Priority = 1, cfg_Interval = 10000000, LowRate = 2621440, HighRate = 13107200, ReqRate = 2621440\<rparr>"
  using AddEgressConfig_spec [OF kernel_ops_laws, of 1000 1000 example_qos example_tcbpf]
  by (simp add: kernel_ops_laws example_qos_def)

text \<open>A class id carries the priority and the local id without loss: the datapath's
  \<open>SPLIT_ID_PRIORITY\<close> recovers both from \<open>GenerateClassId\<close> whenever the priority fits in 16 bits,
  and in particular for the priorities 0, 1 and 2 that are configured.\<close>

theorem classid_roundtrip:
  assumes "priority < 2 ^ 16"
  shows "SPLIT_ID_PRIORITY (GenerateClassId priority podId) = (priority, ucast podId)"
proof -
  have "unat priority < 2 ^ 16" using assms by (simp add: word_less_nat_alt)
  then have "take_bit 16 (unat priority) = unat priority" by (rule take_bit_nat_eq_self)
  then have p: "take_bit 16 priority = priority" by (metis unsigned_take_bit_eq word_unat_eq_iff)
  have b: "\<not> bit priority n" if "16 \<le> n" for n
    using that p by (metis bit_take_bit_iff not_le)
  have b': "n < 16" if "bit priority n" for n
    using that b by (metis not_le)
  have m: "(65535::u32) = mask 16" by (simp add: mask_eq_exp_minus_1)
  have lo: "(push_bit 16 (ucast podId) OR priority) AND 65535 = priority"
    by (rule bit_word_eqI) (use b in \<open>auto simp: m bit_simps not_le dest: b' \<close>)
  have hi: "drop_bit 16 (push_bit 16 (ucast podId) OR priority) AND 65535 = ucast podId"
    by (rule bit_word_eqI) (use b in \<open>auto simp: m bit_simps not_le dest: bit_imp_le_length\<close>)
  show ?thesis unfolding SPLIT_ID_PRIORITY_def GenerateClassId_def lo hi ..
qed

theorem classid_roundtrip_witness:
  "(2::u32) < 2 ^ 16 \<and> SPLIT_ID_PRIORITY (GenerateClassId 2 1000) = (2, ucast (1000::u16))"
  using classid_roundtrip [of 2 1000] by simp

end
