(* ===== verification/Go_Float.thy ===== *)
theory Go_Float
  imports Complex_Main Go_Prelude
begin

text \<open>
  The part of Go's \<open>float64\<close> that the allocator uses: conversion from \<open>uint64\<close>, product and
  comparison, with the rounding of IEEE 754 (to nearest, ties to even). A finite value is
  \<open>m * 2 ^ e\<close> for integers \<open>m\<close> and \<open>e\<close>; the sign of a zero is not kept, because neither a
  comparison nor the finite products made here can tell the two zeros apart.
\<close>

datatype f64 = FNaN | FInf bool | Fin int int

fun bitlen :: "nat \<Rightarrow> nat" where
  "bitlen n = (if n = 0 then 0 else Suc (bitlen (n div 2)))"

declare bitlen.simps [simp del]

text \<open>\<open>rne m d\<close> is \<open>m / 2 ^ d\<close> rounded to the nearest integer, ties to the even one.\<close>

definition rne :: "nat \<Rightarrow> nat \<Rightarrow> nat" where
  "rne m d = (let q = m div 2 ^ d; r = m mod 2 ^ d
     in if 2 * r < 2 ^ d \<or> 2 * r = 2 ^ d \<and> even q then q else q + 1)"

text \<open>How many low bits do not fit: at most 53 bits are kept, and none below \<open>2 ^ -1074\<close>.\<close>

definition excess :: "nat \<Rightarrow> int \<Rightarrow> nat" where
  "excess m e = nat (max (int (bitlen m) - 53) (- 1074 - e))"

definition round_f64 :: "bool \<Rightarrow> nat \<Rightarrow> int \<Rightarrow> f64" where
  "round_f64 neg m e =
     (let d = excess m e; m' = rne m d; e' = e + int d
      in if m' = 0 then Fin 0 0
         else if int (bitlen m') + e' > 1024 then FInf neg
         else Fin (if neg then - int m' else int m') e')"

definition f64_of_u64 :: "u64 \<Rightarrow> f64" where
  "f64_of_u64 v = round_f64 False (unat v) 0"

fun fmul :: "f64 \<Rightarrow> f64 \<Rightarrow> f64" where
  "fmul FNaN _ = FNaN"
| "fmul _ FNaN = FNaN"
| "fmul (FInf s) (FInf t) = FInf (s \<noteq> t)"
| "fmul (FInf s) (Fin m e) = (if m = 0 then FNaN else FInf (s \<noteq> (m < 0)))"
| "fmul (Fin m e) (FInf s) = (if m = 0 then FNaN else FInf (s \<noteq> (m < 0)))"
| "fmul (Fin m e) (Fin n f) = round_f64 (m * n < 0) (nat \<bar>m * n\<bar>) (e + f)"

fun flt :: "f64 \<Rightarrow> f64 \<Rightarrow> bool" where
  "flt FNaN _ = False"
| "flt _ FNaN = False"
| "flt (FInf s) (FInf t) = (s \<and> \<not> t)"
| "flt (FInf s) (Fin m e) = s"
| "flt (Fin m e) (FInf s) = (\<not> s)"
| "flt (Fin m e) (Fin n f) =
     (let k = min e f in m * 2 ^ nat (e - k) < n * 2 ^ nat (f - k))"

section \<open>Rounding\<close>

lemma bitlen_less: "n < 2 ^ bitlen n"
proof (induction n rule: bitlen.induct)
  case (1 n)
  then show ?case by (cases "n = 0") (auto simp: bitlen.simps [of n])
qed

lemma bitlen_ge: "n \<noteq> 0 \<Longrightarrow> 2 ^ (bitlen n - 1) \<le> n"
proof (induction n rule: bitlen.induct)
  case (1 n)
  show ?case
  proof (cases "n div 2 = 0")
    case True
    then have "n = 1" using 1(2) by auto
    then show ?thesis by (simp add: bitlen.simps)
  next
    case False
    then have "2 ^ (bitlen (n div 2) - 1) \<le> n div 2" using 1 by simp
    moreover have "bitlen (n div 2) \<noteq> 0" using False by (subst bitlen.simps) simp
    ultimately show ?thesis
      using 1(2) by (subst bitlen.simps) (cases "bitlen (n div 2)", auto)
  qed
qed

lemma bitlen_mono: "m \<le> n \<Longrightarrow> bitlen m \<le> bitlen n"
proof (rule ccontr)
  assume "m \<le> n" and "\<not> bitlen m \<le> bitlen n"
  then have "bitlen n \<le> bitlen m - 1" by simp
  have nz: "m \<noteq> 0"
    using \<open>\<not> bitlen m \<le> bitlen n\<close> by (metis bitlen.simps zero_le)
  from \<open>bitlen n \<le> bitlen m - 1\<close> have "(2::nat) ^ bitlen n \<le> 2 ^ (bitlen m - 1)" by (simp add: power_increasing)
  with bitlen_less [of n] bitlen_ge [OF nz] \<open>m \<le> n\<close> show False by linarith
qed

text \<open>An integer above (below) the exact quotient is above (below) the rounded one.\<close>

lemma rne_le: "m \<le> k * 2 ^ d \<Longrightarrow> rne m d \<le> k"
proof -
  assume a: "m \<le> k * 2 ^ d"
  have "m div 2 ^ d \<le> k" using div_le_mono [OF a, of "2 ^ d"] by simp
  moreover have "m div 2 ^ d < k" if "0 < m mod 2 ^ d"
  proof (rule ccontr)
    assume "\<not> m div 2 ^ d < k"
    then have "k * 2 ^ d \<le> m div 2 ^ d * 2 ^ d" by simp
    with that div_mult_mod_eq [of m "2 ^ d"] a show False by linarith
  qed
  ultimately show ?thesis by (fastforce simp: rne_def Let_def)
qed

lemma rne_ge: "k * 2 ^ d \<le> m \<Longrightarrow> k \<le> rne m d"
proof -
  assume "k * 2 ^ d \<le> m"
  then have "k \<le> m div 2 ^ d" by (simp add: less_eq_div_iff_mult_less_eq)
  then show ?thesis by (simp add: rne_def Let_def)
qed

lemma rne_mono: "m \<le> n \<Longrightarrow> rne m d \<le> rne n d"
proof (cases "m div 2 ^ d = n div 2 ^ d")
  case True
  assume "m \<le> n"
  then have "m mod 2 ^ d \<le> n mod 2 ^ d"
    using True div_mult_mod_eq [of m "2 ^ d"] div_mult_mod_eq [of n "2 ^ d"]
    by (metis add_le_cancel_left)
  then show ?thesis using True by (auto simp: rne_def Let_def)
next
  case False
  assume "m \<le> n"
  then have "m div 2 ^ d < n div 2 ^ d" using False div_le_mono [of m n "2 ^ d"] by simp
  then have "rne m d \<le> n div 2 ^ d" by (simp add: rne_def Let_def)
  then show ?thesis by (simp add: rne_def Let_def)
qed

section \<open>Values\<close>

definition fval :: "int \<Rightarrow> int \<Rightarrow> real" where
  "fval m e = of_int m * 2 powi e"

lemma fval_shift: "k \<le> e \<Longrightarrow> fval m e = of_int (m * 2 ^ nat (e - k)) * 2 powi k"
proof -
  assume "k \<le> e"
  have "(2::real) powi e = 2 powi (int (nat (e - k)) + k)" using \<open>k \<le> e\<close> by simp
  also have "\<dots> = 2 powi int (nat (e - k)) * 2 powi k" by (rule power_int_add) simp
  also have "\<dots> = 2 ^ nat (e - k) * 2 powi k" by (simp only: power_int_of_nat)
  finally show ?thesis by (simp add: fval_def)
qed

lemma flt_Fin: "flt (Fin m e) (Fin n f) \<longleftrightarrow> fval m e < fval n f"
proof -
  define k where "k = min e f"
  have "fval m e < fval n f \<longleftrightarrow> (of_int (m * 2 ^ nat (e - k)) :: real) < of_int (n * 2 ^ nat (f - k))"
    by (simp only: fval_shift [of k e] fval_shift [of k f] k_def min.cobounded1 min.cobounded2
        mult_less_cancel_right_pos [OF zero_less_power_int [OF zero_less_numeral]])
  then show ?thesis by (simp only: of_int_less_iff flt.simps Let_def k_def)
qed

declare flt.simps [simp del]

lemma flt_simps [simp]: "\<not> flt FNaN x" "\<not> flt x FNaN" "flt (FInf s) (FInf t) \<longleftrightarrow> s \<and> \<not> t"
  "flt (FInf s) (Fin m e) \<longleftrightarrow> s" "flt (Fin m e) (FInf s) \<longleftrightarrow> \<not> s"
  by (cases x; simp add: flt.simps)+

lemma pow2_le: "(2::real) powi a \<le> 2 powi b \<longleftrightarrow> a \<le> b"
  using power_int_strict_increasing [of b a "2::real"] power_int_increasing [of a b "2::real"]
  by (auto simp: not_le [symmetric])

lemma fval_mono: "m \<le> n \<Longrightarrow> fval m e \<le> fval n e"
  by (simp add: fval_def)

lemma fval_nonneg: "0 \<le> m \<Longrightarrow> 0 \<le> fval m e"
  by (simp add: fval_def)

lemma fval_mult: "fval m e * fval n f = fval (m * n) (e + f)"
  by (simp add: fval_def power_int_add)

lemma fval_add_exp: "fval m (e + int k) = fval (m * 2 ^ k) e"
  using fval_shift [of e "e + int k" m] by (simp add: fval_def)

lemma fval_same_exp: "fval m e \<le> fval n e \<longleftrightarrow> m \<le> n"
  by (simp add: fval_def)

text \<open>A representable value above the exact result is above the rounded result.\<close>

lemma rne_fval_le:
  assumes "fval (int N) E \<le> fval (int r) d" and "E + int x \<le> d"
  shows "fval (int (rne N x)) (E + int x) \<le> fval (int r) d"
proof -
  define j where "j = nat (d - (E + int x))"
  have d: "d = E + int (j + x)" using assms(2) by (simp add: j_def)
  have "N \<le> r * 2 ^ j * 2 ^ x"
    using assms(1) unfolding d fval_add_exp fval_same_exp
    by (simp add: power_add mult.assoc flip: of_nat_le_iff [where 'a = int])
  then have "rne N x \<le> r * 2 ^ j" by (rule rne_le)
  then have "int (rne N x) \<le> int r * 2 ^ j" by (metis of_nat_le_iff of_nat_mult of_nat_numeral of_nat_power)
  then have "fval (int (rne N x)) (E + int x) \<le> fval (int r * 2 ^ j) (E + int x)" by (rule fval_mono)
  also have "\<dots> = fval (int r) d" by (simp add: d fval_add_exp [symmetric] add_ac)
  finally show ?thesis .
qed

section \<open>Conversion of unsigned integers\<close>

lemma rne_bits: "bitlen v \<le> 53 + d \<Longrightarrow> rne v d \<le> 2 ^ 53"
proof (rule rne_le)
  assume "bitlen v \<le> 53 + d"
  then have "(2::nat) ^ bitlen v \<le> 2 ^ (53 + d)" by (rule power_increasing) simp
  then show "v \<le> 2 ^ 53 * 2 ^ d" using bitlen_less [of v] by (simp add: power_add)
qed

lemma bitlen_le_iff: "bitlen v \<le> k \<longleftrightarrow> v < 2 ^ k"
proof
  assume "bitlen v \<le> k"
  then have "(2::nat) ^ bitlen v \<le> 2 ^ k" by (rule power_increasing) simp
  with bitlen_less [of v] show "v < 2 ^ k" by (rule less_le_trans)
next
  assume v: "v < 2 ^ k"
  show "bitlen v \<le> k"
  proof (rule ccontr)
    assume "\<not> bitlen v \<le> k"
    then have "k \<le> bitlen v - 1" by simp
    moreover have "v \<noteq> 0" using \<open>\<not> bitlen v \<le> k\<close> by (metis bitlen.simps zero_le)
    ultimately have "(2::nat) ^ k \<le> v"
      using bitlen_ge [of v] power_increasing [of k "bitlen v - 1" "2::nat"] by (metis le_trans one_le_numeral)
    with v show False by simp
  qed
qed

definition udrop :: "u64 \<Rightarrow> nat" where "udrop v = bitlen (unat v) - 53"

lemma rne_udrop_ge: "udrop v \<noteq> 0 \<Longrightarrow> 2 ^ 52 \<le> rne (unat v) (udrop v)"
proof (rule rne_ge)
  assume "udrop v \<noteq> 0"
  then have lb: "bitlen (unat v) = 53 + udrop v" by (simp add: udrop_def)
  then have "unat v \<noteq> 0" by (metis add_eq_0_iff_both_eq_0 bitlen.simps zero_neq_numeral)
  then show "2 ^ 52 * 2 ^ udrop v \<le> unat v" using bitlen_ge [of "unat v"] by (simp add: lb power_add)
qed

lemma rne_udrop_le: "rne (unat v) (udrop v) \<le> 2 ^ 53"
  by (rule rne_bits) (simp add: udrop_def)

lemma udrop_le: "udrop v \<le> 11"
proof -
  have "unat v < 2 ^ 64" using unsigned_less [of v] by simp
  then have "bitlen (unat v) \<le> 64" by (simp only: bitlen_le_iff)
  then show ?thesis by (simp add: udrop_def)
qed

lemma f64_of_u64_Fin:
  "f64_of_u64 v = Fin (int (rne (unat v) (udrop v))) (int (udrop v))"
proof -
  have x: "excess (unat v) 0 = udrop v" by (simp add: excess_def udrop_def)
  have "bitlen (rne (unat v) (udrop v)) \<le> 54"
    using rne_udrop_le [of v] by (simp add: bitlen_le_iff)
  moreover have "udrop v = 0" if "rne (unat v) (udrop v) = 0"
    using rne_udrop_ge [of v] that by (cases "udrop v = 0") auto
  ultimately show ?thesis
    using udrop_le [of v] by (auto simp: f64_of_u64_def round_f64_def x Let_def)
qed

text \<open>The value of the converted integer, and that conversion is monotone.\<close>

definition uval :: "u64 \<Rightarrow> real" where
  "uval v = fval (int (rne (unat v) (udrop v))) (int (udrop v))"

lemma uval_nonneg: "0 \<le> uval v"
  by (simp add: uval_def fval_nonneg)

lemma uval_nat: "uval v = real (rne (unat v) (udrop v) * 2 ^ udrop v)"
  by (simp add: uval_def fval_def)

lemma uval_mono:
  assumes "unat a \<le> unat b"
  shows "uval a \<le> uval b"
proof (cases "udrop a = udrop b")
  case True
  with rne_mono [OF assms, of "udrop b"] show ?thesis by (simp add: uval_nat)
next
  case False
  have le: "udrop a \<le> udrop b" using bitlen_mono [OF assms] by (simp add: udrop_def)
  with False have lt: "udrop a < udrop b" by simp
  then have b: "2 ^ 52 \<le> rne (unat b) (udrop b)" by (intro rne_udrop_ge) simp
  have a: "rne (unat a) (udrop a) \<le> 2 ^ 53" by (rule rne_udrop_le)
  have "rne (unat a) (udrop a) * 2 ^ udrop a \<le> 2 ^ 53 * 2 ^ udrop a" using a by simp
  also have "\<dots> = 2 ^ 52 * 2 ^ Suc (udrop a)" by simp
  also have "\<dots> \<le> 2 ^ 52 * 2 ^ udrop b" using lt by (intro mult_left_mono power_increasing) auto
  also have "\<dots> \<le> rne (unat b) (udrop b) * 2 ^ udrop b" using b by (intro mult_right_mono) auto
  finally show ?thesis unfolding uval_nat of_nat_le_iff .
qed

section \<open>Scaling by a ratio of at most one\<close>

text \<open>
  Multiplying a converted integer by a factor between 0 and 1 and rounding does not exceed
  the converted integer: its value is representable.
\<close>

lemma fval_pow: "fval (2 ^ k) e = 2 powi (int k + e)"
  by (simp add: fval_def power_int_add)

lemma fval_bits: "N \<noteq> 0 \<Longrightarrow> 2 powi (int (bitlen N) - 1 + E) \<le> fval (int N) E"
proof -
  assume "N \<noteq> 0"
  then have "int (2 ^ (bitlen N - 1)) \<le> int N" unfolding of_nat_le_iff by (rule bitlen_ge)
  then have "fval (2 ^ (bitlen N - 1)) E \<le> fval (int N) E" by (intro fval_mono) simp
  moreover have "bitlen N \<noteq> 0" using \<open>N \<noteq> 0\<close> by (simp add: bitlen.simps)
  ultimately show ?thesis by (simp add: fval_pow of_nat_diff)
qed

lemma round_le:
  assumes le: "fval (int N) E \<le> fval (int r) d" and r: "r \<le> 2 ^ 53" and "0 \<le> d"
    and "d < E \<Longrightarrow> N = 0"
  defines "x \<equiv> excess N E"
  shows "fval (int (rne N x)) (E + int x) \<le> fval (int r) d"
proof (cases "E + int x \<le> d \<or> N = 0")
  case True
  then show ?thesis
  proof
    assume "N = 0"
    then have "rne N x = 0" by (simp add: rne_def)
    then show ?thesis using fval_nonneg [of "int r" d] by (simp add: fval_def)
  qed (rule rne_fval_le [OF le])
next
  case False
  then have nz: "N \<noteq> 0" and gt: "d < E + int x" by auto
  have "x \<noteq> 0" using assms(4) nz gt by (auto intro: ccontr)
  then have x: "E + int x = E + int (bitlen N) - 53"
    using gt \<open>0 \<le> d\<close> unfolding x_def excess_def by (auto simp: max_def split: if_splits)
  have b: "2 powi (52 + (E + int x)) \<le> fval (int r) d"
    using fval_bits [OF nz, of E] le by (simp add: x algebra_simps)
  have "fval (int r) d \<le> fval (2 ^ 53) d" using r by (intro fval_mono) simp
  then have "(2::real) powi (52 + (E + int x)) \<le> 2 powi (53 + d)" using b unfolding fval_pow by simp
  then have "52 + (E + int x) \<le> 53 + d" by (simp only: pow2_le)
  then have x1: "E + int x \<le> d + 1" by simp
  with gt have "int 53 + d = 52 + (E + int x)" by simp
  then have eq: "fval (2 ^ 53) d = 2 powi (52 + (E + int x))" unfolding fval_pow by (rule arg_cong)
  have "r = 2 ^ 53"
  proof -
    have "fval (2 ^ 53) d \<le> fval (int r) d" using b eq by simp
    then have "2 ^ 53 \<le> int r" unfolding fval_same_exp .
    then show ?thesis using r by simp
  qed
  then have rd: "fval (int r) d = fval (int (2 ^ 52)) (d + 1)"
    by (simp only: of_nat_power of_nat_numeral fval_pow) (simp add: algebra_simps)
  show ?thesis unfolding rd by (rule rne_fval_le [OF le [unfolded rd] x1])
qed

lemma uval_le: "uval v \<le> 2 ^ 64"
proof -
  have "rne (unat v) (udrop v) \<le> 2 ^ 53" by (rule rne_udrop_le)
  moreover have "udrop v \<le> 11" by (rule udrop_le)
  ultimately have "rne (unat v) (udrop v) * 2 ^ udrop v \<le> 2 ^ 53 * 2 ^ 11"
    by (intro mult_mono power_increasing) auto
  then have "real (rne (unat v) (udrop v) * 2 ^ udrop v) \<le> real (2 ^ 53 * 2 ^ 11)"
    by (rule of_nat_mono)
  then show ?thesis by (simp add: uval_nat)
qed

lemma not_below_round:
  assumes "0 \<le> c" and "neg \<or> fval (int (rne N (excess N E))) (E + int (excess N E)) \<le> fval c k"
    and "fval c k \<le> 2 ^ 64"
  shows "\<not> flt (Fin c k) (round_f64 neg N E)"
proof -
  define K where "K = rne N (excess N E)"
  define F where "F = E + int (excess N E)"
  have c: "0 \<le> fval c k" using assms(1) by (rule fval_nonneg)
  have r: "round_f64 neg N E = (if K = 0 then Fin 0 0 else if int (bitlen K) + F > 1024 then FInf neg
      else Fin (if neg then - int K else int K) F)"
    by (simp add: round_f64_def K_def F_def Let_def)
  show ?thesis
  proof (cases neg)
    case True
    have "fval (- int K) F \<le> 0" "fval 0 0 = 0" by (simp_all add: fval_def)
    with c True show ?thesis unfolding r by (auto simp: flt_Fin)
  next
    case False
    then have le: "fval (int K) F \<le> fval c k" using assms(2) by (simp add: K_def F_def)
    have "K = 0 \<or> int (bitlen K) + F \<le> 1024"
    proof (cases "K = 0")
      case that: False
      have "(2::real) powi (int (bitlen K) - 1 + F) \<le> 2 powi 64"
        using fval_bits [OF that, of F] le assms(3) by simp
      then have "int (bitlen K) - 1 + F \<le> 64" by (simp only: pow2_le)
      then show ?thesis by simp
    qed simp
    moreover have "fval 0 0 = 0" by (simp add: fval_def)
    ultimately show ?thesis
      using False c le unfolding r by (auto simp: flt_Fin not_less)
  qed
qed

text \<open>
  A rate that is at least the granted rate is never below a ratio of at most one of it,
  whatever the ratio is otherwise (negative, infinite downwards or not a number).
\<close>

lemma full_use_not_below:
  assumes "unat req \<le> unat cur" and "\<not> flt (Fin 1 0) ratio"
  shows "\<not> flt (f64_of_u64 cur) (fmul (f64_of_u64 req) ratio)"
proof (cases ratio)
  case (Fin m e)
  define r where "r = rne (unat req) (udrop req)"
  define d where "d = int (udrop req)"
  define N where "N = nat \<bar>int r * m\<bar>"
  have req: "f64_of_u64 req = Fin (int r) d" by (simp add: f64_of_u64_Fin r_def d_def)
  have m1: "fval m e \<le> 1" using assms(2) unfolding Fin flt_Fin by (simp add: fval_def)
  have "fval (int (rne N (excess N (d + e)))) (d + e + int (excess N (d + e))) \<le> uval cur"
    if "\<not> int r * m < 0"
  proof -
    have N: "int N = int r * m" using that by (simp add: N_def)
    have "fval (int N) (d + e) = fval (int r) d * fval m e" by (simp add: N fval_mult)
    also have "\<dots> \<le> fval (int r) d * 1" using m1 by (intro mult_left_mono fval_nonneg) auto
    finally have le: "fval (int N) (d + e) \<le> fval (int r) d" by simp
    have small: "N = 0" if "d < d + e"
    proof (rule ccontr)
      assume "N \<noteq> 0"
      then have "1 \<le> m" using \<open>\<not> int r * m < 0\<close> by (cases "m \<le> 0") (auto simp: N_def mult_less_0_iff)
      then have "fval 1 e \<le> 1" using m1 fval_mono [of 1 m e] by linarith
      then have "(2::real) powi e \<le> 2 powi 0" by (simp add: fval_def)
      then have "e \<le> 0" by (simp only: pow2_le)
      then show False using that by simp
    qed
    have "fval (int (rne N (excess N (d + e)))) (d + e + int (excess N (d + e))) \<le> fval (int r) d"
      by (rule round_le [OF le _ _ small]) (simp_all add: r_def d_def rne_udrop_le [simplified])
    also have "\<dots> \<le> uval cur" using uval_mono [OF assms(1)] by (simp add: uval_def r_def d_def)
    finally show ?thesis .
  qed
  then have "\<not> flt (f64_of_u64 cur) (round_f64 (int r * m < 0) N (d + e))"
    unfolding f64_of_u64_Fin [of cur]
    by (intro not_below_round) (use uval_le [of cur] in \<open>auto simp: uval_def\<close>)
  then show ?thesis by (simp add: Fin req N_def)
next
  case (FInf s)
  then show ?thesis using assms(2) by (simp add: f64_of_u64_Fin)
qed (simp add: f64_of_u64_Fin)

end
