(* ===== verification/AlgProc.thy ===== *)
theory AlgProc
  imports Tcbpf Go_Float
begin

text \<open>
  The bandwidth allocator of the alg-daemon, \<open>cmd/alg-daemon/algproc/daemon_proc.go\<close>: one
  round of \<open>Run\<close> reads the statistics and configurations of all 5000 objects of a direction,
  gives every object with traffic a minimal rate, divides what is left of the link, and
  writes all configurations back. Rates are 64-bit words, \<open>int64\<close> differences and quotients
  are read with \<open>sint\<close>, and the object counters, which are bounded by the number of objects,
  are integers.
\<close>

section \<open>State\<close>

definition MaxObjSize :: nat where "MaxObjSize = 5000"

abbreviation (input) DownReqRate :: u8 where "DownReqRate \<equiv> 0"
abbreviation (input) NeedReachLowRate :: u8 where "NeedReachLowRate \<equiv> 1"
abbreviation (input) ReachedLowRate :: u8 where "ReachedLowRate \<equiv> 2"

record EdtProcData =
  ThrottleCfg :: "TcEdtThrottleCfg list"
  ThrottleStat :: "TcEdtThrottleStat list"
  IDs :: "u32 list"
  ObjStatus :: "u8 list"
  ValidObjCnt :: u32
  TotalBw :: u64

record ('c, 's, 'i) DaemonProc =
  EgressDataEntry :: EdtProcData
  IngressDataEntry :: EdtProcData
  EbpfEdt :: "('c, 's, 'i) Tcbpf"
  alg_Interval :: u32

definition NewDaemonProc :: "u64 \<Rightarrow> u64 \<Rightarrow> u32 \<Rightarrow> ('c, 's, 'i) Tcbpf \<Rightarrow> ('c, 's, 'i) DaemonProc" where
  "NewDaemonProc egressTotalBw ingressTotalBw interval ebpfEdt =
     \<lparr>EgressDataEntry = \<lparr>ThrottleCfg = replicate MaxObjSize zeroThrottleCfg,
        ThrottleStat = replicate MaxObjSize zeroThrottleStat, IDs = replicate MaxObjSize 0,
        ObjStatus = replicate MaxObjSize 0, ValidObjCnt = 0, TotalBw = egressTotalBw\<rparr>,
      IngressDataEntry = \<lparr>ThrottleCfg = replicate MaxObjSize zeroThrottleCfg,
        ThrottleStat = replicate MaxObjSize zeroThrottleStat, IDs = replicate MaxObjSize 0,
        ObjStatus = replicate MaxObjSize 0, ValidObjCnt = 0, TotalBw = ingressTotalBw\<rparr>,
      EbpfEdt = ebpfEdt, alg_Interval = interval\<rparr>"

definition Clip :: "u64 \<Rightarrow> u64 \<Rightarrow> u64 \<Rightarrow> u64" where
  "Clip val lo hi = (if val < lo then lo else if val > hi then hi else val)"

section \<open>Reading the maps\<close>

text \<open>
  The body of the loop over the statistics that were read: an object whose measuring period
  has not moved since the last round counts as idle. The slices are indexed, so an index
  beyond one of them is a panic.
\<close>

definition lookup_step ::
  "TcEdtThrottleCfg list \<Rightarrow> nat \<Rightarrow> TcEdtThrottleStat \<Rightarrow> EdtProcData \<Rightarrow> EdtProcData outcome" where
  "lookup_step cfgs index stat p =
     (if T_start stat \<noteq> 0 \<and> length (ThrottleStat p) \<le> index then Panic IndexOutOfRange
      else let stat' = (if T_start stat \<noteq> 0 \<and> T_start (ThrottleStat p ! index) = T_start stat
                        then stat\<lparr>Rate := 0\<rparr> else stat)
      in if index < length (ThrottleStat p) \<and> index < length (ThrottleCfg p)
            \<and> index < length cfgs \<and> index < length (ObjStatus p)
         then Done (p\<lparr>ThrottleStat := (ThrottleStat p)[index := stat'],
                      ThrottleCfg := (ThrottleCfg p)[index := cfgs ! index],
                      ObjStatus := (ObjStatus p)[index := if Rate stat' > 0 then 1 else 0],
                      ValidObjCnt := (if Rate stat' > 0 then ValidObjCnt p + 1 else ValidObjCnt p)\<rparr>)
         else Panic IndexOutOfRange)"

fun lookup_loop ::
  "TcEdtThrottleCfg list \<Rightarrow> nat \<Rightarrow> TcEdtThrottleStat list \<Rightarrow> EdtProcData \<Rightarrow> EdtProcData outcome" where
  "lookup_loop cfgs index [] p = Done p"
| "lookup_loop cfgs index (stat # stats) p =
     obind (lookup_step cfgs index stat p) (lookup_loop cfgs (Suc index) stats)"

text \<open>
  \<open>lookupEdtProcData\<close> returns a pointer into the receiver, so the result here is the changed
  receiver beside the error. Both batch reads overwrite the key buffer, also when they fail.
  With any other direction \<open>procData\<close> stays nil and its first use panics.
\<close>

definition lookupEdtProcData ::
  "('c, 's, 'i) ebpf_ops \<Rightarrow> string \<Rightarrow> ('c, 's, 'i) DaemonProc \<Rightarrow>
   (errno option \<times> ('c, 's, 'i) DaemonProc) outcome" where
  "lookupEdtProcData E direction d =
     (if direction = ''egress'' then
        (case BatchReadEgressThrottleStat E (IDs (EgressDataEntry d)) (EbpfEdt d) of
           (Some e, ks, _) \<Rightarrow> Done (Some e, d\<lparr>EgressDataEntry := (EgressDataEntry d)\<lparr>IDs := ks\<rparr>\<rparr>)
         | (None, ks, stats) \<Rightarrow>
             (case BatchReadEgressThrottleCfg E ks (EbpfEdt d) of
                (Some e, ks', _) \<Rightarrow> Done (Some e, d\<lparr>EgressDataEntry := (EgressDataEntry d)\<lparr>IDs := ks'\<rparr>\<rparr>)
              | (None, ks', cfgs) \<Rightarrow>
                  obind (lookup_loop cfgs 0 stats ((EgressDataEntry d)\<lparr>IDs := ks', ValidObjCnt := 0\<rparr>))
                    (\<lambda>p. Done (None, d\<lparr>EgressDataEntry := p\<rparr>))))
      else if direction = ''ingress'' then
        (case BatchReadIngressThrottleStat E (IDs (IngressDataEntry d)) (EbpfEdt d) of
           (Some e, ks, _) \<Rightarrow> Done (Some e, d\<lparr>IngressDataEntry := (IngressDataEntry d)\<lparr>IDs := ks\<rparr>\<rparr>)
         | (None, ks, stats) \<Rightarrow>
             (case BatchReadIngressThrottleCfg E ks (EbpfEdt d) of
                (Some e, ks', _) \<Rightarrow> Done (Some e, d\<lparr>IngressDataEntry := (IngressDataEntry d)\<lparr>IDs := ks'\<rparr>\<rparr>)
              | (None, ks', cfgs) \<Rightarrow>
                  obind (lookup_loop cfgs 0 stats ((IngressDataEntry d)\<lparr>IDs := ks', ValidObjCnt := 0\<rparr>))
                    (\<lambda>p. Done (None, d\<lparr>IngressDataEntry := p\<rparr>))))
      else Panic NilDereference)"

text \<open>The write-back of all configurations; its error is only logged.\<close>

definition updateThrottleCfg ::
  "('c, 's, 'i) ebpf_ops \<Rightarrow> EdtProcData \<Rightarrow> string \<Rightarrow> ('c, 's, 'i) DaemonProc \<Rightarrow> ('c, 's, 'i) DaemonProc" where
  "updateThrottleCfg E procData direction d =
     (if direction = ''egress''
      then d\<lparr>EbpfEdt := snd (BatchWriteEgressThrottleCfg E (IDs procData) (ThrottleCfg procData) (EbpfEdt d))\<rparr>
      else if direction = ''ingress''
      then d\<lparr>EbpfEdt := snd (BatchWriteIngressThrottleCfg E (IDs procData) (ThrottleCfg procData) (EbpfEdt d))\<rparr>
      else d)"

section \<open>One round of the allocation\<close>

text \<open>The first offer to an object with traffic: its new rate and status.\<close>

definition allocMinRate :: "u64 \<Rightarrow> u64 \<Rightarrow> f64 \<Rightarrow> u64 \<Rightarrow> u64 \<Rightarrow> u64 \<Rightarrow> (u64 \<times> u8) outcome" where
  "allocMinRate minBandwidth pace ratio curRate reqRate lowRate =
     (if pace = 0 then Panic DivideByZero
      else let deltaBw = sdiv64 reqRate pace in
        if flt (f64_of_u64 curRate) (fmul (f64_of_u64 reqRate) ratio)
        then Done (Clip (reqRate - deltaBw) minBandwidth reqRate, DownReqRate)
        else let newReqRate = Clip (reqRate + deltaBw) minBandwidth lowRate
             in Done (newReqRate, if newReqRate < lowRate then NeedReachLowRate else ReachedLowRate))"

record alloc =
  al_Cfg :: "TcEdtThrottleCfg list"
  al_Status :: "u8 list"
  al_priorityCnt :: "u16 list"
  al_lowRateReachCnt :: int
  al_DownReqRateCnt :: int
  al_All :: bool
  al_remainBw :: u64

definition PriorityAllocPercent :: "int list" where "PriorityAllocPercent = [10, 20, 70]"

text \<open>\<open>priorityCnt[p]++\<close> and \<open>priorityCnt[p]--\<close> on the three-element slice.\<close>

definition bump :: "u16 \<Rightarrow> u32 \<Rightarrow> u16 list \<Rightarrow> u16 list outcome" where
  "bump by p cnt = (if unat p < length cnt then Done (cnt[unat p := cnt ! unat p + by])
     else Panic IndexOutOfRange)"

text \<open>The body of the first loop over the objects.\<close>

definition min_step :: "u64 \<Rightarrow> u64 \<Rightarrow> f64 \<Rightarrow> TcEdtThrottleStat list \<Rightarrow> nat \<Rightarrow> alloc \<Rightarrow> alloc outcome" where
  "min_step minBandwidth pace ratio stats oid a =
     (if length (al_Status a) \<le> oid then Panic IndexOutOfRange
      else if al_Status a ! oid \<noteq> 1 then Done a
      else if length (al_Cfg a) \<le> oid then Panic IndexOutOfRange
      else let c = al_Cfg a ! oid in
        obind (allocMinRate minBandwidth pace ratio (Rate (stats ! oid)) (ReqRate c) (LowRate c))
          (\<lambda>(rate, status).
             let a' = a\<lparr>al_Cfg := (al_Cfg a)[oid := c\<lparr>ReqRate := rate\<rparr>],
                        al_Status := (al_Status a)[oid := status],
                        al_remainBw := al_remainBw a - rate\<rparr>
             in if status = NeedReachLowRate
                then obind (bump 1 (cfg_Priority c) (al_priorityCnt a))
                       (\<lambda>cnt. Done (a'\<lparr>al_priorityCnt := cnt\<rparr>))
                else if status = ReachedLowRate
                then obind (bump 1 (cfg_Priority c) (al_priorityCnt a))
                       (\<lambda>cnt. Done (a'\<lparr>al_priorityCnt := cnt, al_lowRateReachCnt := al_lowRateReachCnt a + 1\<rparr>))
                else Done (a'\<lparr>al_DownReqRateCnt := al_DownReqRateCnt a + 1\<rparr>)))"

fun min_loop :: "u64 \<Rightarrow> u64 \<Rightarrow> f64 \<Rightarrow> TcEdtThrottleStat list \<Rightarrow> nat list \<Rightarrow> alloc \<Rightarrow> alloc outcome" where
  "min_loop mb pace ratio stats [] a = Done a"
| "min_loop mb pace ratio stats (oid # oids) a =
     obind (min_step mb pace ratio stats oid a) (min_loop mb pace ratio stats oids)"

text \<open>The test that every object with traffic has its low rate or is being lowered.\<close>

definition all_reached :: "u32 \<Rightarrow> alloc \<Rightarrow> bool" where
  "all_reached valid a \<longleftrightarrow> al_lowRateReachCnt a = int (unat valid)
     \<or> al_lowRateReachCnt a + al_DownReqRateCnt a = int (unat valid)"

text \<open>\<open>allocDivide\<close>: the shares of the priorities that have an object.\<close>

definition alloc_divide :: "u16 list \<Rightarrow> int" where
  "alloc_divide cnt = sum_list (map (\<lambda>(c, p). if c > 0 then p else 0) (zip cnt PriorityAllocPercent))"

text \<open>
  The body of the second loop. The result is whether the loop goes on, with the state and
  \<open>remainBwVary\<close>; \<open>remainBw\<close>, \<open>allocDivide\<close> and the counts of the first loop do not change.
\<close>

definition addRate :: "nat \<Rightarrow> u64 \<Rightarrow> alloc \<Rightarrow> alloc" where
  "addRate oid deltaBw a =
     a\<lparr>al_Cfg := (al_Cfg a)[oid := (al_Cfg a ! oid)\<lparr>ReqRate := ReqRate (al_Cfg a ! oid) + deltaBw\<rparr>]\<rparr>"

definition grant_low :: "u32 \<Rightarrow> nat \<Rightarrow> alloc \<Rightarrow> u64 \<Rightarrow> (alloc \<times> u64) outcome" where
  "grant_low valid oid a vary =
     (if sint (al_remainBw a) > 0 \<and> al_Status a ! oid = NeedReachLowRate \<and> \<not> al_All a then
        (let divisor = int (unat valid) - al_lowRateReachCnt a - al_DownReqRateCnt a in
         if divisor = 0 then Panic DivideByZero
         else let deltaBw = word_of_int (go_quot (sint (al_remainBw a)) divisor) + 1
              in Done (addRate oid deltaBw a, vary - deltaBw))
      else Done (a, vary))"

definition grant_high :: "u64 \<Rightarrow> nat \<Rightarrow> alloc \<Rightarrow> u64 \<Rightarrow> (alloc \<times> u64) outcome" where
  "grant_high allocDivide oid a vary =
     (if al_All a \<and> sint (al_remainBw a) > 0 \<and> al_Status a ! oid = ReachedLowRate then
        (let thisPrio = unat (cfg_Priority (al_Cfg a ! oid)) in
         if length PriorityAllocPercent \<le> thisPrio \<or> length (al_priorityCnt a) \<le> thisPrio
         then Panic IndexOutOfRange
         else if allocDivide = 0 \<or> al_priorityCnt a ! thisPrio = 0 then Panic DivideByZero
         else let share = sdiv64 (al_remainBw a * word_of_int (PriorityAllocPercent ! thisPrio)) allocDivide;
                  deltaBw = sdiv64 share (ucast (al_priorityCnt a ! thisPrio)) + 1
              in Done (addRate oid deltaBw a, vary - deltaBw))
      else Done (a, vary))"

definition grant_step ::
  "TcEdtThrottleStat list \<Rightarrow> u32 \<Rightarrow> u64 \<Rightarrow> nat \<Rightarrow> alloc \<Rightarrow> u64 \<Rightarrow> (bool \<times> alloc \<times> u64) outcome" where
  "grant_step stats valid allocDivide oid a vary =
     (if length (al_Status a) \<le> oid then Panic IndexOutOfRange
      else if al_Status a ! oid = NeedReachLowRate \<and> length (al_Cfg a) \<le> oid
      then Panic IndexOutOfRange
      else if al_Status a ! oid = NeedReachLowRate
           \<and> Rate (stats ! oid) < ReqRate (al_Cfg a ! oid) * 7 div 10 then
        obind (bump (- 1) (cfg_Priority (al_Cfg a ! oid)) (al_priorityCnt a))
          (\<lambda>cnt. let a' = a\<lparr>al_priorityCnt := cnt, al_lowRateReachCnt := al_lowRateReachCnt a + 1\<rparr>
                 in Done (True, a'\<lparr>al_All := al_All a \<or> all_reached valid a'\<rparr>, vary))
      else if length (al_Cfg a) \<le> oid \<and> al_Status a ! oid = ReachedLowRate \<and> al_All a
           \<and> sint (al_remainBw a) > 0 then Panic IndexOutOfRange
      else obind (grant_low valid oid a vary)
             (\<lambda>(a', vary'). obind (grant_high allocDivide oid a' vary')
                (\<lambda>(a'', vary''). Done (\<not> sint vary'' \<le> 0, a'', vary''))))"

fun grant_loop ::
  "TcEdtThrottleStat list \<Rightarrow> u32 \<Rightarrow> u64 \<Rightarrow> nat list \<Rightarrow> alloc \<Rightarrow> u64 \<Rightarrow> alloc outcome" where
  "grant_loop stats valid allocDivide [] a vary = Done a"
| "grant_loop stats valid allocDivide (oid # oids) a vary =
     obind (grant_step stats valid allocDivide oid a vary)
       (\<lambda>(go_on, a', vary'). if go_on then grant_loop stats valid allocDivide oids a' vary' else Done a')"

text \<open>The part of a round between reading and writing the maps.\<close>

definition alloc_init :: "EdtProcData \<Rightarrow> alloc" where
  "alloc_init p = \<lparr>al_Cfg = ThrottleCfg p, al_Status = ObjStatus p, al_priorityCnt = [0, 0, 0],
     al_lowRateReachCnt = 0, al_DownReqRateCnt = 0, al_All = False, al_remainBw = TotalBw p\<rparr>"

definition alloc_round :: "u64 \<Rightarrow> u64 \<Rightarrow> f64 \<Rightarrow> EdtProcData \<Rightarrow> EdtProcData outcome" where
  "alloc_round minBandwidth pace ratio p =
     (let oids = [0..<length (ThrottleStat p)] in
      obind (min_loop minBandwidth pace ratio (ThrottleStat p) oids (alloc_init p))
        (\<lambda>a. obind (grant_loop (ThrottleStat p) (ValidObjCnt p)
                      (word_of_int (alloc_divide (al_priorityCnt a))) oids
                      (a\<lparr>al_All := all_reached (ValidObjCnt p) a\<rparr>) (al_remainBw a))
          (\<lambda>b. Done (p\<lparr>ThrottleCfg := al_Cfg b, ObjStatus := al_Status b\<rparr>))))"

text \<open>
  One pass of the endless loop of \<open>Run\<close>. The boolean says whether the pass ends with the
  sleep; a failed read goes straight to the next pass.
\<close>

definition data_entry :: "string \<Rightarrow> ('c, 's, 'i) DaemonProc \<Rightarrow> EdtProcData" where
  "data_entry direction d = (if direction = ''egress'' then EgressDataEntry d else IngressDataEntry d)"

definition set_data_entry :: "string \<Rightarrow> EdtProcData \<Rightarrow> ('c, 's, 'i) DaemonProc \<Rightarrow> ('c, 's, 'i) DaemonProc" where
  "set_data_entry direction p d =
     (if direction = ''egress'' then d\<lparr>EgressDataEntry := p\<rparr> else d\<lparr>IngressDataEntry := p\<rparr>)"

text \<open>
  The daemon and the datapath work on the same maps while a pass runs; \<open>env\<close> is what happens to
  the maps between the read and the write of the pass. \<open>Run_pass\<close> is the undisturbed pass.
\<close>

definition Run_pass_with ::
  "('c, 's, 'i) ebpf_ops \<Rightarrow> string \<Rightarrow> u64 \<Rightarrow> u64 \<Rightarrow> f64 \<Rightarrow> (('c, 's, 'i) Tcbpf \<Rightarrow> ('c, 's, 'i) Tcbpf) \<Rightarrow>
   ('c, 's, 'i) DaemonProc \<Rightarrow> (bool \<times> ('c, 's, 'i) DaemonProc) outcome" where
  "Run_pass_with E direction minBandwidth pace ratio env d =
     obind (lookupEdtProcData E direction d) (\<lambda>(err, d').
       case err of Some e \<Rightarrow> Done (False, d')
       | None \<Rightarrow> obind (alloc_round minBandwidth pace ratio (data_entry direction d')) (\<lambda>p.
           let d'' = set_data_entry direction p d'
           in Done (True, updateThrottleCfg E p direction (d''\<lparr>EbpfEdt := env (EbpfEdt d'')\<rparr>))))"

definition Run_pass ::
  "('c, 's, 'i) ebpf_ops \<Rightarrow> string \<Rightarrow> u64 \<Rightarrow> u64 \<Rightarrow> f64 \<Rightarrow> ('c, 's, 'i) DaemonProc \<Rightarrow>
   (bool \<times> ('c, 's, 'i) DaemonProc) outcome" where
  "Run_pass E direction minBandwidth pace ratio d =
     Run_pass_with E direction minBandwidth pace ratio (\<lambda>t. t) d"

end
