(* ===== verification/AlgAlloc.thy ===== *)
theory AlgAlloc
  imports AlgProc
begin

text \<open>
  What one round of the allocator does. The two loops of \<open>Run\<close> are brought to a closed form:
  the first gives every object with traffic its \<open>offer\<close>, the second adds \<open>grant\<close> to the objects
  up to the point where the remaining bandwidth is used up. The properties of the round (it
  does not panic, what it leaves alone, how much it hands out, how fast a busy object reaches
  its guaranteed rate) are read off this form.
\<close>

section \<open>The first loop\<close>

text \<open>The objects with traffic among the first \<open>k\<close>, and the offer the first loop makes to one.\<close>

definition busy :: "EdtProcData \<Rightarrow> nat \<Rightarrow> nat set" where
  "busy p k = {i. i < k \<and> ObjStatus p ! i = 1}"

definition offer :: "u64 \<Rightarrow> u64 \<Rightarrow> f64 \<Rightarrow> EdtProcData \<Rightarrow> nat \<Rightarrow> u64 \<times> u8" where
  "offer mb pace ratio p i =
     (case allocMinRate mb pace ratio (Rate (ThrottleStat p ! i)) (ReqRate (ThrottleCfg p ! i))
             (LowRate (ThrottleCfg p ! i)) of Done r \<Rightarrow> r | _ \<Rightarrow> (0, 0))"

text \<open>
  What a successful read leaves: slices of one length, at most 5000 objects, a status that
  says whether there is traffic, and the count of the objects with traffic.
\<close>

definition procdata_wf :: "EdtProcData \<Rightarrow> bool" where
  "procdata_wf p \<longleftrightarrow> length (ThrottleStat p) \<le> MaxObjSize
     \<and> length (ThrottleCfg p) = length (ThrottleStat p)
     \<and> length (ObjStatus p) = length (ThrottleStat p)
     \<and> set (ObjStatus p) \<subseteq> {0, 1}
     \<and> unat (ValidObjCnt p) = card (busy p (length (ThrottleStat p)))"

definition prios_ok :: "EdtProcData \<Rightarrow> bool" where
  "prios_ok p \<longleftrightarrow> (\<forall>i \<in> busy p (length (ThrottleStat p)). cfg_Priority (ThrottleCfg p ! i) < 3)"

lemma busy_finite [simp]: "finite (busy p k)"
  by (simp add: busy_def)

lemma busy_0 [simp]: "busy p 0 = {}"
  by (simp add: busy_def)

lemma busy_Suc: "busy p (Suc k) = (if ObjStatus p ! k = 1 then insert k (busy p k) else busy p k)"
  by (auto simp: busy_def less_Suc_eq)

lemma busy_fresh [simp]: "k \<notin> busy p k"
  by (simp add: busy_def)

lemma min_loop_append:
  "min_loop mb pace ratio stats (xs @ ys) a =
     obind (min_loop mb pace ratio stats xs a) (min_loop mb pace ratio stats ys)"
proof (induction xs arbitrary: a)
  case (Cons x xs)
  then show ?case by (cases "min_step mb pace ratio stats x a") simp_all
qed simp

lemma offer_Done:
  "pace \<noteq> 0 \<Longrightarrow> allocMinRate mb pace ratio (Rate (ThrottleStat p ! i)) (ReqRate (ThrottleCfg p ! i))
     (LowRate (ThrottleCfg p ! i)) = Done (offer mb pace ratio p i)"
  by (simp add: offer_def allocMinRate_def Let_def)

lemma offer_status: "pace \<noteq> 0 \<Longrightarrow> snd (offer mb pace ratio p i) \<in> {0, 1, 2}"
  by (simp add: offer_def allocMinRate_def Let_def)

text \<open>The objects among the first \<open>k\<close> whose offer has a status in \<open>S\<close>, of one priority or of any.\<close>

definition offered :: "u64 \<Rightarrow> u64 \<Rightarrow> f64 \<Rightarrow> EdtProcData \<Rightarrow> u8 set \<Rightarrow> nat \<Rightarrow> nat set" where
  "offered mb pace ratio p S k = {i \<in> busy p k. snd (offer mb pace ratio p i) \<in> S}"

definition offered_prio :: "u64 \<Rightarrow> u64 \<Rightarrow> f64 \<Rightarrow> EdtProcData \<Rightarrow> u8 set \<Rightarrow> nat \<Rightarrow> nat \<Rightarrow> nat set" where
  "offered_prio mb pace ratio p S q k =
     {i \<in> offered mb pace ratio p S k. unat (cfg_Priority (ThrottleCfg p ! i)) = q}"

lemma offered_Suc: "offered mb pace ratio p S (Suc k) =
  (if ObjStatus p ! k = 1 \<and> snd (offer mb pace ratio p k) \<in> S
   then insert k (offered mb pace ratio p S k) else offered mb pace ratio p S k)"
  by (auto simp: offered_def busy_Suc)

lemma offered_prio_Suc: "offered_prio mb pace ratio p S q (Suc k) =
  (if ObjStatus p ! k = 1 \<and> snd (offer mb pace ratio p k) \<in> S \<and> unat (cfg_Priority (ThrottleCfg p ! k)) = q
   then insert k (offered_prio mb pace ratio p S q k) else offered_prio mb pace ratio p S q k)"
  by (auto simp: offered_prio_def offered_Suc)

lemma offered_finite [simp]: "finite (offered mb pace ratio p S k)" "finite (offered_prio mb pace ratio p S q k)"
  by (simp_all add: offered_def offered_prio_def)

lemma offered_fresh [simp]: "k \<notin> offered mb pace ratio p S k" "k \<notin> offered_prio mb pace ratio p S q k"
  by (simp_all add: offered_def offered_prio_def)

lemma offered_0 [simp]: "offered mb pace ratio p S 0 = {}" "offered_prio mb pace ratio p S q 0 = {}"
  by (simp_all add: offered_def offered_prio_def)

lemma offered_card_le: "card (offered_prio mb pace ratio p S q k) \<le> k"
proof -
  have "offered_prio mb pace ratio p S q k \<subseteq> {..<k}"
    by (auto simp: offered_prio_def offered_def busy_def)
  from card_mono [OF _ this] show ?thesis by simp
qed

text \<open>The state after the first loop has handled the objects below \<open>k\<close>.\<close>

definition cfg_after :: "u64 \<Rightarrow> u64 \<Rightarrow> f64 \<Rightarrow> EdtProcData \<Rightarrow> nat \<Rightarrow> nat \<Rightarrow> TcEdtThrottleCfg" where
  "cfg_after mb pace ratio p k i =
     (if i \<in> busy p k then (ThrottleCfg p ! i)\<lparr>ReqRate := fst (offer mb pace ratio p i)\<rparr> else ThrottleCfg p ! i)"

definition status_after :: "u64 \<Rightarrow> u64 \<Rightarrow> f64 \<Rightarrow> EdtProcData \<Rightarrow> nat \<Rightarrow> nat \<Rightarrow> u8" where
  "status_after mb pace ratio p k i =
     (if i \<in> busy p k then snd (offer mb pace ratio p i) else ObjStatus p ! i)"

definition min_inv :: "u64 \<Rightarrow> u64 \<Rightarrow> f64 \<Rightarrow> EdtProcData \<Rightarrow> nat \<Rightarrow> alloc \<Rightarrow> bool" where
  "min_inv mb pace ratio p k a \<longleftrightarrow>
     al_Cfg a = map (cfg_after mb pace ratio p k) [0..<length (ThrottleStat p)]
     \<and> al_Status a = map (status_after mb pace ratio p k) [0..<length (ThrottleStat p)]
     \<and> length (al_priorityCnt a) = 3
     \<and> (\<forall>q < 3. unat (al_priorityCnt a ! q) = card (offered_prio mb pace ratio p {1, 2} q k))
     \<and> al_lowRateReachCnt a = int (card (offered mb pace ratio p {2} k))
     \<and> al_DownReqRateCnt a = int (card (offered mb pace ratio p {0} k))
     \<and> al_remainBw a = TotalBw p - (\<Sum>i \<in> busy p k. fst (offer mb pace ratio p i))"

lemma after_Suc:
  "cfg_after mb pace ratio p (Suc k) = (if ObjStatus p ! k = 1
     then (cfg_after mb pace ratio p k)(k := (ThrottleCfg p ! k)\<lparr>ReqRate := fst (offer mb pace ratio p k)\<rparr>)
     else cfg_after mb pace ratio p k)"
  "status_after mb pace ratio p (Suc k) = (if ObjStatus p ! k = 1
     then (status_after mb pace ratio p k)(k := snd (offer mb pace ratio p k))
     else status_after mb pace ratio p k)"
  by (auto simp: cfg_after_def status_after_def busy_Suc fun_eq_iff)

lemma map_upt_update: "k < n \<Longrightarrow> (map f [0..<n])[k := v] = map (f(k := v)) [0..<n]"
  by (rule nth_equalityI) (auto simp: nth_list_update)

lemma unat_inc16: "unat (x :: u16) < 65535 \<Longrightarrow> unat (x + 1) = Suc (unat x)"
  by (simp add: unat_word_ariths)

lemma bump_count:
  assumes "p < 3" and "length cnt = 3" and "\<forall>q < 3. unat (cnt ! q) = f q" and "f (unat p) < 65535"
  shows "\<exists>cnt'. bump 1 p cnt = Done cnt' \<and> length cnt' = 3
    \<and> (\<forall>q < 3. unat (cnt' ! q) = (if q = unat p then Suc (f q) else f q))"
proof -
  have p: "unat p < 3" using assms(1) by (simp add: word_less_nat_alt)
  have "unat (cnt ! unat p + 1) = Suc (f (unat p))" using assms p by (simp add: unat_inc16)
  with p assms(2,3) show ?thesis by (auto simp: bump_def nth_list_update)
qed

lemma min_step_inv:
  assumes wf: "procdata_wf p" "pace \<noteq> 0" and k: "k < length (ThrottleStat p)"
    and pk: "k \<in> offered mb pace ratio p {1, 2} (Suc k) \<Longrightarrow> cfg_Priority (ThrottleCfg p ! k) < 3"
    and inv: "min_inv mb pace ratio p k a"
  shows "\<exists>a'. min_step mb pace ratio (ThrottleStat p) k a = Done a' \<and> min_inv mb pace ratio p (Suc k) a'
     \<and> al_All a' = al_All a"
proof (cases "ObjStatus p ! k = 1")
  case False
  have "status_after mb pace ratio p k k \<noteq> 1" using False by (simp add: status_after_def)
  then have "min_step mb pace ratio (ThrottleStat p) k a = Done a"
    using inv k by (simp add: min_step_def min_inv_def)
  moreover have "min_inv mb pace ratio p (Suc k) a"
    using inv False by (simp add: min_inv_def after_Suc offered_Suc offered_prio_Suc busy_Suc)
  ultimately show ?thesis by auto
next
  case True
  obtain rate status where o: "offer mb pace ratio p k = (rate, status)" by fastforce
  have st: "status \<in> {0, 1, 2}" using offer_status [OF wf(2), of mb ratio p k] o by simp
  have c: "al_Cfg a ! k = ThrottleCfg p ! k" "al_Status a ! k = 1" "length (al_Cfg a) > k" "length (al_Status a) > k"
    using inv k True by (simp_all add: min_inv_def cfg_after_def status_after_def)
  have d: "allocMinRate mb pace ratio (Rate (ThrottleStat p ! k)) (ReqRate (ThrottleCfg p ! k))
     (LowRate (ThrottleCfg p ! k)) = Done (rate, status)" using offer_Done [OF wf(2)] o by metis
  show ?thesis
  proof (cases "status = 0")
    case True
    then show ?thesis
      using inv k c d \<open>ObjStatus p ! k = 1\<close>
      by (auto simp: min_step_def min_inv_def o after_Suc offered_Suc offered_prio_Suc busy_Suc map_upt_update Let_def
          not_le algebra_simps)
  next
    case False
    then have "k \<in> offered mb pace ratio p {1, 2} (Suc k)" using True o st by (auto simp: offered_Suc)
    then have pr: "cfg_Priority (ThrottleCfg p ! k) < 3" by (rule pk)
    have "card (offered_prio mb pace ratio p {1, 2} (unat (cfg_Priority (ThrottleCfg p ! k))) k) < 65535"
      using offered_card_le [of mb pace ratio p "{1,2}" "unat (cfg_Priority (ThrottleCfg p ! k))" k] k wf(1)
      by (simp add: procdata_wf_def MaxObjSize_def)
    from bump_count [OF pr, of "al_priorityCnt a" "\<lambda>q. card (offered_prio mb pace ratio p {1, 2} q k)"] inv this
    obtain cnt' where b: "bump 1 (cfg_Priority (ThrottleCfg p ! k)) (al_priorityCnt a) = Done cnt'" "length cnt' = 3"
      "\<forall>q < 3. unat (cnt' ! q) = (if q = unat (cfg_Priority (ThrottleCfg p ! k))
         then Suc (card (offered_prio mb pace ratio p {1, 2} q k)) else card (offered_prio mb pace ratio p {1, 2} q k))"
      by (auto simp: min_inv_def)
    show ?thesis
      using st False inv k c d b True
      by (auto simp: min_step_def min_inv_def o after_Suc offered_Suc offered_prio_Suc busy_Suc map_upt_update Let_def
          not_le algebra_simps)
  qed
qed

lemma min_loop_inv:
  assumes "procdata_wf p" "pace \<noteq> 0" and "k \<le> length (ThrottleStat p)"
    and "\<And>i. i \<in> offered mb pace ratio p {1, 2} k \<Longrightarrow> cfg_Priority (ThrottleCfg p ! i) < 3"
  shows "\<exists>a. min_loop mb pace ratio (ThrottleStat p) [0..<k] (alloc_init p) = Done a
    \<and> min_inv mb pace ratio p k a"
  using assms(3,4)
proof (induction k)
  case 0
  have "cfg_after mb pace ratio p 0 = (!) (ThrottleCfg p)" "status_after mb pace ratio p 0 = (!) (ObjStatus p)"
    by (auto simp: cfg_after_def status_after_def)
  moreover have "length (ThrottleCfg p) = length (ThrottleStat p)" "length (ObjStatus p) = length (ThrottleStat p)"
    using assms(1) by (simp_all add: procdata_wf_def)
  ultimately show ?case
    using map_nth [of "ThrottleCfg p"] map_nth [of "ObjStatus p"]
    by (simp add: min_inv_def alloc_init_def less_Suc_eq numeral_3_eq_3)
next
  case (Suc k)
  have "cfg_Priority (ThrottleCfg p ! i) < 3" if "i \<in> offered mb pace ratio p {1, 2} k" for i
    using that by (intro Suc(3)) (auto simp: offered_Suc)
  with Suc(1,2) obtain a where "min_loop mb pace ratio (ThrottleStat p) [0..<k] (alloc_init p) = Done a"
    and "min_inv mb pace ratio p k a" by auto
  with min_step_inv [OF assms(1,2), of k mb ratio a] Suc(2,3) show ?case
    by (auto simp: min_loop_append)
qed

section \<open>The second loop\<close>

abbreviation (input) objs :: "EdtProcData \<Rightarrow> nat" where
  "objs p \<equiv> length (ThrottleStat p)"

definition needing :: "u64 \<Rightarrow> u64 \<Rightarrow> f64 \<Rightarrow> EdtProcData \<Rightarrow> nat set" where
  "needing mb pace ratio p = offered mb pace ratio p {1} (objs p)"

definition reached :: "u64 \<Rightarrow> u64 \<Rightarrow> f64 \<Rightarrow> EdtProcData \<Rightarrow> nat set" where
  "reached mb pace ratio p = offered mb pace ratio p {2} (objs p)"

text \<open>The objects below \<open>k\<close> that the second loop passes over: they do not use 70\% of the offer.\<close>

definition skipped :: "u64 \<Rightarrow> u64 \<Rightarrow> f64 \<Rightarrow> EdtProcData \<Rightarrow> nat \<Rightarrow> nat set" where
  "skipped mb pace ratio p k = {i \<in> needing mb pace ratio p. i < k
     \<and> Rate (ThrottleStat p ! i) < fst (offer mb pace ratio p i) * 7 div 10}"

definition remaining :: "u64 \<Rightarrow> u64 \<Rightarrow> f64 \<Rightarrow> EdtProcData \<Rightarrow> u64" where
  "remaining mb pace ratio p = TotalBw p - (\<Sum>i \<in> busy p (objs p). fst (offer mb pace ratio p i))"

definition prio :: "EdtProcData \<Rightarrow> nat \<Rightarrow> nat" where
  "prio p i = unat (cfg_Priority (ThrottleCfg p ! i))"

definition shares :: "u64 \<Rightarrow> u64 \<Rightarrow> f64 \<Rightarrow> EdtProcData \<Rightarrow> int" where
  "shares mb pace ratio p =
     (\<Sum>q < 3. if offered_prio mb pace ratio p {1, 2} q (objs p) = {} then 0 else PriorityAllocPercent ! q)"

text \<open>What the second loop adds to object \<open>k\<close> when it gets that far.\<close>

definition grant :: "u64 \<Rightarrow> u64 \<Rightarrow> f64 \<Rightarrow> EdtProcData \<Rightarrow> nat \<Rightarrow> u64" where
  "grant mb pace ratio p k =
     (if sint (remaining mb pace ratio p) \<le> 0 then 0
      else if k \<in> needing mb pace ratio p then
        (if k \<in> skipped mb pace ratio p (Suc k) then 0
         else word_of_int (go_quot (sint (remaining mb pace ratio p))
                (int (card (needing mb pace ratio p)) - int (card (skipped mb pace ratio p k)))) + 1)
      else if k \<in> reached mb pace ratio p \<and> needing mb pace ratio p \<subseteq> skipped mb pace ratio p k then
        sdiv64 (sdiv64 (remaining mb pace ratio p * word_of_int (PriorityAllocPercent ! prio p k))
                  (word_of_int (shares mb pace ratio p)))
          (word_of_nat (card (offered_prio mb pace ratio p {2} (prio p k) (objs p)))) + 1
      else 0)"

definition cfg_granted :: "u64 \<Rightarrow> u64 \<Rightarrow> f64 \<Rightarrow> EdtProcData \<Rightarrow> nat \<Rightarrow> nat \<Rightarrow> TcEdtThrottleCfg" where
  "cfg_granted mb pace ratio p k i =
     (let c = cfg_after mb pace ratio p (objs p) i
      in if i < k then c\<lparr>ReqRate := ReqRate c + grant mb pace ratio p i\<rparr> else c)"

definition grant_inv :: "u64 \<Rightarrow> u64 \<Rightarrow> f64 \<Rightarrow> EdtProcData \<Rightarrow> nat \<Rightarrow> alloc \<Rightarrow> u64 \<Rightarrow> bool" where
  "grant_inv mb pace ratio p k a vary \<longleftrightarrow>
     al_Cfg a = map (cfg_granted mb pace ratio p k) [0..<objs p]
     \<and> al_Status a = map (status_after mb pace ratio p (objs p)) [0..<objs p]
     \<and> length (al_priorityCnt a) = 3
     \<and> (\<forall>q < 3. unat (al_priorityCnt a ! q) =
          card (offered_prio mb pace ratio p {1, 2} q (objs p) - skipped mb pace ratio p k))
     \<and> al_lowRateReachCnt a = int (card (reached mb pace ratio p) + card (skipped mb pace ratio p k))
     \<and> al_DownReqRateCnt a = int (card (offered mb pace ratio p {0} (objs p)))
     \<and> (al_All a \<longleftrightarrow> needing mb pace ratio p \<subseteq> skipped mb pace ratio p k)
     \<and> al_remainBw a = remaining mb pace ratio p
     \<and> vary = remaining mb pace ratio p - (\<Sum>i < k. grant mb pace ratio p i)"

lemma finite_sets [simp]: "finite (needing mb pace ratio p)" "finite (reached mb pace ratio p)"
  "finite (skipped mb pace ratio p k)"
  by (simp_all add: needing_def reached_def skipped_def)

lemma skipped_sub: "skipped mb pace ratio p k \<subseteq> needing mb pace ratio p"
  by (auto simp: skipped_def)

lemma skipped_Suc: "skipped mb pace ratio p (Suc k) =
  (if k \<in> needing mb pace ratio p \<and> Rate (ThrottleStat p ! k) < fst (offer mb pace ratio p k) * 7 div 10
   then insert k (skipped mb pace ratio p k) else skipped mb pace ratio p k)"
  by (auto simp: skipped_def less_Suc_eq)

lemma skipped_fresh [simp]: "k \<notin> skipped mb pace ratio p k" "skipped mb pace ratio p 0 = {}"
  by (simp_all add: skipped_def)

text \<open>Every object with traffic has exactly one of the three statuses.\<close>

lemma status_count:
  assumes "procdata_wf p" "pace \<noteq> 0"
  shows "int (unat (ValidObjCnt p)) = int (card (reached mb pace ratio p)) + int (card (needing mb pace ratio p))
    + int (card (offered mb pace ratio p {0} (objs p)))"
proof -
  have "busy p (objs p) = reached mb pace ratio p \<union> needing mb pace ratio p \<union> offered mb pace ratio p {0} (objs p)"
    using offer_status [OF assms(2), of mb ratio p] by (auto simp: reached_def needing_def offered_def)
  moreover have "card (reached mb pace ratio p \<union> needing mb pace ratio p \<union> offered mb pace ratio p {0} (objs p))
    = card (reached mb pace ratio p) + card (needing mb pace ratio p) + card (offered mb pace ratio p {0} (objs p))"
    by (subst card_Un_disjoint, simp, simp, force simp: reached_def needing_def offered_def,
        subst card_Un_disjoint) (auto simp: reached_def needing_def offered_def)
  ultimately show ?thesis using assms(1) by (simp add: procdata_wf_def)
qed

lemma status_iff:
  assumes "procdata_wf p" "k < objs p"
  shows "status_after mb pace ratio p (objs p) k = 1 \<longleftrightarrow> k \<in> needing mb pace ratio p"
    and "status_after mb pace ratio p (objs p) k = 2 \<longleftrightarrow> k \<in> reached mb pace ratio p"
proof -
  have "ObjStatus p ! k \<in> set (ObjStatus p)" using assms by (simp add: procdata_wf_def)
  then have "ObjStatus p ! k \<in> {0, 1}" using assms(1) unfolding procdata_wf_def by blast
  with assms(2) show "status_after mb pace ratio p (objs p) k = 1 \<longleftrightarrow> k \<in> needing mb pace ratio p"
    and "status_after mb pace ratio p (objs p) k = 2 \<longleftrightarrow> k \<in> reached mb pace ratio p"
    by (auto simp: status_after_def needing_def reached_def offered_def busy_def)
qed

lemma all_reached_iff:
  assumes "procdata_wf p" "pace \<noteq> 0"
    and "al_lowRateReachCnt a = int (card (reached mb pace ratio p) + card (skipped mb pace ratio p k))"
    and "al_DownReqRateCnt a = int (card (offered mb pace ratio p {0} (objs p)))"
  shows "all_reached (ValidObjCnt p) a \<longleftrightarrow> needing mb pace ratio p \<subseteq> skipped mb pace ratio p k"
proof -
  have le: "card (skipped mb pace ratio p k) \<le> card (needing mb pace ratio p)"
    by (intro card_mono skipped_sub) simp
  have "needing mb pace ratio p \<subseteq> skipped mb pace ratio p k \<longleftrightarrow>
      card (skipped mb pace ratio p k) = card (needing mb pace ratio p)"
    using skipped_sub [of mb pace ratio p k] card_seteq [OF finite_sets(1) skipped_sub] by (metis order_refl subset_antisym)
  with le status_count [OF assms(1,2), of mb ratio] assms(3,4) show ?thesis
    unfolding all_reached_def by linarith
qed

lemma alloc_divide_shares:
  assumes "length cnt = 3" "\<forall>q < 3. unat (cnt ! q) = card (offered_prio mb pace ratio p {1, 2} q (objs p))"
  shows "alloc_divide cnt = shares mb pace ratio p"
proof -
  obtain a b c where cnt: "cnt = [a, b, c]" using assms(1) by (metis (no_types) length_0_conv length_Suc_conv numeral_3_eq_3)
  have "unat x = card (offered_prio mb pace ratio p {1, 2} q (objs p)) \<Longrightarrow>
     x > 0 \<longleftrightarrow> offered_prio mb pace ratio p {1, 2} q (objs p) \<noteq> {}" for x :: u16 and q
    by (simp add: word_less_nat_alt card_gt_0_iff)
  moreover have "unat a = card (offered_prio mb pace ratio p {1, 2} 0 (objs p))"
    "unat b = card (offered_prio mb pace ratio p {1, 2} 1 (objs p))"
    "unat c = card (offered_prio mb pace ratio p {1, 2} 2 (objs p))"
    using assms(2) [rule_format, of 0] assms(2) [rule_format, of 1] assms(2) [rule_format, of 2]
    by (simp_all add: cnt)
  ultimately show ?thesis
    by (simp add: alloc_divide_def shares_def cnt PriorityAllocPercent_def numeral_3_eq_3 lessThan_Suc numeral_2_eq_2)
qed

lemma shares_bounds:
  assumes "i \<in> reached mb pace ratio p" "prio p i < 3"
  shows "PriorityAllocPercent ! prio p i \<le> shares mb pace ratio p" and "0 < shares mb pace ratio p"
    and "shares mb pace ratio p \<le> 100"
proof -
  have "i \<in> offered_prio mb pace ratio p {1, 2} (prio p i) (objs p)"
    using assms(1) by (auto simp: offered_prio_def reached_def offered_def prio_def)
  then show "PriorityAllocPercent ! prio p i \<le> shares mb pace ratio p" and "0 < shares mb pace ratio p"
    and "shares mb pace ratio p \<le> 100"
    using assms(2) by (auto simp: shares_def PriorityAllocPercent_def numeral_3_eq_3 lessThan_Suc less_Suc_eq)
qed

lemma skip_count:
  assumes "cnt = al_priorityCnt a" "grant_inv mb pace ratio p k a vary" "k \<in> needing mb pace ratio p" "prio p k < 3"
  shows "\<exists>cnt'. bump (- 1) (cfg_Priority (ThrottleCfg p ! k)) cnt = Done cnt' \<and> length cnt' = 3
    \<and> (\<forall>q < 3. unat (cnt' ! q) =
        card (offered_prio mb pace ratio p {1, 2} q (objs p) - insert k (skipped mb pace ratio p k)))"
proof -
  define X where "X q = offered_prio mb pace ratio p {1, 2} q (objs p) - skipped mb pace ratio p k" for q
  have len: "length cnt = 3" and cnt: "unat (cnt ! q) = card (X q)" if "q < 3" for q
    using assms(1,2) that by (auto simp: grant_inv_def X_def)
  have k: "k \<in> X (prio p k)" "q \<noteq> prio p k \<Longrightarrow> k \<notin> X q" for q
    using assms(3) by (auto simp: X_def needing_def offered_prio_def offered_def prio_def)
  have fin: "finite (X q)" for q by (simp add: X_def)
  have "cnt ! prio p k \<noteq> 0" using cnt [OF assms(4)] k(1) fin by (auto simp: unat_eq_0 [symmetric])
  then have "unat (cnt ! prio p k - 1) = card (X (prio p k)) - 1"
    using cnt [OF assms(4)] by (simp add: unat_minus_one)
  also have "\<dots> = card (X (prio p k) - {k})" using k(1) fin by simp
  finally have hit: "unat (cnt ! prio p k - 1) = card (X (prio p k) - {k})" .
  have miss: "card (X q - {k}) = card (X q)" if "q \<noteq> prio p k" for q using k(2) [OF that] by simp
  have "offered_prio mb pace ratio p {1, 2} q (objs p) - insert k (skipped mb pace ratio p k) = X q - {k}" for q
    by (auto simp: X_def)
  then show ?thesis
    using hit miss cnt len assms(4) unfolding bump_def prio_def
    by (auto simp: nth_list_update)
qed

lemma cfg_granted_Suc: "cfg_granted mb pace ratio p (Suc k) = (cfg_granted mb pace ratio p k)
   (k := (cfg_granted mb pace ratio p k k)\<lparr>ReqRate := ReqRate (cfg_granted mb pace ratio p k k) + grant mb pace ratio p k\<rparr>)"
  by (auto simp: cfg_granted_def Let_def fun_eq_iff less_Suc_eq)

lemma cfg_granted_fresh:
  assumes "i \<in> busy p (objs p)"
  shows "cfg_Priority (cfg_granted mb pace ratio p k i) = cfg_Priority (ThrottleCfg p ! i)"
    and "k \<le> i \<Longrightarrow> ReqRate (cfg_granted mb pace ratio p k i) = fst (offer mb pace ratio p i)"
  using assms by (simp_all add: cfg_granted_def cfg_after_def Let_def)

lemma sets_busy: "needing mb pace ratio p \<subseteq> busy p (objs p)" "reached mb pace ratio p \<subseteq> busy p (objs p)"
  by (auto simp: needing_def reached_def offered_def)

lemma sets_disjoint: "i \<in> reached mb pace ratio p \<Longrightarrow> i \<notin> needing mb pace ratio p"
  by (auto simp: needing_def reached_def offered_def)

text \<open>One step of the second loop, when the object is passed over.\<close>

lemma grant_step_skip:
  assumes wf: "procdata_wf p" "prios_ok p" "pace \<noteq> 0" and k: "k < objs p"
    and inv: "grant_inv mb pace ratio p k a vary" and s: "k \<in> skipped mb pace ratio p (Suc k)"
  shows "\<exists>a'. grant_step (ThrottleStat p) (ValidObjCnt p) dv k a vary = Done (True, a', vary)
    \<and> grant_inv mb pace ratio p (Suc k) a' vary"
proof -
  have n: "k \<in> needing mb pace ratio p" and r: "Rate (ThrottleStat p ! k) < fst (offer mb pace ratio p k) * 7 div 10"
    using s by (auto simp: skipped_def)
  have sk: "skipped mb pace ratio p (Suc k) = insert k (skipped mb pace ratio p k)"
    using n r by (simp add: skipped_Suc)
  have b: "k \<in> busy p (objs p)" using n sets_busy by blast
  have g: "grant mb pace ratio p k = 0" using n s by (simp add: grant_def)
  have "prio p k < 3" using wf(2) b by (simp add: prios_ok_def prio_def word_less_nat_alt)
  from skip_count [OF refl inv n this] obtain cnt' where
    c: "bump (- 1) (cfg_Priority (ThrottleCfg p ! k)) (al_priorityCnt a) = Done cnt'" "length cnt' = 3"
     "\<forall>q < 3. unat (cnt' ! q) = card (offered_prio mb pace ratio p {1, 2} q (objs p) - skipped mb pace ratio p (Suc k))"
    unfolding sk by blast
  define a1 where "a1 = a\<lparr>al_priorityCnt := cnt', al_lowRateReachCnt := al_lowRateReachCnt a + 1\<rparr>"
  have low: "al_lowRateReachCnt a1 = int (card (reached mb pace ratio p) + card (skipped mb pace ratio p (Suc k)))"
    and down: "al_DownReqRateCnt a1 = int (card (offered mb pace ratio p {0} (objs p)))"
    using inv by (simp_all add: a1_def grant_inv_def sk)
  have "\<not> needing mb pace ratio p \<subseteq> skipped mb pace ratio p k" using n by auto
  then have al: "al_All a \<or> all_reached (ValidObjCnt p) a1 \<longleftrightarrow> needing mb pace ratio p \<subseteq> skipped mb pace ratio p (Suc k)"
    using all_reached_iff [OF wf(1,3) low down] inv by (simp add: grant_inv_def)
  have st: "al_Status a ! k = 1" "\<not> length (al_Status a) \<le> k" "\<not> length (al_Cfg a) \<le> k"
    "Rate (ThrottleStat p ! k) < ReqRate (al_Cfg a ! k) * 7 div 10"
    "cfg_Priority (al_Cfg a ! k) = cfg_Priority (ThrottleCfg p ! k)"
    using inv k n r status_iff [OF wf(1) k] cfg_granted_fresh [OF b] by (simp_all add: grant_inv_def)
  have "grant_step (ThrottleStat p) (ValidObjCnt p) dv k a vary
      = Done (True, a1\<lparr>al_All := al_All a \<or> all_reached (ValidObjCnt p) a1\<rparr>, vary)"
    using st c(1) by (simp add: grant_step_def a1_def Let_def)
  moreover have "cfg_granted mb pace ratio p (Suc k) = cfg_granted mb pace ratio p k"
    by (simp add: cfg_granted_Suc g fun_eq_iff)
  ultimately show ?thesis
    using inv c al low down by (auto simp: grant_inv_def a1_def g)
qed

lemma addRate_inv:
  assumes "grant_inv mb pace ratio p k a vary" "k < objs p" "k \<notin> skipped mb pace ratio p (Suc k)"
  shows "grant_inv mb pace ratio p (Suc k) (addRate k (grant mb pace ratio p k) a) (vary - grant mb pace ratio p k)"
proof -
  have "skipped mb pace ratio p (Suc k) = skipped mb pace ratio p k"
    using assms(3) by (auto simp: skipped_Suc split: if_splits)
  with assms(1,2) show ?thesis
    by (auto simp: grant_inv_def addRate_def cfg_granted_Suc map_upt_update)
qed

lemma addRate_0: "k < length (al_Cfg a) \<Longrightarrow> addRate k 0 a = a"
  by (simp add: addRate_def)

lemma prio_count:
  assumes inv: "grant_inv mb pace ratio p k a vary" and q: "prio p k < 3"
    and "needing mb pace ratio p \<subseteq> skipped mb pace ratio p k"
  shows "unat (al_priorityCnt a ! prio p k) = card (offered_prio mb pace ratio p {2} (prio p k) (objs p))"
proof -
  have "offered_prio mb pace ratio p {1, 2} (prio p k) (objs p) - skipped mb pace ratio p k
      = offered_prio mb pace ratio p {2} (prio p k) (objs p)"
    using assms(3) by (auto simp: offered_prio_def offered_def needing_def skipped_def)
  then show ?thesis using inv q by (simp add: grant_inv_def)
qed

lemma grant_low_eq:
  assumes wf: "procdata_wf p" "pace \<noteq> 0" and k: "k < objs p"
    and inv: "grant_inv mb pace ratio p k a vary" and s: "k \<notin> skipped mb pace ratio p (Suc k)"
  shows "grant_low (ValidObjCnt p) k a vary = Done (if k \<in> needing mb pace ratio p
    then (addRate k (grant mb pace ratio p k) a, vary - grant mb pace ratio p k) else (a, vary))"
proof (cases "k \<in> needing mb pace ratio p")
  case True
  have "needing mb pace ratio p - skipped mb pace ratio p k \<noteq> {}"
    using True by auto
  then have na: "\<not> al_All a" using inv by (auto simp: grant_inv_def)
  then have "\<not> all_reached (ValidObjCnt p) a" using all_reached_iff [OF wf, of a mb ratio k] inv by (simp add: grant_inv_def)
  then have d0: "int (unat (ValidObjCnt p)) - al_lowRateReachCnt a - al_DownReqRateCnt a \<noteq> 0" by (simp add: all_reached_def)
  have d: "int (unat (ValidObjCnt p)) - al_lowRateReachCnt a - al_DownReqRateCnt a
      = int (card (needing mb pace ratio p)) - int (card (skipped mb pace ratio p k))"
    using status_count [OF wf, of mb ratio] inv by (simp add: grant_inv_def)
  have st: "al_Status a ! k = 1" "al_remainBw a = remaining mb pace ratio p" "k < length (al_Cfg a)"
    using inv k True status_iff [OF wf(1) k] by (simp_all add: grant_inv_def)
  show ?thesis
    using True s na d0 st unfolding grant_low_def Let_def d
    by (auto simp: grant_def addRate_0 not_less)
next
  case False
  then have "al_Status a ! k \<noteq> 1" using inv k status_iff [OF wf(1) k, of mb pace ratio] by (simp add: grant_inv_def)
  with False show ?thesis by (simp add: grant_low_def)
qed

lemma grant_high_eq:
  assumes wf: "procdata_wf p" "prios_ok p" "pace \<noteq> 0" and k: "k < objs p"
    and inv: "grant_inv mb pace ratio p k a vary" and n: "k \<notin> needing mb pace ratio p"
  shows "grant_high (word_of_int (shares mb pace ratio p)) k a vary
    = Done (addRate k (grant mb pace ratio p k) a, vary - grant mb pace ratio p k)"
proof (cases "k \<in> reached mb pace ratio p \<and> al_All a \<and> 0 < sint (remaining mb pace ratio p)")
  case True
  then have r: "k \<in> reached mb pace ratio p" and al: "needing mb pace ratio p \<subseteq> skipped mb pace ratio p k"
    using inv by (auto simp: grant_inv_def)
  have b: "k \<in> busy p (objs p)" using r sets_busy by blast
  have q: "prio p k < 3" using wf(2) b by (simp add: prios_ok_def prio_def word_less_nat_alt)
  have c: "unat (al_priorityCnt a ! prio p k) = card (offered_prio mb pace ratio p {2} (prio p k) (objs p))"
    by (rule prio_count [OF inv q al])
  have "k \<in> offered_prio mb pace ratio p {2} (prio p k) (objs p)"
    using r by (simp add: offered_prio_def reached_def prio_def)
  then have "card (offered_prio mb pace ratio p {2} (prio p k) (objs p)) \<noteq> 0" by auto
  then have c0: "al_priorityCnt a ! prio p k \<noteq> 0" using c by (metis unsigned_0)
  have cw: "ucast (al_priorityCnt a ! prio p k) = (word_of_nat (card (offered_prio mb pace ratio p {2} (prio p k) (objs p))) :: u64)"
    unfolding c [symmetric] by (metis of_int_of_nat_eq ucast_eq uint_nat)
  have dv: "word_of_int (shares mb pace ratio p) \<noteq> (0 :: u64)"
    using shares_bounds [OF r q] by (simp add: word_of_int_eq_0_iff zdvd_not_zless)
  have st: "al_Status a ! k = 2" "al_remainBw a = remaining mb pace ratio p"
    "unat (cfg_Priority (al_Cfg a ! k)) = prio p k" "length (al_priorityCnt a) = 3" "al_All a"
    using inv k True status_iff [OF wf(1) k] cfg_granted_fresh [OF b] by (simp_all add: grant_inv_def prio_def)
  have l: "length PriorityAllocPercent = 3" by (simp add: PriorityAllocPercent_def)
  show ?thesis
    using True st q c0 dv n al unfolding grant_high_def
    by (simp add: Let_def l cw grant_def not_le)
next
  case False
  then have g: "grant mb pace ratio p k = 0" using n inv by (auto simp: grant_def grant_inv_def)
  have "al_Status a ! k = 2 \<longleftrightarrow> k \<in> reached mb pace ratio p" "al_remainBw a = remaining mb pace ratio p" "k < length (al_Cfg a)"
    using inv k status_iff [OF wf(1) k, of mb pace ratio] by (simp_all add: grant_inv_def)
  with False show ?thesis by (auto simp: grant_high_def g addRate_0)
qed

lemma grant_step_go:
  assumes wf: "procdata_wf p" "prios_ok p" "pace \<noteq> 0" and k: "k < objs p"
    and inv: "grant_inv mb pace ratio p k a vary" and s: "k \<notin> skipped mb pace ratio p (Suc k)"
  shows "\<exists>a'. grant_step (ThrottleStat p) (ValidObjCnt p) (word_of_int (shares mb pace ratio p)) k a vary
      = Done (\<not> sint (vary - grant mb pace ratio p k) \<le> 0, a', vary - grant mb pace ratio p k)
    \<and> grant_inv mb pace ratio p (Suc k) a' (vary - grant mb pace ratio p k)"
proof -
  have len: "\<not> length (al_Status a) \<le> k" "\<not> length (al_Cfg a) \<le> k" using inv k by (simp_all add: grant_inv_def)
  have st: "al_Status a ! k = 1 \<longleftrightarrow> k \<in> needing mb pace ratio p"
    using inv k status_iff [OF wf(1) k, of mb pace ratio] by (simp add: grant_inv_def)
  have rr: "ReqRate (al_Cfg a ! k) = fst (offer mb pace ratio p k)" if "k \<in> needing mb pace ratio p"
    using cfg_granted_fresh(2) [of k p k] that sets_busy [of mb pace ratio p] inv k by (auto simp: grant_inv_def)
  have nos: "\<not> (al_Status a ! k = 1 \<and> Rate (ThrottleStat p ! k) < ReqRate (al_Cfg a ! k) * 7 div 10)"
    using s st rr by (auto simp: skipped_Suc)
  have hi: "grant_high (word_of_int (shares mb pace ratio p)) k (addRate k (grant mb pace ratio p k) a) v
      = Done (addRate k (grant mb pace ratio p k) a, v)" if "k \<in> needing mb pace ratio p" for v
    using st that by (simp add: grant_high_def addRate_def)
  have "grant_step (ThrottleStat p) (ValidObjCnt p) (word_of_int (shares mb pace ratio p)) k a vary
      = Done (\<not> sint (vary - grant mb pace ratio p k) \<le> 0, addRate k (grant mb pace ratio p k) a, vary - grant mb pace ratio p k)"
    using len nos grant_low_eq [OF wf(1,3) k inv s] grant_high_eq [OF wf k inv] hi
    by (cases "k \<in> needing mb pace ratio p") (auto simp: grant_step_def)
  with addRate_inv [OF inv k s] show ?thesis by blast
qed

text \<open>
  The second loop stops at the first object that is not passed over and leaves nothing of the
  remaining bandwidth; \<open>goes_on\<close> says that it gets past object \<open>j\<close>.
\<close>

definition goes_on :: "u64 \<Rightarrow> u64 \<Rightarrow> f64 \<Rightarrow> EdtProcData \<Rightarrow> nat \<Rightarrow> bool" where
  "goes_on mb pace ratio p j \<longleftrightarrow> j \<in> skipped mb pace ratio p (Suc j)
     \<or> 0 < sint (remaining mb pace ratio p - (\<Sum>i \<le> j. grant mb pace ratio p i))"

lemma grant_loop_closed:
  assumes wf: "procdata_wf p" "prios_ok p" "pace \<noteq> 0"
  shows "k \<le> objs p \<Longrightarrow> grant_inv mb pace ratio p k a vary \<Longrightarrow>
    \<exists>b m v. grant_loop (ThrottleStat p) (ValidObjCnt p) (word_of_int (shares mb pace ratio p)) [k..<objs p] a vary = Done b
      \<and> k \<le> m \<and> m \<le> objs p \<and> grant_inv mb pace ratio p m b v
      \<and> (\<forall>j. k \<le> j \<and> Suc j < m \<longrightarrow> goes_on mb pace ratio p j)
      \<and> (m < objs p \<longrightarrow> k < m \<and> \<not> goes_on mb pace ratio p (m - 1))"
proof (induction "objs p - k" arbitrary: k a vary)
  case 0
  then show ?case by (auto intro!: exI [of _ "objs p"] exI [of _ vary])
next
  case (Suc d)
  then have k: "k < objs p" by simp
  let ?step = "grant_step (ThrottleStat p) (ValidObjCnt p) (word_of_int (shares mb pace ratio p)) k a vary"
  have "\<exists>a' v'. ?step = Done (goes_on mb pace ratio p k, a', v') \<and> grant_inv mb pace ratio p (Suc k) a' v'"
  proof (cases "k \<in> skipped mb pace ratio p (Suc k)")
    case True
    then show ?thesis using grant_step_skip [OF wf k Suc(4) True, of "word_of_int (shares mb pace ratio p)"]
      by (auto simp: goes_on_def)
  next
    case False
    have "vary - grant mb pace ratio p k = remaining mb pace ratio p - (\<Sum>i \<le> k. grant mb pace ratio p i)"
      using Suc(4) by (simp add: grant_inv_def lessThan_Suc_atMost [symmetric])
    then show ?thesis using grant_step_go [OF wf k Suc(4) False] False by (auto simp: goes_on_def not_le)
  qed
  then obtain a' v' where st: "?step = Done (goes_on mb pace ratio p k, a', v')" "grant_inv mb pace ratio p (Suc k) a' v'"
    by blast
  have u: "[k..<objs p] = k # [Suc k..<objs p]" using k by (simp add: upt_conv_Cons)
  show ?case
  proof (cases "goes_on mb pace ratio p k")
    case True
    have "d = objs p - Suc k" using Suc(2) by simp
    from Suc(1) [OF this _ st(2)] k obtain b m v where
      b: "grant_loop (ThrottleStat p) (ValidObjCnt p) (word_of_int (shares mb pace ratio p)) [Suc k..<objs p] a' v' = Done b"
       "Suc k \<le> m" "m \<le> objs p" "grant_inv mb pace ratio p m b v"
       "\<forall>j. Suc k \<le> j \<and> Suc j < m \<longrightarrow> goes_on mb pace ratio p j" "m < objs p \<longrightarrow> Suc k < m \<and> \<not> goes_on mb pace ratio p (m - 1)"
      by (auto simp: Suc_le_eq)
    have "\<forall>j. k \<le> j \<and> Suc j < m \<longrightarrow> goes_on mb pace ratio p j" using b(5) True by (metis Suc_leI le_neq_implies_less)
    with b True st show ?thesis unfolding u by (intro exI [of _ b] exI [of _ m] exI [of _ v]) auto
  next
    case False
    then show ?thesis using st k unfolding u by (intro exI [of _ a'] exI [of _ "Suc k"] exI [of _ v']) auto
  qed
qed

section \<open>The round in closed form\<close>

lemma alloc_round_closed:
  assumes wf: "procdata_wf p" "prios_ok p" "pace \<noteq> 0"
  obtains m where "m \<le> objs p"
    and "alloc_round mb pace ratio p = Done (p\<lparr>ThrottleCfg := map (cfg_granted mb pace ratio p m) [0..<objs p],
           ObjStatus := map (status_after mb pace ratio p (objs p)) [0..<objs p]\<rparr>)"
    and "\<And>j. Suc j < m \<Longrightarrow> goes_on mb pace ratio p j"
    and "m < objs p \<Longrightarrow> 0 < m \<and> \<not> goes_on mb pace ratio p (m - 1)"
proof -
  obtain a where a: "min_loop mb pace ratio (ThrottleStat p) [0..<objs p] (alloc_init p) = Done a"
    and inv: "min_inv mb pace ratio p (objs p) a" using min_loop_inv [OF wf(1,3), of "objs p" mb ratio] wf(2) by (auto simp: prios_ok_def offered_def)
  have dv: "alloc_divide (al_priorityCnt a) = shares mb pace ratio p"
    using inv by (intro alloc_divide_shares) (simp_all add: min_inv_def)
  have "all_reached (ValidObjCnt p) a \<longleftrightarrow> needing mb pace ratio p \<subseteq> skipped mb pace ratio p 0"
    using inv by (intro all_reached_iff [OF wf(1,3)]) (simp_all add: min_inv_def reached_def)
  then have "grant_inv mb pace ratio p 0 (a\<lparr>al_All := all_reached (ValidObjCnt p) a\<rparr>) (al_remainBw a)"
    using inv by (auto simp: grant_inv_def min_inv_def reached_def remaining_def cfg_granted_def Let_def)
  from grant_loop_closed [OF wf le0 this] obtain b m v where
    b: "grant_loop (ThrottleStat p) (ValidObjCnt p) (word_of_int (shares mb pace ratio p)) [0..<objs p]
         (a\<lparr>al_All := all_reached (ValidObjCnt p) a\<rparr>) (al_remainBw a) = Done b"
    and m: "m \<le> objs p" "grant_inv mb pace ratio p m b v" "\<forall>j. Suc j < m \<longrightarrow> goes_on mb pace ratio p j"
      "m < objs p \<longrightarrow> 0 < m \<and> \<not> goes_on mb pace ratio p (m - 1)" by auto
  have "alloc_round mb pace ratio p = Done (p\<lparr>ThrottleCfg := al_Cfg b, ObjStatus := al_Status b\<rparr>)"
    using a b by (simp add: alloc_round_def Let_def dv)
  then have "alloc_round mb pace ratio p = Done (p\<lparr>ThrottleCfg := map (cfg_granted mb pace ratio p m) [0..<objs p],
           ObjStatus := map (status_after mb pace ratio p (objs p)) [0..<objs p]\<rparr>)"
    using m(2) by (simp add: grant_inv_def)
  with m that show thesis by blast
qed

end
