(* ===== verification/AlgProps.thy ===== *)
theory AlgProps
  imports AlgAlloc
begin

text \<open>
  Properties of a round of the allocator: it never panics on configured priorities, what it
  leaves alone, how much bandwidth it hands out in total, and how a busy object climbs to its
  guaranteed rate.
\<close>

section \<open>Rates without overflow\<close>

lemma pow_lits: "(2::int) ^ 50 = 1125899906842624" "(2::int) ^ 56 = 72057594037927936" "(2::int) ^ 57 = 144115188075855872"
  "(2::int) ^ 63 = 9223372036854775808" "(2::int) ^ 64 = 18446744073709551616"
  by simp_all

text \<open>
  Rates below \<open>2 ^ 50\<close> bytes per second and links below \<open>2 ^ 56\<close>: with at most 5000 objects no
  sum or product of a round leaves the 64-bit range.
\<close>

definition rates_ok :: "u64 \<Rightarrow> u64 \<Rightarrow> EdtProcData \<Rightarrow> bool" where
  "rates_ok mb pace p \<longleftrightarrow> uint mb < 2 ^ 50 \<and> 0 < sint pace \<and> uint (TotalBw p) < 2 ^ 56
     \<and> (\<forall>i \<in> busy p (objs p). uint (ReqRate (ThrottleCfg p ! i)) < 2 ^ 50
          \<and> uint (LowRate (ThrottleCfg p ! i)) < 2 ^ 50)"

definition offer_total :: "u64 \<Rightarrow> u64 \<Rightarrow> f64 \<Rightarrow> EdtProcData \<Rightarrow> int" where
  "offer_total mb pace ratio p = (\<Sum>i \<in> busy p (objs p). uint (fst (offer mb pace ratio p i)))"

definition granted_total :: "EdtProcData \<Rightarrow> EdtProcData \<Rightarrow> int" where
  "granted_total p p' = (\<Sum>i \<in> busy p (objs p). uint (ReqRate (ThrottleCfg p' ! i)))"

lemma Clip_le: "uint (Clip v lo hi) \<le> max (uint lo) (uint hi)"
  by (auto simp: Clip_def word_less_def)

lemma Clip_ge: "uint lo \<le> uint (Clip v lo hi) \<or> Clip v lo hi = hi"
  by (auto simp: Clip_def word_less_def)

lemma sum_uint64:
  assumes "finite A" and "(\<Sum>i \<in> A. uint (f i)) < 2 ^ 64"
  shows "uint (\<Sum>i \<in> A. f i :: u64) = (\<Sum>i \<in> A. uint (f i))"
  using assms
proof (induction A)
  case (insert x F)
  have "0 \<le> (\<Sum>i \<in> F. uint (f i))" by (intro sum_nonneg) simp
  moreover have "0 \<le> uint (f x)" by simp
  moreover have "uint (f x) + (\<Sum>i \<in> F. uint (f i)) < 2 ^ 64" using insert by simp
  ultimately have "(\<Sum>i \<in> F. uint (f i)) < 2 ^ 64" by linarith
  then show ?case using insert by (simp add: uint_plus64)
qed simp

lemma Clip_less: "uint lo < b \<Longrightarrow> uint hi < b \<Longrightarrow> uint (Clip v lo hi) < b"
  using Clip_le [of v lo hi] by (auto simp: max_def split: if_splits)

lemma offer_bound:
  assumes "rates_ok mb pace p" and "i \<in> busy p (objs p)"
  shows "uint (fst (offer mb pace ratio p i)) < 2 ^ 50"
proof -
  let ?c = "ThrottleCfg p ! i"
  have b: "uint mb < 2 ^ 50" "uint (ReqRate ?c) < 2 ^ 50" "uint (LowRate ?c) < 2 ^ 50"
    using assms by (auto simp: rates_ok_def)
  have "fst (offer mb pace ratio p i) = 0 \<or> (\<exists>v. fst (offer mb pace ratio p i) = Clip v mb (ReqRate ?c))
     \<or> (\<exists>v. fst (offer mb pace ratio p i) = Clip v mb (LowRate ?c))"
    by (auto simp: offer_def allocMinRate_def Let_def)
  then show ?thesis
    using Clip_less [OF b(1,2)] Clip_less [OF b(1,3)] by (elim disjE exE) simp_all
qed

lemma busy_card: "procdata_wf p \<Longrightarrow> card (busy p (objs p)) \<le> 5000"
proof -
  assume "procdata_wf p"
  moreover have "busy p (objs p) \<subseteq> {..<objs p}" by (auto simp: busy_def)
  then have "card (busy p (objs p)) \<le> objs p" using card_mono [of "{..<objs p}"] by simp
  ultimately show ?thesis by (simp add: procdata_wf_def MaxObjSize_def)
qed

lemma offer_total_bounds:
  assumes "procdata_wf p" "rates_ok mb pace p"
  shows "0 \<le> offer_total mb pace ratio p" "offer_total mb pace ratio p < 2 ^ 63"
proof -
  show "0 \<le> offer_total mb pace ratio p" by (simp add: offer_total_def sum_nonneg)
  have "offer_total mb pace ratio p \<le> of_nat (card (busy p (objs p))) * 2 ^ 50"
    unfolding offer_total_def
    by (rule sum_bounded_above) (use offer_bound [OF assms(2)] in \<open>auto intro: less_imp_le\<close>)
  also have "\<dots> \<le> 5000 * 2 ^ 50" using busy_card [OF assms(1)] by (intro mult_right_mono) auto
  finally show "offer_total mb pace ratio p < 2 ^ 63" by simp
qed

lemma remaining_sint:
  assumes "procdata_wf p" "rates_ok mb pace p"
  shows "sint (remaining mb pace ratio p) = uint (TotalBw p) - offer_total mb pace ratio p"
proof -
  have b: "0 \<le> offer_total mb pace ratio p" "offer_total mb pace ratio p < 2 ^ 63" "uint (TotalBw p) < 2 ^ 56"
    using offer_total_bounds [OF assms] assms(2) by (auto simp: rates_ok_def)
  have u: "uint (\<Sum>i \<in> busy p (objs p). fst (offer mb pace ratio p i)) = offer_total mb pace ratio p"
    unfolding offer_total_def using b(2) by (intro sum_uint64) (simp_all add: offer_total_def)
  have s: "sint (\<Sum>i \<in> busy p (objs p). fst (offer mb pace ratio p i)) = offer_total mb pace ratio p"
    using b u by (subst sint_eq_uint64) simp_all
  have t: "sint (TotalBw p) = uint (TotalBw p)" using b by (intro sint_eq_uint64) simp
  have "- (2 ^ 63) \<le> uint (TotalBw p) - offer_total mb pace ratio p"
    "uint (TotalBw p) - offer_total mb pace ratio p < 2 ^ 63"
    using b uint_ge_0 [of "TotalBw p"] unfolding pow_lits by linarith+
  then show ?thesis unfolding remaining_def by (metis sint_minus64 s t)
qed

section \<open>What the second loop hands out\<close>

text \<open>The part of the remaining bandwidth that an object of the highest shares receives.\<close>

definition share_of :: "u64 \<Rightarrow> u64 \<Rightarrow> f64 \<Rightarrow> EdtProcData \<Rightarrow> nat \<Rightarrow> int" where
  "share_of mb pace ratio p q =
     (uint (TotalBw p) - offer_total mb pace ratio p) * PriorityAllocPercent ! q
       div shares mb pace ratio p div int (card (offered_prio mb pace ratio p {2} q (objs p)))"

lemma prio_less:
  assumes "prios_ok p" "i \<in> busy p (objs p)"
  shows "prio p i < 3"
  using assms by (simp add: prios_ok_def prio_def word_less_nat_alt)

lemma percent_bounds: "q < 3 \<Longrightarrow> 10 \<le> PriorityAllocPercent ! q \<and> PriorityAllocPercent ! q \<le> 70"
  by (auto simp: PriorityAllocPercent_def less_Suc_eq numeral_3_eq_3)

lemma offered_prio_card_le:
  assumes "procdata_wf p"
  shows "card (offered_prio mb pace ratio p S q (objs p)) \<le> 5000"
  using offered_card_le [of mb pace ratio p S q "objs p"] assms by (simp add: procdata_wf_def MaxObjSize_def)

lemma grant_reached:
  assumes wf: "procdata_wf p" "prios_ok p" "rates_ok mb pace p"
    and R: "offer_total mb pace ratio p < uint (TotalBw p)"
    and i: "i \<in> reached mb pace ratio p" and al: "needing mb pace ratio p \<subseteq> skipped mb pace ratio p i"
  shows "sint (grant mb pace ratio p i) = share_of mb pace ratio p (prio p i) + 1"
    and "0 \<le> share_of mb pace ratio p (prio p i)"
    and "share_of mb pace ratio p (prio p i) \<le> uint (TotalBw p) - offer_total mb pace ratio p"
proof -
  define r where "r = uint (TotalBw p) - offer_total mb pace ratio p"
  define P where "P = PriorityAllocPercent ! prio p i"
  define D where "D = shares mb pace ratio p"
  define c where "c = card (offered_prio mb pace ratio p {2} (prio p i) (objs p))"
  have q: "prio p i < 3" using prio_less [OF wf(2)] i sets_busy by blast
  have P: "10 \<le> P" "P \<le> 70" using percent_bounds [OF q] by (auto simp: P_def)
  have D: "P \<le> D" "0 < D" "D \<le> 100" using shares_bounds [OF i q] by (auto simp: P_def D_def)
  have "i \<in> offered_prio mb pace ratio p {2} (prio p i) (objs p)"
    using i by (simp add: offered_prio_def reached_def prio_def)
  then have "c \<noteq> 0" by (auto simp: c_def)
  moreover have "c \<le> 5000" unfolding c_def by (rule offered_prio_card_le [OF wf(1)])
  ultimately have c: "0 < c" "c \<le> 5000" by auto
  have r: "0 < r" "r < 2 ^ 56" using R wf(3) offer_total_bounds [OF wf(1,3), of ratio] by (auto simp: r_def rates_ok_def)
  have rem: "sint (remaining mb pace ratio p) = r" using remaining_sint [OF wf(1,3)] by (simp add: r_def)
  have rP: "0 \<le> r * P" "r * P < 2 ^ 56 * 70"
    using r P mult_less_le_imp_less [of r "2 ^ 56" P 70] by auto
  have sP: "sint (word_of_int P :: u64) = P" "sint (word_of_int D :: u64) = D" "sint (word_of_nat c :: u64) = int c"
    using P D c sint_of_int64 [of P] sint_of_int64 [of D] sint_of_int64 [of "int c"] by auto
  have m: "sint (remaining mb pace ratio p * word_of_int P) = r * P"
    using rP by (subst sint_times64) (simp_all add: rem sP)
  have d1: "sint (sdiv64 (remaining mb pace ratio p * word_of_int P) (word_of_int D)) = r * P div D"
    using rP D by (subst sdiv64_pos) (simp_all add: m sP)
  have n1: "0 \<le> r * P div D" using rP D by (simp add: pos_imp_zdiv_nonneg_iff)
  have d2: "sint (sdiv64 (sdiv64 (remaining mb pace ratio p * word_of_int P) (word_of_int D)) (word_of_nat c)) = r * P div D div int c"
    using n1 c by (subst sdiv64_pos) (simp_all add: d1 sP)
  have "r * P div D \<le> r * D div D" using r D by (intro zdiv_mono1 mult_left_mono) auto
  then have le1: "r * P div D \<le> r" using D by simp
  have le2: "r * P div D div int c \<le> r * P div D"
    using zdiv_mono2 [of "r * P div D" 1 "int c"] n1 c by simp
  have sh: "share_of mb pace ratio p (prio p i) = r * P div D div int c" by (simp add: share_of_def r_def P_def D_def c_def)
  show le: "share_of mb pace ratio p (prio p i) \<le> uint (TotalBw p) - offer_total mb pace ratio p"
    using le1 le2 sh r_def by linarith
  show nn: "0 \<le> share_of mb pace ratio p (prio p i)" using n1 c by (simp add: sh pos_imp_zdiv_nonneg_iff)
  have g: "grant mb pace ratio p i = sdiv64 (sdiv64 (remaining mb pace ratio p * word_of_int P) (word_of_int D)) (word_of_nat c) + 1"
    using i al sets_disjoint [OF i] r rem by (simp add: grant_def P_def D_def c_def)
  show "sint (grant mb pace ratio p i) = share_of mb pace ratio p (prio p i) + 1"
    unfolding g using nn le r sh by (subst sint_plus64) (simp_all add: d2 r_def)
qed

lemma grant_needing:
  assumes wf: "procdata_wf p" "rates_ok mb pace p"
    and R: "offer_total mb pace ratio p < uint (TotalBw p)"
    and i: "i \<in> needing mb pace ratio p" "i \<notin> skipped mb pace ratio p (Suc i)"
  shows "sint (grant mb pace ratio p i) = (uint (TotalBw p) - offer_total mb pace ratio p)
      div (int (card (needing mb pace ratio p)) - int (card (skipped mb pace ratio p i))) + 1"
    and "1 \<le> sint (grant mb pace ratio p i)"
    and "sint (grant mb pace ratio p i) \<le> uint (TotalBw p) - offer_total mb pace ratio p + 1"
proof -
  define r where "r = uint (TotalBw p) - offer_total mb pace ratio p"
  define d where "d = int (card (needing mb pace ratio p)) - int (card (skipped mb pace ratio p i))"
  have r: "0 < r" "r < 2 ^ 56" using R wf(2) offer_total_bounds [OF wf, of ratio] by (auto simp: r_def rates_ok_def)
  have rem: "sint (remaining mb pace ratio p) = r" using remaining_sint [OF wf] by (simp add: r_def)
  have "skipped mb pace ratio p i \<subset> needing mb pace ratio p"
    using skipped_sub [of mb pace ratio p i] i(1) skipped_fresh(1) [of i mb pace ratio p] by blast
  then have "card (skipped mb pace ratio p i) < card (needing mb pace ratio p)" by (intro psubset_card_mono) simp_all
  then have d: "0 < d" by (simp add: d_def)
  have q: "0 \<le> r div d" "r div d \<le> r" using r d zdiv_mono2 [of r 1 d] by (auto simp: pos_imp_zdiv_nonneg_iff)
  have "grant mb pace ratio p i = word_of_int (r div d) + 1"
    using i r rem d by (simp add: grant_def go_quot_nonneg flip: d_def)
  then have "sint (grant mb pace ratio p i) = r div d + 1"
    using q r sint_of_int64 [of "r div d + 1"] by simp
  then show "sint (grant mb pace ratio p i) = (uint (TotalBw p) - offer_total mb pace ratio p)
      div (int (card (needing mb pace ratio p)) - int (card (skipped mb pace ratio p i))) + 1"
    and "1 \<le> sint (grant mb pace ratio p i)"
    and "sint (grant mb pace ratio p i) \<le> uint (TotalBw p) - offer_total mb pace ratio p + 1"
    using q by (simp_all add: r_def d_def)
qed

lemma grant_none:
  assumes "i \<notin> needing mb pace ratio p \<or> i \<in> skipped mb pace ratio p (Suc i)"
    and "i \<notin> reached mb pace ratio p \<or> \<not> needing mb pace ratio p \<subseteq> skipped mb pace ratio p i"
  shows "grant mb pace ratio p i = 0"
  using assms sets_disjoint [of i mb pace ratio p] by (auto simp: grant_def)

lemma grant_exhausted:
  assumes "procdata_wf p" "rates_ok mb pace p" "uint (TotalBw p) \<le> offer_total mb pace ratio p"
  shows "grant mb pace ratio p i = 0"
  using remaining_sint [OF assms(1,2), of ratio] assms(3) by (simp add: grant_def)

text \<open>A single grant is at most what remained before the second loop, plus one.\<close>

lemma grant_bounds:
  assumes wf: "procdata_wf p" "prios_ok p" "rates_ok mb pace p"
    and R: "offer_total mb pace ratio p < uint (TotalBw p)"
  shows "uint (grant mb pace ratio p i) = sint (grant mb pace ratio p i)"
    and "uint (grant mb pace ratio p i) \<le> uint (TotalBw p) - offer_total mb pace ratio p + 1"
proof -
  have "0 \<le> sint (grant mb pace ratio p i)
    \<and> sint (grant mb pace ratio p i) \<le> uint (TotalBw p) - offer_total mb pace ratio p + 1"
  proof (cases "i \<in> needing mb pace ratio p \<and> i \<notin> skipped mb pace ratio p (Suc i)")
    case True
    then show ?thesis using grant_needing(2,3) [OF wf(1,3) R, of i] by linarith
  next
    case False
    show ?thesis
    proof (cases "i \<in> reached mb pace ratio p \<and> needing mb pace ratio p \<subseteq> skipped mb pace ratio p i")
      case True
      then show ?thesis using grant_reached [OF wf R, of i] by linarith
    next
      case False2: False
      have "grant mb pace ratio p i = 0" by (rule grant_none) (use False False2 in auto)
      then show ?thesis using R by simp
    qed
  qed
  then show "uint (grant mb pace ratio p i) = sint (grant mb pace ratio p i)"
    and "uint (grant mb pace ratio p i) \<le> uint (TotalBw p) - offer_total mb pace ratio p + 1"
    using uint_eq_sint64 [of "grant mb pace ratio p i"] by auto
qed

definition grant_total :: "u64 \<Rightarrow> u64 \<Rightarrow> f64 \<Rightarrow> EdtProcData \<Rightarrow> nat \<Rightarrow> int" where
  "grant_total mb pace ratio p k = (\<Sum>i < k. uint (grant mb pace ratio p i))"

lemma grant_total_Suc: "grant_total mb pace ratio p (Suc k) = grant_total mb pace ratio p k + uint (grant mb pace ratio p k)"
  by (simp add: grant_total_def)

lemma grant_total_nonneg: "0 \<le> grant_total mb pace ratio p k"
  by (simp add: grant_total_def sum_nonneg)

lemma vary_sint:
  assumes wf: "procdata_wf p" "prios_ok p" "rates_ok mb pace p"
    and R: "offer_total mb pace ratio p < uint (TotalBw p)"
    and G: "grant_total mb pace ratio p (Suc k) \<le> 2 ^ 57"
  shows "sint (remaining mb pace ratio p - (\<Sum>i \<le> k. grant mb pace ratio p i))
    = uint (TotalBw p) - offer_total mb pace ratio p - grant_total mb pace ratio p (Suc k)"
proof -
  let ?r = "uint (TotalBw p) - offer_total mb pace ratio p"
  have r: "0 < ?r" "?r < 2 ^ 56" using R wf(3) offer_total_bounds [OF wf(1,3), of ratio] by (auto simp: rates_ok_def)
  have nn: "0 \<le> grant_total mb pace ratio p (Suc k)" by (rule grant_total_nonneg)
  have "uint (\<Sum>i \<le> k. grant mb pace ratio p i) = grant_total mb pace ratio p (Suc k)"
    unfolding grant_total_def lessThan_Suc_atMost
    by (rule sum_uint64) (use G in \<open>simp_all add: grant_total_def lessThan_Suc_atMost\<close>)
  then have s: "sint (\<Sum>i \<le> k. grant mb pace ratio p i) = grant_total mb pace ratio p (Suc k)"
    using G by (subst sint_eq_uint64) simp_all
  have rem: "sint (remaining mb pace ratio p) = ?r" by (rule remaining_sint [OF wf(1,3)])
  have "- (2 ^ 63) \<le> ?r - grant_total mb pace ratio p (Suc k)"
    using r nn G unfolding pow_lits by arith
  moreover have "?r - grant_total mb pace ratio p (Suc k) < 2 ^ 63"
    using r nn unfolding pow_lits by arith
  ultimately show ?thesis by (metis sint_minus64 s rem)
qed

text \<open>The sum of the new rates is the sum of the offers and of the grants made.\<close>

lemma busy_split: "m \<le> objs p \<Longrightarrow> (\<Sum>i \<in> busy p (objs p). if i < m then f i else 0) = (\<Sum>i \<in> busy p m. f i)"
  for f :: "nat \<Rightarrow> int"
proof -
  assume "m \<le> objs p"
  then have "busy p m = busy p (objs p) \<inter> {i. i < m}" by (auto simp: busy_def)
  then show ?thesis by (simp add: sum.inter_restrict)
qed

lemma grant_busy: "i \<notin> busy p (objs p) \<Longrightarrow> grant mb pace ratio p i = 0"
  using sets_busy [of mb pace ratio p] by (intro grant_none) auto

lemma grant_total_busy:
  assumes "m \<le> objs p"
  shows "(\<Sum>i \<in> busy p m. uint (grant mb pace ratio p i)) = grant_total mb pace ratio p m"
proof -
  have "busy p m \<subseteq> {..<m}" by (auto simp: busy_def)
  moreover have "uint (grant mb pace ratio p i) = 0" if "i \<in> {..<m} - busy p m" for i
    using that assms grant_busy [of i p mb pace ratio] by (auto simp: busy_def)
  ultimately show ?thesis unfolding grant_total_def by (intro sum.mono_neutral_left) auto
qed

lemma granted_total_eq:
  assumes wf: "procdata_wf p" "rates_ok mb pace p" and m: "m \<le> objs p"
    and g: "\<And>i. uint (grant mb pace ratio p i) \<le> 2 ^ 57"
  shows "granted_total p (p\<lparr>ThrottleCfg := map (cfg_granted mb pace ratio p m) [0..<objs p], ObjStatus := s\<rparr>)
    = offer_total mb pace ratio p + grant_total mb pace ratio p m"
proof -
  have "uint (ReqRate (map (cfg_granted mb pace ratio p m) [0..<objs p] ! i))
      = uint (fst (offer mb pace ratio p i)) + (if i < m then uint (grant mb pace ratio p i) else 0)"
    if "i \<in> busy p (objs p)" for i
  proof -
    have "uint (fst (offer mb pace ratio p i)) + uint (grant mb pace ratio p i) < 2 ^ 64"
      using offer_bound [OF wf(2) that, of ratio] g [of i] unfolding pow_lits by linarith
    moreover have "i < objs p" using that by (simp add: busy_def)
    ultimately show ?thesis
      using that by (simp add: cfg_granted_def cfg_after_def Let_def uint_plus64)
  qed
  then have "granted_total p (p\<lparr>ThrottleCfg := map (cfg_granted mb pace ratio p m) [0..<objs p], ObjStatus := s\<rparr>)
    = (\<Sum>i \<in> busy p (objs p). uint (fst (offer mb pace ratio p i)) + (if i < m then uint (grant mb pace ratio p i) else 0))"
    unfolding granted_total_def by (intro sum.cong) auto
  then show ?thesis
    by (simp add: sum.distrib offer_total_def busy_split [OF m] grant_total_busy [OF m])
qed

section \<open>The sum of the grants\<close>

lemma unskipped_iff:
  "i < objs p \<Longrightarrow> i \<in> needing mb pace ratio p \<Longrightarrow>
   i \<in> skipped mb pace ratio p (Suc i) \<longleftrightarrow> i \<in> skipped mb pace ratio p (objs p)"
  by (auto simp: skipped_def)

lemma skipped_mono: "i \<le> k \<Longrightarrow> skipped mb pace ratio p i \<subseteq> skipped mb pace ratio p k"
  by (auto simp: skipped_def)

lemma grant_sum_subset:
  assumes "A \<subseteq> busy p (objs p)" and "\<And>i. i \<in> busy p (objs p) - A \<Longrightarrow> grant mb pace ratio p i = 0"
  shows "grant_total mb pace ratio p (objs p) = (\<Sum>i \<in> A. uint (grant mb pace ratio p i))"
  unfolding grant_total_busy [OF order_refl, symmetric]
  by (rule sum.mono_neutral_right) (use assms in auto)

lemma share_times:
  fixes x c :: int
  assumes "0 < c"
  shows "c * (x div c) \<le> x" and "x < c * (x div c + 1)"
proof -
  have e: "c * (x div c) + x mod c = x" by simp
  then show "c * (x div c) \<le> x" using pos_mod_sign [OF assms, of x] by linarith
  have "c * (x div c + 1) = c * (x div c) + c" by (simp add: algebra_simps)
  then show "x < c * (x div c + 1)" using e pos_mod_bound [OF assms, of x] by linarith
qed

text \<open>While an object that needs bandwidth is served, the grants split what remains evenly.\<close>

lemma grant_total_needing:
  assumes wf: "procdata_wf p" "prios_ok p" "rates_ok mb pace p"
    and R: "offer_total mb pace ratio p < uint (TotalBw p)"
    and ne: "\<not> needing mb pace ratio p \<subseteq> skipped mb pace ratio p (objs p)"
  defines "U \<equiv> needing mb pace ratio p - skipped mb pace ratio p (objs p)"
    and "r \<equiv> uint (TotalBw p) - offer_total mb pace ratio p"
  shows "grant_total mb pace ratio p (objs p) \<le> r + int (card U)"
    and "skipped mb pace ratio p (objs p) = {} \<Longrightarrow> r \<le> grant_total mb pace ratio p (objs p)"
proof -
  have fin: "finite U" by (simp add: U_def)
  have U: "U \<noteq> {}" "U \<subseteq> busy p (objs p)" using ne sets_busy [of mb pace ratio p] by (auto simp: U_def)
  have c: "0 < int (card U)" using fin U(1) by (simp add: card_gt_0_iff)
  have cU: "int (card U) = int (card (needing mb pace ratio p)) - int (card (skipped mb pace ratio p (objs p)))"
    unfolding U_def using card_Diff_subset [OF _ skipped_sub [of mb pace ratio p "objs p"]]
      card_mono [OF _ skipped_sub [of mb pace ratio p "objs p"]] by (simp add: of_nat_diff)
  have "grant mb pace ratio p i = 0" if "i \<in> busy p (objs p) - U" for i
  proof (rule grant_none)
    have "i < objs p" using that by (simp add: busy_def)
    then show "i \<notin> needing mb pace ratio p \<or> i \<in> skipped mb pace ratio p (Suc i)"
      using that unskipped_iff [of i p mb pace ratio] by (auto simp: U_def)
    show "i \<notin> reached mb pace ratio p \<or> \<not> needing mb pace ratio p \<subseteq> skipped mb pace ratio p i"
      using ne skipped_mono [of i "objs p" mb pace ratio p] \<open>i < objs p\<close> by auto
  qed
  then have tot: "grant_total mb pace ratio p (objs p) = (\<Sum>i \<in> U. uint (grant mb pace ratio p i))"
    by (rule grant_sum_subset [OF U(2)])
  have g: "uint (grant mb pace ratio p i) = r div (int (card (needing mb pace ratio p)) - int (card (skipped mb pace ratio p i))) + 1"
    and s: "card (skipped mb pace ratio p i) \<le> card (skipped mb pace ratio p (objs p))" if "i \<in> U" for i
  proof -
    have i: "i < objs p" "i \<in> needing mb pace ratio p" "i \<notin> skipped mb pace ratio p (Suc i)"
      using that U(2) unskipped_iff [of i p mb pace ratio] by (auto simp: U_def busy_def)
    then show "uint (grant mb pace ratio p i) = r div (int (card (needing mb pace ratio p)) - int (card (skipped mb pace ratio p i))) + 1"
      using grant_needing(1) [OF wf(1,3) R] grant_bounds(1) [OF wf R] by (simp add: r_def)
    show "card (skipped mb pace ratio p i) \<le> card (skipped mb pace ratio p (objs p))"
      using i(1) by (intro card_mono skipped_mono) auto
  qed
  have r: "0 < r" using R by (simp add: r_def)
  have "grant_total mb pace ratio p (objs p) \<le> of_nat (card U) * (r div int (card U) + 1)"
    unfolding tot
  proof (rule sum_bounded_above)
    fix i assume i: "i \<in> U"
    have "r div (int (card (needing mb pace ratio p)) - int (card (skipped mb pace ratio p i))) \<le> r div int (card U)"
      using s [OF i] c cU r by (intro zdiv_mono2) auto
    then show "uint (grant mb pace ratio p i) \<le> r div int (card U) + 1" using g [OF i] by simp
  qed
  also have "\<dots> \<le> r + int (card U)" using share_times(1) [OF c, of r] by (simp add: algebra_simps)
  finally show "grant_total mb pace ratio p (objs p) \<le> r + int (card U)" .
  assume z: "skipped mb pace ratio p (objs p) = {}"
  have "grant_total mb pace ratio p (objs p) = of_nat (card U) * (r div int (card U) + 1)"
    unfolding tot using g s z cU by (simp)
  also have "r < \<dots>" using share_times(2) [OF c, of r] by simp
  finally show "r \<le> grant_total mb pace ratio p (objs p)" by simp
qed

text \<open>When every object has its guaranteed rate, the grants follow the shares of the priorities.\<close>

lemma sum_by_prio:
  assumes "prios_ok p"
  shows "(\<Sum>i \<in> reached mb pace ratio p. f (prio p i)) =
    (\<Sum>q < 3. int (card (offered_prio mb pace ratio p {2} q (objs p))) * f q)"
proof -
  have "prio p ` reached mb pace ratio p \<subseteq> {..<3}" using prio_less [OF assms] sets_busy [of mb pace ratio p] by auto
  then have "(\<Sum>i \<in> reached mb pace ratio p. f (prio p i))
      = (\<Sum>q < 3. \<Sum>i \<in> {i \<in> reached mb pace ratio p. prio p i = q}. f (prio p i))"
    by (intro sum.group [symmetric]) auto
  also have "\<dots> = (\<Sum>q < 3. int (card (offered_prio mb pace ratio p {2} q (objs p))) * f q)"
    by (intro sum.cong) (auto simp: offered_prio_def reached_def prio_def)
  finally show ?thesis .
qed

lemma three_sum: "(\<Sum>q < (3::nat). f q) = f 0 + f 1 + f 2" for f :: "nat \<Rightarrow> int"
  by (simp add: numeral_3_eq_3 numeral_2_eq_2)

text \<open>
  Dividing \<open>r\<close> in proportion \<open>P q\<close> to \<open>D\<close> among the classes with members, and each part evenly
  among its members: rounding down loses less than one per member.
\<close>

lemma proportional_sum:
  fixes P :: "nat \<Rightarrow> int" and c :: "nat \<Rightarrow> int"
  assumes "0 \<le> r" "0 < D" and c: "\<And>q. 0 \<le> c q" and P: "\<And>q. q < 3 \<Longrightarrow> 0 \<le> P q"
  defines "S \<equiv> (\<Sum>q < 3. if c q = 0 then 0 else P q)"
  shows "S \<le> D \<Longrightarrow> (\<Sum>q < 3. c q * (r * P q div D div c q)) \<le> r"
    and "S = D \<Longrightarrow> r \<le> (\<Sum>q < 3. c q * (r * P q div D div c q + 1))"
proof -
  define y where "y q = (if c q = 0 then 0 else P q)" for q
  have up: "D * (c q * (r * P q div D div c q)) \<le> r * y q" if "q < 3" for q
  proof (cases "c q = 0")
    case False
    then have "0 < c q" using c [of q] by simp
    then have "c q * (r * P q div D div c q) \<le> r * P q div D" by (rule share_times(1))
    then have "D * (c q * (r * P q div D div c q)) \<le> D * (r * P q div D)" using assms(2) by simp
    also have "\<dots> \<le> r * P q" by (rule share_times(1) [OF assms(2)])
    finally show ?thesis using False by (simp add: y_def)
  qed (simp add: y_def)
  have lo: "r * y q \<le> D * (c q * (r * P q div D div c q + 1))" if "q < 3" for q
  proof (cases "c q = 0")
    case False
    then have "0 < c q" using c [of q] by simp
    then have "r * P q div D + 1 \<le> c q * (r * P q div D div c q + 1)" using share_times(2) [of "c q" "r * P q div D"] by simp
    then have "D * (r * P q div D + 1) \<le> D * (c q * (r * P q div D div c q + 1))"
      using assms(2) by (intro mult_left_mono) auto
    with share_times(2) [OF assms(2), of "r * P q"] show ?thesis using False by (simp add: y_def)
  qed (simp add: y_def)
  have S: "S = y 0 + y 1 + y 2" unfolding S_def three_sum y_def ..
  {
    assume "S \<le> D"
    have "D * (\<Sum>q < 3. c q * (r * P q div D div c q)) \<le> r * S"
      unfolding three_sum S using up [of 0] up [of 1] up [of 2] by (simp add: algebra_simps)
    also have "\<dots> \<le> D * r" using mult_right_mono [OF \<open>S \<le> D\<close> assms(1)] by (simp add: mult.commute)
    finally show "(\<Sum>q < 3. c q * (r * P q div D div c q)) \<le> r" using assms(2) by simp
  next
    assume "S = D"
    then have "D * r = r * S" by simp
    also have "\<dots> \<le> D * (\<Sum>q < 3. c q * (r * P q div D div c q + 1))"
      unfolding three_sum S using lo [of 0] lo [of 1] lo [of 2] by (simp add: algebra_simps)
    finally show "r \<le> (\<Sum>q < 3. c q * (r * P q div D div c q + 1))" using assms(2) by simp
  }
qed

lemma grant_total_reached:
  assumes wf: "procdata_wf p" "prios_ok p" "rates_ok mb pace p"
    and R: "offer_total mb pace ratio p < uint (TotalBw p)"
    and sk: "needing mb pace ratio p \<subseteq> skipped mb pace ratio p (objs p)"
  defines "r \<equiv> uint (TotalBw p) - offer_total mb pace ratio p"
  shows "grant_total mb pace ratio p (objs p) \<le> r + int (card (reached mb pace ratio p))"
    and "needing mb pace ratio p = {} \<Longrightarrow> reached mb pace ratio p \<noteq> {} \<Longrightarrow> r \<le> grant_total mb pace ratio p (objs p)"
proof -
  define c where "c q = int (card (offered_prio mb pace ratio p {2} q (objs p)))" for q
  define D where "D = shares mb pace ratio p"
  have r: "0 \<le> r" using R by (simp add: r_def)
  have share: "share_of mb pace ratio p q = r * PriorityAllocPercent ! q div D div c q" for q
    by (simp add: share_of_def r_def D_def c_def)
  have z: "grant mb pace ratio p i = 0" if "i \<in> busy p (objs p) - reached mb pace ratio p" for i
  proof (rule grant_none)
    have "i < objs p" using that by (simp add: busy_def)
    then show "i \<notin> needing mb pace ratio p \<or> i \<in> skipped mb pace ratio p (Suc i)"
      using sk unskipped_iff [of i p mb pace ratio] by auto
  qed (use that in auto)
  then have tot: "grant_total mb pace ratio p (objs p) = (\<Sum>i \<in> reached mb pace ratio p. uint (grant mb pace ratio p i))"
    by (intro grant_sum_subset) (use sets_busy in auto)
  have g: "uint (grant mb pace ratio p i) \<le> share_of mb pace ratio p (prio p i) + 1"
    "needing mb pace ratio p = {} \<Longrightarrow> uint (grant mb pace ratio p i) = share_of mb pace ratio p (prio p i) + 1"
    if "i \<in> reached mb pace ratio p" for i
  proof -
    show "needing mb pace ratio p = {} \<Longrightarrow> uint (grant mb pace ratio p i) = share_of mb pace ratio p (prio p i) + 1"
      using grant_reached(1) [OF wf R that] grant_bounds(1) [OF wf R] by simp
    have sh: "0 \<le> share_of mb pace ratio p (prio p i)"
    proof -
      have "prio p i < 3" using that sets_busy by (intro prio_less [OF wf(2)]) blast
      then have "0 \<le> r * PriorityAllocPercent ! prio p i" "0 < D"
        using r percent_bounds [of "prio p i"] shares_bounds(2) [OF that] by (auto simp: D_def)
      then show ?thesis by (simp add: share div_int_pos_iff c_def)
    qed
    show "uint (grant mb pace ratio p i) \<le> share_of mb pace ratio p (prio p i) + 1"
    proof (cases "needing mb pace ratio p \<subseteq> skipped mb pace ratio p i")
      case True
      then show ?thesis using grant_reached(1) [OF wf R that] grant_bounds(1) [OF wf R] by simp
    next
      case False
      then have "grant mb pace ratio p i = 0" using sets_disjoint [OF that] by (intro grant_none) auto
      then show ?thesis using sh by simp
    qed
  qed
  have S: "(\<Sum>q < 3. if c q = 0 then 0 else PriorityAllocPercent ! q) \<le> D"
    unfolding D_def shares_def
  proof (rule sum_mono)
    fix q :: nat assume "q \<in> {..<3}"
    moreover have "offered_prio mb pace ratio p {2} q (objs p) \<subseteq> offered_prio mb pace ratio p {1, 2} q (objs p)"
      by (auto simp: offered_prio_def offered_def)
    ultimately show "(if c q = 0 then 0 else PriorityAllocPercent ! q)
       \<le> (if offered_prio mb pace ratio p {1, 2} q (objs p) = {} then 0 else PriorityAllocPercent ! q)"
      using percent_bounds [of q] by (auto simp: c_def)
  qed
  have P: "0 \<le> PriorityAllocPercent ! q" if "q < 3" for q using percent_bounds [OF that] by simp
  have c: "0 \<le> c q" for q by (simp add: c_def)
  show "grant_total mb pace ratio p (objs p) \<le> r + int (card (reached mb pace ratio p))"
  proof (cases "reached mb pace ratio p = {}")
    case True
    then show ?thesis using tot r by simp
  next
    case False
    then have D: "0 < D" using shares_bounds(2) prio_less [OF wf(2)] sets_busy unfolding D_def by blast
    have "grant_total mb pace ratio p (objs p) \<le> (\<Sum>i \<in> reached mb pace ratio p. share_of mb pace ratio p (prio p i) + 1)"
      unfolding tot by (intro sum_mono g)
    also have "\<dots> = (\<Sum>q < 3. c q * (r * PriorityAllocPercent ! q div D div c q)) + int (card (reached mb pace ratio p))"
      by (subst sum.distrib, subst sum_by_prio [OF wf(2), where f = "share_of mb pace ratio p"])
        (simp add: share c_def)
    finally show ?thesis using proportional_sum(1) [OF r D c P S] by simp
  qed
  assume n: "needing mb pace ratio p = {}" and ne: "reached mb pace ratio p \<noteq> {}"
  then have D: "0 < D" using shares_bounds(2) prio_less [OF wf(2)] sets_busy unfolding D_def by blast
  have "offered_prio mb pace ratio p {1, 2} q (objs p) = offered_prio mb pace ratio p {2} q (objs p)" for q
    using n by (auto simp: offered_prio_def offered_def needing_def)
  then have SD: "(\<Sum>q < 3. if c q = 0 then 0 else PriorityAllocPercent ! q) = D"
    by (auto simp: D_def shares_def c_def intro!: sum.cong)
  have "grant_total mb pace ratio p (objs p) = (\<Sum>i \<in> reached mb pace ratio p. share_of mb pace ratio p (prio p i) + 1)"
    unfolding tot using g(2) n by (intro sum.cong) auto
  also have "\<dots> = (\<Sum>q < 3. c q * (r * PriorityAllocPercent ! q div D div c q + 1))"
    by (subst sum_by_prio [OF wf(2), where f = "\<lambda>q. share_of mb pace ratio p q + 1"]) (simp add: share c_def)
  finally show "r \<le> grant_total mb pace ratio p (objs p)" using proportional_sum(2) [OF r D c P SD] by simp
qed

section \<open>Properties of a round\<close>

lemma cfg_granted_ReqRate: "\<exists>r. cfg_granted mb pace ratio p m i = (ThrottleCfg p ! i)\<lparr>ReqRate := r\<rparr>"
  "i \<notin> busy p (objs p) \<Longrightarrow> cfg_granted mb pace ratio p m i = ThrottleCfg p ! i"
proof -
  show "i \<notin> busy p (objs p) \<Longrightarrow> cfg_granted mb pace ratio p m i = ThrottleCfg p ! i"
    using grant_busy [of i p mb pace ratio] by (simp add: cfg_granted_def cfg_after_def Let_def)
  have "\<exists>r. c = c\<lparr>ReqRate := r\<rparr>" for c :: TcEdtThrottleCfg by (rule exI [of _ "ReqRate c"]) simp
  then show "\<exists>r. cfg_granted mb pace ratio p m i = (ThrottleCfg p ! i)\<lparr>ReqRate := r\<rparr>"
    by (auto simp: cfg_granted_def cfg_after_def Let_def)
qed

text \<open>C4: A round returns (no index panic, no division by zero) on any data that a read
  produces, as long as the pace is not zero and the objects with traffic have one of the three
  priorities. It changes nothing but \<open>ReqRate\<close>, and that only for objects with traffic.\<close>

theorem alloc_round_safe:
  assumes "procdata_wf p" and "prios_ok p" and "pace \<noteq> 0"
  shows "\<exists>p'. alloc_round mb pace ratio p = Done p'
    \<and> length (ThrottleCfg p') = length (ThrottleCfg p)
    \<and> (\<forall>i < length (ThrottleCfg p). ThrottleCfg p' ! i = (ThrottleCfg p ! i)\<lparr>ReqRate := ReqRate (ThrottleCfg p' ! i)\<rparr>
         \<and> (ObjStatus p ! i \<noteq> 1 \<longrightarrow> ThrottleCfg p' ! i = ThrottleCfg p ! i))
    \<and> p'\<lparr>ThrottleCfg := ThrottleCfg p, ObjStatus := ObjStatus p\<rparr> = p"
proof -
  obtain m where m: "alloc_round mb pace ratio p = Done (p\<lparr>ThrottleCfg := map (cfg_granted mb pace ratio p m) [0..<objs p],
           ObjStatus := map (status_after mb pace ratio p (objs p)) [0..<objs p]\<rparr>)"
    by (rule alloc_round_closed [OF assms, of mb ratio])
  have l: "length (ThrottleCfg p) = objs p" using assms(1) by (simp add: procdata_wf_def)
  have "cfg_granted mb pace ratio p m i = (ThrottleCfg p ! i)\<lparr>ReqRate := ReqRate (cfg_granted mb pace ratio p m i)\<rparr>" for i
    using cfg_granted_ReqRate(1) [of mb pace ratio p m i] by force
  moreover have "cfg_granted mb pace ratio p m i = ThrottleCfg p ! i" if "ObjStatus p ! i \<noteq> 1" for i
    using that by (intro cfg_granted_ReqRate(2)) (simp add: busy_def)
  ultimately show ?thesis unfolding m using l by simp
qed

text \<open>C8: An object with traffic whose priority is above 2 and whose rate is not being lowered
  stops the allocator with an index panic: a priority above 2 is accepted by \<open>SetFlow\<close>.\<close>

theorem alloc_round_bad_priority:
  assumes "procdata_wf p" and "pace \<noteq> 0" and "i < length (ThrottleStat p)" and "ObjStatus p ! i = 1"
    and "\<not> flt (f64_of_u64 (Rate (ThrottleStat p ! i))) (fmul (f64_of_u64 (ReqRate (ThrottleCfg p ! i))) ratio)"
    and "3 \<le> cfg_Priority (ThrottleCfg p ! i)"
  shows "alloc_round mb pace ratio p = Panic IndexOutOfRange"
proof -
  define bad where "bad j \<longleftrightarrow> j \<in> offered mb pace ratio p {1, 2} (objs p) \<and> 3 \<le> cfg_Priority (ThrottleCfg p ! j)" for j
  have "snd (offer mb pace ratio p i) \<in> {1, 2}"
    using assms(2,5) by (simp add: offer_def allocMinRate_def Let_def)
  then have "bad i" using assms by (simp add: bad_def offered_def busy_def)
  define k where "k = (LEAST j. bad j)"
  have k: "bad k" unfolding k_def by (rule LeastI [of bad, OF \<open>bad i\<close>])
  have min: "\<not> bad j" if "j < k" for j using that unfolding k_def by (rule not_less_Least)
  have kn: "k < objs p" "ObjStatus p ! k = 1" using k by (auto simp: bad_def offered_def busy_def)
  have "cfg_Priority (ThrottleCfg p ! j) < 3" if "j \<in> offered mb pace ratio p {1, 2} k" for j
    using that min [of j] kn by (auto simp: bad_def offered_def busy_def not_le)
  with min_loop_inv [OF assms(1,2), of k mb ratio] kn obtain a where
    a: "min_loop mb pace ratio (ThrottleStat p) [0..<k] (alloc_init p) = Done a" "min_inv mb pace ratio p k a" by auto
  obtain rate status where o: "offer mb pace ratio p k = (rate, status)" by fastforce
  then have st: "status = 1 \<or> status = 2" using k by (auto simp: bad_def offered_def)
  have c: "al_Cfg a ! k = ThrottleCfg p ! k" "al_Status a ! k = 1" "length (al_Cfg a) > k" "length (al_Status a) > k"
    "length (al_priorityCnt a) = 3"
    using a(2) kn by (simp_all add: min_inv_def cfg_after_def status_after_def)
  have "bump 1 (cfg_Priority (ThrottleCfg p ! k)) (al_priorityCnt a) = Panic IndexOutOfRange"
    using k c by (simp add: bump_def bad_def word_le_nat_alt)
  then have "min_step mb pace ratio (ThrottleStat p) k a = Panic IndexOutOfRange"
    using st c offer_Done [OF assms(2), of mb ratio p k] o by (auto simp: min_step_def Let_def)
  then have "min_loop mb pace ratio (ThrottleStat p) ([0..<k] @ k # [Suc k..<objs p]) (alloc_init p) = Panic IndexOutOfRange"
    using a(1) by (simp add: min_loop_append)
  moreover have "[0..<objs p] = [0..<k] @ k # [Suc k..<objs p]"
    using kn by (metis upt_add_eq_append le0 le_add_diff_inverse less_imp_le upt_conv_Cons)
  ultimately show ?thesis by (simp add: alloc_round_def)
qed

text \<open>What the second loop hands out in all, on the part of the objects it reaches.\<close>

lemma grant_total_mono: "m \<le> k \<Longrightarrow> grant_total mb pace ratio p m \<le> grant_total mb pace ratio p k"
  unfolding grant_total_def by (intro sum_mono2) auto

lemma grant_total_le:
  assumes wf: "procdata_wf p" "prios_ok p" "rates_ok mb pace p"
    and R: "offer_total mb pace ratio p < uint (TotalBw p)" and m: "m \<le> objs p"
  shows "grant_total mb pace ratio p m
    \<le> uint (TotalBw p) - offer_total mb pace ratio p + int (card (busy p (objs p)))"
proof -
  have "card (needing mb pace ratio p - skipped mb pace ratio p (objs p)) \<le> card (busy p (objs p))"
    "card (reached mb pace ratio p) \<le> card (busy p (objs p))"
    using sets_busy [of mb pace ratio p] by (auto intro: card_mono)
  then show ?thesis
    using grant_total_needing(1) [OF wf R] grant_total_reached(1) [OF wf R] grant_total_mono [OF m, of mb pace ratio p]
    by (cases "needing mb pace ratio p \<subseteq> skipped mb pace ratio p (objs p)") auto
qed

lemma round_total:
  assumes wf: "procdata_wf p" "prios_ok p" "rates_ok mb pace p"
  obtains m p' where "m \<le> objs p" "alloc_round mb pace ratio p = Done p'"
    and "granted_total p p' = offer_total mb pace ratio p + grant_total mb pace ratio p m"
    and "m < objs p \<Longrightarrow> 0 < m \<and> \<not> goes_on mb pace ratio p (m - 1)"
proof -
  have "pace \<noteq> 0" using wf(3) by (auto simp: rates_ok_def)
  from alloc_round_closed [OF wf(1,2) this, of mb ratio] obtain m where
    m: "m \<le> objs p" "m < objs p \<Longrightarrow> 0 < m \<and> \<not> goes_on mb pace ratio p (m - 1)" and
    p': "alloc_round mb pace ratio p = Done (p\<lparr>ThrottleCfg := map (cfg_granted mb pace ratio p m) [0..<objs p],
           ObjStatus := map (status_after mb pace ratio p (objs p)) [0..<objs p]\<rparr>)" by blast
  have T: "uint (TotalBw p) < 2 ^ 56" "0 \<le> offer_total mb pace ratio p"
    using wf offer_total_bounds(1) [OF wf(1,3), of ratio] by (auto simp: rates_ok_def)
  have "uint (grant mb pace ratio p i) \<le> 2 ^ 57" for i
  proof (cases "offer_total mb pace ratio p < uint (TotalBw p)")
    case True
    then show ?thesis using grant_bounds(2) [OF wf True, of i] T unfolding pow_lits by linarith
  next
    case False
    then have "grant mb pace ratio p i = 0" by (intro grant_exhausted [OF wf(1,3)]) simp
    then show ?thesis by simp
  qed
  from granted_total_eq [OF wf(1,3) m(1) this] m p' that show thesis by blast
qed

text \<open>C1: In total a round gives exactly the offers of the first loop when these already fill the
  link; otherwise it gives at most the bandwidth of the link, up to one byte per second for each
  object with traffic. No rate wraps around.\<close>

theorem alloc_total_bound:
  assumes "procdata_wf p" and "prios_ok p" and "rates_ok mb pace p"
  shows "\<exists>p'. alloc_round mb pace ratio p = Done p' \<and>
    (if offer_total mb pace ratio p < uint (TotalBw p)
     then offer_total mb pace ratio p \<le> granted_total p p'
        \<and> granted_total p p' \<le> uint (TotalBw p) + int (unat (ValidObjCnt p))
     else granted_total p p' = offer_total mb pace ratio p)"
proof -
  obtain m p' where m: "m \<le> objs p" "alloc_round mb pace ratio p = Done p'"
    "granted_total p p' = offer_total mb pace ratio p + grant_total mb pace ratio p m"
    by (rule round_total [OF assms, of ratio])
  have v: "int (unat (ValidObjCnt p)) = int (card (busy p (objs p)))" using assms(1) by (simp add: procdata_wf_def)
  have "grant_total mb pace ratio p m = 0" if "\<not> offer_total mb pace ratio p < uint (TotalBw p)"
    using grant_exhausted [OF assms(1,3)] that by (simp add: grant_total_def)
  then show ?thesis
    using m grant_total_le [OF assms _ m(1), of ratio] grant_total_nonneg [of mb pace ratio p m] unfolding v by auto
qed

text \<open>C2: The whole link is handed out: when the offers leave bandwidth over, some object wants more
  than it has, and no object is passed over for using too little of its offer, then the new rates
  add up to at least the bandwidth of the link.\<close>

theorem alloc_work_conserving:
  assumes "procdata_wf p" and "prios_ok p" and "rates_ok mb pace p"
    and "offer_total mb pace ratio p < uint (TotalBw p)"
    and "skipped mb pace ratio p (length (ThrottleStat p)) = {}"
    and "needing mb pace ratio p \<union> reached mb pace ratio p \<noteq> {}"
  shows "\<exists>p'. alloc_round mb pace ratio p = Done p' \<and> uint (TotalBw p) \<le> granted_total p p'"
proof -
  let ?r = "uint (TotalBw p) - offer_total mb pace ratio p"
  obtain m p' where m: "m \<le> objs p" "alloc_round mb pace ratio p = Done p'"
    "granted_total p p' = offer_total mb pace ratio p + grant_total mb pace ratio p m"
    "m < objs p \<Longrightarrow> 0 < m \<and> \<not> goes_on mb pace ratio p (m - 1)"
    using round_total [OF assms(1-3), of ratio] by blast
  have le: "grant_total mb pace ratio p m \<le> ?r + int (card (busy p (objs p)))"
    by (rule grant_total_le [OF assms(1-4) m(1)])
  have all: "?r \<le> grant_total mb pace ratio p (objs p)"
    using grant_total_needing(2) [OF assms(1-4) _ assms(5)] grant_total_reached(2) [OF assms(1-4)] assms(5,6)
    by (cases "needing mb pace ratio p = {}") auto
  have "?r \<le> grant_total mb pace ratio p m"
  proof (cases "m < objs p")
    case True
    then obtain k where k: "m = Suc k" "\<not> goes_on mb pace ratio p k" using m(4) by (cases m) auto
    have "grant_total mb pace ratio p (Suc k) \<le> 2 ^ 57"
      using le busy_card [OF assms(1)] assms(3) offer_total_bounds(1) [OF assms(1,3), of ratio] k(1)
      by (simp add: rates_ok_def)
    from vary_sint [OF assms(1-4) this] k show ?thesis by (simp add: goes_on_def)
  next
    case False
    then show ?thesis using all m(1) by simp
  qed
  then show ?thesis using m by simp
qed

section \<open>Climbing to the guaranteed rate\<close>

lemma Clip_ge_min: "min (uint v) (uint hi) \<le> uint (Clip v lo hi)"
  by (auto simp: Clip_def word_less_def min_def)

text \<open>
  An object that uses at least its rate is not lowered: its new rate is at least the old one
  plus the pace's fraction of it, or its guaranteed rate.
\<close>

lemma round_climbs:
  assumes wf: "procdata_wf p" "prios_ok p" "rates_ok mb pace p" and ratio: "\<not> flt (Fin 1 0) ratio"
    and i: "i \<in> busy p (objs p)" and use: "ReqRate (ThrottleCfg p ! i) \<le> Rate (ThrottleStat p ! i)"
    and p': "alloc_round mb pace ratio p = Done p'"
  shows "min (uint (ReqRate (ThrottleCfg p ! i)) + uint (ReqRate (ThrottleCfg p ! i)) div sint pace)
      (uint (LowRate (ThrottleCfg p ! i))) \<le> uint (ReqRate (ThrottleCfg p' ! i))"
    and "LowRate (ThrottleCfg p' ! i) = LowRate (ThrottleCfg p ! i)"
proof -
  let ?c = "ThrottleCfg p ! i"
  let ?d = "sdiv64 (ReqRate ?c) pace"
  have b: "uint (ReqRate ?c) < 2 ^ 50" "0 < sint pace" "uint (TotalBw p) < 2 ^ 56"
    using wf(3) i by (auto simp: rates_ok_def)
  have pace: "pace \<noteq> 0" using b(2) by auto
  have s: "sint (ReqRate ?c) = uint (ReqRate ?c)" using b(1) by (intro sint_eq_uint64) simp
  have dd: "sint ?d = uint (ReqRate ?c) div sint pace" using b(2) by (subst sdiv64_pos) (simp_all add: s)
  have dn: "0 \<le> uint (ReqRate ?c) div sint pace" "uint (ReqRate ?c) div sint pace \<le> uint (ReqRate ?c)"
    using b(2) zdiv_mono2 [of "uint (ReqRate ?c)" 1 "sint pace"] by (simp_all add: pos_imp_zdiv_nonneg_iff)
  have du: "uint ?d = uint (ReqRate ?c) div sint pace" using dd dn uint_eq_sint64 [of ?d] by simp
  have sum: "uint (ReqRate ?c + ?d) = uint (ReqRate ?c) + uint (ReqRate ?c) div sint pace"
    using b(1) dn by (subst uint_plus64) (simp_all add: du)
  have "\<not> flt (f64_of_u64 (Rate (ThrottleStat p ! i))) (fmul (f64_of_u64 (ReqRate ?c)) ratio)"
    using use by (intro full_use_not_below [OF _ ratio]) (simp add: word_le_nat_alt)
  then have o: "fst (offer mb pace ratio p i) = Clip (ReqRate ?c + ?d) mb (LowRate ?c)"
    using pace by (simp add: offer_def allocMinRate_def Let_def)
  obtain m where m: "p' = p\<lparr>ThrottleCfg := map (cfg_granted mb pace ratio p m) [0..<objs p],
           ObjStatus := map (status_after mb pace ratio p (objs p)) [0..<objs p]\<rparr>"
    by (rule alloc_round_closed [OF wf(1,2) pace, of mb ratio]) (use p' in auto)
  have io: "i < objs p" using i by (simp add: busy_def)
  have g: "uint (fst (offer mb pace ratio p i)) + uint (grant mb pace ratio p i) < 2 ^ 64"
  proof (cases "offer_total mb pace ratio p < uint (TotalBw p)")
    case True
    then show ?thesis
      using grant_bounds(2) [OF wf True, of i] offer_bound [OF wf(3) i, of ratio] b(3)
        offer_total_bounds(1) [OF wf(1,3), of ratio] unfolding pow_lits by linarith
  next
    case False
    then have "grant mb pace ratio p i = 0" by (intro grant_exhausted [OF wf(1,3)]) simp
    then show ?thesis using offer_bound [OF wf(3) i, of ratio] by simp
  qed
  have "uint (fst (offer mb pace ratio p i)) \<le> uint (ReqRate (ThrottleCfg p' ! i))"
    using g io i by (simp add: m cfg_granted_def cfg_after_def Let_def uint_plus64)
  then show "min (uint (ReqRate ?c) + uint (ReqRate ?c) div sint pace) (uint (LowRate ?c))
      \<le> uint (ReqRate (ThrottleCfg p' ! i))"
    using Clip_ge_min [of "ReqRate ?c + ?d" "LowRate ?c" mb] by (simp add: o sum)
  show "LowRate (ThrottleCfg p' ! i) = LowRate ?c"
    using io by (simp add: m cfg_granted_def cfg_after_def Let_def)
qed

text \<open>
  A run of rounds on one direction: round \<open>n\<close> works on the data \<open>P n\<close>, and the next read finds the
  configurations it wrote. \<open>fully_used\<close> says that object \<open>i\<close> uses its rate in the first \<open>N\<close> rounds.
\<close>

definition rounds :: "u64 \<Rightarrow> u64 \<Rightarrow> f64 \<Rightarrow> (nat \<Rightarrow> EdtProcData) \<Rightarrow> nat \<Rightarrow> bool" where
  "rounds mb pace ratio P N \<longleftrightarrow> (\<forall>n < N. procdata_wf (P n) \<and> prios_ok (P n) \<and> rates_ok mb pace (P n)
     \<and> (\<exists>p'. alloc_round mb pace ratio (P n) = Done p' \<and> ThrottleCfg (P (Suc n)) = ThrottleCfg p'))"

definition fully_used :: "(nat \<Rightarrow> EdtProcData) \<Rightarrow> nat \<Rightarrow> nat \<Rightarrow> bool" where
  "fully_used P i N \<longleftrightarrow> (\<forall>n < N. i \<in> busy (P n) (objs (P n))
     \<and> ReqRate (ThrottleCfg (P n) ! i) \<le> Rate (ThrottleStat (P n) ! i))"

text \<open>C3: An object that keeps using its rate reaches its guaranteed rate: after \<open>N\<close> rounds it has
  at least its first rate plus \<open>N\<close> times the pace's fraction of it, or its guaranteed rate. In
  particular \<open>(LowRate - r) / (r / pace)\<close> rounds, rounded up, are enough from a rate \<open>r\<close>.\<close>

theorem busy_object_reaches_low_rate:
  assumes "rounds mb pace ratio P N" and "fully_used P i N" and "\<not> flt (Fin 1 0) ratio"
    and "0 < sint pace"
  shows "min (uint (LowRate (ThrottleCfg (P 0) ! i)))
      (uint (ReqRate (ThrottleCfg (P 0) ! i)) + int N * (uint (ReqRate (ThrottleCfg (P 0) ! i)) div sint pace))
    \<le> uint (ReqRate (ThrottleCfg (P N) ! i))"
proof -
  define r where "r n = uint (ReqRate (ThrottleCfg (P n) ! i))" for n
  define l where "l = uint (LowRate (ThrottleCfg (P 0) ! i))"
  have "min l (r 0 + int n * (r 0 div sint pace)) \<le> r n \<and> LowRate (ThrottleCfg (P n) ! i) = LowRate (ThrottleCfg (P 0) ! i)"
    if "n \<le> N" for n using that
  proof (induction n)
    case (Suc n)
    then have wf: "procdata_wf (P n)" "prios_ok (P n)" "rates_ok mb pace (P n)"
      and use: "i \<in> busy (P n) (objs (P n))" "ReqRate (ThrottleCfg (P n) ! i) \<le> Rate (ThrottleStat (P n) ! i)"
      using assms(1,2) by (auto simp: rounds_def fully_used_def)
    obtain p' where p': "alloc_round mb pace ratio (P n) = Done p'" "ThrottleCfg (P (Suc n)) = ThrottleCfg p'"
      using assms(1) Suc(2) unfolding rounds_def Suc_le_eq by blast
    have step: "min (r n + r n div sint pace) l \<le> r (Suc n)"
      and low: "LowRate (ThrottleCfg (P (Suc n)) ! i) = LowRate (ThrottleCfg (P 0) ! i)"
      using round_climbs [OF wf assms(3) use p'(1)] p'(2) Suc by (simp_all add: r_def l_def)
    have "min l (r 0 + int (Suc n) * (r 0 div sint pace)) \<le> r (Suc n)"
    proof (cases "l \<le> r n")
      case True
      have "0 \<le> r n div sint pace" using assms(4) by (simp add: r_def pos_imp_zdiv_nonneg_iff)
      with True step show ?thesis by linarith
    next
      case False
      then have rn: "r 0 + int n * (r 0 div sint pace) \<le> r n" using Suc by linarith
      have "0 \<le> int n * (r 0 div sint pace)" using assms(4) by (simp add: r_def pos_imp_zdiv_nonneg_iff)
      then have "r 0 div sint pace \<le> r n div sint pace" using rn assms(4) by (intro zdiv_mono1) linarith+
      moreover have "int (Suc n) * (r 0 div sint pace) = int n * (r 0 div sint pace) + r 0 div sint pace"
        by (simp add: algebra_simps)
      ultimately show ?thesis using rn step by linarith
    qed
    with low show ?case by simp
  qed (simp add: l_def)
  from this [of N] show ?thesis by (simp add: r_def l_def)
qed

section \<open>A concrete round\<close>

text \<open>
  A 1 Gb link with the default settings: one object below its guarantee, one idle, one at its
  guarantee, both busy ones using all they have.
\<close>

definition example_cfg :: "u32 \<Rightarrow> u64 \<Rightarrow> u64 \<Rightarrow> TcEdtThrottleCfg" where
  "example_cfg pr low req = \<lparr>cfg_Priority = pr, cfg_Interval = 10000000, LowRate = low, HighRate = 131072000, ReqRate = req\<rparr>"

definition example_pd :: EdtProcData where
  "example_pd = \<lparr>
     ThrottleCfg = [example_cfg 2 65536000 13107200, example_cfg 0 1310720 1310720, example_cfg 0 13107200 13107200],
     ThrottleStat = [zeroThrottleStat\<lparr>Rate := 13107200\<rparr>, zeroThrottleStat, zeroThrottleStat\<lparr>Rate := 13107200\<rparr>],
     IDs = [0, 1, 2], ObjStatus = [1, 0, 1], ValidObjCnt = 2, TotalBw = 131072000\<rparr>"

abbreviation default_ratio :: f64 where "default_ratio \<equiv> Fin 6305039478318694 (- 53)"

lemmas float_eval = f64_of_u64_def round_f64_def excess_def rne_def bitlen.simps flt.simps Let_def

lemma busy_filter: "busy p k = set (filter (\<lambda>i. ObjStatus p ! i = 1) [0..<k])"
  by (auto simp: busy_def)

lemma busy_example [simp]: "busy example_pd 3 = {0, 2}"
  by (simp add: busy_filter example_pd_def upt_rec numeral_3_eq_3 numeral_2_eq_2)

lemma example_length [simp]: "length (ThrottleStat example_pd) = 3"
  by (simp add: example_pd_def)

lemma offer_example:
  "offer 1310720 10 default_ratio example_pd 0 = (14417920, 1)"
  "offer 1310720 10 default_ratio example_pd 2 = (13107200, 2)"
  by (simp_all add: offer_def allocMinRate_def example_pd_def example_cfg_def Let_def float_eval
      sdiv64_def go_quot_def Clip_def)

lemma offer_total_example: "offer_total 1310720 10 default_ratio example_pd = 27525120"
  by (simp add: offer_total_def offer_example)

lemma example_ok: "procdata_wf example_pd" "prios_ok example_pd" "rates_ok 1310720 10 example_pd"
  by (simp_all add: procdata_wf_def prios_ok_def rates_ok_def MaxObjSize_def) (simp_all add: example_pd_def example_cfg_def)

lemma example_sets:
  "needing 1310720 10 default_ratio example_pd = {0}" "reached 1310720 10 default_ratio example_pd = {2}"
  "skipped 1310720 10 default_ratio example_pd 3 = {}"
proof -
  show n: "needing 1310720 10 default_ratio example_pd = {0}"
    by (auto simp: needing_def offered_def offer_example)
  show "reached 1310720 10 default_ratio example_pd = {2}"
    by (auto simp: reached_def offered_def offer_example)
  show "skipped 1310720 10 default_ratio example_pd 3 = {}"
    unfolding skipped_def n by (auto simp: offer_example) (simp add: example_pd_def)
qed

theorem alloc_round_safe_witness:
  "procdata_wf example_pd \<and> prios_ok example_pd \<and> (10::u64) \<noteq> 0
   \<and> (\<exists>p'. alloc_round 1310720 10 default_ratio example_pd = Done p'
        \<and> ThrottleCfg p' ! 1 = example_cfg 0 1310720 1310720)"
proof -
  have "ThrottleCfg example_pd ! 1 = example_cfg 0 1310720 1310720" "ObjStatus example_pd ! 1 \<noteq> 1"
    "1 < length (ThrottleCfg example_pd)" by (simp_all add: example_pd_def)
  then show ?thesis
    using alloc_round_safe [OF example_ok(1,2), of 10 1310720 default_ratio] example_ok(1,2) by auto
qed

definition example_bad :: EdtProcData where
  "example_bad = example_pd\<lparr>ThrottleCfg := [example_cfg 3 65536000 13107200, example_cfg 0 1310720 1310720,
     example_cfg 0 13107200 13107200]\<rparr>"

lemma example_bad_wf: "procdata_wf example_bad"
proof -
  have "busy example_bad 3 = {0, 2}" using busy_example by (simp add: busy_def example_bad_def)
  moreover have "length (ThrottleStat example_bad) = 3" by (simp add: example_bad_def)
  ultimately show ?thesis
    by (simp add: procdata_wf_def MaxObjSize_def) (simp add: example_bad_def example_pd_def)
qed

theorem alloc_round_bad_priority_witness:
  "procdata_wf example_bad \<and> 3 \<le> cfg_Priority (ThrottleCfg example_bad ! 0)
   \<and> alloc_round 1310720 10 default_ratio example_bad = Panic IndexOutOfRange"
proof -
  have "alloc_round 1310720 10 default_ratio example_bad = Panic IndexOutOfRange"
    by (rule alloc_round_bad_priority [OF example_bad_wf, where i = 0])
      (simp_all add: example_bad_def example_pd_def example_cfg_def float_eval)
  then show ?thesis using example_bad_wf by (simp add: example_bad_def example_cfg_def)
qed

theorem alloc_total_bound_witness:
  "procdata_wf example_pd \<and> prios_ok example_pd \<and> rates_ok 1310720 10 example_pd
   \<and> (\<exists>p'. alloc_round 1310720 10 default_ratio example_pd = Done p'
        \<and> 27525120 \<le> granted_total example_pd p' \<and> granted_total example_pd p' \<le> 131072002)"
proof -
  have "TotalBw example_pd = 131072000" "ValidObjCnt example_pd = 2" by (simp_all add: example_pd_def)
  then show ?thesis
    using alloc_total_bound [OF example_ok, of default_ratio] example_ok by (simp add: offer_total_example)
qed

theorem alloc_work_conserving_witness:
  "offer_total 1310720 10 default_ratio example_pd < uint (TotalBw example_pd)
   \<and> (\<exists>p'. alloc_round 1310720 10 default_ratio example_pd = Done p' \<and> 131072000 \<le> granted_total example_pd p')"
proof -
  have "TotalBw example_pd = 131072000" by (simp add: example_pd_def)
  then show ?thesis
    using alloc_work_conserving [OF example_ok, of default_ratio] by (simp add: offer_total_example example_sets)
qed

theorem busy_object_reaches_low_rate_witness:
  "\<exists>P. rounds 1310720 10 default_ratio P 1 \<and> fully_used P 0 1 \<and> P 0 = example_pd
     \<and> 14417920 \<le> uint (ReqRate (ThrottleCfg (P 1) ! 0))"
proof -
  obtain p' where p': "alloc_round 1310720 10 default_ratio example_pd = Done p'"
    by (rule alloc_round_closed [OF example_ok(1,2), of 10 1310720 default_ratio]) simp_all
  define P where "P n = (if n = (0::nat) then example_pd else p')" for n
  have r: "rounds 1310720 10 default_ratio P 1" using p' example_ok by (simp add: rounds_def P_def)
  have f: "fully_used P 0 1" by (simp add: fully_used_def P_def) (simp add: example_pd_def example_cfg_def)
  have "ReqRate (ThrottleCfg (P 0) ! 0) = 13107200" "LowRate (ThrottleCfg (P 0) ! 0) = 65536000"
    by (simp_all add: P_def example_pd_def example_cfg_def)
  then have "14417920 \<le> uint (ReqRate (ThrottleCfg (P 1) ! 0))"
    using busy_object_reaches_low_rate [OF r f] by (simp add: float_eval)
  with r f show ?thesis by (intro exI [of _ P]) (simp add: P_def)
qed

end
