(* ===== verification/AlgRun.thy ===== *)
theory AlgRun
  imports AlgProps
begin

text \<open>
  A whole pass of the allocator over the pinned maps: reading a direction leaves well-formed
  data, and the pass changes nothing in the maps but the rates of the objects with traffic.
  Both directions are instances of the locale \<open>alg_direction\<close>.
\<close>

section \<open>Reading\<close>

text \<open>The statistics kept for an object: without a new period its rate counts as zero.\<close>

definition fresh_stat :: "TcEdtThrottleStat \<Rightarrow> TcEdtThrottleStat \<Rightarrow> TcEdtThrottleStat" where
  "fresh_stat old stat = (if T_start stat \<noteq> 0 \<and> T_start old = T_start stat then stat\<lparr>Rate := 0\<rparr> else stat)"

definition has_traffic :: "TcEdtThrottleStat \<Rightarrow> u8" where
  "has_traffic stat = (if Rate stat > 0 then 1 else 0)"

lemma lookup_loop_append:
  "lookup_loop cfgs i (xs @ ys) p = obind (lookup_loop cfgs i xs p) (lookup_loop cfgs (i + length xs) ys)"
proof (induction xs arbitrary: i p)
  case (Cons x xs)
  then show ?case by (cases "lookup_step cfgs i x p") simp_all
qed simp

text \<open>The data after the first \<open>k\<close> statistics have been taken over.\<close>

definition read_upto ::
  "TcEdtThrottleCfg list \<Rightarrow> TcEdtThrottleStat list \<Rightarrow> EdtProcData \<Rightarrow> nat \<Rightarrow> EdtProcData" where
  "read_upto cfgs stats p k = (let s = (\<lambda>i. fresh_stat (ThrottleStat p ! i) (stats ! i)) in
     p\<lparr>ThrottleStat := map (\<lambda>i. if i < k then s i else ThrottleStat p ! i) [0..<length stats],
       ThrottleCfg := map (\<lambda>i. if i < k then cfgs ! i else ThrottleCfg p ! i) [0..<length stats],
       ObjStatus := map (\<lambda>i. if i < k then has_traffic (s i) else ObjStatus p ! i) [0..<length stats],
       ValidObjCnt := ValidObjCnt p + of_nat (card {i. i < k \<and> has_traffic (s i) = 1})\<rparr>)"

definition slots :: "nat \<Rightarrow> EdtProcData \<Rightarrow> bool" where
  "slots n p \<longleftrightarrow> length (ThrottleStat p) = n \<and> length (ThrottleCfg p) = n \<and> length (ObjStatus p) = n \<and> length (IDs p) = n"

lemma traffic_card_Suc:
  "card {i. i < Suc k \<and> P i} = (if P k then Suc (card {i. i < k \<and> P i}) else card {i. i < k \<and> P i})"
proof -
  have "{i. i < Suc k \<and> P i} = (if P k then insert k {i. i < k \<and> P i} else {i. i < k \<and> P i})"
    by (auto simp: less_Suc_eq)
  then show ?thesis by simp
qed

lemma if_less_Suc: "(\<lambda>i. if i < Suc k then f i else g i) = (\<lambda>i. if i < k then f i else g i)(k := f k)"
  by (auto simp: fun_eq_iff less_Suc_eq)

lemma lookup_loop_upto:
  assumes "slots (length stats) p" and "length cfgs = length stats" and "k \<le> length stats"
  shows "lookup_loop cfgs 0 (take k stats) p = Done (read_upto cfgs stats p k)"
  using assms(3)
proof (induction k)
  case 0
  have "map (\<lambda>i. xs ! i) [0..<length stats] = xs" if "length xs = length stats" for xs :: "'x list"
    using map_nth [of xs] that by simp
  then show ?case using assms(1) map_nth [of "ThrottleStat p"] map_nth [of "ThrottleCfg p"] map_nth [of "ObjStatus p"]
    by (simp add: read_upto_def slots_def Let_def)
next
  case (Suc k)
  then have k: "k < length stats" by simp
  have st: "lookup_step cfgs k (stats ! k) (read_upto cfgs stats p k) = Done (read_upto cfgs stats p (Suc k))"
    using k assms(1,2)
    by (auto simp: lookup_step_def read_upto_def Let_def fresh_stat_def has_traffic_def slots_def traffic_card_Suc
        if_less_Suc map_upt_update)
  have "take (Suc k) stats = take k stats @ [stats ! k]" using k by (simp add: take_Suc_conv_app_nth)
  then show ?case using Suc st by (simp add: lookup_loop_append)
qed

lemma lookup_loop_all:
  assumes "slots (length stats) p" and "length cfgs = length stats"
  shows "lookup_loop cfgs 0 stats p = Done (read_upto cfgs stats p (length stats))"
  using lookup_loop_upto [OF assms order_refl] by simp

lemma read_upto_all:
  assumes "slots (length stats) p" and "length cfgs = length stats" and "length stats \<le> MaxObjSize" and "ValidObjCnt p = 0"
  defines "q \<equiv> read_upto cfgs stats p (length stats)"
  shows "procdata_wf q" "slots (length stats) q" "ThrottleCfg q = cfgs" "IDs q = IDs p"
proof -
  let ?n = "length stats"
  have m: "map (\<lambda>i. if i < ?n then f i else g i) [0..<?n] = map f [0..<?n]" for f g :: "nat \<Rightarrow> 'x"
    by (rule map_cong) auto
  show c: "ThrottleCfg q = cfgs" using assms(2) map_nth [of cfgs] by (simp add: q_def read_upto_def Let_def m)
  show "slots ?n q" "IDs q = IDs p" using assms(1) by (auto simp: q_def read_upto_def Let_def slots_def)
  define B where "B = {i. i < ?n \<and> has_traffic (fresh_stat (ThrottleStat p ! i) (stats ! i)) = 1}"
  have b: "busy q ?n = B" by (auto simp: busy_def q_def read_upto_def Let_def B_def)
  have "card B \<le> ?n" using card_mono [of "{..<?n}" B] by (auto simp: B_def)
  then have "card B < 2 ^ 32" using assms(3) by (simp add: MaxObjSize_def)
  moreover have "ValidObjCnt q = of_nat (card B)" using assms(4) by (simp add: q_def read_upto_def Let_def B_def)
  ultimately have "unat (ValidObjCnt q) = card (busy q ?n)" by (simp add: b unat_of_nat)
  then show "procdata_wf q"
    using assms(2,3) by (auto simp: procdata_wf_def q_def read_upto_def Let_def has_traffic_def)
qed

section \<open>One direction\<close>

text \<open>The priorities in a configuration map are among the three that the allocator knows.\<close>

definition map_prios_ok :: "('c, u32, TcEdtThrottleCfg) map_ops \<Rightarrow> 'c \<Rightarrow> bool" where
  "map_prios_ok ops m \<longleftrightarrow> (\<forall>i < MaxObjSize. \<forall>c. ops_Lookup ops (of_nat i) m = Inr c \<longrightarrow> cfg_Priority c < 3)"

text \<open>
  What the two directions of the allocator share: the buffers \<open>entry\<close>, the two maps it reads,
  and the writes it makes. \<open>rest\<close> is everything else the pinned maps hold.
\<close>

locale alg_direction =
  fixes E :: "('c, 's, 'i) ebpf_ops" and direction :: string
    and entry :: "('c, 's, 'i) DaemonProc \<Rightarrow> EdtProcData"
    and getc :: "('c, 's, 'i) Tcbpf \<Rightarrow> 'c" and gets :: "('c, 's, 'i) Tcbpf \<Rightarrow> 's"
    and rest :: "('c, 's, 'i) Tcbpf \<Rightarrow> 'r"
  assumes look: "ops_BatchLookup (stat_ops E) (IDs (entry d)) (replicate (length (IDs (entry d))) zeroThrottleStat)
        (gets (EbpfEdt d)) = (None, ks, stats) \<Longrightarrow>
      ops_BatchLookup (cfg_ops E) ks (replicate (length ks) zeroThrottleCfg) (getc (EbpfEdt d)) = (None, ks', cfgs) \<Longrightarrow>
      lookup_loop cfgs 0 stats ((entry d)\<lparr>IDs := ks', ValidObjCnt := 0\<rparr>) = Done q \<Longrightarrow>
      lookupEdtProcData E direction d = Done (None, set_data_entry direction q d)"
    and look_fail: "ops_BatchLookup (stat_ops E) (IDs (entry d)) (replicate (length (IDs (entry d))) zeroThrottleStat)
        (gets (EbpfEdt d)) = (Some e, ks, stats) \<Longrightarrow>
      lookupEdtProcData E direction d = Done (Some e, set_data_entry direction ((entry d)\<lparr>IDs := ks\<rparr>) d)"
    and entry_set: "data_entry direction (set_data_entry direction q d) = q" "entry (set_data_entry direction q d) = q"
      "EbpfEdt (set_data_entry direction q d) = EbpfEdt d" "entry (d\<lparr>EbpfEdt := t\<rparr>) = entry d"
      "set_data_entry direction q (set_data_entry direction q' d) = set_data_entry direction q d"
    and writes: "getc (EbpfEdt (updateThrottleCfg E q direction d))
        = snd (ops_BatchUpdate (cfg_ops E) (IDs q) (ThrottleCfg q) (getc (EbpfEdt d)))"
      "gets (EbpfEdt (updateThrottleCfg E q direction d)) = gets (EbpfEdt d)"
      "rest (EbpfEdt (updateThrottleCfg E q direction d)) = rest (EbpfEdt d)"
      "entry (updateThrottleCfg E q direction d) = entry d"
begin

lemma pass:
  assumes laws: "array_map (cfg_ops E) MaxObjSize" "array_map (stat_ops E) MaxObjSize"
    and d: "slots MaxObjSize (entry d)" and pace: "pace \<noteq> 0"
    and pr: "\<And>i c. i < MaxObjSize \<Longrightarrow> ops_Lookup (cfg_ops E) (of_nat i) (getc (EbpfEdt d)) = Inr c \<Longrightarrow> cfg_Priority c < 3"
  shows "\<exists>d'. Run_pass_with E direction mb pace ratio env d = Done (True, d') \<and> slots MaxObjSize (entry d')
    \<and> gets (EbpfEdt d') = gets (env (EbpfEdt d)) \<and> rest (EbpfEdt d') = rest (env (EbpfEdt d))
    \<and> (\<forall>i < MaxObjSize. \<exists>c r. ops_Lookup (cfg_ops E) (of_nat i) (getc (EbpfEdt d)) = Inr c
          \<and> ops_Lookup (cfg_ops E) (of_nat i) (getc (EbpfEdt d')) = Inr (c\<lparr>ReqRate := r\<rparr>))"
proof -
  let ?n = MaxObjSize
  let ?ks = "map of_nat [0..<?n] :: u32 list"
  from array_map.batch_lookup [OF laws(2), of "IDs (entry d)"
      "replicate (length (IDs (entry d))) zeroThrottleStat" "gets (EbpfEdt d)"] d obtain stats where
    s: "ops_BatchLookup (stat_ops E) (IDs (entry d)) (replicate (length (IDs (entry d))) zeroThrottleStat)
        (gets (EbpfEdt d)) = (None, ?ks, stats)" "length stats = ?n"
    by (auto simp: slots_def)
  from array_map.batch_lookup [OF laws(1), of ?ks "replicate (length ?ks) zeroThrottleCfg" "getc (EbpfEdt d)"] obtain cfgs where
    c: "ops_BatchLookup (cfg_ops E) ?ks (replicate (length ?ks) zeroThrottleCfg) (getc (EbpfEdt d)) = (None, ?ks, cfgs)"
      "length cfgs = ?n" "\<forall>i < ?n. ops_Lookup (cfg_ops E) (of_nat i) (getc (EbpfEdt d)) = Inr (cfgs ! i)"
    by auto
  define p where "p = (entry d)\<lparr>IDs := ?ks, ValidObjCnt := 0\<rparr>"
  define q where "q = read_upto cfgs stats p (length stats)"
  have sl: "slots (length stats) p" "length cfgs = length stats" "ValidObjCnt p = 0" "length stats \<le> MaxObjSize"
    using d s(2) c(2) by (simp_all add: p_def slots_def)
  have look': "lookupEdtProcData E direction d = Done (None, set_data_entry direction q d)"
    by (rule look [OF s(1) c(1)]) (use lookup_loop_all [OF sl(1,2)] in \<open>simp add: p_def q_def\<close>)
  have q: "procdata_wf q" "slots ?n q" "ThrottleCfg q = cfgs" "IDs q = ?ks"
    using read_upto_all [OF sl(1,2,4,3)] s(2) by (simp_all add: q_def p_def)
  have "prios_ok q" using pr c(3) q(2,3) by (auto simp: prios_ok_def busy_def slots_def)
  from alloc_round_closed [OF q(1) this pace, of mb ratio] obtain m where
    r: "alloc_round mb pace ratio q = Done (q\<lparr>ThrottleCfg := map (cfg_granted mb pace ratio q m) [0..<objs q],
           ObjStatus := map (status_after mb pace ratio q (objs q)) [0..<objs q]\<rparr>)" by blast
  define q' where "q' = q\<lparr>ThrottleCfg := map (cfg_granted mb pace ratio q m) [0..<objs q],
           ObjStatus := map (status_after mb pace ratio q (objs q)) [0..<objs q]\<rparr>"
  define d' where "d' = updateThrottleCfg E q' direction ((set_data_entry direction q' d)\<lparr>EbpfEdt := env (EbpfEdt d)\<rparr>)"
  have run: "Run_pass_with E direction mb pace ratio env d = Done (True, d')"
    using r by (simp add: Run_pass_with_def look' entry_set d'_def q'_def Let_def)
  have l: "length (ThrottleCfg q') = ?n" "IDs q' = ?ks" "slots ?n q'"
    using q(2,4) by (auto simp: q'_def slots_def)
  have out: "ops_Lookup (cfg_ops E) (of_nat i) (getc (EbpfEdt d')) = Inr (cfg_granted mb pace ratio q m i)" if "i < ?n" for i
  proof -
    have "ops_Lookup (cfg_ops E) (of_nat i) (getc (EbpfEdt d')) = Inr (ThrottleCfg q' ! i)"
      using array_map.batch_write_lookup [OF laws(1) l(1) _ that, of "getc (env (EbpfEdt d))"] l(2)
      by (simp add: d'_def writes entry_set MaxObjSize_def)
    then show ?thesis using that q(2) by (simp add: q'_def slots_def)
  qed
  have "\<exists>r. cfg_granted mb pace ratio q m i = (cfgs ! i)\<lparr>ReqRate := r\<rparr>" for i
    using cfg_granted_ReqRate(1) [of mb pace ratio q m i] q(3) by simp
  with out c(3) have "\<forall>i < ?n. \<exists>c r. ops_Lookup (cfg_ops E) (of_nat i) (getc (EbpfEdt d)) = Inr c
          \<and> ops_Lookup (cfg_ops E) (of_nat i) (getc (EbpfEdt d')) = Inr (c\<lparr>ReqRate := r\<rparr>)"
    by metis
  then show ?thesis using run l(3) by (simp add: d'_def writes entry_set)
qed

lemma pass_prios:
  assumes "array_map (cfg_ops E) MaxObjSize" "array_map (stat_ops E) MaxObjSize"
    and "slots MaxObjSize (entry d)" and "pace \<noteq> 0" and ok: "map_prios_ok (cfg_ops E) (getc (EbpfEdt d))"
  shows "\<exists>d'. Run_pass_with E direction mb pace ratio env d = Done (True, d') \<and> slots MaxObjSize (entry d')
    \<and> gets (EbpfEdt d') = gets (env (EbpfEdt d)) \<and> rest (EbpfEdt d') = rest (env (EbpfEdt d))
    \<and> map_prios_ok (cfg_ops E) (getc (EbpfEdt d'))
    \<and> (\<forall>i < MaxObjSize. \<exists>c r. ops_Lookup (cfg_ops E) (of_nat i) (getc (EbpfEdt d)) = Inr c
          \<and> ops_Lookup (cfg_ops E) (of_nat i) (getc (EbpfEdt d')) = Inr (c\<lparr>ReqRate := r\<rparr>))"
proof -
  from pass [OF assms(1-4), of mb ratio env] ok obtain d' where
    d': "Run_pass_with E direction mb pace ratio env d = Done (True, d')" "slots MaxObjSize (entry d')"
      "gets (EbpfEdt d') = gets (env (EbpfEdt d))" "rest (EbpfEdt d') = rest (env (EbpfEdt d))"
      "\<forall>i < MaxObjSize. \<exists>c r. ops_Lookup (cfg_ops E) (of_nat i) (getc (EbpfEdt d)) = Inr c
          \<and> ops_Lookup (cfg_ops E) (of_nat i) (getc (EbpfEdt d')) = Inr (c\<lparr>ReqRate := r\<rparr>)"
    by (auto simp: map_prios_ok_def)
  have "map_prios_ok (cfg_ops E) (getc (EbpfEdt d'))"
    unfolding map_prios_ok_def
  proof (intro allI impI)
    fix i c' assume i: "i < MaxObjSize" and c': "ops_Lookup (cfg_ops E) (of_nat i) (getc (EbpfEdt d')) = Inr c'"
    from d'(5) i obtain c r where "ops_Lookup (cfg_ops E) (of_nat i) (getc (EbpfEdt d)) = Inr c" "c' = c\<lparr>ReqRate := r\<rparr>"
      using c' by fastforce
    with ok i show "cfg_Priority c' < 3" by (auto simp: map_prios_ok_def)
  qed
  with d' show ?thesis by blast
qed

text \<open>A pass whose read fails changes no map and ends without the sleep.\<close>

lemma failed_pass:
  assumes "ops_BatchLookup (stat_ops E) (IDs (entry d)) (replicate (length (IDs (entry d))) zeroThrottleStat)
      (gets (EbpfEdt d)) = (Some e, ks, stats)"
  shows "\<exists>d'. Run_pass_with E direction mb pace ratio env d = Done (False, d') \<and> EbpfEdt d' = EbpfEdt d"
  using look_fail [OF assms] by (simp add: Run_pass_with_def entry_set)

end

interpretation alg_egress: alg_direction E "''egress''" EgressDataEntry EgressThrottleCfgMap EgressThrottleStatMap
  "\<lambda>t. (EgressThrottleIdMap t, ingress_maps t)" for E :: "('c, 's, 'i) ebpf_ops"
  by unfold_locales
    (simp_all add: lookupEdtProcData_def BatchReadEgressThrottleStat_def BatchReadEgressThrottleCfg_def data_entry_def
      set_data_entry_def updateThrottleCfg_def BatchWriteEgressThrottleCfg_def ingress_maps_def split_beta)

interpretation alg_ingress: alg_direction E "''ingress''" IngressDataEntry IngressThrottleCfgMap IngressThrottleStatMap
  "\<lambda>t. (IngressThrottleIdMap t, egress_maps t)" for E :: "('c, 's, 'i) ebpf_ops"
  by unfold_locales
    (simp_all add: lookupEdtProcData_def BatchReadIngressThrottleStat_def BatchReadIngressThrottleCfg_def data_entry_def
      set_data_entry_def updateThrottleCfg_def BatchWriteIngressThrottleCfg_def egress_maps_def split_beta)

section \<open>Properties\<close>

lemma ebpf_laws_arrays:
  "ebpf_laws E \<Longrightarrow> array_map (cfg_ops E) MaxObjSize" "ebpf_laws E \<Longrightarrow> array_map (stat_ops E) MaxObjSize"
  using ebpf_lawsD [of E] by (simp_all add: MaxObjSize_def MAX_MAP_SIZE_def)

text \<open>C6: An undisturbed egress pass completes, and of all the pinned maps it changes only the
  \<open>ReqRate\<close> fields of the egress configurations; priorities, guaranteed and maximal rates, the
  statistics, the id maps and the ingress side stay as they are, and the allocator is ready for the
  next pass.\<close>

theorem Run_pass_egress:
  assumes "ebpf_laws E" and "slots MaxObjSize (EgressDataEntry d)" and "pace \<noteq> 0"
    and "map_prios_ok (cfg_ops E) (EgressThrottleCfgMap (EbpfEdt d))"
  shows "\<exists>d'. Run_pass E ''egress'' mb pace ratio d = Done (True, d') \<and> slots MaxObjSize (EgressDataEntry d')
    \<and> EgressThrottleStatMap (EbpfEdt d') = EgressThrottleStatMap (EbpfEdt d)
    \<and> EgressThrottleIdMap (EbpfEdt d') = EgressThrottleIdMap (EbpfEdt d)
    \<and> ingress_maps (EbpfEdt d') = ingress_maps (EbpfEdt d)
    \<and> map_prios_ok (cfg_ops E) (EgressThrottleCfgMap (EbpfEdt d'))
    \<and> (\<forall>i < MaxObjSize. \<exists>c r. ops_Lookup (cfg_ops E) (of_nat i) (EgressThrottleCfgMap (EbpfEdt d)) = Inr c
          \<and> ops_Lookup (cfg_ops E) (of_nat i) (EgressThrottleCfgMap (EbpfEdt d')) = Inr (c\<lparr>ReqRate := r\<rparr>))"
  using alg_egress.pass_prios [OF ebpf_laws_arrays [OF assms(1)] assms(2-4), of mb ratio "\<lambda>t. t"]
  by (auto simp: Run_pass_def)

text \<open>C7: A configuration that the daemon writes while the allocator is between its read and its
  write-back is lost: after the pass the entry has the priority, the interval and the guaranteed
  and maximal rates it had at the read, not those of the request.\<close>

theorem concurrent_config_lost:
  assumes "ebpf_laws E" and "slots MaxObjSize (EgressDataEntry d)" and "pace \<noteq> 0"
    and "map_prios_ok (cfg_ops E) (EgressThrottleCfgMap (EbpfEdt d))"
    and "unat k < MaxObjSize" and "ops_Lookup (cfg_ops E) k (EgressThrottleCfgMap (EbpfEdt d)) = Inr c"
  shows "\<exists>d' r. Run_pass_with E ''egress'' mb pace ratio (AddEgressConfig E k q) d = Done (True, d')
    \<and> ops_Lookup (cfg_ops E) k (EgressThrottleCfgMap (AddEgressConfig E k q (EbpfEdt d))) = Inr (throttle_of q)
    \<and> ops_Lookup (cfg_ops E) k (EgressThrottleCfgMap (EbpfEdt d')) = Inr (c\<lparr>ReqRate := r\<rparr>)"
proof -
  have add: "ops_Lookup (cfg_ops E) k (EgressThrottleCfgMap (AddEgressConfig E k q (EbpfEdt d))) = Inr (throttle_of q)"
    using egress.addcfg_lookup [OF ebpf_laws_arrays(1) [OF assms(1)] assms(5), of k q "EbpfEdt d"] by simp
  have k: "of_nat (unat k) = k" by simp
  obtain d' where d': "Run_pass_with E ''egress'' mb pace ratio (AddEgressConfig E k q) d = Done (True, d')"
    "\<forall>i < MaxObjSize. \<exists>c r. ops_Lookup (cfg_ops E) (of_nat i) (EgressThrottleCfgMap (EbpfEdt d)) = Inr c
          \<and> ops_Lookup (cfg_ops E) (of_nat i) (EgressThrottleCfgMap (EbpfEdt d')) = Inr (c\<lparr>ReqRate := r\<rparr>)"
    using alg_egress.pass_prios [OF ebpf_laws_arrays [OF assms(1)] assms(2-4), of mb ratio "AddEgressConfig E k q"] by blast
  from d'(2) assms(5,6) have "\<exists>r. ops_Lookup (cfg_ops E) k (EgressThrottleCfgMap (EbpfEdt d')) = Inr (c\<lparr>ReqRate := r\<rparr>)"
    by (metis k sum.inject(2))
  with d'(1) add show ?thesis by blast
qed

definition example_daemon ::
  "(u32 \<Rightarrow> TcEdtThrottleCfg, u32 \<Rightarrow> TcEdtThrottleStat, TcEdtIdKey \<rightharpoonup> u32) DaemonProc" where
  "example_daemon = NewDaemonProc 131072000 131072000 100 example_tcbpf"

lemma example_daemon_ok:
  "slots MaxObjSize (EgressDataEntry example_daemon)"
  "map_prios_ok (cfg_ops kernel_ops) (EgressThrottleCfgMap (EbpfEdt example_daemon))"
  "ops_Lookup (cfg_ops kernel_ops) 1000 (EgressThrottleCfgMap (EbpfEdt example_daemon)) = Inr zeroThrottleCfg"
  by (auto simp: slots_def example_daemon_def NewDaemonProc_def map_prios_ok_def kernel_ops_def
      kernel_array_def example_tcbpf_def zeroThrottleCfg_def MAX_MAP_SIZE_def split: if_splits)

theorem Run_pass_egress_witness:
  "ebpf_laws kernel_ops
   \<and> (\<exists>d'. Run_pass kernel_ops ''egress'' 1310720 10 default_ratio example_daemon = Done (True, d')
        \<and> ingress_maps (EbpfEdt d') = ingress_maps (EbpfEdt example_daemon))"
  using Run_pass_egress [OF kernel_ops_laws example_daemon_ok(1) _ example_daemon_ok(2), of 10 1310720 default_ratio]
    kernel_ops_laws by auto

theorem concurrent_config_lost_witness:
  "throttle_of example_qos \<noteq> zeroThrottleCfg
   \<and> (\<exists>d' r. Run_pass_with kernel_ops ''egress'' 1310720 10 default_ratio
          (AddEgressConfig kernel_ops 1000 example_qos) example_daemon = Done (True, d')
        \<and> ops_Lookup (cfg_ops kernel_ops) 1000 (EgressThrottleCfgMap (EbpfEdt d')) = Inr (zeroThrottleCfg\<lparr>ReqRate := r\<rparr>))"
proof -
  have "unat (1000::u32) < MaxObjSize" by (simp add: MaxObjSize_def)
  from concurrent_config_lost [OF kernel_ops_laws example_daemon_ok(1) _ example_daemon_ok(2) this example_daemon_ok(3),
      of 10 1310720 default_ratio example_qos]
  show ?thesis by (auto simp: throttle_of_def zeroThrottleCfg_def example_qos_def)
qed

end
