(* ===== verification/IdManager.thy ===== *)
theory IdManager
  imports Common_Types
begin

text \<open>
  The ID manager of the node daemon, \<open>cmd/daemon/idmanager/idmanager.go\<close>: four maps under
  one mutex that hand out 16-bit local ids to pods (keyed by container id) and to host
  processes (keyed by process id). Every operation takes the mutex for its whole body, so
  an operation is one atomic state change. The contract both pools promise is the locale
  \<open>id_pool\<close>, interpreted below on the pod and on the process operations.
\<close>

section \<open>State\<close>

definition MinFlowID :: u16 where "MinFlowID = 100"
definition MaxFlowID :: u16 where "MaxFlowID = 999"
definition MinPodID :: u16 where "MinPodID = 1000"
definition MaxPodID :: u16 where "MaxPodID = 5999"

record IDManager =
  podIdMap :: "u16 \<rightharpoonup> string"
  containerIdMap :: "string \<rightharpoonup> PodInfo"
  flowIdMap :: "u16 \<rightharpoonup> string"
  processIdMap :: "string \<rightharpoonup> ProcessInfo"
  maxPodID :: u16
  minPodID :: u16
  maxFlowID :: u16
  minFlowID :: u16

definition NewPodIDManager :: IDManager where
  "NewPodIDManager = \<lparr>podIdMap = Map.empty, containerIdMap = Map.empty, flowIdMap = Map.empty,
     processIdMap = Map.empty, maxPodID = MaxPodID, minPodID = MinPodID,
     maxFlowID = MaxFlowID, minFlowID = MinFlowID\<rparr>"

datatype id_error = NoAvailableLocalId | NoPodInfoForContainer string
  | NoPodInfoForLocalId u16 | NoProcessInfo string

section \<open>Operations\<close>

text \<open>
  The scan \<open>for id := min; id <= max; id++\<close> runs on \<open>uint16\<close>: with \<open>max = 65535\<close> and no
  free id it would wrap around and never end, which is the outer \<open>None\<close>.
\<close>

partial_function (option) scan_free :: "(u16 \<rightharpoonup> string) \<Rightarrow> u16 \<Rightarrow> u16 \<Rightarrow> u16 option option" where
  "scan_free m i mx =
     (if i \<le> mx
      then (if m i = None then Some (Some i) else scan_free m (i + 1) mx)
      else Some None)"

text \<open>The caller's \<open>podInfo\<close> is a pointer whose \<open>LocalId\<close> is written, so it is returned.\<close>

definition AllocatePodId ::
  "PodInfo \<Rightarrow> IDManager \<Rightarrow> ((id_error + u16) \<times> PodInfo \<times> IDManager) outcome" where
  "AllocatePodId podInfo s =
     (case containerIdMap s (pod_ContainerId podInfo) of
        Some info \<Rightarrow> Done (Inr (pod_LocalId info), podInfo\<lparr>pod_LocalId := pod_LocalId info\<rparr>, s)
      | None \<Rightarrow>
         (case scan_free (podIdMap s) (minPodID s) (maxPodID s) of
            None \<Rightarrow> Hang
          | Some None \<Rightarrow> Done (Inl NoAvailableLocalId, podInfo, s)
          | Some (Some i) \<Rightarrow>
             (let podInfo' = podInfo\<lparr>pod_LocalId := i\<rparr>
              in Done (Inr i, podInfo',
                   s\<lparr>podIdMap := (podIdMap s)(i \<mapsto> pod_ContainerId podInfo),
                     containerIdMap := (containerIdMap s)(pod_ContainerId podInfo \<mapsto> podInfo')\<rparr>))))"

definition ReleaseByPodId :: "u16 \<Rightarrow> IDManager \<Rightarrow> IDManager" where
  "ReleaseByPodId podId s =
     (case podIdMap s podId of
        Some containerId \<Rightarrow>
          s\<lparr>containerIdMap := (containerIdMap s)(containerId := None),
            podIdMap := (podIdMap s)(podId := None)\<rparr>
      | None \<Rightarrow> s)"

definition ReleasePodIdByContainerId :: "string \<Rightarrow> IDManager \<Rightarrow> IDManager" where
  "ReleasePodIdByContainerId containerId s =
     (case containerIdMap s containerId of
        Some podInfo \<Rightarrow>
          s\<lparr>podIdMap := (podIdMap s)(pod_LocalId podInfo := None),
            containerIdMap := (containerIdMap s)(containerId := None)\<rparr>
      | None \<Rightarrow> s)"

definition InsertPodInfo :: "string \<Rightarrow> PodInfo \<Rightarrow> IDManager \<Rightarrow> IDManager" where
  "InsertPodInfo containerId podInfo s =
     s\<lparr>podIdMap := (podIdMap s)(pod_LocalId podInfo \<mapsto> containerId),
       containerIdMap := (containerIdMap s)(containerId \<mapsto> podInfo)\<rparr>"

definition LookupPodInfoByContainId :: "string \<Rightarrow> IDManager \<Rightarrow> id_error + PodInfo" where
  "LookupPodInfoByContainId containerId s =
     (case containerIdMap s containerId of
        Some podInfo \<Rightarrow> Inr podInfo
      | None \<Rightarrow> Inl (NoPodInfoForContainer containerId))"

definition LookupPodInfoByLocalId :: "u16 \<Rightarrow> IDManager \<Rightarrow> id_error + PodInfo" where
  "LookupPodInfoByLocalId localId s =
     (case podIdMap s localId of
        Some containerId \<Rightarrow>
          (case containerIdMap s containerId of
             Some podInfo \<Rightarrow> Inr podInfo
           | None \<Rightarrow> Inl (NoPodInfoForContainer containerId))
      | None \<Rightarrow> Inl (NoPodInfoForLocalId localId))"

text \<open>
  Go ranges over a map in an order the language leaves open. The order is a parameter:
  the keys in the order the range statement visits them.
\<close>

definition range_order :: "'k list \<Rightarrow> ('k \<rightharpoonup> 'v) \<Rightarrow> bool" where
  "range_order ks m \<longleftrightarrow> distinct ks \<and> set ks = dom m"

definition ListPodInfo :: "string list \<Rightarrow> IDManager \<Rightarrow> PodInfo list" where
  "ListPodInfo ks s = List.map_filter (containerIdMap s) ks"

definition AllocateProcessId ::
  "ProcessInfo \<Rightarrow> IDManager \<Rightarrow> ((id_error + u16) \<times> ProcessInfo \<times> IDManager) outcome" where
  "AllocateProcessId processInfo s =
     (case processIdMap s (proc_ProcessId processInfo) of
        Some info \<Rightarrow>
          Done (Inr (proc_LocalId info), processInfo\<lparr>proc_LocalId := proc_LocalId info\<rparr>, s)
      | None \<Rightarrow>
         (case scan_free (flowIdMap s) (minFlowID s) (maxFlowID s) of
            None \<Rightarrow> Hang
          | Some None \<Rightarrow> Done (Inl NoAvailableLocalId, processInfo, s)
          | Some (Some i) \<Rightarrow>
             (let processInfo' = processInfo\<lparr>proc_LocalId := i\<rparr>
              in Done (Inr i, processInfo',
                   s\<lparr>flowIdMap := (flowIdMap s)(i \<mapsto> proc_ProcessId processInfo),
                     processIdMap :=
                       (processIdMap s)(proc_ProcessId processInfo \<mapsto> processInfo')\<rparr>))))"

definition ReleaseProcessInfo :: "string \<Rightarrow> IDManager \<Rightarrow> IDManager" where
  "ReleaseProcessInfo processId s =
     (case processIdMap s processId of
        Some processInfo \<Rightarrow>
          s\<lparr>flowIdMap := (flowIdMap s)(proc_LocalId processInfo := None),
            processIdMap := (processIdMap s)(processId := None)\<rparr>
      | None \<Rightarrow> s)"

text \<open>\<open>InsertProcessInfo\<close> records the id in \<open>podIdMap\<close>, not in \<open>flowIdMap\<close>, as the code does.\<close>

definition InsertProcessInfo :: "string \<Rightarrow> ProcessInfo \<Rightarrow> IDManager \<Rightarrow> IDManager" where
  "InsertProcessInfo processId processInfo s =
     s\<lparr>podIdMap := (podIdMap s)(proc_LocalId processInfo \<mapsto> processId),
       processIdMap := (processIdMap s)(processId \<mapsto> processInfo)\<rparr>"

definition LookupProcessInfo :: "string \<Rightarrow> IDManager \<Rightarrow> id_error + ProcessInfo" where
  "LookupProcessInfo processId s =
     (case processIdMap s processId of
        Some processInfo \<Rightarrow> Inr processInfo
      | None \<Rightarrow> Inl (NoProcessInfo processId))"

definition ListProcessInfo :: "string list \<Rightarrow> IDManager \<Rightarrow> ProcessInfo list" where
  "ListProcessInfo ks s = List.map_filter (processIdMap s) ks"

section \<open>The scan\<close>

lemma u16_succ:
  fixes i mx :: u16
  assumes "i \<le> mx" and "unat mx < 65535"
  shows "unat (i + 1) = Suc (unat i)" and "l \<noteq> i \<Longrightarrow> i \<le> l \<Longrightarrow> i + 1 \<le> l"
proof -
  have "unat i \<le> unat mx" using assms(1) by (simp add: word_le_nat_alt)
  then have "unat i + 1 < 65536" using assms(2) by simp
  then show s: "unat (i + 1) = Suc (unat i)" by (simp add: unat_word_ariths)
  assume "l \<noteq> i" "i \<le> l"
  then have "unat i < unat l" by (metis le_neq_implies_less word_le_nat_alt unsigned_word_eqI)
  then show "i + 1 \<le> l" by (simp add: word_le_nat_alt s)
qed

definition scan_post :: "(u16 \<rightharpoonup> string) \<Rightarrow> u16 \<Rightarrow> u16 \<Rightarrow> u16 option option \<Rightarrow> bool" where
  "scan_post m i mx r \<longleftrightarrow>
     (case r of
        None \<Rightarrow> False
      | Some None \<Rightarrow> \<forall>l. i \<le> l \<and> l \<le> mx \<longrightarrow> m l \<noteq> None
      | Some (Some j) \<Rightarrow> i \<le> j \<and> j \<le> mx \<and> m j = None \<and> (\<forall>l. i \<le> l \<and> l < j \<longrightarrow> m l \<noteq> None))"

lemma scan_free_post: "unat mx < 65535 \<Longrightarrow> scan_post m i mx (scan_free m i mx)"
proof (induction "Suc (unat mx) - unat i" arbitrary: i rule: less_induct)
  case less
  show ?case
  proof (cases "i \<le> mx \<and> m i \<noteq> None")
    case True
    have s: "unat (i + 1) = Suc (unat i)" using u16_succ(1) [of i mx] True less.prems by simp
    have "Suc (unat mx) - unat (i + 1) < Suc (unat mx) - unat i"
      using True s by (auto simp: word_le_nat_alt)
    then have IH: "scan_post m (i + 1) mx (scan_free m (i + 1) mx)"
      using less.hyps less.prems by blast
    have ge: "i + 1 \<le> l" if "i \<le> l" "l \<noteq> i" for l
      using u16_succ(2) [of i mx l] that True less.prems by simp
    have le: "i \<le> l" if "i + 1 \<le> l" for l
      using that s by (simp add: word_le_nat_alt)
    have "scan_free m i mx = scan_free m (i + 1) mx"
      using True by (subst scan_free.simps) auto
    then show ?thesis
      using IH ge le True unfolding scan_post_def
      by (auto split: option.splits)
  next
    case False
    then show ?thesis
      by (subst scan_free.simps) (auto simp: scan_post_def dest: order_trans)
  qed
qed

lemma card_u16_range: "card {a..b} = Suc (unat b) - unat (a::u16)"
proof -
  have "unat ` {a..b} = {unat a..unat b}"
  proof
    show "unat ` {a..b} \<subseteq> {unat a..unat b}" by (auto simp: word_le_nat_alt)
    show "{unat a..unat b} \<subseteq> unat ` {a..b}"
    proof
      fix n assume n: "n \<in> {unat a..unat b}"
      moreover have "unat b < 65536" using unsigned_less [of b] by simp
      ultimately have "unat (of_nat n :: u16) = n" by (simp add: unat_of_nat)
      with n show "n \<in> unat ` {a..b}"
        by (intro image_eqI [of _ _ "of_nat n"]) (auto simp: word_le_nat_alt)
    qed
  qed
  moreover have "card (unat ` {a..b}) = card {a..b}"
    by (rule card_image) (auto simp: inj_on_def intro: unsigned_word_eqI)
  ultimately show ?thesis by simp
qed

section \<open>The contract of an id pool\<close>

text \<open>
  What the RPC handlers rely on, for pods and processes alike: \<open>owner\<close> reads the key that
  holds an id of the pool's range, \<open>idof\<close> the id of a key, \<open>alloc\<close> and \<open>release\<close> are the
  two operations. \<open>alloc\<close> answers a known key with its id and no change, an unknown key
  with the least free id, and fails without a change when no id is free.
\<close>

locale id_pool =
  fixes owner :: "'st \<Rightarrow> u16 \<Rightarrow> string option"
    and idof :: "'st \<Rightarrow> string \<Rightarrow> u16 option"
    and lo :: u16
    and hi :: u16
    and invar :: "'st \<Rightarrow> bool"
    and key :: "'info \<Rightarrow> string"
    and alloc :: "'info \<Rightarrow> 'st \<Rightarrow> ((id_error + u16) \<times> 'info \<times> 'st) outcome"
    and release :: "string \<Rightarrow> 'st \<Rightarrow> 'st"
  assumes owner_idof: "invar s \<Longrightarrow> owner s i = Some k \<longleftrightarrow> idof s k = Some i"
    and owner_range: "invar s \<Longrightarrow> owner s i = Some k \<Longrightarrow> lo \<le> i \<and> i \<le> hi"
    and alloc_known: "invar s \<Longrightarrow> idof s (key info) = Some i \<Longrightarrow>
          \<exists>info'. alloc info s = Done (Inr i, info', s)"
    and alloc_fresh: "invar s \<Longrightarrow> idof s (key info) = None \<Longrightarrow> lo \<le> i \<Longrightarrow> i \<le> hi \<Longrightarrow>
          owner s i = None \<Longrightarrow> (\<And>l. lo \<le> l \<Longrightarrow> l < i \<Longrightarrow> owner s l \<noteq> None) \<Longrightarrow>
          \<exists>info' s'. alloc info s = Done (Inr i, info', s') \<and> invar s'
            \<and> owner s' = (owner s)(i \<mapsto> key info) \<and> idof s' = (idof s)(key info \<mapsto> i)"
    and alloc_full: "invar s \<Longrightarrow> idof s (key info) = None \<Longrightarrow>
          (\<And>l. lo \<le> l \<Longrightarrow> l \<le> hi \<Longrightarrow> owner s l \<noteq> None) \<Longrightarrow>
          \<exists>e. alloc info s = Done (Inl e, info, s)"
    and release_idof: "invar s \<Longrightarrow> idof (release k s) = (idof s)(k := None)"
    and release_owner: "invar s \<Longrightarrow> owner (release k s) =
          (\<lambda>i. if idof s k = Some i then None else owner s i)"
    and release_invar: "invar s \<Longrightarrow> invar (release k s)"
begin

lemma ids_distinct: "invar s \<Longrightarrow> idof s k = Some i \<Longrightarrow> idof s k' = Some i \<Longrightarrow> k = k'"
  by (metis owner_idof option.inject)

lemma idof_range: "invar s \<Longrightarrow> idof s k = Some i \<Longrightarrow> lo \<le> i \<and> i \<le> hi"
  using owner_idof owner_range by blast

lemma least_free:
  assumes "lo \<le> j" "j \<le> hi" "owner s j = None"
  obtains i where "lo \<le> i" "i \<le> hi" "owner s i = None" "\<And>l. lo \<le> l \<Longrightarrow> l < i \<Longrightarrow> owner s l \<noteq> None"
proof -
  define P where "P n \<longleftrightarrow> (\<exists>i. unat i = n \<and> lo \<le> i \<and> i \<le> hi \<and> owner s i = None)" for n
  have "P (unat j)" using assms by (auto simp: P_def)
  then have "P (LEAST n. P n)" and min: "\<And>n. P n \<Longrightarrow> (LEAST n. P n) \<le> n"
    by (auto intro: LeastI Least_le)
  then obtain i where i: "unat i = (LEAST n. P n)" "lo \<le> i" "i \<le> hi" "owner s i = None"
    unfolding P_def by blast
  have "owner s l \<noteq> None" if "lo \<le> l" "l < i" for l
  proof
    assume "owner s l = None"
    with that i have "P (unat l)" by (auto simp: P_def)
    from min [OF this] i(1) that(2) show False by (simp add: word_less_nat_alt)
  qed
  with i show thesis using that by blast
qed

text \<open>Every call returns, and a state it returns satisfies the invariant.\<close>

lemma alloc_cases:
  assumes "invar s"
  obtains (known) i info' where "idof s (key info) = Some i" "alloc info s = Done (Inr i, info', s)"
  | (fresh) i info' s' where "idof s (key info) = None" "lo \<le> i" "i \<le> hi" "owner s i = None"
      "alloc info s = Done (Inr i, info', s')" "invar s'"
      "owner s' = (owner s)(i \<mapsto> key info)" "idof s' = (idof s)(key info \<mapsto> i)"
      "\<And>l. lo \<le> l \<Longrightarrow> l < i \<Longrightarrow> owner s l \<noteq> None"
  | (full) e where "idof s (key info) = None" "\<And>l. lo \<le> l \<Longrightarrow> l \<le> hi \<Longrightarrow> owner s l \<noteq> None"
      "alloc info s = Done (Inl e, info, s)"
proof (cases "idof s (key info)")
  case (Some i)
  with alloc_known [OF assms] known show thesis by blast
next
  case None
  show thesis
  proof (cases "\<exists>j. lo \<le> j \<and> j \<le> hi \<and> owner s j = None")
    case True
    then obtain i where i: "lo \<le> i" "i \<le> hi" "owner s i = None"
      "\<And>l. lo \<le> l \<Longrightarrow> l < i \<Longrightarrow> owner s l \<noteq> None"
      using least_free by metis
    from alloc_fresh [OF assms None i] obtain info' s' where
      "alloc info s = Done (Inr i, info', s')" "invar s'"
      "owner s' = (owner s)(i \<mapsto> key info)" "idof s' = (idof s)(key info \<mapsto> i)"
      by blast
    with fresh [OF None i(1-3)] i(4) show thesis by metis
  next
    case False
    have all: "owner s l \<noteq> None" if "lo \<le> l" "l \<le> hi" for l
      using False that by auto
    from alloc_full [OF assms None all] obtain e where "alloc info s = Done (Inl e, info, s)" ..
    from full [OF None all this] show thesis .
  qed
qed

lemma alloc_returns: "invar s \<Longrightarrow> \<exists>r info' s'. alloc info s = Done (r, info', s') \<and> invar s'"
  by (rule alloc_cases [of s info]) auto

lemma alloc_result:
  assumes "invar s" and "alloc info s = Done (Inr i, info', s')"
  shows "invar s'" and "idof s' (key info) = Some i" and "lo \<le> i" and "i \<le> hi"
    and "k \<noteq> key info \<Longrightarrow> idof s' k = idof s k"
proof -
  have "invar s' \<and> idof s' (key info) = Some i \<and> lo \<le> i \<and> i \<le> hi
      \<and> (k \<noteq> key info \<longrightarrow> idof s' k = idof s k)"
    using assms(1)
    by (rule alloc_cases [where info = info])
      (use assms idof_range [OF assms(1)] in auto)
  then show "invar s'" and "idof s' (key info) = Some i" and "lo \<le> i" and "i \<le> hi"
    and "k \<noteq> key info \<Longrightarrow> idof s' k = idof s k" by auto
qed

text \<open>The number of keys that hold an id never exceeds the size of the range.\<close>

lemma dom_idof_image:
  assumes "invar s"
  shows "inj_on (idof s) (dom (idof s))"
    and "idof s ` dom (idof s) \<subseteq> Some ` {lo..hi}"
proof -
  show "inj_on (idof s) (dom (idof s))"
    using ids_distinct [OF assms] by (auto simp: inj_on_def)
  show "idof s ` dom (idof s) \<subseteq> Some ` {lo..hi}"
    using idof_range [OF assms] by auto
qed

lemma card_live: "invar s \<Longrightarrow> card (dom (idof s)) \<le> card {lo..hi}"
proof -
  assume inv: "invar s"
  have "card (dom (idof s)) = card (idof s ` dom (idof s))"
    using dom_idof_image(1) [OF inv] by (simp add: card_image)
  also have "\<dots> \<le> card (Some ` {lo..hi})"
    using dom_idof_image(2) [OF inv] by (intro card_mono) auto
  also have "\<dots> = card {lo..hi}" by (simp add: card_image)
  finally show ?thesis .
qed

lemma alloc_fails_full:
  assumes "invar s" and "alloc info s = Done (Inl e, info', s')"
  shows "card (dom (idof s)) = card {lo..hi}" and "s' = s" and "idof s (key info) = None"
proof -
  have f: "(\<forall>l. lo \<le> l \<longrightarrow> l \<le> hi \<longrightarrow> owner s l \<noteq> None) \<and> s' = s \<and> idof s (key info) = None"
    using assms(1) by (rule alloc_cases [where info = info]) (use assms(2) in auto)
  then show "s' = s" and "idof s (key info) = None" by auto
  have "{lo..hi} \<subseteq> (\<lambda>k. the (idof s k)) ` dom (idof s)"
  proof
    fix l assume "l \<in> {lo..hi}"
    with f obtain k where "owner s l = Some k" by fastforce
    then have "idof s k = Some l" using owner_idof [OF assms(1)] by simp
    then show "l \<in> (\<lambda>k. the (idof s k)) ` dom (idof s)" by force
  qed
  moreover have fin: "finite (dom (idof s))"
    using dom_idof_image [OF assms(1)] by (meson finite_imageD finite finite_subset)
  ultimately have "card {lo..hi} \<le> card (dom (idof s))"
    by (meson card_image_le card_mono finite_imageI le_trans)
  with card_live [OF assms(1)] show "card (dom (idof s)) = card {lo..hi}" by simp
qed

end

section \<open>The two pools of the manager\<close>

definition ranges_ok :: "IDManager \<Rightarrow> bool" where
  "ranges_ok s \<longleftrightarrow> minPodID s = MinPodID \<and> maxPodID s = MaxPodID
     \<and> minFlowID s = MinFlowID \<and> maxFlowID s = MaxFlowID"

text \<open>
  \<open>InsertProcessInfo\<close> leaves flow ids in \<open>podIdMap\<close>; the pod pool reads that map on its
  own range only.
\<close>

definition pod_owner :: "IDManager \<Rightarrow> u16 \<Rightarrow> string option" where
  "pod_owner s i = (if MinPodID \<le> i \<and> i \<le> MaxPodID then podIdMap s i else None)"

definition pod_idof :: "IDManager \<Rightarrow> string \<Rightarrow> u16 option" where
  "pod_idof s k = map_option pod_LocalId (containerIdMap s k)"

definition flow_owner :: "IDManager \<Rightarrow> u16 \<Rightarrow> string option" where
  "flow_owner s i = flowIdMap s i"

definition flow_idof :: "IDManager \<Rightarrow> string \<Rightarrow> u16 option" where
  "flow_idof s k = map_option proc_LocalId (processIdMap s k)"

definition pod_wf :: "IDManager \<Rightarrow> bool" where
  "pod_wf s \<longleftrightarrow> ranges_ok s \<and> linked (pod_owner s) (pod_idof s)
     \<and> (\<forall>k info. containerIdMap s k = Some info \<longrightarrow> pod_ContainerId info = k)"

definition flow_wf :: "IDManager \<Rightarrow> bool" where
  "flow_wf s \<longleftrightarrow> ranges_ok s \<and> linked (flow_owner s) (flow_idof s)
     \<and> (\<forall>i k. flow_owner s i = Some k \<longrightarrow> MinFlowID \<le> i \<and> i \<le> MaxFlowID)
     \<and> (\<forall>k info. processIdMap s k = Some info \<longrightarrow> proc_ProcessId info = k)"

definition idm_wf :: "IDManager \<Rightarrow> bool" where
  "idm_wf s \<longleftrightarrow> pod_wf s \<and> flow_wf s"

lemmas id_consts = MinPodID_def MaxPodID_def MinFlowID_def MaxFlowID_def

lemmas pool_views = pod_owner_def pod_idof_def flow_owner_def flow_idof_def

text \<open>The scan over a pool, in the form the contract asks for.\<close>

lemma scan_free_eq_Some:
  assumes "unat mx < 65535" "mn \<le> i" "i \<le> mx" "m i = None"
    and "\<And>l. mn \<le> l \<Longrightarrow> l < i \<Longrightarrow> m l \<noteq> None"
  shows "scan_free m mn mx = Some (Some i)"
proof -
  have post: "scan_post m mn mx (scan_free m mn mx)" using assms(1) by (rule scan_free_post)
  then obtain j where j: "scan_free m mn mx = Some (Some j)" "mn \<le> j" "m j = None"
    "\<And>l. mn \<le> l \<Longrightarrow> l < j \<Longrightarrow> m l \<noteq> None"
    using assms(2-4) unfolding scan_post_def by (fastforce split: option.splits)
  then have "j = i" using assms(2,4,5) by (meson linorder_neqE)
  with j show ?thesis by simp
qed

lemma scan_free_eq_None:
  assumes "unat mx < 65535" and "\<And>l. mn \<le> l \<Longrightarrow> l \<le> mx \<Longrightarrow> m l \<noteq> None"
  shows "scan_free m mn mx = Some None"
proof -
  have "scan_post m mn mx (scan_free m mn mx)" using assms(1) by (rule scan_free_post)
  then show ?thesis using assms(2) unfolding scan_post_def
    by (auto split: option.splits) (metis option.distinct(1))
qed

text \<open>How the operations act on the two views of a pool.\<close>

lemma AllocatePodId_scan:
  assumes "containerIdMap s (pod_ContainerId info) = None"
    and "scan_free (podIdMap s) (minPodID s) (maxPodID s) = Some (Some i)"
    and "MinPodID \<le> i" "i \<le> MaxPodID"
  obtains s' where "AllocatePodId info s = Done (Inr i, info\<lparr>pod_LocalId := i\<rparr>, s')"
    "pod_owner s' = (pod_owner s)(i \<mapsto> pod_ContainerId info)"
    "pod_idof s' = (pod_idof s)(pod_ContainerId info \<mapsto> i)"
    "ranges_ok s' = ranges_ok s"
    "containerIdMap s' = (containerIdMap s)(pod_ContainerId info \<mapsto> info\<lparr>pod_LocalId := i\<rparr>)"
  using assms by (auto simp: AllocatePodId_def pool_views ranges_ok_def Let_def fun_eq_iff)

lemma ReleasePod_views:
  "pod_idof (ReleasePodIdByContainerId k s) = (pod_idof s)(k := None)"
  "pod_owner (ReleasePodIdByContainerId k s) =
     (\<lambda>i. if pod_idof s k = Some i then None else pod_owner s i)"
  "ranges_ok (ReleasePodIdByContainerId k s) = ranges_ok s"
  "containerIdMap (ReleasePodIdByContainerId k s) = (containerIdMap s)(k := None)"
  by (auto simp: ReleasePodIdByContainerId_def pool_views ranges_ok_def fun_eq_iff
      split: option.splits)

interpretation pods: id_pool pod_owner pod_idof MinPodID MaxPodID pod_wf pod_ContainerId
  AllocatePodId ReleasePodIdByContainerId
proof unfold_locales
  fix s :: IDManager and info :: PodInfo and i :: u16 and k :: string
  assume wf: "pod_wf s"
  then have b: "minPodID s = MinPodID" "maxPodID s = MaxPodID"
    and lk: "linked (pod_owner s) (pod_idof s)"
    by (auto simp: pod_wf_def ranges_ok_def)
  show "pod_owner s i = Some k \<longleftrightarrow> pod_idof s k = Some i" using lk by (rule linkedD)
  show "MinPodID \<le> i \<and> i \<le> MaxPodID" if "pod_owner s i = Some k"
    using that by (auto simp: pod_owner_def split: if_splits)
  show "\<exists>info'. AllocatePodId info s = Done (Inr i, info', s)"
    if "pod_idof s (pod_ContainerId info) = Some i"
    using that by (auto simp: AllocatePodId_def pod_idof_def)
  show "\<exists>info' s'. AllocatePodId info s = Done (Inr i, info', s') \<and> pod_wf s'
      \<and> pod_owner s' = (pod_owner s)(i \<mapsto> pod_ContainerId info)
      \<and> pod_idof s' = (pod_idof s)(pod_ContainerId info \<mapsto> i)"
    if n: "pod_idof s (pod_ContainerId info) = None" and r: "MinPodID \<le> i" "i \<le> MaxPodID"
      and f: "pod_owner s i = None"
      and l: "\<And>l. MinPodID \<le> l \<Longrightarrow> l < i \<Longrightarrow> pod_owner s l \<noteq> None"
  proof -
    have l': "podIdMap s j \<noteq> None" if "MinPodID \<le> j" "j < i" for j
      using l [OF that] by (auto simp: pod_owner_def split: if_splits)
    have "scan_free (podIdMap s) (minPodID s) (maxPodID s) = Some (Some i)"
      unfolding b
    proof (rule scan_free_eq_Some)
      show "unat MaxPodID < 65535" by (simp add: id_consts)
      show "podIdMap s i = None" using f r by (simp add: pod_owner_def)
    qed (use r l' in auto)
    moreover have "containerIdMap s (pod_ContainerId info) = None" using n by (simp add: pod_idof_def)
    ultimately obtain s' where s': "AllocatePodId info s = Done (Inr i, info\<lparr>pod_LocalId := i\<rparr>, s')"
      "pod_owner s' = (pod_owner s)(i \<mapsto> pod_ContainerId info)"
      "pod_idof s' = (pod_idof s)(pod_ContainerId info \<mapsto> i)" "ranges_ok s' = ranges_ok s"
      "containerIdMap s' = (containerIdMap s)(pod_ContainerId info \<mapsto> info\<lparr>pod_LocalId := i\<rparr>)"
      using r by (metis AllocatePodId_scan)
    then have "pod_wf s'"
      using wf linked_insert [OF lk f n] by (auto simp: pod_wf_def)
    with s' show ?thesis by blast
  qed
  show "\<exists>e. AllocatePodId info s = Done (Inl e, info, s)"
    if n: "pod_idof s (pod_ContainerId info) = None"
      and l: "\<And>l. MinPodID \<le> l \<Longrightarrow> l \<le> MaxPodID \<Longrightarrow> pod_owner s l \<noteq> None"
  proof -
    have l': "podIdMap s j \<noteq> None" if "MinPodID \<le> j" "j \<le> MaxPodID" for j
      using l [OF that] that by (simp add: pod_owner_def)
    have "scan_free (podIdMap s) (minPodID s) (maxPodID s) = Some None"
      unfolding b by (rule scan_free_eq_None) (simp_all add: id_consts l' [unfolded id_consts])
    then show ?thesis using n by (auto simp: AllocatePodId_def pod_idof_def)
  qed
  show "pod_idof (ReleasePodIdByContainerId k s) = (pod_idof s)(k := None)"
    and "pod_owner (ReleasePodIdByContainerId k s) =
      (\<lambda>i. if pod_idof s k = Some i then None else pod_owner s i)"
    by (fact ReleasePod_views)+
  show "pod_wf (ReleasePodIdByContainerId k s)"
    using wf linked_delete [OF lk, of k] by (auto simp: pod_wf_def ReleasePod_views)
qed

lemma AllocateProcessId_scan:
  assumes "processIdMap s (proc_ProcessId info) = None"
    and "scan_free (flowIdMap s) (minFlowID s) (maxFlowID s) = Some (Some i)"
  obtains s' where "AllocateProcessId info s = Done (Inr i, info\<lparr>proc_LocalId := i\<rparr>, s')"
    "flow_owner s' = (flow_owner s)(i \<mapsto> proc_ProcessId info)"
    "flow_idof s' = (flow_idof s)(proc_ProcessId info \<mapsto> i)"
    "ranges_ok s' = ranges_ok s"
    "processIdMap s' = (processIdMap s)(proc_ProcessId info \<mapsto> info\<lparr>proc_LocalId := i\<rparr>)"
  using assms by (auto simp: AllocateProcessId_def pool_views ranges_ok_def Let_def fun_eq_iff)

lemma ReleaseProcess_views:
  "flow_idof (ReleaseProcessInfo k s) = (flow_idof s)(k := None)"
  "flow_owner (ReleaseProcessInfo k s) =
     (\<lambda>i. if flow_idof s k = Some i then None else flow_owner s i)"
  "ranges_ok (ReleaseProcessInfo k s) = ranges_ok s"
  "processIdMap (ReleaseProcessInfo k s) = (processIdMap s)(k := None)"
  by (auto simp: ReleaseProcessInfo_def pool_views ranges_ok_def fun_eq_iff
      split: option.splits)

interpretation flows: id_pool flow_owner flow_idof MinFlowID MaxFlowID flow_wf proc_ProcessId
  AllocateProcessId ReleaseProcessInfo
proof unfold_locales
  fix s :: IDManager and info :: ProcessInfo and i :: u16 and k :: string
  assume wf: "flow_wf s"
  then have b: "minFlowID s = MinFlowID" "maxFlowID s = MaxFlowID"
    and lk: "linked (flow_owner s) (flow_idof s)"
    by (auto simp: flow_wf_def ranges_ok_def)
  show "flow_owner s i = Some k \<longleftrightarrow> flow_idof s k = Some i" using lk by (rule linkedD)
  show "MinFlowID \<le> i \<and> i \<le> MaxFlowID" if "flow_owner s i = Some k"
    using that wf by (auto simp: flow_wf_def)
  show "\<exists>info'. AllocateProcessId info s = Done (Inr i, info', s)"
    if "flow_idof s (proc_ProcessId info) = Some i"
    using that by (auto simp: AllocateProcessId_def flow_idof_def)
  show "\<exists>info' s'. AllocateProcessId info s = Done (Inr i, info', s') \<and> flow_wf s'
      \<and> flow_owner s' = (flow_owner s)(i \<mapsto> proc_ProcessId info)
      \<and> flow_idof s' = (flow_idof s)(proc_ProcessId info \<mapsto> i)"
    if n: "flow_idof s (proc_ProcessId info) = None" and r: "MinFlowID \<le> i" "i \<le> MaxFlowID"
      and f: "flow_owner s i = None"
      and l: "\<And>l. MinFlowID \<le> l \<Longrightarrow> l < i \<Longrightarrow> flow_owner s l \<noteq> None"
  proof -
    have "scan_free (flowIdMap s) (minFlowID s) (maxFlowID s) = Some (Some i)"
      unfolding b
    proof (rule scan_free_eq_Some)
      show "unat MaxFlowID < 65535" by (simp add: id_consts)
      show "flowIdMap s i = None" using f by (simp add: flow_owner_def)
    qed (use r l in \<open>auto simp: flow_owner_def\<close>)
    moreover have "processIdMap s (proc_ProcessId info) = None" using n by (simp add: flow_idof_def)
    ultimately obtain s' where s': "AllocateProcessId info s = Done (Inr i, info\<lparr>proc_LocalId := i\<rparr>, s')"
      "flow_owner s' = (flow_owner s)(i \<mapsto> proc_ProcessId info)"
      "flow_idof s' = (flow_idof s)(proc_ProcessId info \<mapsto> i)" "ranges_ok s' = ranges_ok s"
      "processIdMap s' = (processIdMap s)(proc_ProcessId info \<mapsto> info\<lparr>proc_LocalId := i\<rparr>)"
      by (metis AllocateProcessId_scan)
    then have "flow_wf s'"
      using wf r linked_insert [OF lk f n] by (auto simp: flow_wf_def)
    with s' show ?thesis by blast
  qed
  show "\<exists>e. AllocateProcessId info s = Done (Inl e, info, s)"
    if n: "flow_idof s (proc_ProcessId info) = None"
      and l: "\<And>l. MinFlowID \<le> l \<Longrightarrow> l \<le> MaxFlowID \<Longrightarrow> flow_owner s l \<noteq> None"
  proof -
    have "scan_free (flowIdMap s) (minFlowID s) (maxFlowID s) = Some None"
      unfolding b by (rule scan_free_eq_None)
        (simp_all add: id_consts l [unfolded id_consts flow_owner_def])
    then show ?thesis using n by (auto simp: AllocateProcessId_def flow_idof_def)
  qed
  show "flow_idof (ReleaseProcessInfo k s) = (flow_idof s)(k := None)"
    and "flow_owner (ReleaseProcessInfo k s) =
      (\<lambda>i. if flow_idof s k = Some i then None else flow_owner s i)"
    by (fact ReleaseProcess_views)+
  show "flow_wf (ReleaseProcessInfo k s)"
    using wf linked_delete [OF lk, of k] by (auto simp: flow_wf_def ReleaseProcess_views)
qed

section \<open>The whole manager\<close>

lemma wf_New: "idm_wf NewPodIDManager"
  by (simp add: idm_wf_def pod_wf_def flow_wf_def ranges_ok_def NewPodIDManager_def
      pool_views linked_def)

text \<open>Each operation leaves the other pool alone.\<close>

lemma pod_wf_cong:
  "podIdMap s' = podIdMap s \<Longrightarrow> containerIdMap s' = containerIdMap s \<Longrightarrow>
   ranges_ok s' = ranges_ok s \<Longrightarrow> pod_wf s' = pod_wf s"
  by (simp add: pod_wf_def pod_owner_def [abs_def] pod_idof_def [abs_def] cong: if_cong)

lemma flow_wf_cong:
  "flowIdMap s' = flowIdMap s \<Longrightarrow> processIdMap s' = processIdMap s \<Longrightarrow>
   ranges_ok s' = ranges_ok s \<Longrightarrow> flow_wf s' = flow_wf s"
  by (simp add: flow_wf_def flow_owner_def [abs_def] flow_idof_def [abs_def])

lemma AllocatePodId_frame:
  "AllocatePodId info s = Done (r, info', s') \<Longrightarrow>
   flowIdMap s' = flowIdMap s \<and> processIdMap s' = processIdMap s \<and> ranges_ok s' = ranges_ok s"
  by (auto simp: AllocatePodId_def Let_def ranges_ok_def split: option.splits)

lemma AllocateProcessId_frame:
  "AllocateProcessId info s = Done (r, info', s') \<Longrightarrow>
   podIdMap s' = podIdMap s \<and> containerIdMap s' = containerIdMap s \<and> ranges_ok s' = ranges_ok s"
  by (auto simp: AllocateProcessId_def Let_def ranges_ok_def split: option.splits)

text \<open>
  \<open>InsertPodInfo\<close> and \<open>InsertProcessInfo\<close> overwrite unconditionally; they keep the invariant
  when the id they record is the one the key already holds, which is how the RPC handlers
  call them.
\<close>

lemma InsertPodInfo_wf:
  assumes "idm_wf s" and "pod_idof s k = Some (pod_LocalId info)" and "pod_ContainerId info = k"
  shows "idm_wf (InsertPodInfo k info s)"
proof -
  let ?s = "InsertPodInfo k info s"
  have lk: "linked (pod_owner s) (pod_idof s)" using assms(1) by (simp add: idm_wf_def pod_wf_def)
  have "pod_owner s (pod_LocalId info) = Some k" using linkedD [OF lk] assms(2) by simp
  then have "pod_owner ?s = (pod_owner s)(pod_LocalId info \<mapsto> k)"
    by (auto simp: InsertPodInfo_def pool_views fun_eq_iff split: if_splits)
  moreover have "pod_idof ?s = (pod_idof s)(k \<mapsto> pod_LocalId info)"
    by (auto simp: InsertPodInfo_def pool_views fun_eq_iff)
  ultimately have "pod_owner ?s = pod_owner s" "pod_idof ?s = pod_idof s"
    using linked_refresh [OF lk assms(2)] by simp_all
  then have "pod_wf ?s"
    using assms by (auto simp: idm_wf_def pod_wf_def InsertPodInfo_def ranges_ok_def)
  moreover have "flow_wf ?s = flow_wf s"
    by (rule flow_wf_cong) (auto simp: InsertPodInfo_def ranges_ok_def)
  ultimately show ?thesis using assms(1) by (simp add: idm_wf_def)
qed

lemma InsertProcessInfo_wf:
  assumes "idm_wf s" and "flow_idof s k = Some (proc_LocalId info)" and "proc_ProcessId info = k"
  shows "idm_wf (InsertProcessInfo k info s)"
proof -
  let ?s = "InsertProcessInfo k info s"
  have fw: "flow_wf s" and pw: "pod_wf s" using assms(1) by (simp_all add: idm_wf_def)
  have r: "MinFlowID \<le> proc_LocalId info" "proc_LocalId info \<le> MaxFlowID"
    using flows.idof_range [OF fw assms(2)] by auto
  have "flow_idof ?s = (flow_idof s)(k \<mapsto> proc_LocalId info)"
    by (auto simp: InsertProcessInfo_def pool_views fun_eq_iff)
  also have "\<dots> = flow_idof s" using assms(2) by (rule fun_upd_idem)
  finally have "flow_wf ?s"
    using fw assms(3)
    by (auto simp: flow_wf_def InsertProcessInfo_def ranges_ok_def flow_owner_def [abs_def])
  moreover have "pod_owner ?s = pod_owner s"
    using r by (auto simp: pod_owner_def InsertProcessInfo_def fun_eq_iff id_consts word_le_nat_alt)
  then have "pod_wf ?s"
    using pw by (auto simp: pod_wf_def InsertProcessInfo_def ranges_ok_def pod_idof_def [abs_def])
  ultimately show ?thesis by (simp add: idm_wf_def)
qed

lemma AllocatePodId_wf: "idm_wf s \<Longrightarrow> AllocatePodId info s = Done (r, info', s') \<Longrightarrow> idm_wf s'"
  using pods.alloc_returns [of s info] AllocatePodId_frame [of info s r info' s']
    flow_wf_cong [of s' s]
  by (auto simp: idm_wf_def)

lemma AllocateProcessId_wf:
  "idm_wf s \<Longrightarrow> AllocateProcessId info s = Done (r, info', s') \<Longrightarrow> idm_wf s'"
  using flows.alloc_returns [of s info] AllocateProcessId_frame [of info s r info' s']
    pod_wf_cong [of s' s]
  by (auto simp: idm_wf_def)

lemma ReleasePod_wf: "idm_wf s \<Longrightarrow> idm_wf (ReleasePodIdByContainerId k s)"
  using pods.release_invar [of s k] flow_wf_cong [of "ReleasePodIdByContainerId k s" s]
  by (auto simp: idm_wf_def ReleasePodIdByContainerId_def ranges_ok_def split: option.splits)

lemma ReleaseProcess_wf: "idm_wf s \<Longrightarrow> idm_wf (ReleaseProcessInfo k s)"
  using flows.release_invar [of s k] pod_wf_cong [of "ReleaseProcessInfo k s" s]
  by (auto simp: idm_wf_def ReleaseProcessInfo_def ranges_ok_def split: option.splits)

text \<open>\<open>ReleaseByPodId\<close> on an id of the pod range is the release of the container that holds it.\<close>

lemma ReleaseByPodId_eq:
  assumes "pod_wf s" and "MinPodID \<le> i" and "i \<le> MaxPodID"
  shows "ReleaseByPodId i s =
    (case podIdMap s i of None \<Rightarrow> s | Some k \<Rightarrow> ReleasePodIdByContainerId k s)"
proof (cases "podIdMap s i")
  case None
  then show ?thesis by (simp add: ReleaseByPodId_def)
next
  case (Some k)
  then have "pod_idof s k = Some i"
    using assms pods.owner_idof [of s i k] by (simp add: pod_owner_def)
  with Some show ?thesis
    by (auto simp: ReleaseByPodId_def ReleasePodIdByContainerId_def pod_idof_def)
qed

section \<open>Reachable manager states\<close>

text \<open>
  The calls the daemon makes: allocation followed by the insertion of the same key and id
  (\<open>SetQos\<close>, \<open>SetFlow\<close>), and releases. Other goroutines may run between any two of them.
\<close>

inductive idm_step :: "IDManager \<Rightarrow> IDManager \<Rightarrow> bool" where
  alloc_pod: "AllocatePodId info s = Done (r, info', s') \<Longrightarrow> idm_step s s'"
| insert_pod: "pod_idof s (pod_ContainerId info) = Some (pod_LocalId info) \<Longrightarrow>
     idm_step s (InsertPodInfo (pod_ContainerId info) info s)"
| release_pod: "idm_step s (ReleasePodIdByContainerId k s)"
| release_id: "MinPodID \<le> i \<Longrightarrow> i \<le> MaxPodID \<Longrightarrow> idm_step s (ReleaseByPodId i s)"
| alloc_process: "AllocateProcessId pinfo s = Done (r, pinfo', s') \<Longrightarrow> idm_step s s'"
| insert_process: "flow_idof s (proc_ProcessId pinfo) = Some (proc_LocalId pinfo) \<Longrightarrow>
     idm_step s (InsertProcessInfo (proc_ProcessId pinfo) pinfo s)"
| release_process: "idm_step s (ReleaseProcessInfo k s)"

inductive idm_reachable :: "IDManager \<Rightarrow> bool" where
  start: "idm_reachable NewPodIDManager"
| step: "idm_reachable s \<Longrightarrow> idm_step s s' \<Longrightarrow> idm_reachable s'"

lemma idm_step_wf: "idm_step s s' \<Longrightarrow> idm_wf s \<Longrightarrow> idm_wf s'"
proof (induction rule: idm_step.induct)
  case (release_id i s)
  then show ?case
    using ReleaseByPodId_eq [of s i] ReleasePod_wf by (auto simp: idm_wf_def split: option.splits)
qed (auto intro: AllocatePodId_wf InsertPodInfo_wf ReleasePod_wf AllocateProcessId_wf
      InsertProcessInfo_wf ReleaseProcess_wf)

lemma idm_reachable_wf: "idm_reachable s \<Longrightarrow> idm_wf s"
  by (induction rule: idm_reachable.induct) (auto intro: wf_New idm_step_wf)

section \<open>Properties\<close>

text \<open>In every state the daemon can reach, two different containers never hold the same
  local id and two different host processes never do, pod ids lie in 1000..5999 and flow ids in
  100..999, so an id identifies one object.\<close>

theorem reachable_ids_unique:
  assumes "idm_reachable s"
  shows "inj_on (\<lambda>k. pod_LocalId (the (containerIdMap s k))) (dom (containerIdMap s))
    \<and> inj_on (\<lambda>p. proc_LocalId (the (processIdMap s p))) (dom (processIdMap s))
    \<and> pod_LocalId ` ran (containerIdMap s) \<subseteq> {1000..5999}
    \<and> proc_LocalId ` ran (processIdMap s) \<subseteq> {100..999}"
proof (intro conjI)
  have pw: "pod_wf s" and fw: "flow_wf s"
    using idm_reachable_wf [OF assms] by (auto simp: idm_wf_def)
  show "inj_on (\<lambda>k. pod_LocalId (the (containerIdMap s k))) (dom (containerIdMap s))"
    using pods.ids_distinct [OF pw] by (auto simp: inj_on_def pod_idof_def)
  show "inj_on (\<lambda>p. proc_LocalId (the (processIdMap s p))) (dom (processIdMap s))"
    using flows.ids_distinct [OF fw] by (auto simp: inj_on_def flow_idof_def)
  show "pod_LocalId ` ran (containerIdMap s) \<subseteq> {1000..5999}"
    using pods.idof_range [OF pw] by (fastforce simp: pod_idof_def ran_def id_consts)
  show "proc_LocalId ` ran (processIdMap s) \<subseteq> {100..999}"
    using flows.idof_range [OF fw] by (fastforce simp: flow_idof_def ran_def id_consts)
qed

text \<open>A manager with one pod and one flow, reached by the calls of two requests.\<close>

definition one_pod :: PodInfo where
  "one_pod = zeroPodInfo\<lparr>pod_ContainerId := ''c1''\<rparr>"

definition one_flow :: ProcessInfo where
  "one_flow = zeroProcessInfo\<lparr>proc_ProcessId := ''egress:10.0.0.1:80''\<rparr>"

definition example_idm :: IDManager where
  "example_idm = NewPodIDManager
     \<lparr>podIdMap := [1000 \<mapsto> ''c1''], containerIdMap := [''c1'' \<mapsto> one_pod\<lparr>pod_LocalId := 1000\<rparr>],
      flowIdMap := [100 \<mapsto> ''egress:10.0.0.1:80''],
      processIdMap := [''egress:10.0.0.1:80'' \<mapsto> one_flow\<lparr>proc_LocalId := 100\<rparr>]\<rparr>"

lemma example_idm_reachable: "idm_reachable example_idm"
proof -
  let ?s1 = "NewPodIDManager\<lparr>podIdMap := [1000 \<mapsto> ''c1''],
      containerIdMap := [''c1'' \<mapsto> one_pod\<lparr>pod_LocalId := 1000\<rparr>]\<rparr>"
  have "AllocatePodId one_pod NewPodIDManager = Done (Inr 1000, one_pod\<lparr>pod_LocalId := 1000\<rparr>, ?s1)"
    by (simp add: AllocatePodId_def NewPodIDManager_def scan_free.simps id_consts one_pod_def
        zeroPodInfo_def Let_def)
  then have s1: "idm_reachable ?s1"
    by (rule idm_reachable.step [OF idm_reachable.start idm_step.alloc_pod])
  have "AllocateProcessId one_flow ?s1
      = Done (Inr 100, one_flow\<lparr>proc_LocalId := 100\<rparr>, example_idm)"
    by (simp add: AllocateProcessId_def NewPodIDManager_def scan_free.simps id_consts one_flow_def
        zeroProcessInfo_def example_idm_def Let_def)
  then show ?thesis by (rule idm_reachable.step [OF s1 idm_step.alloc_process])
qed

lemma reachable_ids_unique_witness:
  "idm_reachable example_idm \<and> dom (containerIdMap example_idm) = {''c1''}
   \<and> pod_LocalId ` ran (containerIdMap example_idm) \<subseteq> {1000..5999}"
  using example_idm_reachable reachable_ids_unique [OF example_idm_reachable]
  by (simp add: example_idm_def)

text \<open>C24: \<open>AllocatePodId\<close> always returns. A container that already has an id gets the same id
  and nothing changes; a new container gets the least free pod id and only its own entries are
  added; it fails, without any change, exactly when all 5000 pod ids are held by containers.\<close>

theorem AllocatePodId_spec:
  assumes "idm_reachable s"
  shows "\<exists>r info' s'. AllocatePodId info s = Done (r, info', s') \<and>
    (case r of
       Inr i \<Rightarrow> MinPodID \<le> i \<and> i \<le> MaxPodID \<and> pod_idof s' (pod_ContainerId info) = Some i
         \<and> (\<forall>k. k \<noteq> pod_ContainerId info \<longrightarrow> containerIdMap s' k = containerIdMap s k)
         \<and> (if pod_idof s (pod_ContainerId info) \<noteq> None then s' = s
            else podIdMap s i = None \<and> (\<forall>l. MinPodID \<le> l \<and> l < i \<longrightarrow> podIdMap s l \<noteq> None))
     | Inl e \<Rightarrow> s' = s \<and> e = NoAvailableLocalId \<and> card (dom (containerIdMap s)) = 5000)"
proof -
  have pw: "pod_wf s" using idm_reachable_wf [OF assms] by (simp add: idm_wf_def)
  have dom: "dom (pod_idof s) = dom (containerIdMap s)" by (auto simp: pod_idof_def)
  have c: "card {MinPodID..MaxPodID} = 5000" by (simp add: card_u16_range id_consts)
  show ?thesis
    using pw
  proof (rule pods.alloc_cases [where info = info])
    fix i info'
    assume "pod_idof s (pod_ContainerId info) = Some i" "AllocatePodId info s = Done (Inr i, info', s)"
    then show ?thesis using pods.idof_range [OF pw] by auto
  next
    fix i info' s'
    assume a: "pod_idof s (pod_ContainerId info) = None" "MinPodID \<le> i" "i \<le> MaxPodID"
      "pod_owner s i = None" "AllocatePodId info s = Done (Inr i, info', s')"
      "\<And>l. MinPodID \<le> l \<Longrightarrow> l < i \<Longrightarrow> pod_owner s l \<noteq> None"
      "pod_idof s' = (pod_idof s)(pod_ContainerId info \<mapsto> i)"
    have "podIdMap s l \<noteq> None" if "MinPodID \<le> l" "l < i" for l
      using a(6) [OF that] by (auto simp: pod_owner_def split: if_splits)
    moreover have "containerIdMap s' k = containerIdMap s k" if "k \<noteq> pod_ContainerId info" for k
      using a(1,5) that by (auto simp: AllocatePodId_def Let_def pod_idof_def split: option.splits)
    ultimately show ?thesis using a by (auto simp: pod_owner_def)
  next
    fix e
    assume a: "AllocatePodId info s = Done (Inl e, info, s)"
    then have "e = NoAvailableLocalId" by (auto simp: AllocatePodId_def Let_def split: option.splits)
    with a show ?thesis using pods.alloc_fails_full(1) [OF pw a] dom c by auto
  qed
qed

definition example_req :: PodInfo where
  "example_req = zeroPodInfo\<lparr>pod_ContainerId := ''c2''\<rparr>"

lemma AllocatePodId_spec_witness:
  "idm_reachable example_idm \<and> (\<exists>r info' s'. AllocatePodId example_req example_idm = Done (r, info', s')
     \<and> (case r of Inr i \<Rightarrow> podIdMap example_idm i = None | Inl e \<Rightarrow> e = NoAvailableLocalId))"
proof -
  have "pod_idof example_idm (pod_ContainerId example_req) = None"
    by (simp add: pod_idof_def example_idm_def example_req_def zeroPodInfo_def)
  then show ?thesis
    using example_idm_reachable AllocatePodId_spec [OF example_idm_reachable, of example_req]
    by (fastforce split: sum.splits)
qed

text \<open>C25: The process map does not reserve the ids it is given: \<open>InsertProcessInfo\<close> stores the
  id in \<open>podIdMap\<close>, so a flow id that is recorded this way and was free is handed out again by
  the next \<open>AllocateProcessId\<close>, and two processes then hold the same id.\<close>

theorem InsertProcessInfo_not_reserved:
  assumes "idm_wf s" and "processIdMap s q = None" and "p \<noteq> q"
    and "scan_free (flowIdMap s) MinFlowID MaxFlowID = Some (Some i)"
    and "proc_LocalId pinfo = i" and "proc_ProcessId qinfo = q"
  shows "\<exists>q' s'. AllocateProcessId qinfo (InsertProcessInfo p pinfo s) = Done (Inr i, q', s')
    \<and> processIdMap s' p = Some pinfo \<and> processIdMap s' q = Some q'
    \<and> proc_LocalId q' = proc_LocalId pinfo"
proof -
  have "minFlowID s = MinFlowID" "maxFlowID s = MaxFlowID"
    using assms(1) by (auto simp: idm_wf_def flow_wf_def ranges_ok_def)
  then show ?thesis
    using assms(2-6) by (auto simp: AllocateProcessId_def InsertProcessInfo_def Let_def)
qed

lemma InsertProcessInfo_not_reserved_witness:
  "\<exists>q' s'. AllocateProcessId (one_flow\<lparr>proc_ProcessId := ''q''\<rparr>)
      (InsertProcessInfo ''p'' (one_flow\<lparr>proc_LocalId := 100\<rparr>) NewPodIDManager) = Done (Inr 100, q', s')
    \<and> processIdMap s' ''p'' = Some (one_flow\<lparr>proc_LocalId := 100\<rparr>) \<and> processIdMap s' ''q'' = Some q'
    \<and> proc_LocalId q' = 100"
proof -
  have "scan_free (flowIdMap NewPodIDManager) MinFlowID MaxFlowID = Some (Some 100)"
    by (simp add: scan_free.simps NewPodIDManager_def id_consts)
  then show ?thesis
    using InsertProcessInfo_not_reserved [OF wf_New, of "''q''" "''p''" 100
        "one_flow\<lparr>proc_LocalId := 100\<rparr>" "one_flow\<lparr>proc_ProcessId := ''q''\<rparr>"]
    by (simp add: NewPodIDManager_def)
qed



end
