(* ===== verification/Go_Strings.thy ===== *)
theory Go_Strings
  imports Go_Prelude
begin

text \<open>
  What the repository uses of Go's \<open>strings\<close> and \<open>strconv\<close> packages. A Go string is a
  sequence of bytes, a \<open>string\<close> here. Conversions return the error kind on the left.
\<close>

section \<open>Numbers\<close>

datatype num_error = ErrSyntax | ErrRange

definition is_digit :: "char \<Rightarrow> bool" where
  "is_digit c \<longleftrightarrow> 48 \<le> (of_char c :: nat) \<and> (of_char c :: nat) \<le> 57"

definition digit_val :: "char \<Rightarrow> nat" where
  "digit_val c = of_char c - 48"

text \<open>\<open>strconv.ParseUint(s, 10, bits)\<close>: the loop stops at the first digit that overflows.\<close>

fun parse_digits :: "nat \<Rightarrow> nat \<Rightarrow> string \<Rightarrow> num_error + nat" where
  "parse_digits mx n [] = Inr n"
| "parse_digits mx n (c # cs) =
     (if is_digit c
      then (let n1 = n * 10 + digit_val c in if n1 > mx then Inl ErrRange else parse_digits mx n1 cs)
      else Inl ErrSyntax)"

definition ParseUint :: "string \<Rightarrow> nat \<Rightarrow> num_error + nat" where
  "ParseUint s bits = (if s = [] then Inl ErrSyntax else parse_digits (2 ^ bits - 1) 0 s)"

text \<open>\<open>strconv.Atoi\<close> on a 64-bit \<open>int\<close>: an optional sign, then at least one digit.\<close>

definition Atoi :: "string \<Rightarrow> num_error + int" where
  "Atoi s =
     (let neg = (s \<noteq> [] \<and> hd s = CHR ''-'');
          ds = (if s \<noteq> [] \<and> (hd s = CHR ''-'' \<or> hd s = CHR ''+'') then tl s else s)
      in case ParseUint ds 64 of
           Inl e \<Rightarrow> Inl e
         | Inr n \<Rightarrow>
             if \<not> neg \<and> n \<ge> 2 ^ 63 then Inl ErrRange
             else if neg \<and> n > 2 ^ 63 then Inl ErrRange
             else Inr (if neg then - int n else int n))"

text \<open>\<open>strconv.Itoa\<close> and \<open>FormatUint(\<cdot>, 10)\<close> on a value that is not negative.\<close>

definition digit_char :: "nat \<Rightarrow> char" where
  "digit_char d = char_of (48 + d)"

fun FormatUint :: "nat \<Rightarrow> string" where
  "FormatUint n = (if n < 10 then [digit_char n] else FormatUint (n div 10) @ [digit_char (n mod 10)])"

declare FormatUint.simps [simp del]

definition Itoa :: "int \<Rightarrow> string" where
  "Itoa i = (if i < 0 then CHR ''-'' # FormatUint (nat (- i)) else FormatUint (nat i))"

lemma of_char_digit_char: "d < 10 \<Longrightarrow> (of_char (digit_char d) :: nat) = 48 + d"
  by (simp add: digit_char_def)

lemma is_digit_char [simp]: "d < 10 \<Longrightarrow> is_digit (digit_char d)"
  by (simp add: is_digit_def of_char_digit_char)

lemma digit_val_char [simp]: "d < 10 \<Longrightarrow> digit_val (digit_char d) = d"
  by (simp add: digit_val_def of_char_digit_char)

lemma digit_val_bound: "is_digit c \<Longrightarrow> digit_val c < 10"
  by (auto simp: is_digit_def digit_val_def)

lemma FormatUint_neq_Nil [simp]: "FormatUint n \<noteq> []"
  by (subst FormatUint.simps) simp

lemma FormatUint_digits: "c \<in> set (FormatUint n) \<Longrightarrow> is_digit c"
proof (induction n rule: FormatUint.induct)
  case (1 n)
  show ?case
  proof (cases "n < 10")
    case True
    then show ?thesis using 1(2) by (simp add: FormatUint.simps [of n])
  next
    case False
    then have "c \<in> set (FormatUint (n div 10)) \<or> c = digit_char (n mod 10)"
      using 1(2) by (auto simp: FormatUint.simps [of n])
    then show ?thesis using 1(1) [OF False] by auto
  qed
qed

lemma parse_digits_append:
  "parse_digits mx n (xs @ ys) =
     (case parse_digits mx n xs of Inl e \<Rightarrow> Inl e | Inr k \<Rightarrow> parse_digits mx k ys)"
  by (induction xs arbitrary: n) (auto simp: Let_def)

lemma parse_digits_Format: "n \<le> mx \<Longrightarrow> parse_digits mx 0 (FormatUint n) = Inr n"
proof (induction n rule: FormatUint.induct)
  case (1 n)
  show ?case
  proof (cases "n < 10")
    case True
    then show ?thesis using 1(2) by (simp add: FormatUint.simps [of n] Let_def)
  next
    case False
    have "parse_digits mx 0 (FormatUint (n div 10)) = Inr (n div 10)"
      using 1 False by simp
    then show ?thesis
      using False 1(2) by (simp add: FormatUint.simps [of n] parse_digits_append Let_def)
  qed
qed

lemma ParseUint_Format: "n < 2 ^ bits \<Longrightarrow> ParseUint (FormatUint n) bits = Inr n"
  by (simp add: ParseUint_def parse_digits_Format)

lemma parse_digits_bound: "parse_digits mx n s = Inr k \<Longrightarrow> n \<le> mx \<Longrightarrow> k \<le> mx"
  by (induction mx n s rule: parse_digits.induct) (auto simp: Let_def split: if_splits)

lemma ParseUint_bound: "ParseUint s bits = Inr k \<Longrightarrow> k < 2 ^ bits"
proof -
  assume "ParseUint s bits = Inr k"
  then have "k \<le> 2 ^ bits - 1"
    by (auto simp: ParseUint_def split: if_splits intro: parse_digits_bound)
  moreover have "0 < (2::nat) ^ bits" by simp
  ultimately show ?thesis by linarith
qed

lemma digit_not_sign: "is_digit c \<Longrightarrow> c \<noteq> CHR ''-'' \<and> c \<noteq> CHR ''+'' \<and> c \<noteq> CHR '':'' \<and> c \<noteq> CHR ''.''"
  by (auto simp: is_digit_def)

lemma Atoi_Format: "n < 2 ^ 63 \<Longrightarrow> Atoi (FormatUint n) = Inr (int n)"
proof -
  assume n: "n < 2 ^ 63"
  have "is_digit (hd (FormatUint n))" by (rule FormatUint_digits [of _ n]) simp
  then show ?thesis
    using n ParseUint_Format [of n 64] digit_not_sign [of "hd (FormatUint n)"]
    by (simp add: Atoi_def Let_def)
qed

lemma Atoi_range: "Atoi s = Inr i \<Longrightarrow> - (2 ^ 63) \<le> i \<and> i < 2 ^ 63"
  by (auto simp: Atoi_def Let_def split: sum.splits if_splits)

section \<open>Strings\<close>

definition HasSuffix :: "string \<Rightarrow> string \<Rightarrow> bool" where
  "HasSuffix s suf \<longleftrightarrow> length suf \<le> length s \<and> drop (length s - length suf) s = suf"

definition TrimSuffix :: "string \<Rightarrow> string \<Rightarrow> string" where
  "TrimSuffix s suf = (if HasSuffix s suf then take (length s - length suf) s else s)"

text \<open>
  \<open>strings.TrimSpace\<close> strips the code points of \<open>unicode.IsSpace\<close>. In UTF-8 they are
  six ASCII bytes and the multi-byte sequences listed here.
\<close>

definition space_runes :: "nat list list" where
  "space_runes = [[9], [10], [11], [12], [13], [32], [194, 133], [194, 160], [225, 154, 128],
     [226, 128, 168], [226, 128, 169], [226, 128, 175], [226, 129, 159], [227, 128, 128]]
     @ map (\<lambda>i. [226, 128, 128 + i]) [0..<11]"

definition rune_prefix :: "string \<Rightarrow> nat list option" where
  "rune_prefix s = List.find (\<lambda>r. take (length r) (map of_char s) = r) space_runes"

lemma rune_prefix_length: "rune_prefix s = Some r \<Longrightarrow> 0 < length r \<and> length r \<le> length s"
proof -
  assume "rune_prefix s = Some r"
  then have "r \<in> set space_runes" and eq: "take (length r) (map of_char s) = r"
    by (auto simp: rune_prefix_def find_Some_iff)
  then have "r \<noteq> []" by (auto simp: space_runes_def)
  moreover have "length r \<le> length s"
    using arg_cong [OF eq, of length] by simp
  ultimately show ?thesis by simp
qed

function TrimLeftSpace :: "string \<Rightarrow> string" where
  "TrimLeftSpace s =
     (case rune_prefix s of None \<Rightarrow> s | Some r \<Rightarrow> TrimLeftSpace (drop (length r) s))"
  by pat_completeness auto
termination
  by (relation "measure length") (auto dest!: rune_prefix_length intro: diff_less)

declare TrimLeftSpace.simps [simp del]

definition rune_suffix :: "string \<Rightarrow> nat list option" where
  "rune_suffix s = List.find (\<lambda>r. length r \<le> length s \<and> drop (length s - length r) (map of_char s) = r)
     space_runes"

lemma rune_suffix_length: "rune_suffix s = Some r \<Longrightarrow> 0 < length r \<and> length r \<le> length s"
proof -
  assume "rune_suffix s = Some r"
  then have "r \<in> set space_runes" and "length r \<le> length s"
    by (auto simp: rune_suffix_def find_Some_iff)
  moreover from this have "r \<noteq> []" by (auto simp: space_runes_def)
  ultimately show ?thesis by simp
qed

function TrimRightSpace :: "string \<Rightarrow> string" where
  "TrimRightSpace s =
     (case rune_suffix s of None \<Rightarrow> s | Some r \<Rightarrow> TrimRightSpace (take (length s - length r) s))"
  by pat_completeness auto
termination
  by (relation "measure length") (auto dest!: rune_suffix_length intro: diff_less)

declare TrimRightSpace.simps [simp del]

definition TrimSpace :: "string \<Rightarrow> string" where
  "TrimSpace s = TrimRightSpace (TrimLeftSpace s)"

text \<open>A string that neither starts nor ends with a byte of a space rune is left alone.\<close>

lemma digit_bounds: "is_digit c \<Longrightarrow> 48 \<le> (of_char c :: nat) \<and> (of_char c :: nat) \<le> 57"
  by (simp add: is_digit_def)

definition plain :: "char \<Rightarrow> bool" where
  "plain c \<longleftrightarrow> 33 \<le> (of_char c :: nat) \<and> (of_char c :: nat) < 128"

lemma plain_digit: "is_digit c \<Longrightarrow> plain c"
  using digit_bounds [of c] by (simp add: plain_def)

lemma rune_prefix_plain: "plain c \<Longrightarrow> rune_prefix (c # s) = None"
  by (auto simp: plain_def rune_prefix_def find_None_iff space_runes_def)

lemma rune_suffix_plain: "plain c \<Longrightarrow> rune_suffix (s @ [c]) = None"
proof -
  assume d: "plain c"
  have "\<not> (length r \<le> length (s @ [c]) \<and> drop (length (s @ [c]) - length r) (map of_char (s @ [c])) = r)"
    if "r \<in> set space_runes" for r
  proof
    assume a: "length r \<le> length (s @ [c]) \<and> drop (length (s @ [c]) - length r) (map of_char (s @ [c])) = r"
    from that have ne: "r \<noteq> []" by (auto simp: space_runes_def)
    then have "last (drop (length (s @ [c]) - length r) (map of_char (s @ [c]))) = last (map of_char (s @ [c]) :: nat list)"
      by (subst last_drop) (auto simp: Suc_le_eq)
    with a have "last r = of_char c" by simp
    moreover have "last r < 33 \<or> 128 \<le> last r" using that by (auto simp: space_runes_def)
    ultimately show False using d by (auto simp: plain_def)
  qed
  then show ?thesis by (auto simp: rune_suffix_def find_None_iff)
qed

lemma TrimSpace_plain:
  assumes "s \<noteq> []" and "plain (hd s)" and "plain (last s)"
  shows "TrimSpace s = s"
proof -
  obtain c cs where cs: "s = c # cs" using assms(1) by (cases s) auto
  then have l: "TrimLeftSpace s = s"
    using assms(2) by (subst TrimLeftSpace.simps) (simp add: rune_prefix_plain)
  have "rune_suffix (butlast s @ [last s]) = None"
    using assms by (intro rune_suffix_plain) auto
  then have "TrimRightSpace s = s"
    using assms(1) by (subst TrimRightSpace.simps) simp
  with l show ?thesis by (simp add: TrimSpace_def)
qed

text \<open>\<open>strings.LastIndex(s, ":")\<close>; \<open>None\<close> is the result \<open>-1\<close>.\<close>

fun LastIndex :: "string \<Rightarrow> char \<Rightarrow> nat option" where
  "LastIndex [] c = None"
| "LastIndex (x # xs) c =
     (case LastIndex xs c of Some i \<Rightarrow> Some (Suc i) | None \<Rightarrow> if x = c then Some 0 else None)"

lemma LastIndex_None: "c \<notin> set s \<Longrightarrow> LastIndex s c = None"
  by (induction s) auto

lemma LastIndex_append: "c \<notin> set q \<Longrightarrow> LastIndex (p @ c # q) c = Some (length p)"
  by (induction p) (auto simp: LastIndex_None)

lemma LastIndex_Some_iff:
  "LastIndex s c = Some i \<Longrightarrow> i < length s \<and> s ! i = c \<and> c \<notin> set (drop (Suc i) s)"
proof (induction s arbitrary: i)
  case (Cons x xs)
  show ?case
  proof (cases "LastIndex xs c")
    case None
    have "c \<notin> set xs" using None by (induction xs) (auto split: option.splits if_splits)
    with None Cons.prems show ?thesis by (auto split: if_splits)
  next
    case (Some j)
    then show ?thesis using Cons.IH [OF Some] Cons.prems by auto
  qed
qed simp

text \<open>\<open>strings.Join(\<cdot>, sep)\<close> and \<open>strings.Split(\<cdot>, sep)\<close> for a one-byte separator.\<close>

fun Join :: "string list \<Rightarrow> string \<Rightarrow> string" where
  "Join [] sep = []"
| "Join [x] sep = x"
| "Join (x # xs) sep = x @ sep @ Join xs sep"

fun Split :: "string \<Rightarrow> char \<Rightarrow> string list" where
  "Split [] c = [[]]"
| "Split (x # xs) c =
     (if x = c then [] # Split xs c
      else (case Split xs c of [] \<Rightarrow> [[x]] | w # ws \<Rightarrow> (x # w) # ws))"

lemma Split_no_sep: "c \<notin> set p \<Longrightarrow> Split p c = [p]"
  by (induction p) auto

lemma Split_append: "c \<notin> set p \<Longrightarrow> Split (p @ c # q) c = p # Split q c"
  by (induction p) auto

end
