(* ===== verification/Nets.thy ===== *)
theory Nets
  imports Go_Strings
begin

text \<open>
  Address and port conversions, \<open>pkg/nets/nets.go\<close> and \<open>convertBigEndianPortToLittle\<close> of
  \<open>cmd/cmdctl/main.go\<close>, on top of what they use of Go's \<open>net\<close> package: \<open>net.ParseIP\<close>
  (through \<open>netip.ParseAddr\<close>), \<open>IP.To4\<close> and \<open>IP.String\<close> on a four-byte address.
\<close>

section \<open>net.ParseIP\<close>

text \<open>
  \<open>parseIPv4Fields\<close>: \<open>val\<close> is the value of the current octet and \<open>digLen\<close> its number of
  digits, \<open>out\<close> the octets before it. A dot needs a digit before it and a character after it.
\<close>

fun parseIPv4Fields :: "nat \<Rightarrow> nat \<Rightarrow> u8 list \<Rightarrow> string \<Rightarrow> u8 list option" where
  "parseIPv4Fields val digLen out [] =
     (if length out < 3 then None else Some (out @ [of_nat val]))"
| "parseIPv4Fields val digLen out (c # cs) =
     (if is_digit c
      then (if digLen = 1 \<and> val = 0 then None
            else (let v = val * 10 + digit_val c
                  in if v > 255 then None else parseIPv4Fields v (Suc digLen) out cs))
      else if c = CHR ''.''
      then (if digLen = 0 \<or> cs = [] then None
            else if length out = 3 then None
            else parseIPv4Fields 0 0 (out @ [of_nat val]) cs)
      else None)"

definition hex_val :: "char \<Rightarrow> nat option" where
  "hex_val c =
     (let n = of_char c :: nat
      in if 48 \<le> n \<and> n \<le> 57 then Some (n - 48)
         else if 97 \<le> n \<and> n \<le> 102 then Some (n - 87)
         else if 65 \<le> n \<and> n \<le> 70 then Some (n - 55)
         else None)"

text \<open>One hexadecimal group: its value, its number of digits and the rest; five digits fail.\<close>

fun hex_group :: "nat \<Rightarrow> nat \<Rightarrow> string \<Rightarrow> (nat \<times> nat \<times> string) option" where
  "hex_group off acc [] = Some (acc, off, [])"
| "hex_group off acc (c # cs) =
     (case hex_val c of
        None \<Rightarrow> Some (acc, off, c # cs)
      | Some d \<Rightarrow> if off > 3 then None else hex_group (Suc off) (acc * 16 + d) cs)"

text \<open>
  The loop of \<open>parseIPv6\<close>: \<open>ip\<close> holds the bytes written so far and \<open>ell\<close> the position of
  the ellipsis; the result is both with what is left of the string.
\<close>

function parseIPv6_loop ::
  "u8 list \<Rightarrow> nat option \<Rightarrow> string \<Rightarrow> (u8 list \<times> nat option \<times> string) option" where
  "parseIPv6_loop ip ell s =
     (if length ip \<ge> 16 then Some (ip, ell, s)
      else case hex_group 0 0 s of
        None \<Rightarrow> None
      | Some (acc, off, r) \<Rightarrow>
          if off = 0 then None
          else if r \<noteq> [] \<and> hd r = CHR ''.''
          then (if ell = None \<and> length ip \<noteq> 12 then None
                else if length ip + 4 > 16 then None
                else case parseIPv4Fields 0 0 [] s of
                  None \<Rightarrow> None
                | Some f \<Rightarrow> Some (ip @ f, ell, []))
          else
            (let ip' = ip @ [of_nat (acc div 256), of_nat acc]
             in case r of
                  [] \<Rightarrow> Some (ip', ell, [])
                | c # r' \<Rightarrow>
                    if c \<noteq> CHR '':'' \<or> r' = [] then None
                    else if hd r' = CHR '':''
                    then (if ell \<noteq> None then None
                          else if tl r' = [] then Some (ip', Some (length ip'), [])
                          else parseIPv6_loop ip' (Some (length ip')) (tl r'))
                    else parseIPv6_loop ip' ell r'))"
  by pat_completeness auto
termination
  by (relation "measure (\<lambda>(ip, _, _). 16 - length ip)") auto

declare parseIPv6_loop.simps [simp del]

text \<open>An address with a zone is not an \<open>IP\<close>, so a percent sign makes \<open>ParseIP\<close> fail.\<close>

definition parseIPv6 :: "string \<Rightarrow> u8 list option" where
  "parseIPv6 str =
     (let lead = (take 2 str = ''::''); s = (if lead then drop 2 str else str)
      in if lead \<and> s = [] then Some (replicate 16 0)
         else case parseIPv6_loop [] (if lead then Some 0 else None) s of
           None \<Rightarrow> None
         | Some (ip, ell, rest) \<Rightarrow>
             if rest \<noteq> [] then None
             else if length ip < 16
             then (case ell of
                     None \<Rightarrow> None
                   | Some e \<Rightarrow> Some (take e ip @ replicate (16 - length ip) 0 @ drop e ip))
             else (if ell \<noteq> None then None else Some ip))"

definition v4InV6Prefix :: "u8 list" where
  "v4InV6Prefix = replicate 10 0 @ [255, 255]"

definition ParseIP :: "string \<Rightarrow> u8 list option" where
  "ParseIP s =
     (case List.find (\<lambda>c. c = CHR ''.'' \<or> c = CHR '':'' \<or> c = CHR ''%'') s of
        None \<Rightarrow> None
      | Some c \<Rightarrow>
          if c = CHR ''.'' then map_option (\<lambda>b. v4InV6Prefix @ b) (parseIPv4Fields 0 0 [] s)
          else if c = CHR '':'' then (if CHR ''%'' \<in> set s then None else parseIPv6 s)
          else None)"

text \<open>\<open>IP.To4\<close>; \<open>None\<close> is a nil slice.\<close>

definition To4 :: "u8 list \<Rightarrow> u8 list option" where
  "To4 ip =
     (if length ip = 4 then Some ip
      else if length ip = 16 \<and> take 12 ip = v4InV6Prefix then Some (drop 12 ip)
      else None)"

text \<open>\<open>IP.String\<close> of a four-byte address.\<close>

definition dotted :: "u8 list \<Rightarrow> string" where
  "dotted bs = Join (map (\<lambda>b. FormatUint (unat b)) bs) ''.''"

section \<open>pkg/nets\<close>

text \<open>The unsigned reading of a nil slice panics: \<open>LittleEndian.Uint32\<close> indexes byte 3.\<close>

definition ConvertIpToUint32 :: "string \<Rightarrow> u32 outcome" where
  "ConvertIpToUint32 ip =
     (case ParseIP ip of
        None \<Rightarrow> Done 0
      | Some netIP \<Rightarrow>
          if length netIP = 16
          then (case To4 netIP of None \<Rightarrow> getle32 [] | Some b \<Rightarrow> getle32 b)
          else if length netIP = 4 then getle32 netIP
          else Done 0)"

definition ConvertUint32ToIp :: "u32 \<Rightarrow> string" where
  "ConvertUint32ToIp big = dotted (le32 big)"

definition ConvertPortToBigEndian :: "u32 \<Rightarrow> u32" where
  "ConvertPortToBigEndian little =
     (let tmp = be16 (ucast little)
      in case getle16 tmp of Done big16 \<Rightarrow> ucast big16 | _ \<Rightarrow> 0)"

definition ConvertIpByteToUint32 :: "bytes \<Rightarrow> u32 outcome" where
  "ConvertIpByteToUint32 ip = getle32 ip"

definition convertBigEndianPortToLittle :: "u32 \<Rightarrow> u32" where
  "convertBigEndianPortToLittle big =
     (let tmp = le16 (ucast big)
      in case getbe16 tmp of Done little16 \<Rightarrow> ucast little16 | _ \<Rightarrow> 0)"

section \<open>Addresses as text\<close>

lemma FormatUint_1: "n < 10 \<Longrightarrow> FormatUint n = [digit_char n]"
  by (simp add: FormatUint.simps)

lemma FormatUint_2:
  "10 \<le> n \<Longrightarrow> n < 100 \<Longrightarrow> FormatUint n = [digit_char (n div 10), digit_char (n mod 10)]"
  by (simp add: FormatUint.simps [of n] FormatUint_1 not_less)

lemma FormatUint_3:
  "100 \<le> n \<Longrightarrow> n < 1000 \<Longrightarrow>
   FormatUint n = [digit_char (n div 100), digit_char (n div 10 mod 10), digit_char (n mod 10)]"
proof -
  assume a: "100 \<le> n" "n < 1000"
  then have "FormatUint (n div 10) = [digit_char (n div 10 div 10), digit_char (n div 10 mod 10)]"
    by (intro FormatUint_2) auto
  moreover have "n div 10 div 10 = n div 100" by (simp add: div_mult2_eq [symmetric])
  ultimately show ?thesis using a by (simp add: FormatUint.simps [of n])
qed

text \<open>Reading one printed octet.\<close>

lemma parse_octet:
  assumes "n < 256"
  shows "\<exists>k>0. parseIPv4Fields 0 0 out (FormatUint n @ r) = parseIPv4Fields n k out r"
proof -
  consider "n < 10" | "10 \<le> n" "n < 100" | "100 \<le> n" "n < 1000" using assms by linarith
  then show ?thesis
  proof cases
    case 1
    then have "parseIPv4Fields 0 0 out (FormatUint n @ r) = parseIPv4Fields n 1 out r"
      by (simp add: FormatUint_1 Let_def)
    then show ?thesis by blast
  next
    case 2
    then have "n div 10 \<noteq> 0" "n div 10 < 10" "n div 10 * 10 + n mod 10 = n" "n div 10 \<le> 255"
      by auto
    then have "parseIPv4Fields 0 0 out (FormatUint n @ r) = parseIPv4Fields n 2 out r"
      using 2 assms by (simp add: FormatUint_2 Let_def numeral_2_eq_2)
    then show ?thesis by (metis zero_less_numeral)
  next
    case 3
    have "n div 100 \<noteq> 0" using 3(1) by (simp add: div_eq_0_iff)
    moreover have "n div 100 < 10" using 3(2) by (simp add: less_mult_imp_div_less)
    moreover have "n div 100 = n div 10 div 10" by (simp add: div_mult2_eq [symmetric])
    then have "n div 100 * 10 + n div 10 mod 10 = n div 10" by simp
    moreover have "n div 10 * 10 + n mod 10 = n" "n div 10 \<le> 255" "n \<le> 255" using assms by auto
    ultimately have "parseIPv4Fields 0 0 out (FormatUint n @ r) = parseIPv4Fields n 3 out r"
      using 3 by (simp add: FormatUint_3 Let_def numeral_3_eq_3)
    then show ?thesis by (metis zero_less_numeral)
  qed
qed

lemma dot_not_digit: "\<not> is_digit CHR ''.''"
  by (simp add: is_digit_def)

lemma parse_octet_dot:
  assumes "n < 256" "r \<noteq> []" "length out < 3"
  shows "parseIPv4Fields 0 0 out (FormatUint n @ CHR ''.'' # r) =
    parseIPv4Fields 0 0 (out @ [of_nat n]) r"
proof -
  obtain k where "k > 0"
    "parseIPv4Fields 0 0 out (FormatUint n @ CHR ''.'' # r) = parseIPv4Fields n k out (CHR ''.'' # r)"
    using parse_octet [OF assms(1)] by blast
  then show ?thesis using assms by (simp add: dot_not_digit)
qed

lemma parse_octet_end:
  assumes "n < 256" "length out = 3"
  shows "parseIPv4Fields 0 0 out (FormatUint n) = Some (out @ [of_nat n])"
  using parse_octet [OF assms(1), of out "[]"] assms(2) by auto

lemma unat_u8_bound: "unat (b::u8) < 256"
  using unsigned_less [of b] by simp

lemma parseIPv4_dotted: "parseIPv4Fields 0 0 [] (dotted [a, b, c, d]) = Some [a, b, c, d]"
  by (simp add: dotted_def parse_octet_dot parse_octet_end unat_u8_bound)

lemma find_dot:
  "(\<And>c. c \<in> set p \<Longrightarrow> is_digit c) \<Longrightarrow>
   List.find (\<lambda>c. c = CHR ''.'' \<or> c = CHR '':'' \<or> c = CHR ''%'') (p @ CHR ''.'' # q) = Some CHR ''.''"
proof (induction p)
  case (Cons x p)
  then have "is_digit x" by simp
  then have "x \<noteq> CHR ''.'' \<and> x \<noteq> CHR '':'' \<and> x \<noteq> CHR ''%''" by (auto simp: is_digit_def)
  with Cons show ?case by simp
qed simp

lemma ParseIP_dotted: "ParseIP (dotted [a, b, c, d]) = Some (v4InV6Prefix @ [a, b, c, d])"
proof -
  have "dotted [a, b, c, d] = FormatUint (unat a) @ CHR ''.'' # dotted [b, c, d]"
    by (simp add: dotted_def)
  then have "List.find (\<lambda>c. c = CHR ''.'' \<or> c = CHR '':'' \<or> c = CHR ''%'') (dotted [a, b, c, d])
      = Some CHR ''.''"
    using find_dot [of "FormatUint (unat a)" "dotted [b, c, d]"] FormatUint_digits by metis
  then show ?thesis by (simp add: ParseIP_def parseIPv4_dotted)
qed

text \<open>\<open>ParseIP\<close> returns sixteen bytes.\<close>

lemma parseIPv4Fields_length:
  "parseIPv4Fields v k out s = Some bs \<Longrightarrow> length out \<le> 3 \<Longrightarrow> length bs = 4"
  by (induction v k out s rule: parseIPv4Fields.induct) (auto simp: Let_def split: if_splits)

lemma parseIPv6_loop_length:
  "parseIPv6_loop ip ell s = Some (ip', ell', r) \<Longrightarrow> even (length ip) \<Longrightarrow> length ip \<le> 16 \<Longrightarrow>
   (\<forall>e. ell = Some e \<longrightarrow> e \<le> length ip) \<Longrightarrow>
   length ip' \<le> 16 \<and> (\<forall>e. ell' = Some e \<longrightarrow> e \<le> length ip')"
proof (induction ip ell s rule: parseIPv6_loop.induct)
  case (1 ip ell s)
  show ?case
  proof (cases "length ip \<ge> 16")
    case True
    then show ?thesis using 1(3-) by (auto simp: parseIPv6_loop.simps [of ip ell s])
  next
    case False
    then have ev: "length ip \<le> 14" using 1(4) by presburger
    obtain acc off r0 where h: "hex_group 0 0 s = Some (acc, off, r0)" and off: "off \<noteq> 0"
      using 1(3) False by (auto simp: parseIPv6_loop.simps [of ip ell s] split: option.splits if_splits)
    let ?ip = "ip @ [of_nat (acc div 256), of_nat acc]"
    show ?thesis
    proof (cases "r0 \<noteq> [] \<and> hd r0 = CHR ''.''")
      case True
      then show ?thesis
        using 1(3,6) False h off parseIPv4Fields_length [of 0 0 "[]" s]
        by (auto simp: parseIPv6_loop.simps [of ip ell s] split: option.splits if_splits)
    next
      case nodot: False
      show ?thesis
      proof (cases r0)
        case Nil
        then show ?thesis
          using 1(3,6) False h off ev
          by (auto simp: parseIPv6_loop.simps [of ip ell s] Let_def)
      next
        case (Cons c r')
        note unf = parseIPv6_loop.simps [of ip ell s] Let_def
        have c: "\<not> (c \<noteq> CHR '':'' \<or> r' = [])"
          using 1(3) False h off nodot Cons by (auto simp: unf split: if_splits)
        show ?thesis
        proof (cases "hd r' = CHR '':''")
          case True
          show ?thesis
          proof (cases "tl r' = []")
            case True
            then show ?thesis
              using 1(3) False h off nodot Cons c \<open>hd r' = CHR '':''\<close> ev
              by (auto simp: unf split: if_splits)
          next
            case tl: False
            have "ell = None" "parseIPv6_loop ?ip (Some (length ?ip)) (tl r') = Some (ip', ell', r)"
              using 1(3) False h off nodot Cons c True tl by (auto simp: unf split: if_splits)
            then show ?thesis
              using 1(1) [OF False h refl refl off nodot refl Cons c True _ tl] 1(4) ev by auto
          qed
        next
          case hd: False
          have "parseIPv6_loop ?ip ell r' = Some (ip', ell', r)"
            using 1(3) False h off nodot Cons c hd by (auto simp: unf split: if_splits)
          then show ?thesis
            using 1(2) [OF False h refl refl off nodot refl Cons c hd] 1(4,6) ev by fastforce
        qed
      qed
    qed
  qed
qed

lemma ParseIP_length: "ParseIP s = Some ip \<Longrightarrow> length ip = 16"
proof -
  assume p: "ParseIP s = Some ip"
  have v6: "length b = 16" if b: "parseIPv6 t = Some b" for t b
  proof -
    let ?lead = "take 2 t = ''::''"
    show ?thesis
      using b parseIPv6_loop_length [of "[]" "if ?lead then Some 0 else None" "if ?lead then drop 2 t else t"]
      by (auto simp: parseIPv6_def Let_def split: if_splits option.splits)
  qed
  show ?thesis
    using p v6 parseIPv4Fields_length [of 0 0 "[]" s]
    by (auto simp: ParseIP_def v4InV6Prefix_def split: option.splits if_splits)
qed

section \<open>Properties\<close>

text \<open>Printing an address key as text and reading it back gives the key: every 32-bit value
  survives \<open>ConvertUint32ToIp\<close> followed by \<open>ConvertIpToUint32\<close>.\<close>

theorem ip_roundtrip: "ConvertIpToUint32 (ConvertUint32ToIp w) = Done w"
proof -
  obtain a b c d where l: "le32 w = [a, b, c, d]" by (simp add: le32_def)
  have "getle32 [a, b, c, d] = Done w" using getle32_le32 [of w "[]"] l by simp
  then show ?thesis
    by (simp add: ConvertIpToUint32_def ConvertUint32ToIp_def l ParseIP_dotted To4_def v4InV6Prefix_def
        del: getle32.simps)
qed

text \<open>The host/network port conversions are inverse on 16-bit ports, and both drop the bits
  above the sixteenth, so \<open>bwmctl list\<close> shows the port that \<open>bwmctl set\<close> was given modulo 65536.\<close>

theorem port_roundtrip:
  "convertBigEndianPortToLittle (ConvertPortToBigEndian p) = take_bit 16 p
   \<and> ConvertPortToBigEndian (convertBigEndianPortToLittle p) = take_bit 16 p"
proof
  have sw: "getle16 (be16 x) = Done y \<Longrightarrow> getbe16 (le16 y) = Done x" for x y
    by (auto simp: be16_def le16_def) (rule bit_word_eqI, auto simp: bit_simps)
  have ex: "\<exists>y. getle16 (be16 x) = Done y" "\<exists>y. getbe16 (le16 x) = Done y" for x
    by (simp_all add: be16_def le16_def)
  have sw': "getbe16 (le16 x) = Done y \<Longrightarrow> getle16 (be16 y) = Done x" for x y
    by (auto simp: be16_def le16_def) (rule bit_word_eqI, auto simp: bit_simps)
  have tb: "ucast (ucast p :: u16) = take_bit 16 p"
    by (rule bit_word_eqI) (auto simp: bit_simps)
  have uu: "ucast (ucast x :: u32) = x" for x :: u16
    by (rule bit_word_eqI) (auto simp: bit_simps)
  obtain y where y: "getle16 (be16 (ucast p)) = Done y" using ex(1) by blast
  then show "convertBigEndianPortToLittle (ConvertPortToBigEndian p) = take_bit 16 p"
    using sw [OF y] tb by (simp add: uu ConvertPortToBigEndian_def convertBigEndianPortToLittle_def)
  obtain z where z: "getbe16 (le16 (ucast p)) = Done z" using ex(2) by blast
  then show "ConvertPortToBigEndian (convertBigEndianPortToLittle p) = take_bit 16 p"
    using sw' [OF z] tb by (simp add: uu ConvertPortToBigEndian_def convertBigEndianPortToLittle_def)
qed

text \<open>\<open>ConvertIpToUint32\<close> panics exactly on the valid addresses that are not IPv4 (and not
  IPv4-mapped): \<open>To4\<close> of such an address is nil and reading four bytes of it is out of range.\<close>

theorem ConvertIpToUint32_panics_iff:
  "ConvertIpToUint32 s = Panic IndexOutOfRange \<longleftrightarrow>
     (\<exists>ip. ParseIP s = Some ip \<and> take 12 ip \<noteq> v4InV6Prefix)"
proof -
  have four: "\<exists>w. getle32 (drop 12 ip) = Done w" if "length ip = 16" for ip :: bytes
    using that by (cases "drop 12 ip" rule: getle32.cases) (auto dest: arg_cong [where f = length])
  show ?thesis
  proof (cases "ParseIP s")
    case (Some ip)
    then have l: "length ip = 16" by (rule ParseIP_length)
    obtain w where "getle32 (drop 12 ip) = Done w" using four [OF l] by blast
    then show ?thesis using Some l by (simp add: ConvertIpToUint32_def To4_def)
  qed (simp add: ConvertIpToUint32_def)
qed

lemma v4InV6Prefix_eq: "v4InV6Prefix = [0, 0, 0, 0, 0, 0, 0, 0, 0, 0, 255, 255]"
  by (simp add: v4InV6Prefix_def eval_nat_numeral)

lemma fe80_panics: "ConvertIpToUint32 ''fe80::1'' = Panic IndexOutOfRange"
  by (simp add: ConvertIpToUint32_def ParseIP_def parseIPv6_def parseIPv6_loop.simps hex_val_def
      To4_def v4InV6Prefix_eq Let_def)

end
