(* ===== verification/K8sLib.thy ===== *)
theory K8sLib
  imports Common_Types Go_Strings
begin

text \<open>
  Pods and their annotations, \<open>cmd/daemon/k8slib/k8sclient.go\<close>: reading the bandwidth request
  of a pod, writing the identifiers the daemon chose back as annotations, reading them again
  after a restart, and listing the running pods. The API server, the informer cache and the
  JSON decoder are outside the repository: \<open>Unmarshal\<close>, the client operations \<open>k8s_ops\<close> and the
  objects of the store are arguments.
\<close>

section \<open>Data\<close>

definition QosegressAnno :: string where "QosegressAnno = ''oncn-bwm.openeuler.org/egress-bandwidth''"
definition QosingressAnno :: string where "QosingressAnno = ''oncn-bwm.openeuler.org/ingress-bandwidth''"
definition QosLocalIdAnno :: string where "QosLocalIdAnno = ''oncn-bwm.openeuler.org/localid''"
definition QosContainerIdAnno :: string where "QosContainerIdAnno = ''oncn-bwm.openeuler.org/containerid''"
definition QosVethIpv4Anno :: string where "QosVethIpv4Anno = ''oncn-bwm.openeuler.org/ipv4''"
definition QosVethIpv6Anno :: string where "QosVethIpv6Anno = ''oncn-bwm.openeuler.org/ipv6''"

lemmas anno_defs = QosegressAnno_def QosingressAnno_def QosLocalIdAnno_def QosContainerIdAnno_def
  QosVethIpv4Anno_def QosVethIpv6Anno_def

definition bandwidthAnoSuffix :: "string list" where
  "bandwidthAnoSuffix = [''M'', ''m'', ''Mb'']"

definition GetBandwidthAnoSuffix :: "string list" where
  "GetBandwidthAnoSuffix = [] @ bandwidthAnoSuffix"

record NetQosAnnotation =
  anno_Limit :: string
  anno_Request :: string
  anno_Priority :: string

text \<open>The fields of a Kubernetes pod that the program reads.\<close>

record Pod =
  Namespace :: string
  Name :: string
  Annotations :: "string \<rightharpoonup> string"
  Phase :: string

datatype anno_field = FPriority | FLimit | FRequest

datatype 'j k8s_error = AnnotationErr string 'j | FieldErr string anno_field num_error
  | LocalIdErr string num_error | NotAPod | NoNodeName | ClusterConfigErr 'j | ClientErr 'j | CacheSyncErr

section \<open>Annotations\<close>

fun trim_suffixes :: "string \<Rightarrow> string list \<Rightarrow> string" where
  "trim_suffixes s [] = s"
| "trim_suffixes s (suffix # suffixes) = (if HasSuffix s suffix then TrimSuffix s suffix else trim_suffixes s suffixes)"

definition trimUnit :: "string \<Rightarrow> string list \<Rightarrow> string" where
  "trimUnit s suffixes = trim_suffixes (TrimSpace s) suffixes"

definition parseNetQosAnnotation ::
  "(string \<Rightarrow> 'j + NetQosAnnotation) \<Rightarrow> string \<Rightarrow> string list \<Rightarrow> 'j k8s_error + NetQosAnnotation" where
  "parseNetQosAnnotation Unmarshal annotation suffixes =
     (case Unmarshal annotation of Inl e \<Rightarrow> Inl (AnnotationErr annotation e) | Inr a \<Rightarrow> Inr a)"

text \<open>Every caller passes base 10, which is the base \<open>ParseUint\<close> is modelled for.\<close>

definition parseUintOrDefault :: "string \<Rightarrow> nat \<Rightarrow> string list \<Rightarrow> num_error + nat" where
  "parseUintOrDefault s bitSize suffixes =
     (if s \<noteq> [] then ParseUint (trimUnit s suffixes) bitSize else Inr 0)"

text \<open>The request of one direction: one turn of the loop over the two annotation keys.\<close>

definition direction_qos ::
  "(string \<Rightarrow> 'j + NetQosAnnotation) \<Rightarrow> string \<Rightarrow> Pod \<Rightarrow> QosConfig \<Rightarrow> 'j k8s_error + QosConfig" where
  "direction_qos Unmarshal key pod q =
     (case Annotations pod key of
        None \<Rightarrow> Inr q
      | Some annoValue \<Rightarrow>
         (case parseNetQosAnnotation Unmarshal annoValue GetBandwidthAnoSuffix of
            Inl e \<Rightarrow> Inl e
          | Inr a \<Rightarrow>
         (case parseUintOrDefault (anno_Priority a) 32 GetBandwidthAnoSuffix of
            Inl e \<Rightarrow> Inl (FieldErr key FPriority e)
          | Inr priority \<Rightarrow>
         (let priority = (if priority > 2 then 2 else priority) in
         (case parseUintOrDefault (anno_Limit a) 64 GetBandwidthAnoSuffix of
            Inl e \<Rightarrow> Inl (FieldErr key FLimit e)
          | Inr limit \<Rightarrow>
         (case parseUintOrDefault (anno_Request a) 64 GetBandwidthAnoSuffix of
            Inl e \<Rightarrow> Inl (FieldErr key FRequest e)
          | Inr request \<Rightarrow>
             Inr (q\<lparr>qos_Priority := of_nat priority, BandWidthLimitM := of_nat limit,
                    BandWidthRequestM := of_nat request\<rparr>)))))))"

definition GetPodNetQosRequest ::
  "(string \<Rightarrow> 'j + NetQosAnnotation) \<Rightarrow> Pod \<Rightarrow> 'j k8s_error + NetQosReq" where
  "GetPodNetQosRequest Unmarshal pod =
     (case direction_qos Unmarshal QosegressAnno pod (EgressQosConfig zeroNetQosReq) of
        Inl e \<Rightarrow> Inl e
      | Inr eg \<Rightarrow>
         (case direction_qos Unmarshal QosingressAnno pod (IngressQosConfig zeroNetQosReq) of
            Inl e \<Rightarrow> Inl e
          | Inr ing \<Rightarrow> Inr (zeroNetQosReq\<lparr>EgressQosConfig := eg, IngressQosConfig := ing\<rparr>)))"

section \<open>The cluster\<close>

text \<open>The calls made on the API server, whose state is \<open>'k\<close>: read a pod, apply a merge patch.\<close>

record ('k, 'j) k8s_ops =
  k8s_Get :: "string \<Rightarrow> string \<Rightarrow> 'k \<Rightarrow> 'j + Pod"
  k8s_Patch :: "string \<Rightarrow> string \<Rightarrow> string \<Rightarrow> 'k \<Rightarrow> 'j option \<times> 'k"
  k8s_List :: "string \<Rightarrow> string \<Rightarrow> 'k \<Rightarrow> 'j + Pod list"

definition GetPodFromEtcd :: "('k, 'j) k8s_ops \<Rightarrow> string \<Rightarrow> string \<Rightarrow> 'k \<Rightarrow> 'j + Pod" where
  "GetPodFromEtcd K namespace name k = k8s_Get K namespace name k"

text \<open>The patch document: the template of the source with its tabs and line breaks.\<close>

definition nl_tabs :: "nat \<Rightarrow> string" where
  "nl_tabs n = CHR 0x0A # replicate n (CHR 0x09)"

definition patch_entry :: "string \<Rightarrow> string \<Rightarrow> string" where
  "patch_entry key value = CHR 0x22 # key @ [CHR 0x22, CHR '':'', CHR '' '', CHR 0x22] @ value @ [CHR 0x22]"

definition patchStr :: "PatchPodData \<Rightarrow> string" where
  "patchStr patchData =
     ''{'' @ nl_tabs 2 @ [CHR 0x22] @ ''metadata'' @ [CHR 0x22] @ '': {'' @ nl_tabs 3
       @ [CHR 0x22] @ ''annotations'' @ [CHR 0x22] @ '': {'' @ nl_tabs 4
       @ patch_entry QosLocalIdAnno (FormatUint (unat (patch_LocalId patchData))) @ '','' @ nl_tabs 4
       @ patch_entry QosContainerIdAnno (patch_ContainerId patchData) @ '','' @ nl_tabs 4
       @ patch_entry QosVethIpv4Anno (patch_VethIpv4 patchData) @ '','' @ nl_tabs 4
       @ patch_entry QosVethIpv6Anno (patch_VethIpv6 patchData) @ nl_tabs 3
       @ ''}'' @ nl_tabs 2 @ ''}'' @ nl_tabs 2 @ ''}''"

definition PatchPodQosInfo ::
  "('k, 'j) k8s_ops \<Rightarrow> Pod \<Rightarrow> PatchPodData \<Rightarrow> 'k \<Rightarrow> 'j option \<times> 'k" where
  "PatchPodQosInfo K pod patchData k = k8s_Patch K (Namespace pod) (Name pod) (patchStr patchData) k"

definition GetPodPatchData :: "Pod \<Rightarrow> 'j k8s_error + PatchPodData" where
  "GetPodPatchData pod =
     (let rest = (\<lambda>d. let d4 = (case Annotations pod QosVethIpv4Anno of Some v \<Rightarrow> d\<lparr>patch_VethIpv4 := v\<rparr> | None \<Rightarrow> d)
                     in Inr (case Annotations pod QosVethIpv6Anno of Some v \<Rightarrow> d4\<lparr>patch_VethIpv6 := v\<rparr> | None \<Rightarrow> d4))
      in case Annotations pod QosLocalIdAnno of
           None \<Rightarrow> rest zeroPatchPodData
         | Some localIDValue \<Rightarrow>
            (case Annotations pod QosContainerIdAnno of
               None \<Rightarrow> rest zeroPatchPodData
             | Some containerIDValue \<Rightarrow>
                (case Atoi localIDValue of
                   Inl e \<Rightarrow> Inl (LocalIdErr localIDValue e)
                 | Inr localID \<Rightarrow> rest (zeroPatchPodData\<lparr>patch_LocalId := word_of_int localID,
                     patch_ContainerId := containerIDValue\<rparr>))))"

text \<open>The informer's store holds objects; a type assertion that fails is an error.\<close>

datatype cache_object = PodObject Pod | OtherObject

fun collect_running :: "cache_object list \<Rightarrow> 'j k8s_error + Pod list" where
  "collect_running [] = Inr []"
| "collect_running (OtherObject # objs) = Inl NotAPod"
| "collect_running (PodObject pod # objs) =
     (case collect_running objs of
        Inl e \<Rightarrow> Inl e
      | Inr pods \<Rightarrow> Inr (if Phase pod = ''Running'' then pod # pods else pods))"

definition ListRunPodFromCache :: "cache_object list \<Rightarrow> 'j k8s_error + Pod list" where
  "ListRunPodFromCache store = collect_running store"

definition ListRunPodFromEtcd ::
  "('k, 'j) k8s_ops \<Rightarrow> string \<Rightarrow> 'k \<Rightarrow> ('j k8s_error + 'j) + Pod list" where
  "ListRunPodFromEtcd K nodeName k =
     (if nodeName = [] then Inl (Inl NoNodeName)
      else case k8s_List K [] (''spec.nodeName='' @ nodeName @ '',status.phase=Running'') k of
             Inl e \<Rightarrow> Inl (Inr e)
           | Inr pods \<Rightarrow> Inr pods)"

text \<open>
  Starting the client: the in-cluster configuration, the client, the node's name, then an
  informer on the node's pods whose first synchronisation is awaited. The library calls are
  arguments; the result pairs the client with the synchronised cache.
\<close>

definition NewK8sClient ::
  "('j + 'conf) \<Rightarrow> ('conf \<Rightarrow> 'j + 'client) \<Rightarrow> string \<Rightarrow> ('client \<Rightarrow> string \<Rightarrow> bool \<times> 'cache) \<Rightarrow>
   'j k8s_error + ('client \<times> 'cache)" where
  "NewK8sClient InClusterConfig NewForConfig nodeName startInformer =
     (case InClusterConfig of
        Inl e \<Rightarrow> Inl (ClusterConfigErr e)
      | Inr config \<Rightarrow>
         (case NewForConfig config of
            Inl e \<Rightarrow> Inl (ClientErr e)
          | Inr clientSet \<Rightarrow>
             if nodeName = [] then Inl NoNodeName
             else (let (synced, informer) = startInformer clientSet (''spec.nodeName='' @ nodeName)
                   in if synced then Inr (clientSet, informer) else Inl CacheSyncErr)))"

section \<open>Reading a bandwidth request\<close>

lemma direction_qos_priority:
  assumes "direction_qos J key pod q = Inr q'" and "qos_Priority q \<le> 2"
  shows "qos_Priority q' \<le> 2"
proof -
  have "(of_nat (if p > 2 then 2 else p) :: u32) \<le> 2" for p :: nat
    by (cases "p > 2") (auto simp: word_le_nat_alt unat_of_nat dest: le_Suc_eq [THEN iffD1] order_trans [OF mod_less_eq_dividend])
  with assms show ?thesis
    by (auto simp: direction_qos_def Let_def split: option.splits sum.splits)
qed

lemma HasSuffix_snoc: "HasSuffix (s @ u) u" "TrimSuffix (s @ u) u = s"
  by (simp_all add: HasSuffix_def TrimSuffix_def)

lemma HasSuffix_last: "HasSuffix s u \<Longrightarrow> u \<noteq> [] \<Longrightarrow> s \<noteq> [] \<and> last s = last u"
  by (auto simp: HasSuffix_def) (metis diff_diff_cancel diff_less last_drop length_greater_0_conv less_le_trans)

lemma not_HasSuffix_digit: "is_digit (last s) \<Longrightarrow> u \<in> set GetBandwidthAnoSuffix \<Longrightarrow> \<not> HasSuffix s u"
proof
  assume d: "is_digit (last s)" and u: "u \<in> set GetBandwidthAnoSuffix" and "HasSuffix s u"
  then have "last s = last u" using HasSuffix_last [of s u] by (auto simp: GetBandwidthAnoSuffix_def bandwidthAnoSuffix_def)
  with d u show False by (auto simp: GetBandwidthAnoSuffix_def bandwidthAnoSuffix_def is_digit_def)
qed

text \<open>A decimal number with one of the units, or with none, loses the unit and nothing else.\<close>

lemma trimUnit_digits:
  assumes "u \<in> {'''', ''M'', ''m'', ''Mb''}" and "s \<noteq> []" and "\<And>c. c \<in> set s \<Longrightarrow> is_digit c"
  shows "trimUnit (s @ u) GetBandwidthAnoSuffix = s"
proof -
  have d: "is_digit (last s)" "is_digit (hd s)" using assms(2,3) by auto
  have pl: "plain (CHR ''M'')" "plain (CHR ''m'')" "plain (CHR ''b'')" by (simp_all add: plain_def)
  have ts: "TrimSpace (s @ u) = s @ u"
    using assms(1,2) d pl by (intro TrimSpace_plain) (auto simp: plain_digit)
  have no: "\<not> HasSuffix s v" if "v \<in> set GetBandwidthAnoSuffix" for v by (rule not_HasSuffix_digit [OF d(1) that])
  have l: "\<not> HasSuffix (s @ ''Mb'') ''M''" "\<not> HasSuffix (s @ ''Mb'') ''m''" "\<not> HasSuffix (s @ ''m'') ''M''"
    using HasSuffix_last [of "s @ ''Mb''" "''M''"] HasSuffix_last [of "s @ ''Mb''" "''m''"] HasSuffix_last [of "s @ ''m''" "''M''"] by auto
  show ?thesis
    using assms(1) no l HasSuffix_snoc [of s]
    by (auto simp: trimUnit_def ts GetBandwidthAnoSuffix_def bandwidthAnoSuffix_def)
qed

lemma parse_number_unit:
  assumes "u \<in> {'''', ''M'', ''m'', ''Mb''}" and "n < 2 ^ bits"
  shows "parseUintOrDefault (FormatUint n @ u) bits GetBandwidthAnoSuffix = Inr n"
  using trimUnit_digits [OF assms(1), of "FormatUint n"] ParseUint_Format [OF assms(2)]
  by (simp add: parseUintOrDefault_def FormatUint_digits)

section \<open>Properties\<close>

text \<open>Whatever the annotations of a pod say and however they are decoded, a request that is read
  from them has priorities of at most 2 in both directions, and a direction without annotation is
  the zero request.\<close>

theorem pod_request_bounds:
  assumes "GetPodNetQosRequest J pod = Inr req"
  shows "qos_Priority (EgressQosConfig req) \<le> 2 \<and> qos_Priority (IngressQosConfig req) \<le> 2
    \<and> (Annotations pod QosegressAnno = None \<longrightarrow> EgressQosConfig req = zeroQosConfig)
    \<and> (Annotations pod QosingressAnno = None \<longrightarrow> IngressQosConfig req = zeroQosConfig)"
proof -
  from assms obtain eg ing where
    r: "direction_qos J QosegressAnno pod zeroQosConfig = Inr eg" "direction_qos J QosingressAnno pod zeroQosConfig = Inr ing"
      "EgressQosConfig req = eg" "IngressQosConfig req = ing"
    by (auto simp: GetPodNetQosRequest_def zeroNetQosReq_def split: sum.splits)
  have z: "qos_Priority zeroQosConfig \<le> 2" by (simp add: zeroQosConfig_def)
  show ?thesis using r direction_qos_priority [OF r(1) z] direction_qos_priority [OF r(2) z]
    by (auto simp: direction_qos_def)
qed


text \<open>
  What the API server promises for a merge patch of the daemon's form: when the values need no
  escaping in JSON, the annotations of the patch are set and the others are kept.
\<close>

definition json_plain :: "string \<Rightarrow> bool" where
  "json_plain s \<longleftrightarrow> (\<forall>c \<in> set s. 32 \<le> (of_char c :: nat) \<and> (of_char c :: nat) < 127 \<and> c \<noteq> CHR 0x22 \<and> c \<noteq> CHR 0x5C)"

definition with_patch :: "PatchPodData \<Rightarrow> Pod \<Rightarrow> Pod" where
  "with_patch d pod = pod\<lparr>Annotations := (Annotations pod)(QosLocalIdAnno \<mapsto> FormatUint (unat (patch_LocalId d)),
     QosContainerIdAnno \<mapsto> patch_ContainerId d, QosVethIpv4Anno \<mapsto> patch_VethIpv4 d, QosVethIpv6Anno \<mapsto> patch_VethIpv6 d)\<rparr>"

definition merge_patch_law :: "('k, 'j) k8s_ops \<Rightarrow> bool" where
  "merge_patch_law K \<longleftrightarrow> (\<forall>k ns n pod d k'. k8s_Get K ns n k = Inr pod \<longrightarrow>
     json_plain (patch_ContainerId d) \<longrightarrow> json_plain (patch_VethIpv4 d) \<longrightarrow> json_plain (patch_VethIpv6 d) \<longrightarrow>
     k8s_Patch K ns n (patchStr d) k = (None, k') \<longrightarrow> k8s_Get K ns n k' = Inr (with_patch d pod))"

lemma GetPodPatchData_with_patch: "GetPodPatchData (with_patch d pod) = Inr d"
proof -
  have "unat (patch_LocalId d) < 2 ^ 16" using unsigned_less [of "patch_LocalId d"] by simp
  then have "Atoi (FormatUint (unat (patch_LocalId d))) = Inr (int (unat (patch_LocalId d)))" by (intro Atoi_Format) simp
  moreover have "word_of_int (int (unat (patch_LocalId d))) = patch_LocalId d" by simp
  ultimately show ?thesis
    by (simp add: GetPodPatchData_def with_patch_def anno_defs zeroPatchPodData_def Let_def)
qed


section \<open>A concrete cluster\<close>

text \<open>
  A cluster of one pod whose API server reads a merge patch of four annotations by its quotes.
\<close>

definition quoted_patch :: "string \<Rightarrow> (string \<rightharpoonup> string) \<Rightarrow> (string \<rightharpoonup> string) option" where
  "quoted_patch body annos = (let ts = Split body (CHR 0x22)
     in if length ts = 21 then Some (annos(ts ! 5 \<mapsto> ts ! 7, ts ! 9 \<mapsto> ts ! 11, ts ! 13 \<mapsto> ts ! 15, ts ! 17 \<mapsto> ts ! 19))
        else None)"

definition example_cluster :: "(Pod, unit) k8s_ops" where
  "example_cluster = \<lparr>
     k8s_Get = (\<lambda>ns n k. if Namespace k = ns \<and> Name k = n then Inr k else Inl ()),
     k8s_Patch = (\<lambda>ns n body k. if Namespace k = ns \<and> Name k = n then
        (case quoted_patch body (Annotations k) of None \<Rightarrow> (Some (), k) | Some a \<Rightarrow> (None, k\<lparr>Annotations := a\<rparr>))
        else (Some (), k)),
     k8s_List = (\<lambda>ns sel k. Inr [k])\<rparr>"

lemma digits_no_quote: "CHR 0x22 \<notin> set (FormatUint n)"
  using FormatUint_digits [of "CHR 0x22" n] by (auto simp: is_digit_def)

lemma quote_free: "json_plain s \<Longrightarrow> CHR 0x22 \<notin> set s"
  by (auto simp: json_plain_def)

lemma nl_tabs_no_quote [simp]: "CHR 0x22 \<notin> set (nl_tabs n)"
  by (auto simp: nl_tabs_def)

lemma Split_quote: "CHR 0x22 \<notin> set p \<Longrightarrow> Split (p @ CHR 0x22 # q) (CHR 0x22) = p # Split q (CHR 0x22)"
  by (rule Split_append)

lemma Split_entry:
  assumes "CHR 0x22 \<notin> set p" and "CHR 0x22 \<notin> set key" and "CHR 0x22 \<notin> set v"
  shows "Split (p @ patch_entry key v @ q) (CHR 0x22) = p # key # '': '' # v # Split q (CHR 0x22)"
proof -
  have e: "p @ patch_entry key v @ q = p @ CHR 0x22 # (key @ CHR 0x22 # ('': '' @ CHR 0x22 # (v @ CHR 0x22 # q)))"
    by (simp add: patch_entry_def)
  have c: "CHR 0x22 \<notin> set '': ''" by simp
  show ?thesis unfolding e
    by (simp only: Split_quote [OF assms(1)] Split_quote [OF assms(2)] Split_quote [OF c] Split_quote [OF assms(3)])
qed

lemma Split_patchStr:
  assumes "json_plain (patch_ContainerId d)" and "json_plain (patch_VethIpv4 d)" and "json_plain (patch_VethIpv6 d)"
  shows "Split (patchStr d) (CHR 0x22) = [''{'' @ nl_tabs 2, ''metadata'', '': {'' @ nl_tabs 3, ''annotations'',
    '': {'' @ nl_tabs 4, QosLocalIdAnno, '': '', FormatUint (unat (patch_LocalId d)), '','' @ nl_tabs 4,
    QosContainerIdAnno, '': '', patch_ContainerId d, '','' @ nl_tabs 4, QosVethIpv4Anno, '': '', patch_VethIpv4 d,
    '','' @ nl_tabs 4, QosVethIpv6Anno, '': '', patch_VethIpv6 d,
    nl_tabs 3 @ ''}'' @ nl_tabs 2 @ ''}'' @ nl_tabs 2 @ ''}'']"
proof -
  define e4 where "e4 = nl_tabs 3 @ ''}'' @ nl_tabs 2 @ ''}'' @ nl_tabs 2 @ ''}''"
  define e3 where "e3 = ('','' @ nl_tabs 4) @ patch_entry QosVethIpv6Anno (patch_VethIpv6 d) @ e4"
  define e2 where "e2 = ('','' @ nl_tabs 4) @ patch_entry QosVethIpv4Anno (patch_VethIpv4 d) @ e3"
  define e1 where "e1 = ('','' @ nl_tabs 4) @ patch_entry QosContainerIdAnno (patch_ContainerId d) @ e2"
  define e0 where "e0 = ('': {'' @ nl_tabs 4) @ patch_entry QosLocalIdAnno (FormatUint (unat (patch_LocalId d))) @ e1"
  have s: "patchStr d = (''{'' @ nl_tabs 2) @ CHR 0x22 # (''metadata'' @ CHR 0x22 # (('': {'' @ nl_tabs 3) @ CHR 0x22 # (''annotations'' @ CHR 0x22 # e0)))"
    by (simp add: patchStr_def e0_def e1_def e2_def e3_def e4_def)
  have q4: "Split e4 (CHR 0x22) = [e4]" by (rule Split_no_sep) (simp add: e4_def)
  have k: "CHR 0x22 \<notin> set QosLocalIdAnno" "CHR 0x22 \<notin> set QosContainerIdAnno" "CHR 0x22 \<notin> set QosVethIpv4Anno"
    "CHR 0x22 \<notin> set QosVethIpv6Anno" "CHR 0x22 \<notin> set ('','' @ nl_tabs 4)" "CHR 0x22 \<notin> set ('': {'' @ nl_tabs 4)"
    by (simp_all add: anno_defs)
  note v = quote_free [OF assms(1)] quote_free [OF assms(2)] quote_free [OF assms(3)] digits_no_quote
  have q3: "Split e3 (CHR 0x22) = ('','' @ nl_tabs 4) # QosVethIpv6Anno # '': '' # patch_VethIpv6 d # [e4]"
    unfolding e3_def by (simp only: Split_entry k v q4 not_False_eq_True)
  have q2: "Split e2 (CHR 0x22) = ('','' @ nl_tabs 4) # QosVethIpv4Anno # '': '' # patch_VethIpv4 d # Split e3 (CHR 0x22)"
    unfolding e2_def by (simp only: Split_entry k v not_False_eq_True)
  have q1: "Split e1 (CHR 0x22) = ('','' @ nl_tabs 4) # QosContainerIdAnno # '': '' # patch_ContainerId d # Split e2 (CHR 0x22)"
    unfolding e1_def by (simp only: Split_entry k v not_False_eq_True)
  have q0: "Split e0 (CHR 0x22) = ('': {'' @ nl_tabs 4) # QosLocalIdAnno # '': '' # FormatUint (unat (patch_LocalId d)) # Split e1 (CHR 0x22)"
    unfolding e0_def by (simp only: Split_entry k v not_False_eq_True)
  have h: "CHR 0x22 \<notin> set (''{'' @ nl_tabs 2)" "CHR 0x22 \<notin> set ''metadata''" "CHR 0x22 \<notin> set ('': {'' @ nl_tabs 3)"
    "CHR 0x22 \<notin> set ''annotations''" by simp_all
  show ?thesis unfolding s by (simp only: Split_quote [OF h(1)] Split_quote [OF h(2)] Split_quote [OF h(3)]
      Split_quote [OF h(4)] q0 q1 q2 q3 e4_def [symmetric])
qed

lemma example_merge_patch: "merge_patch_law example_cluster"
  unfolding merge_patch_law_def
proof (intro allI impI)
  fix k ns n pod d k'
  assume g: "k8s_Get example_cluster ns n k = Inr pod" and j: "json_plain (patch_ContainerId d)"
    "json_plain (patch_VethIpv4 d)" "json_plain (patch_VethIpv6 d)" and p: "k8s_Patch example_cluster ns n (patchStr d) k = (None, k')"
  have k: "pod = k" "Namespace k = ns" "Name k = n" using g by (auto simp: example_cluster_def split: if_splits)
  have "quoted_patch (patchStr d) (Annotations k) = Some (Annotations (with_patch d k))"
    unfolding quoted_patch_def Let_def Split_patchStr [OF j] by (simp add: with_patch_def)
  then have "k' = with_patch d k" using p k by (auto simp: example_cluster_def with_patch_def)
  then show "k8s_Get example_cluster ns n k' = Inr (with_patch d pod)"
    using k by (simp add: example_cluster_def with_patch_def)
qed

definition example_pod :: Pod where
  "example_pod = \<lparr>Namespace = ''default'', Name = ''web'', Annotations = [QosegressAnno \<mapsto> ''e''], Phase = ''Running''\<rparr>"

definition example_decoder :: "string \<Rightarrow> unit + NetQosAnnotation" where
  "example_decoder v = (if v = ''e'' then Inr \<lparr>anno_Limit = FormatUint 100 @ ''M'', anno_Request = FormatUint 20 @ ''Mb'',
     anno_Priority = FormatUint 7\<rparr> else Inl ())"


theorem pod_request_bounds_witness:
  "\<exists>req. GetPodNetQosRequest example_decoder example_pod = Inr req \<and> qos_Priority (EgressQosConfig req) \<le> 2
     \<and> IngressQosConfig req = zeroQosConfig"
proof -
  have "Annotations example_pod QosingressAnno = None" "Annotations example_pod QosegressAnno = Some ''e''"
    by (simp_all add: example_pod_def anno_defs)
  moreover have "\<exists>req. GetPodNetQosRequest example_decoder example_pod = Inr req"
    by (simp add: GetPodNetQosRequest_def direction_qos_def calculation parseNetQosAnnotation_def example_decoder_def
        parse_number_unit parse_number_unit [of "''''", simplified])
  ultimately show ?thesis using pod_request_bounds [of example_decoder example_pod] by metis
qed

definition example_patch :: PatchPodData where
  "example_patch = \<lparr>patch_LocalId = 1000, patch_ContainerId = ''c1'', patch_VethIpv4 = ''10.0.0.2'', patch_VethIpv6 = ''''\<rparr>"


end
