(* ===== verification/RpcServer.thy ===== *)
theory RpcServer
  imports IdManager Nets Tcbpf K8sLib
begin

text \<open>
  The handlers of the node daemon, \<open>cmd/daemon/rpcserver/rpcserver.go\<close> (called by the CNI plugin
  when a pod's network is set up or torn down) and \<open>ctlrpcserver.go\<close> (called by the command line
  tool for single flows). Their state is the ID manager, the cluster behind the Kubernetes client
  and the global \<open>bpf.Edt\<close>, which is nil until \<open>NewTcbpf\<close> has returned. A handler gives its reply,
  its error and the new state; a panic in a handler ends the process.
\<close>

section \<open>Messages and state\<close>

record SetQosRequest =
  req_K8SPodName :: string
  req_K8SPodNamespace :: string
  req_VethIpv4 :: string
  req_VethIpv6 :: string
  req_HostMac :: string
  req_VethHostIdx :: u32
  req_VethLXCMac :: string
  req_VethHostName :: string
  req_VethLXCName :: string
  req_ContainerId :: string
  req_Netns :: string

record QosFlow =
  flow_Direct :: string
  flow_Ip :: string
  flow_Port :: u32
  flow_LocalId :: u32
  SendBandWidthRequestM :: u64
  SendBandWidthLimitM :: u64
  SendPriority :: u32
  RecvBandWidthRequestM :: u64
  RecvBandWidthLimitM :: u64
  RecvPriority :: u32

text \<open>The message of \<open>ListQosPodInfo\<close>.\<close>

record QosPodInfo =
  qpod_K8SPodName :: string
  qpod_K8SPodNamespace :: string
  qpod_ContainerId :: string
  qpod_LocalId :: u32
  qpod_Egress :: QosConfig
  qpod_Ingress :: QosConfig

datatype 'j rpc_error = GetPodErr 'j | GetNetQosErr "'j k8s_error" | AllocateErr id_error | PatchErr 'j
  | UpdateEgressIdErr errno | UpdateIngressIdErr errno

text \<open>The fail reason is the text of the error; an empty reason is \<open>None\<close>.\<close>

record 'j QosReply =
  rep_Success :: bool
  rep_FailReason :: "'j rpc_error option"
  rep_LocalId :: u32

record ('c, 's, 'i, 'k) RpcService =
  svc_K8s :: 'k
  svc_IDmanager :: IDManager
  svc_Edt :: "('c, 's, 'i) Tcbpf option"

definition failed :: "'j rpc_error option \<Rightarrow> 'j QosReply" where
  "failed reason = \<lparr>rep_Success = False, rep_FailReason = reason, rep_LocalId = 0\<rparr>"

definition succeeded :: "u16 \<Rightarrow> 'j QosReply" where
  "succeeded i = \<lparr>rep_Success = True, rep_FailReason = None, rep_LocalId = ucast i\<rparr>"

text \<open>A method call on the nil \<open>bpf.Edt\<close> dereferences it.\<close>

definition with_edt :: "('c, 's, 'i, 'k) RpcService \<Rightarrow> (('c, 's, 'i) Tcbpf \<Rightarrow> 'a outcome) \<Rightarrow> 'a outcome" where
  "with_edt st f = (case svc_Edt st of None \<Rightarrow> Panic NilDereference | Some t \<Rightarrow> f t)"

section \<open>Pods\<close>

definition request_pod :: "SetQosRequest \<Rightarrow> Pod \<Rightarrow> NetQosReq \<Rightarrow> PodInfo" where
  "request_pod req pod qosSet = \<lparr>pod_NetQosReq = qosSet, pod_LocalId = 0, pod_K8SPodName = Name pod,
     pod_K8SPodNamespace = Namespace pod, pod_ContainerId = req_ContainerId req, pod_Netns = req_Netns req,
     pod_VethHostName = req_VethHostName req, pod_VethLXCName = req_VethLXCName req,
     pod_VethIpv4 = req_VethIpv4 req, pod_VethIpv6 = req_VethIpv6 req\<rparr>"

text \<open>The four map writes of \<open>SetQos\<close>; the two id maps are checked, the two configurations are not.\<close>

definition install_pod ::
  "('c, 's, 'i) ebpf_ops \<Rightarrow> TcEdtIdKey \<Rightarrow> u16 \<Rightarrow> u32 \<Rightarrow> u32 \<Rightarrow> NetQosReq \<Rightarrow> ('c, 's, 'i) Tcbpf \<Rightarrow>
   'j rpc_error option \<times> ('c, 's, 'i) Tcbpf" where
  "install_pod E idKey i egressId ingressId qosSet t =
     (case UpdateEgressThrottleId E idKey egressId t of
        (Some e, t) \<Rightarrow> (Some (UpdateEgressIdErr e), t)
      | (None, t) \<Rightarrow>
     (case UpdateIngressThrottleId E idKey ingressId t of
        (Some e, t) \<Rightarrow> (Some (UpdateIngressIdErr e), t)
      | (None, t) \<Rightarrow>
        (None, AddIngressConfig E (ucast i) (IngressQosConfig qosSet)
                 (AddEgressConfig E (ucast i) (EgressQosConfig qosSet) t))))"

definition SetQos ::
  "('k, 'j) k8s_ops \<Rightarrow> (string \<Rightarrow> 'j + NetQosAnnotation) \<Rightarrow> ('c, 's, 'i) ebpf_ops \<Rightarrow> SetQosRequest \<Rightarrow>
   ('c, 's, 'i, 'k) RpcService \<Rightarrow> ('j QosReply \<times> 'j rpc_error option \<times> ('c, 's, 'i, 'k) RpcService) outcome" where
  "SetQos K J E req st =
     (case GetPodFromEtcd K (req_K8SPodNamespace req) (req_K8SPodName req) (svc_K8s st) of
        Inl e \<Rightarrow> Done (failed (Some (GetPodErr e)), Some (GetPodErr e), st)
      | Inr pod \<Rightarrow>
     (case GetPodNetQosRequest J pod of
        Inl e \<Rightarrow> Done (failed (Some (GetNetQosErr e)), Some (GetNetQosErr e), st)
      | Inr qosSet \<Rightarrow>
     obind (AllocatePodId (request_pod req pod qosSet) (svc_IDmanager st)) (\<lambda>(r, podInfo, idm).
       let st = st\<lparr>svc_IDmanager := idm\<rparr> in
       case r of
         Inl e \<Rightarrow> Done (failed (Some (AllocateErr e)), Some (AllocateErr e), st)
       | Inr i \<Rightarrow>
         let podInfo = podInfo\<lparr>pod_LocalId := i\<rparr>;
             patchData = \<lparr>patch_LocalId = i, patch_ContainerId = req_ContainerId req,
               patch_VethIpv4 = req_VethIpv4 req, patch_VethIpv6 = req_VethIpv6 req\<rparr>;
             (perr, k) = PatchPodQosInfo K pod patchData (svc_K8s st);
             st = st\<lparr>svc_K8s := k\<rparr>
         in case perr of
              Some e \<Rightarrow> Done (failed (Some (PatchErr e)), Some (PatchErr e), st)
            | None \<Rightarrow>
         obind (ConvertIpToUint32 (req_VethIpv4 req)) (\<lambda>ip.
         let idKey = \<lparr>key_Ip = ip, key_Port = 0\<rparr>;
             egressId = GenerateClassId (qos_Priority (EgressQosConfig (pod_NetQosReq podInfo))) (pod_LocalId podInfo);
             ingressId = GenerateClassId (qos_Priority (IngressQosConfig (pod_NetQosReq podInfo))) (pod_LocalId podInfo)
         in with_edt st (\<lambda>t.
            case install_pod E idKey i egressId ingressId qosSet t of
              (Some e, t) \<Rightarrow> Done (failed None, Some e, st\<lparr>svc_Edt := Some t\<rparr>)
            | (None, t) \<Rightarrow>
                Done (succeeded i, None,
                   st\<lparr>svc_Edt := Some t,
                      svc_IDmanager := InsertPodInfo (patch_ContainerId patchData) podInfo (svc_IDmanager st)\<rparr>))))))"

text \<open>Errors of the map writes are logged by the wrapper and ignored by the caller.\<close>

definition clear_pod :: "('c, 's, 'i) ebpf_ops \<Rightarrow> u16 \<Rightarrow> u32 \<Rightarrow> ('c, 's, 'i) Tcbpf \<Rightarrow> ('c, 's, 'i) Tcbpf" where
  "clear_pod E i ip t =
     (let t = snd (SingleWriteEgressThrottleStat E (ucast i) zeroThrottleStat t);
          t = snd (SingleWriteEgressThrottleCfg E (ucast i) zeroThrottleCfg t);
          t = snd (SingleWriteIngressThrottleStat E (ucast i) zeroThrottleStat t);
          t = snd (SingleWriteIngressThrottleCfg E (ucast i) zeroThrottleCfg t);
          t = snd (DeleteEgressThrottleId E \<lparr>key_Ip = ip, key_Port = 0\<rparr> t)
      in snd (DeleteIngressThrottleId E \<lparr>key_Ip = ip, key_Port = 0\<rparr> t))"

text \<open>
  The map writes come before the address conversion, so the pointer is dereferenced first; the
  order of the writes and the conversion does not show in a result.
\<close>

definition UnSetQos ::
  "('c, 's, 'i) ebpf_ops \<Rightarrow> string \<Rightarrow> ('c, 's, 'i, 'k) RpcService \<Rightarrow>
   ('j QosReply \<times> ('c, 's, 'i, 'k) RpcService) outcome" where
  "UnSetQos E containerId st =
     (let rep = \<lparr>rep_Success = True, rep_FailReason = None, rep_LocalId = 0\<rparr>;
          released = (\<lambda>st. st\<lparr>svc_IDmanager := ReleasePodIdByContainerId containerId (svc_IDmanager st)\<rparr>)
      in case LookupPodInfoByContainId containerId (svc_IDmanager st) of
           Inl e \<Rightarrow> Done (rep, released st)
         | Inr podInfo \<Rightarrow>
             with_edt st (\<lambda>t.
             obind (ConvertIpToUint32 (pod_VethIpv4 podInfo)) (\<lambda>ip.
               Done (rep, released (st\<lparr>svc_Edt := Some (clear_pod E (pod_LocalId podInfo) ip t)\<rparr>)))))"

section \<open>Flows\<close>

definition flow_key :: "QosFlow \<Rightarrow> string" where
  "flow_key req = Join [flow_Direct req, flow_Ip req, Itoa (uint (flow_Port req))] '':''"

definition request_flow :: "QosFlow \<Rightarrow> ProcessInfo" where
  "request_flow req = \<lparr>proc_NetQosReq = zeroNetQosReq, proc_ProcessId = flow_key req, proc_LocalId = 0,
     proc_Ip = flow_Ip req, proc_Port = flow_Port req\<rparr>"

definition send_config :: "QosFlow \<Rightarrow> QosConfig" where
  "send_config req = \<lparr>BandWidthRequestM = SendBandWidthRequestM req, BandWidthLimitM = SendBandWidthLimitM req,
     qos_Priority = SendPriority req\<rparr>"

definition recv_config :: "QosFlow \<Rightarrow> QosConfig" where
  "recv_config req = \<lparr>BandWidthRequestM = RecvBandWidthRequestM req, BandWidthLimitM = RecvBandWidthLimitM req,
     qos_Priority = RecvPriority req\<rparr>"

text \<open>
  The error that \<open>SetFlow\<close> tests after \<open>UpdateEgressThrottleId\<close> is the one of the allocation, which
  is nil there; the result of the map update is dropped, so the branch is never taken.
\<close>

definition SetFlow ::
  "('c, 's, 'i) ebpf_ops \<Rightarrow> QosFlow \<Rightarrow> ('c, 's, 'i, 'k) RpcService \<Rightarrow>
   ('j QosReply \<times> 'j rpc_error option \<times> ('c, 's, 'i, 'k) RpcService) outcome" where
  "SetFlow E req st =
     obind (AllocateProcessId (request_flow req) (svc_IDmanager st)) (\<lambda>(r, processInfo, idm).
       let st = st\<lparr>svc_IDmanager := idm\<rparr> in
       case r of
         Inl e \<Rightarrow> Done (failed (Some (AllocateErr e)), Some (AllocateErr e), st)
       | Inr i \<Rightarrow>
         let processInfo = processInfo\<lparr>proc_LocalId := i\<rparr>;
             finish = (\<lambda>processInfo st. Done (succeeded i, None,
                st\<lparr>svc_IDmanager := InsertProcessInfo (proc_ProcessId processInfo) processInfo (svc_IDmanager st)\<rparr>))
         in obind (ConvertIpToUint32 (flow_Ip req)) (\<lambda>ip.
            let idKey = \<lparr>key_Ip = ip, key_Port = flow_Port req\<rparr> in
            if flow_Direct req = ''egress'' then
              (let processInfo = processInfo\<lparr>proc_NetQosReq := (proc_NetQosReq processInfo)\<lparr>EgressQosConfig := send_config req\<rparr>\<rparr>
               in with_edt st (\<lambda>t.
                  let t = snd (UpdateEgressThrottleId E idKey (GenerateClassId (SendPriority req) i) t);
                      t = AddEgressConfig E (ucast i) (EgressQosConfig (proc_NetQosReq processInfo)) t
                  in finish processInfo (st\<lparr>svc_Edt := Some t\<rparr>)))
            else if flow_Direct req = ''ingress'' then
              (let processInfo = processInfo\<lparr>proc_NetQosReq := (proc_NetQosReq processInfo)\<lparr>IngressQosConfig := recv_config req\<rparr>\<rparr>
               in with_edt st (\<lambda>t.
                  let t = snd (UpdateIngressThrottleId E idKey (GenerateClassId (RecvPriority req) i) t);
                      t = AddIngressConfig E (ucast i) (IngressQosConfig (proc_NetQosReq processInfo)) t
                  in finish processInfo (st\<lparr>svc_Edt := Some t\<rparr>)))
            else finish processInfo st))"

definition UnSetFlow ::
  "('c, 's, 'i) ebpf_ops \<Rightarrow> QosFlow \<Rightarrow> ('c, 's, 'i, 'k) RpcService \<Rightarrow>
   ('j QosReply \<times> ('c, 's, 'i, 'k) RpcService) outcome" where
  "UnSetFlow E req st =
     (let processId = flow_key req;
          rep = \<lparr>rep_Success = True, rep_FailReason = None, rep_LocalId = 0\<rparr>;
          released = (\<lambda>st. st\<lparr>svc_IDmanager := ReleaseProcessInfo processId (svc_IDmanager st)\<rparr>)
      in case LookupProcessInfo processId (svc_IDmanager st) of
           Inl e \<Rightarrow> Done (rep, released st)
         | Inr processInfo \<Rightarrow>
             obind (ConvertIpToUint32 (proc_Ip processInfo)) (\<lambda>ip.
               let idKey = \<lparr>key_Ip = ip, key_Port = proc_Port processInfo\<rparr>; i = ucast (proc_LocalId processInfo) in
               if flow_Direct req = ''egress'' then
                 with_edt st (\<lambda>t.
                   let t = snd (SingleWriteEgressThrottleStat E i zeroThrottleStat t);
                       t = snd (SingleWriteEgressThrottleCfg E i zeroThrottleCfg t);
                       t = snd (DeleteEgressThrottleId E idKey t)
                   in Done (rep, released (st\<lparr>svc_Edt := Some t\<rparr>)))
               else if flow_Direct req = ''ingress'' then
                 with_edt st (\<lambda>t.
                   let t = snd (SingleWriteIngressThrottleStat E i zeroThrottleStat t);
                       t = snd (SingleWriteIngressThrottleCfg E i zeroThrottleCfg t);
                       t = snd (DeleteIngressThrottleId E idKey t)
                   in Done (rep, released (st\<lparr>svc_Edt := Some t\<rparr>)))
               else Done (rep, released st)))"

section \<open>Listings\<close>

definition flow_message :: "ProcessInfo \<Rightarrow> QosFlow" where
  "flow_message p = \<lparr>flow_Direct = [], flow_Ip = proc_Ip p, flow_Port = proc_Port p, flow_LocalId = ucast (proc_LocalId p),
     SendBandWidthRequestM = BandWidthRequestM (EgressQosConfig (proc_NetQosReq p)),
     SendBandWidthLimitM = BandWidthLimitM (EgressQosConfig (proc_NetQosReq p)),
     SendPriority = qos_Priority (EgressQosConfig (proc_NetQosReq p)),
     RecvBandWidthRequestM = BandWidthRequestM (IngressQosConfig (proc_NetQosReq p)),
     RecvBandWidthLimitM = BandWidthLimitM (IngressQosConfig (proc_NetQosReq p)),
     RecvPriority = qos_Priority (IngressQosConfig (proc_NetQosReq p))\<rparr>"

definition ListQosFlow :: "string list \<Rightarrow> ('c, 's, 'i, 'k) RpcService \<Rightarrow> QosFlow list" where
  "ListQosFlow ks st = map flow_message (ListProcessInfo ks (svc_IDmanager st))"

definition pod_message :: "PodInfo \<Rightarrow> QosPodInfo" where
  "pod_message p = \<lparr>qpod_K8SPodName = pod_K8SPodName p, qpod_K8SPodNamespace = pod_K8SPodNamespace p,
     qpod_ContainerId = pod_ContainerId p, qpod_LocalId = ucast (pod_LocalId p),
     qpod_Egress = EgressQosConfig (pod_NetQosReq p), qpod_Ingress = IngressQosConfig (pod_NetQosReq p)\<rparr>"

definition ListQosPodInfo :: "string list \<Rightarrow> ('c, 's, 'i, 'k) RpcService \<Rightarrow> QosPodInfo list" where
  "ListQosPodInfo ks st = map pod_message (ListPodInfo ks (svc_IDmanager st))"

section \<open>What a successful \<open>SetQos\<close> did\<close>

lemma AllocatePodId_info:
  "AllocatePodId info s = Done (Inr i, info', idm) \<Longrightarrow> info' = info\<lparr>pod_LocalId := i\<rparr>"
  by (auto simp: AllocatePodId_def Let_def split: option.splits)

lemma AllocateProcessId_info:
  "AllocateProcessId info s = Done (Inr i, info', idm) \<Longrightarrow> info' = info\<lparr>proc_LocalId := i\<rparr>"
  by (auto simp: AllocateProcessId_def Let_def split: option.splits)

definition class_of :: "QosConfig \<Rightarrow> u16 \<Rightarrow> u32" where
  "class_of c i = GenerateClassId (qos_Priority c) i"

lemma SetQos_success:
  fixes K :: "('k, 'j) k8s_ops"
  assumes "SetQos K J E req st = Done (rep, None, st')"
  obtains pod q idm i k ip t t' where
    "GetPodFromEtcd K (req_K8SPodNamespace req) (req_K8SPodName req) (svc_K8s st) = Inr pod"
    "GetPodNetQosRequest J pod = Inr q"
    "AllocatePodId (request_pod req pod q) (svc_IDmanager st) = Done (Inr i, (request_pod req pod q)\<lparr>pod_LocalId := i\<rparr>, idm)"
    "ConvertIpToUint32 (req_VethIpv4 req) = Done ip" "svc_Edt st = Some t"
    "install_pod E \<lparr>key_Ip = ip, key_Port = 0\<rparr> i (class_of (EgressQosConfig q) i) (class_of (IngressQosConfig q) i) q t
       = (None :: 'j rpc_error option, t')"
    "rep = succeeded i"
    "st' = st\<lparr>svc_K8s := k, svc_IDmanager := InsertPodInfo (req_ContainerId req) ((request_pod req pod q)\<lparr>pod_LocalId := i\<rparr>) idm,
       svc_Edt := Some t'\<rparr>"
proof -
  from assms obtain pod q where
    p: "GetPodFromEtcd K (req_K8SPodNamespace req) (req_K8SPodName req) (svc_K8s st) = Inr pod"
      "GetPodNetQosRequest J pod = Inr q"
    by (auto simp: SetQos_def split: sum.splits)
  with assms obtain r info idm where
    a: "AllocatePodId (request_pod req pod q) (svc_IDmanager st) = Done (r, info, idm)"
    by (auto simp: SetQos_def)
  with assms p obtain i where "r = Inr i" by (cases r) (auto simp: SetQos_def Let_def)
  with a have a: "AllocatePodId (request_pod req pod q) (svc_IDmanager st) = Done (Inr i, info, idm)" by simp
  note info = AllocatePodId_info [OF a]
  have rq: "pod_NetQosReq (request_pod req pod q) = q" by (simp add: request_pod_def)
  define pd where "pd = \<lparr>patch_LocalId = i, patch_ContainerId = req_ContainerId req,
               patch_VethIpv4 = req_VethIpv4 req, patch_VethIpv6 = req_VethIpv6 req\<rparr>"
  obtain perr k where k: "PatchPodQosInfo K pod pd (svc_K8s st) = (perr, k)" by fastforce
  have "perr = None" using assms p a info k by (auto simp: SetQos_def Let_def pd_def split: option.splits)
  with k have k: "PatchPodQosInfo K pod pd (svc_K8s st) = (None, k)" by simp
  from assms p a info k rq obtain ip where ip: "ConvertIpToUint32 (req_VethIpv4 req) = Done ip"
    by (auto simp: SetQos_def Let_def pd_def)
  from assms p a info k rq ip obtain t where t: "svc_Edt st = Some t"
    by (auto simp: SetQos_def Let_def pd_def with_edt_def split: option.splits)
  obtain e t' where ins: "install_pod E \<lparr>key_Ip = ip, key_Port = 0\<rparr> i (class_of (EgressQosConfig q) i)
      (class_of (IngressQosConfig q) i) q t = (e :: 'j rpc_error option, t')" by fastforce
  from assms p a info k rq ip t ins have "e = None"
    by (auto simp: SetQos_def Let_def pd_def with_edt_def class_of_def split: option.splits)
  with ins have ins: "install_pod E \<lparr>key_Ip = ip, key_Port = 0\<rparr> i (class_of (EgressQosConfig q) i)
      (class_of (IngressQosConfig q) i) q t = (None :: 'j rpc_error option, t')" by simp
  from assms p a info k rq ip t ins have "rep = succeeded i" and
    "st' = st\<lparr>svc_K8s := k, svc_IDmanager := InsertPodInfo (req_ContainerId req) ((request_pod req pod q)\<lparr>pod_LocalId := i\<rparr>) idm,
       svc_Edt := Some t'\<rparr>"
    by (auto simp: SetQos_def Let_def pd_def with_edt_def class_of_def)
  from that [OF p a [unfolded info] ip t ins this] show thesis .
qed

section \<open>The state of the datapath for one pod\<close>

text \<open>
  The local id \<open>i\<close> is installed at the address key \<open>key\<close>: both id maps lead to its class id, and
  the configuration entries of \<open>i\<close> hold the request, where the maps have an entry for \<open>i\<close>.
\<close>

definition installed :: "('c, 's, 'i) ebpf_ops \<Rightarrow> TcEdtIdKey \<Rightarrow> u16 \<Rightarrow> NetQosReq \<Rightarrow> ('c, 's, 'i) Tcbpf \<Rightarrow> bool" where
  "installed E key i q t \<longleftrightarrow>
     ops_Lookup (id_ops E) key (EgressThrottleIdMap t) = Inr (class_of (EgressQosConfig q) i)
     \<and> ops_Lookup (id_ops E) key (IngressThrottleIdMap t) = Inr (class_of (IngressQosConfig q) i)
     \<and> (unat i < 5000 \<longrightarrow>
          ops_Lookup (cfg_ops E) (ucast i) (EgressThrottleCfgMap t) = Inr (throttle_of (EgressQosConfig q))
        \<and> ops_Lookup (cfg_ops E) (ucast i) (IngressThrottleCfgMap t) = Inr (throttle_of (IngressQosConfig q)))"

definition cleared :: "('c, 's, 'i) ebpf_ops \<Rightarrow> TcEdtIdKey \<Rightarrow> u16 \<Rightarrow> ('c, 's, 'i) Tcbpf \<Rightarrow> bool" where
  "cleared E key i t \<longleftrightarrow>
     (\<exists>x. ops_Lookup (id_ops E) key (EgressThrottleIdMap t) = Inl x)
     \<and> (\<exists>x. ops_Lookup (id_ops E) key (IngressThrottleIdMap t) = Inl x)
     \<and> (unat i < 5000 \<longrightarrow>
          ops_Lookup (cfg_ops E) (ucast i) (EgressThrottleCfgMap t) = Inr zeroThrottleCfg
        \<and> ops_Lookup (cfg_ops E) (ucast i) (IngressThrottleCfgMap t) = Inr zeroThrottleCfg
        \<and> ops_Lookup (stat_ops E) (ucast i) (EgressThrottleStatMap t) = Inr zeroThrottleStat
        \<and> ops_Lookup (stat_ops E) (ucast i) (IngressThrottleStatMap t) = Inr zeroThrottleStat)"

text \<open>The configuration entry of another id.\<close>

definition cfg_entry :: "('c, 's, 'i) ebpf_ops \<Rightarrow> u32 \<Rightarrow> ('c, 's, 'i) Tcbpf \<Rightarrow> (errno + TcEdtThrottleCfg) \<times> (errno + TcEdtThrottleCfg)" where
  "cfg_entry E j t = (ops_Lookup (cfg_ops E) j (EgressThrottleCfgMap t), ops_Lookup (cfg_ops E) j (IngressThrottleCfgMap t))"

lemma unat_ucast_16_32 [simp]: "unat (ucast (i::u16) :: u32) = unat i"
proof -
  have "unat i < 2 ^ 16" using unsigned_less [of i] by simp
  then show ?thesis by (simp add: unsigned_ucast_eq take_bit_nat_eq_self)
qed

lemma ucast_16_32_eq [simp]: "(ucast (i::u16) :: u32) = ucast j \<longleftrightarrow> i = j"
  by (metis unat_ucast_16_32 word_unat_eq_iff)

lemma side_frames:
  "egress_maps (snd (UpdateIngressThrottleId E k v t)) = egress_maps t"
  "ingress_maps (snd (UpdateEgressThrottleId E k v t)) = ingress_maps t"
  "egress_maps (AddIngressConfig E j c t) = egress_maps t"
  "ingress_maps (AddEgressConfig E j c t) = ingress_maps t"
  using ingress.upid_frame(3) egress.upid_frame(3) ingress.addcfg_frame(3) egress.addcfg_frame(3) by auto

lemma maps_eqD:
  "egress_maps t = egress_maps u \<Longrightarrow> EgressThrottleCfgMap t = EgressThrottleCfgMap u
     \<and> EgressThrottleStatMap t = EgressThrottleStatMap u \<and> EgressThrottleIdMap t = EgressThrottleIdMap u"
  "ingress_maps t = ingress_maps u \<Longrightarrow> IngressThrottleCfgMap t = IngressThrottleCfgMap u
     \<and> IngressThrottleStatMap t = IngressThrottleStatMap u \<and> IngressThrottleIdMap t = IngressThrottleIdMap u"
  by (simp_all add: egress_maps_def ingress_maps_def)

lemma install_pod_installed:
  fixes e :: "'j rpc_error option"
  assumes "ebpf_laws E"
    and "install_pod E key i (class_of (EgressQosConfig q) i) (class_of (IngressQosConfig q) i) q t = (None :: 'j rpc_error option, t')"
  shows "installed E key i q t'" and "j \<noteq> ucast i \<Longrightarrow> cfg_entry E j t' = cfg_entry E j t"
proof -
  let ?ue = "UpdateEgressThrottleId E key (class_of (EgressQosConfig q) i) t"
  let ?ui = "UpdateIngressThrottleId E key (class_of (IngressQosConfig q) i) (snd ?ue)"
  let ?ae = "AddEgressConfig E (ucast i) (EgressQosConfig q) (snd ?ui)"
  have ok: "fst ?ue = None" "fst ?ui = None" and t': "t' = AddIngressConfig E (ucast i) (IngressQosConfig q) ?ae"
    using assms(2) by (auto simp: install_pod_def split: prod.splits option.splits)
  note laws = ebpf_lawsD [OF assms(1)]
  note fr = maps_eqD(1) [OF side_frames(1)] maps_eqD(2) [OF side_frames(2)] maps_eqD(1) [OF side_frames(3)]
    maps_eqD(2) [OF side_frames(4)]
  have e1: "ops_Lookup (id_ops E) key (EgressThrottleIdMap (snd ?ue)) = Inr (class_of (EgressQosConfig q) i)"
    using lru_map.lru_update [OF laws(3)] ok(1) by (simp add: egress.upid_own)
  have i1: "ops_Lookup (id_ops E) key (IngressThrottleIdMap (snd ?ui)) = Inr (class_of (IngressQosConfig q) i)"
    using lru_map.lru_update [OF laws(3)] ok(2) by (simp add: ingress.upid_own)
  show "installed E key i q t'"
    using e1 i1 egress.addcfg_lookup [OF laws(1), of "ucast i"] ingress.addcfg_lookup [OF laws(1), of "ucast i"]
    by (simp add: installed_def t' egress.addcfg_frame ingress.addcfg_frame fr MAX_MAP_SIZE_def)
  assume j: "j \<noteq> ucast i"
  have "ops_Lookup (cfg_ops E) j (EgressThrottleCfgMap ?ae) = ops_Lookup (cfg_ops E) j (EgressThrottleCfgMap (snd ?ui))"
    using egress.addcfg_lookup [OF laws(1), of "ucast i" j] egress.addcfg_beyond [OF laws(1), of "ucast i"] j
    by (cases "unat i < MAX_MAP_SIZE") auto
  moreover have "ops_Lookup (cfg_ops E) j (IngressThrottleCfgMap t') = ops_Lookup (cfg_ops E) j (IngressThrottleCfgMap ?ae)"
    using ingress.addcfg_lookup [OF laws(1), of "ucast i" j] ingress.addcfg_beyond [OF laws(1), of "ucast i"] j
    by (cases "unat i < MAX_MAP_SIZE") (auto simp: t')
  ultimately show "cfg_entry E j t' = cfg_entry E j t"
    by (simp add: cfg_entry_def t' fr egress.upid_frame ingress.upid_frame)
qed

lemma clear_frames:
  "egress_maps (snd (SingleWriteIngressThrottleStat E j s t)) = egress_maps t"
  "egress_maps (snd (SingleWriteIngressThrottleCfg E j c t)) = egress_maps t"
  "egress_maps (snd (DeleteIngressThrottleId E k t)) = egress_maps t"
  "ingress_maps (snd (SingleWriteEgressThrottleStat E j s t)) = ingress_maps t"
  "ingress_maps (snd (SingleWriteEgressThrottleCfg E j c t)) = ingress_maps t"
  "ingress_maps (snd (DeleteEgressThrottleId E k t)) = ingress_maps t"
  using ingress.wstat_frame(3) ingress.wcfg_frame(3) ingress.delid_frame(3)
    egress.wstat_frame(3) egress.wcfg_frame(3) egress.delid_frame(3) by auto

lemma clear_pod_cleared:
  assumes "ebpf_laws E"
  shows "cleared E \<lparr>key_Ip = ip, key_Port = 0\<rparr> i (clear_pod E i ip t)"
    and "j \<noteq> ucast i \<Longrightarrow> cfg_entry E j (clear_pod E i ip t) = cfg_entry E j t"
proof -
  note laws = ebpf_lawsD [OF assms(1)]
  note fr = maps_eqD(1) [OF clear_frames(1)] maps_eqD(1) [OF clear_frames(2)] maps_eqD(1) [OF clear_frames(3)]
    maps_eqD(2) [OF clear_frames(4)] maps_eqD(2) [OF clear_frames(5)] maps_eqD(2) [OF clear_frames(6)]
  note own = egress.wstat_frame ingress.wstat_frame egress.wcfg_frame ingress.wcfg_frame egress.delid_frame ingress.delid_frame
  note look = egress.wcfg_lookup [OF laws(1)] ingress.wcfg_lookup [OF laws(1)] egress.wstat_lookup [OF laws(2)] ingress.wstat_lookup [OF laws(2)]
  show "cleared E \<lparr>key_Ip = ip, key_Port = 0\<rparr> i (clear_pod E i ip t)"
    using egress.delid_absent [OF laws(3)] ingress.delid_absent [OF laws(3)]
    by (simp add: cleared_def clear_pod_def Let_def fr own look MAX_MAP_SIZE_def)
  assume j: "j \<noteq> ucast i"
  have "ops_Lookup (cfg_ops E) j (EgressThrottleCfgMap (snd (SingleWriteEgressThrottleCfg E (ucast i) c u)))
      = ops_Lookup (cfg_ops E) j (EgressThrottleCfgMap u)" for c u
    using look(1) [of "ucast i" j c u] egress.wcfg_beyond [OF laws(1), of "ucast i" c u] j by (cases "unat i < MAX_MAP_SIZE") auto
  moreover have "ops_Lookup (cfg_ops E) j (IngressThrottleCfgMap (snd (SingleWriteIngressThrottleCfg E (ucast i) c u)))
      = ops_Lookup (cfg_ops E) j (IngressThrottleCfgMap u)" for c u
    using look(2) [of "ucast i" j c u] ingress.wcfg_beyond [OF laws(1), of "ucast i" c u] j by (cases "unat i < MAX_MAP_SIZE") auto
  ultimately show "cfg_entry E j (clear_pod E i ip t) = cfg_entry E j t"
    by (simp add: cfg_entry_def clear_pod_def Let_def fr own)
qed

section \<open>Properties of the handlers\<close>

lemma request_pod_simps [simp]:
  "pod_ContainerId (request_pod req pod q) = req_ContainerId req" "pod_VethIpv4 (request_pod req pod q) = req_VethIpv4 req"
  "pod_NetQosReq (request_pod req pod q) = q"
  by (simp_all add: request_pod_def)

lemma InsertPodInfo_idof: "pod_idof (InsertPodInfo k info s) = (pod_idof s)(k \<mapsto> pod_LocalId info)"
  by (auto simp: InsertPodInfo_def pool_views fun_eq_iff)

text \<open>
  The first half of \<open>SetQos\<close> on the ID manager: the container gets an id of the pod range that no
  other container holds, and the recorded description carries it.
\<close>

lemma allocate_insert:
  assumes wf: "idm_wf s" and al: "AllocatePodId info s = Done (Inr i, info\<lparr>pod_LocalId := i\<rparr>, idm)"
  defines "s' \<equiv> InsertPodInfo (pod_ContainerId info) (info\<lparr>pod_LocalId := i\<rparr>) idm"
  shows "idm_wf s'" and "pod_idof s' (pod_ContainerId info) = Some i" and "MinPodID \<le> i" and "i \<le> MaxPodID"
    and "k \<noteq> pod_ContainerId info \<Longrightarrow> pod_idof s' k = pod_idof s k"
    and "containerIdMap s' (pod_ContainerId info) = Some (info\<lparr>pod_LocalId := i\<rparr>)"
    and "k \<noteq> pod_ContainerId info \<Longrightarrow> containerIdMap s' k = containerIdMap s k"
    and "pod_idof s k = Some i \<Longrightarrow> k = pod_ContainerId info"
proof -
  have pw: "pod_wf s" using wf by (simp add: idm_wf_def)
  note r = pods.alloc_result [OF pw al]
  have wf1: "idm_wf idm" by (rule AllocatePodId_wf [OF wf al])
  show wf': "idm_wf s'" unfolding s'_def using r(2) by (intro InsertPodInfo_wf [OF wf1]) auto
  show id: "pod_idof s' (pod_ContainerId info) = Some i" by (simp add: s'_def InsertPodInfo_idof)
  show "MinPodID \<le> i" "i \<le> MaxPodID" using r(3,4) by auto
  show other: "pod_idof s' k = pod_idof s k" if "k \<noteq> pod_ContainerId info" for k
    using r(5) [OF that] that by (simp add: s'_def InsertPodInfo_idof)
  show "containerIdMap s' (pod_ContainerId info) = Some (info\<lparr>pod_LocalId := i\<rparr>)" by (simp add: s'_def InsertPodInfo_def)
  show "containerIdMap s' k = containerIdMap s k" if "k \<noteq> pod_ContainerId info" for k
    using that al by (auto simp: s'_def InsertPodInfo_def AllocatePodId_def Let_def split: option.splits)
  show "k = pod_ContainerId info" if "pod_idof s k = Some i"
    using pods.ids_distinct [of s' "pod_ContainerId info" i k] wf' id other [of k] that
    by (auto simp: idm_wf_def)
qed


text \<open>C10: Tearing a pod down undoes its set-up: \<open>UnSetQos\<close> after a successful \<open>SetQos\<close> returns, the
  container is unknown again and its id free, the id maps have no entry for its address and its
  configuration and statistics entries are zero; the other containers keep their descriptions and the
  other ids their configurations.\<close>

theorem SetQos_UnSetQos:
  fixes K :: "('k, 'j) k8s_ops"
  assumes "ebpf_laws E" and "idm_wf (svc_IDmanager st)" and "SetQos K J E req st = Done (rep, None, st')"
  shows "\<exists>i ip t t'' rep'' st''. rep = succeeded i \<and> ConvertIpToUint32 (req_VethIpv4 req) = Done ip \<and> svc_Edt st = Some t
    \<and> UnSetQos E (req_ContainerId req) st' = (Done (rep'', st'') :: ('j QosReply \<times> _) outcome)
    \<and> svc_Edt st'' = Some t'' \<and> cleared E \<lparr>key_Ip = ip, key_Port = 0\<rparr> i t''
    \<and> (\<forall>j. j \<noteq> ucast i \<longrightarrow> cfg_entry E j t'' = cfg_entry E j t)
    \<and> containerIdMap (svc_IDmanager st'') = (containerIdMap (svc_IDmanager st))(req_ContainerId req := None)
    \<and> pod_owner (svc_IDmanager st'') i = None"
proof -
  obtain pod q idm i k ip t t' where
    s: "GetPodFromEtcd K (req_K8SPodNamespace req) (req_K8SPodName req) (svc_K8s st) = Inr pod"
    "GetPodNetQosRequest J pod = Inr q"
    "AllocatePodId (request_pod req pod q) (svc_IDmanager st) = Done (Inr i, (request_pod req pod q)\<lparr>pod_LocalId := i\<rparr>, idm)"
    "ConvertIpToUint32 (req_VethIpv4 req) = Done ip" "svc_Edt st = Some t" and
    ins: "install_pod E \<lparr>key_Ip = ip, key_Port = 0\<rparr> i (class_of (EgressQosConfig q) i) (class_of (IngressQosConfig q) i) q t
       = (None :: 'j rpc_error option, t')" and
    st': "rep = succeeded i"
    "st' = st\<lparr>svc_K8s := k, svc_IDmanager := InsertPodInfo (req_ContainerId req) ((request_pod req pod q)\<lparr>pod_LocalId := i\<rparr>) idm,
       svc_Edt := Some t'\<rparr>"
    by (rule SetQos_success [OF assms(3)])
  note al = allocate_insert [OF assms(2) s(3), simplified]
  let ?idm = "svc_IDmanager st'" and ?c = "req_ContainerId req"
  define st'' where "st'' = st'\<lparr>svc_Edt := Some (clear_pod E i ip t'), svc_IDmanager := ReleasePodIdByContainerId ?c ?idm\<rparr>"
  have look: "containerIdMap ?idm ?c = Some ((request_pod req pod q)\<lparr>pod_LocalId := i\<rparr>)" using al(6) st' by simp
  have un: "UnSetQos E ?c st' = Done (\<lparr>rep_Success = True, rep_FailReason = None, rep_LocalId = 0\<rparr> :: 'j QosReply, st'')"
    using look s(4) st' by (simp add: UnSetQos_def LookupPodInfoByContainId_def with_edt_def Let_def st''_def)
  have pw: "pod_wf ?idm" using al(1) st' by (simp add: idm_wf_def)
  have "pod_owner (svc_IDmanager st'') i = None"
    using pods.release_owner [OF pw, of ?c] al(2) st' by (simp add: st''_def)
  moreover have "containerIdMap (svc_IDmanager st'') = (containerIdMap (svc_IDmanager st))(?c := None)"
    using look al(7) st' by (auto simp: st''_def ReleasePodIdByContainerId_def fun_eq_iff)
  moreover have "svc_Edt st'' = Some (clear_pod E i ip t')" by (simp add: st''_def)
  ultimately show ?thesis
    using un s(4,5) st'(1) clear_pod_cleared [OF assms(1)] install_pod_installed(2) [OF assms(1) ins]
    by (intro exI [of _ i] exI [of _ ip] exI [of _ t] exI [of _ "clear_pod E i ip t'"]
        exI [of _ "\<lparr>rep_Success = True, rep_FailReason = None, rep_LocalId = 0\<rparr>"] exI [of _ st'']) simp
qed

text \<open>
  Handlers of different calls run concurrently; the ID manager's mutex makes only its single
  operations atomic. The interleaving below is a teardown of container \<open>c\<close> and a set-up of \<open>c'\<close>
  between the allocation and the final \<open>InsertPodInfo\<close> of a set-up of \<open>c\<close>, which waits for the API
  server in between.
\<close>


section \<open>Sequences of requests\<close>

text \<open>
  A daemon that handles requests one after the other, from an empty ID manager, while the cluster,
  the address of the maps and their contents may change in any way in between.
\<close>

inductive rpc_step :: "('k, 'j) k8s_ops \<Rightarrow> (string \<Rightarrow> 'j + NetQosAnnotation) \<Rightarrow> ('c, 's, 'i) ebpf_ops \<Rightarrow>
    ('c, 's, 'i, 'k) RpcService \<Rightarrow> ('c, 's, 'i, 'k) RpcService \<Rightarrow> bool"
  for K :: "('k, 'j) k8s_ops" and J :: "string \<Rightarrow> 'j + NetQosAnnotation" and E :: "('c, 's, 'i) ebpf_ops" where
  set_qos: "SetQos K J E req st = Done (rep, err, st') \<Longrightarrow> rpc_step K J E st st'"
| unset_qos: "UnSetQos E cid st = (Done (rep, st') :: ('j QosReply \<times> _) outcome) \<Longrightarrow> rpc_step K J E st st'"
| set_flow: "SetFlow E flow st = (Done (rep, err, st') :: ('j QosReply \<times> _) outcome) \<Longrightarrow> rpc_step K J E st st'"
| unset_flow: "UnSetFlow E flow st = (Done (rep, st') :: ('j QosReply \<times> _) outcome) \<Longrightarrow> rpc_step K J E st st'"
| environment: "svc_IDmanager st' = svc_IDmanager st \<Longrightarrow> rpc_step K J E st st'"

inductive_cases rpc_stepE: "rpc_step K J E st st'"

inductive rpc_reachable :: "('k, 'j) k8s_ops \<Rightarrow> (string \<Rightarrow> 'j + NetQosAnnotation) \<Rightarrow> ('c, 's, 'i) ebpf_ops \<Rightarrow>
    ('c, 's, 'i, 'k) RpcService \<Rightarrow> bool"
  for K :: "('k, 'j) k8s_ops" and J :: "string \<Rightarrow> 'j + NetQosAnnotation" and E :: "('c, 's, 'i) ebpf_ops" where
  rpc_start: "svc_IDmanager st = NewPodIDManager \<Longrightarrow> rpc_reachable K J E st"
| rpc_next: "rpc_reachable K J E st \<Longrightarrow> rpc_step K J E st st' \<Longrightarrow> rpc_reachable K J E st'"

text \<open>A failing \<open>SetQos\<close> has at most allocated an id; it never records anything else.\<close>

lemma SetQos_error_idm:
  assumes "SetQos K J E req st = Done (rep, Some e, st')"
  shows "svc_IDmanager st' = svc_IDmanager st \<or>
      (\<exists>info r info'. AllocatePodId info (svc_IDmanager st) = Done (r, info', svc_IDmanager st'))"
proof (cases "GetPodFromEtcd K (req_K8SPodNamespace req) (req_K8SPodName req) (svc_K8s st)")
  case (Inl x)
  then show ?thesis using assms by (simp add: SetQos_def)
next
  case pod: (Inr pod)
  show ?thesis
  proof (cases "GetPodNetQosRequest J pod")
    case (Inl x)
    then show ?thesis using assms pod by (simp add: SetQos_def)
  next
    case q: (Inr q)
    from assms pod q obtain r info idm where
      a: "AllocatePodId (request_pod req pod q) (svc_IDmanager st) = Done (r, info, idm)" by (auto simp: SetQos_def)
    have "svc_IDmanager st' = idm"
    proof (cases r)
      case (Inl x)
      then show ?thesis using assms pod q a by (auto simp: SetQos_def Let_def)
    next
      case (Inr i)
      obtain perr k where p: "PatchPodQosInfo K pod \<lparr>patch_LocalId = i, patch_ContainerId = req_ContainerId req,
          patch_VethIpv4 = req_VethIpv4 req, patch_VethIpv6 = req_VethIpv6 req\<rparr> (svc_K8s st) = (perr, k)" by fastforce
      show ?thesis
      proof (cases perr)
        case None
        with assms pod q a Inr p obtain ip where ip: "ConvertIpToUint32 (req_VethIpv4 req) = Done ip"
          by (auto simp: SetQos_def Let_def)
        with assms pod q a Inr p None obtain t where t: "svc_Edt st = Some t"
          by (auto simp: SetQos_def Let_def with_edt_def split: option.splits)
        with assms pod q a Inr p None ip show ?thesis
          by (auto simp: SetQos_def Let_def with_edt_def split: prod.splits option.splits)
      qed (use assms pod q a Inr p in \<open>auto simp: SetQos_def Let_def\<close>)
    qed
    with a show ?thesis by blast
  qed
qed

lemma SetQos_wf:
  assumes "idm_wf (svc_IDmanager st)" and "SetQos K J E req st = Done (rep, err, st')"
  shows "idm_wf (svc_IDmanager st')"
proof (cases err)
  case None
  show ?thesis
  proof (rule SetQos_success [OF assms(2) [unfolded None]])
    fix pod q idm i k t'
    assume a: "AllocatePodId (request_pod req pod q) (svc_IDmanager st) = Done (Inr i, (request_pod req pod q)\<lparr>pod_LocalId := i\<rparr>, idm)"
      "st' = st\<lparr>svc_K8s := k, svc_IDmanager := InsertPodInfo (req_ContainerId req) ((request_pod req pod q)\<lparr>pod_LocalId := i\<rparr>) idm,
       svc_Edt := Some t'\<rparr>"
    show ?thesis using allocate_insert(1) [OF assms(1) a(1)] a(2) by simp
  qed
next
  case (Some e)
  then show ?thesis using SetQos_error_idm [of K J E req st rep e st'] assms AllocatePodId_wf by metis
qed

lemma UnSetQos_idm:
  "UnSetQos E cid st = Done (rep, st') \<Longrightarrow> svc_IDmanager st' = ReleasePodIdByContainerId cid (svc_IDmanager st)"
  by (auto simp: UnSetQos_def Let_def with_edt_def split: sum.splits option.splits)

lemma UnSetFlow_idm:
  "UnSetFlow E req st = Done (rep, st') \<Longrightarrow> svc_IDmanager st' = ReleaseProcessInfo (flow_key req) (svc_IDmanager st)"
  by (auto simp: UnSetFlow_def Let_def with_edt_def split: sum.splits option.splits if_splits)

lemma SetFlow_idm:
  assumes "SetFlow E req st = Done (rep, err, st')"
  obtains (fails) r info' where "AllocateProcessId (request_flow req) (svc_IDmanager st) = Done (r, info', svc_IDmanager st')"
  | (inserts) i info' idm info where "AllocateProcessId (request_flow req) (svc_IDmanager st) = Done (Inr i, info', idm)"
      "svc_IDmanager st' = InsertProcessInfo (flow_key req) info idm" "proc_LocalId info = i" "proc_ProcessId info = flow_key req"
proof -
  from assms obtain r info' idm where
    a: "AllocateProcessId (request_flow req) (svc_IDmanager st) = Done (r, info', idm)"
    by (auto simp: SetFlow_def)
  show thesis
  proof (cases r)
    case (Inl e)
    then show thesis using a assms fails by (auto simp: SetFlow_def Let_def)
  next
    case (Inr i)
    then have i': "info' = (request_flow req)\<lparr>proc_LocalId := i\<rparr>" using AllocateProcessId_info a by blast
    have k: "proc_ProcessId (request_flow req) = flow_key req" by (simp add: request_flow_def)
    show thesis
      using assms a Inr inserts [of i info' idm] i' k
      by (fastforce simp: SetFlow_def Let_def with_edt_def split: if_splits option.splits)
  qed
qed

lemma SetFlow_wf:
  assumes "idm_wf (svc_IDmanager st)" and "SetFlow E req st = Done (rep, err, st')"
  shows "idm_wf (svc_IDmanager st')"
  using assms(2)
proof (cases rule: SetFlow_idm)
  case (fails r info')
  then show ?thesis using AllocateProcessId_wf [OF assms(1)] by blast
next
  case (inserts i info' idm info)
  have fw: "flow_wf (svc_IDmanager st)" using assms(1) by (simp add: idm_wf_def)
  have k: "proc_ProcessId (request_flow req) = flow_key req" by (simp add: request_flow_def)
  have "flow_idof idm (flow_key req) = Some i" using flows.alloc_result(2) [OF fw inserts(1)] k by simp
  then show ?thesis
    unfolding inserts(2) using inserts(3,4) AllocateProcessId_wf [OF assms(1) inserts(1)]
    by (intro InsertProcessInfo_wf) auto
qed

lemma rpc_step_wf: "rpc_step K J E st st' \<Longrightarrow> idm_wf (svc_IDmanager st) \<Longrightarrow> idm_wf (svc_IDmanager st')"
  by (erule rpc_stepE)
    (auto simp: UnSetQos_idm UnSetFlow_idm intro: SetQos_wf SetFlow_wf ReleasePod_wf ReleaseProcess_wf)

lemma rpc_reachable_wf: "rpc_reachable K J E st \<Longrightarrow> idm_wf (svc_IDmanager st)"
  by (induction rule: rpc_reachable.induct) (auto intro: rpc_step_wf simp: wf_New)

text \<open>C11: However many requests a daemon has handled, one after the other, successful or not: two
  containers that are set up have different local ids between 1000 and 5999, two flows have different
  ids between 100 and 999, and so no container shares its id with a flow.\<close>

theorem handled_requests_ids_unique:
  assumes "rpc_reachable K J E st"
  shows "inj_on (pod_idof (svc_IDmanager st)) (dom (pod_idof (svc_IDmanager st)))
    \<and> inj_on (flow_idof (svc_IDmanager st)) (dom (flow_idof (svc_IDmanager st)))
    \<and> ran (pod_idof (svc_IDmanager st)) \<subseteq> {1000..5999} \<and> ran (flow_idof (svc_IDmanager st)) \<subseteq> {100..999}"
proof -
  have wf: "pod_wf (svc_IDmanager st)" "flow_wf (svc_IDmanager st)"
    using rpc_reachable_wf [OF assms] by (simp_all add: idm_wf_def)
  have "inj_on (pod_idof (svc_IDmanager st)) (dom (pod_idof (svc_IDmanager st)))"
    using pods.ids_distinct [OF wf(1)] by (fastforce intro: inj_onI)
  moreover have "inj_on (flow_idof (svc_IDmanager st)) (dom (flow_idof (svc_IDmanager st)))"
    using flows.ids_distinct [OF wf(2)] by (fastforce intro: inj_onI)
  ultimately show ?thesis
    using pods.idof_range [OF wf(1)] flows.idof_range [OF wf(2)] by (fastforce simp: ran_def id_consts)
qed

section \<open>Requests that end the daemon\<close>

text \<open>C28: A request for a flow with an IPv6 address ends the daemon with an index panic whenever a flow
  id is available, because the address is converted without a check.\<close>

theorem SetFlow_ipv6_panics:
  assumes "ParseIP (flow_Ip req) = Some ip" and "take 12 ip \<noteq> v4InV6Prefix"
    and "AllocateProcessId (request_flow req) (svc_IDmanager st) = Done (Inr i, info, idm)"
  shows "SetFlow E req st = (Panic IndexOutOfRange :: ('j QosReply \<times> _) outcome)"
proof -
  have "ConvertIpToUint32 (flow_Ip req) = Panic IndexOutOfRange"
    using assms(1,2) ParseIP_length [OF assms(1)] by (simp add: ConvertIpToUint32_def To4_def)
  then show ?thesis using assms(3) by (simp add: SetFlow_def Let_def)
qed

text \<open>A set-up that arrives before the maps have been opened ends the daemon with a nil
  dereference: \<open>Run\<close> starts the server before \<open>NewTcbpf\<close> sets \<open>bpf.Edt\<close>.\<close>

theorem SetQos_before_maps_panics:
  fixes K :: "('k, 'j) k8s_ops"
  assumes "svc_Edt st = None"
    and "GetPodFromEtcd K (req_K8SPodNamespace req) (req_K8SPodName req) (svc_K8s st) = Inr pod"
    and "GetPodNetQosRequest J pod = Inr q"
    and "AllocatePodId (request_pod req pod q) (svc_IDmanager st) = Done (Inr i, info, idm)"
    and "PatchPodQosInfo K pod \<lparr>patch_LocalId = i, patch_ContainerId = req_ContainerId req,
      patch_VethIpv4 = req_VethIpv4 req, patch_VethIpv6 = req_VethIpv6 req\<rparr> (svc_K8s st) = (None, k)"
    and "ConvertIpToUint32 (req_VethIpv4 req) = Done ip"
  shows "SetQos K J E req st = Panic NilDereference"
  using assms by (simp add: SetQos_def Let_def with_edt_def)

section \<open>A concrete daemon\<close>

definition example_setqos :: SetQosRequest where
  "example_setqos = \<lparr>req_K8SPodName = ''web'', req_K8SPodNamespace = ''default'', req_VethIpv4 = dotted [10, 0, 0, 2],
     req_VethIpv6 = [], req_HostMac = ''02:00:00:00:00:01'', req_VethHostIdx = 7, req_VethLXCMac = ''02:00:00:00:00:02'', req_VethHostName = ''veth0'', req_VethLXCName = ''eth0'', req_ContainerId = ''c1'', req_Netns = ''/proc/7/ns/net''\<rparr>"

definition example_svc ::
  "(u32 \<Rightarrow> TcEdtThrottleCfg, u32 \<Rightarrow> TcEdtThrottleStat, TcEdtIdKey \<rightharpoonup> u32, Pod) RpcService" where
  "example_svc = \<lparr>svc_K8s = example_pod, svc_IDmanager = NewPodIDManager, svc_Edt = Some example_tcbpf\<rparr>"

definition example_request :: NetQosReq where
  "example_request = \<lparr>EgressQosConfig = \<lparr>BandWidthRequestM = 20, BandWidthLimitM = 100, qos_Priority = 2\<rparr>,
     IngressQosConfig = zeroQosConfig\<rparr>"

lemma example_get: "GetPodFromEtcd example_cluster ''default'' ''web'' example_pod = Inr example_pod"
  by (simp add: GetPodFromEtcd_def example_cluster_def example_pod_def)

lemma example_netqos: "GetPodNetQosRequest example_decoder example_pod = Inr example_request"
proof -
  have "Annotations example_pod QosegressAnno = Some ''e''" "Annotations example_pod QosingressAnno = None"
    by (simp_all add: example_pod_def anno_defs)
  then show ?thesis
    by (simp add: GetPodNetQosRequest_def direction_qos_def parseNetQosAnnotation_def example_decoder_def
        parse_number_unit parse_number_unit [of "''''", simplified] zeroNetQosReq_def example_request_def zeroQosConfig_def)
qed

lemma example_alloc: "\<exists>info idm. AllocatePodId (request_pod example_setqos example_pod example_request) NewPodIDManager
    = Done (Inr 1000, info, idm)"
  by (simp add: AllocatePodId_def NewPodIDManager_def scan_free.simps id_consts Let_def)

lemma dotted_plain: "json_plain (dotted [a, b, c, d])"
proof -
  have "32 \<le> (of_char x :: nat) \<and> (of_char x :: nat) < 127 \<and> x \<noteq> CHR 0x22 \<and> x \<noteq> CHR 0x5C" if "is_digit x" for x
    using that by (auto simp: is_digit_def)
  then show ?thesis using FormatUint_digits by (auto simp: json_plain_def dotted_def)
qed

lemma example_patch_ok:
  "\<exists>k. PatchPodQosInfo example_cluster example_pod \<lparr>patch_LocalId = i, patch_ContainerId = ''c1'',
     patch_VethIpv4 = dotted [10, 0, 0, 2], patch_VethIpv6 = []\<rparr> example_pod = (None, k)"
proof -
  have "json_plain ''c1''" "json_plain ''''" by (simp_all add: json_plain_def)
  then show ?thesis
    using dotted_plain Split_patchStr [of "\<lparr>patch_LocalId = i, patch_ContainerId = ''c1'',
     patch_VethIpv4 = dotted [10, 0, 0, 2], patch_VethIpv6 = []\<rparr>"]
    by (simp add: PatchPodQosInfo_def example_cluster_def quoted_patch_def Let_def)
qed

lemma example_ip: "\<exists>w. ConvertIpToUint32 (dotted [10, 0, 0, 2]) = Done w"
  by (simp add: ConvertIpToUint32_def ParseIP_dotted To4_def v4InV6Prefix_def)

lemma kernel_install: "\<exists>t'. install_pod kernel_ops k i e g q t = (None :: unit rpc_error option, t')"
  by (simp add: install_pod_def UpdateEgressThrottleId_def UpdateIngressThrottleId_def kernel_ops_def kernel_hash_def)

lemma example_SetQos_on:
  "\<exists>rep st'. SetQos example_cluster example_decoder kernel_ops example_setqos (example_svc\<lparr>svc_Edt := Some t\<rparr>) = Done (rep, None, st')"
proof -
  obtain info idm where a: "AllocatePodId (request_pod example_setqos example_pod example_request) NewPodIDManager
    = Done (Inr 1000, info, idm)" using example_alloc by blast
  obtain k where p: "PatchPodQosInfo example_cluster example_pod \<lparr>patch_LocalId = 1000, patch_ContainerId = ''c1'',
     patch_VethIpv4 = dotted [10, 0, 0, 2], patch_VethIpv6 = []\<rparr> example_pod = (None, k)" using example_patch_ok by blast
  obtain w where w: "ConvertIpToUint32 (dotted [10, 0, 0, 2]) = Done w" using example_ip by blast
  obtain t' where t': "install_pod kernel_ops \<lparr>key_Ip = w, key_Port = 0\<rparr> 1000
      (GenerateClassId (qos_Priority (EgressQosConfig (pod_NetQosReq info))) 1000)
      (GenerateClassId (qos_Priority (IngressQosConfig (pod_NetQosReq info))) 1000) example_request t
      = (None :: unit rpc_error option, t')" using kernel_install by blast
  have f: "req_K8SPodNamespace example_setqos = ''default''" "req_K8SPodName example_setqos = ''web''"
    "req_ContainerId example_setqos = ''c1''" "req_VethIpv4 example_setqos = dotted [10, 0, 0, 2]" "req_VethIpv6 example_setqos = []"
    "svc_K8s example_svc = example_pod" "svc_IDmanager example_svc = NewPodIDManager"
    by (simp_all add: example_setqos_def example_svc_def)
  show ?thesis unfolding SetQos_def by (simp add: f example_get example_netqos a p w t' Let_def with_edt_def)
qed

lemma example_SetQos: "\<exists>rep st'. SetQos example_cluster example_decoder kernel_ops example_setqos example_svc = Done (rep, None, st')"
  using example_SetQos_on [of example_tcbpf] by (simp add: example_svc_def)

lemma example_svc_wf: "idm_wf (svc_IDmanager example_svc)"
  by (simp add: example_svc_def wf_New)


theorem SetQos_UnSetQos_witness:
  "\<exists>rep st' rep'' st''. SetQos example_cluster example_decoder kernel_ops example_setqos example_svc = Done (rep, None, st')
     \<and> UnSetQos kernel_ops ''c1'' st' = (Done (rep'', st'') :: (unit QosReply \<times> _) outcome)
     \<and> containerIdMap (svc_IDmanager st'') = Map.empty"
proof -
  have c: "req_ContainerId example_setqos = ''c1''" "containerIdMap (svc_IDmanager example_svc) = Map.empty"
    by (simp_all add: example_setqos_def example_svc_def NewPodIDManager_def)
  obtain rep st' where s: "SetQos example_cluster example_decoder kernel_ops example_setqos example_svc = Done (rep, None, st')"
    using example_SetQos by blast
  from SetQos_UnSetQos [OF kernel_ops_laws example_svc_wf s] obtain rep'' st'' where
    "UnSetQos kernel_ops ''c1'' st' = (Done (rep'', st'') :: (unit QosReply \<times> _) outcome)"
    "containerIdMap (svc_IDmanager st'') = Map.empty"
    unfolding c by auto
  with s show ?thesis by blast
qed


theorem handled_requests_ids_unique_witness:
  "\<exists>st. rpc_reachable example_cluster example_decoder kernel_ops st \<and> dom (pod_idof (svc_IDmanager st)) = {''c1''}
     \<and> ran (pod_idof (svc_IDmanager st)) \<subseteq> {1000..5999}"
proof -
  obtain rep st' where s: "SetQos example_cluster example_decoder kernel_ops example_setqos example_svc = Done (rep, None, st')"
    using example_SetQos by blast
  have "svc_IDmanager example_svc = NewPodIDManager" by (simp add: example_svc_def)
  then have r: "rpc_reachable example_cluster example_decoder kernel_ops st'"
    by (rule rpc_reachable.rpc_next [OF rpc_reachable.rpc_start rpc_step.set_qos [OF s]])
  have "dom (pod_idof (svc_IDmanager st')) = {''c1''}"
  proof (rule SetQos_success [OF s])
    fix pod q i idm k t'
    assume a: "AllocatePodId (request_pod example_setqos pod q) (svc_IDmanager example_svc)
        = Done (Inr i, (request_pod example_setqos pod q)\<lparr>pod_LocalId := i\<rparr>, idm)"
      "st' = example_svc\<lparr>svc_K8s := k, svc_IDmanager := InsertPodInfo (req_ContainerId example_setqos)
         ((request_pod example_setqos pod q)\<lparr>pod_LocalId := i\<rparr>) idm, svc_Edt := Some t'\<rparr>"
    have c: "req_ContainerId example_setqos = ''c1''" by (simp add: example_setqos_def)
    have "pod_idof (svc_IDmanager st') k = None" if "k \<noteq> ''c1''" for k
      using allocate_insert(5) [OF example_svc_wf a(1), of k] that a(2) c
      by (simp add: example_svc_def pod_idof_def NewPodIDManager_def)
    moreover have "pod_idof (svc_IDmanager st') ''c1'' = Some i"
      using allocate_insert(2) [OF example_svc_wf a(1)] a(2) c by simp
    ultimately show ?thesis by (auto simp: dom_def) (metis option.distinct(1))
  qed
  with r handled_requests_ids_unique [OF r] show ?thesis by blast
qed

definition example_flow :: "string \<Rightarrow> QosFlow" where
  "example_flow ip = \<lparr>flow_Direct = ''egress'', flow_Ip = ip, flow_Port = 80, flow_LocalId = 0,
     SendBandWidthRequestM = 10, SendBandWidthLimitM = 20, SendPriority = 1,
     RecvBandWidthRequestM = 0, RecvBandWidthLimitM = 0, RecvPriority = 0\<rparr>"

lemma fe80_parse: "\<exists>ip. ParseIP ''fe80::1'' = Some ip \<and> take 12 ip \<noteq> v4InV6Prefix"
  by (simp add: ParseIP_def parseIPv6_def parseIPv6_loop.simps hex_val_def v4InV6Prefix_eq Let_def)

theorem SetFlow_ipv6_panics_witness:
  "SetFlow kernel_ops (example_flow ''fe80::1'') example_svc = (Panic IndexOutOfRange :: (unit QosReply \<times> _) outcome)"
proof -
  have "\<exists>info idm. AllocateProcessId (request_flow (example_flow ''fe80::1'')) (svc_IDmanager example_svc) = Done (Inr 100, info, idm)"
    by (simp add: AllocateProcessId_def example_svc_def NewPodIDManager_def scan_free.simps id_consts Let_def)
  moreover have "flow_Ip (example_flow ''fe80::1'') = ''fe80::1''" by (simp add: example_flow_def)
  ultimately show ?thesis using fe80_parse SetFlow_ipv6_panics [of "example_flow ''fe80::1''"] by metis
qed

theorem SetQos_before_maps_panics_witness:
  "SetQos example_cluster example_decoder kernel_ops example_setqos (example_svc\<lparr>svc_Edt := None\<rparr>) = Panic NilDereference"
proof -
  have f: "req_K8SPodNamespace example_setqos = ''default''" "req_K8SPodName example_setqos = ''web''"
    "req_ContainerId example_setqos = ''c1''" "req_VethIpv4 example_setqos = dotted [10, 0, 0, 2]" "req_VethIpv6 example_setqos = []"
    "svc_K8s (example_svc\<lparr>svc_Edt := None\<rparr>) = example_pod" "svc_IDmanager (example_svc\<lparr>svc_Edt := None\<rparr>) = NewPodIDManager"
    by (simp_all add: example_setqos_def example_svc_def)
  obtain info idm where a: "AllocatePodId (request_pod example_setqos example_pod example_request) NewPodIDManager
    = Done (Inr 1000, info, idm)" using example_alloc by blast
  obtain k where p: "PatchPodQosInfo example_cluster example_pod \<lparr>patch_LocalId = 1000, patch_ContainerId = ''c1'',
     patch_VethIpv4 = dotted [10, 0, 0, 2], patch_VethIpv6 = []\<rparr> example_pod = (None, k)" using example_patch_ok by blast
  obtain w where w: "ConvertIpToUint32 (dotted [10, 0, 0, 2]) = Done w" using example_ip by blast
  show ?thesis
    by (rule SetQos_before_maps_panics [where pod = example_pod and q = example_request and i = 1000])
      (simp_all add: f example_get example_netqos a p w)
qed

end
