(* ===== verification/DaemonMain.thy ===== *)
theory DaemonMain
  imports RpcServer
begin

text \<open>
  Start-up of the node daemon, \<open>cmd/daemon/main.go\<close>: waiting until the six maps are pinned,
  rebuilding the ID manager from the annotations of the running pods, starting the RPC server,
  opening the maps and writing the configurations of the recovered pods back into them.
\<close>

section \<open>Waiting for the maps\<close>

definition bpfMapArr :: "string list" where
  "bpfMapArr = [EgressThrottleCfgMapPath, EgressThrottleStatMapPath, IngressThrottleCfgMapPath,
     IngressThrottleStatMapPath, EgressThrottleIdMapPath, IngressThrottleIdMapPath]"

text \<open>
  \<open>pinned n path\<close> is the answer of the \<open>n\<close>-th check of the file system. The loop moves on when the
  current path is there and otherwise sleeps and asks again; it may wait forever.
\<close>

partial_function (option) PreRun_loop :: "(nat \<Rightarrow> string \<Rightarrow> bool) \<Rightarrow> nat \<Rightarrow> nat \<Rightarrow> nat option" where
  "PreRun_loop pinned i n =
     (if i < length bpfMapArr
      then (if pinned n (bpfMapArr ! i) then PreRun_loop pinned (i + 1) (n + 1) else PreRun_loop pinned i (n + 1))
      else Some n)"

definition PreRun :: "(nat \<Rightarrow> string \<Rightarrow> bool) \<Rightarrow> nat option" where
  "PreRun pinned = PreRun_loop pinned 0 0"

section \<open>Recovering the ID manager\<close>

definition recovered_pod :: "Pod \<Rightarrow> PatchPodData \<Rightarrow> NetQosReq \<Rightarrow> PodInfo" where
  "recovered_pod pod patchData qosSet = zeroPodInfo\<lparr>pod_LocalId := patch_LocalId patchData, pod_K8SPodName := Name pod,
     pod_K8SPodNamespace := Namespace pod, pod_ContainerId := patch_ContainerId patchData, pod_NetQosReq := qosSet,
     pod_VethIpv4 := patch_VethIpv4 patchData, pod_VethIpv6 := patch_VethIpv6 patchData\<rparr>"

text \<open>
  A pod whose identifiers cannot be read stops the recovery; a pod without identifiers, or whose
  bandwidth annotations cannot be read, is left out.
\<close>

fun recover_pods :: "(string \<Rightarrow> 'j + NetQosAnnotation) \<Rightarrow> Pod list \<Rightarrow> IDManager \<Rightarrow> 'j k8s_error + IDManager" where
  "recover_pods J [] s = Inr s"
| "recover_pods J (pod # pods) s =
     (case GetPodPatchData pod of
        Inl e \<Rightarrow> Inl e
      | Inr patchData \<Rightarrow>
          if patch_ContainerId patchData = [] then recover_pods J pods s
          else case GetPodNetQosRequest J pod of
                 Inl e \<Rightarrow> recover_pods J pods s
               | Inr qosSet \<Rightarrow>
                   recover_pods J pods
                     (InsertPodInfo (patch_ContainerId patchData) (recovered_pod pod patchData qosSet) s))"

definition recoverIdmanagerFromCache ::
  "(string \<Rightarrow> 'j + NetQosAnnotation) \<Rightarrow> cache_object list \<Rightarrow> IDManager \<Rightarrow> 'j k8s_error + IDManager" where
  "recoverIdmanagerFromCache J store s =
     (case ListRunPodFromCache store of Inl e \<Rightarrow> Inl e | Inr pods \<Rightarrow> recover_pods J pods s)"

section \<open>Restoring the maps\<close>

text \<open>One turn of the loop of \<open>Run\<close>: an error of an id map is logged and kept as the return value.\<close>

definition restore_pod ::
  "('c, 's, 'i) ebpf_ops \<Rightarrow> PodInfo \<Rightarrow> 'j rpc_error option \<Rightarrow> ('c, 's, 'i) Tcbpf \<Rightarrow>
   ('j rpc_error option \<times> ('c, 's, 'i) Tcbpf) outcome" where
  "restore_pod E podInfo err t =
     (let q = pod_NetQosReq podInfo; i = pod_LocalId podInfo;
          t = AddIngressConfig E (ucast i) (IngressQosConfig q) t;
          t = AddEgressConfig E (ucast i) (EgressQosConfig q) t
      in obind (ConvertIpToUint32 (pod_VethIpv4 podInfo)) (\<lambda>ip.
         let idKey = \<lparr>key_Ip = ip, key_Port = 0\<rparr>;
             (e1, t) = UpdateEgressThrottleId E idKey (GenerateClassId (qos_Priority (EgressQosConfig q)) i) t;
             (e2, t) = UpdateIngressThrottleId E idKey (GenerateClassId (qos_Priority (IngressQosConfig q)) i) t
         in Done (map_option UpdateIngressIdErr e2, t)))"

fun restore_pods ::
  "('c, 's, 'i) ebpf_ops \<Rightarrow> PodInfo list \<Rightarrow> 'j rpc_error option \<Rightarrow> ('c, 's, 'i) Tcbpf \<Rightarrow>
   ('j rpc_error option \<times> ('c, 's, 'i) Tcbpf) outcome" where
  "restore_pods E [] err t = Done (err, t)"
| "restore_pods E (podInfo # podInfos) err t =
     obind (restore_pod E podInfo err t) (\<lambda>(err, t). restore_pods E podInfos err t)"

datatype 'j run_error = ClientFailed "'j k8s_error" | RecoverFailed "'j k8s_error" | MapsFailed "string \<times> errno"
  | LastIdError "'j rpc_error"

text \<open>
  \<open>Run\<close> up to the wait for a signal. The first component is its error, the second the services it
  leaves running: the RPC server works on the recovered ID manager from the moment it is started,
  with nil maps (\<open>serving\<close>), and on the opened maps when \<open>NewTcbpf\<close> has returned. \<open>order\<close> is the order
  in which the container map is walked.
\<close>

definition daemon_Run ::
  "('j k8s_error + ('k \<times> cache_object list)) \<Rightarrow> (string \<Rightarrow> 'j + NetQosAnnotation) \<Rightarrow> ('c, 's, 'i) ebpf_ops \<Rightarrow>
   ((string \<times> errno) + ('c, 's, 'i) Tcbpf) \<Rightarrow> (IDManager \<Rightarrow> string list) \<Rightarrow>
   ('j run_error option \<times> ('c, 's, 'i, 'k) RpcService list) outcome" where
  "daemon_Run newClient J E newTcbpf order =
     (case newClient of
        Inl e \<Rightarrow> Done (Some (ClientFailed e), [])
      | Inr (k8sClient, podcache) \<Rightarrow>
     (case recoverIdmanagerFromCache J podcache NewPodIDManager of
        Inl e \<Rightarrow> Done (Some (RecoverFailed e), [])
      | Inr idManager \<Rightarrow>
         let serving = \<lparr>svc_K8s = k8sClient, svc_IDmanager = idManager, svc_Edt = None\<rparr>
         in case newTcbpf of
              Inl e \<Rightarrow> Done (Some (MapsFailed e), [serving])
            | Inr edtBpf \<Rightarrow>
                obind (restore_pods E (ListPodInfo (order idManager) idManager) None edtBpf) (\<lambda>(err, t).
                  Done (map_option LastIdError err, [serving, serving\<lparr>svc_Edt := Some t\<rparr>]))))"

section \<open>The wait ends\<close>

lemma PreRun_loop_waits:
  assumes "i < length bpfMapArr" and "pinned (n + k) (bpfMapArr ! i)"
  shows "\<exists>m. n \<le> m \<and> m \<le> n + k \<and> pinned m (bpfMapArr ! i) \<and> PreRun_loop pinned i n = PreRun_loop pinned (i + 1) (m + 1)"
  using assms(2)
proof (induction k arbitrary: n)
  case 0
  then show ?case using assms(1) by (intro exI [of _ n]) (simp add: PreRun_loop.simps [of pinned i n])
next
  case (Suc k)
  show ?case
  proof (cases "pinned n (bpfMapArr ! i)")
    case True
    then show ?thesis using assms(1) by (intro exI [of _ n]) (simp add: PreRun_loop.simps [of pinned i n])
  next
    case False
    have "pinned (Suc n + k) (bpfMapArr ! i)" using Suc(2) by simp
    from Suc(1) [OF this] obtain m where "Suc n \<le> m" "m \<le> Suc n + k" "pinned m (bpfMapArr ! i)"
      "PreRun_loop pinned i (Suc n) = PreRun_loop pinned (i + 1) (m + 1)" by auto
    then show ?thesis using assms(1) False by (intro exI [of _ m]) (simp add: PreRun_loop.simps [of pinned i n])
  qed
qed

text \<open>C15: The wait for the maps ends: if every map is pinned from some moment on, \<open>PreRun\<close> returns, and
  it never returns before each of the six maps has been seen.\<close>

theorem PreRun_returns:
  assumes "\<And>path n. path \<in> set bpfMapArr \<Longrightarrow> T \<le> n \<Longrightarrow> pinned n path"
  shows "\<exists>m. PreRun pinned = Some m \<and> (\<forall>path \<in> set bpfMapArr. \<exists>n < m. pinned n path)"
proof -
  have "\<exists>m. n \<le> m \<and> PreRun_loop pinned i n = Some m \<and> (\<forall>j. i \<le> j \<and> j < length bpfMapArr \<longrightarrow> (\<exists>l < m. pinned l (bpfMapArr ! j)))"
    if "i \<le> length bpfMapArr" for i n
    using that
  proof (induction "length bpfMapArr - i" arbitrary: i n)
    case 0
    then show ?case by (intro exI [of _ n]) (auto simp: PreRun_loop.simps [of pinned i n])
  next
    case (Suc d)
    then have i: "i < length bpfMapArr" by simp
    have "pinned (n + T) (bpfMapArr ! i)" using i by (intro assms) auto
    from PreRun_loop_waits [of i pinned n T, OF i this] obtain m where m: "n \<le> m" "pinned m (bpfMapArr ! i)"
      "PreRun_loop pinned i n = PreRun_loop pinned (i + 1) (m + 1)" by auto
    have "d = length bpfMapArr - (i + 1)" using Suc(2) by simp
    from Suc(1) [OF this, of "m + 1"] i obtain m' where m': "m + 1 \<le> m'" "PreRun_loop pinned (i + 1) (m + 1) = Some m'"
      "\<forall>j. i + 1 \<le> j \<and> j < length bpfMapArr \<longrightarrow> (\<exists>l < m'. pinned l (bpfMapArr ! j))" by auto
    have "\<exists>l < m'. pinned l (bpfMapArr ! j)" if "i \<le> j" "j < length bpfMapArr" for j
      using that m(2) m' by (cases "j = i") auto
    with m m' show ?case by (intro exI [of _ m']) auto
  qed
  from this [of 0 0] obtain m where "PreRun pinned = Some m" "\<forall>j < length bpfMapArr. \<exists>l < m. pinned l (bpfMapArr ! j)"
    by (auto simp: PreRun_def)
  then show ?thesis by (auto simp: in_set_conv_nth)
qed

theorem PreRun_returns_witness:
  "\<exists>m. PreRun (\<lambda>n path. 3 \<le> n) = Some m \<and> 3 < m"
proof -
  obtain m where m: "PreRun (\<lambda>n path. 3 \<le> n) = Some m" "\<forall>path \<in> set bpfMapArr. \<exists>n < m. 3 \<le> n"
    using PreRun_returns [of 3 "\<lambda>n path. 3 \<le> n"] by auto
  have "EgressThrottleCfgMapPath \<in> set bpfMapArr" by (simp add: bpfMapArr_def)
  with m have "3 < m" by fastforce
  with m show ?thesis by blast
qed

section \<open>What a restart recovers\<close>

text \<open>The descriptions of the pods that carry identifiers and readable annotations, in order.\<close>

fun identified :: "(string \<Rightarrow> 'j + NetQosAnnotation) \<Rightarrow> Pod list \<Rightarrow> PodInfo list" where
  "identified J [] = []"
| "identified J (pod # pods) =
     (case (GetPodPatchData pod :: 'j k8s_error + PatchPodData, GetPodNetQosRequest J pod) of
        (Inr d, Inr q) \<Rightarrow> if patch_ContainerId d = [] then identified J pods else recovered_pod pod d q # identified J pods
      | _ \<Rightarrow> identified J pods)"

definition insert_all :: "PodInfo list \<Rightarrow> IDManager \<Rightarrow> IDManager" where
  "insert_all infos s = fold (\<lambda>info. InsertPodInfo (pod_ContainerId info) info) infos s"

lemma recover_pods_insert_all:
  fixes J :: "string \<Rightarrow> 'j + NetQosAnnotation"
  assumes "\<And>pod. pod \<in> set pods \<Longrightarrow> is_ok (GetPodPatchData pod :: 'j k8s_error + PatchPodData)"
  shows "recover_pods J pods s = Inr (insert_all (identified J pods) s)"
  using assms
proof (induction pods arbitrary: s)
  case (Cons pod pods)
  then obtain d where d: "GetPodPatchData pod = (Inr d :: 'j k8s_error + PatchPodData)"
    by (cases "GetPodPatchData pod :: 'j k8s_error + PatchPodData") fastforce+
  have c: "pod_ContainerId (recovered_pod pod d q) = patch_ContainerId d" for q by (simp add: recovered_pod_def)
  show ?case
    using Cons d by (cases "GetPodNetQosRequest J pod") (auto simp: insert_all_def c)
qed (simp add: insert_all_def)

lemma InsertPodInfo_fresh_wf:
  assumes wf: "idm_wf s" and fresh: "pod_idof s (pod_ContainerId info) = None" "pod_owner s (pod_LocalId info) = None"
    and range: "MinPodID \<le> pod_LocalId info" "pod_LocalId info \<le> MaxPodID"
  shows "idm_wf (InsertPodInfo (pod_ContainerId info) info s)"
    and "pod_owner (InsertPodInfo (pod_ContainerId info) info s) = (pod_owner s)(pod_LocalId info \<mapsto> pod_ContainerId info)"
proof -
  let ?s = "InsertPodInfo (pod_ContainerId info) info s"
  have lk: "linked (pod_owner s) (pod_idof s)" using wf by (simp add: idm_wf_def pod_wf_def)
  show o: "pod_owner ?s = (pod_owner s)(pod_LocalId info \<mapsto> pod_ContainerId info)"
    using range by (auto simp: InsertPodInfo_def pool_views fun_eq_iff)
  have i: "pod_idof ?s = (pod_idof s)(pod_ContainerId info \<mapsto> pod_LocalId info)" by (rule InsertPodInfo_idof)
  have "linked (pod_owner ?s) (pod_idof ?s)" unfolding o i using lk fresh by (intro linked_insert) auto
  moreover have "flow_wf ?s = flow_wf s" by (rule flow_wf_cong) (auto simp: InsertPodInfo_def ranges_ok_def)
  ultimately show "idm_wf ?s"
    using wf by (auto simp: idm_wf_def pod_wf_def InsertPodInfo_def ranges_ok_def)
qed

lemma insert_all_wf:
  assumes "distinct (map pod_ContainerId infos)" and "distinct (map pod_LocalId infos)"
    and "\<And>info. info \<in> set infos \<Longrightarrow> MinPodID \<le> pod_LocalId info \<and> pod_LocalId info \<le> MaxPodID"
  shows "idm_wf (insert_all infos NewPodIDManager)
    \<and> containerIdMap (insert_all infos NewPodIDManager) = map_of (map (\<lambda>p. (pod_ContainerId p, p)) infos)
    \<and> dom (pod_owner (insert_all infos NewPodIDManager)) = pod_LocalId ` set infos"
  using assms
proof (induction infos rule: rev_induct)
  case Nil
  have "pod_owner NewPodIDManager = Map.empty" by (auto simp: pod_owner_def NewPodIDManager_def fun_eq_iff)
  moreover have "containerIdMap NewPodIDManager = Map.empty" by (simp add: NewPodIDManager_def)
  ultimately show ?case by (simp add: insert_all_def wf_New)
next
  case (snoc p ps)
  let ?s = "insert_all ps NewPodIDManager"
  have IH: "idm_wf ?s" "containerIdMap ?s = map_of (map (\<lambda>p. (pod_ContainerId p, p)) ps)"
    "dom (pod_owner ?s) = pod_LocalId ` set ps" using snoc by auto
  have step: "insert_all (ps @ [p]) NewPodIDManager = InsertPodInfo (pod_ContainerId p) p ?s" by (simp add: insert_all_def)
  have fr: "pod_ContainerId p \<notin> pod_ContainerId ` set ps" "pod_LocalId p \<notin> pod_LocalId ` set ps" using snoc by auto
  have c: "pod_idof ?s (pod_ContainerId p) = None"
    using fr(1) by (auto simp: pod_idof_def IH(2) map_of_eq_None_iff)
  have o: "pod_owner ?s (pod_LocalId p) = None" using fr(2) IH(3) by auto
  note ins = InsertPodInfo_fresh_wf [OF IH(1) c o]
  have "map_of (map (\<lambda>p. (pod_ContainerId p, p)) ps) (pod_ContainerId p) = None"
    using fr(1) by (auto simp: map_of_eq_None_iff)
  then have "[pod_ContainerId p \<mapsto> p] ++ map_of (map (\<lambda>p. (pod_ContainerId p, p)) ps)
      = map_of (map (\<lambda>p. (pod_ContainerId p, p)) ps) ++ [pod_ContainerId p \<mapsto> p]"
    by (intro map_add_comm) (auto simp: dom_def)
  then have m: "map_of (map (\<lambda>p. (pod_ContainerId p, p)) (ps @ [p])) = (containerIdMap ?s)(pod_ContainerId p \<mapsto> p)"
    by (simp add: IH(2))
  have r: "MinPodID \<le> pod_LocalId p" "pod_LocalId p \<le> MaxPodID" using snoc.prems(3) [of p] by auto
  have "containerIdMap (InsertPodInfo (pod_ContainerId p) p ?s) = (containerIdMap ?s)(pod_ContainerId p \<mapsto> p)"
    by (simp add: InsertPodInfo_def)
  moreover have "dom (pod_owner (InsertPodInfo (pod_ContainerId p) p ?s)) = pod_LocalId ` set (ps @ [p])"
    unfolding ins(2) [OF r] dom_fun_upd IH(3) by simp
  ultimately show ?case unfolding step m using ins(1) [OF r] by blast
qed

text \<open>C13: After a restart the daemon knows exactly the pods that carry its annotations: when the
  annotations can be read, no two running pods share a container id or a local id and the local ids
  are in the pod range, recovery succeeds with a consistent ID manager that maps the container of
  each such pod to its description and nothing else, so no id in use can be given out again.\<close>

theorem recovery_rebuilds_manager:
  fixes J :: "string \<Rightarrow> 'j + NetQosAnnotation"
  assumes "ListRunPodFromCache store = (Inr pods :: 'j k8s_error + Pod list)"
    and "\<And>pod. pod \<in> set pods \<Longrightarrow> is_ok (GetPodPatchData pod :: 'j k8s_error + PatchPodData)"
    and "distinct (map pod_ContainerId (identified J pods))" and "distinct (map pod_LocalId (identified J pods))"
    and "\<And>info. info \<in> set (identified J pods) \<Longrightarrow> 1000 \<le> pod_LocalId info \<and> pod_LocalId info \<le> 5999"
  shows "\<exists>s. recoverIdmanagerFromCache J store NewPodIDManager = Inr s \<and> idm_wf s
    \<and> containerIdMap s = map_of (map (\<lambda>p. (pod_ContainerId p, p)) (identified J pods))
    \<and> dom (pod_owner s) = pod_LocalId ` set (identified J pods)"
proof -
  have "recoverIdmanagerFromCache J store NewPodIDManager = Inr (insert_all (identified J pods) NewPodIDManager)"
    using recover_pods_insert_all [OF assms(2)] by (simp add: recoverIdmanagerFromCache_def assms(1))
  moreover have "MinPodID \<le> pod_LocalId info \<and> pod_LocalId info \<le> MaxPodID" if "info \<in> set (identified J pods)" for info
    using assms(5) [OF that] by (simp add: id_consts)
  ultimately show ?thesis using insert_all_wf [OF assms(3,4)] by blast
qed

definition example_store :: "cache_object list" where
  "example_store = [PodObject example_pod, PodObject (with_patch example_patch example_pod)]"

definition example_restarted :: Pod where
  "example_restarted = with_patch example_patch example_pod"

lemma example_restart:
  shows example_list: "ListRunPodFromCache example_store = (Inr [example_pod, example_restarted] :: unit k8s_error + Pod list)"
    and example_patches: "pod \<in> set [example_pod, example_restarted] \<Longrightarrow> is_ok (GetPodPatchData pod :: unit k8s_error + PatchPodData)"
    and example_identified: "identified example_decoder [example_pod, example_restarted]
      = [recovered_pod example_restarted example_patch example_request]"
proof -
  show "ListRunPodFromCache example_store = (Inr [example_pod, example_restarted] :: unit k8s_error + Pod list)"
    by (simp add: ListRunPodFromCache_def example_store_def example_pod_def with_patch_def example_restarted_def)
  have d1: "GetPodPatchData example_pod = (Inr zeroPatchPodData :: unit k8s_error + PatchPodData)"
    by (simp add: GetPodPatchData_def example_pod_def anno_defs Let_def)
  have d2: "GetPodPatchData example_restarted = (Inr example_patch :: unit k8s_error + PatchPodData)"
    unfolding example_restarted_def by (rule GetPodPatchData_with_patch)
  show "is_ok (GetPodPatchData pod :: unit k8s_error + PatchPodData)" if "pod \<in> set [example_pod, example_restarted]"
    using that d1 d2 by auto
  have "Annotations example_restarted QosegressAnno = Some ''e''" "Annotations example_restarted QosingressAnno = None"
    by (simp_all add: example_restarted_def with_patch_def example_pod_def anno_defs)
  then have q: "GetPodNetQosRequest example_decoder example_restarted = Inr example_request"
    by (simp add: GetPodNetQosRequest_def direction_qos_def parseNetQosAnnotation_def example_decoder_def
        parse_number_unit parse_number_unit [of "''''", simplified] zeroNetQosReq_def example_request_def zeroQosConfig_def)
  show "identified example_decoder [example_pod, example_restarted] = [recovered_pod example_restarted example_patch example_request]"
    by (simp add: d1 d2 q example_netqos zeroPatchPodData_def) (simp add: example_patch_def)
qed

lemma example_recovered_fields:
  "pod_LocalId (recovered_pod example_restarted example_patch q) = 1000"
  "pod_ContainerId (recovered_pod example_restarted example_patch q) = ''c1''"
  "pod_VethIpv4 (recovered_pod example_restarted example_patch q) = ''10.0.0.2''"
  "pod_NetQosReq (recovered_pod example_restarted example_patch q) = q"
  by (simp_all add: recovered_pod_def example_patch_def)

theorem recovery_rebuilds_manager_witness:
  "\<exists>s. recoverIdmanagerFromCache example_decoder example_store NewPodIDManager = (Inr s :: unit k8s_error + IDManager)
     \<and> idm_wf s \<and> dom (pod_owner s) = {1000}"
proof -
  obtain s where "recoverIdmanagerFromCache example_decoder example_store NewPodIDManager = (Inr s :: unit k8s_error + IDManager)"
    "idm_wf s" "dom (pod_owner s) = {1000}"
    using recovery_rebuilds_manager [OF example_list example_patches, of example_decoder]
    by (auto simp del: identified.simps simp add: example_identified example_recovered_fields)
  then show ?thesis by blast
qed

section \<open>What a restart writes back\<close>

lemma restore_pod_cfg:
  assumes laws: "ebpf_laws E" and ip: "ConvertIpToUint32 (pod_VethIpv4 p) = Done ip"
  obtains e t' where "restore_pod E p err t = Done (e, t')"
    and "\<And>j. ops_Lookup (cfg_ops E) j (EgressThrottleCfgMap t')
      = (if j = ucast (pod_LocalId p) \<and> unat j < 5000 then Inr (throttle_of (EgressQosConfig (pod_NetQosReq p)))
         else ops_Lookup (cfg_ops E) j (EgressThrottleCfgMap t))"
    and "\<And>j. ops_Lookup (cfg_ops E) j (IngressThrottleCfgMap t')
      = (if j = ucast (pod_LocalId p) \<and> unat j < 5000 then Inr (throttle_of (IngressQosConfig (pod_NetQosReq p)))
         else ops_Lookup (cfg_ops E) j (IngressThrottleCfgMap t))"
proof -
  let ?i = "ucast (pod_LocalId p) :: u32" and ?q = "pod_NetQosReq p" and ?key = "\<lparr>key_Ip = ip, key_Port = 0\<rparr>"
  define t1 where "t1 = AddEgressConfig E ?i (EgressQosConfig ?q) (AddIngressConfig E ?i (IngressQosConfig ?q) t)"
  define t2 where "t2 = snd (UpdateEgressThrottleId E ?key (GenerateClassId (qos_Priority (EgressQosConfig ?q)) (pod_LocalId p)) t1)"
  define r where "r = UpdateIngressThrottleId E ?key (GenerateClassId (qos_Priority (IngressQosConfig ?q)) (pod_LocalId p)) t2"
  have "restore_pod E p err t = Done (map_option UpdateIngressIdErr (fst r), snd r)"
    by (simp add: restore_pod_def ip Let_def split_beta t1_def t2_def r_def)
  moreover have c: "EgressThrottleCfgMap (snd r) = EgressThrottleCfgMap t1" "IngressThrottleCfgMap (snd r) = IngressThrottleCfgMap t1"
    using egress.upid_frame [of E] ingress.upid_frame [of E]
    by (simp_all add: r_def t2_def egress_maps_def ingress_maps_def)
  note map = ebpf_lawsD(1) [OF laws]
  have fr: "EgressThrottleCfgMap (AddIngressConfig E k q u) = EgressThrottleCfgMap u"
    "IngressThrottleCfgMap (AddEgressConfig E k q u) = IngressThrottleCfgMap u" for k q u
    using egress.addcfg_frame(3) [of E k q u] ingress.addcfg_frame(3) [of E k q u] by (simp_all add: egress_maps_def ingress_maps_def)
  have "ops_Lookup (cfg_ops E) j (EgressThrottleCfgMap t1) = (if j = ?i \<and> unat j < 5000 then Inr (throttle_of (EgressQosConfig ?q))
         else ops_Lookup (cfg_ops E) j (EgressThrottleCfgMap t))" for j
    using egress.addcfg_lookup [OF map, of ?i j] egress.addcfg_beyond [OF map, of ?i]
    by (cases "unat ?i < 5000") (auto simp: t1_def fr MAX_MAP_SIZE_def)
  moreover have "ops_Lookup (cfg_ops E) j (IngressThrottleCfgMap t1) = (if j = ?i \<and> unat j < 5000 then Inr (throttle_of (IngressQosConfig ?q))
         else ops_Lookup (cfg_ops E) j (IngressThrottleCfgMap t))" for j
    using ingress.addcfg_lookup [OF map, of ?i j] ingress.addcfg_beyond [OF map, of ?i]
    by (cases "unat ?i < 5000") (auto simp: t1_def fr MAX_MAP_SIZE_def)
  ultimately show ?thesis using that by (simp add: c)
qed

lemma restore_pods_cfg:
  assumes laws: "ebpf_laws E" and "\<And>p. p \<in> set ps \<Longrightarrow> \<exists>ip. ConvertIpToUint32 (pod_VethIpv4 p) = Done ip"
    and "distinct (map pod_LocalId ps)"
  shows "\<exists>e t'. restore_pods E ps err t = Done (e, t')
    \<and> (\<forall>p \<in> set ps. unat (pod_LocalId p) < 5000 \<longrightarrow>
          ops_Lookup (cfg_ops E) (ucast (pod_LocalId p)) (EgressThrottleCfgMap t') = Inr (throttle_of (EgressQosConfig (pod_NetQosReq p)))
        \<and> ops_Lookup (cfg_ops E) (ucast (pod_LocalId p)) (IngressThrottleCfgMap t') = Inr (throttle_of (IngressQosConfig (pod_NetQosReq p))))
    \<and> (\<forall>j. j \<notin> (\<lambda>p. ucast (pod_LocalId p)) ` set ps \<longrightarrow>
          ops_Lookup (cfg_ops E) j (EgressThrottleCfgMap t') = ops_Lookup (cfg_ops E) j (EgressThrottleCfgMap t)
        \<and> ops_Lookup (cfg_ops E) j (IngressThrottleCfgMap t') = ops_Lookup (cfg_ops E) j (IngressThrottleCfgMap t))"
  using assms(2,3)
proof (induction ps arbitrary: err t)
  case (Cons p ps)
  obtain ip where ip: "ConvertIpToUint32 (pod_VethIpv4 p) = Done ip" using Cons(2) [of p] by auto
  obtain e t1 where p: "restore_pod E p err t = Done (e, t1)"
    and eg: "\<And>j. ops_Lookup (cfg_ops E) j (EgressThrottleCfgMap t1)
      = (if j = ucast (pod_LocalId p) \<and> unat j < 5000 then Inr (throttle_of (EgressQosConfig (pod_NetQosReq p)))
         else ops_Lookup (cfg_ops E) j (EgressThrottleCfgMap t))"
    and ing: "\<And>j. ops_Lookup (cfg_ops E) j (IngressThrottleCfgMap t1)
      = (if j = ucast (pod_LocalId p) \<and> unat j < 5000 then Inr (throttle_of (IngressQosConfig (pod_NetQosReq p)))
         else ops_Lookup (cfg_ops E) j (IngressThrottleCfgMap t))"
    by (rule restore_pod_cfg [OF laws ip, of err t]) (rule that)
  have fresh: "ucast (pod_LocalId p) \<notin> (\<lambda>p. ucast (pod_LocalId p) :: u32) ` set ps"
    using Cons(3) by auto
  have u: "unat (ucast (pod_LocalId p) :: u32) = unat (pod_LocalId p)" by simp
  obtain e' t' where r: "restore_pods E ps e t1 = Done (e', t')"
    and q: "\<forall>p \<in> set ps. unat (pod_LocalId p) < 5000 \<longrightarrow>
          ops_Lookup (cfg_ops E) (ucast (pod_LocalId p)) (EgressThrottleCfgMap t') = Inr (throttle_of (EgressQosConfig (pod_NetQosReq p)))
        \<and> ops_Lookup (cfg_ops E) (ucast (pod_LocalId p)) (IngressThrottleCfgMap t') = Inr (throttle_of (IngressQosConfig (pod_NetQosReq p)))"
    and o: "\<forall>j. j \<notin> (\<lambda>p. ucast (pod_LocalId p)) ` set ps \<longrightarrow>
          ops_Lookup (cfg_ops E) j (EgressThrottleCfgMap t') = ops_Lookup (cfg_ops E) j (EgressThrottleCfgMap t1)
        \<and> ops_Lookup (cfg_ops E) j (IngressThrottleCfgMap t') = ops_Lookup (cfg_ops E) j (IngressThrottleCfgMap t1)"
    using Cons.IH [of e t1] Cons.prems by fastforce
  show ?case using r q o fresh by (auto simp: p eg ing u)
qed simp


text \<open>C14: After a restart the maps again hold what the pods asked for: whenever \<open>NewTcbpf\<close> opens the
  maps and the pods recorded in the recovered manager have IPv4 addresses and distinct ids, \<open>Run\<close>
  goes through all of them, and then every recovered pod with an id below 5000 has its request in
  both configuration maps and no other entry has been touched.\<close>

theorem restart_restores_configs:
  fixes J :: "string \<Rightarrow> 'j + NetQosAnnotation" and E :: "('c, 's, 'i) ebpf_ops"
  assumes laws: "ebpf_laws E" and rec: "recoverIdmanagerFromCache J store NewPodIDManager = Inr s"
    and ip: "\<And>p. p \<in> set (ListPodInfo (order s) s) \<Longrightarrow> \<exists>w. ConvertIpToUint32 (pod_VethIpv4 p) = Done w"
    and dis: "distinct (map pod_LocalId (ListPodInfo (order s) s))"
  shows "\<exists>err t' svc. daemon_Run (Inr (k, store)) J E (Inr t) order = Done (err, [svc, svc\<lparr>svc_Edt := Some t'\<rparr>])
    \<and> svc_IDmanager svc = s
    \<and> (\<forall>p \<in> set (ListPodInfo (order s) s). unat (pod_LocalId p) < 5000 \<longrightarrow>
          cfg_entry E (ucast (pod_LocalId p)) t'
            = (Inr (throttle_of (EgressQosConfig (pod_NetQosReq p))), Inr (throttle_of (IngressQosConfig (pod_NetQosReq p)))))
    \<and> (\<forall>j. j \<notin> (\<lambda>p. ucast (pod_LocalId p)) ` set (ListPodInfo (order s) s) \<longrightarrow> cfg_entry E j t' = cfg_entry E j t)"
proof -
  obtain e t' where r: "restore_pods E (ListPodInfo (order s) s) None t = (Done (e, t') :: ('j rpc_error option \<times> _) outcome)"
    and p: "\<forall>p \<in> set (ListPodInfo (order s) s). unat (pod_LocalId p) < 5000 \<longrightarrow>
          cfg_entry E (ucast (pod_LocalId p)) t'
            = (Inr (throttle_of (EgressQosConfig (pod_NetQosReq p))), Inr (throttle_of (IngressQosConfig (pod_NetQosReq p))))"
    and o: "\<forall>j. j \<notin> (\<lambda>p. ucast (pod_LocalId p)) ` set (ListPodInfo (order s) s) \<longrightarrow> cfg_entry E j t' = cfg_entry E j t"
    using restore_pods_cfg [OF laws ip dis, of "None :: 'j rpc_error option" t] unfolding cfg_entry_def by auto
  show ?thesis
    using p o by (intro exI [of _ "map_option LastIdError e"] exI [of _ t']
        exI [of _ "\<lparr>svc_K8s = k, svc_IDmanager = s, svc_Edt = None\<rparr>"]) (simp add: daemon_Run_def rec r Let_def)
qed

theorem restart_restores_configs_witness:
  "\<exists>err t' svc. daemon_Run (Inr ((), example_store)) example_decoder kernel_ops (Inr example_tcbpf) (\<lambda>s. [''c1''])
      = Done (err, [svc, svc\<lparr>svc_Edt := Some t'\<rparr>])
    \<and> cfg_entry kernel_ops 1000 t' = (Inr (throttle_of (EgressQosConfig example_request)), Inr (throttle_of zeroQosConfig))"
proof -
  let ?p = "recovered_pod example_restarted example_patch example_request"
  define s where "s = insert_all [?p] NewPodIDManager"
  have r: "recoverIdmanagerFromCache example_decoder example_store NewPodIDManager = (Inr s :: unit k8s_error + IDManager)"
    using recover_pods_insert_all [of "[example_pod, example_restarted]" example_decoder, OF example_patches]
    by (simp del: identified.simps add: recoverIdmanagerFromCache_def example_list example_identified s_def)
  have l: "ListPodInfo [''c1''] s = [?p]"
    by (simp add: ListPodInfo_def s_def insert_all_def InsertPodInfo_def example_recovered_fields List.map_filter_simps)
  have ip: "\<exists>w. ConvertIpToUint32 ''10.0.0.2'' = Done w"
    proof -
    have "(of_char (digit_char 0) :: nat) = of_char (CHR ''0'')" "(of_char (digit_char 1) :: nat) = of_char (CHR ''1'')"
      "(of_char (digit_char 2) :: nat) = of_char (CHR ''2'')" by (simp_all add: of_char_digit_char)
    then have "digit_char 0 = CHR ''0''" "digit_char 1 = CHR ''1''" "digit_char 2 = CHR ''2''"
      unfolding of_char_eq_iff by auto
    then have "dotted [10, 0, 0, 2] = ''10.0.0.2''" by (simp add: dotted_def FormatUint.simps)
    with example_ip show ?thesis by simp
  qed
  have "\<exists>w. ConvertIpToUint32 (pod_VethIpv4 p) = Done w" if "p \<in> set (ListPodInfo [''c1''] s)" for p
    using that ip by (simp add: l example_recovered_fields)
  moreover have "distinct (map pod_LocalId (ListPodInfo [''c1''] s))" by (simp add: l)
  ultimately obtain err t' svc where "daemon_Run (Inr ((), example_store)) example_decoder kernel_ops (Inr example_tcbpf) (\<lambda>s. [''c1''])
      = Done (err, [svc, svc\<lparr>svc_Edt := Some t'\<rparr>])"
    "\<forall>p \<in> set (ListPodInfo [''c1''] s). unat (pod_LocalId p) < 5000 \<longrightarrow>
          cfg_entry kernel_ops (ucast (pod_LocalId p)) t'
            = (Inr (throttle_of (EgressQosConfig (pod_NetQosReq p))), Inr (throttle_of (IngressQosConfig (pod_NetQosReq p))))"
    using restart_restores_configs [OF kernel_ops_laws r, of "\<lambda>s. [''c1'']" "()" example_tcbpf] by blast
  then show ?thesis by (auto simp: l example_recovered_fields example_request_def)
qed

end
