(* ===== verification/BpfUtils.thy ===== *)
theory BpfUtils
  imports Tcbpf Go_Strings
begin

text \<open>
  Running external commands, \<open>pkg/bpfgo/utils.go\<close>: attaching the eBPF programs to a device
  with the \<open>tc\<close> tool, checking and removing them, writing a cgroup class id. The shell, the
  network namespaces and the file system are arguments that act on a host state \<open>'h\<close>.
\<close>

section \<open>Commands\<close>

text \<open>\<open>bash -c\<close> with \<open>CombinedOutput\<close>: the error if the exit status is not zero, the output, the host.\<close>

type_synonym ('h, 'e) shell = "string \<Rightarrow> 'h \<Rightarrow> 'e option \<times> string \<times> 'h"

datatype 'e dev_error = ShellErr 'e | NetnsErr 'e | NotLoaded | CmdExecuteFailed string string "'e dev_error"

text \<open>\<open>netns.WithNetNSPath\<close>: run an action inside the namespace at a path, or fail to enter it.\<close>

type_synonym ('h, 'e) with_netns =
  "string \<Rightarrow> ('h \<Rightarrow> 'e dev_error option \<times> 'h) \<Rightarrow> 'h \<Rightarrow> 'e dev_error option \<times> 'h"

record tcCommand =
  cmdStr :: string
  verifyRet :: bool

text \<open>\<open>fmt.Sprintf\<close> on a format with one \<open>%s\<close> and no other verb, which all formats here are.\<close>

fun sprintf_s :: "string \<Rightarrow> string \<Rightarrow> string" where
  "sprintf_s (c # d # r) s = (if c = CHR ''%'' \<and> d = CHR ''s'' then s @ r else c # sprintf_s (d # r) s)"
| "sprintf_s r s = r"

text \<open>A command whose result is not verified may fail; the loop goes on.\<close>

fun doCmdExecute :: "('h, 'e) shell \<Rightarrow> tcCommand list \<Rightarrow> string \<Rightarrow> 'h \<Rightarrow> 'e dev_error option \<times> 'h" where
  "doCmdExecute sh [] interfaceName h = (None, h)"
| "doCmdExecute sh (c # cmds) interfaceName h =
     (let (err, stdout, h) = sh (sprintf_s (cmdStr c) interfaceName) h
      in if verifyRet c \<and> err \<noteq> None then (map_option ShellErr err, h) else doCmdExecute sh cmds interfaceName h)"

definition doCmd ::
  "('h, 'e) shell \<Rightarrow> ('h, 'e) with_netns \<Rightarrow> tcCommand list \<Rightarrow> string \<Rightarrow> string \<Rightarrow> 'h \<Rightarrow> 'e dev_error option \<times> 'h" where
  "doCmd sh WithNetNSPath commands interfaceName namespace h =
     (let execFunc = doCmdExecute sh commands interfaceName;
          (err, h) = (if namespace \<noteq> [] then WithNetNSPath namespace execFunc h else execFunc h)
      in (map_option (CmdExecuteFailed namespace interfaceName) err, h))"

text \<open>No output and exit status zero is the only answer that counts as loaded.\<close>

definition checkQosEnabled :: "('h, 'e) shell \<Rightarrow> string \<Rightarrow> 'h \<Rightarrow> 'e dev_error option \<times> 'h" where
  "checkQosEnabled sh cmd h =
     (let (err, output, h) = sh cmd h
      in (if err \<noteq> None then Some NotLoaded else if length output = 0 then None else Some NotLoaded, h))"

definition show_cmd :: "string \<Rightarrow> string" where
  "show_cmd interfaceName = ''tc filter show dev '' @ interfaceName @ '' egress | grep -E '' @
     [CHR 0x27] @ ''bpfel.o|bpfeb.o'' @ [CHR 0x27] @ '' >/dev/null 2>&1''"

definition IsDevQosEnabled ::
  "('h, 'e) shell \<Rightarrow> ('h, 'e) with_netns \<Rightarrow> string \<Rightarrow> string \<Rightarrow> 'h \<Rightarrow> ('e dev_error + bool) \<times> 'h" where
  "IsDevQosEnabled sh WithNetNSPath interfaceName namespace h =
     (let check = checkQosEnabled sh (show_cmd interfaceName);
          (err, h) = (if namespace \<noteq> [] then WithNetNSPath namespace check h else check h)
      in (case err of Some e \<Rightarrow> Inl e | None \<Rightarrow> Inr True, h))"

definition EgressBpfSection :: string where "EgressBpfSection = ''tc_egress''"
definition IngressBpfSection :: string where "IngressBpfSection = ''tc_ingress''"

definition enable_cmds :: "string \<Rightarrow> tcCommand list" where
  "enable_cmds section =
     [\<lparr>cmdStr = ''tc qdisc replace dev %s root fq'', verifyRet = True\<rparr>,
      \<lparr>cmdStr = ''tc qdisc replace dev %s clsact'', verifyRet = True\<rparr>,
      \<lparr>cmdStr = ''tc filter replace dev %s egress pref 2 handle 1 bpf da obj '' @ EdtBpfProgPath @ '' sec '' @ section,
       verifyRet = True\<rparr>]"

definition EnableDevQos ::
  "('h, 'e) shell \<Rightarrow> ('h, 'e) with_netns \<Rightarrow> string \<Rightarrow> string \<Rightarrow> string \<Rightarrow> 'h \<Rightarrow> 'e dev_error option \<times> 'h" where
  "EnableDevQos sh WithNetNSPath interfaceName namespace section h =
     doCmd sh WithNetNSPath (enable_cmds section) interfaceName namespace h"

definition disable_cmds :: "tcCommand list" where
  "disable_cmds = [\<lparr>cmdStr = ''tc filter del dev %s egress pref 2'', verifyRet = False\<rparr>]"

definition DisableDevQos ::
  "('h, 'e) shell \<Rightarrow> ('h, 'e) with_netns \<Rightarrow> string \<Rightarrow> string \<Rightarrow> 'h \<Rightarrow> 'e dev_error option \<times> 'h" where
  "DisableDevQos sh WithNetNSPath interfaceName namespace h =
     (case IsDevQosEnabled sh WithNetNSPath interfaceName namespace h of
        (Inl e, h) \<Rightarrow> (Some e, h)
      | (Inr mounted, h) \<Rightarrow>
          if \<not> mounted then (None, h) else doCmd sh WithNetNSPath disable_cmds interfaceName namespace h)"

section \<open>Templates and files\<close>

text \<open>\<open>strings.ReplaceAll\<close> for a pattern that is not empty: from the left, without overlap.\<close>

function ReplaceAll :: "string \<Rightarrow> string \<Rightarrow> string \<Rightarrow> string" where
  "ReplaceAll s old new =
     (if s = [] \<or> old = [] then s
      else if take (length old) s = old then new @ ReplaceAll (drop (length old) s) old new
      else hd s # ReplaceAll (tl s) old new)"
  by pat_completeness auto
termination by (relation "measure (\<lambda>(s, old, new). length s)") auto

declare ReplaceAll.simps [simp del]

text \<open>The variables in the order in which the map is walked.\<close>

definition substitute :: "(string \<times> string) list \<Rightarrow> string \<Rightarrow> string" where
  "substitute variables cmd = fold (\<lambda>(key, value) cmd. ReplaceAll cmd (''{'' @ key @ ''}'') value) variables cmd"

text \<open>The list of flags is indexed with the number of the command.\<close>

fun executeCommands ::
  "('h, 'e) shell \<Rightarrow> string list \<Rightarrow> (string \<times> string) list \<Rightarrow> bool list \<Rightarrow> 'h \<Rightarrow> ('e option \<times> 'h) outcome" where
  "executeCommands sh [] variables checkRet h = Done (None, h)"
| "executeCommands sh (cmd # commands) variables checkRet h =
     (let (err, stdout, h) = sh (substitute variables cmd) h
      in case checkRet of
           [] \<Rightarrow> Panic IndexOutOfRange
         | check # checkRet \<Rightarrow>
             if check \<and> err \<noteq> None then Done (err, h) else executeCommands sh commands variables checkRet h)"

text \<open>The result of \<open>os.Stat\<close>: the file mode, or an error that is or is not about a missing file.\<close>

datatype 'e stat_error = NotExist | StatErr 'e

definition isPathValid :: "('e stat_error + u32) \<Rightarrow> 'e option \<times> bool" where
  "isPathValid stat = (case stat of Inr _ \<Rightarrow> (None, True) | Inl NotExist \<Rightarrow> (None, False) | Inl (StatErr e) \<Rightarrow> (Some e, False))"

text \<open>\<open>os.ModeType\<close> has the type bits of a file mode, \<open>os.ModePerm\<close> the nine permission bits.\<close>

definition ModeType :: u32 where "ModeType = 0x8F280000"
definition ModePerm :: u32 where "ModePerm = 0x1FF"

datatype 'e path_error = RealPathErr "'e stat_error option"

definition checkPathValid :: "('e stat_error + u32) \<Rightarrow> 'e path_error option" where
  "checkPathValid stat =
     (case stat of
        Inl e \<Rightarrow> Some (RealPathErr (Some e))
      | Inr mode \<Rightarrow> if mode AND ModeType \<noteq> ModePerm then Some (RealPathErr None) else None)"

text \<open>
  \<open>LookPath\<close> finds the program; \<open>run\<close> gives what the program writes to its error output and the
  host afterwards. The result of \<open>Run\<close> is dropped.
\<close>

datatype 'e exec_error = LookPathErr 'e | NilStdout | CommandErr string | OpenErr 'e

definition executeCore ::
  "(string \<Rightarrow> 'e + string) \<Rightarrow> (string \<Rightarrow> string list \<Rightarrow> 'h \<Rightarrow> string \<times> 'h) \<Rightarrow> string \<Rightarrow> string list \<Rightarrow> 'h \<Rightarrow>
   'e exec_error option \<times> string \<times> 'h" where
  "executeCore LookPath run cmd args h =
     (case LookPath cmd of
        Inl e \<Rightarrow> (Some (LookPathErr e), [], h)
      | Inr cmdPath \<Rightarrow> (let (stderr, h) = run cmdPath (cmd # args) h in (None, stderr, h)))"

text \<open>Only what the program wrote to its error output is looked at; the error of \<open>executeCore\<close> is dropped.\<close>

definition ExecuteWithRedirect ::
  "(string \<Rightarrow> 'e + string) \<Rightarrow> (string \<Rightarrow> string list \<Rightarrow> 'h \<Rightarrow> string \<times> 'h) \<Rightarrow> string \<Rightarrow> string list \<Rightarrow> bool \<Rightarrow> 'h \<Rightarrow>
   'e exec_error option \<times> 'h" where
  "ExecuteWithRedirect LookPath run cmd args has_stdout h =
     (if \<not> has_stdout then (Some NilStdout, h)
      else (let (err, stderr, h) = executeCore LookPath run cmd args h
            in if length stderr \<noteq> 0 then (Some (CommandErr stderr), h) else (None, h)))"

definition SetEgressClassid ::
  "(string \<Rightarrow> 'e option) \<Rightarrow> (string \<Rightarrow> 'e + string) \<Rightarrow> (string \<Rightarrow> string \<Rightarrow> string list \<Rightarrow> 'h \<Rightarrow> string \<times> 'h) \<Rightarrow>
   string \<Rightarrow> u32 \<Rightarrow> 'h \<Rightarrow> 'e exec_error option \<times> 'h" where
  "SetEgressClassid openFile LookPath run_to classidPath classid h =
     (case openFile classidPath of
        Some e \<Rightarrow> (Some (OpenErr e), h)
      | None \<Rightarrow> ExecuteWithRedirect LookPath (run_to classidPath) ''echo'' [FormatUint (unat classid)] True h)"

section \<open>The \<open>tc\<close> tool\<close>

text \<open>A device or section name as it appears in a command line.\<close>

definition cmd_word :: "string \<Rightarrow> bool" where
  "cmd_word w \<longleftrightarrow> w \<noteq> [] \<and> CHR '' '' \<notin> set w"

text \<open>
  What \<open>tc(8)\<close> promises for the commands above. \<open>prog h d\<close> is the section of the program that
  is attached to the egress side of device \<open>d\<close> with preference 2.
\<close>

locale tc_tool =
  fixes sh :: "('h, 'e) shell" and prog :: "'h \<Rightarrow> string \<rightharpoonup> string"
  assumes root_fq: "cmd_word d \<Longrightarrow> sh (''tc qdisc replace dev '' @ d @ '' root fq'') h = (None, out, h') \<Longrightarrow> prog h' = prog h"
    and clsact: "cmd_word d \<Longrightarrow> sh (''tc qdisc replace dev '' @ d @ '' clsact'') h = (None, out, h') \<Longrightarrow> prog h' = prog h"
    and attach: "cmd_word d \<Longrightarrow> cmd_word section \<Longrightarrow>
      sh (''tc filter replace dev '' @ d @ '' egress pref 2 handle 1 bpf da obj '' @ EdtBpfProgPath @ '' sec '' @ section) h
        = (None, out, h') \<Longrightarrow> prog h' = (prog h)(d \<mapsto> section)"
    and shown: "cmd_word d \<Longrightarrow> prog h d = Some section \<Longrightarrow> \<exists>h'. sh (show_cmd d) h = (None, [], h') \<and> prog h' = prog h"
    and not_shown: "cmd_word d \<Longrightarrow> prog h d = None \<Longrightarrow> \<exists>e out h'. sh (show_cmd d) h = (Some e, out, h') \<and> prog h' = prog h"
    and detach: "cmd_word d \<Longrightarrow> prog h d = Some section \<Longrightarrow>
      \<exists>out h'. sh (''tc filter del dev '' @ d @ '' egress pref 2'') h = (None, out, h') \<and> prog h' = (prog h)(d := None)"
begin

lemma enable_attaches:
  assumes "cmd_word d" and "cmd_word section" and "EnableDevQos sh N d [] section h = (None, h')"
  shows "prog h' = (prog h)(d \<mapsto> section)"
proof -
  obtain o1 h1 o2 h2 o3 where
    c1: "sh (''tc qdisc replace dev '' @ d @ '' root fq'') h = (None, o1, h1)"
    and c2: "sh (''tc qdisc replace dev '' @ d @ '' clsact'') h1 = (None, o2, h2)"
    and c3: "sh (''tc filter replace dev '' @ d @ '' egress pref 2 handle 1 bpf da obj '' @ EdtBpfProgPath @ '' sec '' @ section) h2 = (None, o3, h')"
    using assms(3) by (auto simp: EnableDevQos_def doCmd_def enable_cmds_def Let_def split_beta split: if_splits)
      (metis prod.collapse)
  show ?thesis using root_fq [OF assms(1) c1] clsact [OF assms(1) c2] attach [OF assms(1,2) c3] by simp
qed

lemma enabled_iff:
  assumes "cmd_word d"
  shows "fst (IsDevQosEnabled sh N d [] h) = (if prog h d = None then Inl NotLoaded else Inr True)
    \<and> prog (snd (IsDevQosEnabled sh N d [] h)) = prog h"
proof (cases "prog h d")
  case None
  then show ?thesis using not_shown [OF assms None] by (auto simp: IsDevQosEnabled_def checkQosEnabled_def)
next
  case (Some p)
  then show ?thesis using shown [OF assms Some] by (auto simp: IsDevQosEnabled_def checkQosEnabled_def)
qed

lemma disable_detaches:
  assumes "cmd_word d" and "prog h d = Some section"
  shows "\<exists>h'. DisableDevQos sh N d [] h = (None, h') \<and> prog h' = (prog h)(d := None)"
proof -
  obtain h1 where i: "IsDevQosEnabled sh N d [] h = (Inr True, h1)" and p: "prog h1 = prog h"
    using enabled_iff [OF assms(1), of N h] assms(2) by (cases "IsDevQosEnabled sh N d [] h") auto
  have "prog h1 d = Some section" using p assms(2) by simp
  from detach [OF assms(1) this] show ?thesis
    by (auto simp: DisableDevQos_def i doCmd_def disable_cmds_def p)
qed

lemma disable_absent:
  assumes "cmd_word d" and "prog h d = None"
  shows "\<exists>h'. DisableDevQos sh N d [] h = (Some NotLoaded, h') \<and> prog h' = prog h"
  using enabled_iff [OF assms(1), of N h] assms(2)
  by (cases "IsDevQosEnabled sh N d [] h") (auto simp: DisableDevQos_def)

end

text \<open>
  A host as a function from its devices to the program of each: a \<open>tc\<close> that knows these commands
  and reports an unknown device on its error output.
\<close>

type_synonym host = "string \<rightharpoonup> string option"

definition host_prog :: "host \<Rightarrow> string \<rightharpoonup> string" where
  "host_prog h d = (case h d of None \<Rightarrow> None | Some p \<Rightarrow> p)"

lemma host_prog_upd: "host_prog (h(d \<mapsto> p)) = (host_prog h)(d := p)"
  by (auto simp: host_prog_def fun_eq_iff)

definition host_shell :: "(host, unit) shell" where
  "host_shell cmd h =
     (let ws = Split cmd (CHR '' '') in
      if length ws < 5 then (Some (), ''What is this?'', h)
      else let d = ws ! 4 in
      case h d of
        None \<Rightarrow> (Some (), ''Cannot find device'', h)
      | Some p \<Rightarrow>
          if ws ! 1 = ''qdisc'' then (None, [], h)
          else if ws ! 2 = ''replace'' then (None, [], h(d \<mapsto> Some (last ws)))
          else if ws ! 2 = ''del'' then (if p = None then (Some (), ''Filter not found'', h) else (None, [], h(d \<mapsto> None)))
          else if p = None then (Some (), [], h) else (None, [], h))"

lemma Split_word [simp]: "cmd_word w \<Longrightarrow> Split (w @ CHR '' '' # q) (CHR '' '') = w # Split q (CHR '' '')"
  by (simp add: cmd_word_def Split_append)

lemma Split_word_end [simp]: "cmd_word w \<Longrightarrow> Split w (CHR '' '') = [w]"
  by (simp add: cmd_word_def Split_no_sep)

text \<open>The words of the five commands.\<close>

lemma Split_cmds:
  assumes "cmd_word d"
  shows "Split (''tc qdisc replace dev '' @ d @ '' root fq'') (CHR '' '') = [''tc'', ''qdisc'', ''replace'', ''dev'', d, ''root'', ''fq'']"
    and "Split (''tc qdisc replace dev '' @ d @ '' clsact'') (CHR '' '') = [''tc'', ''qdisc'', ''replace'', ''dev'', d, ''clsact'']"
    and "Split (''tc filter del dev '' @ d @ '' egress pref 2'') (CHR '' '') = [''tc'', ''filter'', ''del'', ''dev'', d, ''egress'', ''pref'', ''2'']"
    and "\<exists>ws. Split (show_cmd d) (CHR '' '') = [''tc'', ''filter'', ''show'', ''dev'', d] @ ws"
    and "cmd_word s \<Longrightarrow> Split (''tc filter replace dev '' @ d @ '' egress pref 2 handle 1 bpf da obj '' @ EdtBpfProgPath @ '' sec '' @ s) (CHR '' '')
      = [''tc'', ''filter'', ''replace'', ''dev'', d, ''egress'', ''pref'', ''2'', ''handle'', ''1'', ''bpf'', ''da'', ''obj'', EdtBpfProgPath, ''sec'', s]"
proof -
  have e: "cmd_word EdtBpfProgPath" by (simp add: cmd_word_def EdtBpfProgPath_def)
  show "Split (''tc filter replace dev '' @ d @ '' egress pref 2 handle 1 bpf da obj '' @ EdtBpfProgPath @ '' sec '' @ s) (CHR '' '')
      = [''tc'', ''filter'', ''replace'', ''dev'', d, ''egress'', ''pref'', ''2'', ''handle'', ''1'', ''bpf'', ''da'', ''obj'', EdtBpfProgPath, ''sec'', s]"
    if "cmd_word s" using assms e that by simp
qed (use assms in \<open>simp_all add: show_cmd_def\<close>)

interpretation host_tc: tc_tool host_shell host_prog
proof (unfold_locales, goal_cases)
  case (1 d h out h')
  then show ?case by (auto simp only: host_shell_def Split_cmds(1) Let_def) (auto split: option.splits)
next
  case (2 d h out h')
  then show ?case by (auto simp only: host_shell_def Split_cmds(2) Let_def) (auto split: option.splits)
next
  case (3 d s h out h')
  then show ?case
    by (auto simp only: host_shell_def Split_cmds(5) Let_def) (auto simp: host_prog_upd split: option.splits)
next
  case (4 d h s)
  obtain ws where "Split (show_cmd d) (CHR '' '') = [''tc'', ''filter'', ''show'', ''dev'', d] @ ws" using Split_cmds(4) [OF 4(1)] ..
  with 4(2) show ?case by (auto simp only: host_shell_def Let_def) (auto simp: host_prog_def split: option.splits)
next
  case (5 d h)
  obtain ws where "Split (show_cmd d) (CHR '' '') = [''tc'', ''filter'', ''show'', ''dev'', d] @ ws" using Split_cmds(4) [OF 5(1)] ..
  with 5(2) show ?case by (auto simp only: host_shell_def Let_def) (auto simp: host_prog_def split: option.splits)
next
  case (6 d h s)
  then show ?case
    by (auto simp only: host_shell_def Split_cmds(3) Let_def) (auto simp: host_prog_upd host_prog_def split: option.splits)
qed

section \<open>Properties\<close>

text \<open>Attaching and detaching are inverse: when \<open>EnableDevQos\<close> reports success, the device carries
  the program of the given section and the programs of other devices are as before; \<open>DisableDevQos\<close>
  then succeeds and leaves the device without a program, and a second \<open>DisableDevQos\<close> is an error.\<close>

theorem enable_disable_dev:
  assumes "tc_tool sh prog" and "cmd_word d" and "cmd_word section"
    and "EnableDevQos sh N d [] section h = (None, h1)"
  shows "prog h1 = (prog h)(d \<mapsto> section)
    \<and> (\<exists>h2 h3. DisableDevQos sh N d [] h1 = (None, h2) \<and> prog h2 = (prog h)(d := None)
        \<and> DisableDevQos sh N d [] h2 = (Some NotLoaded, h3))"
proof -
  have p: "prog h1 = (prog h)(d \<mapsto> section)" by (rule tc_tool.enable_attaches [OF assms])
  then have "prog h1 d = Some section" by simp
  from tc_tool.disable_detaches [OF assms(1,2) this, of N] obtain h2
    where h2: "DisableDevQos sh N d [] h1 = (None, h2)" "prog h2 = (prog h)(d := None)" unfolding p fun_upd_upd by blast
  then have "prog h2 d = None" by simp
  from tc_tool.disable_absent [OF assms(1,2) this, of N] show ?thesis using p h2 by blast
qed

definition example_host :: host where
  "example_host = [''eth0'' \<mapsto> None]"

theorem enable_disable_dev_witness:
  "\<exists>h1 h2. EnableDevQos host_shell (\<lambda>p f h. (Some (NetnsErr ()), h)) ''eth0'' [] EgressBpfSection example_host = (None, h1)
     \<and> host_prog h1 ''eth0'' = Some ''tc_egress''
     \<and> DisableDevQos host_shell (\<lambda>p f h. (Some (NetnsErr ()), h)) ''eth0'' [] h1 = (None, h2) \<and> host_prog h2 ''eth0'' = None"
proof -
  let ?N = "\<lambda>(p::string) f h. (Some (NetnsErr ()), h) :: unit dev_error option \<times> host"
  have w: "cmd_word ''eth0''" "cmd_word EgressBpfSection" by (simp_all add: cmd_word_def EgressBpfSection_def)
  have "\<exists>h1. EnableDevQos host_shell ?N ''eth0'' [] EgressBpfSection example_host = (None, h1)"
    by (simp add: EnableDevQos_def doCmd_def enable_cmds_def host_shell_def example_host_def EdtBpfProgPath_def EgressBpfSection_def Let_def)
  then obtain h1 where h1: "EnableDevQos host_shell ?N ''eth0'' [] EgressBpfSection example_host = (None, h1)" by blast
  from enable_disable_dev [OF host_tc.tc_tool_axioms w h1] obtain h2 where
    "host_prog h1 ''eth0'' = Some EgressBpfSection" "DisableDevQos host_shell ?N ''eth0'' [] h1 = (None, h2)" "host_prog h2 ''eth0'' = None"
    by auto
  with h1 show ?thesis by (auto simp: EgressBpfSection_def)
qed

text \<open>\<open>checkPathValid\<close> rejects every path: the type bits of a file mode are never equal to the
  permission mask it compares them with.\<close>

lemma checkPathValid_always_fails: "checkPathValid stat \<noteq> None"
proof -
  have "\<not> bit (mode AND ModeType) 0" "bit ModePerm 0" for mode
    by (simp_all add: ModeType_def ModePerm_def bit_simps)
  then have "mode AND ModeType \<noteq> ModePerm" for mode by metis
  then show ?thesis by (simp add: checkPathValid_def split: sum.splits)
qed

end
