(* ===== verification/Go_Net.thy ===== *)
theory Go_Net
  imports Nets
begin

text \<open>
  What the netlink library uses of Go's package \<open>net\<close> beyond parsing: comparing addresses, networks
  with masks, and the sixteen-byte form of an address. A nil \<open>net.IP\<close> or \<open>net.IPMask\<close> is \<open>None\<close>; its
  length is 0. \<open>GetIPFamily\<close> is from \<open>nl/nl_linux.go\<close>.
\<close>

type_synonym net_ip = "bytes option"

definition ip_bytes :: "net_ip \<Rightarrow> bytes" where
  "ip_bytes ip = (case ip of None \<Rightarrow> [] | Some b \<Rightarrow> b)"

definition IP_Equal :: "net_ip \<Rightarrow> net_ip \<Rightarrow> bool" where
  "IP_Equal ip x =
     (let a = ip_bytes ip; b = ip_bytes x in
      if length a = length b then a = b
      else if length a = 4 \<and> length b = 16 then take 12 b = v4InV6Prefix \<and> a = drop 12 b
      else if length a = 16 \<and> length b = 4 then take 12 a = v4InV6Prefix \<and> drop 12 a = b
      else False)"

definition To16 :: "bytes \<Rightarrow> net_ip" where
  "To16 ip = (if length ip = 4 then Some (v4InV6Prefix @ ip) else if length ip = 16 then Some ip else None)"

lemma IP_Equal_refl [simp]: "IP_Equal ip ip"
  by (simp add: IP_Equal_def)

lemma IP_Equal_To16: "length a = 4 \<Longrightarrow> IP_Equal (Some a) (To16 a)"
  by (simp add: IP_Equal_def To16_def ip_bytes_def v4InV6Prefix_def)

section \<open>Networks\<close>

record IPNet =
  ipn_IP :: net_ip
  ipn_Mask :: net_ip

fun cidr_bytes :: "nat \<Rightarrow> nat \<Rightarrow> bytes" where
  "cidr_bytes 0 n = []"
| "cidr_bytes (Suc l) n = (if 8 \<le> n then 255 # cidr_bytes l (n - 8) else NOT (drop_bit n 255) # cidr_bytes l 0)"

definition CIDRMask :: "int \<Rightarrow> int \<Rightarrow> net_ip" where
  "CIDRMask ones bits =
     (if bits \<noteq> 32 \<and> bits \<noteq> 128 then None
      else if ones < 0 \<or> ones > bits then None
      else Some (cidr_bytes (nat bits div 8) (nat ones)))"

text \<open>The leading ones of a byte, and \<open>None\<close> when a one follows a zero.\<close>

definition leading_ones :: "u8 \<Rightarrow> nat option" where
  "leading_ones v = List.find (\<lambda>n. v = NOT (drop_bit n 255)) [0..<9]"

fun simpleMaskLength :: "bytes \<Rightarrow> int" where
  "simpleMaskLength [] = 0"
| "simpleMaskLength (v # vs) =
     (if v = 255 then (let n = simpleMaskLength vs in if n = -1 then -1 else 8 + n)
      else case leading_ones v of
             None \<Rightarrow> -1
           | Some n \<Rightarrow> if \<forall>x \<in> set vs. x = 0 then int n else -1)"

definition mask_Size :: "net_ip \<Rightarrow> int \<times> int" where
  "mask_Size m =
     (let ones = simpleMaskLength (ip_bytes m)
      in if ones = -1 then (0, 0) else (ones, 8 * int (length (ip_bytes m))))"

lemma length_cidr_bytes [simp]: "length (cidr_bytes l n) = l"
  by (induction l n rule: cidr_bytes.induct) auto

lemma cidr_bytes_0: "cidr_bytes l 0 = replicate l 0"
  by (induction l) simp_all

lemma leading_ones_mask: "n < 8 \<Longrightarrow> leading_ones (NOT (drop_bit n 255)) = Some n" "n < 8 \<Longrightarrow> NOT (drop_bit n 255) \<noteq> (255::u8)"
proof -
  assume "n < 8"
  then consider "n = 0" | "n = 1" | "n = 2" | "n = 3" | "n = 4" | "n = 5" | "n = 6" | "n = 7" by linarith
  then show "leading_ones (NOT (drop_bit n 255)) = Some n" "NOT (drop_bit n 255) \<noteq> (255::u8)"
    by (cases; simp add: leading_ones_def upt_rec)+
qed

lemma simpleMaskLength_cidr: "n \<le> 8 * l \<Longrightarrow> simpleMaskLength (cidr_bytes l n) = int n"
proof (induction l n rule: cidr_bytes.induct)
  case (2 l n)
  then show ?case by (cases "8 \<le> n") (auto simp: Let_def leading_ones_mask cidr_bytes_0)
qed simp

text \<open>A mask made of a prefix length gives the prefix length back.\<close>

lemma mask_Size_CIDRMask:
  assumes "bits = 32 \<or> bits = 128" and "0 \<le> ones" and "ones \<le> bits"
  shows "mask_Size (CIDRMask ones bits) = (ones, bits)"
proof -
  have "nat ones \<le> 8 * (nat bits div 8)" using assms by auto
  from simpleMaskLength_cidr [OF this] show ?thesis
    using assms by (auto simp: mask_Size_def CIDRMask_def ip_bytes_def Let_def)
qed

text \<open>\<open>ipNetEqual\<close> of \<open>route.go\<close>; two pointers to one network have equal values, which it also accepts.\<close>

definition ipNetEqual :: "IPNet option \<Rightarrow> IPNet option \<Rightarrow> bool" where
  "ipNetEqual ipn1 ipn2 =
     (case (ipn1, ipn2) of
        (None, None) \<Rightarrow> True
      | (Some n1, Some n2) \<Rightarrow> fst (mask_Size (ipn_Mask n1)) = fst (mask_Size (ipn_Mask n2)) \<and> IP_Equal (ipn_IP n1) (ipn_IP n2)
      | _ \<Rightarrow> False)"

lemma ipNetEqual_refl [simp]: "ipNetEqual n n"
  by (cases n) (simp_all add: ipNetEqual_def)

section \<open>Families\<close>

definition FAMILY_ALL :: int where "FAMILY_ALL = 0"
definition FAMILY_V4 :: int where "FAMILY_V4 = 2"
definition FAMILY_V6 :: int where "FAMILY_V6 = 10"
definition FAMILY_MPLS :: int where "FAMILY_MPLS = 28"

lemmas families = FAMILY_ALL_def FAMILY_V4_def FAMILY_V6_def FAMILY_MPLS_def

definition GetIPFamily :: "net_ip \<Rightarrow> int" where
  "GetIPFamily ip =
     (if length (ip_bytes ip) \<le> 4 then FAMILY_V4 else if To4 (ip_bytes ip) \<noteq> None then FAMILY_V4 else FAMILY_V6)"

text \<open>The bytes of an address for an attribute, in the form of its family.\<close>

definition family_bytes :: "net_ip \<Rightarrow> bytes" where
  "family_bytes ip = ip_bytes (if GetIPFamily ip = FAMILY_V4 then To4 (ip_bytes ip) else To16 (ip_bytes ip))"

lemma family_bytes_Equal:
  assumes "length b = 4 \<or> length b = 16"
  shows "IP_Equal (Some (family_bytes (Some b))) (Some b)"
  using assms by (auto simp: family_bytes_def GetIPFamily_def ip_bytes_def To4_def To16_def IP_Equal_def families)

end
