(* ===== verification/NlAttr.thy ===== *)
theory NlAttr
  imports Go_Prelude
begin

text \<open>
  Netlink attributes, the first part of \<open>pkg/github.com/vishvananda/netlink/nl/nl_linux.go\<close>: the
  alignment rules, the attribute tree \<open>RtAttr\<close> with its length and its serialization into a
  buffer, the parser \<open>ParseRouteAttr\<close>, and the conversions of integers and strings to attribute
  values. \<open>NativeEndian\<close> is little endian, as on every host for which the eBPF objects
  of the program are built. A slice expression whose bounds do not fit is a panic.
\<close>

section \<open>Alignment\<close>

definition nlmAlignOf :: "nat \<Rightarrow> nat" where
  "nlmAlignOf msglen = nat ((int msglen + 4 - 1) AND NOT (4 - 1))"

definition rtaAlignOf :: "nat \<Rightarrow> nat" where
  "rtaAlignOf attrlen = nat ((int attrlen + 4 - 1) AND NOT (4 - 1))"

lemma and_not_3: "(i::int) AND NOT 3 = i div 4 * 4"
proof -
  have 3: "(3::int) = mask 2" by (simp add: mask_eq_exp_minus_1)
  have "i AND NOT 3 = push_bit 2 (drop_bit 2 i)"
    unfolding 3 by (rule bit_eqI) (auto simp: bit_simps le_add_diff_inverse simp del: add_2_eq_Suc add_2_eq_Suc')
  then show ?thesis by (simp add: push_bit_eq_mult drop_bit_eq_div)
qed

lemma rtaAlignOf_eq: "rtaAlignOf n = (n + 3) div 4 * 4"
proof -
  have "(int n + 4 - 1) AND NOT (4 - 1) = int ((n + 3) div 4 * 4)"
    using and_not_3 [of "int n + 3"] by (simp add: zdiv_int algebra_simps)
  then show ?thesis by (simp only: rtaAlignOf_def nat_int)
qed

lemma nlmAlignOf_eq: "nlmAlignOf n = rtaAlignOf n"
  by (simp only: nlmAlignOf_def rtaAlignOf_def)

lemma rtaAlignOf_dvd [simp]: "4 dvd rtaAlignOf n"
  by (simp add: rtaAlignOf_eq)

lemma rtaAlignOf_id [simp]: "4 dvd n \<Longrightarrow> rtaAlignOf n = n"
  by (auto simp: rtaAlignOf_eq)

lemma rtaAlignOf_ge [simp]: "n \<le> rtaAlignOf n"
  by (simp add: rtaAlignOf_eq)

lemma rtaAlignOf_lt: "rtaAlignOf n < n + 4"
  by (simp add: rtaAlignOf_eq)

lemma rtaAlignOf_add: "4 dvd m \<Longrightarrow> rtaAlignOf (m + n) = m + rtaAlignOf n"
  unfolding rtaAlignOf_eq by (elim dvdE) (simp add: add.assoc)

lemma rtaAlignOf_4_add [simp]: "rtaAlignOf (4 + n) = 4 + rtaAlignOf n"
  by (simp add: rtaAlignOf_add)

text \<open>A value followed by the zero bytes that align it.\<close>

definition pad4 :: "bytes \<Rightarrow> bytes" where
  "pad4 d = d @ replicate (rtaAlignOf (length d) - length d) 0"

lemma length_pad4 [simp]: "length (pad4 d) = rtaAlignOf (length d)"
  by (simp add: pad4_def)

lemma pad4_Nil [simp]: "pad4 [] = []"
  by (simp add: pad4_def rtaAlignOf_eq)

lemma pad4_id: "4 dvd length d \<Longrightarrow> pad4 d = d"
  by (simp add: pad4_def)

section \<open>Buffers\<close>

text \<open>
  \<open>copy(buf[next:], src)\<close>: the slice expression panics beyond the end of \<open>buf\<close>, and \<open>copy\<close>
  stops at the end of the shorter slice.
\<close>

definition copy_at :: "nat \<Rightarrow> bytes \<Rightarrow> bytes \<Rightarrow> bytes outcome" where
  "copy_at next src buf =
     (if length buf < next then Panic SliceBounds
      else Done (take next buf @ take (length buf - next) src @ drop (next + length src) buf))"

lemma copy_at_zeros:
  assumes "length src \<le> k"
  shows "copy_at (length pre) src (pre @ replicate k 0) = Done (pre @ src @ replicate (k - length src) 0)"
  using assms by (simp add: copy_at_def)

section \<open>Attributes\<close>

text \<open>
  What a request or an attribute can hold, the interface \<open>NetlinkRequestData\<close>: an attribute with
  data and children, a 32-bit attribute, or a fixed-size message such as \<open>IfInfomsg\<close> or \<open>TcMsg\<close>,
  given by its bytes. A nil \<open>Data\<close> behaves as an empty one.
\<close>

datatype request_data =
    RtAttr u16 bytes "request_data list"
  | Uint32Attribute u16 u32
  | StructData bytes

definition NLA_F_NET_BYTEORDER :: u16 where "NLA_F_NET_BYTEORDER = 0x4000"

definition NewRtAttr :: "int \<Rightarrow> bytes \<Rightarrow> request_data" where
  "NewRtAttr attrType data = RtAttr (word_of_int attrType) data []"

fun AddChild :: "request_data \<Rightarrow> request_data \<Rightarrow> request_data" where
  "AddChild (RtAttr t d cs) attr = RtAttr t d (cs @ [attr])"
| "AddChild a attr = a"

text \<open>The parent after the call, and the new attribute that is returned.\<close>

definition AddRtAttr :: "request_data \<Rightarrow> int \<Rightarrow> bytes \<Rightarrow> request_data \<times> request_data" where
  "AddRtAttr a attrType data = (let attr = NewRtAttr attrType data in (AddChild a attr, attr))"

definition NewRtAttrChild :: "request_data \<Rightarrow> int \<Rightarrow> bytes \<Rightarrow> request_data \<times> request_data" where
  "NewRtAttrChild parent attrType data = AddRtAttr parent attrType data"

definition Uint32Attribute_Len :: nat where "Uint32Attribute_Len = 8"

fun attr_Len :: "request_data \<Rightarrow> nat" where
  "attr_Len (RtAttr t d cs) =
     (if cs = [] then 4 + length d
      else rtaAlignOf (sum_list (map (\<lambda>c. rtaAlignOf (attr_Len c)) cs) + 4 + length d))"
| "attr_Len (Uint32Attribute t v) = Uint32Attribute_Len"
| "attr_Len (StructData b) = length b"

definition Uint32Attribute_Serialize :: "u16 \<Rightarrow> u32 \<Rightarrow> bytes" where
  "Uint32Attribute_Serialize t v =
     le16 8 @ le16 t @ (if t AND NLA_F_NET_BYTEORDER \<noteq> 0 then be32 v else le32 v)"

text \<open>
  \<open>RtAttr.Serialize\<close> fills a zeroed buffer at the offset \<open>next\<close>, the data first and the children
  after it, and writes the length and the type last. \<open>PutUint16(buf[0:2], l)\<close> is left out for a
  length that is 0 modulo 65536, where the buffer already holds zeros.
\<close>

fun attr_Serialize :: "request_data \<Rightarrow> bytes outcome"
and serialize_children :: "nat \<Rightarrow> request_data list \<Rightarrow> bytes \<Rightarrow> bytes outcome" where
  "attr_Serialize (RtAttr t d cs) =
     (let len = attr_Len (RtAttr t d cs);
          buf = replicate (rtaAlignOf len) 0
      in obind (copy_at 4 d buf)
           (\<lambda>buf. obind (serialize_children (4 + rtaAlignOf (length d)) cs buf)
             (\<lambda>buf. let l = (of_nat len :: u16)
               in obind (if l \<noteq> 0 then copy_at 0 (le16 l) buf else Done buf)
                    (\<lambda>buf. copy_at 2 (le16 t) buf))))"
| "attr_Serialize (Uint32Attribute t v) = Done (Uint32Attribute_Serialize t v)"
| "attr_Serialize (StructData b) = Done b"
| "serialize_children next [] buf = Done buf"
| "serialize_children next (c # cs) buf =
     obind (attr_Serialize c)
       (\<lambda>childBuf. obind (copy_at next childBuf buf)
         (\<lambda>buf. serialize_children (next + rtaAlignOf (length childBuf)) cs buf))"

text \<open>The wire form: header, padded data, and the children one after the other, each padded.\<close>

fun attr_wire :: "request_data \<Rightarrow> bytes" where
  "attr_wire (RtAttr t d cs) =
     le16 (of_nat (attr_Len (RtAttr t d cs))) @ le16 t @ pad4 d @ concat (map (\<lambda>c. pad4 (attr_wire c)) cs)"
| "attr_wire (Uint32Attribute t v) = Uint32Attribute_Serialize t v"
| "attr_wire (StructData b) = b"

lemma sum_align_dvd: "4 dvd sum_list (map (\<lambda>c. rtaAlignOf (f c)) cs)"
  by (induction cs) auto

lemma attr_Len_children:
  "cs \<noteq> [] \<Longrightarrow> attr_Len (RtAttr t d cs) =
     4 + rtaAlignOf (length d) + sum_list (map (\<lambda>c. rtaAlignOf (attr_Len c)) cs)"
  using rtaAlignOf_add [OF sum_align_dvd, of attr_Len cs "4 + length d"] by (simp add: add.assoc)

text \<open>The attributes within an attribute are shorter than it.\<close>

lemma attr_Len_child:
  assumes "c \<in> set cs"
  shows "attr_Len c \<le> attr_Len (RtAttr t d cs)"
proof -
  have "rtaAlignOf (attr_Len c) \<le> sum_list (map (\<lambda>c. rtaAlignOf (attr_Len c)) cs)"
    using assms by (intro member_le_sum_list) auto
  moreover have "cs \<noteq> []" using assms by auto
  ultimately show ?thesis unfolding attr_Len_children [OF \<open>cs \<noteq> []\<close>] using rtaAlignOf_ge [of "attr_Len c"] by linarith
qed

lemma align_attr_Len:
  "rtaAlignOf (attr_Len (RtAttr t d cs)) =
     4 + rtaAlignOf (length d) + sum_list (map (\<lambda>c. rtaAlignOf (attr_Len c)) cs)"
  using sum_align_dvd [of attr_Len cs] attr_Len_children [of cs t d]
  by (cases "cs = []") (simp_all del: attr_Len.simps(1) add: attr_Len.simps(1)[of t d "[]"])

lemma length_attr_wire_RtAttr:
  "length (attr_wire (RtAttr t d cs)) = 4 + rtaAlignOf (length d) + sum_list (map (\<lambda>c. rtaAlignOf (length (attr_wire c))) cs)"
  by (simp add: length_concat comp_def)

lemma aligned_attr_wire: "4 dvd length (attr_wire (RtAttr t d cs))"
  unfolding length_attr_wire_RtAttr by (intro dvd_add sum_align_dvd) simp_all

lemma length_attr_wire: "rtaAlignOf (length (attr_wire a)) = rtaAlignOf (attr_Len a)"
proof (induction a)
  case (RtAttr t d cs)
  then have "sum_list (map (\<lambda>c. rtaAlignOf (length (attr_wire c))) cs) = sum_list (map (\<lambda>c. rtaAlignOf (attr_Len c)) cs)"
    by (intro arg_cong [of _ _ sum_list] map_cong) simp_all
  then show ?case
    using align_attr_Len [of t d cs] length_attr_wire_RtAttr [of t d cs] aligned_attr_wire [of t d cs]
    by (metis rtaAlignOf_id)
qed (simp_all add: Uint32Attribute_Serialize_def Uint32Attribute_Len_def)

lemma length_wire_RtAttr: "length (attr_wire (RtAttr t d cs)) = rtaAlignOf (attr_Len (RtAttr t d cs))"
  using length_attr_wire [of "RtAttr t d cs"] aligned_attr_wire [of t d cs] by simp

text \<open>Copying at the end of the written part of a zeroed buffer, then moving to the next boundary.\<close>

lemma copy_at_pad4:
  assumes "rtaAlignOf (length src) \<le> k"
  shows "copy_at (length pre) src (pre @ replicate k 0) = Done ((pre @ pad4 src) @ replicate (k - rtaAlignOf (length src)) 0)"
proof -
  have "length src \<le> k" using assms rtaAlignOf_ge order_trans by blast
  then show ?thesis
    using assms by (simp add: copy_at_zeros pad4_def replicate_add [symmetric] del: replicate_add)
qed

lemma copy_at_front: "length src \<le> length old \<Longrightarrow> copy_at 0 src (old @ rest) = Done (src @ drop (length src) old @ rest)"
  by (simp add: copy_at_def)

lemma copy_at_header: "copy_at 2 (le16 t) (le16 l @ z0 # z1 # rest) = Done (le16 l @ le16 t @ rest)"
  by (simp add: copy_at_def numeral_2_eq_2)

lemma serialize_children_wire:
  assumes "\<And>c. c \<in> set cs \<Longrightarrow> attr_Serialize c = Done (attr_wire c)"
    and "sum_list (map (\<lambda>c. rtaAlignOf (length (attr_wire c))) cs) \<le> k"
  shows "serialize_children (length pre) cs (pre @ replicate k 0) =
    Done (pre @ concat (map (\<lambda>c. pad4 (attr_wire c)) cs)
      @ replicate (k - sum_list (map (\<lambda>c. rtaAlignOf (length (attr_wire c))) cs)) 0)"
  using assms
proof (induction cs arbitrary: pre k)
  case (Cons c cs)
  let ?n = "rtaAlignOf (length (attr_wire c))"
  have "serialize_children (length (pre @ pad4 (attr_wire c))) cs ((pre @ pad4 (attr_wire c)) @ replicate (k - ?n) 0) =
      Done ((pre @ pad4 (attr_wire c)) @ concat (map (\<lambda>c. pad4 (attr_wire c)) cs)
        @ replicate (k - ?n - sum_list (map (\<lambda>c. rtaAlignOf (length (attr_wire c))) cs)) 0)"
    by (rule Cons.IH) (use Cons.prems in auto)
  then show ?case
    using Cons.prems copy_at_pad4 [of "attr_wire c" k pre] by simp
qed simp

lemma attr_Serialize_wire: "attr_Serialize a = Done (attr_wire a)"
proof (induction a)
  case (RtAttr t d cs)
  let ?n = "attr_Len (RtAttr t d cs)" and ?s = "sum_list (map (\<lambda>c. rtaAlignOf (length (attr_wire c))) cs)"
  let ?body = "pad4 d @ concat (map (\<lambda>c. pad4 (attr_wire c)) cs)"
  have n: "rtaAlignOf ?n = 4 + (rtaAlignOf (length d) + ?s)"
    using length_wire_RtAttr [of t d cs] length_attr_wire_RtAttr [of t d cs] by simp
  have data: "copy_at 4 d (replicate (rtaAlignOf ?n) 0) = Done ((replicate 4 0 @ pad4 d) @ replicate ?s 0)"
    using copy_at_pad4 [of d "rtaAlignOf (length d) + ?s" "replicate 4 0"]
    by (simp only: n replicate_add length_replicate) simp
  have children: "serialize_children (4 + rtaAlignOf (length d)) cs ((replicate 4 0 @ pad4 d) @ replicate ?s 0) =
      Done (0 # 0 # 0 # 0 # ?body)"
    using serialize_children_wire [of cs ?s "replicate 4 0 @ pad4 d"] RtAttr.IH by (simp add: eval_nat_numeral)
  have len: "(if (of_nat ?n :: u16) \<noteq> 0 then copy_at 0 (le16 (of_nat ?n)) (0 # 0 # 0 # 0 # ?body) else Done (0 # 0 # 0 # 0 # ?body)) =
      Done (le16 (of_nat ?n) @ 0 # 0 # ?body)"
    using copy_at_front [of "le16 (of_nat ?n)" "[0, 0]" "0 # 0 # ?body"] by (simp add: le16_def)
  show ?case
    unfolding attr_Serialize.simps Let_def data obind.simps children len copy_at_header by (simp del: attr_Len.simps)
qed simp_all

section \<open>Parsing\<close>

text \<open>A parsed attribute: its header and its value, without the padding.\<close>

record NetlinkRouteAttr =
  ra_Len :: u16
  ra_Type :: u16
  ra_Value :: bytes

definition EINVAL :: int where "EINVAL = 22"

text \<open>\<open>netlinkRouteAttrAndValue\<close>: the header, the bytes after it and the aligned length.\<close>

fun netlinkRouteAttrAndValue :: "bytes \<Rightarrow> int + (u16 \<times> u16) \<times> bytes \<times> nat" where
  "netlinkRouteAttrAndValue (l0 # l1 # t0 # t1 # rest) =
     (let a_Len = (ucast l0 OR push_bit 8 (ucast l1)) :: u16;
          a_Type = (ucast t0 OR push_bit 8 (ucast t1)) :: u16
      in if unat a_Len < 4 \<or> unat a_Len > 4 + length rest then Inl EINVAL
         else Inr ((a_Len, a_Type), rest, rtaAlignOf (unat a_Len)))"
| "netlinkRouteAttrAndValue b = Inl EINVAL"

lemma netlinkRouteAttrAndValue_ge: "netlinkRouteAttrAndValue b = Inr (h, v, alen) \<Longrightarrow> 4 \<le> alen"
  by (induction b rule: netlinkRouteAttrAndValue.induct)
    (auto simp: Let_def split: if_splits intro: order_trans [OF _ rtaAlignOf_ge])

text \<open>
  \<open>b = b[alen:]\<close> panics when the aligned length goes past the end of the input, which happens when
  the last attribute comes without its padding.
\<close>

function ParseRouteAttr_loop :: "NetlinkRouteAttr list \<Rightarrow> bytes \<Rightarrow> (int + NetlinkRouteAttr list) outcome" where
  "ParseRouteAttr_loop attrs b =
     (if length b < 4 then Done (Inr attrs)
      else case netlinkRouteAttrAndValue b of
          Inl e \<Rightarrow> Done (Inl e)
        | Inr ((a_Len, a_Type), vbuf, alen) \<Rightarrow>
            (let ra = \<lparr>ra_Len = a_Len, ra_Type = a_Type, ra_Value = take (unat a_Len - 4) vbuf\<rparr>
             in if length b < alen then Panic SliceBounds
                else ParseRouteAttr_loop (attrs @ [ra]) (drop alen b)))"
  by pat_completeness auto
termination
  by (relation "measure (\<lambda>(attrs, b). length b)") (auto dest: netlinkRouteAttrAndValue_ge)

declare ParseRouteAttr_loop.simps [simp del]

definition ParseRouteAttr :: "bytes \<Rightarrow> (int + NetlinkRouteAttr list) outcome" where
  "ParseRouteAttr b = ParseRouteAttr_loop [] b"

text \<open>The attributes that a reader is to get back for a list of serialized ones.\<close>

fun attr_parsed :: "request_data \<Rightarrow> NetlinkRouteAttr" where
  "attr_parsed (RtAttr t d cs) =
     \<lparr>ra_Len = of_nat (attr_Len (RtAttr t d cs)), ra_Type = t,
      ra_Value = (if cs = [] then d else pad4 d @ concat (map (\<lambda>c. pad4 (attr_wire c)) cs))\<rparr>"
| "attr_parsed (Uint32Attribute t v) =
     \<lparr>ra_Len = 8, ra_Type = t, ra_Value = (if t AND NLA_F_NET_BYTEORDER \<noteq> 0 then be32 v else le32 v)\<rparr>"
| "attr_parsed (StructData b) = \<lparr>ra_Len = 0, ra_Type = 0, ra_Value = b\<rparr>"

fun is_attr :: "request_data \<Rightarrow> bool" where
  "is_attr (StructData b) = False"
| "is_attr a = True"

lemma header_read:
  "netlinkRouteAttrAndValue (le16 l @ le16 t @ rest) =
     (if unat l < 4 \<or> unat l > 4 + length rest then Inl EINVAL else Inr ((l, t), rest, rtaAlignOf (unat l)))"
  by (simp add: le16_def word_bytes16 Let_def)

lemma parse_one:
  assumes "unat l = 4 + n" and "n \<le> length rest" and "rtaAlignOf n \<le> length rest"
  shows "ParseRouteAttr_loop attrs (le16 l @ le16 t @ rest) =
    ParseRouteAttr_loop (attrs @ [\<lparr>ra_Len = l, ra_Type = t, ra_Value = take n rest\<rparr>]) (drop (rtaAlignOf n) rest)"
  using assms by (subst ParseRouteAttr_loop.simps) (simp add: header_read)

lemma attr_Len_ge: "is_attr a \<Longrightarrow> 4 \<le> attr_Len a"
  by (cases a) (auto simp: Uint32Attribute_Len_def intro: order_trans [OF _ rtaAlignOf_ge])

lemma unat_of_nat16: "n < 2 ^ 16 \<Longrightarrow> unat (of_nat n :: u16) = n"
  by (simp add: unat_of_nat)

text \<open>The bytes after the header of an attribute and the value a reader cuts out of them.\<close>

lemma attr_wire_body:
  assumes "is_attr a"
  obtains body where "attr_wire a = le16 (of_nat (attr_Len a)) @ le16 (ra_Type (attr_parsed a)) @ body"
    and "length body = rtaAlignOf (attr_Len a - 4)" and "take (attr_Len a - 4) body = ra_Value (attr_parsed a)"
    and "ra_Len (attr_parsed a) = of_nat (attr_Len a)"
proof (cases a)
  case (RtAttr t d cs)
  let ?body = "pad4 d @ concat (map (\<lambda>c. pad4 (attr_wire c)) cs)"
  have "rtaAlignOf (attr_Len a) = 4 + rtaAlignOf (attr_Len a - 4)"
    using rtaAlignOf_4_add [of "attr_Len a - 4"] attr_Len_ge [OF assms] by simp
  then have l: "length ?body = rtaAlignOf (attr_Len a - 4)"
    using length_wire_RtAttr [of t d cs] by (simp add: RtAttr del: attr_Len.simps(1))
  have "take (attr_Len a - 4) ?body = ra_Value (attr_parsed a)"
  proof (cases "cs = []")
    case True
    then show ?thesis by (simp add: RtAttr pad4_def)
  next
    case False
    then have "4 dvd attr_Len a" by (simp add: RtAttr)
    then have "4 dvd attr_Len a - 4" by (intro dvd_diff_nat) simp_all
    then have "length ?body = attr_Len a - 4" unfolding l by simp
    then show ?thesis using False by (simp add: RtAttr del: attr_Len.simps(1))
  qed
  with l show ?thesis by (intro that [of ?body]) (simp_all add: RtAttr del: attr_Len.simps(1))
next
  case (Uint32Attribute t v)
  then show ?thesis
    by (intro that [of "if t AND NLA_F_NET_BYTEORDER \<noteq> 0 then be32 v else le32 v"])
      (simp_all add: Uint32Attribute_Serialize_def Uint32Attribute_Len_def)
qed (use assms in simp)

lemma parse_wire:
  assumes "is_attr a" and "attr_Len a < 2 ^ 16"
  shows "ParseRouteAttr_loop attrs (attr_wire a @ rest) = ParseRouteAttr_loop (attrs @ [attr_parsed a]) rest"
proof -
  obtain body where b: "attr_wire a = le16 (of_nat (attr_Len a)) @ le16 (ra_Type (attr_parsed a)) @ body"
    and l: "length body = rtaAlignOf (attr_Len a - 4)" and v: "take (attr_Len a - 4) body = ra_Value (attr_parsed a)"
    and r: "ra_Len (attr_parsed a) = of_nat (attr_Len a)"
    using attr_wire_body [OF assms(1)] by blast
  have n: "unat (of_nat (attr_Len a) :: u16) = 4 + (attr_Len a - 4)"
    using attr_Len_ge [OF assms(1)] unat_of_nat16 [OF assms(2)] by simp
  have f: "attr_Len a - 4 \<le> length body" by (simp add: l)
  have e: "\<lparr>ra_Len = of_nat (attr_Len a), ra_Type = ra_Type (attr_parsed a), ra_Value = ra_Value (attr_parsed a)\<rparr>
      = attr_parsed a"
    by (rule NetlinkRouteAttr.equality) (simp_all add: r)
  show ?thesis
    using parse_one [OF n, of "body @ rest" attrs "ra_Type (attr_parsed a)"] f l v e by (simp add: b)
qed

lemma parse_wires:
  assumes "\<And>a. a \<in> set as \<Longrightarrow> is_attr a \<and> attr_Len a < 2 ^ 16"
  shows "ParseRouteAttr_loop attrs (concat (map attr_wire as)) = Done (Inr (attrs @ map attr_parsed as))"
  using assms
proof (induction as arbitrary: attrs)
  case Nil
  then show ?case by (simp add: ParseRouteAttr_loop.simps)
next
  case (Cons a as)
  then show ?case by (simp add: parse_wire)
qed

lemma pad4_attr_wire: "is_attr a \<Longrightarrow> pad4 (attr_wire a) = attr_wire a"
  using aligned_attr_wire by (cases a) (auto simp: pad4_id Uint32Attribute_Serialize_def simp del: attr_wire.simps(1))

text \<open>The value of an attribute that holds only children parses into the children.\<close>

lemma parse_children:
  assumes "\<And>a. a \<in> set as \<Longrightarrow> is_attr a \<and> attr_Len a < 2 ^ 16"
  shows "ParseRouteAttr (ra_Value (attr_parsed (RtAttr t [] as))) = Done (Inr (map attr_parsed as))"
proof -
  have "map (\<lambda>a. pad4 (attr_wire a)) as = map attr_wire as"
    using assms pad4_attr_wire by (intro map_cong) auto
  then show ?thesis
    using parse_wires [OF assms, of as "[]"] by (cases "as = []") (simp_all add: ParseRouteAttr_def del: map_eq_conv)
qed

text \<open>Serializing a list of attributes never panics, each of them takes its aligned length, and parsing
the concatenation gives every attribute back, with its type, its length and its value without the
padding. The value of an attribute that only holds children parses into the children.\<close>

theorem ParseRouteAttr_Serialize:
  assumes "\<And>a. a \<in> set as \<Longrightarrow> is_attr a \<and> attr_Len a < 2 ^ 16"
  shows "\<exists>bs. map attr_Serialize as = map Done bs
    \<and> map length bs = map (\<lambda>a. rtaAlignOf (attr_Len a)) as
    \<and> ParseRouteAttr (concat bs) = Done (Inr (map attr_parsed as))
    \<and> ParseRouteAttr (ra_Value (attr_parsed (RtAttr t [] as))) = Done (Inr (map attr_parsed as))"
proof (intro exI conjI)
  show "map attr_Serialize as = map Done (map attr_wire as)" by (simp add: attr_Serialize_wire)
  have w: "pad4 (attr_wire a) = attr_wire a" if "a \<in> set as" for a
    using that assms pad4_attr_wire by blast
  have "length (attr_wire a) = rtaAlignOf (attr_Len a)" if "a \<in> set as" for a
    using w [OF that] length_attr_wire [of a] length_pad4 [of "attr_wire a"] by simp
  then show "map length (map attr_wire as) = map (\<lambda>a. rtaAlignOf (attr_Len a)) as" by simp
  show "ParseRouteAttr (concat (map attr_wire as)) = Done (Inr (map attr_parsed as))"
    using parse_wires [OF assms, of as "[]"] by (simp add: ParseRouteAttr_def)
  show "ParseRouteAttr (ra_Value (attr_parsed (RtAttr t [] as))) = Done (Inr (map attr_parsed as))"
    using assms by (rule parse_children)
qed

lemma ParseRouteAttr_Serialize_witness:
  "\<exists>bs. map attr_Serialize [NewRtAttr 1 [104, 105, 0], Uint32Attribute 2 7] = map Done bs
    \<and> ParseRouteAttr (concat bs) =
        Done (Inr [\<lparr>ra_Len = 7, ra_Type = 1, ra_Value = [104, 105, 0]\<rparr>, \<lparr>ra_Len = 8, ra_Type = 2, ra_Value = [7, 0, 0, 0]\<rparr>])"
proof -
  have "is_attr a \<and> attr_Len a < 2 ^ 16" if "a \<in> set [NewRtAttr 1 [104, 105, 0], Uint32Attribute 2 7]" for a
    using that by (auto simp: NewRtAttr_def Uint32Attribute_Len_def)
  then obtain bs where "map attr_Serialize [NewRtAttr 1 [104, 105, 0], Uint32Attribute 2 7] = map Done bs"
    and "ParseRouteAttr (concat bs) = Done (Inr (map attr_parsed [NewRtAttr 1 [104, 105, 0], Uint32Attribute 2 7]))"
    using ParseRouteAttr_Serialize [of "[NewRtAttr 1 [104, 105, 0], Uint32Attribute 2 7]"] by blast
  then show ?thesis
    by (intro exI [of _ bs] conjI) (simp_all only:, simp add: NewRtAttr_def le32_def NLA_F_NET_BYTEORDER_def)
qed

text \<open>An attribute whose length is not a multiple of four and that ends the input without its padding
makes the parser panic, although the attribute itself is complete.\<close>

theorem ParseRouteAttr_unpadded_panics:
  assumes "is_attr a" and "attr_Len a < 2 ^ 16" and "attr_Len a mod 4 \<noteq> 0"
  shows "ParseRouteAttr (take (attr_Len a) (attr_wire a)) = Panic SliceBounds"
proof -
  obtain body where b: "attr_wire a = le16 (of_nat (attr_Len a)) @ le16 (ra_Type (attr_parsed a)) @ body"
    and l: "length body = rtaAlignOf (attr_Len a - 4)"
    using attr_wire_body [OF assms(1)] by blast
  define n where "n = attr_Len a - 4"
  have L: "attr_Len a = 4 + n" using attr_Len_ge [OF assms(1)] by (simp add: n_def)
  have u: "unat (of_nat (4 + n) :: u16) = 4 + n" using unat_of_nat16 [OF assms(2)] by (simp add: L)
  have "\<not> 4 dvd n" using assms(3) by (simp add: L dvd_eq_mod_eq_0)
  then have "n < rtaAlignOf n" using rtaAlignOf_ge [of n] rtaAlignOf_dvd [of n] by (metis le_neq_implies_less)
  moreover have "min n (length body) = n" using l by (simp add: L min_def)
  ultimately show ?thesis
    unfolding b L ParseRouteAttr_def using u
    by (simp add: header_read ParseRouteAttr_loop.simps [of "[]" "le16 x @ le16 y @ z" for x y z] del: of_nat_add)
qed

lemma ParseRouteAttr_unpadded_panics_witness:
  "ParseRouteAttr [7, 0, 1, 0, 104, 105, 0] = Panic SliceBounds"
  using ParseRouteAttr_unpadded_panics [of "NewRtAttr 1 [104, 105, 0]"]
  by (simp add: NewRtAttr_def le16_def pad4_def rtaAlignOf_eq)

section \<open>Attribute values\<close>

definition ZeroTerminated :: "string \<Rightarrow> bytes" where
  "ZeroTerminated s = map of_char s @ [0]"

definition NonZeroTerminated :: "string \<Rightarrow> bytes" where
  "NonZeroTerminated s = map of_char s"

text \<open>\<open>b[:n]\<close> panics for the \<open>-1\<close> that \<open>bytes.Index\<close> returns when there is no zero byte.\<close>

definition BytesToString :: "bytes \<Rightarrow> string outcome" where
  "BytesToString b =
     (if 0 \<in> set b then Done (map (\<lambda>x. char_of (unat x)) (takeWhile (\<lambda>x. x \<noteq> 0) b)) else Panic SliceBounds)"

definition Uint8Attr :: "u8 \<Rightarrow> bytes" where "Uint8Attr v = [v]"
definition Uint16Attr :: "u16 \<Rightarrow> bytes" where "Uint16Attr v = le16 v"
definition Uint32Attr :: "u32 \<Rightarrow> bytes" where "Uint32Attr v = le32 v"
definition Uint64Attr :: "u64 \<Rightarrow> bytes" where "Uint64Attr v = le32 (ucast v) @ le32 (ucast (drop_bit 32 v))"

section \<open>Reading values\<close>

text \<open>
  \<open>native.Uint32(v[0:4])\<close> and \<open>native.Uint16(v[0:2])\<close>. A value that is too short counts as a panic;
  Go reads on into the bytes that follow it in the message as long as there are any.
\<close>

definition value_u32 :: "bytes \<Rightarrow> u32 outcome" where
  "value_u32 v = (if length v < 4 then Panic SliceBounds else getle32 v)"

definition value_u16 :: "bytes \<Rightarrow> u16 outcome" where
  "value_u16 v = (if length v < 2 then Panic SliceBounds else getle16 v)"

text \<open>\<open>v[0]\<close>, and the conversion of all bytes to a string.\<close>

definition value_u8 :: "bytes \<Rightarrow> u8 outcome" where
  "value_u8 v = (if v = [] then Panic IndexOutOfRange else Done (hd v))"

definition bytes_string :: "bytes \<Rightarrow> string" where
  "bytes_string v = map (\<lambda>x. char_of (unat x)) v"

text \<open>\<open>string(v[:len(v)-1])\<close> panics on an empty value.\<close>

definition value_string :: "bytes \<Rightarrow> string outcome" where
  "value_string v = (if v = [] then Panic SliceBounds else Done (map (\<lambda>x. char_of (unat x)) (butlast v)))"

text \<open>Network byte order, \<open>order.go\<close>.\<close>

definition htonl :: "u32 \<Rightarrow> bytes" where "htonl v = be32 v"
definition htons :: "u16 \<Rightarrow> bytes" where "htons v = be16 v"
definition ntohs :: "bytes \<Rightarrow> u16 outcome" where "ntohs b = getbe16 b"
definition ntohl :: "bytes \<Rightarrow> u32 outcome" where "ntohl b = getbe32 b"

text \<open>Swapped bytes, as on every host that is not big-endian.\<close>

definition Swap16 :: "u16 \<Rightarrow> u16" where
  "Swap16 i = drop_bit 8 (i AND 0xff00) OR push_bit 8 (i AND 0xff)"

definition Swap32 :: "u32 \<Rightarrow> u32" where
  "Swap32 i = drop_bit 24 (i AND 0xff000000) OR drop_bit 8 (i AND 0xff0000) OR push_bit 8 (i AND 0xff00) OR push_bit 24 (i AND 0xff)"

text \<open>\<open>v[0:n]\<close>, \<open>ntohs(v[0:2])\<close>, \<open>ntohl(v[0:4])\<close>, and \<open>native.Uint32(v[n:])\<close>, which does not read past the value.\<close>

definition value_take :: "nat \<Rightarrow> bytes \<Rightarrow> bytes outcome" where
  "value_take n v = (if length v < n then Panic SliceBounds else Done (take n v))"

definition value_be16 :: "bytes \<Rightarrow> u16 outcome" where
  "value_be16 v = obind (value_take 2 v) ntohs"

definition value_be32 :: "bytes \<Rightarrow> u32 outcome" where
  "value_be32 v = obind (value_take 4 v) ntohl"

definition u32_from :: "nat \<Rightarrow> bytes \<Rightarrow> u32 outcome" where
  "u32_from n v = (if length v < n then Panic SliceBounds else getle32 (drop n v))"

definition u16_from :: "nat \<Rightarrow> bytes \<Rightarrow> u16 outcome" where
  "u16_from n v = (if length v < n then Panic SliceBounds else getle16 (drop n v))"

text \<open>A loop over attributes whose body may fail.\<close>

fun each_datum :: "(NetlinkRouteAttr \<Rightarrow> 's \<Rightarrow> ('e + 's) outcome) \<Rightarrow> NetlinkRouteAttr list \<Rightarrow> 's \<Rightarrow> ('e + 's) outcome" where
  "each_datum g [] s = Done (Inr s)"
| "each_datum g (d # ds) s = obind (g d s) (\<lambda>r. case r of Inl e \<Rightarrow> Done (Inl e) | Inr s \<Rightarrow> each_datum g ds s)"

lemma each_datum_Cons: "each_datum g (d # ds) s = rbind (g d s) (each_datum g ds)"
  by (simp add: rbind_def)

lemma each_datum_append: "each_datum g (ds @ es) s = rbind (each_datum g ds s) (each_datum g es)"
proof (induction ds arbitrary: s)
  case (Cons d ds)
  then show ?case by (cases "g d s") (auto simp: rbind_def split: sum.splits)
qed simp

text \<open>A loop over attributes whose body may only panic.\<close>

fun each_attr :: "(NetlinkRouteAttr \<Rightarrow> 's \<Rightarrow> 's outcome) \<Rightarrow> NetlinkRouteAttr list \<Rightarrow> 's \<Rightarrow> 's outcome" where
  "each_attr g [] s = Done s"
| "each_attr g (d # ds) s = obind (g d s) (each_attr g ds)"

lemma each_attr_append: "each_attr g (ds @ es) x = obind (each_attr g ds x) (each_attr g es)"
proof (induction ds arbitrary: x)
  case (Cons d ds)
  then show ?case by (cases "g d x") simp_all
qed simp

text \<open>Values of the encoders, read back.\<close>

lemma uint_of_int32: "0 \<le> i \<Longrightarrow> i < 2 ^ 32 \<Longrightarrow> uint (word_of_int i :: u32) = i"
  by (simp add: uint_word_of_int take_bit_int_eq_self)

lemma uint_of_int8: "0 \<le> i \<Longrightarrow> i < 256 \<Longrightarrow> uint (word_of_int i :: u8) = i"
  by (simp add: uint_word_of_int take_bit_int_eq_self)

lemma uint_of_int16: "0 \<le> i \<Longrightarrow> i < 2 ^ 16 \<Longrightarrow> uint (word_of_int i :: u16) = i"
  by (simp add: uint_word_of_int take_bit_int_eq_self)

lemma sint_of_int32: "- (2 ^ 31) \<le> i \<Longrightarrow> i < 2 ^ 31 \<Longrightarrow> sint (word_of_int i :: u32) = i"
  by (simp add: int_word_sint)

lemma unat_of_char: "unat (of_char c :: u8) = of_char c"
proof -
  have "unat (of_nat (of_char c) :: u8) = of_char c mod 256" by (subst unat_of_nat) simp
  then show ?thesis by (simp only: of_nat_of_char of_char_mod_256)
qed

lemma NewRtAttr_simps [simp]:
  "is_attr (NewRtAttr t d)" "attr_Len (NewRtAttr t d) = 4 + length d"
  "ra_Type (attr_parsed (NewRtAttr t d)) = word_of_int t" "ra_Value (attr_parsed (NewRtAttr t d)) = d"
  by (simp_all add: NewRtAttr_def)

lemma value_lengths [simp]: "length (Uint32Attr v) = 4" "length (Uint16Attr w) = 2" "length (ZeroTerminated s) = Suc (length s)"
  by (simp_all add: Uint32Attr_def Uint16Attr_def ZeroTerminated_def)

lemma value_reads [simp]:
  "value_u32 (le32 v) = Done v" "value_u32 (Uint32Attr v) = Done v" "value_u16 (Uint16Attr w) = Done w" "value_string (ZeroTerminated s) = Done s"
  using getle32_le32 [of v "[]"] getle16_le16 [of w "[]"]
  by (simp_all add: value_u32_def value_u16_def value_string_def Uint32Attr_def Uint16Attr_def ZeroTerminated_def comp_def unat_of_char)

lemma length_hton [simp]: "length (htonl v) = 4" "length (htons w) = 2"
  by (simp_all add: htonl_def htons_def be32_def)

lemma ntoh_hton [simp]:
  "ntohl (htonl v) = Done v" "ntohs (htons w) = Done w"
  "value_be32 (htonl v) = Done v" "value_be16 (htons w) = Done w" "value_u8 (Uint8Attr x) = Done x"
  by (simp_all add: value_be32_def value_be16_def value_take_def value_u8_def Uint8Attr_def)
    (simp_all add: ntohl_def ntohs_def htonl_def htons_def)

lemma BytesToString_ZeroTerminated [simp]: "CHR 0x00 \<notin> set s \<Longrightarrow> BytesToString (ZeroTerminated s) = Done s"
proof -
  assume a: "CHR 0x00 \<notin> set s"
  have "(of_char c :: u8) \<noteq> 0" if "c \<in> set s" for c
  proof
    assume "(of_char c :: u8) = 0"
    then have "(of_char c :: nat) = of_char (CHR 0x00)" using unat_of_char [of c] by simp
    then have "c = CHR 0x00" by (simp only: of_char_eq_iff)
    with that a show False by simp
  qed
  then have "takeWhile (\<lambda>x. x \<noteq> 0) (map of_char s @ [0]) = (map of_char s :: bytes)"
    by (subst takeWhile_append2) auto
  then show ?thesis by (simp add: BytesToString_def ZeroTerminated_def comp_def unat_of_char)
qed

end
