(* ===== verification/NlTc.thy ===== *)
theory NlTc
  imports NlAttr
begin

text \<open>
  The fixed-size messages of traffic control, \<open>pkg/github.com/vishvananda/netlink/nl/tc_linux.go\<close>. The
  code casts a pointer to a struct into a pointer to an array of its size and back; on a little-endian
  host this writes and reads the fields one after the other at their natural alignment. Signed fields
  are kept as words of their width and read with \<open>sint\<close>. \<open>&b[0:Sizeof][0]\<close> panics on a shorter slice;
  the slice is given here by its bytes, without spare capacity behind them.

  The interface \<open>tc_codec\<close> is what the encoders and parsers of the other theories rely on; it is
  interpreted on every struct.
\<close>

named_theorems tc_sizes \<open>sizes of the messages\<close>
named_theorems tc_enc \<open>serializers\<close>
named_theorems tc_dec \<open>readers at an offset\<close>
named_theorems tc_read \<open>reading fields of a concatenation\<close>

section \<open>Fields\<close>

definition le8 :: "u8 \<Rightarrow> bytes" where "le8 v = [v]"

definition ru8 :: "nat \<Rightarrow> bytes \<Rightarrow> u8" where "ru8 n b = b ! n"

definition ru16 :: "nat \<Rightarrow> bytes \<Rightarrow> u16" where
  "ru16 n b = ucast (b ! n) OR push_bit 8 (ucast (b ! (n + 1)))"

definition ru32 :: "nat \<Rightarrow> bytes \<Rightarrow> u32" where
  "ru32 n b = ucast (b ! n) OR push_bit 8 (ucast (b ! (n + 1))) OR push_bit 16 (ucast (b ! (n + 2)))
     OR push_bit 24 (ucast (b ! (n + 3)))"

definition rbytes :: "nat \<Rightarrow> nat \<Rightarrow> bytes \<Rightarrow> bytes" where "rbytes n k b = take k (drop n b)"

lemma read_skip [tc_read]:
  "length xs \<le> n \<Longrightarrow> ru8 n (xs @ r) = ru8 (n - length xs) r"
  "length xs \<le> n \<Longrightarrow> ru16 n (xs @ r) = ru16 (n - length xs) r"
  "length xs \<le> n \<Longrightarrow> ru32 n (xs @ r) = ru32 (n - length xs) r"
  "length xs \<le> n \<Longrightarrow> rbytes n k (xs @ r) = rbytes (n - length xs) k r"
  by (simp_all add: ru8_def ru16_def ru32_def rbytes_def nth_append Suc_diff_le)

lemma read_here [tc_read]:
  "ru8 0 (le8 v @ r) = v" "ru16 0 (le16 w @ r) = w" "ru32 0 (le32 x @ r) = x"
  "length d = k \<Longrightarrow> rbytes 0 k (d @ r) = d"
  by (simp_all add: ru8_def ru16_def ru32_def rbytes_def le8_def le16_def le32_def word_bytes16 word_bytes32 numeral_2_eq_2 numeral_3_eq_3)

lemma length_le8 [simp]: "length (le8 v) = 1"
  by (simp add: le8_def)

lemma length_rbytes [simp]: "n + k \<le> length b \<Longrightarrow> length (rbytes n k b) = k"
  by (simp add: rbytes_def)

section \<open>The interface\<close>

locale tc_codec =
  fixes valid :: "'a \<Rightarrow> bool" and size :: nat and enc :: "'a \<Rightarrow> bytes" and dec :: "bytes \<Rightarrow> 'a outcome"
  assumes enc_length: "valid x \<Longrightarrow> length (enc x) = size"
    and dec_enc: "valid x \<Longrightarrow> dec (enc x @ r) = Done x"
    and dec_short: "length b < size \<Longrightarrow> dec b = Panic SliceBounds"
    and dec_valid: "dec b = Done x \<Longrightarrow> valid x"
begin

lemma dec_enc_exact: "valid x \<Longrightarrow> dec (enc x) = Done x"
  using dec_enc [of x "[]"] by simp

lemma enc_inject: "valid x \<Longrightarrow> valid y \<Longrightarrow> enc x = enc y \<longleftrightarrow> x = y"
  using dec_enc_exact by (metis outcome.inject(1))

text \<open>An attribute that carries the struct gives it back to whoever parses the attribute.\<close>

lemma attr_roundtrip:
  assumes "valid x" and "size + 4 < 2 ^ 16"
  obtains v where "ParseRouteAttr (attr_wire (NewRtAttr t (enc x))) =
      Done (Inr [\<lparr>ra_Len = of_nat (4 + size), ra_Type = word_of_int t, ra_Value = v\<rparr>])"
    and "dec v = Done x"
proof
  show "dec (enc x) = Done x" using assms(1) by (rule dec_enc_exact)
  show "ParseRouteAttr (attr_wire (NewRtAttr t (enc x))) =
      Done (Inr [\<lparr>ra_Len = of_nat (4 + size), ra_Type = word_of_int t, ra_Value = enc x\<rparr>])"
    using parse_wires [of "[NewRtAttr t (enc x)]" "[]"] assms enc_length [OF assms(1)]
    by (simp add: ParseRouteAttr_def NewRtAttr_def del: of_nat_add)
qed

end

section \<open>Messages\<close>

subsection \<open>TcMsg\<close>

record TcMsg =
  tm_Family :: u8
  tm_Pad :: bytes
  tm_Ifindex :: u32
  tm_Handle :: u32
  tm_Parent :: u32
  tm_Info :: u32

definition SizeofTcMsg :: nat where [tc_sizes]: "SizeofTcMsg = 0x14"

definition TcMsg_Len :: "TcMsg \<Rightarrow> nat" where [tc_sizes]: "TcMsg_Len msg = SizeofTcMsg"

definition TcMsg_Serialize :: "TcMsg \<Rightarrow> bytes" where [tc_enc]:
  "TcMsg_Serialize x =
     le8 (tm_Family x) @ tm_Pad x @ le32 (tm_Ifindex x) @ le32 (tm_Handle x) @ le32 (tm_Parent x) @
     le32 (tm_Info x)"

definition TcMsg_at :: "nat \<Rightarrow> bytes \<Rightarrow> TcMsg" where [tc_dec]:
  "TcMsg_at n b =
     \<lparr>tm_Family = ru8 n b, tm_Pad = rbytes (n + 1) 3 b, tm_Ifindex = ru32 (n + 4) b,
      tm_Handle = ru32 (n + 8) b, tm_Parent = ru32 (n + 12) b, tm_Info = ru32 (n + 16) b\<rparr>"

definition DeserializeTcMsg :: "bytes \<Rightarrow> TcMsg outcome" where
  "DeserializeTcMsg b = (if length b < SizeofTcMsg then Panic SliceBounds else Done (TcMsg_at 0 b))"

interpretation tm_codec: tc_codec "(\<lambda>x. length (tm_Pad x) = 3)" SizeofTcMsg TcMsg_Serialize DeserializeTcMsg
  by unfold_locales (auto simp: DeserializeTcMsg_def TcMsg_at_def TcMsg_Serialize_def tc_sizes tc_read split: if_splits)

subsection \<open>TcActionMsg\<close>

record TcActionMsg =
  tam_Family :: u8
  tam_Pad :: bytes

definition SizeofTcActionMsg :: nat where [tc_sizes]: "SizeofTcActionMsg = 0x04"

definition TcActionMsg_Len :: "TcActionMsg \<Rightarrow> nat" where [tc_sizes]: "TcActionMsg_Len msg = SizeofTcActionMsg"

definition TcActionMsg_Serialize :: "TcActionMsg \<Rightarrow> bytes" where [tc_enc]:
  "TcActionMsg_Serialize x =
     le8 (tam_Family x) @ tam_Pad x"

definition TcActionMsg_at :: "nat \<Rightarrow> bytes \<Rightarrow> TcActionMsg" where [tc_dec]:
  "TcActionMsg_at n b =
     \<lparr>tam_Family = ru8 n b, tam_Pad = rbytes (n + 1) 3 b\<rparr>"

definition DeserializeTcActionMsg :: "bytes \<Rightarrow> TcActionMsg outcome" where
  "DeserializeTcActionMsg b = (if length b < SizeofTcActionMsg then Panic SliceBounds else Done (TcActionMsg_at 0 b))"

interpretation tam_codec: tc_codec "(\<lambda>x. length (tam_Pad x) = 3)" SizeofTcActionMsg TcActionMsg_Serialize DeserializeTcActionMsg
  by unfold_locales (auto simp: DeserializeTcActionMsg_def TcActionMsg_at_def TcActionMsg_Serialize_def tc_sizes tc_read split: if_splits)

subsection \<open>TcPrioMap\<close>

record TcPrioMap =
  pm_Bands :: u32
  pm_Priomap :: bytes

definition SizeofTcPrioMap :: nat where [tc_sizes]: "SizeofTcPrioMap = 0x14"

definition TcPrioMap_Len :: "TcPrioMap \<Rightarrow> nat" where [tc_sizes]: "TcPrioMap_Len msg = SizeofTcPrioMap"

definition TcPrioMap_Serialize :: "TcPrioMap \<Rightarrow> bytes" where [tc_enc]:
  "TcPrioMap_Serialize x =
     le32 (pm_Bands x) @ pm_Priomap x"

definition TcPrioMap_at :: "nat \<Rightarrow> bytes \<Rightarrow> TcPrioMap" where [tc_dec]:
  "TcPrioMap_at n b =
     \<lparr>pm_Bands = ru32 n b, pm_Priomap = rbytes (n + 4) 16 b\<rparr>"

definition DeserializeTcPrioMap :: "bytes \<Rightarrow> TcPrioMap outcome" where
  "DeserializeTcPrioMap b = (if length b < SizeofTcPrioMap then Panic SliceBounds else Done (TcPrioMap_at 0 b))"

interpretation pm_codec: tc_codec "(\<lambda>x. length (pm_Priomap x) = 16)" SizeofTcPrioMap TcPrioMap_Serialize DeserializeTcPrioMap
  by unfold_locales (auto simp: DeserializeTcPrioMap_def TcPrioMap_at_def TcPrioMap_Serialize_def tc_sizes tc_read split: if_splits)

subsection \<open>TcRateSpec\<close>

record TcRateSpec =
  rs_CellLog :: u8
  rs_Linklayer :: u8
  rs_Overhead :: u16
  rs_CellAlign :: u16
  rs_Mpu :: u16
  rs_Rate :: u32

definition SizeofTcRateSpec :: nat where [tc_sizes]: "SizeofTcRateSpec = 0x0c"

definition TcRateSpec_Len :: "TcRateSpec \<Rightarrow> nat" where [tc_sizes]: "TcRateSpec_Len msg = SizeofTcRateSpec"

definition TcRateSpec_Serialize :: "TcRateSpec \<Rightarrow> bytes" where [tc_enc]:
  "TcRateSpec_Serialize x =
     le8 (rs_CellLog x) @ le8 (rs_Linklayer x) @ le16 (rs_Overhead x) @ le16 (rs_CellAlign x) @
     le16 (rs_Mpu x) @ le32 (rs_Rate x)"

definition TcRateSpec_at :: "nat \<Rightarrow> bytes \<Rightarrow> TcRateSpec" where [tc_dec]:
  "TcRateSpec_at n b =
     \<lparr>rs_CellLog = ru8 n b, rs_Linklayer = ru8 (n + 1) b, rs_Overhead = ru16 (n + 2) b,
      rs_CellAlign = ru16 (n + 4) b, rs_Mpu = ru16 (n + 6) b, rs_Rate = ru32 (n + 8) b\<rparr>"

definition DeserializeTcRateSpec :: "bytes \<Rightarrow> TcRateSpec outcome" where
  "DeserializeTcRateSpec b = (if length b < SizeofTcRateSpec then Panic SliceBounds else Done (TcRateSpec_at 0 b))"

lemma TcRateSpec_at_simps [tc_read]:
  "length xs \<le> n \<Longrightarrow> TcRateSpec_at n (xs @ r) = TcRateSpec_at (n - length xs) r"
  "TcRateSpec_at 0 (TcRateSpec_Serialize x @ r) = x"
  "length (TcRateSpec_Serialize x) = 12"
  by (simp_all add: tc_dec tc_enc tc_read Suc_diff_le)

interpretation rs_codec: tc_codec "(\<lambda>x. True)" SizeofTcRateSpec TcRateSpec_Serialize DeserializeTcRateSpec
  by unfold_locales (auto simp: DeserializeTcRateSpec_def TcRateSpec_at_def TcRateSpec_Serialize_def tc_sizes tc_read split: if_splits)

subsection \<open>TcNetemQopt\<close>

record TcNetemQopt =
  nq_Latency :: u32
  nq_Limit :: u32
  nq_Loss :: u32
  nq_Gap :: u32
  nq_Duplicate :: u32
  nq_Jitter :: u32

definition SizeofTcNetemQopt :: nat where [tc_sizes]: "SizeofTcNetemQopt = 0x18"

definition TcNetemQopt_Len :: "TcNetemQopt \<Rightarrow> nat" where [tc_sizes]: "TcNetemQopt_Len msg = SizeofTcNetemQopt"

definition TcNetemQopt_Serialize :: "TcNetemQopt \<Rightarrow> bytes" where [tc_enc]:
  "TcNetemQopt_Serialize x =
     le32 (nq_Latency x) @ le32 (nq_Limit x) @ le32 (nq_Loss x) @ le32 (nq_Gap x) @ le32 (nq_Duplicate x) @
     le32 (nq_Jitter x)"

definition TcNetemQopt_at :: "nat \<Rightarrow> bytes \<Rightarrow> TcNetemQopt" where [tc_dec]:
  "TcNetemQopt_at n b =
     \<lparr>nq_Latency = ru32 n b, nq_Limit = ru32 (n + 4) b, nq_Loss = ru32 (n + 8) b, nq_Gap = ru32 (n + 12) b,
      nq_Duplicate = ru32 (n + 16) b, nq_Jitter = ru32 (n + 20) b\<rparr>"

definition DeserializeTcNetemQopt :: "bytes \<Rightarrow> TcNetemQopt outcome" where
  "DeserializeTcNetemQopt b = (if length b < SizeofTcNetemQopt then Panic SliceBounds else Done (TcNetemQopt_at 0 b))"

interpretation nq_codec: tc_codec "(\<lambda>x. True)" SizeofTcNetemQopt TcNetemQopt_Serialize DeserializeTcNetemQopt
  by unfold_locales (auto simp: DeserializeTcNetemQopt_def TcNetemQopt_at_def TcNetemQopt_Serialize_def tc_sizes tc_read split: if_splits)

subsection \<open>TcNetemCorr\<close>

record TcNetemCorr =
  nc_DelayCorr :: u32
  nc_LossCorr :: u32
  nc_DupCorr :: u32

definition SizeofTcNetemCorr :: nat where [tc_sizes]: "SizeofTcNetemCorr = 0x0c"

definition TcNetemCorr_Len :: "TcNetemCorr \<Rightarrow> nat" where [tc_sizes]: "TcNetemCorr_Len msg = SizeofTcNetemCorr"

definition TcNetemCorr_Serialize :: "TcNetemCorr \<Rightarrow> bytes" where [tc_enc]:
  "TcNetemCorr_Serialize x =
     le32 (nc_DelayCorr x) @ le32 (nc_LossCorr x) @ le32 (nc_DupCorr x)"

definition TcNetemCorr_at :: "nat \<Rightarrow> bytes \<Rightarrow> TcNetemCorr" where [tc_dec]:
  "TcNetemCorr_at n b =
     \<lparr>nc_DelayCorr = ru32 n b, nc_LossCorr = ru32 (n + 4) b, nc_DupCorr = ru32 (n + 8) b\<rparr>"

definition DeserializeTcNetemCorr :: "bytes \<Rightarrow> TcNetemCorr outcome" where
  "DeserializeTcNetemCorr b = (if length b < SizeofTcNetemCorr then Panic SliceBounds else Done (TcNetemCorr_at 0 b))"

interpretation nc_codec: tc_codec "(\<lambda>x. True)" SizeofTcNetemCorr TcNetemCorr_Serialize DeserializeTcNetemCorr
  by unfold_locales (auto simp: DeserializeTcNetemCorr_def TcNetemCorr_at_def TcNetemCorr_Serialize_def tc_sizes tc_read split: if_splits)

subsection \<open>TcNetemReorder\<close>

record TcNetemReorder =
  nr_Probability :: u32
  nr_Correlation :: u32

definition SizeofTcNetemReorder :: nat where [tc_sizes]: "SizeofTcNetemReorder = 0x08"

definition TcNetemReorder_Len :: "TcNetemReorder \<Rightarrow> nat" where [tc_sizes]: "TcNetemReorder_Len msg = SizeofTcNetemReorder"

definition TcNetemReorder_Serialize :: "TcNetemReorder \<Rightarrow> bytes" where [tc_enc]:
  "TcNetemReorder_Serialize x =
     le32 (nr_Probability x) @ le32 (nr_Correlation x)"

definition TcNetemReorder_at :: "nat \<Rightarrow> bytes \<Rightarrow> TcNetemReorder" where [tc_dec]:
  "TcNetemReorder_at n b =
     \<lparr>nr_Probability = ru32 n b, nr_Correlation = ru32 (n + 4) b\<rparr>"

definition DeserializeTcNetemReorder :: "bytes \<Rightarrow> TcNetemReorder outcome" where
  "DeserializeTcNetemReorder b = (if length b < SizeofTcNetemReorder then Panic SliceBounds else Done (TcNetemReorder_at 0 b))"

interpretation nr_codec: tc_codec "(\<lambda>x. True)" SizeofTcNetemReorder TcNetemReorder_Serialize DeserializeTcNetemReorder
  by unfold_locales (auto simp: DeserializeTcNetemReorder_def TcNetemReorder_at_def TcNetemReorder_Serialize_def tc_sizes tc_read split: if_splits)

subsection \<open>TcNetemCorrupt\<close>

record TcNetemCorrupt =
  nco_Probability :: u32
  nco_Correlation :: u32

definition SizeofTcNetemCorrupt :: nat where [tc_sizes]: "SizeofTcNetemCorrupt = 0x08"

definition TcNetemCorrupt_Len :: "TcNetemCorrupt \<Rightarrow> nat" where [tc_sizes]: "TcNetemCorrupt_Len msg = SizeofTcNetemCorrupt"

definition TcNetemCorrupt_Serialize :: "TcNetemCorrupt \<Rightarrow> bytes" where [tc_enc]:
  "TcNetemCorrupt_Serialize x =
     le32 (nco_Probability x) @ le32 (nco_Correlation x)"

definition TcNetemCorrupt_at :: "nat \<Rightarrow> bytes \<Rightarrow> TcNetemCorrupt" where [tc_dec]:
  "TcNetemCorrupt_at n b =
     \<lparr>nco_Probability = ru32 n b, nco_Correlation = ru32 (n + 4) b\<rparr>"

definition DeserializeTcNetemCorrupt :: "bytes \<Rightarrow> TcNetemCorrupt outcome" where
  "DeserializeTcNetemCorrupt b = (if length b < SizeofTcNetemCorrupt then Panic SliceBounds else Done (TcNetemCorrupt_at 0 b))"

interpretation nco_codec: tc_codec "(\<lambda>x. True)" SizeofTcNetemCorrupt TcNetemCorrupt_Serialize DeserializeTcNetemCorrupt
  by unfold_locales (auto simp: DeserializeTcNetemCorrupt_def TcNetemCorrupt_at_def TcNetemCorrupt_Serialize_def tc_sizes tc_read split: if_splits)

subsection \<open>TcTbfQopt\<close>

record TcTbfQopt =
  tbf_Rate :: TcRateSpec
  tbf_Peakrate :: TcRateSpec
  tbf_Limit :: u32
  tbf_Buffer :: u32
  tbf_Mtu :: u32

definition SizeofTcTbfQopt :: nat where [tc_sizes]: "SizeofTcTbfQopt = 2 * SizeofTcRateSpec + 0x0c"

definition TcTbfQopt_Len :: "TcTbfQopt \<Rightarrow> nat" where [tc_sizes]: "TcTbfQopt_Len msg = SizeofTcTbfQopt"

definition TcTbfQopt_Serialize :: "TcTbfQopt \<Rightarrow> bytes" where [tc_enc]:
  "TcTbfQopt_Serialize x =
     TcRateSpec_Serialize (tbf_Rate x) @ TcRateSpec_Serialize (tbf_Peakrate x) @ le32 (tbf_Limit x) @
     le32 (tbf_Buffer x) @ le32 (tbf_Mtu x)"

definition TcTbfQopt_at :: "nat \<Rightarrow> bytes \<Rightarrow> TcTbfQopt" where [tc_dec]:
  "TcTbfQopt_at n b =
     \<lparr>tbf_Rate = TcRateSpec_at n b, tbf_Peakrate = TcRateSpec_at (n + 12) b, tbf_Limit = ru32 (n + 24) b,
      tbf_Buffer = ru32 (n + 28) b, tbf_Mtu = ru32 (n + 32) b\<rparr>"

definition DeserializeTcTbfQopt :: "bytes \<Rightarrow> TcTbfQopt outcome" where
  "DeserializeTcTbfQopt b = (if length b < SizeofTcTbfQopt then Panic SliceBounds else Done (TcTbfQopt_at 0 b))"

interpretation tbf_codec: tc_codec "(\<lambda>x. True)" SizeofTcTbfQopt TcTbfQopt_Serialize DeserializeTcTbfQopt
  by unfold_locales (auto simp: DeserializeTcTbfQopt_def TcTbfQopt_at_def TcTbfQopt_Serialize_def tc_sizes tc_read split: if_splits)

subsection \<open>TcHtbCopt\<close>

record TcHtbCopt =
  htb_Rate :: TcRateSpec
  htb_Ceil :: TcRateSpec
  htb_Buffer :: u32
  htb_Cbuffer :: u32
  htb_Quantum :: u32
  htb_Level :: u32
  htb_Prio :: u32

definition SizeofTcHtbCopt :: nat where [tc_sizes]: "SizeofTcHtbCopt = 2 * SizeofTcRateSpec + 0x14"

definition TcHtbCopt_Len :: "TcHtbCopt \<Rightarrow> nat" where [tc_sizes]: "TcHtbCopt_Len msg = SizeofTcHtbCopt"

definition TcHtbCopt_Serialize :: "TcHtbCopt \<Rightarrow> bytes" where [tc_enc]:
  "TcHtbCopt_Serialize x =
     TcRateSpec_Serialize (htb_Rate x) @ TcRateSpec_Serialize (htb_Ceil x) @ le32 (htb_Buffer x) @
     le32 (htb_Cbuffer x) @ le32 (htb_Quantum x) @ le32 (htb_Level x) @ le32 (htb_Prio x)"

definition TcHtbCopt_at :: "nat \<Rightarrow> bytes \<Rightarrow> TcHtbCopt" where [tc_dec]:
  "TcHtbCopt_at n b =
     \<lparr>htb_Rate = TcRateSpec_at n b, htb_Ceil = TcRateSpec_at (n + 12) b, htb_Buffer = ru32 (n + 24) b,
      htb_Cbuffer = ru32 (n + 28) b, htb_Quantum = ru32 (n + 32) b, htb_Level = ru32 (n + 36) b,
      htb_Prio = ru32 (n + 40) b\<rparr>"

definition DeserializeTcHtbCopt :: "bytes \<Rightarrow> TcHtbCopt outcome" where
  "DeserializeTcHtbCopt b = (if length b < SizeofTcHtbCopt then Panic SliceBounds else Done (TcHtbCopt_at 0 b))"

interpretation htb_codec: tc_codec "(\<lambda>x. True)" SizeofTcHtbCopt TcHtbCopt_Serialize DeserializeTcHtbCopt
  by unfold_locales (auto simp: DeserializeTcHtbCopt_def TcHtbCopt_at_def TcHtbCopt_Serialize_def tc_sizes tc_read split: if_splits)

subsection \<open>TcHtbGlob\<close>

record TcHtbGlob =
  hg_Version :: u32
  hg_Rate2Quantum :: u32
  hg_Defcls :: u32
  hg_Debug :: u32
  hg_DirectPkts :: u32

definition SizeofTcHtbGlob :: nat where [tc_sizes]: "SizeofTcHtbGlob = 0x14"

definition TcHtbGlob_Len :: "TcHtbGlob \<Rightarrow> nat" where [tc_sizes]: "TcHtbGlob_Len msg = SizeofTcHtbGlob"

definition TcHtbGlob_Serialize :: "TcHtbGlob \<Rightarrow> bytes" where [tc_enc]:
  "TcHtbGlob_Serialize x =
     le32 (hg_Version x) @ le32 (hg_Rate2Quantum x) @ le32 (hg_Defcls x) @ le32 (hg_Debug x) @
     le32 (hg_DirectPkts x)"

definition TcHtbGlob_at :: "nat \<Rightarrow> bytes \<Rightarrow> TcHtbGlob" where [tc_dec]:
  "TcHtbGlob_at n b =
     \<lparr>hg_Version = ru32 n b, hg_Rate2Quantum = ru32 (n + 4) b, hg_Defcls = ru32 (n + 8) b,
      hg_Debug = ru32 (n + 12) b, hg_DirectPkts = ru32 (n + 16) b\<rparr>"

definition DeserializeTcHtbGlob :: "bytes \<Rightarrow> TcHtbGlob outcome" where
  "DeserializeTcHtbGlob b = (if length b < SizeofTcHtbGlob then Panic SliceBounds else Done (TcHtbGlob_at 0 b))"

interpretation hg_codec: tc_codec "(\<lambda>x. True)" SizeofTcHtbGlob TcHtbGlob_Serialize DeserializeTcHtbGlob
  by unfold_locales (auto simp: DeserializeTcHtbGlob_def TcHtbGlob_at_def TcHtbGlob_Serialize_def tc_sizes tc_read split: if_splits)

subsection \<open>TcU32Key\<close>

record TcU32Key =
  uk_Mask :: u32
  uk_Val :: u32
  uk_Off :: u32
  uk_OffMask :: u32

definition SizeofTcU32Key :: nat where [tc_sizes]: "SizeofTcU32Key = 0x10"

definition TcU32Key_Len :: "TcU32Key \<Rightarrow> nat" where [tc_sizes]: "TcU32Key_Len msg = SizeofTcU32Key"

definition TcU32Key_Serialize :: "TcU32Key \<Rightarrow> bytes" where [tc_enc]:
  "TcU32Key_Serialize x =
     le32 (uk_Mask x) @ le32 (uk_Val x) @ le32 (uk_Off x) @ le32 (uk_OffMask x)"

definition TcU32Key_at :: "nat \<Rightarrow> bytes \<Rightarrow> TcU32Key" where [tc_dec]:
  "TcU32Key_at n b =
     \<lparr>uk_Mask = ru32 n b, uk_Val = ru32 (n + 4) b, uk_Off = ru32 (n + 8) b, uk_OffMask = ru32 (n + 12) b\<rparr>"

definition DeserializeTcU32Key :: "bytes \<Rightarrow> TcU32Key outcome" where
  "DeserializeTcU32Key b = (if length b < SizeofTcU32Key then Panic SliceBounds else Done (TcU32Key_at 0 b))"

interpretation uk_codec: tc_codec "(\<lambda>x. True)" SizeofTcU32Key TcU32Key_Serialize DeserializeTcU32Key
  by unfold_locales (auto simp: DeserializeTcU32Key_def TcU32Key_at_def TcU32Key_Serialize_def tc_sizes tc_read split: if_splits)

subsection \<open>TcGen\<close>

record TcGen =
  tg_Index :: u32
  tg_Capab :: u32
  tg_Action :: u32
  tg_Refcnt :: u32
  tg_Bindcnt :: u32

definition SizeofTcGen :: nat where [tc_sizes]: "SizeofTcGen = 0x14"

definition TcGen_Len :: "TcGen \<Rightarrow> nat" where [tc_sizes]: "TcGen_Len msg = SizeofTcGen"

definition TcGen_Serialize :: "TcGen \<Rightarrow> bytes" where [tc_enc]:
  "TcGen_Serialize x =
     le32 (tg_Index x) @ le32 (tg_Capab x) @ le32 (tg_Action x) @ le32 (tg_Refcnt x) @ le32 (tg_Bindcnt x)"

definition TcGen_at :: "nat \<Rightarrow> bytes \<Rightarrow> TcGen" where [tc_dec]:
  "TcGen_at n b =
     \<lparr>tg_Index = ru32 n b, tg_Capab = ru32 (n + 4) b, tg_Action = ru32 (n + 8) b, tg_Refcnt = ru32 (n + 12) b,
      tg_Bindcnt = ru32 (n + 16) b\<rparr>"

definition DeserializeTcGen :: "bytes \<Rightarrow> TcGen outcome" where
  "DeserializeTcGen b = (if length b < SizeofTcGen then Panic SliceBounds else Done (TcGen_at 0 b))"

lemma TcGen_at_simps [tc_read]:
  "length xs \<le> n \<Longrightarrow> TcGen_at n (xs @ r) = TcGen_at (n - length xs) r"
  "TcGen_at 0 (TcGen_Serialize x @ r) = x"
  "length (TcGen_Serialize x) = 20"
  by (simp_all add: tc_dec tc_enc tc_read Suc_diff_le)

interpretation tg_codec: tc_codec "(\<lambda>x. True)" SizeofTcGen TcGen_Serialize DeserializeTcGen
  by unfold_locales (auto simp: DeserializeTcGen_def TcGen_at_def TcGen_Serialize_def tc_sizes tc_read split: if_splits)

subsection \<open>TcConnmark\<close>

record TcConnmark =
  cm_TcGen :: TcGen
  cm_Zone :: u16

definition SizeofTcConnmark :: nat where [tc_sizes]: "SizeofTcConnmark = SizeofTcGen + 0x04"

definition TcConnmark_Len :: "TcConnmark \<Rightarrow> nat" where [tc_sizes]: "TcConnmark_Len msg = SizeofTcConnmark"

definition TcConnmark_Serialize :: "TcConnmark \<Rightarrow> bytes" where [tc_enc]:
  "TcConnmark_Serialize x =
     TcGen_Serialize (cm_TcGen x) @ le16 (cm_Zone x) @ replicate 2 0"

definition TcConnmark_at :: "nat \<Rightarrow> bytes \<Rightarrow> TcConnmark" where [tc_dec]:
  "TcConnmark_at n b =
     \<lparr>cm_TcGen = TcGen_at n b, cm_Zone = ru16 (n + 20) b\<rparr>"

definition DeserializeTcConnmark :: "bytes \<Rightarrow> TcConnmark outcome" where
  "DeserializeTcConnmark b = (if length b < SizeofTcConnmark then Panic SliceBounds else Done (TcConnmark_at 0 b))"

interpretation cm_codec: tc_codec "(\<lambda>x. True)" SizeofTcConnmark TcConnmark_Serialize DeserializeTcConnmark
  by unfold_locales (auto simp: DeserializeTcConnmark_def TcConnmark_at_def TcConnmark_Serialize_def tc_sizes tc_read split: if_splits)

subsection \<open>TcCsum\<close>

record TcCsum =
  cs_TcGen :: TcGen
  cs_UpdateFlags :: u32

definition SizeofTcCsum :: nat where [tc_sizes]: "SizeofTcCsum = SizeofTcGen + 0x04"

definition TcCsum_Len :: "TcCsum \<Rightarrow> nat" where [tc_sizes]: "TcCsum_Len msg = SizeofTcCsum"

definition TcCsum_Serialize :: "TcCsum \<Rightarrow> bytes" where [tc_enc]:
  "TcCsum_Serialize x =
     TcGen_Serialize (cs_TcGen x) @ le32 (cs_UpdateFlags x)"

definition TcCsum_at :: "nat \<Rightarrow> bytes \<Rightarrow> TcCsum" where [tc_dec]:
  "TcCsum_at n b =
     \<lparr>cs_TcGen = TcGen_at n b, cs_UpdateFlags = ru32 (n + 20) b\<rparr>"

definition DeserializeTcCsum :: "bytes \<Rightarrow> TcCsum outcome" where
  "DeserializeTcCsum b = (if length b < SizeofTcCsum then Panic SliceBounds else Done (TcCsum_at 0 b))"

interpretation cs_codec: tc_codec "(\<lambda>x. True)" SizeofTcCsum TcCsum_Serialize DeserializeTcCsum
  by unfold_locales (auto simp: DeserializeTcCsum_def TcCsum_at_def TcCsum_Serialize_def tc_sizes tc_read split: if_splits)

subsection \<open>TcMirred\<close>

record TcMirred =
  mi_TcGen :: TcGen
  mi_Eaction :: u32
  mi_Ifindex :: u32

definition SizeofTcMirred :: nat where [tc_sizes]: "SizeofTcMirred = SizeofTcGen + 0x08"

definition TcMirred_Len :: "TcMirred \<Rightarrow> nat" where [tc_sizes]: "TcMirred_Len msg = SizeofTcMirred"

definition TcMirred_Serialize :: "TcMirred \<Rightarrow> bytes" where [tc_enc]:
  "TcMirred_Serialize x =
     TcGen_Serialize (mi_TcGen x) @ le32 (mi_Eaction x) @ le32 (mi_Ifindex x)"

definition TcMirred_at :: "nat \<Rightarrow> bytes \<Rightarrow> TcMirred" where [tc_dec]:
  "TcMirred_at n b =
     \<lparr>mi_TcGen = TcGen_at n b, mi_Eaction = ru32 (n + 20) b, mi_Ifindex = ru32 (n + 24) b\<rparr>"

definition DeserializeTcMirred :: "bytes \<Rightarrow> TcMirred outcome" where
  "DeserializeTcMirred b = (if length b < SizeofTcMirred then Panic SliceBounds else Done (TcMirred_at 0 b))"

interpretation mi_codec: tc_codec "(\<lambda>x. True)" SizeofTcMirred TcMirred_Serialize DeserializeTcMirred
  by unfold_locales (auto simp: DeserializeTcMirred_def TcMirred_at_def TcMirred_Serialize_def tc_sizes tc_read split: if_splits)

subsection \<open>TcTunnelKey\<close>

record TcTunnelKey =
  tk_TcGen :: TcGen
  tk_Action :: u32

definition SizeofTcTunnelKey :: nat where [tc_sizes]: "SizeofTcTunnelKey = SizeofTcGen + 0x04"

definition TcTunnelKey_Len :: "TcTunnelKey \<Rightarrow> nat" where [tc_sizes]: "TcTunnelKey_Len msg = SizeofTcTunnelKey"

definition TcTunnelKey_Serialize :: "TcTunnelKey \<Rightarrow> bytes" where [tc_enc]:
  "TcTunnelKey_Serialize x =
     TcGen_Serialize (tk_TcGen x) @ le32 (tk_Action x)"

definition TcTunnelKey_at :: "nat \<Rightarrow> bytes \<Rightarrow> TcTunnelKey" where [tc_dec]:
  "TcTunnelKey_at n b =
     \<lparr>tk_TcGen = TcGen_at n b, tk_Action = ru32 (n + 20) b\<rparr>"

definition DeserializeTunnelKey :: "bytes \<Rightarrow> TcTunnelKey outcome" where
  "DeserializeTunnelKey b = (if length b < SizeofTcTunnelKey then Panic SliceBounds else Done (TcTunnelKey_at 0 b))"

interpretation tk_codec: tc_codec "(\<lambda>x. True)" SizeofTcTunnelKey TcTunnelKey_Serialize DeserializeTunnelKey
  by unfold_locales (auto simp: DeserializeTunnelKey_def TcTunnelKey_at_def TcTunnelKey_Serialize_def tc_sizes tc_read split: if_splits)

subsection \<open>TcSkbEdit\<close>

record TcSkbEdit =
  se_TcGen :: TcGen

definition SizeofTcSkbEdit :: nat where [tc_sizes]: "SizeofTcSkbEdit = SizeofTcGen"

definition TcSkbEdit_Len :: "TcSkbEdit \<Rightarrow> nat" where [tc_sizes]: "TcSkbEdit_Len msg = SizeofTcSkbEdit"

definition TcSkbEdit_Serialize :: "TcSkbEdit \<Rightarrow> bytes" where [tc_enc]:
  "TcSkbEdit_Serialize x =
     TcGen_Serialize (se_TcGen x)"

definition TcSkbEdit_at :: "nat \<Rightarrow> bytes \<Rightarrow> TcSkbEdit" where [tc_dec]:
  "TcSkbEdit_at n b =
     \<lparr>se_TcGen = TcGen_at n b\<rparr>"

definition DeserializeSkbEdit :: "bytes \<Rightarrow> TcSkbEdit outcome" where
  "DeserializeSkbEdit b = (if length b < SizeofTcSkbEdit then Panic SliceBounds else Done (TcSkbEdit_at 0 b))"

interpretation se_codec: tc_codec "(\<lambda>x. True)" SizeofTcSkbEdit TcSkbEdit_Serialize DeserializeSkbEdit
  by unfold_locales (auto simp: DeserializeSkbEdit_def TcSkbEdit_at_def TcSkbEdit_Serialize_def tc_sizes tc_read split: if_splits)

subsection \<open>TcPolice\<close>

record TcPolice =
  po_Index :: u32
  po_Action :: u32
  po_Limit :: u32
  po_Burst :: u32
  po_Mtu :: u32
  po_Rate :: TcRateSpec
  po_PeakRate :: TcRateSpec
  po_Refcnt :: u32
  po_Bindcnt :: u32
  po_Capab :: u32

definition SizeofTcPolice :: nat where [tc_sizes]: "SizeofTcPolice = 2 * SizeofTcRateSpec + 0x20"

definition TcPolice_Len :: "TcPolice \<Rightarrow> nat" where [tc_sizes]: "TcPolice_Len msg = SizeofTcPolice"

definition TcPolice_Serialize :: "TcPolice \<Rightarrow> bytes" where [tc_enc]:
  "TcPolice_Serialize x =
     le32 (po_Index x) @ le32 (po_Action x) @ le32 (po_Limit x) @ le32 (po_Burst x) @ le32 (po_Mtu x) @
     TcRateSpec_Serialize (po_Rate x) @ TcRateSpec_Serialize (po_PeakRate x) @ le32 (po_Refcnt x) @
     le32 (po_Bindcnt x) @ le32 (po_Capab x)"

definition TcPolice_at :: "nat \<Rightarrow> bytes \<Rightarrow> TcPolice" where [tc_dec]:
  "TcPolice_at n b =
     \<lparr>po_Index = ru32 n b, po_Action = ru32 (n + 4) b, po_Limit = ru32 (n + 8) b, po_Burst = ru32 (n + 12) b,
      po_Mtu = ru32 (n + 16) b, po_Rate = TcRateSpec_at (n + 20) b, po_PeakRate = TcRateSpec_at (n + 32) b,
      po_Refcnt = ru32 (n + 44) b, po_Bindcnt = ru32 (n + 48) b, po_Capab = ru32 (n + 52) b\<rparr>"

definition DeserializeTcPolice :: "bytes \<Rightarrow> TcPolice outcome" where
  "DeserializeTcPolice b = (if length b < SizeofTcPolice then Panic SliceBounds else Done (TcPolice_at 0 b))"

interpretation po_codec: tc_codec "(\<lambda>x. True)" SizeofTcPolice TcPolice_Serialize DeserializeTcPolice
  by unfold_locales (auto simp: DeserializeTcPolice_def TcPolice_at_def TcPolice_Serialize_def tc_sizes tc_read split: if_splits)

subsection \<open>TcSfqRedStats\<close>

record TcSfqRedStats =
  sr_ProbDrop :: u32
  sr_ForcedDrop :: u32
  sr_ProbMark :: u32
  sr_ForcedMark :: u32
  sr_ProbMarkHead :: u32
  sr_ForcedMarkHead :: u32

definition SizeofTcSfqRedStats :: nat where [tc_sizes]: "SizeofTcSfqRedStats = 0x18"

definition TcSfqRedStats_Len :: "TcSfqRedStats \<Rightarrow> nat" where [tc_sizes]: "TcSfqRedStats_Len msg = SizeofTcSfqRedStats"

definition TcSfqRedStats_Serialize :: "TcSfqRedStats \<Rightarrow> bytes" where [tc_enc]:
  "TcSfqRedStats_Serialize x =
     le32 (sr_ProbDrop x) @ le32 (sr_ForcedDrop x) @ le32 (sr_ProbMark x) @ le32 (sr_ForcedMark x) @
     le32 (sr_ProbMarkHead x) @ le32 (sr_ForcedMarkHead x)"

definition TcSfqRedStats_at :: "nat \<Rightarrow> bytes \<Rightarrow> TcSfqRedStats" where [tc_dec]:
  "TcSfqRedStats_at n b =
     \<lparr>sr_ProbDrop = ru32 n b, sr_ForcedDrop = ru32 (n + 4) b, sr_ProbMark = ru32 (n + 8) b,
      sr_ForcedMark = ru32 (n + 12) b, sr_ProbMarkHead = ru32 (n + 16) b, sr_ForcedMarkHead = ru32 (n + 20) b\<rparr>"

definition DeserializeTcSfqRedStats :: "bytes \<Rightarrow> TcSfqRedStats outcome" where
  "DeserializeTcSfqRedStats b = (if length b < SizeofTcSfqRedStats then Panic SliceBounds else Done (TcSfqRedStats_at 0 b))"

interpretation sr_codec: tc_codec "(\<lambda>x. True)" SizeofTcSfqRedStats TcSfqRedStats_Serialize DeserializeTcSfqRedStats
  by unfold_locales (auto simp: DeserializeTcSfqRedStats_def TcSfqRedStats_at_def TcSfqRedStats_Serialize_def tc_sizes tc_read split: if_splits)

section \<open>Curves of HFSC\<close>

record Curve =
  cv_m1 :: u32
  cv_d :: u32
  cv_m2 :: u32

record HfscCopt =
  hf_Rsc :: Curve
  hf_Fsc :: Curve
  hf_Usc :: Curve

definition Curve_Attrs :: "Curve \<Rightarrow> u32 \<times> u32 \<times> u32" where
  "Curve_Attrs c = (cv_m1 c, cv_d c, cv_m2 c)"

definition Curve_Set :: "Curve \<Rightarrow> u32 \<Rightarrow> u32 \<Rightarrow> u32 \<Rightarrow> Curve" where
  "Curve_Set c m1 d m2 = c\<lparr>cv_m1 := m1, cv_d := d, cv_m2 := m2\<rparr>"

definition DeserializeHfscCurve :: "bytes \<Rightarrow> Curve outcome" where
  "DeserializeHfscCurve b =
     (if length b < 12 then Panic SliceBounds
      else Done \<lparr>cv_m1 = ru32 0 b, cv_d = ru32 4 b, cv_m2 = ru32 8 b\<rparr>)"

definition SerializeHfscCurve :: "Curve \<Rightarrow> bytes" where
  "SerializeHfscCurve c = le32 (cv_m1 c) @ le32 (cv_d c) @ le32 (cv_m2 c)"

interpretation cv_codec: tc_codec "\<lambda>x. True" 12 SerializeHfscCurve DeserializeHfscCurve
  by unfold_locales (auto simp: DeserializeHfscCurve_def SerializeHfscCurve_def tc_read)

record TcHfscOpt =
  ho_Defcls :: u16

definition TcHfscOpt_Serialize :: "TcHfscOpt \<Rightarrow> bytes" where
  "TcHfscOpt_Serialize x = le16 (ho_Defcls x)"

section \<open>Selectors of u32 filters\<close>

record TcU32Sel =
  us_Flags :: u8
  us_Offshift :: u8
  us_Nkeys :: u8
  us_Pad :: u8
  us_Offmask :: u16
  us_Off :: u16
  us_Offoff :: u16
  us_Hoff :: u16
  us_Hmask :: u32
  us_Keys :: "TcU32Key list"

definition SizeofTcU32Sel :: nat where [tc_sizes]: "SizeofTcU32Sel = 0x10"

definition TcU32Sel_Len :: "TcU32Sel \<Rightarrow> nat" where [tc_sizes]:
  "TcU32Sel_Len msg = SizeofTcU32Sel + unat (us_Nkeys msg) * SizeofTcU32Key"

definition sel_header :: "TcU32Sel \<Rightarrow> bytes" where
  "sel_header x = le8 (us_Flags x) @ le8 (us_Offshift x) @ le8 (us_Nkeys x) @ le8 (us_Pad x) @ le16 (us_Offmask x)
     @ le16 (us_Off x) @ le16 (us_Offoff x) @ le16 (us_Hoff x) @ le32 (us_Hmask x)"

definition sel_header_at :: "bytes \<Rightarrow> TcU32Sel" where
  "sel_header_at b = \<lparr>us_Flags = ru8 0 b, us_Offshift = ru8 1 b, us_Nkeys = ru8 2 b, us_Pad = ru8 3 b, us_Offmask = ru16 4 b,
     us_Off = ru16 6 b, us_Offoff = ru16 8 b, us_Hoff = ru16 10 b, us_Hmask = ru32 12 b, us_Keys = []\<rparr>"

fun read_keys :: "nat \<Rightarrow> nat \<Rightarrow> bytes \<Rightarrow> TcU32Key list outcome" where
  "read_keys 0 off b = Done []"
| "read_keys (Suc n) off b =
     (if length b < off then Panic SliceBounds
      else obind (DeserializeTcU32Key (drop off b)) (\<lambda>k. obind (read_keys n (off + SizeofTcU32Key) b) (\<lambda>ks. Done (k # ks))))"

text \<open>The header is copied into a zeroed struct, so a short input is filled up with zeros.\<close>

definition DeserializeTcU32Sel :: "bytes \<Rightarrow> TcU32Sel outcome" where
  "DeserializeTcU32Sel b =
     (let x = sel_header_at (take SizeofTcU32Sel (b @ replicate SizeofTcU32Sel 0))
      in obind (read_keys (unat (us_Nkeys x)) SizeofTcU32Sel b) (\<lambda>ks. Done (x\<lparr>us_Keys := ks\<rparr>)))"

fun write_keys :: "nat \<Rightarrow> TcU32Key list \<Rightarrow> bytes \<Rightarrow> bytes outcome" where
  "write_keys off [] buf = Done buf"
| "write_keys off (k # ks) buf =
     obind (copy_at off (TcU32Key_Serialize k) buf) (\<lambda>buf. write_keys (off + SizeofTcU32Key) ks buf)"

text \<open>The buffer has room for the number of keys in the header, whatever the list of keys is.\<close>

definition TcU32Sel_Serialize :: "TcU32Sel \<Rightarrow> bytes outcome" where
  "TcU32Sel_Serialize x =
     obind (copy_at 0 (sel_header x) (replicate (TcU32Sel_Len x) 0)) (\<lambda>buf. write_keys SizeofTcU32Sel (us_Keys x) buf)"

lemma length_sel_header [simp]: "length (sel_header x) = 16"
  by (simp add: sel_header_def)

lemma length_key [simp]: "length (TcU32Key_Serialize k) = 16"
  using uk_codec.enc_length by (simp add: tc_sizes)

lemma length_keys: "length (concat (map TcU32Key_Serialize ks)) = 16 * length ks"
  by (induction ks) simp_all

lemma write_keys_wire:
  "length ks \<le> n \<Longrightarrow> write_keys (length pre) ks (pre @ replicate (16 * n) 0) =
     Done (pre @ concat (map TcU32Key_Serialize ks) @ replicate (16 * (n - length ks)) 0)"
proof (induction ks arbitrary: pre n)
  case (Cons k ks)
  then obtain m where n: "n = Suc m" by (cases n) auto
  have "copy_at (length pre) (TcU32Key_Serialize k) (pre @ replicate (16 * n) 0) =
      Done ((pre @ TcU32Key_Serialize k) @ replicate (16 * m) 0)"
    using copy_at_zeros [of "TcU32Key_Serialize k" "16 * n" pre] by (simp add: n)
  then show ?case using Cons.IH [of m "pre @ TcU32Key_Serialize k"] Cons.prems by (simp add: n tc_sizes)
qed simp

lemma read_keys_wire:
  "read_keys (length ks) (length pre) (pre @ concat (map TcU32Key_Serialize ks) @ r) = Done ks"
proof (induction ks arbitrary: pre)
  case (Cons k ks)
  have "read_keys (length ks) (length pre + 16) (pre @ TcU32Key_Serialize k @ concat (map TcU32Key_Serialize ks) @ r) = Done ks"
    using Cons [of "pre @ TcU32Key_Serialize k"] by simp
  then show ?case using uk_codec.dec_enc [of k] by (simp add: tc_sizes)
qed simp

lemma sel_header_read: "sel_header_at (sel_header x @ r) = x\<lparr>us_Keys := []\<rparr>"
  by (simp add: sel_header_at_def sel_header_def tc_read)

text \<open>A selector whose key count is right survives the round trip.\<close>

lemma TcU32Sel_roundtrip:
  assumes "unat (us_Nkeys x) = length (us_Keys x)"
  shows "\<exists>b. TcU32Sel_Serialize x = Done b \<and> length b = TcU32Sel_Len x \<and> DeserializeTcU32Sel (b @ r) = Done x"
proof (intro exI conjI)
  let ?b = "sel_header x @ concat (map TcU32Key_Serialize (us_Keys x))"
  have "copy_at 0 (sel_header x) (replicate (TcU32Sel_Len x) 0) = Done (sel_header x @ replicate (16 * length (us_Keys x)) 0)"
    using copy_at_zeros [of "sel_header x" "TcU32Sel_Len x" "[]"] assms by (simp add: tc_sizes)
  then show "TcU32Sel_Serialize x = Done ?b"
    using write_keys_wire [of "us_Keys x" "length (us_Keys x)" "sel_header x"] by (simp add: TcU32Sel_Serialize_def tc_sizes)
  show "length ?b = TcU32Sel_Len x" using assms by (simp add: length_keys tc_sizes)
  have "sel_header_at (take 16 ((?b @ r) @ replicate 16 0)) = x\<lparr>us_Keys := []\<rparr>"
    using sel_header_read [of x "[]"] by simp
  then show "DeserializeTcU32Sel (?b @ r) = Done x"
    using read_keys_wire [of "us_Keys x" "sel_header x" r] assms by (simp add: DeserializeTcU32Sel_def tc_sizes)
qed

section \<open>The options of SFQ\<close>

text \<open>
  The Go struct has one byte for \<open>Quantum\<close>, \<open>Divisor\<close> and \<open>Flows\<close>, where the kernel has four, and is
  laid out with padding in 16 bytes, of which \<open>Serialize\<close> returns the first \<open>0x0b\<close>.
\<close>

record TcSfqQopt =
  sq_Quantum :: u8
  sq_Perturb :: u32
  sq_Limit :: u32
  sq_Divisor :: u8
  sq_Flows :: u8

definition SizeofTcSfqQopt :: nat where [tc_sizes]: "SizeofTcSfqQopt = 0x0b"

definition TcSfqQopt_Len :: "TcSfqQopt \<Rightarrow> nat" where [tc_sizes]: "TcSfqQopt_Len x = SizeofTcSfqQopt"

definition sfq_layout :: "TcSfqQopt \<Rightarrow> bytes" where
  "sfq_layout x = le8 (sq_Quantum x) @ replicate 3 0 @ le32 (sq_Perturb x) @ le32 (sq_Limit x) @ le8 (sq_Divisor x)
     @ le8 (sq_Flows x) @ replicate 2 0"

definition TcSfqQopt_Serialize :: "TcSfqQopt \<Rightarrow> bytes" where
  "TcSfqQopt_Serialize x = take SizeofTcSfqQopt (sfq_layout x)"

text \<open>The number of flows and the divisor are not among the bytes that are sent.\<close>

lemma TcSfqQopt_Serialize_drops: "TcSfqQopt_Serialize (x\<lparr>sq_Divisor := d, sq_Flows := f\<rparr>) = TcSfqQopt_Serialize x"
  by (simp add: TcSfqQopt_Serialize_def sfq_layout_def le8_def le32_def tc_sizes eval_nat_numeral)

end
