(* ===== verification/NlLinkTypes.thy ===== *)
theory NlLinkTypes
  imports Go_Net NlTc
begin

text \<open>
  Links as \<open>pkg/github.com/vishvananda/netlink/link.go\<close> presents them: the attributes that all links
  share, and the interface \<open>Link\<close> as a datatype with a constructor for every Go type. A struct that
  embeds \<open>LinkAttrs\<close> is the constructor applied to the attributes and to a record of the fields of its
  own; \<open>Xfrmi\<close> and \<open>Vrf\<close> have one such field. A nil \<open>net.IP\<close> or \<open>net.HardwareAddr\<close> is \<open>None\<close>.
  Named integer types are words of their width, and \<open>int\<close> is \<open>int\<close>. Of \<open>Bond\<close> the field \<open>AdInfo\<close>, which no
  code sets or reads, is left out.
\<close>

section \<open>Shared attributes\<close>

datatype namespace = NsPid int | NsFd int

text \<open>
  The 23 counters of \<open>LinkStatistics\<close>, in the order of the struct: received and sent packets and bytes,
  errors, drops, and so on. \<open>LinkStatistics32\<close> has the same counters with 32 bits; \<open>to64\<close> widens each one.
\<close>

type_synonym LinkStatistics = "u64 list"

definition to64 :: "u32 list \<Rightarrow> LinkStatistics" where
  "to64 s32 = map ucast s32"

record LinkXdp =
  xd_Fd :: int
  xd_Attached :: bool
  xd_AttachMode :: u32
  xd_Flags :: u32
  xd_ProgId :: u32

record Protinfo =
  pi_Hairpin :: bool
  pi_Guard :: bool
  pi_FastLeave :: bool
  pi_RootBlock :: bool
  pi_Learning :: bool
  pi_Flood :: bool
  pi_ProxyArp :: bool
  pi_ProxyArpWiFi :: bool

record VfInfo =
  vf_ID :: int
  vf_Mac :: net_ip
  vf_Vlan :: int
  vf_Qos :: int
  vf_TxRate :: int
  vf_Spoofchk :: bool
  vf_LinkState :: u32
  vf_MaxTxRate :: u32
  vf_MinTxRate :: u32
  vf_RxPackets :: u64
  vf_TxPackets :: u64
  vf_RxBytes :: u64
  vf_TxBytes :: u64
  vf_Multicast :: u64
  vf_Broadcast :: u64
  vf_RxDropped :: u64
  vf_TxDropped :: u64
  vf_RssQuery :: u32
  vf_Trust :: u32

record BondSlave =
  bs_State :: u8
  bs_MiiStatus :: u8
  bs_LinkFailureCount :: u32
  bs_PermHardwareAddr :: net_ip
  bs_QueueId :: u16
  bs_AggregatorId :: u16
  bs_AdActorOperPortState :: u8
  bs_AdPartnerOperPortState :: u16

datatype LinkSlave = SBond BondSlave | SVrf u32

fun SlaveType :: "LinkSlave \<Rightarrow> string" where
  "SlaveType (SBond b) = ''bond''"
| "SlaveType (SVrf t) = ''vrf''"

record LinkAttrs =
  la_Index :: int
  la_MTU :: int
  la_TxQLen :: int
  la_Name :: string
  la_HardwareAddr :: net_ip
  la_Flags :: u64
  la_RawFlags :: u32
  la_ParentIndex :: int
  la_MasterIndex :: int
  la_Namespace :: "namespace option"
  la_Alias :: string
  la_Statistics :: "LinkStatistics option"
  la_Promisc :: int
  la_Allmulti :: int
  la_Multi :: int
  la_Xdp :: "LinkXdp option"
  la_EncapType :: string
  la_Protinfo :: "Protinfo option"
  la_OperState :: u8
  la_PhysSwitchID :: int
  la_NetNsID :: int
  la_NumTxQueues :: int
  la_NumRxQueues :: int
  la_GSOMaxSize :: u32
  la_GSOMaxSegs :: u32
  la_Vfs :: "VfInfo list"
  la_Group :: u32
  la_Slave :: "LinkSlave option"

definition zeroLinkAttrs :: LinkAttrs where
  "zeroLinkAttrs = \<lparr>la_Index = 0, la_MTU = 0, la_TxQLen = 0, la_Name = [], la_HardwareAddr = None, la_Flags = 0, la_RawFlags = 0,
     la_ParentIndex = 0, la_MasterIndex = 0, la_Namespace = None, la_Alias = [], la_Statistics = None, la_Promisc = 0, la_Allmulti = 0,
     la_Multi = 0, la_Xdp = None, la_EncapType = [], la_Protinfo = None, la_OperState = 0, la_PhysSwitchID = 0, la_NetNsID = 0,
     la_NumTxQueues = 0, la_NumRxQueues = 0, la_GSOMaxSize = 0, la_GSOMaxSegs = 0, la_Vfs = [], la_Group = 0, la_Slave = None\<rparr>"

definition NewLinkAttrs :: LinkAttrs where
  "NewLinkAttrs = zeroLinkAttrs\<lparr>la_NetNsID := - 1, la_TxQLen := - 1\<rparr>"

definition LinkOperState_String :: "u8 \<Rightarrow> string" where
  "LinkOperState_String s =
     (if s = 1 then ''not-present'' else if s = 2 then ''down'' else if s = 3 then ''lower-layer-down'' else if s = 4 then ''testing''
      else if s = 5 then ''dormant'' else if s = 6 then ''up'' else ''unknown'')"

section \<open>Kinds of links\<close>

record BridgeData =
  br_MulticastSnooping :: "bool option"
  br_AgeingTime :: "u32 option"
  br_HelloTime :: "u32 option"
  br_VlanFiltering :: "bool option"

definition zeroBridge :: BridgeData where
  "zeroBridge = \<lparr>br_MulticastSnooping = None, br_AgeingTime = None, br_HelloTime = None, br_VlanFiltering = None\<rparr>"

record VlanData =
  vl_VlanId :: int
  vl_VlanProtocol :: int

definition zeroVlan :: VlanData where
  "zeroVlan = \<lparr>vl_VlanId = 0, vl_VlanProtocol = 0\<rparr>"

record MacvlanData =
  mv_Mode :: u16
  mv_MACAddrs :: "bytes list"

definition zeroMacvlan :: MacvlanData where
  "zeroMacvlan = \<lparr>mv_Mode = 0, mv_MACAddrs = []\<rparr>"

record TuntapData =
  tt_Mode :: u16
  tt_Flags :: u16
  tt_NonPersist :: bool
  tt_Queues :: int
  tt_Fds :: "int list"
  tt_Owner :: u32
  tt_Group :: u32

definition zeroTuntap :: TuntapData where
  "zeroTuntap = \<lparr>tt_Mode = 0, tt_Flags = 0, tt_NonPersist = False, tt_Queues = 0, tt_Fds = [], tt_Owner = 0,
     tt_Group = 0\<rparr>"

record VethData =
  ve_PeerName :: string
  ve_PeerHardwareAddr :: net_ip
  ve_PeerNamespace :: "namespace option"

definition zeroVeth :: VethData where
  "zeroVeth = \<lparr>ve_PeerName = [], ve_PeerHardwareAddr = None, ve_PeerNamespace = None\<rparr>"

record VxlanData =
  vx_VxlanId :: int
  vx_VtepDevIndex :: int
  vx_SrcAddr :: net_ip
  vx_Group :: net_ip
  vx_TTL :: int
  vx_TOS :: int
  vx_Learning :: bool
  vx_Proxy :: bool
  vx_RSC :: bool
  vx_L2miss :: bool
  vx_L3miss :: bool
  vx_UDPCSum :: bool
  vx_UDP6ZeroCSumTx :: bool
  vx_UDP6ZeroCSumRx :: bool
  vx_NoAge :: bool
  vx_GBP :: bool
  vx_FlowBased :: bool
  vx_Age :: int
  vx_Limit :: int
  vx_Port :: int
  vx_PortLow :: int
  vx_PortHigh :: int

definition zeroVxlan :: VxlanData where
  "zeroVxlan = \<lparr>vx_VxlanId = 0, vx_VtepDevIndex = 0, vx_SrcAddr = None, vx_Group = None, vx_TTL = 0, vx_TOS = 0,
     vx_Learning = False, vx_Proxy = False, vx_RSC = False, vx_L2miss = False, vx_L3miss = False, vx_UDPCSum = False,
     vx_UDP6ZeroCSumTx = False, vx_UDP6ZeroCSumRx = False, vx_NoAge = False, vx_GBP = False, vx_FlowBased = False,
     vx_Age = 0, vx_Limit = 0, vx_Port = 0, vx_PortLow = 0, vx_PortHigh = 0\<rparr>"

record IPVlanData =
  iv_Mode :: u16
  iv_Flag :: u16

definition zeroIPVlan :: IPVlanData where
  "zeroIPVlan = \<lparr>iv_Mode = 0, iv_Flag = 0\<rparr>"

record BondData =
  bo_Mode :: int
  bo_ActiveSlave :: int
  bo_Miimon :: int
  bo_UpDelay :: int
  bo_DownDelay :: int
  bo_UseCarrier :: int
  bo_ArpInterval :: int
  bo_ArpIpTargets :: "bytes list option"
  bo_ArpValidate :: int
  bo_ArpAllTargets :: int
  bo_Primary :: int
  bo_PrimaryReselect :: int
  bo_FailOverMac :: int
  bo_XmitHashPolicy :: int
  bo_ResendIgmp :: int
  bo_NumPeerNotif :: int
  bo_AllSlavesActive :: int
  bo_MinLinks :: int
  bo_LpInterval :: int
  bo_PacketsPerSlave :: int
  bo_LacpRate :: int
  bo_AdSelect :: int
  bo_AdActorSysPrio :: int
  bo_AdUserPortKey :: int
  bo_AdActorSystem :: net_ip
  bo_TlbDynamicLb :: int

definition zeroBond :: BondData where
  "zeroBond = \<lparr>bo_Mode = 0, bo_ActiveSlave = 0, bo_Miimon = 0, bo_UpDelay = 0, bo_DownDelay = 0,
     bo_UseCarrier = 0, bo_ArpInterval = 0, bo_ArpIpTargets = None, bo_ArpValidate = 0, bo_ArpAllTargets = 0,
     bo_Primary = 0, bo_PrimaryReselect = 0, bo_FailOverMac = 0, bo_XmitHashPolicy = 0, bo_ResendIgmp = 0,
     bo_NumPeerNotif = 0, bo_AllSlavesActive = 0, bo_MinLinks = 0, bo_LpInterval = 0, bo_PacketsPerSlave = 0,
     bo_LacpRate = 0, bo_AdSelect = 0, bo_AdActorSysPrio = 0, bo_AdUserPortKey = 0, bo_AdActorSystem = None,
     bo_TlbDynamicLb = 0\<rparr>"

record GeneveData =
  gn_ID :: u32
  gn_Remote :: net_ip
  gn_Ttl :: u8
  gn_Tos :: u8
  gn_Dport :: u16
  gn_UdpCsum :: u8
  gn_UdpZeroCsum6Tx :: u8
  gn_UdpZeroCsum6Rx :: u8
  gn_Link :: u32
  gn_FlowBased :: bool

definition zeroGeneve :: GeneveData where
  "zeroGeneve = \<lparr>gn_ID = 0, gn_Remote = None, gn_Ttl = 0, gn_Tos = 0, gn_Dport = 0, gn_UdpCsum = 0,
     gn_UdpZeroCsum6Tx = 0, gn_UdpZeroCsum6Rx = 0, gn_Link = 0, gn_FlowBased = False\<rparr>"

record GretapData =
  gt_IKey :: u32
  gt_OKey :: u32
  gt_EncapSport :: u16
  gt_EncapDport :: u16
  gt_Local :: net_ip
  gt_Remote :: net_ip
  gt_IFlags :: u16
  gt_OFlags :: u16
  gt_PMtuDisc :: u8
  gt_Ttl :: u8
  gt_Tos :: u8
  gt_EncapType :: u16
  gt_EncapFlags :: u16
  gt_Link :: u32
  gt_FlowBased :: bool

definition zeroGretap :: GretapData where
  "zeroGretap = \<lparr>gt_IKey = 0, gt_OKey = 0, gt_EncapSport = 0, gt_EncapDport = 0, gt_Local = None,
     gt_Remote = None, gt_IFlags = 0, gt_OFlags = 0, gt_PMtuDisc = 0, gt_Ttl = 0, gt_Tos = 0, gt_EncapType = 0,
     gt_EncapFlags = 0, gt_Link = 0, gt_FlowBased = False\<rparr>"

record IptunData =
  ip_Ttl :: u8
  ip_Tos :: u8
  ip_PMtuDisc :: u8
  ip_Link :: u32
  ip_Local :: net_ip
  ip_Remote :: net_ip
  ip_EncapSport :: u16
  ip_EncapDport :: u16
  ip_EncapType :: u16
  ip_EncapFlags :: u16
  ip_FlowBased :: bool
  ip_Proto :: u8

definition zeroIptun :: IptunData where
  "zeroIptun = \<lparr>ip_Ttl = 0, ip_Tos = 0, ip_PMtuDisc = 0, ip_Link = 0, ip_Local = None, ip_Remote = None,
     ip_EncapSport = 0, ip_EncapDport = 0, ip_EncapType = 0, ip_EncapFlags = 0, ip_FlowBased = False, ip_Proto = 0\<rparr>"

record Ip6tnlData =
  i6_Link :: u32
  i6_Local :: net_ip
  i6_Remote :: net_ip
  i6_Ttl :: u8
  i6_Tos :: u8
  i6_Flags :: u32
  i6_Proto :: u8
  i6_FlowInfo :: u32
  i6_EncapLimit :: u8
  i6_EncapType :: u16
  i6_EncapFlags :: u16
  i6_EncapSport :: u16
  i6_EncapDport :: u16

definition zeroIp6tnl :: Ip6tnlData where
  "zeroIp6tnl = \<lparr>i6_Link = 0, i6_Local = None, i6_Remote = None, i6_Ttl = 0, i6_Tos = 0, i6_Flags = 0,
     i6_Proto = 0, i6_FlowInfo = 0, i6_EncapLimit = 0, i6_EncapType = 0, i6_EncapFlags = 0, i6_EncapSport = 0,
     i6_EncapDport = 0\<rparr>"

record SittunData =
  st_Link :: u32
  st_Ttl :: u8
  st_Tos :: u8
  st_PMtuDisc :: u8
  st_Proto :: u8
  st_Local :: net_ip
  st_Remote :: net_ip
  st_EncapLimit :: u8
  st_EncapType :: u16
  st_EncapFlags :: u16
  st_EncapSport :: u16
  st_EncapDport :: u16

definition zeroSittun :: SittunData where
  "zeroSittun = \<lparr>st_Link = 0, st_Ttl = 0, st_Tos = 0, st_PMtuDisc = 0, st_Proto = 0, st_Local = None,
     st_Remote = None, st_EncapLimit = 0, st_EncapType = 0, st_EncapFlags = 0, st_EncapSport = 0, st_EncapDport = 0\<rparr>"

record VtiData =
  vt_IKey :: u32
  vt_OKey :: u32
  vt_Link :: u32
  vt_Local :: net_ip
  vt_Remote :: net_ip

definition zeroVti :: VtiData where
  "zeroVti = \<lparr>vt_IKey = 0, vt_OKey = 0, vt_Link = 0, vt_Local = None, vt_Remote = None\<rparr>"

record GretunData =
  gr_Link :: u32
  gr_IFlags :: u16
  gr_OFlags :: u16
  gr_IKey :: u32
  gr_OKey :: u32
  gr_Local :: net_ip
  gr_Remote :: net_ip
  gr_Ttl :: u8
  gr_Tos :: u8
  gr_PMtuDisc :: u8
  gr_EncapType :: u16
  gr_EncapFlags :: u16
  gr_EncapSport :: u16
  gr_EncapDport :: u16

definition zeroGretun :: GretunData where
  "zeroGretun = \<lparr>gr_Link = 0, gr_IFlags = 0, gr_OFlags = 0, gr_IKey = 0, gr_OKey = 0, gr_Local = None,
     gr_Remote = None, gr_Ttl = 0, gr_Tos = 0, gr_PMtuDisc = 0, gr_EncapType = 0, gr_EncapFlags = 0, gr_EncapSport = 0,
     gr_EncapDport = 0\<rparr>"

record CanData =
  cn_BitRate :: u32
  cn_SamplePoint :: u32
  cn_TimeQuanta :: u32
  cn_PropagationSegment :: u32
  cn_PhaseSegment1 :: u32
  cn_PhaseSegment2 :: u32
  cn_SyncJumpWidth :: u32
  cn_BitRatePreScaler :: u32
  cn_Name :: string
  cn_TimeSegment1Min :: u32
  cn_TimeSegment1Max :: u32
  cn_TimeSegment2Min :: u32
  cn_TimeSegment2Max :: u32
  cn_SyncJumpWidthMax :: u32
  cn_BitRatePreScalerMin :: u32
  cn_BitRatePreScalerMax :: u32
  cn_BitRatePreScalerInc :: u32
  cn_ClockFrequency :: u32
  cn_State :: u32
  cn_Mask :: u32
  cn_Flags :: u32
  cn_TxError :: u16
  cn_RxError :: u16
  cn_RestartMs :: u32

definition zeroCan :: CanData where
  "zeroCan = \<lparr>cn_BitRate = 0, cn_SamplePoint = 0, cn_TimeQuanta = 0, cn_PropagationSegment = 0,
     cn_PhaseSegment1 = 0, cn_PhaseSegment2 = 0, cn_SyncJumpWidth = 0, cn_BitRatePreScaler = 0, cn_Name = [],
     cn_TimeSegment1Min = 0, cn_TimeSegment1Max = 0, cn_TimeSegment2Min = 0, cn_TimeSegment2Max = 0,
     cn_SyncJumpWidthMax = 0, cn_BitRatePreScalerMin = 0, cn_BitRatePreScalerMax = 0, cn_BitRatePreScalerInc = 0,
     cn_ClockFrequency = 0, cn_State = 0, cn_Mask = 0, cn_Flags = 0, cn_TxError = 0, cn_RxError = 0, cn_RestartMs = 0\<rparr>"

record GTPData =
  gp_FD0 :: int
  gp_FD1 :: int
  gp_Role :: int
  gp_PDPHashsize :: int

definition zeroGTP :: GTPData where
  "zeroGTP = \<lparr>gp_FD0 = 0, gp_FD1 = 0, gp_Role = 0, gp_PDPHashsize = 0\<rparr>"

record IPoIBData =
  ib_Pkey :: u16
  ib_Mode :: u16
  ib_Umcast :: u16

definition zeroIPoIB :: IPoIBData where
  "zeroIPoIB = \<lparr>ib_Pkey = 0, ib_Mode = 0, ib_Umcast = 0\<rparr>"

record BareUDPData =
  bu_Port :: u16
  bu_EtherType :: u16
  bu_SrcPortMin :: u16
  bu_MultiProto :: bool

definition zeroBareUDP :: BareUDPData where
  "zeroBareUDP = \<lparr>bu_Port = 0, bu_EtherType = 0, bu_SrcPortMin = 0, bu_MultiProto = False\<rparr>"

text \<open>A bond whose options are all unset, which the encoder leaves out.\<close>

definition NewLinkBond :: BondData where
  "NewLinkBond = \<lparr>bo_Mode = - 1, bo_ActiveSlave = - 1, bo_Miimon = - 1, bo_UpDelay = - 1, bo_DownDelay = - 1,
     bo_UseCarrier = - 1, bo_ArpInterval = - 1, bo_ArpIpTargets = None, bo_ArpValidate = - 1, bo_ArpAllTargets = - 1,
     bo_Primary = - 1, bo_PrimaryReselect = - 1, bo_FailOverMac = - 1, bo_XmitHashPolicy = - 1, bo_ResendIgmp = - 1,
     bo_NumPeerNotif = - 1, bo_AllSlavesActive = - 1, bo_MinLinks = - 1, bo_LpInterval = - 1, bo_PacketsPerSlave = - 1,
     bo_LacpRate = - 1, bo_AdSelect = - 1, bo_AdActorSysPrio = - 1, bo_AdUserPortKey = - 1, bo_AdActorSystem = None,
     bo_TlbDynamicLb = - 1\<rparr>"

datatype nl_link =
    Device LinkAttrs | Dummy LinkAttrs | Ifb LinkAttrs | DhcIfb LinkAttrs | Bridge LinkAttrs BridgeData
  | Vlan LinkAttrs VlanData | Macvlan LinkAttrs MacvlanData | Macvtap LinkAttrs MacvlanData
  | Tuntap LinkAttrs TuntapData | Veth LinkAttrs VethData | Wireguard LinkAttrs | GenericLink LinkAttrs string
  | Vxlan LinkAttrs VxlanData | IPVlan LinkAttrs IPVlanData | IPVtap LinkAttrs IPVlanData | Bond LinkAttrs BondData
  | Geneve LinkAttrs GeneveData | Gretap LinkAttrs GretapData | Iptun LinkAttrs IptunData
  | Ip6tnl LinkAttrs Ip6tnlData | Sittun LinkAttrs SittunData | Vti LinkAttrs VtiData | Gretun LinkAttrs GretunData
  | Vrf LinkAttrs u32 | GTP LinkAttrs GTPData | Xfrmi LinkAttrs u32 | Can LinkAttrs CanData
  | IPoIB LinkAttrs IPoIBData | BareUDP LinkAttrs BareUDPData

fun link_Attrs :: "nl_link \<Rightarrow> LinkAttrs" where
  "link_Attrs (Device a) = a"
| "link_Attrs (Dummy a) = a"
| "link_Attrs (Ifb a) = a"
| "link_Attrs (DhcIfb a) = a"
| "link_Attrs (Bridge a x) = a"
| "link_Attrs (Vlan a x) = a"
| "link_Attrs (Macvlan a x) = a"
| "link_Attrs (Macvtap a x) = a"
| "link_Attrs (Tuntap a x) = a"
| "link_Attrs (Veth a x) = a"
| "link_Attrs (Wireguard a) = a"
| "link_Attrs (GenericLink a x) = a"
| "link_Attrs (Vxlan a x) = a"
| "link_Attrs (IPVlan a x) = a"
| "link_Attrs (IPVtap a x) = a"
| "link_Attrs (Bond a x) = a"
| "link_Attrs (Geneve a x) = a"
| "link_Attrs (Gretap a x) = a"
| "link_Attrs (Iptun a x) = a"
| "link_Attrs (Ip6tnl a x) = a"
| "link_Attrs (Sittun a x) = a"
| "link_Attrs (Vti a x) = a"
| "link_Attrs (Gretun a x) = a"
| "link_Attrs (Vrf a x) = a"
| "link_Attrs (GTP a x) = a"
| "link_Attrs (Xfrmi a x) = a"
| "link_Attrs (Can a x) = a"
| "link_Attrs (IPoIB a x) = a"
| "link_Attrs (BareUDP a x) = a"

text \<open>\<open>Type\<close>: the kinds with two protocols go by the form of the local address.\<close>

fun link_Type :: "nl_link \<Rightarrow> string" where
  "link_Type (Device a) = ''device''"
| "link_Type (Dummy a) = ''dummy''"
| "link_Type (Ifb a) = ''ifb''"
| "link_Type (DhcIfb a) = ''dhcifb''"
| "link_Type (Bridge a x) = ''bridge''"
| "link_Type (Vlan a x) = ''vlan''"
| "link_Type (Macvlan a x) = ''macvlan''"
| "link_Type (Macvtap a x) = ''macvtap''"
| "link_Type (Tuntap a x) = ''tuntap''"
| "link_Type (Veth a x) = ''veth''"
| "link_Type (Wireguard a) = ''wireguard''"
| "link_Type (GenericLink a x) = x"
| "link_Type (Vxlan a x) = ''vxlan''"
| "link_Type (IPVlan a x) = ''ipvlan''"
| "link_Type (IPVtap a x) = ''ipvtap''"
| "link_Type (Bond a x) = ''bond''"
| "link_Type (Geneve a x) = ''geneve''"
| "link_Type (Gretap a x) = (if To4 (ip_bytes (gt_Local x)) = None then ''ip6gretap'' else ''gretap'')"
| "link_Type (Iptun a x) = ''ipip''"
| "link_Type (Ip6tnl a x) = ''ip6tnl''"
| "link_Type (Sittun a x) = ''sit''"
| "link_Type (Vti a x) = (if To4 (ip_bytes (vt_Local x)) = None then ''vti6'' else ''vti'')"
| "link_Type (Gretun a x) = (if To4 (ip_bytes (gr_Local x)) = None then ''ip6gre'' else ''gre'')"
| "link_Type (Vrf a x) = ''vrf''"
| "link_Type (GTP a x) = ''gtp''"
| "link_Type (Xfrmi a x) = ''xfrm''"
| "link_Type (Can a x) = ''can''"
| "link_Type (IPoIB a x) = ''ipoib''"
| "link_Type (BareUDP a x) = ''bareudp''"

text \<open>\<open>*link.Attrs() = a\<close>.\<close>

fun set_attrs :: "LinkAttrs \<Rightarrow> nl_link \<Rightarrow> nl_link" where
  "set_attrs b (Device a) = Device b"
| "set_attrs b (Dummy a) = Dummy b"
| "set_attrs b (Ifb a) = Ifb b"
| "set_attrs b (DhcIfb a) = DhcIfb b"
| "set_attrs b (Bridge a x) = Bridge b x"
| "set_attrs b (Vlan a x) = Vlan b x"
| "set_attrs b (Macvlan a x) = Macvlan b x"
| "set_attrs b (Macvtap a x) = Macvtap b x"
| "set_attrs b (Tuntap a x) = Tuntap b x"
| "set_attrs b (Veth a x) = Veth b x"
| "set_attrs b (Wireguard a) = Wireguard b"
| "set_attrs b (GenericLink a x) = GenericLink b x"
| "set_attrs b (Vxlan a x) = Vxlan b x"
| "set_attrs b (IPVlan a x) = IPVlan b x"
| "set_attrs b (IPVtap a x) = IPVtap b x"
| "set_attrs b (Bond a x) = Bond b x"
| "set_attrs b (Geneve a x) = Geneve b x"
| "set_attrs b (Gretap a x) = Gretap b x"
| "set_attrs b (Iptun a x) = Iptun b x"
| "set_attrs b (Ip6tnl a x) = Ip6tnl b x"
| "set_attrs b (Sittun a x) = Sittun b x"
| "set_attrs b (Vti a x) = Vti b x"
| "set_attrs b (Gretun a x) = Gretun b x"
| "set_attrs b (Vrf a x) = Vrf b x"
| "set_attrs b (GTP a x) = GTP b x"
| "set_attrs b (Xfrmi a x) = Xfrmi b x"
| "set_attrs b (Can a x) = Can b x"
| "set_attrs b (IPoIB a x) = IPoIB b x"
| "set_attrs b (BareUDP a x) = BareUDP b x"

abbreviation link_Name :: "nl_link \<Rightarrow> string" where "link_Name l \<equiv> la_Name (link_Attrs l)"
abbreviation link_Index :: "nl_link \<Rightarrow> int" where "link_Index l \<equiv> la_Index (link_Attrs l)"

lemma link_Attrs_set_attrs [simp]: "link_Attrs (set_attrs a l) = a"
  by (cases l) simp_all

lemma link_Type_set_attrs [simp]: "link_Type (set_attrs a l) = link_Type l"
  by (cases l) simp_all

lemma set_attrs_link_Attrs [simp]: "set_attrs (link_Attrs l) l = l" "set_attrs a (set_attrs b l) = set_attrs a l"
  by (cases l; simp)+

end
