(* ===== verification/Netlink_Types.thy ===== *)
theory Netlink_Types
  imports NlLinkTypes
begin

text \<open>
  Traffic control filters, actions and handles as the netlink library under
  \<open>pkg/github.com/vishvananda/netlink\<close> presents them: \<open>filter.go\<close>, \<open>filter_linux.go\<close>, \<open>qdisc.go\<close>. The
  interfaces \<open>Filter\<close> and \<open>Action\<close> are datatypes with a constructor for every Go type. The named
  integer types \<open>TcPolAct\<close> (\<open>int32\<close>) and \<open>TunnelKeyAct\<close> (\<open>int8\<close>) are words of their width.
\<close>

section \<open>Handles\<close>

definition HANDLE_NONE :: u32 where "HANDLE_NONE = 0"
definition HANDLE_INGRESS :: u32 where "HANDLE_INGRESS = 0xFFFFFFF1"
definition HANDLE_CLSACT :: u32 where "HANDLE_CLSACT = HANDLE_INGRESS"
definition HANDLE_ROOT :: u32 where "HANDLE_ROOT = 0xFFFFFFFF"
definition HANDLE_MIN_INGRESS :: u32 where "HANDLE_MIN_INGRESS = 0xFFFFFFF2"
definition HANDLE_MIN_EGRESS :: u32 where "HANDLE_MIN_EGRESS = 0xFFFFFFF3"

definition MakeHandle :: "u16 \<Rightarrow> u16 \<Rightarrow> u32" where
  "MakeHandle major minor = push_bit 16 (ucast major) OR ucast minor"

definition MajorMinor :: "u32 \<Rightarrow> u16 \<times> u16" where
  "MajorMinor handle = (ucast (drop_bit 16 (handle AND 0xFFFF0000)), ucast (handle AND 0xFFFFF))"

lemma MajorMinor_MakeHandle: "MajorMinor (MakeHandle a b) = (a, b)"
proof -
  have m: "(0xFFFF0000 :: u32) = push_bit 16 (mask 16)" "(0xFFFFF :: u32) = mask 20"
    by (simp_all add: mask_eq_exp_minus_1 push_bit_eq_mult)
  have "ucast (drop_bit 16 ((push_bit 16 (ucast a) OR ucast b) AND (0xFFFF0000 :: u32))) = a"
    by (rule bit_word_eqI) (auto simp: m bit_simps dest: bit_imp_le_length)
  moreover have "ucast ((push_bit 16 (ucast a) OR ucast b) AND (0xFFFFF :: u32)) = b"
    by (rule bit_word_eqI) (auto simp: m bit_simps)
  ultimately show ?thesis by (simp add: MajorMinor_def MakeHandle_def)
qed

section \<open>Actions\<close>

definition TC_ACT_UNSPEC :: int where "TC_ACT_UNSPEC = -1"
definition TC_ACT_OK :: int where "TC_ACT_OK = 0"
definition TC_ACT_PIPE :: int where "TC_ACT_PIPE = 3"
definition TC_ACT_STOLEN :: int where "TC_ACT_STOLEN = 4"
definition TC_POLICE_OK :: u32 where "TC_POLICE_OK = 0"
definition TC_POLICE_RECLASSIFY :: u32 where "TC_POLICE_RECLASSIFY = 1"
definition TCA_EGRESS_REDIR :: u8 where "TCA_EGRESS_REDIR = 1"
definition TCA_TUNNEL_KEY_SET :: u8 where "TCA_TUNNEL_KEY_SET = 1"

record ActionAttrs =
  aa_Index :: int
  aa_Capab :: int
  aa_Action :: int
  aa_Refcnt :: int
  aa_Bindcnt :: int

definition no_attrs :: ActionAttrs where
  "no_attrs = \<lparr>aa_Index = 0, aa_Capab = 0, aa_Action = 0, aa_Refcnt = 0, aa_Bindcnt = 0\<rparr>"

record BpfAction =
  ba_Attrs :: ActionAttrs
  ba_Fd :: int
  ba_Name :: string

record ConnmarkAction =
  ca_Attrs :: ActionAttrs
  ca_Zone :: u16

record CsumAction =
  cu_Attrs :: ActionAttrs
  cu_UpdateFlags :: u32

record MirredAction =
  ma_Attrs :: ActionAttrs
  ma_MirredAction :: u8
  ma_Ifindex :: int

record TunnelKeyAction =
  ta_Attrs :: ActionAttrs
  ta_Action :: u8
  ta_SrcAddr :: bytes
  ta_DstAddr :: bytes
  ta_KeyID :: u32
  ta_DestPort :: u16

record SkbEditAction =
  sa_Attrs :: ActionAttrs
  sa_QueueMapping :: "u16 option"
  sa_PType :: "u16 option"
  sa_Priority :: "u32 option"
  sa_Mark :: "u32 option"

record PoliceAction =
  pa_Attrs :: ActionAttrs
  pa_Rate :: u32
  pa_Burst :: u32
  pa_RCellLog :: int
  pa_Mtu :: u32
  pa_Mpu :: u16
  pa_PeakRate :: u32
  pa_PCellLog :: int
  pa_AvRate :: u32
  pa_Overhead :: u16
  pa_LinkLayer :: int
  pa_ExceedAction :: u32
  pa_NotExceedAction :: u32

datatype nl_action = GenericAction ActionAttrs | ABpf BpfAction | AConnmark ConnmarkAction | ACsum CsumAction
  | AMirred MirredAction | ATunnelKey TunnelKeyAction | ASkbEdit SkbEditAction | APolice PoliceAction

fun action_Attrs :: "nl_action \<Rightarrow> ActionAttrs" where
  "action_Attrs (GenericAction a) = a"
| "action_Attrs (ABpf b) = ba_Attrs b"
| "action_Attrs (AConnmark c) = ca_Attrs c"
| "action_Attrs (ACsum c) = cu_Attrs c"
| "action_Attrs (AMirred m) = ma_Attrs m"
| "action_Attrs (ATunnelKey t) = ta_Attrs t"
| "action_Attrs (ASkbEdit s) = sa_Attrs s"
| "action_Attrs (APolice p) = pa_Attrs p"

fun action_Type :: "nl_action \<Rightarrow> string" where
  "action_Type (GenericAction a) = ''generic''"
| "action_Type (ABpf b) = ''bpf''"
| "action_Type (AConnmark c) = ''connmark''"
| "action_Type (ACsum c) = ''csum''"
| "action_Type (AMirred m) = ''mirred''"
| "action_Type (ATunnelKey t) = ''tunnel_key''"
| "action_Type (ASkbEdit s) = ''skbedit''"
| "action_Type (APolice p) = ''police''"

definition NewConnmarkAction :: ConnmarkAction where
  "NewConnmarkAction = \<lparr>ca_Attrs = no_attrs\<lparr>aa_Action := TC_ACT_PIPE\<rparr>, ca_Zone = 0\<rparr>"

definition NewCsumAction :: CsumAction where
  "NewCsumAction = \<lparr>cu_Attrs = no_attrs\<lparr>aa_Action := TC_ACT_PIPE\<rparr>, cu_UpdateFlags = 0\<rparr>"

definition NewMirredAction :: "int \<Rightarrow> MirredAction" where
  "NewMirredAction redirIndex =
     \<lparr>ma_Attrs = no_attrs\<lparr>aa_Action := TC_ACT_STOLEN\<rparr>, ma_MirredAction = TCA_EGRESS_REDIR, ma_Ifindex = redirIndex\<rparr>"

definition NewTunnelKeyAction :: TunnelKeyAction where
  "NewTunnelKeyAction = \<lparr>ta_Attrs = no_attrs\<lparr>aa_Action := TC_ACT_PIPE\<rparr>, ta_Action = 0, ta_SrcAddr = [], ta_DstAddr = [],
     ta_KeyID = 0, ta_DestPort = 0\<rparr>"

definition NewSkbEditAction :: SkbEditAction where
  "NewSkbEditAction = \<lparr>sa_Attrs = no_attrs\<lparr>aa_Action := TC_ACT_PIPE\<rparr>, sa_QueueMapping = None, sa_PType = None,
     sa_Priority = None, sa_Mark = None\<rparr>"

definition NewPoliceAction :: PoliceAction where
  "NewPoliceAction = \<lparr>pa_Attrs = no_attrs, pa_Rate = 0, pa_Burst = 0, pa_RCellLog = -1, pa_Mtu = 0, pa_Mpu = 0, pa_PeakRate = 0,
     pa_PCellLog = -1, pa_AvRate = 0, pa_Overhead = 0, pa_LinkLayer = 1, pa_ExceedAction = TC_POLICE_RECLASSIFY,
     pa_NotExceedAction = TC_POLICE_OK\<rparr>"

section \<open>Filters\<close>

text \<open>An element of \<open>Actions\<close> may be nil: the parser leaves nil for an action of unknown kind.\<close>

type_synonym actions = "nl_action option list"

record FilterAttrs =
  fa_LinkIndex :: int
  fa_Handle :: u32
  fa_Parent :: u32
  fa_Priority :: u16
  fa_Protocol :: u16

text \<open>
  Of the slice of keys in \<open>Sel\<close> the code also uses the capacity: \<open>u_SpareKeys\<close> is the number of
  elements between its length and its capacity.
\<close>

record U32Options =
  u_ClassId :: u32
  u_Divisor :: u32
  u_Hash :: u32
  u_Link :: u32
  u_RedirIndex :: int
  u_Sel :: "TcU32Sel option"
  u_SpareKeys :: nat
  u_Actions :: actions

record FwOptions =
  fw_ClassId :: u32
  fw_InDev :: string
  fw_Mask :: u32
  fw_Police :: "PoliceAction option"

record BpfOptions =
  bp_ClassId :: u32
  bp_Fd :: int
  bp_Name :: string
  bp_DirectAction :: bool
  bp_Id :: int
  bp_Tag :: string

text \<open>A nil address or mask is \<open>None\<close>.\<close>

record FlowerOptions =
  fl_DestIP :: "bytes option"
  fl_DestIPMask :: "bytes option"
  fl_SrcIP :: "bytes option"
  fl_SrcIPMask :: "bytes option"
  fl_EthType :: u16
  fl_EncDestIP :: "bytes option"
  fl_EncDestIPMask :: "bytes option"
  fl_EncSrcIP :: "bytes option"
  fl_EncSrcIPMask :: "bytes option"
  fl_EncDestPort :: u16
  fl_EncKeyId :: u32
  fl_Actions :: actions

datatype nl_filter = U32 FilterAttrs U32Options | FwFilter FilterAttrs FwOptions | BpfFilter FilterAttrs BpfOptions
  | MatchAll FilterAttrs u32 actions | DhcMatchAll FilterAttrs u32 actions | Flower FilterAttrs FlowerOptions
  | GenericFilter FilterAttrs string

fun filter_Attrs :: "nl_filter \<Rightarrow> FilterAttrs" where
  "filter_Attrs (U32 a u) = a"
| "filter_Attrs (FwFilter a f) = a"
| "filter_Attrs (BpfFilter a b) = a"
| "filter_Attrs (MatchAll a c acts) = a"
| "filter_Attrs (DhcMatchAll a c acts) = a"
| "filter_Attrs (Flower a f) = a"
| "filter_Attrs (GenericFilter a t) = a"

fun filter_Type :: "nl_filter \<Rightarrow> string" where
  "filter_Type (U32 a u) = ''u32''"
| "filter_Type (FwFilter a f) = ''fw''"
| "filter_Type (BpfFilter a b) = ''bpf''"
| "filter_Type (MatchAll a c acts) = ''matchall''"
| "filter_Type (DhcMatchAll a c acts) = ''dhcmatchall''"
| "filter_Type (Flower a f) = ''flower''"
| "filter_Type (GenericFilter a t) = t"

fun set_Attrs :: "FilterAttrs \<Rightarrow> nl_filter \<Rightarrow> nl_filter" where
  "set_Attrs b (U32 a u) = U32 b u"
| "set_Attrs b (FwFilter a f) = FwFilter b f"
| "set_Attrs b (BpfFilter a f) = BpfFilter b f"
| "set_Attrs b (MatchAll a c acts) = MatchAll b c acts"
| "set_Attrs b (DhcMatchAll a c acts) = DhcMatchAll b c acts"
| "set_Attrs b (Flower a f) = Flower b f"
| "set_Attrs b (GenericFilter a t) = GenericFilter b t"

text \<open>The filter as the kernel lists it: with the handle it was given.\<close>

definition with_handle :: "u32 \<Rightarrow> nl_filter \<Rightarrow> nl_filter" where
  "with_handle h f = set_Attrs ((filter_Attrs f)\<lparr>fa_Handle := h\<rparr>) f"

lemma set_Attrs_simps [simp]:
  "filter_Attrs (set_Attrs b f) = b" "filter_Type (set_Attrs b f) = filter_Type f"
  by (cases f; simp)+

lemma with_handle_simps [simp]:
  "filter_Type (with_handle h f) = filter_Type f"
  "fa_LinkIndex (filter_Attrs (with_handle h f)) = fa_LinkIndex (filter_Attrs f)"
  "fa_Priority (filter_Attrs (with_handle h f)) = fa_Priority (filter_Attrs f)"
  by (simp_all add: with_handle_def)

end
