(* ===== verification/NlAction.thy ===== *)
theory NlAction
  imports Netlink_Types Go_Net
begin

text \<open>
  Actions of traffic control filters on the wire, \<open>EncodeActions\<close> and \<open>parseActions\<close> of
  \<open>pkg/github.com/vishvananda/netlink/filter_linux.go\<close> with the policing functions and the rate table
  they call. An attribute is encoded as the list of its children; on an error the partly filled
  attribute is dropped, as the callers drop the request.

  The conversions between sizes and clock ticks, \<open>Xmittime\<close> and \<open>Xmitsize\<close>, read the clock of the
  kernel and compute with floating-point numbers; they are a parameter of type \<open>clock\<close>.
  A value is given by its bytes, without the spare capacity of the buffer behind it: reading past
  the end of a value is a panic.
\<close>

datatype filter_error = UnknownAction | RateTable string | InvalidSrcAddr bytes | InvalidDstAddr bytes | IllegalDivisor u32
  | ParseErr int

record clock =
  Xmittime :: "u64 \<Rightarrow> u32 \<Rightarrow> u32"
  Xmitsize :: "u64 \<Rightarrow> u32 \<Rightarrow> u32"

definition toTcGen :: "ActionAttrs \<Rightarrow> TcGen" where
  "toTcGen attrs = \<lparr>tg_Index = word_of_int (aa_Index attrs), tg_Capab = word_of_int (aa_Capab attrs),
     tg_Action = word_of_int (aa_Action attrs), tg_Refcnt = word_of_int (aa_Refcnt attrs), tg_Bindcnt = word_of_int (aa_Bindcnt attrs)\<rparr>"

definition toAttrs :: "TcGen \<Rightarrow> ActionAttrs" where
  "toAttrs tcgen = \<lparr>aa_Index = uint (tg_Index tcgen), aa_Capab = uint (tg_Capab tcgen), aa_Action = sint (tg_Action tcgen),
     aa_Refcnt = sint (tg_Refcnt tcgen), aa_Bindcnt = sint (tg_Bindcnt tcgen)\<rparr>"

section \<open>Rate tables\<close>

definition AlignToAtm :: "u64 \<Rightarrow> u64" where
  "AlignToAtm sz = (sz div 48 + (if sz mod 48 > 0 then 1 else 0)) * 53"

definition AdjustSize :: "u64 \<Rightarrow> u64 \<Rightarrow> int \<Rightarrow> u64" where
  "AdjustSize sz mpu linklayer =
     (let sz = (if sz < mpu then mpu else sz)
      in if linklayer = 2 then AlignToAtm sz else sz)"

text \<open>The loop \<open>for (mtu >> uint(cellLog)) > 255 { cellLog++ }\<close>.\<close>

lemma drop_bit_u32_0: "32 \<le> c \<Longrightarrow> drop_bit c (mtu :: u32) = 0"
  by (rule bit_word_eqI) (auto simp: bit_simps dest: bit_imp_le_length)

function cell_log :: "u32 \<Rightarrow> nat \<Rightarrow> nat" where
  "cell_log mtu c = (if drop_bit c mtu > 255 then cell_log mtu (Suc c) else c)"
  by pat_completeness auto
termination
proof (relation "measure (\<lambda>(mtu, c). 32 - c)")
  fix mtu :: u32 and c
  assume "drop_bit c mtu > 255"
  then have "c < 32" using drop_bit_u32_0 [of c mtu] by (cases "c < 32") simp_all
  then show "((mtu, Suc c), (mtu, c)) \<in> measure (\<lambda>(mtu, c). 32 - c)" by simp
qed simp

declare cell_log.simps [simp del]

text \<open>The filled table, the rate with its new fields, and the result, which is never negative.\<close>

definition CalcRtable :: "clock \<Rightarrow> TcRateSpec \<Rightarrow> int \<Rightarrow> u32 \<Rightarrow> int \<Rightarrow> u32 list \<times> TcRateSpec \<times> int" where
  "CalcRtable ck rate cellLog mtu linklayer =
     (let mtu = (if mtu = 0 then 2047 else mtu);
          cellLog = (if cellLog < 0 then int (cell_log mtu 0) else cellLog);
          cell = (\<lambda>i. AdjustSize (push_bit (unat (word_of_int cellLog :: u32)) (word_of_int (i + 1))) (ucast (rs_Mpu rate)) linklayer);
          rtab = map (\<lambda>i. Xmittime ck (ucast (rs_Rate rate)) (ucast (cell i))) [0..255]
      in (rtab,
          rate\<lparr>rs_CellAlign := -1, rs_CellLog := word_of_int cellLog, rs_Linklayer := word_of_int linklayer AND 0x0F\<rparr>,
          cellLog))"

definition SerializeRtab :: "u32 list \<Rightarrow> bytes" where
  "SerializeRtab rtab = concat (map le32 rtab)"

section \<open>Encoding\<close>

definition zero_rate :: TcRateSpec where
  "zero_rate = \<lparr>rs_CellLog = 0, rs_Linklayer = 0, rs_Overhead = 0, rs_CellAlign = 0, rs_Mpu = 0, rs_Rate = 0\<rparr>"

definition encodePolice :: "clock \<Rightarrow> PoliceAction \<Rightarrow> filter_error + request_data list" where
  "encodePolice ck action =
     (let attrs = pa_Attrs action;
          rate0 = zero_rate\<lparr>rs_Rate := pa_Rate action\<rparr>;
          peak0 = zero_rate\<lparr>rs_Rate := pa_PeakRate action\<rparr>;
          (rtab, rate, rlog) = (if pa_Rate action \<noteq> 0
             then CalcRtable ck (rate0\<lparr>rs_Mpu := pa_Mpu action, rs_Overhead := pa_Overhead action\<rparr>) (pa_RCellLog action) (pa_Mtu action) (pa_LinkLayer action)
             else (replicate 256 0, rate0, 0));
          burst = (if pa_Rate action \<noteq> 0 then Xmittime ck (ucast (pa_Rate action)) (pa_Burst action) else 0);
          (ptab, peak, plog) = (if pa_PeakRate action \<noteq> 0
             then CalcRtable ck (peak0\<lparr>rs_Mpu := pa_Mpu action, rs_Overhead := pa_Overhead action\<rparr>) (pa_PCellLog action) (pa_Mtu action) (pa_LinkLayer action)
             else (replicate 256 0, peak0, 0));
          police = \<lparr>po_Index = word_of_int (aa_Index attrs), po_Action = pa_ExceedAction action, po_Limit = 0, po_Burst = burst,
             po_Mtu = pa_Mtu action, po_Rate = rate, po_PeakRate = peak, po_Refcnt = word_of_int (aa_Refcnt attrs),
             po_Bindcnt = word_of_int (aa_Bindcnt attrs), po_Capab = word_of_int (aa_Capab attrs)\<rparr>
      in if rlog < 0 then Inl (RateTable ''TBF: failed to calculate rate table'')
         else if plog < 0 then Inl (RateTable ''POLICE: failed to calculate peak rate table'')
         else Inr ([NewRtAttr 1 (TcPolice_Serialize police)]
           @ (if pa_Rate action \<noteq> 0 then [NewRtAttr 2 (SerializeRtab rtab)] else [])
           @ (if pa_PeakRate action \<noteq> 0 then [NewRtAttr 3 (SerializeRtab ptab)] else [])
           @ (if pa_AvRate action \<noteq> 0 then [NewRtAttr 4 (Uint32Attr (pa_AvRate action))] else [])
           @ (if pa_NotExceedAction action \<noteq> 0 then [NewRtAttr 5 (Uint32Attr (pa_NotExceedAction action))] else [])))"

definition addr_attr :: "int \<Rightarrow> int \<Rightarrow> bytes \<Rightarrow> request_data option" where
  "addr_attr v4Type v6Type ip =
     (case To4 ip of
        Some v4 \<Rightarrow> Some (NewRtAttr v4Type v4)
      | None \<Rightarrow> (case To16 ip of Some v6 \<Rightarrow> Some (NewRtAttr v6Type v6) | None \<Rightarrow> None))"

definition opt_attr :: "int \<Rightarrow> bytes option \<Rightarrow> request_data list" where
  "opt_attr t d = (case d of None \<Rightarrow> [] | Some b \<Rightarrow> [NewRtAttr t b])"

text \<open>The kind of an action and the children of its options, one equation per case of the switch.\<close>

fun encode_action :: "clock \<Rightarrow> nl_action \<Rightarrow> filter_error + string \<times> request_data list" where
  "encode_action ck (APolice p) = (case encodePolice ck p of Inl e \<Rightarrow> Inl e | Inr opts \<Rightarrow> Inr (''police'', opts))"
| "encode_action ck (AMirred m) =
     Inr (''mirred'', [NewRtAttr 2 (TcMirred_Serialize
       \<lparr>mi_TcGen = toTcGen (ma_Attrs m), mi_Eaction = ucast (ma_MirredAction m), mi_Ifindex = word_of_int (ma_Ifindex m)\<rparr>)])"
| "encode_action ck (ATunnelKey t) =
     (let parms = NewRtAttr 2 (TcTunnelKey_Serialize \<lparr>tk_TcGen = toTcGen (ta_Attrs t), tk_Action = scast (ta_Action t)\<rparr>)
      in if ta_Action t \<noteq> TCA_TUNNEL_KEY_SET then Inr (''tunnel_key'', [parms])
         else case addr_attr 3 5 (ta_SrcAddr t) of
             None \<Rightarrow> Inl (InvalidSrcAddr (ta_SrcAddr t))
           | Some src \<Rightarrow>
               (case addr_attr 4 6 (ta_DstAddr t) of
                  None \<Rightarrow> Inl (InvalidDstAddr (ta_DstAddr t))
                | Some dst \<Rightarrow> Inr (''tunnel_key'', [parms, NewRtAttr 7 (htonl (ta_KeyID t)), src, dst]
                    @ (if ta_DestPort t \<noteq> 0 then [NewRtAttr 9 (htons (ta_DestPort t))] else []))))"
| "encode_action ck (ASkbEdit s) =
     Inr (''skbedit'', [NewRtAttr 2 (TcSkbEdit_Serialize \<lparr>se_TcGen = toTcGen (sa_Attrs s)\<rparr>)]
       @ opt_attr 4 (map_option Uint16Attr (sa_QueueMapping s)) @ opt_attr 3 (map_option Uint32Attr (sa_Priority s))
       @ opt_attr 7 (map_option Uint16Attr (sa_PType s)) @ opt_attr 5 (map_option Uint32Attr (sa_Mark s)))"
| "encode_action ck (AConnmark c) =
     Inr (''connmark'', [NewRtAttr 1 (TcConnmark_Serialize \<lparr>cm_TcGen = toTcGen (ca_Attrs c), cm_Zone = ca_Zone c\<rparr>)])"
| "encode_action ck (ACsum c) =
     Inr (''csum'', [NewRtAttr 1 (TcCsum_Serialize \<lparr>cs_TcGen = toTcGen (cu_Attrs c), cs_UpdateFlags = cu_UpdateFlags c\<rparr>)])"
| "encode_action ck (ABpf b) =
     Inr (''bpf'', [NewRtAttr 2 (TcGen_Serialize (toTcGen (ba_Attrs b))), NewRtAttr 5 (Uint32Attr (word_of_int (ba_Fd b))),
       NewRtAttr 6 (ZeroTerminated (ba_Name b))])"
| "encode_action ck (GenericAction a) = Inr (''gact'', [NewRtAttr 2 (TcGen_Serialize (toTcGen a))])"

definition action_table :: "int \<Rightarrow> string \<Rightarrow> request_data list \<Rightarrow> request_data" where
  "action_table tabIndex kind opts =
     RtAttr (word_of_int tabIndex) [] [NewRtAttr 1 (ZeroTerminated kind), RtAttr 2 [] opts]"

text \<open>The default case of the switch, a nil action, calls a method on it.\<close>

fun EncodeActions_from :: "clock \<Rightarrow> int \<Rightarrow> actions \<Rightarrow> (filter_error + request_data list) outcome" where
  "EncodeActions_from ck tabIndex [] = Done (Inr [])"
| "EncodeActions_from ck tabIndex (None # as) = Panic NilDereference"
| "EncodeActions_from ck tabIndex (Some a # as) =
     (case encode_action ck a of
        Inl e \<Rightarrow> Done (Inl e)
      | Inr (kind, opts) \<Rightarrow>
          obind (EncodeActions_from ck (tabIndex + 1) as)
            (\<lambda>r. case r of Inl e \<Rightarrow> Done (Inl e) | Inr ts \<Rightarrow> Done (Inr (action_table tabIndex kind opts # ts))))"

definition EncodeActions :: "clock \<Rightarrow> actions \<Rightarrow> (filter_error + request_data list) outcome" where
  "EncodeActions ck as = EncodeActions_from ck 1 as"

section \<open>Parsing\<close>

definition parsePolice :: "clock \<Rightarrow> NetlinkRouteAttr \<Rightarrow> PoliceAction \<Rightarrow> PoliceAction outcome" where
  "parsePolice ck data police =
     (if ra_Type data = 5 then obind (value_u32 (ra_Value data)) (\<lambda>v. Done (police\<lparr>pa_NotExceedAction := v\<rparr>))
      else if ra_Type data = 4 then obind (value_u32 (ra_Value data)) (\<lambda>v. Done (police\<lparr>pa_AvRate := v\<rparr>))
      else if ra_Type data = 1
      then obind (DeserializeTcPolice (ra_Value data)) (\<lambda>p. Done (police\<lparr>
             pa_Attrs := \<lparr>aa_Index = uint (po_Index p), aa_Capab = uint (po_Capab p), aa_Action = 0,
               aa_Refcnt = sint (po_Refcnt p), aa_Bindcnt = sint (po_Bindcnt p)\<rparr>,
             pa_ExceedAction := po_Action p, pa_Rate := rs_Rate (po_Rate p), pa_PeakRate := rs_Rate (po_PeakRate p),
             pa_Burst := Xmitsize ck (ucast (rs_Rate (po_Rate p))) (po_Burst p), pa_Mtu := po_Mtu p,
             pa_LinkLayer := uint (rs_Linklayer (po_Rate p) AND 0x0F), pa_Overhead := rs_Overhead (po_Rate p)\<rparr>))
      else Done police)"

text \<open>The zero value of the type of action with a given kind; \<open>None\<close> is the default of the switch.\<close>

definition fresh_action :: "string \<Rightarrow> nl_action option" where
  "fresh_action kind =
     (if kind = ''mirred'' then Some (AMirred \<lparr>ma_Attrs = no_attrs, ma_MirredAction = 0, ma_Ifindex = 0\<rparr>)
      else if kind = ''bpf'' then Some (ABpf \<lparr>ba_Attrs = no_attrs, ba_Fd = 0, ba_Name = []\<rparr>)
      else if kind = ''connmark'' then Some (AConnmark \<lparr>ca_Attrs = no_attrs, ca_Zone = 0\<rparr>)
      else if kind = ''csum'' then Some (ACsum \<lparr>cu_Attrs = no_attrs, cu_UpdateFlags = 0\<rparr>)
      else if kind = ''gact'' then Some (GenericAction no_attrs)
      else if kind = ''tunnel_key'' then Some (ATunnelKey \<lparr>ta_Attrs = no_attrs, ta_Action = 0, ta_SrcAddr = [], ta_DstAddr = [], ta_KeyID = 0, ta_DestPort = 0\<rparr>)
      else if kind = ''skbedit'' then Some (ASkbEdit \<lparr>sa_Attrs = no_attrs, sa_QueueMapping = None, sa_PType = None, sa_Priority = None, sa_Mark = None\<rparr>)
      else if kind = ''police'' then Some (APolice \<lparr>pa_Attrs = no_attrs, pa_Rate = 0, pa_Burst = 0, pa_RCellLog = 0, pa_Mtu = 0, pa_Mpu = 0,
        pa_PeakRate = 0, pa_PCellLog = 0, pa_AvRate = 0, pa_Overhead = 0, pa_LinkLayer = 0, pa_ExceedAction = 0, pa_NotExceedAction = 0\<rparr>)
      else None)"

text \<open>One attribute of the options. The kind and the action are set together, so the action tells the case.\<close>

fun parse_datum :: "clock \<Rightarrow> nl_action \<Rightarrow> NetlinkRouteAttr \<Rightarrow> nl_action outcome" where
  "parse_datum ck (AMirred m) adatum =
     (if ra_Type adatum = 2
      then obind (DeserializeTcMirred (ra_Value adatum)) (\<lambda>x. Done (AMirred
             \<lparr>ma_Attrs = toAttrs (mi_TcGen x), ma_MirredAction = ucast (mi_Eaction x), ma_Ifindex = uint (mi_Ifindex x)\<rparr>))
      else Done (AMirred m))"
| "parse_datum ck (ATunnelKey t) adatum =
     (let v = ra_Value adatum in
      if ra_Type adatum = 2
      then obind (DeserializeTunnelKey v) (\<lambda>x. Done (ATunnelKey (t\<lparr>ta_Attrs := toAttrs (tk_TcGen x), ta_Action := ucast (tk_Action x)\<rparr>)))
      else if ra_Type adatum = 7
      then if length v < 4 then Panic SliceBounds else obind (ntohl v) (\<lambda>k. Done (ATunnelKey (t\<lparr>ta_KeyID := k\<rparr>)))
      else if ra_Type adatum = 5 \<or> ra_Type adatum = 3 then Done (ATunnelKey (t\<lparr>ta_SrcAddr := v\<rparr>))
      else if ra_Type adatum = 6 \<or> ra_Type adatum = 4 then Done (ATunnelKey (t\<lparr>ta_DstAddr := v\<rparr>))
      else if ra_Type adatum = 9 then obind (ntohs v) (\<lambda>p. Done (ATunnelKey (t\<lparr>ta_DestPort := p\<rparr>)))
      else Done (ATunnelKey t))"
| "parse_datum ck (ASkbEdit s) adatum =
     (let v = ra_Value adatum in
      if ra_Type adatum = 2
      then obind (DeserializeSkbEdit v) (\<lambda>x. Done (ASkbEdit (s\<lparr>sa_Attrs := toAttrs (se_TcGen x)\<rparr>)))
      else if ra_Type adatum = 5 then obind (value_u32 v) (\<lambda>x. Done (ASkbEdit (s\<lparr>sa_Mark := Some x\<rparr>)))
      else if ra_Type adatum = 3 then obind (value_u32 v) (\<lambda>x. Done (ASkbEdit (s\<lparr>sa_Priority := Some x\<rparr>)))
      else if ra_Type adatum = 7 then obind (value_u16 v) (\<lambda>x. Done (ASkbEdit (s\<lparr>sa_PType := Some x\<rparr>)))
      else if ra_Type adatum = 4 then obind (value_u16 v) (\<lambda>x. Done (ASkbEdit (s\<lparr>sa_QueueMapping := Some x\<rparr>)))
      else Done (ASkbEdit s))"
| "parse_datum ck (ABpf b) adatum =
     (let v = ra_Value adatum in
      if ra_Type adatum = 2 then obind (DeserializeTcGen v) (\<lambda>x. Done (ABpf (b\<lparr>ba_Attrs := toAttrs x\<rparr>)))
      else if ra_Type adatum = 5 then obind (value_u32 v) (\<lambda>x. Done (ABpf (b\<lparr>ba_Fd := uint x\<rparr>)))
      else if ra_Type adatum = 6 then obind (value_string v) (\<lambda>x. Done (ABpf (b\<lparr>ba_Name := x\<rparr>)))
      else Done (ABpf b))"
| "parse_datum ck (AConnmark c) adatum =
     (if ra_Type adatum = 1
      then obind (DeserializeTcConnmark (ra_Value adatum)) (\<lambda>x. Done (AConnmark \<lparr>ca_Attrs = toAttrs (cm_TcGen x), ca_Zone = cm_Zone x\<rparr>))
      else Done (AConnmark c))"
| "parse_datum ck (ACsum c) adatum =
     (if ra_Type adatum = 1
      then obind (DeserializeTcCsum (ra_Value adatum)) (\<lambda>x. Done (ACsum \<lparr>cu_Attrs = toAttrs (cs_TcGen x), cu_UpdateFlags = cs_UpdateFlags x\<rparr>))
      else Done (ACsum c))"
| "parse_datum ck (GenericAction a) adatum =
     (if ra_Type adatum = 2 then obind (DeserializeTcGen (ra_Value adatum)) (\<lambda>x. Done (GenericAction (toAttrs x)))
      else Done (GenericAction a))"
| "parse_datum ck (APolice p) adatum = obind (parsePolice ck adatum p) (\<lambda>p. Done (APolice p))"

fun parse_data :: "clock \<Rightarrow> nl_action \<Rightarrow> NetlinkRouteAttr list \<Rightarrow> nl_action outcome" where
  "parse_data ck a [] = Done a"
| "parse_data ck a (d # ds) = obind (parse_datum ck a d) (\<lambda>a. parse_data ck a ds)"

text \<open>
  The loop over the attributes of one table. An unknown kind leaves the loop with a nil action;
  options without a kind before them are parsed and dropped.
\<close>

fun parse_table :: "clock \<Rightarrow> nl_action option \<Rightarrow> NetlinkRouteAttr list \<Rightarrow> (filter_error + nl_action option) outcome" where
  "parse_table ck action [] = Done (Inr action)"
| "parse_table ck action (aattr # as) =
     (if ra_Type aattr = 1
      then obind (value_string (ra_Value aattr)) (\<lambda>kind.
             case fresh_action kind of
               None \<Rightarrow> Done (Inr action)
             | Some a \<Rightarrow> parse_table ck (Some a) as)
      else if ra_Type aattr = 2
      then obind (ParseRouteAttr (ra_Value aattr)) (\<lambda>r.
             case r of
               Inl e \<Rightarrow> Done (Inl (ParseErr e))
             | Inr adata \<Rightarrow>
                 (case action of
                    None \<Rightarrow> parse_table ck None as
                  | Some a \<Rightarrow> obind (parse_data ck a adata) (\<lambda>a. parse_table ck (Some a) as)))
      else parse_table ck action as)"

fun parseActions :: "clock \<Rightarrow> NetlinkRouteAttr list \<Rightarrow> (filter_error + actions) outcome" where
  "parseActions ck [] = Done (Inr [])"
| "parseActions ck (table # ts) =
     obind (ParseRouteAttr (ra_Value table)) (\<lambda>r.
       case r of
         Inl e \<Rightarrow> Done (Inl (ParseErr e))
       | Inr aattrs \<Rightarrow>
           obind (parse_table ck None aattrs) (\<lambda>a.
             case a of
               Inl e \<Rightarrow> Done (Inl e)
             | Inr action \<Rightarrow>
                 obind (parseActions ck ts) (\<lambda>r.
                   case r of Inl e \<Rightarrow> Done (Inl e) | Inr as \<Rightarrow> Done (Inr (action # as)))))"

section \<open>Round trip\<close>

text \<open>Attributes that fit into the fields of the wire format.\<close>

definition valid_attrs :: "ActionAttrs \<Rightarrow> bool" where
  "valid_attrs a \<longleftrightarrow> 0 \<le> aa_Index a \<and> aa_Index a < 2 ^ 32 \<and> 0 \<le> aa_Capab a \<and> aa_Capab a < 2 ^ 32
     \<and> - (2 ^ 31) \<le> aa_Action a \<and> aa_Action a < 2 ^ 31 \<and> - (2 ^ 31) \<le> aa_Refcnt a \<and> aa_Refcnt a < 2 ^ 31
     \<and> - (2 ^ 31) \<le> aa_Bindcnt a \<and> aa_Bindcnt a < 2 ^ 31"

text \<open>An address that \<open>To4\<close> does not shorten.\<close>

definition plain_ip :: "bytes \<Rightarrow> bool" where
  "plain_ip ip \<longleftrightarrow> length ip = 4 \<or> length ip = 16 \<and> To4 ip = None"

text \<open>
  Actions that the wire format can carry. A tunnel key action that does not set a key carries
  neither addresses nor key; policing is left out: its burst is sent as a time.
\<close>

fun valid_action :: "nl_action \<Rightarrow> bool" where
  "valid_action (GenericAction a) \<longleftrightarrow> valid_attrs a"
| "valid_action (ABpf b) \<longleftrightarrow> valid_attrs (ba_Attrs b) \<and> 0 \<le> ba_Fd b \<and> ba_Fd b < 2 ^ 32 \<and> length (ba_Name b) < 1024"
| "valid_action (AConnmark c) \<longleftrightarrow> valid_attrs (ca_Attrs c)"
| "valid_action (ACsum c) \<longleftrightarrow> valid_attrs (cu_Attrs c)"
| "valid_action (AMirred m) \<longleftrightarrow> valid_attrs (ma_Attrs m) \<and> 0 \<le> ma_Ifindex m \<and> ma_Ifindex m < 2 ^ 32"
| "valid_action (ATunnelKey t) \<longleftrightarrow> valid_attrs (ta_Attrs t)
     \<and> (if ta_Action t = TCA_TUNNEL_KEY_SET then plain_ip (ta_SrcAddr t) \<and> plain_ip (ta_DstAddr t)
        else ta_SrcAddr t = [] \<and> ta_DstAddr t = [] \<and> ta_KeyID t = 0 \<and> ta_DestPort t = 0)"
| "valid_action (ASkbEdit s) \<longleftrightarrow> valid_attrs (sa_Attrs s)"
| "valid_action (APolice p) \<longleftrightarrow> False"

lemma toAttrs_toTcGen [simp]: "valid_attrs a \<Longrightarrow> toAttrs (toTcGen a) = a"
  by (simp add: valid_attrs_def toAttrs_def toTcGen_def uint_of_int32 sint_of_int32)

lemma ucast_u8_u32 [simp]: "ucast (ucast (x :: u8) :: u32) = x" "ucast (scast (x :: u8) :: u32) = x"
  by (rule bit_word_eqI; simp add: bit_simps)+

lemma tc_wire_lengths [simp]:
  "length (TcGen_Serialize g) = 20" "length (TcMirred_Serialize m) = 28" "length (TcTunnelKey_Serialize t) = 24"
  "length (TcSkbEdit_Serialize s) = 20" "length (TcConnmark_Serialize c) = 24" "length (TcCsum_Serialize u) = 24"
  using tg_codec.enc_length mi_codec.enc_length tk_codec.enc_length se_codec.enc_length cm_codec.enc_length cs_codec.enc_length
  by (simp_all add: tc_sizes)

lemmas tc_decs [simp] = tg_codec.dec_enc_exact mi_codec.dec_enc_exact tk_codec.dec_enc_exact se_codec.dec_enc_exact
  cm_codec.dec_enc_exact cs_codec.dec_enc_exact

lemma addr_attr_plain:
  assumes "plain_ip ip"
  shows "\<exists>t. (t = v4Type \<or> t = v6Type) \<and> addr_attr v4Type v6Type ip = Some (NewRtAttr t ip) \<and> length ip \<le> 16"
  using assms by (auto simp: plain_ip_def addr_attr_def To4_def To16_def)

definition small :: "request_data list \<Rightarrow> bool" where
  "small opts \<longleftrightarrow> length opts \<le> 5 \<and> (\<forall>c \<in> set opts. is_attr c \<and> attr_Len c < 2 ^ 11)"

text \<open>The options of an action, parsed into the fresh action of its kind, give the action back.\<close>

lemma action_data:
  assumes "valid_action a"
  shows "\<exists>kind opts fresh. encode_action ck a = Inr (kind, opts) \<and> fresh_action kind = Some fresh
    \<and> parse_data ck fresh (map attr_parsed opts) = Done a \<and> small opts \<and> length kind \<le> 10"
proof (cases a)
  case (ATunnelKey t)
  show ?thesis
  proof (cases "ta_Action t = TCA_TUNNEL_KEY_SET")
    case True
    with assms ATunnelKey obtain ts td where
      "ts = 3 \<or> ts = 5" "addr_attr 3 5 (ta_SrcAddr t) = Some (NewRtAttr ts (ta_SrcAddr t))" "length (ta_SrcAddr t) \<le> 16"
      "td = 4 \<or> td = 6" "addr_attr 4 6 (ta_DstAddr t) = Some (NewRtAttr td (ta_DstAddr t))" "length (ta_DstAddr t) \<le> 16"
      using addr_attr_plain [of "ta_SrcAddr t" 3 5] addr_attr_plain [of "ta_DstAddr t" 4 6] by auto
    with assms True ATunnelKey show ?thesis
      by (elim disjE; cases t; simp add: fresh_action_def small_def)
  next
    case False
    with assms ATunnelKey show ?thesis by (cases t) (simp add: fresh_action_def small_def)
  qed
next
  case (ASkbEdit s)
  with assms show ?thesis
    by (cases s; cases "sa_QueueMapping s"; cases "sa_Priority s"; cases "sa_PType s"; cases "sa_Mark s")
      (simp_all add: fresh_action_def small_def opt_attr_def)
next
  case (AMirred m)
  with assms show ?thesis by (cases m) (simp add: fresh_action_def small_def uint_of_int32)
next
  case (ABpf b)
  with assms show ?thesis by (cases b) (simp add: fresh_action_def small_def uint_of_int32)
qed (use assms in \<open>simp_all add: fresh_action_def small_def\<close>)

lemma sum_list_le: "(\<And>x. x \<in> set xs \<Longrightarrow> f x \<le> (k::nat)) \<Longrightarrow> sum_list (map f xs) \<le> length xs * k"
  by (induction xs) force+

lemma small_options_Len:
  assumes "small opts"
  shows "attr_Len (RtAttr t [] opts) < 2 ^ 14"
proof -
  have "rtaAlignOf (attr_Len c) \<le> 2051" if "c \<in> set opts" for c
    using assms that rtaAlignOf_lt [of "attr_Len c"] by (force simp: small_def)
  then have "sum_list (map (\<lambda>c. rtaAlignOf (attr_Len c)) opts) \<le> 5 * 2051"
    using sum_list_le [of opts "\<lambda>c. rtaAlignOf (attr_Len c)" 2051] assms mult_le_mono1 [of "length opts" 5 2051]
    by (simp add: small_def)
  then show ?thesis
    using attr_Len_children [of opts t "[]"] rtaAlignOf_id [of 0] by (cases "opts = []") simp_all
qed

lemma table_roundtrip:
  assumes "encode_action ck a = Inr (kind, opts)" and "fresh_action kind = Some fresh"
    and "parse_data ck fresh (map attr_parsed opts) = Done a" and "small opts" and "length kind \<le> 10"
  shows "is_attr (action_table i kind opts) \<and> attr_Len (action_table i kind opts) < 2 ^ 15
    \<and> ParseRouteAttr (ra_Value (attr_parsed (action_table i kind opts))) =
        Done (Inr (map attr_parsed [NewRtAttr 1 (ZeroTerminated kind), RtAttr 2 [] opts]))
    \<and> parse_table ck None (map attr_parsed [NewRtAttr 1 (ZeroTerminated kind), RtAttr 2 [] opts]) = Done (Inr (Some a))"
proof (intro conjI)
  let ?cs = "[NewRtAttr 1 (ZeroTerminated kind), RtAttr 2 [] opts]"
  have o: "attr_Len (RtAttr 2 [] opts) < 2 ^ 14" using small_options_Len [OF assms(4)] .
  have k: "attr_Len (NewRtAttr 1 (ZeroTerminated kind)) \<le> 15" using assms(5) by simp
  show "is_attr (action_table i kind opts)" by (simp add: action_table_def)
  show "attr_Len (action_table i kind opts) < 2 ^ 15"
    using attr_Len_children [of ?cs "word_of_int i" "[]"] o k rtaAlignOf_id [of 0]
      rtaAlignOf_lt [of "attr_Len (RtAttr 2 [] opts)"] rtaAlignOf_lt [of "attr_Len (NewRtAttr 1 (ZeroTerminated kind))"]
    by (simp add: action_table_def del: attr_Len.simps)
  have "is_attr c \<and> attr_Len c < 2 ^ 16" if "c \<in> set ?cs" for c
    using that o k by (auto simp del: attr_Len.simps)
  then show "ParseRouteAttr (ra_Value (attr_parsed (action_table i kind opts))) = Done (Inr (map attr_parsed ?cs))"
    unfolding action_table_def by (rule parse_children)
  have "ParseRouteAttr (ra_Value (attr_parsed (RtAttr 2 [] opts))) = Done (Inr (map attr_parsed opts))"
    using assms(4) by (intro parse_children) (force simp: small_def)
  then show "parse_table ck None (map attr_parsed ?cs) = Done (Inr (Some a))"
    using assms(2,3) by (simp del: attr_Len.simps)
qed

text \<open>Parsing what \<open>EncodeActions\<close> builds gives the same actions in the same order.\<close>

lemma EncodeActions_roundtrip:
  assumes "\<forall>a \<in> set as. valid_action a"
  shows "\<exists>ts. EncodeActions_from ck i (map Some as) = Done (Inr ts)
    \<and> (\<forall>t \<in> set ts. is_attr t \<and> attr_Len t < 2 ^ 15) \<and> parseActions ck (map attr_parsed ts) = Done (Inr (map Some as))"
  using assms
proof (induction as arbitrary: i)
  case (Cons a as)
  then obtain ts where ts: "EncodeActions_from ck (i + 1) (map Some as) = Done (Inr ts)"
    "\<forall>t \<in> set ts. is_attr t \<and> attr_Len t < 2 ^ 15" "parseActions ck (map attr_parsed ts) = Done (Inr (map Some as))"
    by (meson list.set_intros(2))
  obtain kind opts fresh where a: "encode_action ck a = Inr (kind, opts)" "fresh_action kind = Some fresh"
    "parse_data ck fresh (map attr_parsed opts) = Done a" "small opts" "length kind \<le> 10"
    using action_data [of a ck] Cons.prems by auto
  note t = table_roundtrip [OF a, of i]
  show ?case
    by (intro exI [of _ "action_table i kind opts # ts"] conjI)
      (use t ts a(1) in \<open>simp_all del: attr_Len.simps attr_parsed.simps parse_table.simps\<close>)
qed simp

end
