(* ===== verification/NlSocket.thy ===== *)
theory NlSocket
  imports NlAttr
begin

text \<open>
  Netlink requests and sockets, the second part of
  \<open>pkg/github.com/vishvananda/netlink/nl/nl_linux.go\<close>: the message header and its serialization,
  opening sockets (also in another network namespace), sending, receiving, and the loop of
  \<open>NetlinkRequest.Execute\<close> that collects the answers of the kernel.

  The system calls are a parameter of type \<open>nl_os\<close>; what they change (open descriptors, queued
  datagrams, receive timeouts, the namespace of the thread) is the state \<open>nl_state\<close>. A receive call on
  an empty queue fails with \<open>EAGAIN\<close> when a timeout was set on the socket and never returns
  otherwise. The mutex of a shared socket is not modelled: one request runs at a time.
\<close>

section \<open>Message headers\<close>

record NlMsghdr =
  h_Len :: u32
  h_Type :: u16
  h_Flags :: u16
  h_Seq :: u32
  h_Pid :: u32

definition hdr_bytes :: "NlMsghdr \<Rightarrow> bytes" where
  "hdr_bytes h = le32 (h_Len h) @ le16 (h_Type h) @ le16 (h_Flags h) @ le32 (h_Seq h) @ le32 (h_Pid h)"

text \<open>The header at the start of a buffer of at least sixteen bytes.\<close>

definition read_hdr :: "bytes \<Rightarrow> NlMsghdr outcome" where
  "read_hdr b =
     obind (getle32 b) (\<lambda>l. obind (getle16 (drop 4 b)) (\<lambda>t. obind (getle16 (drop 6 b)) (\<lambda>f.
       obind (getle32 (drop 8 b)) (\<lambda>s. obind (getle32 (drop 12 b)) (\<lambda>p.
         Done \<lparr>h_Len = l, h_Type = t, h_Flags = f, h_Seq = s, h_Pid = p\<rparr>)))))"

lemma length_hdr_bytes [simp]: "length (hdr_bytes h) = 16"
  by (simp add: hdr_bytes_def)

lemma read_hdr_bytes [simp]: "read_hdr (hdr_bytes h @ r) = Done h"
  by (cases h) (simp add: read_hdr_def hdr_bytes_def)

definition NLM_F_REQUEST :: u16 where "NLM_F_REQUEST = 0x1"
definition NLM_F_MULTI :: u16 where "NLM_F_MULTI = 0x2"
definition NLM_F_ACK_TLVS :: u16 where "NLM_F_ACK_TLVS = 0x200"
definition NLMSG_ERROR :: u16 where "NLMSG_ERROR = 0x2"
definition NLMSG_DONE :: u16 where "NLMSG_DONE = 0x3"
definition NLMSGERR_ATTR_MSG :: u16 where "NLMSGERR_ATTR_MSG = 1"
definition PidKernel :: u32 where "PidKernel = 0"
definition RECEIVE_BUFFER_SIZE :: nat where "RECEIVE_BUFFER_SIZE = 65536"
definition EAGAIN :: int where "EAGAIN = 11"

section \<open>Sockets and requests\<close>

record NetlinkSocket =
  sk_fd :: int
  sk_Groups :: u32

record SocketHandle =
  sh_Seq :: u32
  sh_Socket :: "NetlinkSocket option"

record NetlinkRequest =
  rq_hdr :: NlMsghdr
  rq_Data :: "request_data list"
  rq_RawData :: bytes
  rq_Sockets :: "int \<rightharpoonup> SocketHandle"

definition AddData :: "NetlinkRequest \<Rightarrow> request_data \<Rightarrow> NetlinkRequest" where
  "AddData req data = req\<lparr>rq_Data := rq_Data req @ [data]\<rparr>"

definition AddRawData :: "NetlinkRequest \<Rightarrow> bytes \<Rightarrow> NetlinkRequest" where
  "AddRawData req data = req\<lparr>rq_RawData := rq_RawData req @ data\<rparr>"

text \<open>Every part of a request, serialized, in order.\<close>

fun serialize_all :: "request_data list \<Rightarrow> bytes list outcome" where
  "serialize_all [] = Done []"
| "serialize_all (d # ds) = obind (attr_Serialize d) (\<lambda>b. obind (serialize_all ds) (\<lambda>bs. Done (b # bs)))"

text \<open>\<open>NetlinkRequest.Serialize\<close> stores the length in the request and returns the bytes.\<close>

definition req_Serialize :: "NetlinkRequest \<Rightarrow> (bytes \<times> NetlinkRequest) outcome" where
  "req_Serialize req =
     obind (serialize_all (rq_Data req))
       (\<lambda>dataBytes.
         let len = 16 + length (concat dataBytes) + length (rq_RawData req);
             req = req\<lparr>rq_hdr := (rq_hdr req)\<lparr>h_Len := of_nat len\<rparr>\<rparr>
         in Done (hdr_bytes (rq_hdr req) @ concat dataBytes @ rq_RawData req, req))"

lemma serialize_all_wire: "serialize_all ds = Done (map attr_wire ds)"
  by (induction ds) (simp_all add: attr_Serialize_wire)

datatype nl_error = Errno int | Annotated nl_error string | ClosedSocket | NotNetlinkAddr | ShortResponse
  | WrongSender u32 | WrongSeq u32 u32 | WrongSocketType | NetnsError string int

text \<open>What a call of \<open>recvfrom\<close> gives: an error, or the bytes with the sender if it is a netlink address.\<close>

datatype recv = RecvError int | Datagram bytes "u32 option"

record nl_state =
  st_open :: "int list"
  st_queue :: "int \<Rightarrow> recv list"
  st_timeo :: "int \<Rightarrow> bool"
  st_nextSeqNr :: u32
  st_ns :: nat
  st_nsof :: "int \<Rightarrow> nat"
  st_locked :: nat

record nl_os =
  os_socket :: "int list \<Rightarrow> int \<Rightarrow> int + int"
  os_bind :: "int \<Rightarrow> u32 \<Rightarrow> int option"
  os_sndtimeo :: "int \<Rightarrow> int option"
  os_rcvtimeo :: "int \<Rightarrow> int option"
  os_extack :: "int \<Rightarrow> int option"
  os_getsockname :: "int \<Rightarrow> int + u32 option"
  os_sendto :: "int \<Rightarrow> bytes \<Rightarrow> int option"
  os_reply :: "int \<Rightarrow> bytes \<Rightarrow> recv list"
  os_netns_get :: "int list \<Rightarrow> int + int"
  os_setns :: "int \<Rightarrow> int option"

text \<open>The counter is bumped before it is used, and wraps.\<close>

definition NewNetlinkRequest :: "int \<Rightarrow> int \<Rightarrow> nl_state \<Rightarrow> NetlinkRequest \<times> nl_state" where
  "NewNetlinkRequest proto flags st =
     (let seq = st_nextSeqNr st + 1
      in (\<lparr>rq_hdr = \<lparr>h_Len = 16, h_Type = word_of_int proto, h_Flags = NLM_F_REQUEST OR word_of_int flags, h_Seq = seq, h_Pid = 0\<rparr>,
           rq_Data = [], rq_RawData = [], rq_Sockets = Map.empty\<rparr>,
          st\<lparr>st_nextSeqNr := seq\<rparr>))"

text \<open>A closed socket loses what it has not received.\<close>

definition close_fd :: "int \<Rightarrow> nl_state \<Rightarrow> nl_state" where
  "close_fd fd st = st\<lparr>st_open := remove1 fd (st_open st), st_queue := (st_queue st)(fd := [])\<rparr>"

definition getNetlinkSocket :: "nl_os \<Rightarrow> int \<Rightarrow> nl_state \<Rightarrow> (nl_error + NetlinkSocket) \<times> nl_state" where
  "getNetlinkSocket os protocol st =
     (case os_socket os (st_open st) protocol of
        Inl e \<Rightarrow> (Inl (Errno e), st)
      | Inr fd \<Rightarrow>
          (let st = st\<lparr>st_open := fd # st_open st\<rparr>
           in case os_bind os fd 0 of
                Some e \<Rightarrow> (Inl (Errno e), close_fd fd st)
              | None \<Rightarrow> (Inr \<lparr>sk_fd = fd, sk_Groups = 0\<rparr>, st)))"

text \<open>\<open>s.lsa.Groups |= 1 << (g - 1)\<close>: the shift of a \<open>uint32\<close> by 32 or more gives 0, and so does the
  group 0, whose \<open>g - 1\<close> wraps around.\<close>

definition group_bit :: "u64 \<Rightarrow> u32" where
  "group_bit g = push_bit (unat (g - 1)) 1"

definition Subscribe :: "nl_os \<Rightarrow> int \<Rightarrow> u64 list \<Rightarrow> nl_state \<Rightarrow> (nl_error + NetlinkSocket) \<times> nl_state" where
  "Subscribe os protocol groups st =
     (case os_socket os (st_open st) protocol of
        Inl e \<Rightarrow> (Inl (Errno e), st)
      | Inr fd \<Rightarrow>
          (let st = st\<lparr>st_open := fd # st_open st\<rparr>;
               mask = fold (\<lambda>g m. m OR group_bit g) groups 0
           in case os_bind os fd mask of
                Some e \<Rightarrow> (Inl (Errno e), close_fd fd st)
              | None \<Rightarrow> (Inr \<lparr>sk_fd = fd, sk_Groups = mask\<rparr>, st)))"

definition sk_Close :: "NetlinkSocket \<Rightarrow> nl_state \<Rightarrow> NetlinkSocket \<times> nl_state" where
  "sk_Close s st = (s\<lparr>sk_fd := -1\<rparr>, close_fd (sk_fd s) st)"

definition sh_Close :: "SocketHandle \<Rightarrow> nl_state \<Rightarrow> SocketHandle \<times> nl_state" where
  "sh_Close sh st =
     (case sh_Socket sh of
        None \<Rightarrow> (sh, st)
      | Some s \<Rightarrow> (let (s, st) = sk_Close s st in (sh\<lparr>sh_Socket := Some s\<rparr>, st)))"

definition GetFd :: "NetlinkSocket \<Rightarrow> int" where "GetFd s = sk_fd s"

definition SetSendTimeout :: "nl_os \<Rightarrow> NetlinkSocket \<Rightarrow> nl_state \<Rightarrow> nl_error option \<times> nl_state" where
  "SetSendTimeout os s st = (map_option Errno (os_sndtimeo os (sk_fd s)), st)"

definition SetReceiveTimeout :: "nl_os \<Rightarrow> NetlinkSocket \<Rightarrow> nl_state \<Rightarrow> nl_error option \<times> nl_state" where
  "SetReceiveTimeout os s st =
     (case os_rcvtimeo os (sk_fd s) of
        Some e \<Rightarrow> (Some (Errno e), st)
      | None \<Rightarrow> (None, st\<lparr>st_timeo := (st_timeo st)(sk_fd s := True)\<rparr>))"

definition SetExtAck :: "nl_os \<Rightarrow> NetlinkSocket \<Rightarrow> nl_state \<Rightarrow> nl_error option \<times> nl_state" where
  "SetExtAck os s st = (map_option Errno (os_extack os (sk_fd s)), st)"

definition GetPid :: "nl_os \<Rightarrow> NetlinkSocket \<Rightarrow> nl_error + u32" where
  "GetPid os s =
     (case os_getsockname os (sk_fd s) of
        Inl e \<Rightarrow> Inl (Errno e)
      | Inr None \<Rightarrow> Inl WrongSocketType
      | Inr (Some pid) \<Rightarrow> Inr pid)"

text \<open>Sending: the kernel queues its answer on the socket.\<close>

definition Send :: "nl_os \<Rightarrow> NetlinkSocket \<Rightarrow> NetlinkRequest \<Rightarrow> nl_state
    \<Rightarrow> (nl_error option \<times> NetlinkRequest \<times> nl_state) outcome" where
  "Send os s request st =
     (if sk_fd s < 0 then Done (Some ClosedSocket, request, st)
      else obind (req_Serialize request)
        (\<lambda>(b, request). case os_sendto os (sk_fd s) b of
             Some e \<Rightarrow> Done (Some (Errno e), request, st)
           | None \<Rightarrow> Done (None, request,
               st\<lparr>st_queue := (st_queue st)(sk_fd s := st_queue st (sk_fd s) @ os_reply os (sk_fd s) b)\<rparr>)))"

section \<open>Receiving\<close>

text \<open>
  A slice of the receive buffer: the bytes it shows and those between its length and its capacity,
  which a later slice expression may still reach.
\<close>

type_synonym go_slice = "bytes \<times> bytes"

fun slice_from :: "nat \<Rightarrow> go_slice \<Rightarrow> go_slice outcome" where
  "slice_from lo (d, spare) = (if length d < lo then Panic SliceBounds else Done (drop lo d, spare))"

fun slice_range :: "nat \<Rightarrow> nat \<Rightarrow> go_slice \<Rightarrow> go_slice outcome" where
  "slice_range lo hi (d, spare) =
     (if hi < lo \<or> length d + length spare < hi then Panic SliceBounds
      else Done (take (hi - lo) (drop lo (d @ spare)), drop hi (d @ spare)))"

record NetlinkMessage =
  m_Header :: NlMsghdr
  m_Data :: go_slice

text \<open>
  \<open>syscall.ParseNetlinkMessage\<close>: a header whose length is below sixteen or, aligned, beyond the end
  of the buffer is \<open>EINVAL\<close>.
\<close>

function ParseNetlinkMessage_loop :: "NetlinkMessage list \<Rightarrow> bytes \<Rightarrow> (int + NetlinkMessage list) outcome" where
  "ParseNetlinkMessage_loop msgs b =
     (if length b < 16 then Done (Inr msgs)
      else case read_hdr b of
          Panic p \<Rightarrow> Panic p
        | Hang \<Rightarrow> Hang
        | Done h \<Rightarrow>
            (let l = nlmAlignOf (unat (h_Len h)); dbuf = drop 16 b; n = unat (h_Len h) - 16
             in if unat (h_Len h) < 16 \<or> l > length b then Done (Inl EINVAL)
                else ParseNetlinkMessage_loop (msgs @ [\<lparr>m_Header = h, m_Data = (take n dbuf, drop n dbuf)\<rparr>]) (drop l b)))"
  by pat_completeness auto
termination
proof (relation "measure (\<lambda>(msgs, b). length b)")
  fix b and h :: NlMsghdr and msgs :: "NetlinkMessage list" and l dbuf n
  assume "\<not> length b < 16" and "l = nlmAlignOf (unat (h_Len h))" and "\<not> (unat (h_Len h) < 16 \<or> l > length b)"
  moreover from this have "0 < rtaAlignOf (unat (h_Len h))" by (intro less_le_trans [OF _ rtaAlignOf_ge]) simp
  ultimately show "((msgs @ [\<lparr>m_Header = h, m_Data = (take n dbuf, drop n dbuf)\<rparr>], drop l b), (msgs, b))
      \<in> measure (\<lambda>(msgs, b). length b)"
    by (simp add: nlmAlignOf_eq)
qed simp

declare ParseNetlinkMessage_loop.simps [simp del]

definition ParseNetlinkMessage :: "bytes \<Rightarrow> (int + NetlinkMessage list) outcome" where
  "ParseNetlinkMessage b = ParseNetlinkMessage_loop [] b"

text \<open>What \<open>Receive\<close> makes of the result of \<open>recvfrom\<close> into its buffer of 65536 bytes.\<close>

fun recv_result :: "recv \<Rightarrow> (nl_error + NetlinkMessage list \<times> u32) outcome" where
  "recv_result (RecvError e) = Done (Inl (Errno e))"
| "recv_result (Datagram b None) = Done (Inl NotNetlinkAddr)"
| "recv_result (Datagram b (Some pid)) =
     (let rb2 = take RECEIVE_BUFFER_SIZE b
      in if length rb2 < 16 then Done (Inl ShortResponse)
         else obind (ParseNetlinkMessage rb2)
           (\<lambda>r. case r of Inl e \<Rightarrow> Done (Inl (Errno e)) | Inr nl \<Rightarrow> Done (Inr (nl, pid))))"

definition Receive :: "NetlinkSocket \<Rightarrow> nl_state \<Rightarrow> ((nl_error + NetlinkMessage list \<times> u32) \<times> nl_state) outcome" where
  "Receive s st =
     (if sk_fd s < 0 then Done (Inl ClosedSocket, st)
      else case st_queue st (sk_fd s) of
          [] \<Rightarrow> if st_timeo st (sk_fd s) then Done (Inl (Errno EAGAIN), st) else Hang
        | r # q \<Rightarrow> obind (recv_result r) (\<lambda>x. Done (x, st\<lparr>st_queue := (st_queue st)(sk_fd s := q)\<rparr>)))"

section \<open>Execute\<close>

text \<open>
  The attributes that follow an error code: every \<open>NLMSGERR_ATTR_MSG\<close> is added to the error. The
  bounds of the value are checked against the capacity of the slice, those of the rest against its
  length.
\<close>

lemma slice_from_length: "slice_from lo s = Done s' \<Longrightarrow> length (fst s') = length (fst s) - lo \<and> lo \<le> length (fst s)"
  by (cases s) (auto split: if_splits)

lemma slice_range_le: "slice_range lo hi s = Done s' \<Longrightarrow> lo \<le> hi"
  by (cases s) (auto split: if_splits)

function annotate :: "nl_error \<Rightarrow> go_slice \<Rightarrow> nl_error outcome" where
  "annotate err unread =
     (if length (fst unread) < 4 then Done err
      else case getle16 (fst unread) of
          Panic p \<Rightarrow> Panic p
        | Hang \<Rightarrow> Hang
        | Done a_Len \<Rightarrow>
       (case getle16 (drop 2 (fst unread)) of
          Panic p \<Rightarrow> Panic p
        | Hang \<Rightarrow> Hang
        | Done a_Type \<Rightarrow>
       (case slice_range 4 (unat a_Len) unread of
          Panic p \<Rightarrow> Panic p
        | Hang \<Rightarrow> Hang
        | Done attrData \<Rightarrow>
            (let err = (if a_Type = NLMSGERR_ATTR_MSG then Annotated err (map (\<lambda>x. char_of (unat x)) (fst attrData)) else err)
             in case slice_from (rtaAlignOf (unat a_Len)) unread of
                  Panic p \<Rightarrow> Panic p
                | Hang \<Rightarrow> Hang
                | Done rest \<Rightarrow> annotate err rest))))"
  by pat_completeness auto
termination
proof (relation "measure (\<lambda>(err, unread). length (fst unread))")
  fix err :: nl_error and unread a_Len a_Type attrData err' rest
  assume "\<not> length (fst unread) < 4" and "slice_range 4 (unat (a_Len :: u16)) unread = Done attrData"
    and "slice_from (rtaAlignOf (unat a_Len)) unread = Done rest"
  then show "((err', rest), (err, unread)) \<in> measure (\<lambda>(err, unread). length (fst unread))"
    using slice_from_length [of "rtaAlignOf (unat a_Len)" unread rest] slice_range_le [of 4 "unat a_Len" unread attrData]
      order_trans [OF _ rtaAlignOf_ge, of 4 "unat a_Len"] by simp linarith
qed simp

declare annotate.simps [simp del]

text \<open>
  The error of a \<open>DONE\<close> or \<open>ERROR\<close> message; no error for the code 0. The flags are combined with the
  mask by \<open>|\<close>, so the test on them is always true.
\<close>

definition message_error :: "NetlinkMessage \<Rightarrow> nl_error option outcome" where
  "message_error m =
     obind (slice_range 0 4 (m_Data m)) (\<lambda>s. obind (getle32 (fst s)) (\<lambda>errno.
       if errno = 0 then Done None
       else let err = Errno (uint (scast (- errno) :: u64))
            in obind (slice_from 4 (m_Data m)) (\<lambda>unread.
                 if h_Flags (m_Header m) OR NLM_F_ACK_TLVS \<noteq> 0 \<and> length (fst unread) > 16
                 then obind (getle32 (fst unread)) (\<lambda>echo_Len.
                        obind (slice_from (nlmAlignOf (unat echo_Len)) unread) (\<lambda>unread.
                          obind (annotate err unread) (\<lambda>err. Done (Some err))))
                 else Done (Some err))))"

text \<open>The messages of a datagram: either the loop ends with a result or goes on with what it collected.\<close>

datatype progress = More "bytes list" | Finished "nl_error + bytes list"

fun exec_msgs :: "bool \<Rightarrow> u32 \<Rightarrow> u32 \<Rightarrow> u16 \<Rightarrow> bytes list \<Rightarrow> NetlinkMessage list \<Rightarrow> progress outcome" where
  "exec_msgs shared seq pid resType res [] = Done (More res)"
| "exec_msgs shared seq pid resType res (m # ms) =
     (if h_Seq (m_Header m) \<noteq> seq
      then (if shared then exec_msgs shared seq pid resType res ms
            else Done (Finished (Inl (WrongSeq (h_Seq (m_Header m)) seq))))
      else if h_Pid (m_Header m) \<noteq> pid then exec_msgs shared seq pid resType res ms
      else if h_Type (m_Header m) = NLMSG_DONE \<or> h_Type (m_Header m) = NLMSG_ERROR
      then obind (message_error m)
             (\<lambda>e. case e of None \<Rightarrow> Done (Finished (Inr res)) | Some err \<Rightarrow> Done (Finished (Inl err)))
      else if resType \<noteq> 0 \<and> h_Type (m_Header m) \<noteq> resType then exec_msgs shared seq pid resType res ms
      else (let res = res @ [fst (m_Data m)]
            in if h_Flags (m_Header m) AND NLM_F_MULTI = 0 then Done (Finished (Inr res))
               else exec_msgs shared seq pid resType res ms))"

lemma Receive_queue:
  "Receive s st = Done (Inr x, st') \<Longrightarrow>
     \<exists>r q. st_queue st (sk_fd s) = r # q \<and> st' = st\<lparr>st_queue := (st_queue st)(sk_fd s := q)\<rparr>"
  by (auto simp: Receive_def split: if_splits list.splits)

function exec_loop :: "NetlinkSocket \<Rightarrow> bool \<Rightarrow> u32 \<Rightarrow> u32 \<Rightarrow> u16 \<Rightarrow> bytes list \<Rightarrow> nl_state
    \<Rightarrow> ((nl_error + bytes list) \<times> nl_state) outcome" where
  "exec_loop s shared seq pid resType res st =
     (case Receive s st of
        Panic p \<Rightarrow> Panic p
      | Hang \<Rightarrow> Hang
      | Done (Inl e, st') \<Rightarrow> Done (Inl e, st')
      | Done (Inr (msgs, from), st') \<Rightarrow>
          (if from \<noteq> PidKernel then Done (Inl (WrongSender from), st')
           else case exec_msgs shared seq pid resType res msgs of
                Panic p \<Rightarrow> Panic p
              | Hang \<Rightarrow> Hang
              | Done (Finished r) \<Rightarrow> Done (r, st')
              | Done (More res) \<Rightarrow> exec_loop s shared seq pid resType res st'))"
  by pat_completeness auto
termination
  by (relation "measure (\<lambda>(s, shared, seq, pid, resType, res, st). length (st_queue st (sk_fd s)))")
    (auto dest!: Receive_queue)

declare exec_loop.simps [simp del]

text \<open>
  \<open>Execute\<close> after the socket is there: send, learn the own port, collect. The configuration flag
  \<open>EnableErrorMessageReporting\<close> is an argument.
\<close>

definition exec_on :: "nl_os \<Rightarrow> NetlinkSocket \<Rightarrow> bool \<Rightarrow> u16 \<Rightarrow> NetlinkRequest \<Rightarrow> nl_state
    \<Rightarrow> ((nl_error + bytes list) \<times> NetlinkRequest \<times> nl_state) outcome" where
  "exec_on os s shared resType req st =
     obind (Send os s req st) (\<lambda>(e, req, st).
       case e of
         Some err \<Rightarrow> Done (Inl err, req, st)
       | None \<Rightarrow>
          (case GetPid os s of
             Inl err \<Rightarrow> Done (Inl err, req, st)
           | Inr pid \<Rightarrow>
               obind (exec_loop s shared (h_Seq (rq_hdr req)) pid resType [] st) (\<lambda>(r, st). Done (r, req, st))))"

text \<open>The options of a socket of its own; the deferred \<open>Close\<close> is registered only after them.\<close>

definition own_socket :: "nl_os \<Rightarrow> bool \<Rightarrow> int \<Rightarrow> nl_state \<Rightarrow> (nl_error + NetlinkSocket) \<times> nl_state" where
  "own_socket os extack sockType st =
     (case getNetlinkSocket os sockType st of
        (Inl e, st) \<Rightarrow> (Inl e, st)
      | (Inr s, st) \<Rightarrow>
          (case SetSendTimeout os s st of
             (Some e, st) \<Rightarrow> (Inl e, st)
           | (None, st) \<Rightarrow>
               (case SetReceiveTimeout os s st of
                  (Some e, st) \<Rightarrow> (Inl e, st)
                | (None, st) \<Rightarrow>
                    if extack
                    then (case SetExtAck os s st of (Some e, st) \<Rightarrow> (Inl e, st) | (None, st) \<Rightarrow> (Inr s, st))
                    else (Inr s, st))))"

definition Execute :: "nl_os \<Rightarrow> bool \<Rightarrow> int \<Rightarrow> u16 \<Rightarrow> NetlinkRequest \<Rightarrow> nl_state
    \<Rightarrow> ((nl_error + bytes list) \<times> NetlinkRequest \<times> nl_state) outcome" where
  "Execute os extack sockType resType req st =
     (let (req, shared) =
        (case rq_Sockets req sockType of
           None \<Rightarrow> (req, None)
         | Some sh \<Rightarrow>
             (let seq = sh_Seq sh + 1
              in (req\<lparr>rq_hdr := (rq_hdr req)\<lparr>h_Seq := seq\<rparr>,
                      rq_Sockets := (rq_Sockets req)(sockType \<mapsto> sh\<lparr>sh_Seq := seq\<rparr>)\<rparr>, sh_Socket sh)))
      in case shared of
           Some s \<Rightarrow> exec_on os s True resType req st
         | None \<Rightarrow>
             (case own_socket os extack sockType st of
                (Inl e, st) \<Rightarrow> Done (Inl e, req, st)
              | (Inr s, st) \<Rightarrow>
                  obind (exec_on os s False resType req st)
                    (\<lambda>(r, req, st). Done (r, req, snd (sk_Close s st)))))"

section \<open>Serialized requests\<close>

text \<open>C39: A serialized request starts with the request's own header, whose length field is the number of
bytes sent (below 4 GiB), and goes on with the wire form of every part in the order in which it was
added, then the raw data. Serialization never panics.\<close>

theorem req_Serialize_header:
  assumes "length (concat (map attr_wire (rq_Data req))) + length (rq_RawData req) + 16 < 2 ^ 32"
  shows "\<exists>b req'. req_Serialize req = Done (b, req')
    \<and> read_hdr b = Done (rq_hdr req') \<and> unat (h_Len (rq_hdr req')) = length b
    \<and> h_Type (rq_hdr req') = h_Type (rq_hdr req) \<and> h_Seq (rq_hdr req') = h_Seq (rq_hdr req)
    \<and> drop 16 b = concat (map attr_wire (rq_Data req)) @ rq_RawData req"
proof -
  let ?n = "16 + length (concat (map attr_wire (rq_Data req))) + length (rq_RawData req)"
  have "unat (of_nat ?n :: u32) = ?n" using assms by (simp add: unat_of_nat del: of_nat_add)
  then show ?thesis by (simp add: req_Serialize_def serialize_all_wire Let_def del: of_nat_add)
qed

definition idle_state :: nl_state where
  "idle_state = \<lparr>st_open = [], st_queue = (\<lambda>_. []), st_timeo = (\<lambda>_. False), st_nextSeqNr = 0, st_ns = 0, st_nsof = (\<lambda>_. 0), st_locked = 0\<rparr>"

lemma req_Serialize_header_witness:
  "\<exists>b req'. req_Serialize (AddData (fst (NewNetlinkRequest 16 5 idle_state)) (Uint32Attribute 1 3)) = Done (b, req')
    \<and> unat (h_Len (rq_hdr req')) = length b"
proof -
  let ?r = "AddData (fst (NewNetlinkRequest 16 5 idle_state)) (Uint32Attribute 1 3)"
  have "length (concat (map attr_wire (rq_Data ?r))) + length (rq_RawData ?r) + 16 < 2 ^ 32"
    by (simp add: AddData_def NewNetlinkRequest_def Let_def Uint32Attribute_Serialize_def)
  from req_Serialize_header [OF this] show ?thesis by blast
qed

section \<open>Answers of the kernel\<close>

text \<open>A message on the wire: header with its length, data, padding.\<close>

definition msg_wire :: "NlMsghdr \<times> bytes \<Rightarrow> bytes" where
  "msg_wire m = hdr_bytes ((fst m)\<lparr>h_Len := of_nat (16 + length (snd m))\<rparr>) @ pad4 (snd m)"

definition reads_as :: "NlMsghdr \<times> bytes \<Rightarrow> NetlinkMessage \<Rightarrow> bool" where
  "reads_as m x \<longleftrightarrow> m_Header x = (fst m)\<lparr>h_Len := of_nat (16 + length (snd m))\<rparr> \<and> fst (m_Data x) = snd m"

lemma length_msg_wire [simp]: "length (msg_wire m) = 16 + rtaAlignOf (length (snd m))"
  by (simp add: msg_wire_def)

lemma parse_message:
  assumes "length (snd m) < 2 ^ 31"
  shows "\<exists>x. reads_as m x \<and> ParseNetlinkMessage_loop acc (msg_wire m @ rest) = ParseNetlinkMessage_loop (acc @ [x]) rest"
proof -
  let ?n = "length (snd m)"
  have n: "unat (of_nat (16 + ?n) :: u32) = 16 + ?n" using assms by (simp add: unat_of_nat del: of_nat_add)
  have al: "rtaAlignOf (16 + ?n) = 16 + rtaAlignOf ?n" by (rule rtaAlignOf_add) simp
  have take: "take ?n (pad4 (snd m)) = snd m" by (simp add: pad4_def)
  let ?x = "\<lparr>m_Header = (fst m)\<lparr>h_Len := of_nat (16 + ?n)\<rparr>, m_Data = (snd m, drop ?n (pad4 (snd m) @ rest))\<rparr>"
  have "ParseNetlinkMessage_loop acc (msg_wire m @ rest) = ParseNetlinkMessage_loop (acc @ [?x]) rest"
    by (subst ParseNetlinkMessage_loop.simps)
      (simp add: msg_wire_def Let_def n nlmAlignOf_eq al take del: of_nat_add)
  then show ?thesis by (intro exI [of _ ?x]) (simp add: reads_as_def)
qed

lemma parse_messages:
  assumes "\<forall>m \<in> set ms. length (snd m) < 2 ^ 31"
  shows "\<exists>xs. list_all2 reads_as ms xs \<and> ParseNetlinkMessage_loop acc (concat (map msg_wire ms)) = Done (Inr (acc @ xs))"
  using assms
proof (induction ms arbitrary: acc)
  case Nil
  then show ?case by (simp add: ParseNetlinkMessage_loop.simps)
next
  case (Cons m ms)
  then obtain x where x: "reads_as m x"
    "ParseNetlinkMessage_loop acc (msg_wire m @ concat (map msg_wire ms)) = ParseNetlinkMessage_loop (acc @ [x]) (concat (map msg_wire ms))"
    using parse_message [of m acc "concat (map msg_wire ms)"] by auto
  obtain xs where "list_all2 reads_as ms xs"
    "ParseNetlinkMessage_loop (acc @ [x]) (concat (map msg_wire ms)) = Done (Inr ((acc @ [x]) @ xs))"
    using Cons.IH [of "acc @ [x]"] Cons.prems by auto
  with x show ?case by (intro exI [of _ "x # xs"]) simp
qed

text \<open>A part of a multipart answer for the request and the port that asked.\<close>

definition part_of :: "u32 \<Rightarrow> u32 \<Rightarrow> NlMsghdr \<times> bytes \<Rightarrow> bool" where
  "part_of seq pid m \<longleftrightarrow> h_Seq (fst m) = seq \<and> h_Pid (fst m) = pid
     \<and> h_Type (fst m) \<noteq> NLMSG_DONE \<and> h_Type (fst m) \<noteq> NLMSG_ERROR \<and> h_Flags (fst m) AND NLM_F_MULTI \<noteq> 0"

definition final_of :: "u32 \<Rightarrow> u32 \<Rightarrow> u32 \<Rightarrow> NlMsghdr \<times> bytes \<Rightarrow> bool" where
  "final_of seq pid code m \<longleftrightarrow> h_Seq (fst m) = seq \<and> h_Pid (fst m) = pid
     \<and> (h_Type (fst m) = NLMSG_DONE \<or> h_Type (fst m) = NLMSG_ERROR) \<and> snd m = le32 code"

abbreviation selected :: "u16 \<Rightarrow> (NlMsghdr \<times> bytes) list \<Rightarrow> bytes list" where
  "selected resType ms \<equiv> map snd (filter (\<lambda>m. resType = 0 \<or> h_Type (fst m) = resType) ms)"

definition final_result :: "u32 \<Rightarrow> bytes list \<Rightarrow> nl_error + bytes list" where
  "final_result code res = (if code = 0 then Inr res else Inl (Errno (uint (scast (- code) :: u64))))"

lemma exec_msgs_parts:
  assumes "list_all2 reads_as ms xs" and "\<forall>m \<in> set ms. part_of seq pid m"
  shows "exec_msgs shared seq pid resType res (xs @ ys) = exec_msgs shared seq pid resType (res @ selected resType ms) ys"
  using assms
proof (induction ms xs arbitrary: res rule: list_all2_induct)
  case (Cons m ms x xs)
  then show ?case by (auto simp: reads_as_def part_of_def Let_def)
qed simp

text \<open>A message that ends the loop, with a result that may depend on the parts before it.\<close>

definition ends_with :: "u32 \<Rightarrow> u32 \<Rightarrow> u16 \<Rightarrow> NlMsghdr \<times> bytes \<Rightarrow> (bytes list \<Rightarrow> nl_error + bytes list) \<Rightarrow> bool" where
  "ends_with seq pid resType m r \<longleftrightarrow>
     (\<forall>x xs shared res. reads_as m x \<longrightarrow> exec_msgs shared seq pid resType res (x # xs) = Done (Finished (r res)))"

lemma final_ends:
  assumes "final_of seq pid code m"
  shows "ends_with seq pid resType m (final_result code)"
  unfolding ends_with_def
proof (intro allI impI)
  fix x xs shared res
  assume r: "reads_as m x"
  have e: "slice_range 0 4 (m_Data x) = Done (le32 code, snd (m_Data x))" "slice_from 4 (m_Data x) = Done ([], snd (m_Data x))"
    using assms r by (cases "m_Data x"; simp add: reads_as_def final_of_def)+
  have "message_error x = Done (if code = 0 then None else Some (Errno (uint (scast (- code) :: u64))))"
    using getle32_le32 [of code "[]"] by (simp add: message_error_def e Let_def)
  then show "exec_msgs shared seq pid resType res (x # xs) = Done (Finished (final_result code res))"
    using assms r by (simp add: reads_as_def final_of_def final_result_def)
qed

text \<open>A message that is not part of a multipart answer is the last one that is looked at.\<close>

definition single_of :: "u32 \<Rightarrow> u32 \<Rightarrow> u16 \<Rightarrow> NlMsghdr \<times> bytes \<Rightarrow> bool" where
  "single_of seq pid resType m \<longleftrightarrow> h_Seq (fst m) = seq \<and> h_Pid (fst m) = pid \<and> h_Type (fst m) \<noteq> NLMSG_DONE
     \<and> h_Type (fst m) \<noteq> NLMSG_ERROR \<and> (resType = 0 \<or> h_Type (fst m) = resType) \<and> h_Flags (fst m) AND NLM_F_MULTI = 0"

lemma single_ends: "single_of seq pid resType m \<Longrightarrow> ends_with seq pid resType m (\<lambda>res. Inr (res @ [snd m]))"
  by (auto simp: ends_with_def single_of_def reads_as_def)

text \<open>An answer that reaches the socket as any number of datagrams, none of them longer than the buffer.\<close>

definition datagram_of :: "(NlMsghdr \<times> bytes) list \<Rightarrow> recv" where
  "datagram_of ms = Datagram (concat (map msg_wire ms)) (Some PidKernel)"

definition fits :: "(NlMsghdr \<times> bytes) list \<Rightarrow> bool" where
  "fits ms \<longleftrightarrow> ms \<noteq> [] \<and> length (concat (map msg_wire ms)) \<le> RECEIVE_BUFFER_SIZE"

lemma fits_small: "fits ms \<Longrightarrow> m \<in> set ms \<Longrightarrow> length (snd m) < 2 ^ 31"
proof -
  assume "fits ms" "m \<in> set ms"
  then have "length (msg_wire m) \<le> RECEIVE_BUFFER_SIZE"
    using member_le_sum_list [of "length (msg_wire m)" "map (\<lambda>m. length (msg_wire m)) ms"]
    by (simp add: fits_def length_concat comp_def del: length_msg_wire)
  then show ?thesis
    using rtaAlignOf_ge [of "length (snd m)"] by (simp add: RECEIVE_BUFFER_SIZE_def del: rtaAlignOf_ge)
qed

lemma recv_datagram:
  assumes "fits ms"
  obtains xs where "list_all2 reads_as ms xs" and "recv_result (datagram_of ms) = Done (Inr (xs, PidKernel))"
proof -
  obtain xs where xs: "list_all2 reads_as ms xs" "ParseNetlinkMessage_loop [] (concat (map msg_wire ms)) = Done (Inr xs)"
    using parse_messages [of ms "[]"] fits_small [OF assms] by auto
  moreover have "16 \<le> length (concat (map msg_wire ms))" using assms by (cases ms) (simp_all add: fits_def)
  ultimately show ?thesis
    using assms by (intro that [of xs]) (simp_all add: datagram_of_def fits_def ParseNetlinkMessage_def Let_def)
qed

lemma exec_loop_answer:
  assumes "concat dgs = parts @ [fin]" and "\<forall>ms \<in> set dgs. fits ms"
    and "\<forall>m \<in> set parts. part_of seq pid m" and "ends_with seq pid resType fin r"
    and "st_queue st (sk_fd s) = map datagram_of dgs @ q" and "0 \<le> sk_fd s"
  shows "exec_loop s shared seq pid resType res st =
    Done (r (res @ selected resType parts), st\<lparr>st_queue := (st_queue st)(sk_fd s := q)\<rparr>)"
  using assms
proof (induction dgs arbitrary: parts res st)
  case (Cons ms dgs)
  then have "fits ms" by simp
  then obtain xs where xs: "list_all2 reads_as ms xs" "recv_result (datagram_of ms) = Done (Inr (xs, PidKernel))"
    by (rule recv_datagram)
  let ?st = "st\<lparr>st_queue := (st_queue st)(sk_fd s := map datagram_of dgs @ q)\<rparr>"
  have recv: "Receive s st = Done (Inr (xs, PidKernel), ?st)" using Cons.prems xs by (simp add: Receive_def)
  show ?case
  proof (cases "dgs = []")
    case True
    then have "ms = parts @ [fin]" using Cons.prems(1) by simp
    then obtain ys x where ys: "xs = ys @ [x]" "list_all2 reads_as parts ys" "reads_as fin x"
      using xs(1) by (auto simp: list_all2_append1 list_all2_Cons1)
    then have "exec_msgs shared seq pid resType res xs = Done (Finished (r (res @ selected resType parts)))"
      using exec_msgs_parts [OF ys(2) Cons.prems(3)] Cons.prems(4) ys(3) by (simp add: ends_with_def)
    then show ?thesis using True by (subst exec_loop.simps) (simp add: recv)
  next
    case False
    then have "concat dgs \<noteq> []" using Cons.prems(2) by (cases dgs) (auto simp: fits_def)
    with Cons.prems(1) have p: "parts = ms @ butlast (concat dgs)" "concat dgs = butlast (concat dgs) @ [fin]"
      by (metis append_assoc append_butlast_last_id butlast_append concat.simps(2) last_appendR last_snoc snoc_eq_iff_butlast)+
    have "exec_msgs shared seq pid resType res xs = Done (More (res @ selected resType ms))"
      using exec_msgs_parts [OF xs(1), of seq pid shared resType res "[]"] Cons.prems(3) p(1) by simp
    then have "exec_loop s shared seq pid resType res st = exec_loop s shared seq pid resType (res @ selected resType ms) ?st"
      by (subst exec_loop.simps) (simp add: recv)
    also have "\<dots> = Done (r ((res @ selected resType ms) @ selected resType (butlast (concat dgs))),
        ?st\<lparr>st_queue := (st_queue ?st)(sk_fd s := q)\<rparr>)"
      using Cons.prems p by (intro Cons.IH) auto
    also have "\<dots> = Done (r (res @ selected resType parts), st\<lparr>st_queue := (st_queue st)(sk_fd s := q)\<rparr>)"
      using arg_cong [OF p(1), of "selected resType"] by simp
    finally show ?thesis .
  qed
qed simp

section \<open>Results of Execute\<close>

text \<open>An operating system on which a request of its own can be sent and its answer awaited.\<close>

definition can_send :: "nl_os \<Rightarrow> int \<Rightarrow> nl_state \<Rightarrow> int \<Rightarrow> u32 \<Rightarrow> bool" where
  "can_send os sockType st fd pid \<longleftrightarrow>
     os_socket os (st_open st) sockType = Inr fd \<and> 0 \<le> fd \<and> st_queue st fd = [] \<and> os_bind os fd 0 = None
     \<and> os_sndtimeo os fd = None \<and> os_rcvtimeo os fd = None \<and> os_extack os fd = None
     \<and> os_getsockname os fd = Inr (Some pid) \<and> (\<forall>b. os_sendto os fd b = None)"

lemma Execute_ended:
  assumes "can_send os sockType st fd pid" and "rq_Sockets req sockType = None"
    and "req_Serialize req = Done (b, req')" and "os_reply os fd b = map datagram_of dgs @ q"
    and "concat dgs = parts @ [fin]" and "\<forall>ms \<in> set dgs. fits ms"
    and "\<forall>m \<in> set parts. part_of (h_Seq (rq_hdr req)) pid m" and "ends_with (h_Seq (rq_hdr req)) pid resType fin r"
  shows "\<exists>st'. Execute os extack sockType resType req st = Done (r (selected resType parts), req', st')
    \<and> st' = st\<lparr>st_timeo := (st_timeo st)(fd := True)\<rparr>"
proof -
  let ?s = "\<lparr>sk_fd = fd, sk_Groups = 0\<rparr>"
  let ?st = "st\<lparr>st_open := fd # st_open st, st_timeo := (st_timeo st)(fd := True)\<rparr>"
  have os: "os_socket os (st_open st) sockType = Inr fd" "0 \<le> fd" "st_queue st fd = []" "os_bind os fd 0 = None"
    "os_sndtimeo os fd = None" "os_rcvtimeo os fd = None" "os_extack os fd = None"
    "os_getsockname os fd = Inr (Some pid)" "\<And>b. os_sendto os fd b = None"
    using assms(1) by (simp_all add: can_send_def)
  have own: "own_socket os extack sockType st = (Inr ?s, ?st)"
    using os by (simp add: own_socket_def getNetlinkSocket_def SetSendTimeout_def SetReceiveTimeout_def SetExtAck_def Let_def)
  have seq: "h_Seq (rq_hdr req') = h_Seq (rq_hdr req)"
    using assms(3) by (auto simp: req_Serialize_def Let_def)
  let ?st1 = "?st\<lparr>st_queue := (st_queue st)(fd := map datagram_of dgs @ q)\<rparr>"
  have send: "Send os ?s req ?st = Done (None, req', ?st1)" using os assms(3,4) by (simp add: Send_def)
  have pid: "GetPid os ?s = Inr pid" using os by (simp add: GetPid_def)
  have loop: "exec_loop ?s False (h_Seq (rq_hdr req)) pid resType [] ?st1 =
      Done (r ([] @ selected resType parts), ?st1\<lparr>st_queue := (st_queue ?st1)(sk_fd ?s := q)\<rparr>)"
    by (rule exec_loop_answer [OF assms(5-8)]) (use os in simp_all)
  have "(st_queue st)(fd := []) = st_queue st" using os(3) by (intro fun_upd_idem)
  then have same: "st\<lparr>st_timeo := x, st_queue := (st_queue st)(fd := [])\<rparr> = st\<lparr>st_timeo := x\<rparr>" for x by simp
  show ?thesis
    unfolding Execute_def using assms(2)
    by (simp add: own exec_on_def send pid seq loop sk_Close_def close_fd_def same)
qed

lemma Execute_answered:
  assumes "can_send os sockType st fd pid" and "rq_Sockets req sockType = None"
    and "req_Serialize req = Done (b, req')" and "os_reply os fd b = map datagram_of dgs"
    and "concat dgs = parts @ [fin]" and "\<forall>ms \<in> set dgs. fits ms"
    and "\<forall>m \<in> set parts. part_of (h_Seq (rq_hdr req)) pid m" and "final_of (h_Seq (rq_hdr req)) pid code fin"
  shows "\<exists>st'. Execute os extack sockType resType req st = Done (final_result code (selected resType parts), req', st')
    \<and> st' = st\<lparr>st_timeo := (st_timeo st)(fd := True)\<rparr>"
  using Execute_ended [OF assms(1-3) _ assms(5-7) final_ends [OF assms(8)], of "[]"] assms(4) by simp

text \<open>C37: A request on a socket of its own, answered by parts and a final message for its sequence number
and port, gives the data of the parts of the wanted type in order when the final code is 0 and the
error number otherwise. How the kernel cuts the answer into datagrams does not matter, and the socket
is closed again.\<close>

theorem Execute_answer:
  assumes "can_send os sockType st fd pid" and "rq_Sockets req sockType = None"
    and "req_Serialize req = Done (b, req')" and "os_reply os fd b = map datagram_of dgs"
    and "concat dgs = parts @ [fin]" and "\<forall>ms \<in> set dgs. fits ms"
    and "\<forall>m \<in> set parts. part_of (h_Seq (rq_hdr req)) pid m" and "final_of (h_Seq (rq_hdr req)) pid code fin"
  shows "\<exists>st'. Execute os extack sockType resType req st = Done (final_result code (selected resType parts), req', st')
    \<and> st_open st' = st_open st \<and> st_queue st' fd = []"
proof -
  obtain st' where "Execute os extack sockType resType req st = Done (final_result code (selected resType parts), req', st')"
    "st' = st\<lparr>st_timeo := (st_timeo st)(fd := True)\<rparr>"
    using Execute_answered [OF assms] by blast
  moreover have "st_queue st fd = []" using assms(1) by (simp add: can_send_def)
  ultimately show ?thesis by simp
qed

text \<open>The sockets that Execute leaves open.\<close>

lemma exec_loop_open: "exec_loop s shared seq pid resType res st = Done (r, st') \<Longrightarrow> st_open st' = st_open st"
proof (induction s shared seq pid resType res st rule: exec_loop.induct)
  case (1 s shared seq pid resType res st)
  show ?case
  proof (cases "Receive s st")
    case (Done x)
    obtain y st1 where x: "x = (y, st1)" by (cases x)
    have o: "st_open st1 = st_open st"
      using Done by (auto simp: x Receive_def split: if_splits list.splits)
    show ?thesis
      using "1.prems" "1.IH" [OF Done] o
      by (subst (asm) exec_loop.simps) (auto simp: Done x split: sum.splits if_splits outcome.splits progress.splits)
  qed (use "1.prems" in \<open>subst (asm) exec_loop.simps; simp\<close>)+
qed

lemma exec_on_open: "exec_on os s shared resType req st = Done (r, req', st') \<Longrightarrow> st_open st' = st_open st"
  by (auto simp: exec_on_def Send_def split: if_splits option.splits sum.splits dest!: exec_loop_open)

lemma own_socket_open:
  assumes "own_socket os extack sockType st = (r, st')"
  shows "st_open st' = (case r of Inr s \<Rightarrow> sk_fd s # st_open st
      | Inl e \<Rightarrow> (case os_socket os (st_open st) sockType of
           Inl e' \<Rightarrow> st_open st
         | Inr fd \<Rightarrow> if os_bind os fd 0 = None then fd # st_open st else st_open st))"
  using assms
  by (auto simp: own_socket_def getNetlinkSocket_def SetSendTimeout_def SetReceiveTimeout_def SetExtAck_def close_fd_def Let_def
      split: sum.splits option.splits if_splits)

text \<open>The options of a fresh socket can be set.\<close>

definition options_ok :: "nl_os \<Rightarrow> bool" where
  "options_ok os \<longleftrightarrow> (\<forall>fd. os_sndtimeo os fd = None \<and> os_rcvtimeo os fd = None \<and> os_extack os fd = None)"

lemma own_socket_options:
  "options_ok os \<Longrightarrow> own_socket os extack sockType st = (Inl e, st') \<Longrightarrow> st_open st' = st_open st"
  by (auto simp: options_ok_def own_socket_def getNetlinkSocket_def SetSendTimeout_def SetReceiveTimeout_def SetExtAck_def
      close_fd_def Let_def split: sum.splits option.splits if_splits)

text \<open>C38: Whatever the kernel answers, a request that returns leaves the same descriptors open as before,
provided that the socket options can be set. When the send timeout of a fresh socket cannot be set, the
request fails and its socket stays open.\<close>

theorem Execute_descriptors:
  assumes "Execute os extack sockType resType req st = Done (r, req', st')"
  shows "(options_ok os \<longrightarrow> st_open st' = st_open st)
    \<and> (rq_Sockets req sockType = None \<and> os_socket os (st_open st) sockType = Inr fd \<and> os_bind os fd 0 = None
        \<and> os_sndtimeo os fd = Some e \<longrightarrow> r = Inl (Errno e) \<and> st_open st' = fd # st_open st)"
proof (intro conjI impI)
  show "st_open st' = st_open st" if "options_ok os"
    using assms own_socket_options [OF that]
    by (auto simp: Execute_def Let_def sk_Close_def close_fd_def dest!: exec_on_open own_socket_open
        split: option.splits prod.splits sum.splits)
  assume "rq_Sockets req sockType = None \<and> os_socket os (st_open st) sockType = Inr fd \<and> os_bind os fd 0 = None
    \<and> os_sndtimeo os fd = Some e"
  then show "r = Inl (Errno e)" "st_open st' = fd # st_open st"
    using assms by (simp add: Execute_def own_socket_def getNetlinkSocket_def SetSendTimeout_def Let_def; auto)+
qed

text \<open>A kernel with one socket that answers the request number 1 with two parts in two datagrams.\<close>

definition example_part :: "u16 \<Rightarrow> u8 \<Rightarrow> NlMsghdr \<times> bytes" where
  "example_part t x = (\<lparr>h_Len = 0, h_Type = t, h_Flags = NLM_F_MULTI, h_Seq = 1, h_Pid = 77\<rparr>, [x])"

definition example_fin :: "NlMsghdr \<times> bytes" where
  "example_fin = (\<lparr>h_Len = 0, h_Type = NLMSG_DONE, h_Flags = NLM_F_MULTI, h_Seq = 1, h_Pid = 77\<rparr>, le32 0)"

definition example_os :: nl_os where
  "example_os = \<lparr>os_socket = (\<lambda>_ _. Inr 3), os_bind = (\<lambda>_ _. None), os_sndtimeo = (\<lambda>_. None), os_rcvtimeo = (\<lambda>_. None),
     os_extack = (\<lambda>_. None), os_getsockname = (\<lambda>_. Inr (Some 77)), os_sendto = (\<lambda>_ _. None),
     os_reply = (\<lambda>_ _. [datagram_of [example_part 16 1], datagram_of [example_part 16 2, example_fin]]),
     os_netns_get = (\<lambda>_. Inr 9), os_setns = (\<lambda>_. None)\<rparr>"

definition example_req :: NetlinkRequest where
  "example_req = fst (NewNetlinkRequest 18 0x300 idle_state)"

lemma example_req_simps: "rq_Sockets example_req = Map.empty" "h_Seq (rq_hdr example_req) = 1"
  "\<exists>b req'. req_Serialize example_req = Done (b, req')"
  by (simp_all add: example_req_def NewNetlinkRequest_def idle_state_def Let_def req_Serialize_def)

lemma Execute_answer_witness:
  "\<exists>req' st'. Execute example_os False 0 16 example_req idle_state = Done (Inr [[1], [2]], req', st') \<and> st_open st' = []"
proof -
  obtain b req' where b: "req_Serialize example_req = Done (b, req')" using example_req_simps(3) by blast
  have can: "can_send example_os 0 idle_state 3 77" by (simp add: can_send_def example_os_def idle_state_def)
  have reply: "os_reply example_os 3 b = map datagram_of [[example_part 16 1], [example_part 16 2, example_fin]]"
    by (simp add: example_os_def)
  have parts: "concat [[example_part 16 1], [example_part 16 2, example_fin]] = [example_part 16 1, example_part 16 2] @ [example_fin]"
    by simp
  have ok: "\<forall>ms \<in> set [[example_part 16 1], [example_part 16 2, example_fin]]. fits ms"
    by (simp add: fits_def example_part_def example_fin_def rtaAlignOf_eq RECEIVE_BUFFER_SIZE_def)
  have p: "\<forall>m \<in> set [example_part 16 1, example_part 16 2]. part_of (h_Seq (rq_hdr example_req)) 77 m"
    by (simp add: part_of_def example_part_def example_req_simps NLMSG_DONE_def NLMSG_ERROR_def NLM_F_MULTI_def)
  have f: "final_of (h_Seq (rq_hdr example_req)) 77 0 example_fin"
    by (simp add: final_of_def example_fin_def example_req_simps)
  from Execute_answer [OF can _ b reply parts ok p f, of False 16] show ?thesis
    by (auto simp: example_req_simps final_result_def example_part_def idle_state_def)
qed

lemma Execute_descriptors_witness:
  "case Execute (example_os\<lparr>os_sndtimeo := \<lambda>_. Some 1\<rparr>) False 0 16 example_req idle_state of
     Done (r, req', st') \<Rightarrow> r = Inl (Errno 1) \<and> st_open st' = [3] | _ \<Rightarrow> False"
proof -
  let ?os = "example_os\<lparr>os_sndtimeo := \<lambda>_. Some 1\<rparr>"
  obtain r req' st' where e: "Execute ?os False 0 16 example_req idle_state = Done (r, req', st')"
    by (simp add: Execute_def example_req_simps own_socket_def getNetlinkSocket_def SetSendTimeout_def example_os_def Let_def)
  have "r = Inl (Errno 1) \<and> st_open st' = [3]"
    using Execute_descriptors [OF e, of 3 1] by (simp add: example_req_simps example_os_def idle_state_def)
  then show ?thesis by (simp add: e)
qed

end
