(* ===== verification/NlHandle.thy ===== *)
theory NlHandle
  imports NlSocket
begin

text \<open>
  Sockets in other network namespaces, and the handles of the netlink package:
  \<open>executeInNetns\<close>, \<open>GetNetlinkSocketAt\<close> and \<open>SubscribeAt\<close> of \<open>nl/nl_linux.go\<close>, the operations of
  \<open>pkg/github.com/vishvananda/netns\<close> they use, and \<open>handle_linux.go\<close>. The namespace of the thread and
  the namespace behind each open descriptor are part of \<open>nl_state\<close>.
\<close>

section \<open>Network namespaces\<close>

definition netns_None :: int where "netns_None = -1"

definition IsOpen :: "int \<Rightarrow> bool" where "IsOpen ns \<longleftrightarrow> ns \<noteq> -1"

definition netns_Set :: "nl_os \<Rightarrow> int \<Rightarrow> nl_state \<Rightarrow> int option \<times> nl_state" where
  "netns_Set os ns st =
     (case os_setns os ns of Some e \<Rightarrow> (Some e, st) | None \<Rightarrow> (None, st\<lparr>st_ns := st_nsof st ns\<rparr>))"

text \<open>\<open>Get\<close> opens the namespace file of the thread: a new descriptor for the current namespace.\<close>

definition netns_Get :: "nl_os \<Rightarrow> nl_state \<Rightarrow> (int + int) \<times> nl_state" where
  "netns_Get os st =
     (case os_netns_get os (st_open st) of
        Inl e \<Rightarrow> (Inl e, st)
      | Inr fd \<Rightarrow> (Inr fd, st\<lparr>st_open := fd # st_open st, st_nsof := (st_nsof st)(fd := st_ns st)\<rparr>))"

text \<open>
  The function that \<open>executeInNetns\<close> returns, as the variables it captures: whether it moves back,
  closes the handle and unlocks the thread. The order is that of the code; errors of moving back and
  of closing are dropped.
\<close>

record restorer =
  rs_curNs :: int
  rs_moveBack :: bool
  rs_closeNs :: bool
  rs_unlockThd :: bool

definition restore :: "nl_os \<Rightarrow> restorer \<Rightarrow> nl_state \<Rightarrow> nl_state" where
  "restore os r st =
     (let st = (if rs_moveBack r then snd (netns_Set os (rs_curNs r) st) else st);
          st = (if rs_closeNs r then close_fd (rs_curNs r) st else st)
      in if rs_unlockThd r then st\<lparr>st_locked := st_locked st - 1\<rparr> else st)"

definition executeInNetns :: "nl_os \<Rightarrow> int \<Rightarrow> int \<Rightarrow> nl_state \<Rightarrow> (nl_error + restorer) \<times> nl_state" where
  "executeInNetns os newNs curNs st =
     (if \<not> IsOpen newNs
      then (Inr \<lparr>rs_curNs = curNs, rs_moveBack = False, rs_closeNs = False, rs_unlockThd = False\<rparr>, st)
      else let st = st\<lparr>st_locked := st_locked st + 1\<rparr>;
               r = \<lparr>rs_curNs = curNs, rs_moveBack = False, rs_closeNs = False, rs_unlockThd = True\<rparr>
           in case (if IsOpen curNs then (Inr r, st)
                    else case netns_Get os st of
                        (Inl e, st) \<Rightarrow> (Inl (NetnsError ''could not get current namespace'' e), restore os r st)
                      | (Inr fd, st) \<Rightarrow> (Inr (r\<lparr>rs_curNs := fd, rs_closeNs := True\<rparr>), st)) of
                (Inl e, st) \<Rightarrow> (Inl e, st)
              | (Inr r, st) \<Rightarrow>
                  (case netns_Set os newNs st of
                     (Some e, st) \<Rightarrow> (Inl (NetnsError ''failed to set into network namespace'' e), restore os r st)
                   | (None, st) \<Rightarrow> (Inr (r\<lparr>rs_moveBack := True\<rparr>), st)))"

definition GetNetlinkSocketAt :: "nl_os \<Rightarrow> int \<Rightarrow> int \<Rightarrow> int \<Rightarrow> nl_state \<Rightarrow> (nl_error + NetlinkSocket) \<times> nl_state" where
  "GetNetlinkSocketAt os newNs curNs protocol st =
     (case executeInNetns os newNs curNs st of
        (Inl e, st) \<Rightarrow> (Inl e, st)
      | (Inr c, st) \<Rightarrow> (let (s, st) = getNetlinkSocket os protocol st in (s, restore os c st)))"

definition SubscribeAt :: "nl_os \<Rightarrow> int \<Rightarrow> int \<Rightarrow> int \<Rightarrow> u64 list \<Rightarrow> nl_state \<Rightarrow> (nl_error + NetlinkSocket) \<times> nl_state" where
  "SubscribeAt os newNs curNs protocol groups st =
     (case executeInNetns os newNs curNs st of
        (Inl e, st) \<Rightarrow> (Inl e, st)
      | (Inr c, st) \<Rightarrow> (let (s, st) = Subscribe os protocol groups st in (s, restore os c st)))"

section \<open>Handles\<close>

text \<open>The map of sockets by family; \<open>None\<close> is the nil map of the package's own handle and of a closed one.\<close>

type_synonym Handle = "(int \<times> SocketHandle) list option"

definition SupportsNetlinkFamily :: "Handle \<Rightarrow> int \<Rightarrow> bool" where
  "SupportsNetlinkFamily h f = (case h of None \<Rightarrow> False | Some m \<Rightarrow> map_of m f \<noteq> None)"

definition SupportedNlFamilies :: "int list" where "SupportedNlFamilies = [0, 6, 12]"

text \<open>The loop of \<open>newHandle\<close>; an error returns at once and leaves the sockets opened so far.\<close>

fun open_families :: "nl_os \<Rightarrow> int \<Rightarrow> int \<Rightarrow> int list \<Rightarrow> (int \<times> SocketHandle) list \<Rightarrow> nl_state
    \<Rightarrow> (nl_error + (int \<times> SocketHandle) list) \<times> nl_state" where
  "open_families os newNs curNs [] m st = (Inr m, st)"
| "open_families os newNs curNs (f # fs) m st =
     (case GetNetlinkSocketAt os newNs curNs f st of
        (Inl e, st) \<Rightarrow> (Inl e, st)
      | (Inr s, st) \<Rightarrow>
          open_families os newNs curNs fs ((f, \<lparr>sh_Seq = 0, sh_Socket = Some s\<rparr>) # filter (\<lambda>p. fst p \<noteq> f) m) st)"

definition newHandle :: "nl_os \<Rightarrow> int \<Rightarrow> int \<Rightarrow> int list \<Rightarrow> nl_state \<Rightarrow> (nl_error + Handle) \<times> nl_state" where
  "newHandle os newNs curNs nlFamilies st =
     (let fams = (if nlFamilies \<noteq> [] then nlFamilies else SupportedNlFamilies)
      in case open_families os newNs curNs fams [] st of
           (Inl e, st) \<Rightarrow> (Inl e, st)
         | (Inr m, st) \<Rightarrow> (Inr (Some m), st))"

definition NewHandle :: "nl_os \<Rightarrow> int list \<Rightarrow> nl_state \<Rightarrow> (nl_error + Handle) \<times> nl_state" where
  "NewHandle os nlFamilies st = newHandle os netns_None netns_None nlFamilies st"

definition NewHandleAt :: "nl_os \<Rightarrow> int \<Rightarrow> int list \<Rightarrow> nl_state \<Rightarrow> (nl_error + Handle) \<times> nl_state" where
  "NewHandleAt os ns nlFamilies st = newHandle os ns netns_None nlFamilies st"

definition NewHandleAtFrom :: "nl_os \<Rightarrow> int \<Rightarrow> int \<Rightarrow> nl_state \<Rightarrow> (nl_error + Handle) \<times> nl_state" where
  "NewHandleAtFrom os newNs curNs st = newHandle os newNs curNs [] st"

definition handle_Close :: "Handle \<Rightarrow> nl_state \<Rightarrow> Handle \<times> nl_state" where
  "handle_Close h st =
     (None, fold (\<lambda>p st. snd (sh_Close (snd p) st)) (case h of None \<Rightarrow> [] | Some m \<Rightarrow> m) st)"

definition handle_Delete :: "Handle \<Rightarrow> nl_state \<Rightarrow> Handle \<times> nl_state" where
  "handle_Delete h st = handle_Close h st"

text \<open>With sockets of its own, a handle leaves the sequence number to \<open>Execute\<close>.\<close>

definition newNetlinkRequest :: "Handle \<Rightarrow> int \<Rightarrow> int \<Rightarrow> nl_state \<Rightarrow> NetlinkRequest \<times> nl_state" where
  "newNetlinkRequest h proto flags st =
     (case h of
        None \<Rightarrow> NewNetlinkRequest proto flags st
      | Some m \<Rightarrow>
          (\<lparr>rq_hdr = \<lparr>h_Len = 16, h_Type = word_of_int proto, h_Flags = NLM_F_REQUEST OR word_of_int flags, h_Seq = 0, h_Pid = 0\<rparr>,
            rq_Data = [], rq_RawData = [], rq_Sockets = map_of m\<rparr>, st))"

definition NLM_F_ACK :: int where "NLM_F_ACK = 0x4"
definition NLM_F_REPLACE :: int where "NLM_F_REPLACE = 0x100"
definition NLM_F_EXCL :: int where "NLM_F_EXCL = 0x200"
definition NLM_F_DUMP :: int where "NLM_F_DUMP = 0x300"
definition NLM_F_CREATE :: int where "NLM_F_CREATE = 0x400"
definition NLM_F_APPEND :: int where "NLM_F_APPEND = 0x800"

text \<open>
  The shape of the operations on routes, addresses and links: a request with its data, executed on a
  route socket.
\<close>

definition do_request :: "nl_os \<Rightarrow> bool \<Rightarrow> Handle \<Rightarrow> int \<Rightarrow> int \<Rightarrow> u16 \<Rightarrow> request_data list \<Rightarrow> nl_state
    \<Rightarrow> ((nl_error + bytes list) \<times> nl_state) outcome" where
  "do_request os extack h proto flags resType data st =
     (let (req, st) = newNetlinkRequest h proto flags st
      in obind (Execute os extack 0 resType (fold (\<lambda>d req. AddData req d) data req) st) (\<lambda>(r, req, st). Done (r, st)))"

datatype 'e call_error = CallExec nl_error | CallCode 'e

text \<open>A request whose answers are decoded, and one whose data may fail to encode and whose answers are dropped.\<close>

definition list_request :: "nl_os \<Rightarrow> bool \<Rightarrow> Handle \<Rightarrow> int \<Rightarrow> int \<Rightarrow> u16 \<Rightarrow> request_data list \<Rightarrow> (bytes list \<Rightarrow> ('e + 'a) outcome) \<Rightarrow> nl_state
    \<Rightarrow> (('e call_error + 'a) \<times> nl_state) outcome" where
  "list_request os extack h proto flags resType data decode st =
     obind (do_request os extack h proto flags resType data st) (\<lambda>(r, st).
       case r of
         Inl e \<Rightarrow> Done (Inl (CallExec e), st)
       | Inr msgs \<Rightarrow> obind (decode msgs) (\<lambda>r. Done (map_sum CallCode id r, st)))"

definition modify_request :: "nl_os \<Rightarrow> bool \<Rightarrow> Handle \<Rightarrow> int \<Rightarrow> int \<Rightarrow> ('e + request_data list) outcome \<Rightarrow> nl_state
    \<Rightarrow> ('e call_error option \<times> nl_state) outcome" where
  "modify_request os extack h proto flags encoded st =
     obind encoded (\<lambda>r. case r of
         Inl e \<Rightarrow> Done (Some (CallCode e), snd (newNetlinkRequest h proto flags st))
       | Inr data \<Rightarrow>
           obind (do_request os extack h proto flags 0 data st) (\<lambda>(r, st).
             case r of Inl e \<Rightarrow> Done (Some (CallExec e), st) | Inr _ \<Rightarrow> Done (None, st)))"

text \<open>
  What the kernel does with a request on a socket of its own: the parts of its answer, in any number
  of datagrams, and the final message with its code. The requests are numbered by the state.
\<close>

definition answered :: "nl_os \<Rightarrow> nl_state \<Rightarrow> int \<Rightarrow> int \<Rightarrow> request_data list \<Rightarrow> (NlMsghdr \<times> bytes) list \<Rightarrow> u32 \<Rightarrow> bool" where
  "answered os st proto flags data parts code \<longleftrightarrow>
     (\<exists>fd pid b req' dgs fin.
        (let (req, st) = NewNetlinkRequest proto flags st; seq = st_nextSeqNr st in
         can_send os 0 st fd pid \<and> req_Serialize (fold (\<lambda>d req. AddData req d) data req) = Done (b, req')
         \<and> os_reply os fd b = map datagram_of dgs \<and> concat dgs = parts @ [fin] \<and> (\<forall>ms \<in> set dgs. fits ms)
         \<and> (\<forall>m \<in> set parts. part_of seq pid m) \<and> final_of seq pid code fin))"

lemma fold_AddData:
  "fold (\<lambda>d req. AddData req d) data req = req\<lparr>rq_Data := rq_Data req @ data\<rparr>"
  by (induction data arbitrary: req) (simp_all add: AddData_def)

definition replied :: "nl_os \<Rightarrow> nl_state \<Rightarrow> int \<Rightarrow> int \<Rightarrow> request_data list \<Rightarrow> u16 \<Rightarrow> (NlMsghdr \<times> bytes) list
    \<Rightarrow> (bytes list \<Rightarrow> nl_error + bytes list) \<Rightarrow> bool" where
  "replied os st proto flags data resType parts r \<longleftrightarrow>
     (\<exists>fd pid b req' dgs fin q.
        (let (req, st) = NewNetlinkRequest proto flags st; seq = st_nextSeqNr st in
         can_send os 0 st fd pid \<and> req_Serialize (fold (\<lambda>d req. AddData req d) data req) = Done (b, req')
         \<and> os_reply os fd b = map datagram_of dgs @ q \<and> concat dgs = parts @ [fin] \<and> (\<forall>ms \<in> set dgs. fits ms)
         \<and> (\<forall>m \<in> set parts. part_of seq pid m) \<and> ends_with seq pid resType fin r))"

text \<open>An answer of one message; whatever else arrives on the socket is not read.\<close>

definition answered_once :: "nl_os \<Rightarrow> nl_state \<Rightarrow> int \<Rightarrow> int \<Rightarrow> request_data list \<Rightarrow> u16 \<Rightarrow> bytes \<Rightarrow> bool" where
  "answered_once os st proto flags data resType reply \<longleftrightarrow>
     (\<exists>fd pid b req' m q.
        (let (req, st) = NewNetlinkRequest proto flags st; seq = st_nextSeqNr st in
         can_send os 0 st fd pid \<and> req_Serialize (fold (\<lambda>d req. AddData req d) data req) = Done (b, req')
         \<and> os_reply os fd b = datagram_of [m] # q \<and> fits [m] \<and> single_of seq pid resType m \<and> snd m = reply))"

lemma answered_replied:
  assumes "answered os st proto flags data parts code"
  shows "replied os st proto flags data resType parts (final_result code)"
proof -
  from assms obtain fd pid b req' dgs fin where a: "(let (req, st) = NewNetlinkRequest proto flags st; seq = st_nextSeqNr st in
         can_send os 0 st fd pid \<and> req_Serialize (fold (\<lambda>d req. AddData req d) data req) = Done (b, req')
         \<and> os_reply os fd b = map datagram_of dgs \<and> concat dgs = parts @ [fin] \<and> (\<forall>ms \<in> set dgs. fits ms)
         \<and> (\<forall>m \<in> set parts. part_of seq pid m) \<and> final_of seq pid code fin)"
    unfolding answered_def by blast
  show ?thesis
    unfolding replied_def
    by (rule exI [of _ fd], rule exI [of _ pid], rule exI [of _ b], rule exI [of _ req'], rule exI [of _ dgs], rule exI [of _ fin], rule exI [of _ "[]"])
      (use a in \<open>auto simp: Let_def intro: final_ends\<close>)
qed

lemma answered_once_replied:
  assumes "answered_once os st proto flags data resType reply"
  shows "replied os st proto flags data resType [] (\<lambda>res. Inr (res @ [reply]))"
proof -
  from assms obtain fd pid b req' m q where a: "(let (req, st) = NewNetlinkRequest proto flags st; seq = st_nextSeqNr st in
         can_send os 0 st fd pid \<and> req_Serialize (fold (\<lambda>d req. AddData req d) data req) = Done (b, req')
         \<and> os_reply os fd b = datagram_of [m] # q \<and> fits [m] \<and> single_of seq pid resType m \<and> snd m = reply)"
    unfolding answered_once_def by blast
  show ?thesis
    unfolding replied_def
    by (rule exI [of _ fd], rule exI [of _ pid], rule exI [of _ b], rule exI [of _ req'], rule exI [of _ "[[m]]"], rule exI [of _ m], rule exI [of _ q])
      (use a in \<open>auto simp: Let_def intro: single_ends\<close>)
qed

lemma do_request_replied:
  assumes "replied os st proto flags data resType parts r"
  shows "\<exists>st'. do_request os extack None proto flags resType data st = Done (r (selected resType parts), st')
    \<and> st_open st' = st_open st \<and> st_queue st' = st_queue st \<and> st_nextSeqNr st' = st_nextSeqNr st + 1"
proof -
  let ?st = "st\<lparr>st_nextSeqNr := st_nextSeqNr st + 1\<rparr>"
  obtain req where r: "NewNetlinkRequest proto flags st = (req, ?st)" "h_Seq (rq_hdr req) = st_nextSeqNr st + 1" "rq_Sockets req = Map.empty"
    by (simp add: NewNetlinkRequest_def Let_def)
  let ?req = "fold (\<lambda>d req. AddData req d) data req"
  have sq: "h_Seq (rq_hdr ?req) = st_nextSeqNr st + 1" "rq_Sockets ?req 0 = None" by (simp_all add: fold_AddData r)
  from assms r(1) obtain fd pid b req' dgs fin q where a: "can_send os 0 ?st fd pid" "req_Serialize ?req = Done (b, req')"
    "os_reply os fd b = map datagram_of dgs @ q" "concat dgs = parts @ [fin]" "\<forall>ms \<in> set dgs. fits ms"
    "\<forall>m \<in> set parts. part_of (h_Seq (rq_hdr ?req)) pid m" "ends_with (h_Seq (rq_hdr ?req)) pid resType fin r"
    by (auto simp: replied_def sq(1) Let_def)
  from Execute_ended [OF a(1) sq(2) a(2-7), of extack]
  have "Execute os extack 0 resType ?req ?st = Done (r (selected resType parts), req', ?st\<lparr>st_timeo := (st_timeo ?st)(fd := True)\<rparr>)"
    by auto
  then show ?thesis by (simp add: do_request_def newNetlinkRequest_def r(1))
qed

text \<open>
  The state after such a request: the sequence number has moved on, descriptors and queues are as before. What the
  kernel does with the next request depends on nothing else.
\<close>

definition next_state :: "nl_state \<Rightarrow> nl_state" where
  "next_state st = st\<lparr>st_nextSeqNr := st_nextSeqNr st + 1\<rparr>"

definition follows :: "nl_state \<Rightarrow> nl_state \<Rightarrow> bool" where
  "follows st st' \<longleftrightarrow> st_open st' = st_open st \<and> st_queue st' = st_queue st \<and> st_nextSeqNr st' = st_nextSeqNr st + 1"

lemma follows_next [simp]: "follows st (next_state st)"
  by (simp add: follows_def next_state_def)

lemma follows_trans: "follows st st' \<Longrightarrow> follows (next_state st) st'' \<longleftrightarrow> follows st' st''"
  by (simp add: follows_def next_state_def)

lemma answered_follows:
  assumes "follows st st'"
  shows "answered os st' = answered os (next_state st)" and "answered_once os st' = answered_once os (next_state st)"
  using assms by (simp_all add: fun_eq_iff answered_def answered_once_def follows_def next_state_def NewNetlinkRequest_def can_send_def Let_def)

lemma do_request_follows:
  assumes "replied os st proto flags data resType parts r"
  obtains st' where "do_request os extack None proto flags resType data st = Done (r (selected resType parts), st')" and "follows st st'"
  using do_request_replied [OF assms, of extack] unfolding follows_def by blast

text \<open>The call of \<open>Execute\<close> behind a request, for operations that do something else before it.\<close>

lemma do_request_executed:
  assumes "do_request os ack h proto flags t data st = Done (r, st')" and "newNetlinkRequest h proto flags st = (req, st1)"
  obtains req' where "Execute os ack 0 t (fold (\<lambda>d req. AddData req d) data req) st1 = Done (r, req', st')"
  using assms by (auto simp: do_request_def)

text \<open>Both kinds of operations on a request that is answered: the code of the final message decides.\<close>

lemma list_request_answered:
  assumes "answered os st proto flags data parts 0" and "decode (selected resType parts) = Done r"
  shows "\<exists>st'. list_request os extack None proto flags resType data decode st = Done (map_sum CallCode id r, st')
    \<and> follows st st'"
proof -
  obtain st' where "do_request os extack None proto flags resType data st = Done (final_result 0 (selected resType parts), st')" "follows st st'"
    by (rule do_request_follows [OF answered_replied [OF assms(1)]])
  then show ?thesis using assms(2) by (auto simp: list_request_def final_result_def)
qed

lemma modify_request_answered:
  assumes "answered os st proto flags data parts code"
  shows "\<exists>st'. modify_request os extack None proto flags (Done (Inr data)) st
      = Done (if code = 0 then None else Some (CallExec (Errno (uint (scast (- code) :: u64)))), st') \<and> follows st st'"
proof -
  obtain st' where "do_request os extack None proto flags 0 data st = Done (final_result code (selected 0 parts), st')" "follows st st'"
    by (rule do_request_follows [OF answered_replied [OF assms]])
  then show ?thesis by (auto simp: modify_request_def final_result_def)
qed

text \<open>
  A kernel that follows a script: the messages that answer a request, by the lowest byte of its sequence number, one in
  each datagram.
\<close>

definition script_msg :: "u32 \<Rightarrow> u16 \<Rightarrow> u16 \<Rightarrow> bytes \<Rightarrow> NlMsghdr \<times> bytes" where
  "script_msg seq t flags b = (\<lparr>h_Len = 0, h_Type = t, h_Flags = flags, h_Seq = seq, h_Pid = 77\<rparr>, b)"

definition script_os :: "(u8 \<Rightarrow> (NlMsghdr \<times> bytes) list) \<Rightarrow> nl_os" where
  "script_os f = example_os\<lparr>os_reply := \<lambda>_ b. map (\<lambda>m. datagram_of [m]) (f (b ! 8))\<rparr>"

definition script_state :: "u32 \<Rightarrow> nl_state" where
  "script_state n = idle_state\<lparr>st_nextSeqNr := n\<rparr>"

lemma script_sent:
  obtains b req' where "req_Serialize (fold (\<lambda>d req. AddData req d) data (fst (NewNetlinkRequest proto flags (script_state n)))) = Done (b, req')"
    and "b ! 8 = ucast (n + 1)" and "can_send (script_os f) 0 (snd (NewNetlinkRequest proto flags (script_state n))) 3 77"
    and "st_nextSeqNr (snd (NewNetlinkRequest proto flags (script_state n))) = n + 1"
proof -
  let ?r = "fold (\<lambda>d req. AddData req d) data (fst (NewNetlinkRequest proto flags (script_state n)))"
  obtain b req' where "req_Serialize ?r = Done (b, req')" "b ! 8 = ucast (n + 1)"
    by (auto simp: req_Serialize_def serialize_all_wire Let_def fold_AddData NewNetlinkRequest_def script_state_def hdr_bytes_def nth_append le16_def le32_def)
  moreover have "can_send (script_os f) 0 (snd (NewNetlinkRequest proto flags (script_state n))) 3 77"
    by (simp add: can_send_def script_os_def example_os_def idle_state_def script_state_def NewNetlinkRequest_def Let_def)
  ultimately show ?thesis using that by (simp add: NewNetlinkRequest_def script_state_def Let_def)
qed

lemma script_fits: "length b < 60000 \<Longrightarrow> fits [script_msg seq t flags b]"
  using rtaAlignOf_lt [of "length b"] by (simp add: fits_def script_msg_def RECEIVE_BUFFER_SIZE_def)

lemma script_answered:
  assumes "f (ucast (n + 1)) = map (script_msg (n + 1) t NLM_F_MULTI) bs @ [script_msg (n + 1) NLMSG_DONE NLM_F_MULTI (le32 code)]"
    and "t \<noteq> NLMSG_DONE" and "t \<noteq> NLMSG_ERROR" and "\<And>b. b \<in> set bs \<Longrightarrow> length b < 60000"
  shows "answered (script_os f) (script_state n) proto flags data (map (script_msg (n + 1) t NLM_F_MULTI) bs) code"
proof -
  let ?fin = "script_msg (n + 1) NLMSG_DONE NLM_F_MULTI (le32 code)"
  let ?dgs = "map (\<lambda>m. [m]) (map (script_msg (n + 1) t NLM_F_MULTI) bs @ [?fin])"
  obtain b req' where s: "req_Serialize (fold (\<lambda>d req. AddData req d) data (fst (NewNetlinkRequest proto flags (script_state n)))) = Done (b, req')"
    "b ! 8 = ucast (n + 1)" "can_send (script_os f) 0 (snd (NewNetlinkRequest proto flags (script_state n))) 3 77"
    "st_nextSeqNr (snd (NewNetlinkRequest proto flags (script_state n))) = n + 1"
    by (rule script_sent)
  have d: "\<forall>ms \<in> set ?dgs. fits ms" using script_fits assms(4) by auto
  have p: "\<forall>m \<in> set (map (script_msg (n + 1) t NLM_F_MULTI) bs). part_of (n + 1) 77 m"
    using assms(2,3) by (auto simp: part_of_def script_msg_def NLM_F_MULTI_def)
  have c: "concat ?dgs = map (script_msg (n + 1) t NLM_F_MULTI) bs @ [?fin]" by (simp add: concat_map_singleton comp_def)
  have fin: "final_of (n + 1) 77 code ?fin" by (simp add: final_of_def script_msg_def)
  have r: "os_reply (script_os f) 3 b = map datagram_of ?dgs" by (simp add: script_os_def s(2) assms(1))
  show ?thesis
    unfolding answered_def
    by (rule exI [of _ 3], rule exI [of _ 77], rule exI [of _ b], rule exI [of _ req'], rule exI [of _ ?dgs], rule exI [of _ ?fin])
      (use s d p c fin r in \<open>simp add: case_prod_unfold Let_def\<close>)
qed

lemma script_answered_once:
  assumes "f (ucast (n + 1)) = [script_msg (n + 1) t 0 m]" and "t \<noteq> NLMSG_DONE" and "t \<noteq> NLMSG_ERROR" and "length m < 60000"
  shows "answered_once (script_os f) (script_state n) proto flags data 0 m"
proof -
  let ?m = "script_msg (n + 1) t 0 m"
  obtain b req' where s: "req_Serialize (fold (\<lambda>d req. AddData req d) data (fst (NewNetlinkRequest proto flags (script_state n)))) = Done (b, req')"
    "b ! 8 = ucast (n + 1)" "can_send (script_os f) 0 (snd (NewNetlinkRequest proto flags (script_state n))) 3 77"
    "st_nextSeqNr (snd (NewNetlinkRequest proto flags (script_state n))) = n + 1"
    by (rule script_sent)
  have r: "os_reply (script_os f) 3 b = datagram_of [?m] # []" by (simp add: script_os_def s(2) assms(1))
  have o: "single_of (n + 1) 77 0 ?m" "snd ?m = m" using assms(2,3) by (simp_all add: single_of_def script_msg_def)
  show ?thesis
    unfolding answered_once_def
    by (rule exI [of _ 3], rule exI [of _ 77], rule exI [of _ b], rule exI [of _ req'], rule exI [of _ ?m], rule exI [of _ "[]"])
      (use s r o script_fits [OF assms(4), of "n + 1" t 0] in \<open>simp add: case_prod_unfold Let_def\<close>)
qed

text \<open>The answer to the first request only.\<close>

definition reply_os :: "u16 \<Rightarrow> bytes list \<Rightarrow> nl_os" where
  "reply_os t bs = script_os (\<lambda>_. map (script_msg 1 t NLM_F_MULTI) bs @ [script_msg 1 NLMSG_DONE NLM_F_MULTI (le32 0)])"

lemma reply_os_answered:
  assumes "t \<noteq> NLMSG_DONE" and "t \<noteq> NLMSG_ERROR" and "\<And>b. b \<in> set bs \<Longrightarrow> length b < 60000"
  shows "answered (reply_os t bs) idle_state proto flags data (map (script_msg 1 t NLM_F_MULTI) bs) 0"
proof -
  let ?f = "\<lambda>_::u8. map (script_msg 1 t NLM_F_MULTI) bs @ [script_msg 1 NLMSG_DONE NLM_F_MULTI (le32 0)]"
  have s: "script_state 0 = idle_state" by (simp add: script_state_def idle_state_def)
  show ?thesis
    using script_answered [where f = ?f and n = 0 and code = 0 and t = t and bs = bs, simplified add_0, OF refl assms]
    unfolding reply_os_def s .
qed

section \<open>Returning to the namespace of the caller\<close>

text \<open>The handle of the caller, when it is given, is a handle of the current namespace.\<close>

definition current_handle :: "int \<Rightarrow> nl_state \<Rightarrow> bool" where
  "current_handle curNs st \<longleftrightarrow> \<not> IsOpen curNs \<or> st_nsof st curNs = st_ns st"

text \<open>
  Moving a thread into the namespace behind an open handle succeeds, except perhaps for the new one,
  and every new descriptor differs from the open ones.
\<close>

definition netns_host :: "nl_os \<Rightarrow> int \<Rightarrow> bool" where
  "netns_host os newNs \<longleftrightarrow> (\<forall>fd. fd \<noteq> newNs \<longrightarrow> os_setns os fd = None)
     \<and> (\<forall>fds p fd. os_socket os fds p = Inr fd \<longrightarrow> fd \<notin> set fds)"

lemma executeInNetns_error:
  "executeInNetns os newNs curNs st = (Inl e, st') \<Longrightarrow>
     st_ns st' = st_ns st \<and> st_locked st' = st_locked st \<and> st_open st' = st_open st"
  by (auto simp: executeInNetns_def restore_def netns_Set_def netns_Get_def close_fd_def Let_def
      split: if_splits sum.splits option.splits)

lemma executeInNetns_restore:
  assumes "executeInNetns os newNs curNs st = (Inr c, st')" and "current_handle curNs st" and "netns_host os newNs"
  shows "st_ns (restore os c (st'\<lparr>st_open := fds, st_queue := qs\<rparr>)) = st_ns st
    \<and> st_locked (restore os c (st'\<lparr>st_open := fds, st_queue := qs\<rparr>)) = st_locked st
    \<and> st_open (restore os c (st'\<lparr>st_open := fds, st_queue := qs\<rparr>)) = (if rs_closeNs c then remove1 (rs_curNs c) fds else fds)
    \<and> st_open st' = (if rs_closeNs c then rs_curNs c # st_open st else st_open st)"
  using assms
  by (auto simp: executeInNetns_def restore_def netns_Set_def netns_Get_def current_handle_def close_fd_def netns_host_def Let_def
      split: if_splits sum.splits option.splits)

lemma getNetlinkSocket_frame:
  assumes "getNetlinkSocket os protocol st = (r, st')"
  obtains fds qs where "st' = st\<lparr>st_open := fds, st_queue := qs\<rparr>"
    and "fds = (case r of Inr s \<Rightarrow> sk_fd s # st_open st | Inl e \<Rightarrow> st_open st)"
    and "\<forall>s. r = Inr s \<longrightarrow> os_socket os (st_open st) protocol = Inr (sk_fd s)"
proof -
  have "st' = st\<lparr>st_open := (case r of Inr s \<Rightarrow> sk_fd s # st_open st | Inl e \<Rightarrow> st_open st), st_queue := st_queue st'\<rparr>
      \<and> (\<forall>s. r = Inr s \<longrightarrow> os_socket os (st_open st) protocol = Inr (sk_fd s))"
    using assms by (auto simp: getNetlinkSocket_def close_fd_def Let_def split: sum.splits option.splits)
  then show ?thesis using that by blast
qed

text \<open>Opening a netlink socket in another namespace brings the thread back into the namespace of the
caller, leaves it unlocked, and on success adds the new socket and nothing else to the open descriptors.\<close>

lemma GetNetlinkSocketAt_returns:
  assumes "current_handle curNs st" and "netns_host os newNs" and "GetNetlinkSocketAt os newNs curNs protocol st = (r, st')"
  shows "st_ns st' = st_ns st \<and> st_locked st' = st_locked st
    \<and> st_open st' = (case r of Inr s \<Rightarrow> sk_fd s # st_open st | Inl e \<Rightarrow> st_open st)"
proof (cases "executeInNetns os newNs curNs st")
  case (Pair x st1)
  show ?thesis
  proof (cases x)
    case (Inl e)
    then show ?thesis using assms(3) Pair by (auto simp: GetNetlinkSocketAt_def dest!: executeInNetns_error)
  next
    case (Inr c)
    obtain r' st2 where g: "getNetlinkSocket os protocol st1 = (r', st2)" by fastforce
    then have e: "r = r'" "st' = restore os c st2"
      using assms(3) Pair Inr by (auto simp: GetNetlinkSocketAt_def)
    from g obtain fds qs where f: "st2 = st1\<lparr>st_open := fds, st_queue := qs\<rparr>"
      "fds = (case r' of Inr s \<Rightarrow> sk_fd s # st_open st1 | Inl e \<Rightarrow> st_open st1)"
      "\<forall>s. r' = Inr s \<longrightarrow> os_socket os (st_open st1) protocol = Inr (sk_fd s)"
      by (rule getNetlinkSocket_frame)
    note rest = executeInNetns_restore [OF Pair [unfolded Inr] assms(1,2), of qs fds, folded f(1), folded e(2)]
    have "sk_fd s \<notin> set (st_open st1)" if "r' = Inr s" for s
      using assms(2) f(3) that by (auto simp: netns_host_def)
    then show ?thesis using rest unfolding e(1) f(2) by (cases r') (auto split: if_splits)
  qed
qed

end
