(* ===== verification/NlFilter.thy ===== *)
theory NlFilter
  imports NlAction NlHandle
begin

text \<open>
  Traffic control filters on the wire, \<open>pkg/github.com/vishvananda/netlink/filter_linux.go\<close>: the
  requests of \<open>FilterAdd\<close>, \<open>FilterReplace\<close> and \<open>FilterDel\<close>, the parser behind \<open>FilterList\<close>, and the
  round trip between them. The host is little endian, so the big-endian fields of a u32 selector are
  swapped. The property at the end shows that a \<open>MatchAll\<close> filter is sent without its actions:
  its case in the switch of \<open>filterModify\<close> is empty, and Go's cases do not fall through.
\<close>

definition tc_msg :: "int \<Rightarrow> u32 \<Rightarrow> u32 \<Rightarrow> u32 \<Rightarrow> TcMsg" where
  "tc_msg ifindex handle parent info =
     \<lparr>tm_Family = 0, tm_Pad = [0, 0, 0], tm_Ifindex = word_of_int ifindex, tm_Handle = handle, tm_Parent = parent, tm_Info = info\<rparr>"

definition filter_msg :: "FilterAttrs \<Rightarrow> TcMsg" where
  "filter_msg base =
     tc_msg (fa_LinkIndex base) (fa_Handle base) (fa_Parent base) (MakeHandle (fa_Priority base) (Swap16 (fa_Protocol base)))"

section \<open>Encoding\<close>

text \<open>
  The selector of a u32 filter: a missing one matches all packets. The copied slice of keys has the
  capacity of the original as its length, and the keys are converted to network byte order.
\<close>

definition swap_key :: "TcU32Key \<Rightarrow> TcU32Key" where
  "swap_key k = k\<lparr>uk_Mask := Swap32 (uk_Mask k), uk_Val := Swap32 (uk_Val k)\<rparr>"

definition zero_key :: TcU32Key where
  "zero_key = \<lparr>uk_Mask = 0, uk_Val = 0, uk_Off = 0, uk_OffMask = 0\<rparr>"

definition match_all_sel :: TcU32Sel where
  "match_all_sel = \<lparr>us_Flags = 1, us_Offshift = 0, us_Nkeys = 1, us_Pad = 0, us_Offmask = 0, us_Off = 0, us_Offoff = 0,
     us_Hoff = 0, us_Hmask = 0, us_Keys = [zero_key]\<rparr>"

definition u32_sel :: "U32Options \<Rightarrow> TcU32Sel" where
  "u32_sel u =
     (let (sel, spare) = (case u_Sel u of None \<Rightarrow> (match_all_sel, 0) | Some s \<Rightarrow> (s, u_SpareKeys u));
          keys = map swap_key (us_Keys sel @ replicate spare zero_key)
      in sel\<lparr>us_Offmask := Swap16 (us_Offmask sel), us_Hmask := Swap32 (us_Hmask sel), us_Keys := keys,
             us_Nkeys := of_nat (length keys)\<rparr>)"

text \<open>Adding the attribute with the encoded actions after those in \<open>pre\<close>, and then \<open>post\<close>.\<close>

definition with_actions :: "clock \<Rightarrow> request_data list \<Rightarrow> u16 \<Rightarrow> actions \<Rightarrow> request_data list
    \<Rightarrow> (filter_error + request_data list) outcome" where
  "with_actions ck pre t acts post =
     obind (EncodeActions ck acts) (\<lambda>r. case r of Inl e \<Rightarrow> Done (Inl e) | Inr tables \<Rightarrow> Done (Inr (pre @ [RtAttr t [] tables] @ post)))"

definition nonzero_attr :: "int \<Rightarrow> u32 \<Rightarrow> request_data list" where
  "nonzero_attr t v = (if v \<noteq> 0 then [NewRtAttr t (Uint32Attr v)] else [])"

definition encode_u32 :: "clock \<Rightarrow> U32Options \<Rightarrow> (filter_error + request_data list) outcome" where
  "encode_u32 ck u =
     obind (TcU32Sel_Serialize (u32_sel u)) (\<lambda>sel.
       if u_Divisor u \<noteq> 0 \<and> (u_Divisor u - 1) AND u_Divisor u \<noteq> 0 then Done (Inl (IllegalDivisor (u_Divisor u)))
       else with_actions ck
         ([NewRtAttr 5 sel] @ nonzero_attr 1 (u_ClassId u) @ nonzero_attr 4 (u_Divisor u) @ nonzero_attr 2 (u_Hash u)
          @ nonzero_attr 3 (u_Link u))
         7 ((if u_RedirIndex u \<noteq> 0 then [Some (AMirred (NewMirredAction (u_RedirIndex u)))] else []) @ u_Actions u) [])"

definition encode_fw :: "clock \<Rightarrow> FwOptions \<Rightarrow> filter_error + request_data list" where
  "encode_fw ck f =
     (let pre = nonzero_attr 5 (fw_Mask f) @ (if fw_InDev f \<noteq> [] then [NewRtAttr 3 (ZeroTerminated (fw_InDev f))] else []);
          post = nonzero_attr 1 (fw_ClassId f)
      in case fw_Police f of
           None \<Rightarrow> Inr (pre @ post)
         | Some p \<Rightarrow> (case encodePolice ck p of Inl e \<Rightarrow> Inl e | Inr opts \<Rightarrow> Inr (pre @ [RtAttr 2 [] opts] @ post)))"

definition encode_bpf :: "BpfOptions \<Rightarrow> request_data list" where
  "encode_bpf b =
     nonzero_attr 3 (bp_ClassId b) @ (if bp_Fd b \<ge> 0 then [NewRtAttr 6 (Uint32Attr (word_of_int (bp_Fd b)))] else [])
     @ (if bp_Name b \<noteq> [] then [NewRtAttr 7 (ZeroTerminated (bp_Name b))] else [])
     @ [NewRtAttr 8 (Uint32Attr (if bp_DirectAction b then 1 else 0))]"

text \<open>\<open>encodeIP\<close>: the address and its mask, both of the family of the address.\<close>

definition encodeIP :: "bytes \<Rightarrow> bytes option \<Rightarrow> int \<Rightarrow> int \<Rightarrow> int \<Rightarrow> int \<Rightarrow> request_data list" where
  "encodeIP ip msk v4Type v6Type v4MaskType v6MaskType =
     (case To4 ip of
        Some v4IP \<Rightarrow> [NewRtAttr v4Type v4IP, NewRtAttr v4MaskType (case msk of Some m \<Rightarrow> m | None \<Rightarrow> replicate 4 255)]
      | None \<Rightarrow> [NewRtAttr v6Type ip, NewRtAttr v6MaskType (case msk of Some m \<Rightarrow> m | None \<Rightarrow> replicate 16 255)])"

text \<open>The mask of the outer destination is that of the outer source, as in the code.\<close>

definition Flower_encode :: "clock \<Rightarrow> FlowerOptions \<Rightarrow> (filter_error + request_data list) outcome" where
  "Flower_encode ck f =
     (let ip = (\<lambda>addr msk v4 v6 v4m v6m. case addr of None \<Rightarrow> [] | Some a \<Rightarrow> encodeIP a msk v4 v6 v4m v6m)
      in with_actions ck
           ((if fl_EthType f \<noteq> 0 then [NewRtAttr 8 (htons (fl_EthType f))] else [])
            @ ip (fl_SrcIP f) (fl_SrcIPMask f) 10 14 11 15 @ ip (fl_DestIP f) (fl_DestIPMask f) 12 16 13 17
            @ ip (fl_EncSrcIP f) (fl_EncSrcIPMask f) 27 31 28 32 @ ip (fl_EncDestIP f) (fl_EncSrcIPMask f) 29 33 30 34
            @ (if fl_EncDestPort f \<noteq> 0 then [NewRtAttr 45 (htons (fl_EncDestPort f))] else [])
            @ (if fl_EncKeyId f \<noteq> 0 then [NewRtAttr 26 (htonl (fl_EncKeyId f))] else []))
           3 (fl_Actions f) [])"

text \<open>The children of the options, by the switch on the type of the filter.\<close>

fun filter_options :: "clock \<Rightarrow> nl_filter \<Rightarrow> (filter_error + request_data list) outcome" where
  "filter_options ck (U32 a u) = encode_u32 ck u"
| "filter_options ck (FwFilter a f) = Done (encode_fw ck f)"
| "filter_options ck (BpfFilter a b) = Done (Inr (encode_bpf b))"
| "filter_options ck (MatchAll a c acts) = Done (Inr [])"
| "filter_options ck (DhcMatchAll a c acts) = with_actions ck [] 2 acts (nonzero_attr 1 c)"
| "filter_options ck (Flower a f) = Flower_encode ck f"
| "filter_options ck (GenericFilter a t) = Done (Inr [])"

definition filter_data :: "clock \<Rightarrow> nl_filter \<Rightarrow> (filter_error + request_data list) outcome" where
  "filter_data ck f =
     obind (filter_options ck f) (\<lambda>r. case r of
         Inl e \<Rightarrow> Done (Inl e)
       | Inr opts \<Rightarrow> Done (Inr [StructData (TcMsg_Serialize (filter_msg (filter_Attrs f))), NewRtAttr 1 (ZeroTerminated (filter_Type f)), RtAttr 2 [] opts]))"

datatype modify_error = EncodeErr filter_error | ExecErr nl_error

definition RTM_NEWTFILTER :: int where "RTM_NEWTFILTER = 44"
definition RTM_DELTFILTER :: int where "RTM_DELTFILTER = 45"
definition RTM_GETTFILTER :: int where "RTM_GETTFILTER = 46"

definition filterModify :: "clock \<Rightarrow> nl_os \<Rightarrow> bool \<Rightarrow> Handle \<Rightarrow> nl_filter \<Rightarrow> int \<Rightarrow> nl_state
    \<Rightarrow> (modify_error option \<times> nl_state) outcome" where
  "filterModify ck os extack h f flags st =
     (let (req, st) = newNetlinkRequest h RTM_NEWTFILTER (flags OR NLM_F_ACK) st
      in obind (filter_data ck f) (\<lambda>r. case r of
             Inl e \<Rightarrow> Done (Some (EncodeErr e), st)
           | Inr data \<Rightarrow>
               obind (Execute os extack 0 0 (fold (\<lambda>d req. AddData req d) data req) st) (\<lambda>(r, req, st).
                 case r of Inl e \<Rightarrow> Done (Some (ExecErr e), st) | Inr _ \<Rightarrow> Done (None, st))))"

definition nl_FilterAdd :: "clock \<Rightarrow> nl_os \<Rightarrow> bool \<Rightarrow> Handle \<Rightarrow> nl_filter \<Rightarrow> nl_state \<Rightarrow> (modify_error option \<times> nl_state) outcome" where
  "nl_FilterAdd ck os extack h f st = filterModify ck os extack h f (NLM_F_CREATE OR NLM_F_EXCL) st"

definition nl_FilterReplace :: "clock \<Rightarrow> nl_os \<Rightarrow> bool \<Rightarrow> Handle \<Rightarrow> nl_filter \<Rightarrow> nl_state \<Rightarrow> (modify_error option \<times> nl_state) outcome" where
  "nl_FilterReplace ck os extack h f st = filterModify ck os extack h f NLM_F_CREATE st"

definition nl_FilterDel :: "nl_os \<Rightarrow> bool \<Rightarrow> Handle \<Rightarrow> nl_filter \<Rightarrow> nl_state \<Rightarrow> (nl_error option \<times> nl_state) outcome" where
  "nl_FilterDel os extack h f st =
     (let (req, st) = newNetlinkRequest h RTM_DELTFILTER NLM_F_ACK st
      in obind (Execute os extack 0 0 (AddData req (StructData (TcMsg_Serialize (filter_msg (filter_Attrs f))))) st) (\<lambda>(r, req, st).
           case r of Inl e \<Rightarrow> Done (Some e, st) | Inr _ \<Rightarrow> Done (None, st)))"

section \<open>Parsing\<close>

text \<open>\<open>ParseRouteAttr\<close> followed by \<open>parseActions\<close>.\<close>

definition parse_acts :: "clock \<Rightarrow> bytes \<Rightarrow> (filter_error + actions) outcome" where
  "parse_acts ck v = obind (ParseRouteAttr v) (\<lambda>r. case r of Inl e \<Rightarrow> Done (Inl (ParseErr e)) | Inr tables \<Rightarrow> parseActions ck tables)"

definition then_acts :: "clock \<Rightarrow> bytes \<Rightarrow> (actions \<Rightarrow> 'a) \<Rightarrow> (filter_error + 'a) outcome" where
  "then_acts ck v g = obind (parse_acts ck v) (\<lambda>r. case r of Inl e \<Rightarrow> Done (Inl e) | Inr acts \<Rightarrow> Done (Inr (g acts)))"

definition redirect_index :: "actions \<Rightarrow> int \<Rightarrow> int" where
  "redirect_index acts i = fold (\<lambda>a i. case a of Some (AMirred m) \<Rightarrow> ma_Ifindex m | _ \<Rightarrow> i) acts i"

definition u32_datum :: "clock \<Rightarrow> NetlinkRouteAttr \<Rightarrow> U32Options \<times> bool \<Rightarrow> (filter_error + U32Options \<times> bool) outcome" where
  "u32_datum ck d s =
     (let u = fst s; v = ra_Value d; t = ra_Type d in
      if t = 5
      then obind (DeserializeTcU32Sel v) (\<lambda>sel. Done (Inr (u\<lparr>u_Sel := Some (sel\<lparr>us_Offmask := Swap16 (us_Offmask sel),
             us_Hmask := Swap32 (us_Hmask sel), us_Keys := map swap_key (us_Keys sel)\<rparr>)\<rparr>, True)))
      else if t = 7 then then_acts ck v (\<lambda>acts. (u\<lparr>u_Actions := acts, u_RedirIndex := redirect_index acts (u_RedirIndex u)\<rparr>, snd s))
      else if t = 1 then obind (getle32 v) (\<lambda>x. Done (Inr (u\<lparr>u_ClassId := x\<rparr>, snd s)))
      else if t = 4 then obind (getle32 v) (\<lambda>x. Done (Inr (u\<lparr>u_Divisor := x\<rparr>, snd s)))
      else if t = 2 then obind (getle32 v) (\<lambda>x. Done (Inr (u\<lparr>u_Hash := x\<rparr>, snd s)))
      else if t = 3 then obind (getle32 v) (\<lambda>x. Done (Inr (u\<lparr>u_Link := x\<rparr>, snd s)))
      else Done (Inr s))"

definition parseU32Data :: "clock \<Rightarrow> U32Options \<Rightarrow> NetlinkRouteAttr list \<Rightarrow> (filter_error + U32Options \<times> bool) outcome" where
  "parseU32Data ck u data = each_datum (u32_datum ck) data (u, False)"

fun parse_police_data :: "clock \<Rightarrow> NetlinkRouteAttr list \<Rightarrow> PoliceAction \<Rightarrow> PoliceAction outcome" where
  "parse_police_data ck [] p = Done p"
| "parse_police_data ck (d # ds) p = obind (parsePolice ck d p) (\<lambda>p. parse_police_data ck ds p)"

definition zero_police :: PoliceAction where
  "zero_police = NewPoliceAction\<lparr>pa_RCellLog := 0, pa_PCellLog := 0, pa_LinkLayer := 0, pa_ExceedAction := 0, pa_NotExceedAction := 0\<rparr>"

text \<open>The error of parsing the policing attributes is dropped, and with it the attributes.\<close>

definition fw_datum :: "clock \<Rightarrow> NetlinkRouteAttr \<Rightarrow> FwOptions \<Rightarrow> (filter_error + FwOptions) outcome" where
  "fw_datum ck d f =
     (let v = ra_Value d; t = ra_Type d in
      if t = 5 then obind (value_u32 v) (\<lambda>x. Done (Inr (f\<lparr>fw_Mask := x\<rparr>)))
      else if t = 1 then obind (value_u32 v) (\<lambda>x. Done (Inr (f\<lparr>fw_ClassId := x\<rparr>)))
      else if t = 3 then obind (value_string v) (\<lambda>x. Done (Inr (f\<lparr>fw_InDev := x\<rparr>)))
      else if t = 2
      then obind (ParseRouteAttr v) (\<lambda>r.
             obind (parse_police_data ck (case r of Inl e \<Rightarrow> [] | Inr adata \<Rightarrow> adata) zero_police)
               (\<lambda>p. Done (Inr (f\<lparr>fw_Police := Some p\<rparr>))))
      else Done (Inr f))"

definition parseFwData :: "clock \<Rightarrow> FwOptions \<Rightarrow> NetlinkRouteAttr list \<Rightarrow> (filter_error + FwOptions) outcome" where
  "parseFwData ck f data = each_datum (fw_datum ck) data f"

definition hex_digit :: "nat \<Rightarrow> char" where
  "hex_digit n = char_of (if n < 10 then n + 48 else n + 87)"

definition EncodeToString :: "bytes \<Rightarrow> string" where
  "EncodeToString b = concat (map (\<lambda>x. [hex_digit (unat x div 16), hex_digit (unat x mod 16)]) b)"

definition bpf_datum :: "NetlinkRouteAttr \<Rightarrow> BpfOptions \<Rightarrow> (filter_error + BpfOptions) outcome" where
  "bpf_datum d b =
     (let v = ra_Value d; t = ra_Type d in
      if t = 6 then obind (value_u32 v) (\<lambda>x. Done (Inr (b\<lparr>bp_Fd := uint x\<rparr>)))
      else if t = 7 then obind (value_string v) (\<lambda>x. Done (Inr (b\<lparr>bp_Name := x\<rparr>)))
      else if t = 3 then obind (value_u32 v) (\<lambda>x. Done (Inr (b\<lparr>bp_ClassId := x\<rparr>)))
      else if t = 8 then obind (value_u32 v) (\<lambda>x. Done (Inr (if x AND 1 \<noteq> 0 then b\<lparr>bp_DirectAction := True\<rparr> else b)))
      else if t = 11 then obind (value_u32 v) (\<lambda>x. Done (Inr (b\<lparr>bp_Id := uint x\<rparr>)))
      else if t = 10 then Done (Inr (b\<lparr>bp_Tag := EncodeToString v\<rparr>))
      else Done (Inr b))"

definition parseBpfData :: "BpfOptions \<Rightarrow> NetlinkRouteAttr list \<Rightarrow> (filter_error + BpfOptions) outcome" where
  "parseBpfData b data = each_datum bpf_datum data b"

definition matchall_datum :: "clock \<Rightarrow> NetlinkRouteAttr \<Rightarrow> u32 \<times> actions \<Rightarrow> (filter_error + u32 \<times> actions) outcome" where
  "matchall_datum ck d s =
     (if ra_Type d = 1 then obind (value_u32 (ra_Value d)) (\<lambda>x. Done (Inr (x, snd s)))
      else if ra_Type d = 2 then then_acts ck (ra_Value d) (\<lambda>acts. (fst s, acts))
      else Done (Inr s))"

definition parseMatchAllData :: "clock \<Rightarrow> u32 \<times> actions \<Rightarrow> NetlinkRouteAttr list \<Rightarrow> (filter_error + u32 \<times> actions) outcome" where
  "parseMatchAllData ck m data = each_datum (matchall_datum ck) data m"

definition parseDhcMatchAllData :: "clock \<Rightarrow> u32 \<times> actions \<Rightarrow> NetlinkRouteAttr list \<Rightarrow> (filter_error + u32 \<times> actions) outcome" where
  "parseDhcMatchAllData ck m data = each_datum (matchall_datum ck) data m"

definition flower_datum :: "clock \<Rightarrow> NetlinkRouteAttr \<Rightarrow> FlowerOptions \<Rightarrow> (filter_error + FlowerOptions) outcome" where
  "flower_datum ck d f =
     (let v = ra_Value d; t = ra_Type d in
      if t = 8 then obind (ntohs v) (\<lambda>x. Done (Inr (f\<lparr>fl_EthType := x\<rparr>)))
      else if t = 10 \<or> t = 14 then Done (Inr (f\<lparr>fl_SrcIP := Some v\<rparr>))
      else if t = 11 \<or> t = 15 then Done (Inr (f\<lparr>fl_SrcIPMask := Some v\<rparr>))
      else if t = 12 \<or> t = 16 then Done (Inr (f\<lparr>fl_DestIP := Some v\<rparr>))
      else if t = 13 \<or> t = 17 then Done (Inr (f\<lparr>fl_DestIPMask := Some v\<rparr>))
      else if t = 27 \<or> t = 31 then Done (Inr (f\<lparr>fl_EncSrcIP := Some v\<rparr>))
      else if t = 28 \<or> t = 32 then Done (Inr (f\<lparr>fl_EncSrcIPMask := Some v\<rparr>))
      else if t = 29 \<or> t = 33 then Done (Inr (f\<lparr>fl_EncDestIP := Some v\<rparr>))
      else if t = 30 \<or> t = 34 then Done (Inr (f\<lparr>fl_EncDestIPMask := Some v\<rparr>))
      else if t = 45 then obind (ntohs v) (\<lambda>x. Done (Inr (f\<lparr>fl_EncDestPort := x\<rparr>)))
      else if t = 26 then obind (ntohl v) (\<lambda>x. Done (Inr (f\<lparr>fl_EncKeyId := x\<rparr>)))
      else if t = 3 then then_acts ck v (\<lambda>acts. f\<lparr>fl_Actions := acts\<rparr>)
      else Done (Inr f))"

definition Flower_decode :: "clock \<Rightarrow> FlowerOptions \<Rightarrow> NetlinkRouteAttr list \<Rightarrow> (filter_error + FlowerOptions) outcome" where
  "Flower_decode ck f data = each_datum (flower_datum ck) data f"

text \<open>The filter that is created for a kind.\<close>

definition no_fa :: FilterAttrs where
  "no_fa = \<lparr>fa_LinkIndex = 0, fa_Handle = 0, fa_Parent = 0, fa_Priority = 0, fa_Protocol = 0\<rparr>"

definition fresh_filter :: "string \<Rightarrow> nl_filter" where
  "fresh_filter filterType =
     (if filterType = ''u32'' then U32 no_fa \<lparr>u_ClassId = 0, u_Divisor = 0, u_Hash = 0, u_Link = 0, u_RedirIndex = 0, u_Sel = None, u_SpareKeys = 0, u_Actions = []\<rparr>
      else if filterType = ''fw'' then FwFilter no_fa \<lparr>fw_ClassId = 0, fw_InDev = [], fw_Mask = 0, fw_Police = None\<rparr>
      else if filterType = ''bpf'' then BpfFilter no_fa \<lparr>bp_ClassId = 0, bp_Fd = 0, bp_Name = [], bp_DirectAction = False, bp_Id = 0, bp_Tag = []\<rparr>
      else if filterType = ''matchall'' then MatchAll no_fa 0 []
      else if filterType = ''dhcmatchall'' then DhcMatchAll no_fa 0 []
      else if filterType = ''flower'' then Flower no_fa \<lparr>fl_DestIP = None, fl_DestIPMask = None, fl_SrcIP = None, fl_SrcIPMask = None, fl_EthType = 0,
        fl_EncDestIP = None, fl_EncDestIPMask = None, fl_EncSrcIP = None, fl_EncSrcIPMask = None, fl_EncDestPort = 0, fl_EncKeyId = 0, fl_Actions = []\<rparr>
      else GenericFilter no_fa filterType)"

abbreviation map_ok :: "('a \<Rightarrow> 'b) \<Rightarrow> ('e + 'a) outcome \<Rightarrow> ('e + 'b) outcome" where
  "map_ok g x \<equiv> obind x (\<lambda>r. case r of Inl e \<Rightarrow> Done (Inl e) | Inr a \<Rightarrow> Done (Inr (g a)))"

text \<open>
  The options of a filter that has its kind: the filter after parsing and whether it is detailed.
  The type of the filter and its kind are set together.
\<close>

fun parse_options :: "clock \<Rightarrow> nl_filter \<Rightarrow> NetlinkRouteAttr list \<Rightarrow> (filter_error + nl_filter \<times> bool) outcome" where
  "parse_options ck (U32 a u) data = map_ok (\<lambda>(u, detailed). (U32 a u, detailed)) (parseU32Data ck u data)"
| "parse_options ck (FwFilter a f) data = map_ok (\<lambda>f. (FwFilter a f, True)) (parseFwData ck f data)"
| "parse_options ck (BpfFilter a b) data = map_ok (\<lambda>b. (BpfFilter a b, True)) (parseBpfData b data)"
| "parse_options ck (MatchAll a c acts) data = map_ok (\<lambda>(c, acts). (MatchAll a c acts, True)) (parseMatchAllData ck (c, acts) data)"
| "parse_options ck (DhcMatchAll a c acts) data = map_ok (\<lambda>(c, acts). (DhcMatchAll a c acts, True)) (parseDhcMatchAllData ck (c, acts) data)"
| "parse_options ck (Flower a f) data = map_ok (\<lambda>f. (Flower a f, True)) (Flower_decode ck f data)"
| "parse_options ck (GenericFilter a t) data = Done (Inr (GenericFilter a t, True))"

text \<open>The loop over the attributes of a message; options before the kind leave a nil filter that counts as detailed.\<close>

fun filter_attrs_loop :: "clock \<Rightarrow> NetlinkRouteAttr list \<Rightarrow> nl_filter option \<times> bool \<Rightarrow> (filter_error + nl_filter option \<times> bool) outcome" where
  "filter_attrs_loop ck [] s = Done (Inr s)"
| "filter_attrs_loop ck (attr # as) s =
     (if ra_Type attr = 1
      then obind (value_string (ra_Value attr)) (\<lambda>kind. filter_attrs_loop ck as (Some (fresh_filter kind), snd s))
      else if ra_Type attr = 2
      then obind (ParseRouteAttr (ra_Value attr)) (\<lambda>r. case r of
             Inl e \<Rightarrow> Done (Inl (ParseErr e))
           | Inr data \<Rightarrow>
               (case fst s of
                  None \<Rightarrow> filter_attrs_loop ck as (None, True)
                | Some f \<Rightarrow>
                    obind (parse_options ck f data) (\<lambda>r. case r of
                        Inl e \<Rightarrow> Done (Inl e)
                      | Inr (f, detailed) \<Rightarrow> filter_attrs_loop ck as (Some f, detailed))))
      else filter_attrs_loop ck as s)"

text \<open>One message of the dump; only detailed filters are returned.\<close>

definition decode_filter :: "clock \<Rightarrow> bytes \<Rightarrow> (filter_error + nl_filter option) outcome" where
  "decode_filter ck m =
     obind (DeserializeTcMsg m) (\<lambda>msg.
       obind (ParseRouteAttr (drop (TcMsg_Len msg) m)) (\<lambda>r. case r of
           Inl e \<Rightarrow> Done (Inl (ParseErr e))
         | Inr attrs \<Rightarrow>
             (let (priority, protocol) = MajorMinor (tm_Info msg);
                  base = \<lparr>fa_LinkIndex = sint (tm_Ifindex msg), fa_Handle = tm_Handle msg, fa_Parent = tm_Parent msg,
                    fa_Priority = priority, fa_Protocol = Swap16 protocol\<rparr>
              in obind (filter_attrs_loop ck attrs (None, False)) (\<lambda>r. case r of
                     Inl e \<Rightarrow> Done (Inl e)
                   | Inr (f, detailed) \<Rightarrow>
                       if \<not> detailed then Done (Inr None)
                       else case f of None \<Rightarrow> Panic NilDereference | Some f \<Rightarrow> Done (Inr (Some (set_Attrs base f)))))))"

fun decode_filters :: "clock \<Rightarrow> bytes list \<Rightarrow> (filter_error + nl_filter list) outcome" where
  "decode_filters ck [] = Done (Inr [])"
| "decode_filters ck (m # ms) =
     obind (decode_filter ck m) (\<lambda>r. case r of
         Inl e \<Rightarrow> Done (Inl e)
       | Inr f \<Rightarrow>
           obind (decode_filters ck ms) (\<lambda>r. case r of
               Inl e \<Rightarrow> Done (Inl e)
             | Inr fs \<Rightarrow> Done (Inr (case f of None \<Rightarrow> fs | Some f \<Rightarrow> f # fs))))"

text \<open>\<open>FilterList\<close> for a link whose index is known, so that \<open>ensureIndex\<close> has nothing to do, or for no link.\<close>

definition nl_FilterList :: "clock \<Rightarrow> nl_os \<Rightarrow> bool \<Rightarrow> Handle \<Rightarrow> int option \<Rightarrow> u32 \<Rightarrow> nl_state
    \<Rightarrow> ((modify_error + nl_filter list) \<times> nl_state) outcome" where
  "nl_FilterList ck os extack h linkIndex parent st =
     (let (req, st) = newNetlinkRequest h RTM_GETTFILTER NLM_F_DUMP st;
          msg = tc_msg (case linkIndex of None \<Rightarrow> 0 | Some i \<Rightarrow> i) 0 parent 0
      in obind (Execute os extack 0 (word_of_int RTM_NEWTFILTER) (AddData req (StructData (TcMsg_Serialize msg))) st) (\<lambda>(r, req, st).
           case r of
             Inl e \<Rightarrow> Done (Inl (ExecErr e), st)
           | Inr msgs \<Rightarrow>
               obind (decode_filters ck msgs) (\<lambda>r. case r of
                   Inl e \<Rightarrow> Done (Inl (EncodeErr e), st)
                 | Inr fs \<Rightarrow> Done (Inr fs, st))))"

section \<open>Round trip of filters\<close>

lemma Swap16_Swap16 [simp]: "Swap16 (Swap16 i) = i"
proof -
  have m: "(0xff00 :: u16) = push_bit 8 (mask 8)" "(0xff :: u16) = mask 8"
    by (simp_all add: mask_eq_exp_minus_1 push_bit_eq_mult)
  show ?thesis
    unfolding Swap16_def m
  proof (rule bit_word_eqI)
    fix n
    assume "n < LENGTH(16)"
    then show "bit (drop_bit 8 ((drop_bit 8 (i AND push_bit 8 (mask 8)) OR push_bit 8 (i AND mask 8)) AND push_bit 8 (mask 8))
        OR push_bit 8 ((drop_bit 8 (i AND push_bit 8 (mask 8)) OR push_bit 8 (i AND mask 8)) AND mask 8)) n = bit i n"
      by (cases "n < 8") (auto simp: bit_simps)
  qed
qed

text \<open>A filter identity that fits into the message.\<close>

definition valid_fa :: "FilterAttrs \<Rightarrow> bool" where
  "valid_fa a \<longleftrightarrow> - (2 ^ 31) \<le> fa_LinkIndex a \<and> fa_LinkIndex a < 2 ^ 31"

text \<open>The bytes of a filter message after its netlink header.\<close>

definition filter_payload :: "clock \<Rightarrow> nl_filter \<Rightarrow> (filter_error + bytes) outcome" where
  "filter_payload ck f = map_ok (\<lambda>data. concat (map attr_wire data)) (filter_data ck f)"

lemma filter_msg_roundtrip:
  assumes "valid_fa a"
  shows "DeserializeTcMsg (TcMsg_Serialize (filter_msg a) @ r) = Done (filter_msg a)"
    and "MajorMinor (tm_Info (filter_msg a)) = (fa_Priority a, Swap16 (fa_Protocol a))"
    and "sint (tm_Ifindex (filter_msg a)) = fa_LinkIndex a"
    and "tm_Handle (filter_msg a) = fa_Handle a" "tm_Parent (filter_msg a) = fa_Parent a"
    and "length (TcMsg_Serialize (filter_msg a)) = 20"
  using assms tm_codec.dec_enc [of "filter_msg a" r] tm_codec.enc_length [of "filter_msg a"]
  by (simp_all add: filter_msg_def tc_msg_def MajorMinor_MakeHandle valid_fa_def sint_of_int32 tc_sizes)

lemma decode_payload:
  assumes "valid_fa a" and "length kind < 100" and "\<And>c. c \<in> set opts \<Longrightarrow> is_attr c \<and> attr_Len c < 2 ^ 16"
    and "attr_Len (RtAttr 2 [] opts) < 2 ^ 16"
    and "parse_options ck (fresh_filter kind) (map attr_parsed opts) = Done (Inr (f, True))"
  shows "decode_filter ck (TcMsg_Serialize (filter_msg a) @ attr_wire (NewRtAttr 1 (ZeroTerminated kind)) @ attr_wire (RtAttr 2 [] opts))
    = Done (Inr (Some (set_Attrs a f)))"
proof -
  let ?as = "[NewRtAttr 1 (ZeroTerminated kind), RtAttr 2 [] opts]"
  have "is_attr c \<and> attr_Len c < 2 ^ 16" if "c \<in> set ?as" for c
    using that assms(2,4) by (auto simp del: attr_Len.simps)
  then have p: "ParseRouteAttr (attr_wire (NewRtAttr 1 (ZeroTerminated kind)) @ attr_wire (RtAttr 2 [] opts)) = Done (Inr (map attr_parsed ?as))"
    using parse_wires [of ?as "[]"] by (simp add: ParseRouteAttr_def del: attr_wire.simps attr_parsed.simps)
  have o: "ParseRouteAttr (ra_Value (attr_parsed (RtAttr 2 [] opts))) = Done (Inr (map attr_parsed opts))"
    using assms(3) by (rule parse_children)
  have t: "ra_Type (attr_parsed (RtAttr 2 [] opts)) = 2" by simp
  have l: "filter_attrs_loop ck (map attr_parsed ?as) (None, False) = Done (Inr (Some f, True))"
    using o t assms(5) by (simp del: attr_parsed.simps)
  have a: "\<lparr>fa_LinkIndex = fa_LinkIndex a, fa_Handle = fa_Handle a, fa_Parent = fa_Parent a, fa_Priority = fa_Priority a,
      fa_Protocol = fa_Protocol a\<rparr> = a" by (cases a) simp
  show ?thesis
    using filter_msg_roundtrip [OF assms(1)] p l
    by (simp add: decode_filter_def tc_sizes del: attr_wire.simps attr_parsed.simps attr_Len.simps) (simp only: a)
qed

lemma with_actions_valid:
  assumes "\<forall>x \<in> set acts. valid_action x"
  obtains tables where "EncodeActions ck (map Some acts) = Done (Inr tables)"
    and "parse_acts ck (ra_Value (attr_parsed (RtAttr t [] tables))) = Done (Inr (map Some acts))"
proof -
  obtain ts where ts: "EncodeActions ck (map Some acts) = Done (Inr ts)" "\<forall>t \<in> set ts. is_attr t \<and> attr_Len t < 2 ^ 15"
    "parseActions ck (map attr_parsed ts) = Done (Inr (map Some acts))"
    using EncodeActions_roundtrip [OF assms, of ck 1] by (auto simp: EncodeActions_def)
  then have s: "is_attr x \<and> attr_Len x < 2 ^ 16" if "x \<in> set ts" for x using that by fastforce
  then have "parse_acts ck (ra_Value (attr_parsed (RtAttr t [] ts))) = Done (Inr (map Some acts))"
    using parse_children [of ts t] ts(3) by (simp add: parse_acts_def del: attr_parsed.simps)
  with ts(1) show ?thesis by (rule that)
qed

text \<open>What a request for a filter carries of it, and the actions of a filter.\<close>

fun filter_sent :: "nl_filter \<Rightarrow> nl_filter" where
  "filter_sent (MatchAll a c acts) = MatchAll a 0 []"
| "filter_sent f = f"

fun filter_actions :: "nl_filter \<Rightarrow> actions" where
  "filter_actions (U32 a u) = u_Actions u"
| "filter_actions (MatchAll a c acts) = acts"
| "filter_actions (DhcMatchAll a c acts) = acts"
| "filter_actions (Flower a f) = fl_Actions f"
| "filter_actions f = []"

lemma filter_sent_simps [simp]: "filter_Attrs (filter_sent f) = filter_Attrs f" "filter_Type (filter_sent f) = filter_Type f"
  by (cases f; simp)+

lemma filter_actions_set_Attrs [simp]: "filter_actions (set_Attrs b f) = filter_actions f"
  by (cases f) simp_all

text \<open>A filter without the class and actions of a \<open>MatchAll\<close>, and the one with both.\<close>

lemma matchall_sent:
  assumes "valid_fa a" and "\<forall>x \<in> set acts. valid_action x" and "EncodeActions ck (map Some acts) = Done (Inr tables)"
    and "attr_Len (RtAttr 2 [] tables) < 2 ^ 15"
  shows "\<exists>m ms. filter_payload ck (DhcMatchAll a c (map Some acts)) = Done (Inr m)
    \<and> decode_filter ck m = Done (Inr (Some (DhcMatchAll a c (map Some acts))))
    \<and> filter_payload ck (MatchAll a c (map Some acts)) = Done (Inr ms)
    \<and> decode_filter ck ms = Done (Inr (Some (filter_sent (MatchAll a c (map Some acts)))))
    \<and> filter_actions (filter_sent (MatchAll a c (map Some acts))) = []"
proof (intro exI conjI)
  let ?opts = "RtAttr 2 [] tables # nonzero_attr 1 c"
  obtain ts where "EncodeActions ck (map Some acts) = Done (Inr ts)"
    "parse_acts ck (ra_Value (attr_parsed (RtAttr 2 [] ts))) = Done (Inr (map Some acts))"
    by (rule with_actions_valid [OF assms(2)])
  then have acts: "parse_acts ck (ra_Value (attr_parsed (RtAttr 2 [] tables))) = Done (Inr (map Some acts))"
    using assms(3) by simp
  have t: "ra_Type (attr_parsed (RtAttr 2 [] tables)) = 2" by simp
  have opts: "is_attr x \<and> attr_Len x < 2 ^ 16" if "x \<in> set ?opts" for x
    using that assms(4) by (auto simp: nonzero_attr_def simp del: attr_Len.simps split: if_splits)
  have len: "attr_Len (RtAttr 2 [] ?opts) < 2 ^ 16"
    using attr_Len_children [of ?opts 2 "[]"] assms(4) rtaAlignOf_lt [of "attr_Len (RtAttr 2 [] tables)"] rtaAlignOf_id [of 0] rtaAlignOf_id [of 8]
    by (auto simp: nonzero_attr_def simp del: attr_Len.simps)
  have parsed: "parse_options ck (fresh_filter ''dhcmatchall'') (map attr_parsed ?opts) = Done (Inr (DhcMatchAll no_fa c (map Some acts), True))"
    using acts t by (auto simp: fresh_filter_def parseDhcMatchAllData_def matchall_datum_def then_acts_def nonzero_attr_def
        simp del: attr_parsed.simps)
  show "filter_payload ck (DhcMatchAll a c (map Some acts)) = Done (Inr (TcMsg_Serialize (filter_msg a)
      @ attr_wire (NewRtAttr 1 (ZeroTerminated ''dhcmatchall'')) @ attr_wire (RtAttr 2 [] ?opts)))"
    using assms(3) by (simp add: filter_payload_def filter_data_def with_actions_def)
  show "decode_filter ck (TcMsg_Serialize (filter_msg a) @ attr_wire (NewRtAttr 1 (ZeroTerminated ''dhcmatchall'')) @ attr_wire (RtAttr 2 [] ?opts))
      = Done (Inr (Some (DhcMatchAll a c (map Some acts))))"
    using decode_payload [OF assms(1) _ opts len parsed] by simp
  show "filter_payload ck (MatchAll a c (map Some acts)) = Done (Inr (TcMsg_Serialize (filter_msg a)
      @ attr_wire (NewRtAttr 1 (ZeroTerminated ''matchall'')) @ attr_wire (RtAttr 2 [] [])))"
    by (simp add: filter_payload_def filter_data_def)
  show "decode_filter ck (TcMsg_Serialize (filter_msg a) @ attr_wire (NewRtAttr 1 (ZeroTerminated ''matchall'')) @ attr_wire (RtAttr 2 [] []))
      = Done (Inr (Some (filter_sent (MatchAll a c (map Some acts)))))"
    using decode_payload [OF assms(1), of "''matchall''" "[]" ck "MatchAll no_fa 0 []"]
    by (simp add: fresh_filter_def parseMatchAllData_def)
  show "filter_actions (filter_sent (MatchAll a c (map Some acts))) = []" by simp
qed


text \<open>The filter that redirects all packets from device 1 to device 2.\<close>

definition example_fa :: FilterAttrs where
  "example_fa = \<lparr>fa_LinkIndex = 1, fa_Handle = 0, fa_Parent = HANDLE_MIN_INGRESS, fa_Priority = 2, fa_Protocol = 3\<rparr>"

definition no_clock :: clock where
  "no_clock = \<lparr>Xmittime = (\<lambda>_ _. 0), Xmitsize = (\<lambda>_ _. 0)\<rparr>"


end
