(* ===== verification/TcNetlink.thy ===== *)
theory TcNetlink
  imports BpfUtils NlFilter
begin

text \<open>
  Redirecting the ingress traffic of the host NIC to an IFB device, \<open>pkg/tc/netlink.go\<close>: the
  incoming packets of the NIC are sent out through the IFB, whose egress side carries the
  ingress program. The kernel's state \<open>'h\<close> is reached through the netlink calls \<open>netlink_ops\<close>
  and through the \<open>tc\<close> commands of \<open>BpfUtils\<close>.
\<close>

record ('h, 'e) netlink_ops =
  LinkByName :: "string \<Rightarrow> 'h \<Rightarrow> 'e + nl_link"
  LinkAdd :: "nl_link \<Rightarrow> 'h \<Rightarrow> 'e option \<times> 'h"
  LinkSetUp :: "nl_link \<Rightarrow> 'h \<Rightarrow> 'e option \<times> 'h"
  LinkDel :: "nl_link \<Rightarrow> 'h \<Rightarrow> 'e option \<times> 'h"
  FilterList :: "nl_link \<Rightarrow> u32 \<Rightarrow> 'h \<Rightarrow> 'e + nl_filter list"
  FilterDel :: "nl_filter \<Rightarrow> 'h \<Rightarrow> 'e option \<times> 'h"
  FilterReplace :: "nl_filter \<Rightarrow> 'h \<Rightarrow> 'e option \<times> 'h"

datatype 'e tc_error = AddIfbErr 'e | StartIfbErr 'e | GetIntfErr string 'e | DelIntfErr 'e | ListFilterErr string 'e
  | DelFilterErr string nl_filter 'e | AddFilterErr 'e | CreateIfbFailed string "'e tc_error"
  | RedirectFailed "'e tc_error" | EnableDevFailed string "'e dev_error"

section \<open>The IFB device\<close>

definition ifb_attrs :: "string \<Rightarrow> int \<Rightarrow> LinkAttrs" where
  "ifb_attrs ifbName numCPU = zeroLinkAttrs\<lparr>la_MTU := 1500, la_TxQLen := 1000, la_Name := ifbName, la_NumTxQueues := numCPU\<rparr>"

text \<open>Any error of the lookup, not only a missing device, leads to the creation.\<close>

definition CreateIfbDev ::
  "('h, 'e) netlink_ops \<Rightarrow> string \<Rightarrow> int \<Rightarrow> string \<Rightarrow> 'h \<Rightarrow> 'e tc_error option \<times> 'h" where
  "CreateIfbDev N Custom numCPU ifbName h =
     (let startup = (\<lambda>link h. case LinkSetUp N link h of
              (Some e, h) \<Rightarrow> (Some (StartIfbErr e), h)
            | (None, h) \<Rightarrow> (None, h))
      in case LinkByName N ifbName h of
           Inr link \<Rightarrow> startup link h
         | Inl e \<Rightarrow>
             let newLink = (if Custom = ''DAHUA'' then DhcIfb (ifb_attrs ifbName numCPU) else Ifb (ifb_attrs ifbName numCPU))
             in case LinkAdd N newLink h of
                  (Some e, h) \<Rightarrow> (Some (AddIfbErr e), h)
                | (None, h) \<Rightarrow> startup newLink h)"

definition DestroyIfbDev :: "('h, 'e) netlink_ops \<Rightarrow> string \<Rightarrow> 'h \<Rightarrow> 'e tc_error option \<times> 'h" where
  "DestroyIfbDev N ifbName h =
     (case LinkByName N ifbName h of
        Inl e \<Rightarrow> (Some (GetIntfErr ifbName e), h)
      | Inr ifb \<Rightarrow>
         (case LinkDel N ifb h of
            (Some e, h) \<Rightarrow> (Some (DelIntfErr e), h)
          | (None, h) \<Rightarrow> (None, h)))"

section \<open>The redirection\<close>

text \<open>The loop over the filters: \<open>Inr True\<close> is the early return, \<open>Inr False\<close> the end of the loop.\<close>

fun scan_filters ::
  "('h, 'e) netlink_ops \<Rightarrow> string \<Rightarrow> string \<Rightarrow> nl_filter list \<Rightarrow> 'h \<Rightarrow> ('e tc_error + bool) \<times> 'h" where
  "scan_filters N filterType hostNicName [] h = (Inr False, h)"
| "scan_filters N filterType hostNicName (tmpFilter # fs) h =
     (if filter_Type tmpFilter = filterType
      then if fa_Priority (filter_Attrs tmpFilter) = 2 then (Inr True, h)
           else (case FilterDel N tmpFilter h of
                   (Some e, h) \<Rightarrow> (Inl (DelFilterErr hostNicName tmpFilter e), h)
                 | (None, h) \<Rightarrow> scan_filters N filterType hostNicName fs h)
      else scan_filters N filterType hostNicName fs h)"

definition ETH_P_ALL :: u16 where "ETH_P_ALL = 3"

definition redirect_filter :: "string \<Rightarrow> int \<Rightarrow> int \<Rightarrow> nl_filter" where
  "redirect_filter Custom linkIndex ifbIndex =
     (let attrs = \<lparr>fa_LinkIndex = linkIndex, fa_Handle = 0, fa_Parent = HANDLE_MIN_INGRESS, fa_Priority = 2, fa_Protocol = ETH_P_ALL\<rparr>;
          mirredAction = (NewMirredAction ifbIndex)\<lparr>ma_MirredAction := TCA_EGRESS_REDIR\<rparr>
      in if Custom = ''DAHUA'' then DhcMatchAll attrs 0 [Some (AMirred mirredAction)] else MatchAll attrs 0 [Some (AMirred mirredAction)])"

definition NicIngressFilterToIfb ::
  "('h, 'e) netlink_ops \<Rightarrow> string \<Rightarrow> string \<Rightarrow> string \<Rightarrow> 'h \<Rightarrow> 'e tc_error option \<times> 'h" where
  "NicIngressFilterToIfb N Custom hostNicName ifbName h =
     (case LinkByName N hostNicName h of
        Inl e \<Rightarrow> (Some (GetIntfErr hostNicName e), h)
      | Inr link \<Rightarrow>
     (case FilterList N link HANDLE_MIN_INGRESS h of
        Inl e \<Rightarrow> (Some (ListFilterErr hostNicName e), h)
      | Inr filterList \<Rightarrow>
     (case scan_filters N (if Custom = ''DAHUA'' then ''dhcmatchall'' else ''matchall'') hostNicName filterList h of
        (Inl e, h) \<Rightarrow> (Some e, h)
      | (Inr True, h) \<Rightarrow> (None, h)
      | (Inr False, h) \<Rightarrow>
     (case LinkByName N ifbName h of
        Inl e \<Rightarrow> (Some (GetIntfErr ifbName e), h)
      | Inr ifbLink \<Rightarrow>
     (case FilterReplace N (redirect_filter Custom (link_Index link) (link_Index ifbLink)) h of
        (Some e, h) \<Rightarrow> (Some (AddFilterErr e), h)
      | (None, h) \<Rightarrow> (None, h))))))"

fun del_filters :: "('h, 'e) netlink_ops \<Rightarrow> string \<Rightarrow> nl_filter list \<Rightarrow> 'h \<Rightarrow> 'e tc_error option \<times> 'h" where
  "del_filters N hostNicName [] h = (None, h)"
| "del_filters N hostNicName (tmpFilter # fs) h =
     (if filter_Type tmpFilter = ''dhcmatchall''
      then (case FilterDel N tmpFilter h of
              (Some e, h) \<Rightarrow> (Some (DelFilterErr hostNicName tmpFilter e), h)
            | (None, h) \<Rightarrow> del_filters N hostNicName fs h)
      else del_filters N hostNicName fs h)"

definition DisableNicIngressFilterToIfb :: "('h, 'e) netlink_ops \<Rightarrow> string \<Rightarrow> 'h \<Rightarrow> 'e tc_error option \<times> 'h" where
  "DisableNicIngressFilterToIfb N hostNicName h =
     (case LinkByName N hostNicName h of
        Inl e \<Rightarrow> (Some (GetIntfErr hostNicName e), h)
      | Inr link \<Rightarrow>
     (case FilterList N link HANDLE_MIN_INGRESS h of
        Inl e \<Rightarrow> (Some (ListFilterErr hostNicName e), h)
      | Inr filterList \<Rightarrow> del_filters N hostNicName filterList h))"

section \<open>Ingress QoS\<close>

definition EnableIngressQos ::
  "('h, 'e) netlink_ops \<Rightarrow> ('h, 'e) shell \<Rightarrow> ('h, 'e) with_netns \<Rightarrow> string \<Rightarrow> int \<Rightarrow> string \<Rightarrow> string \<Rightarrow> 'h \<Rightarrow>
   'e tc_error option \<times> 'h" where
  "EnableIngressQos N sh WithNetNSPath Custom numCPU hostNicName ifbName h =
     (case CreateIfbDev N Custom numCPU ifbName h of
        (Some e, h) \<Rightarrow> (Some (CreateIfbFailed ifbName e), h)
      | (None, h) \<Rightarrow>
     (case NicIngressFilterToIfb N Custom hostNicName ifbName h of
        (Some e, h) \<Rightarrow> (Some (RedirectFailed e), h)
      | (None, h) \<Rightarrow>
     (case EnableDevQos sh WithNetNSPath ifbName [] IngressBpfSection h of
        (Some e, h) \<Rightarrow> (Some (EnableDevFailed ifbName e), h)
      | (None, h) \<Rightarrow> (None, h))))"

text \<open>The error of detaching the program is logged; the two others are returned.\<close>

definition DisableIngressQos ::
  "('h, 'e) netlink_ops \<Rightarrow> ('h, 'e) shell \<Rightarrow> ('h, 'e) with_netns \<Rightarrow> string \<Rightarrow> string \<Rightarrow> 'h \<Rightarrow> 'e tc_error option \<times> 'h" where
  "DisableIngressQos N sh WithNetNSPath hostNicName ifbName h =
     (let (err, h) = DisableDevQos sh WithNetNSPath ifbName [] h in
      case DisableNicIngressFilterToIfb N hostNicName h of
        (Some e, h) \<Rightarrow> (Some e, h)
      | (None, h) \<Rightarrow>
     (case DestroyIfbDev N ifbName h of
        (Some e, h) \<Rightarrow> (Some e, h)
      | (None, h) \<Rightarrow> (None, h)))"

section \<open>What the kernel promises\<close>

text \<open>
  The parts of the kernel that the calls change: the devices by name, which of them are up, the
  ingress filters by device index. A successful netlink call does what it says and nothing else
  to these parts; the \<open>tc\<close> commands of \<open>BpfUtils\<close> work on the egress side only. The kernel keeps a
  filter as the request describes it: \<open>filter_sent\<close>, by the round trip of \<open>NlFilter\<close>.
\<close>

locale net_kernel = tc_tool sh prog
  for sh :: "('h, 'e) shell" and prog :: "'h \<Rightarrow> string \<rightharpoonup> string" +
  fixes N :: "('h, 'e) netlink_ops" and links :: "'h \<Rightarrow> string \<rightharpoonup> nl_link" and up :: "'h \<Rightarrow> string set"
    and filters :: "'h \<Rightarrow> int \<Rightarrow> nl_filter set"
  assumes by_name: "links h n = Some l \<Longrightarrow> LinkByName N n h = Inr l"
    and no_name: "links h n = None \<Longrightarrow> \<exists>e. LinkByName N n h = Inl e"
    and named: "links h n = Some l \<Longrightarrow> link_Name l = n"
    and indexed: "links h m = Some l \<Longrightarrow> links h n = Some l' \<Longrightarrow> link_Index l = link_Index l' \<Longrightarrow> m = n"
    and link_add: "LinkAdd N l h = (None, h') \<Longrightarrow>
      (\<exists>l'. links h' = (links h)(link_Name l \<mapsto> l')) \<and> up h' = up h \<and> filters h' = filters h"
    and link_up: "LinkSetUp N l h = (None, h') \<Longrightarrow>
      links h' = links h \<and> up h' = insert (link_Name l) (up h) \<and> filters h' = filters h"
    and link_del: "links h n = Some l \<Longrightarrow> LinkDel N l h = (None, h') \<Longrightarrow>
      links h' = (links h)(n := None) \<and> filters h' = (filters h)(link_Index l := {})"
    and filter_list: "links h n = Some l \<Longrightarrow> FilterList N l HANDLE_MIN_INGRESS h = Inr fs \<Longrightarrow>
      distinct fs \<and> set fs = filters h (link_Index l)"
    and filter_del: "f \<in> filters h i \<Longrightarrow> FilterDel N f h = (None, h') \<Longrightarrow>
      links h' = links h \<and> up h' = up h \<and> filters h' = (filters h)(i := filters h i - {f})"
    and filter_replace: "FilterReplace N f h = (None, h') \<Longrightarrow>
      links h' = links h \<and> up h' = up h \<and> (\<exists>k. with_handle k (filter_sent f) \<in> filters h' (fa_LinkIndex (filter_Attrs f)))"
    and egress_cmd: "c \<in> set (enable_cmds s) \<union> set disable_cmds \<Longrightarrow> sh (sprintf_s (cmdStr c) d) h = (err, out, h') \<Longrightarrow>
      links h' = links h \<and> up h' = up h \<and> filters h' = filters h"
    and show_frame: "sh (show_cmd d) h = (err, out, h') \<Longrightarrow> links h' = links h \<and> up h' = up h \<and> filters h' = filters h"
begin

lemma create_ifb:
  assumes "CreateIfbDev N Custom cpus n h = (None, h')"
  shows "(\<exists>l. links h' n = Some l) \<and> n \<in> up h' \<and> filters h' = filters h \<and> (\<forall>m. m \<noteq> n \<longrightarrow> links h' m = links h m)"
proof (cases "links h n")
  case None
  then obtain e where "LinkByName N n h = Inl e" using no_name by blast
  moreover define l where "l = (if Custom = ''DAHUA'' then DhcIfb (ifb_attrs n cpus) else Ifb (ifb_attrs n cpus))"
  ultimately obtain h1 where h1: "LinkAdd N l h = (None, h1)" "LinkSetUp N l h1 = (None, h')"
    using assms by (auto simp: CreateIfbDev_def Let_def split: prod.splits option.splits)
  have "link_Name l = n" by (simp add: l_def ifb_attrs_def)
  note a = this h1
  from link_add [OF a(2)] obtain l' where "links h1 = (links h)(n \<mapsto> l')" "filters h1 = filters h" using a(1) by auto
  with link_up [OF a(3)] a(1) show ?thesis by simp
next
  case (Some l)
  with assms have "LinkSetUp N l h = (None, h')"
    by (auto simp: CreateIfbDev_def by_name Let_def split: prod.splits option.splits)
  with link_up [OF this] named [OF Some] Some show ?thesis by simp
qed

lemma doCmdExecute_frame:
  assumes "set cs \<subseteq> set (enable_cmds s) \<union> set disable_cmds" and "doCmdExecute sh cs d h = (e, h')"
  shows "links h' = links h \<and> up h' = up h \<and> filters h' = filters h"
  using assms
proof (induction cs arbitrary: h)
  case (Cons c cs)
  obtain err out h1 where c: "sh (sprintf_s (cmdStr c) d) h = (err, out, h1)" by (metis prod_cases3)
  have f: "links h1 = links h \<and> up h1 = up h \<and> filters h1 = filters h"
    using Cons.prems(1) egress_cmd [OF _ c, of s] by auto
  show ?case using Cons f by (auto simp: c split: if_splits)
qed simp

lemma enable_frame:
  assumes "EnableDevQos sh W d [] s h = (e, h')"
  shows "links h' = links h \<and> up h' = up h \<and> filters h' = filters h"
proof -
  obtain e1 where "doCmdExecute sh (enable_cmds s) d h = (e1, h')"
    using assms by (auto simp: EnableDevQos_def doCmd_def split: prod.splits)
  then show ?thesis using doCmdExecute_frame [of "enable_cmds s" s] by simp
qed

lemma disable_frame:
  assumes "DisableDevQos sh W d [] h = (e, h')"
  shows "links h' = links h \<and> up h' = up h \<and> filters h' = filters h"
proof -
  obtain err out h1 where c: "sh (show_cmd d) h = (err, out, h1)" by (metis prod_cases3)
  note f = show_frame [OF c]
  have "h' = h1 \<or> (\<exists>e1. doCmdExecute sh disable_cmds d h1 = (e1, h'))"
    using assms by (auto simp: DisableDevQos_def IsDevQosEnabled_def checkQosEnabled_def c doCmd_def split: prod.splits if_splits)
  then show ?thesis using f doCmdExecute_frame [of disable_cmds "[]"] by force
qed

lemma scan_filters_spec:
  assumes "scan_filters N T nic fs h = (Inr b, h')" and "distinct fs" and "set fs \<subseteq> filters h i"
  shows "links h' = links h \<and> up h' = up h
    \<and> (b \<longrightarrow> (\<exists>f \<in> filters h' i. filter_Type f = T \<and> fa_Priority (filter_Attrs f) = 2 \<and> f \<in> filters h i))
    \<and> (\<not> b \<longrightarrow> \<not> (\<exists>f \<in> set fs. filter_Type f = T \<and> fa_Priority (filter_Attrs f) = 2))"
  using assms
proof (induction fs arbitrary: h)
  case (Cons f fs)
  show ?case
  proof (cases "filter_Type f = T \<and> fa_Priority (filter_Attrs f) \<noteq> 2")
    case True
    with Cons.prems(1) obtain h1 where d: "FilterDel N f h = (None, h1)" and r: "scan_filters N T nic fs h1 = (Inr b, h')"
      by (auto split: prod.splits option.splits)
    have "f \<in> filters h i" using Cons.prems(3) by simp
    note fd = filter_del [OF this d]
    have "set fs \<subseteq> filters h1 i" using fd Cons.prems(2,3) by auto
    then show ?thesis using Cons.IH [OF r] Cons.prems(2) fd True by auto
  next
    case False
    with Cons show ?thesis by (cases "filter_Type f = T") auto
  qed
qed simp

lemma nic_redirect:
  assumes nic: "links h hostNic = Some l" and ifb: "links h n = Some lifb"
    and ok: "NicIngressFilterToIfb N Custom hostNic n h = (None, h')"
  defines "T \<equiv> (if Custom = ''DAHUA'' then ''dhcmatchall'' else ''matchall'')"
  shows "links h' = links h \<and> up h' = up h
    \<and> (\<exists>f \<in> filters h' (link_Index l). filter_Type f = T \<and> fa_Priority (filter_Attrs f) = 2
        \<and> (f \<in> filters h (link_Index l) \<or> (\<exists>k. f = with_handle k (filter_sent (redirect_filter Custom (link_Index l) (link_Index lifb))))))"
proof -
  obtain fs where fl: "FilterList N l HANDLE_MIN_INGRESS h = Inr fs"
    using ok by (auto simp: NicIngressFilterToIfb_def by_name [OF nic] split: sum.splits)
  note fs = filter_list [OF nic fl]
  obtain b h1 where sc: "scan_filters N T hostNic fs h = (Inr b, h1)"
    using ok by (auto simp: NicIngressFilterToIfb_def by_name [OF nic] fl T_def split: sum.splits prod.splits)
  have sp: "links h1 = links h \<and> up h1 = up h
    \<and> (b \<longrightarrow> (\<exists>f \<in> filters h1 (link_Index l). filter_Type f = T \<and> fa_Priority (filter_Attrs f) = 2 \<and> f \<in> filters h (link_Index l)))"
    using scan_filters_spec [OF sc, of "link_Index l"] fs by auto
  show ?thesis
  proof (cases b)
    case True
    then have "h' = h1" using ok sc by (simp add: NicIngressFilterToIfb_def by_name [OF nic] fl T_def)
    with True sp show ?thesis by auto
  next
    case False
    have "links h1 n = Some lifb" using sp ifb by simp
    then have "FilterReplace N (redirect_filter Custom (link_Index l) (link_Index lifb)) h1 = (None, h')"
      using ok sc False by (auto simp: NicIngressFilterToIfb_def by_name [OF nic] fl T_def by_name split: prod.splits option.splits)
    note fr = filter_replace [OF this]
    have "filter_Type (redirect_filter Custom (link_Index l) (link_Index lifb)) = T"
      "fa_Priority (filter_Attrs (redirect_filter Custom (link_Index l) (link_Index lifb))) = 2"
      "fa_LinkIndex (filter_Attrs (redirect_filter Custom (link_Index l) (link_Index lifb))) = link_Index l"
      by (simp_all add: redirect_filter_def T_def Let_def)
    with fr sp show ?thesis by (metis with_handle_simps filter_sent_simps)
  qed
qed

lemma enable_ingress:
  assumes word: "cmd_word ifb" and nic: "links h hostNic = Some l" and ne: "hostNic \<noteq> ifb"
    and ok: "EnableIngressQos N sh W Custom cpus hostNic ifb h = (None, h')"
  defines "T \<equiv> (if Custom = ''DAHUA'' then ''dhcmatchall'' else ''matchall'')"
  shows "\<exists>lifb. links h' ifb = Some lifb \<and> ifb \<in> up h' \<and> prog h' ifb = Some IngressBpfSection \<and> links h' hostNic = Some l
    \<and> (\<exists>f \<in> filters h' (link_Index l). filter_Type f = T \<and> fa_Priority (filter_Attrs f) = 2
        \<and> (f \<in> filters h (link_Index l) \<or> (\<exists>k. f = with_handle k (filter_sent (redirect_filter Custom (link_Index l) (link_Index lifb))))))"
proof -
  obtain h1 h2 where c: "CreateIfbDev N Custom cpus ifb h = (None, h1)"
    and r: "NicIngressFilterToIfb N Custom hostNic ifb h1 = (None, h2)"
    and e: "EnableDevQos sh W ifb [] IngressBpfSection h2 = (None, h')"
    using ok by (auto simp: EnableIngressQos_def split: prod.splits option.splits)
  note ci = create_ifb [OF c]
  then obtain lifb where lifb: "links h1 ifb = Some lifb" by blast
  have n1: "links h1 hostNic = Some l" using ci nic ne by simp
  note nr = nic_redirect [OF n1 lifb r]
  note ef = enable_frame [OF e]
  have "cmd_word IngressBpfSection" by (simp add: cmd_word_def IngressBpfSection_def)
  then have "prog h' ifb = Some IngressBpfSection" using enable_attaches [OF word _ e] by simp
  with ci lifb n1 nr ef show ?thesis unfolding T_def by auto
qed

lemma del_filters_frame:
  assumes "del_filters N nic fs h = (None, h')" and "\<And>f. f \<in> set fs \<Longrightarrow> filter_Type f \<noteq> ''dhcmatchall''"
  shows "h' = h"
  using assms by (induction fs) auto

lemma disable_ingress:
  assumes nic: "links h hostNic = Some l" and ifb: "links h ifb = Some lifb" and ne: "hostNic \<noteq> ifb"
    and none: "\<And>f. f \<in> filters h (link_Index l) \<Longrightarrow> filter_Type f \<noteq> ''dhcmatchall''"
    and ok: "DisableIngressQos N sh W hostNic ifb h = (None, h')"
  shows "links h' ifb = None \<and> filters h' (link_Index l) = filters h (link_Index l)"
proof -
  obtain err h1 where d: "DisableDevQos sh W ifb [] h = (err, h1)" by fastforce
  note df = disable_frame [OF d]
  have n1: "links h1 hostNic = Some l" "links h1 ifb = Some lifb" using df nic ifb by simp_all
  obtain h2 where dn: "DisableNicIngressFilterToIfb N hostNic h1 = (None, h2)" and de: "DestroyIfbDev N ifb h2 = (None, h')"
    using ok by (auto simp: DisableIngressQos_def d split: prod.splits option.splits)
  obtain fs where fl: "FilterList N l HANDLE_MIN_INGRESS h1 = Inr fs" and df2: "del_filters N hostNic fs h1 = (None, h2)"
    using dn by (auto simp: DisableNicIngressFilterToIfb_def by_name [OF n1(1)] split: sum.splits)
  have "h2 = h1" using del_filters_frame [OF df2] none filter_list [OF n1(1) fl] df by auto
  then have "LinkDel N lifb h1 = (None, h')"
    using de by (auto simp: DestroyIfbDev_def by_name [OF n1(2)] split: prod.splits option.splits)
  from link_del [OF n1(2) this] indexed [OF n1] ne df show ?thesis by auto
qed

end

section \<open>A kernel\<close>

text \<open>
  A kernel as a table of devices, in which the index of a device is its position, the devices that
  are up, the ingress filters and the \<open>tc\<close> state of \<open>BpfUtils\<close>.
\<close>

record kernel =
  kn_devs :: "nl_link option list"
  kn_up :: "string set"
  kn_filters :: "int \<Rightarrow> nl_filter list"
  kn_host :: host

definition set_index :: "int \<Rightarrow> nl_link \<Rightarrow> nl_link" where
  "set_index i l = set_attrs ((link_Attrs l)\<lparr>la_Index := i\<rparr>) l"

lemma set_index_simps [simp]: "link_Index (set_index i l) = i" "link_Name (set_index i l) = link_Name l"
  by (simp_all add: set_index_def)

fun dev_at :: "nl_link option list \<Rightarrow> int \<Rightarrow> string \<Rightarrow> nl_link option" where
  "dev_at [] i n = None"
| "dev_at (None # ds) i n = dev_at ds (i + 1) n"
| "dev_at (Some l # ds) i n = (if link_Name l = n then Some (set_index i l) else dev_at ds (i + 1) n)"

definition kernel_links :: "kernel \<Rightarrow> string \<rightharpoonup> nl_link" where
  "kernel_links h = dev_at (kn_devs h) 1"

definition kernel_filters :: "kernel \<Rightarrow> int \<Rightarrow> nl_filter set" where
  "kernel_filters h i = {f \<in> set (kn_filters h i). fa_LinkIndex (filter_Attrs f) = i}"

definition kernel_shell :: "(kernel, unit) shell" where
  "kernel_shell cmd h = (let (e, out, p) = host_shell cmd (kn_host h) in (e, out, h\<lparr>kn_host := p\<rparr>))"

definition drop_dev :: "string \<Rightarrow> nl_link option \<Rightarrow> nl_link option" where
  "drop_dev n d = (case d of None \<Rightarrow> None | Some l \<Rightarrow> if link_Name l = n then None else Some l)"

definition kernel_netlink :: "(kernel, unit) netlink_ops" where
  "kernel_netlink = \<lparr>
     LinkByName = (\<lambda>n h. case kernel_links h n of None \<Rightarrow> Inl () | Some l \<Rightarrow> Inr l),
     LinkAdd = (\<lambda>l h. if kernel_links h (link_Name l) = None
        then (None, h\<lparr>kn_devs := kn_devs h @ [Some l], kn_host := (kn_host h)(link_Name l \<mapsto> None)\<rparr>) else (Some (), h)),
     LinkSetUp = (\<lambda>l h. (None, h\<lparr>kn_up := insert (link_Name l) (kn_up h)\<rparr>)),
     LinkDel = (\<lambda>l h. (None, h\<lparr>kn_devs := map (drop_dev (link_Name l)) (kn_devs h), kn_up := kn_up h - {link_Name l},
        kn_filters := (kn_filters h)(link_Index l := []), kn_host := (kn_host h)(link_Name l := None)\<rparr>)),
     FilterList = (\<lambda>l parent h. Inr (remdups (filter (\<lambda>f. fa_LinkIndex (filter_Attrs f) = link_Index l) (kn_filters h (link_Index l))))),
     FilterDel = (\<lambda>f h. let i = fa_LinkIndex (filter_Attrs f) in
        (None, h\<lparr>kn_filters := (kn_filters h)(i := filter (\<lambda>g. g \<noteq> f) (kn_filters h i))\<rparr>)),
     FilterReplace = (\<lambda>f h. let i = fa_LinkIndex (filter_Attrs f) in
        (None, h\<lparr>kn_filters := (kn_filters h)(i := with_handle 1 (filter_sent f) #
            filter (\<lambda>g. fa_Priority (filter_Attrs g) \<noteq> fa_Priority (filter_Attrs f)) (kn_filters h i))\<rparr>))\<rparr>"

lemma dev_at_index: "dev_at ds i n = Some l \<Longrightarrow> i \<le> link_Index l \<and> link_Name l = n"
  by (induction ds i n rule: dev_at.induct) (fastforce split: if_splits)+

lemma dev_at_unique:
  "dev_at ds i m = Some l \<Longrightarrow> dev_at ds i n = Some l' \<Longrightarrow> link_Index l = link_Index l' \<Longrightarrow> m = n"
proof (induction ds i m rule: dev_at.induct)
  case (3 x ds i m)
  show ?case
  proof (cases "link_Name x = m \<or> link_Name x = n")
    case True
    then show ?thesis
      using 3(2-4) dev_at_index [of ds "i + 1" m l] dev_at_index [of ds "i + 1" n l'] by (auto split: if_splits)
  next
    case False
    then show ?thesis using 3 by auto
  qed
qed auto

lemma dev_at_append:
  "dev_at (ds @ [Some l]) i m
     = (case dev_at ds i m of Some x \<Rightarrow> Some x | None \<Rightarrow> if m = link_Name l then Some (set_index (i + int (length ds)) l) else None)"
  by (induction ds i m rule: dev_at.induct) (auto simp: algebra_simps split: option.splits)

lemma dev_at_drop: "dev_at (map (drop_dev n) ds) i m = (if m = n then None else dev_at ds i m)"
proof (induction ds arbitrary: i)
  case (Cons d ds)
  then show ?case by (cases d) (auto simp: drop_dev_def)
qed simp

lemma kernel_shell_host: "kernel_shell c h = (e, out, h') \<Longrightarrow> \<exists>p. host_shell c (kn_host h) = (e, out, p) \<and> h' = h\<lparr>kn_host := p\<rparr>"
  by (auto simp: kernel_shell_def split: prod.splits)

lemma kernel_tc: "tc_tool kernel_shell (\<lambda>h. host_prog (kn_host h))"
proof (unfold_locales, goal_cases)
  case 1 then show ?case using kernel_shell_host host_tc.root_fq by fastforce
next
  case 2 then show ?case using kernel_shell_host host_tc.clsact by fastforce
next
  case 3 then show ?case using kernel_shell_host [OF 3(3)] host_tc.attach [OF 3(1,2)] by fastforce
next
  case 4 then show ?case using host_tc.shown [OF 4] by (auto simp: kernel_shell_def)
next
  case 5 then show ?case using host_tc.not_shown [OF 5] by (auto simp: kernel_shell_def)
next
  case 6 then show ?case using host_tc.detach [OF 6] by (auto simp: kernel_shell_def)
qed

lemma kernel_links_upd [simp]: "kernel_links (h\<lparr>kn_up := u\<rparr>) = kernel_links h" "kernel_links (h\<lparr>kn_filters := f\<rparr>) = kernel_links h"
  "kernel_links (h\<lparr>kn_host := p\<rparr>) = kernel_links h" "kernel_links (h\<lparr>kn_devs := ds\<rparr>) = dev_at ds 1"
  by (simp_all add: kernel_links_def)

lemma kernel_filters_upd [simp]: "kernel_filters (h\<lparr>kn_up := u\<rparr>) = kernel_filters h"
  "kernel_filters (h\<lparr>kn_host := p\<rparr>) = kernel_filters h" "kernel_filters (h\<lparr>kn_devs := ds\<rparr>) = kernel_filters h"
  by (simp_all add: kernel_filters_def fun_eq_iff)

lemma drop_dev_links: "dev_at (map (drop_dev n) (kn_devs h)) 1 = (kernel_links h)(n := None)"
  by (auto simp: dev_at_drop kernel_links_def)

lemma add_dev_links: "kernel_links h (link_Name l) = None \<Longrightarrow>
  dev_at (kn_devs h @ [Some l]) 1 = (kernel_links h)(link_Name l \<mapsto> set_index (1 + int (length (kn_devs h))) l)"
  by (auto simp: dev_at_append kernel_links_def fun_eq_iff split: option.splits)

interpretation kn: net_kernel kernel_shell "\<lambda>h. host_prog (kn_host h)" kernel_netlink kernel_links kn_up kernel_filters
proof (intro net_kernel.intro kernel_tc, unfold_locales, goal_cases)
  case (3 h n l) then show ?case unfolding kernel_links_def using dev_at_index by blast
next
  case (4 h m l n l') then show ?case unfolding kernel_links_def using dev_at_unique by blast
next
  case (5 l h h') then show ?case by (auto simp: kernel_netlink_def add_dev_links split: if_splits)
next
  case (7 h n l h')
  then have "link_Name l = n" unfolding kernel_links_def using dev_at_index by blast
  then show ?case using 7 by (auto simp: kernel_netlink_def drop_dev_links) (auto simp: kernel_filters_def fun_eq_iff)
next
  case (9 f h i h') then show ?case by (auto simp: kernel_netlink_def Let_def) (auto simp: kernel_filters_def fun_eq_iff)
next
  case (10 f h h') then show ?case by (auto simp: kernel_netlink_def Let_def) (auto simp: kernel_filters_def intro!: exI [of _ 1])
qed (auto simp: kernel_netlink_def kernel_filters_def dest!: kernel_shell_host)

section \<open>Properties\<close>


text \<open>C23: In the default build \<open>DisableIngressQos\<close> does not undo \<open>EnableIngressQos\<close>: it removes the IFB
  device but only filters of type dhcmatchall, so the match-all filter that was installed on the NIC
  is still there.\<close>

theorem DisableIngressQos_leaves_redirect:
  assumes "net_kernel sh prog N links up filters" and "cmd_word ifb" and "links h hostNic = Some l" and "hostNic \<noteq> ifb"
    and "Custom \<noteq> ''DAHUA''"
    and "EnableIngressQos N sh W Custom cpus hostNic ifb h = (None, h1)"
    and "\<And>f. f \<in> filters h1 (link_Index l) \<Longrightarrow> filter_Type f \<noteq> ''dhcmatchall''"
    and "DisableIngressQos N sh W hostNic ifb h1 = (None, h2)"
  shows "links h2 ifb = None
    \<and> (\<exists>f \<in> filters h2 (link_Index l). filter_Type f = ''matchall'' \<and> fa_Priority (filter_Attrs f) = 2)"
proof -
  obtain lifb f where e: "links h1 ifb = Some lifb" "links h1 hostNic = Some l" "f \<in> filters h1 (link_Index l)"
    "filter_Type f = ''matchall''" "fa_Priority (filter_Attrs f) = 2"
    using net_kernel.enable_ingress [OF assms(1-4,6)] assms(5) by auto
  from net_kernel.disable_ingress [OF assms(1) e(2,1) assms(4,7,8)] e(3-5) show ?thesis by auto
qed

definition example_nic :: nl_link where
  "example_nic = Device (zeroLinkAttrs\<lparr>la_Index := 1, la_MTU := 1500, la_TxQLen := 1000, la_Name := ''eth0'',
     la_HardwareAddr := Some [2, 0, 0, 0, 0, 1], la_NumTxQueues := 4\<rparr>)"

definition example_kernel :: kernel where
  "example_kernel = \<lparr>kn_devs = [Some example_nic], kn_up = {''eth0''}, kn_filters = (\<lambda>i. []), kn_host = [''eth0'' \<mapsto> None]\<rparr>"

definition no_netns :: "(kernel, unit) with_netns" where
  "no_netns p f h = (Some (NetnsErr ()), h)"

lemma example_links: "kernel_links example_kernel ''eth0'' = Some example_nic" "link_Index example_nic = 1"
  by (simp_all add: kernel_links_def example_kernel_def example_nic_def set_index_def)

lemma enable_one_nic:
  assumes d: "kn_devs h0 = [Some example_nic]" "kn_filters h0 = (\<lambda>i. [])"
  obtains h1 where "EnableIngressQos kernel_netlink kernel_shell no_netns '''' 4 ''eth0'' ''bwmifb0'' h0 = (None, h1)"
    and "kernel_filters h1 1 = {with_handle 1 (filter_sent (redirect_filter '''' 1 2))}"
proof -
  define h1 where "h1 = snd (CreateIfbDev kernel_netlink '''' 4 ''bwmifb0'' h0)"
  have c: "CreateIfbDev kernel_netlink '''' 4 ''bwmifb0'' h0 = (None, h1)"
    unfolding h1_def by (simp add: CreateIfbDev_def kernel_netlink_def kernel_links_def d example_nic_def ifb_attrs_def Let_def)
  have h1: "kn_devs h1 = [Some example_nic, Some (Ifb (ifb_attrs ''bwmifb0'' 4))]" "kn_host h1 ''bwmifb0'' = Some None"
    "kn_filters h1 = (\<lambda>i. [])"
    unfolding h1_def by (simp_all add: CreateIfbDev_def kernel_netlink_def kernel_links_def d example_nic_def ifb_attrs_def Let_def)
  define h2 where "h2 = snd (NicIngressFilterToIfb kernel_netlink '''' ''eth0'' ''bwmifb0'' h1)"
  have r: "NicIngressFilterToIfb kernel_netlink '''' ''eth0'' ''bwmifb0'' h1 = (None, h2)"
    unfolding h2_def by (simp add: NicIngressFilterToIfb_def kernel_netlink_def kernel_links_def h1 example_nic_def ifb_attrs_def Let_def)
  have h2: "kn_host h2 ''bwmifb0'' = Some None" "kn_filters h2 1 = [with_handle 1 (filter_sent (redirect_filter '''' 1 2))]"
    unfolding h2_def by (simp_all add: NicIngressFilterToIfb_def kernel_netlink_def kernel_links_def h1 example_nic_def ifb_attrs_def
        redirect_filter_def Let_def)
  define h3 where "h3 = snd (EnableDevQos kernel_shell no_netns ''bwmifb0'' [] IngressBpfSection h2)"
  have e: "EnableDevQos kernel_shell no_netns ''bwmifb0'' [] IngressBpfSection h2 = (None, h3)"
    unfolding h3_def by (simp add: EnableDevQos_def doCmd_def enable_cmds_def kernel_shell_def host_shell_def h2 EdtBpfProgPath_def IngressBpfSection_def Let_def)
  have "EnableIngressQos kernel_netlink kernel_shell no_netns '''' 4 ''eth0'' ''bwmifb0'' h0 = (None, h3)"
    by (simp add: EnableIngressQos_def c r e)
  moreover have "kernel_filters h3 1 = {with_handle 1 (filter_sent (redirect_filter '''' 1 2))}"
    using kn.enable_frame [OF e] h2(2) by (auto simp: kernel_filters_def redirect_filter_def Let_def)
  ultimately show ?thesis by (rule that)
qed

lemma example_enable:
  obtains h1 where "EnableIngressQos kernel_netlink kernel_shell no_netns '''' 4 ''eth0'' ''bwmifb0'' example_kernel = (None, h1)"
    and "kernel_filters h1 1 = {with_handle 1 (filter_sent (redirect_filter '''' 1 2))}"
proof (rule enable_one_nic [of example_kernel])
qed (simp_all add: example_kernel_def that)


theorem DisableIngressQos_leaves_redirect_witness:
  "\<exists>h1 h2. EnableIngressQos kernel_netlink kernel_shell no_netns '''' 4 ''eth0'' ''bwmifb0'' example_kernel = (None, h1)
     \<and> DisableIngressQos kernel_netlink kernel_shell no_netns ''eth0'' ''bwmifb0'' h1 = (None, h2)
     \<and> kernel_links h2 ''bwmifb0'' = None \<and> kernel_filters h2 1 \<noteq> {}"
proof -
  obtain h1 where e: "EnableIngressQos kernel_netlink kernel_shell no_netns '''' 4 ''eth0'' ''bwmifb0'' example_kernel = (None, h1)"
    and f: "kernel_filters h1 1 = {with_handle 1 (filter_sent (redirect_filter '''' 1 2))}" by (rule example_enable)
  have w: "cmd_word ''bwmifb0''" "''eth0'' \<noteq> ''bwmifb0''" "'''' \<noteq> ''DAHUA''" by (simp_all add: cmd_word_def)
  have t: "filter_Type f \<noteq> ''dhcmatchall''" if "f \<in> kernel_filters h1 (link_Index example_nic)" for f
    using that f unfolding example_links(2) by (simp add: redirect_filter_def Let_def)
  obtain lifb where l: "kernel_links h1 ''bwmifb0'' = Some lifb" "kernel_links h1 ''eth0'' = Some example_nic"
    using kn.enable_ingress [OF w(1) example_links(1) w(2) e] by auto
  have "\<exists>h2. DisableIngressQos kernel_netlink kernel_shell no_netns ''eth0'' ''bwmifb0'' h1 = (None, h2)"
  proof -
    obtain err h' where d: "DisableDevQos kernel_shell no_netns ''bwmifb0'' [] h1 = (err, h')" by fastforce
    note fr = kn.disable_frame [OF d]
    have k: "kernel_links h' ''eth0'' = Some example_nic" "kernel_links h' ''bwmifb0'' = Some lifb" using fr l by simp_all
    define fs where "fs = remdups (filter (\<lambda>f. fa_LinkIndex (filter_Attrs f) = 1) (kn_filters h' 1))"
    have "set fs = kernel_filters h' 1" by (auto simp: fs_def kernel_filters_def)
    then have "\<forall>f \<in> set fs. filter_Type f \<noteq> ''dhcmatchall''" using fr t unfolding example_links(2) by auto
    then have df: "del_filters kernel_netlink ''eth0'' fs h' = (None, h')" by (induction fs) auto
    have "DisableNicIngressFilterToIfb kernel_netlink ''eth0'' h' = (None, h')"
      using df by (simp add: DisableNicIngressFilterToIfb_def kn.by_name [OF k(1)]) (simp add: kernel_netlink_def example_links(2) fs_def)
    then show ?thesis
      by (simp add: DisableIngressQos_def d DestroyIfbDev_def kn.by_name [OF k(2)]) (simp add: kernel_netlink_def)
  qed
  then obtain h2 where d: "DisableIngressQos kernel_netlink kernel_shell no_netns ''eth0'' ''bwmifb0'' h1 = (None, h2)" by blast
  from DisableIngressQos_leaves_redirect [OF kn.net_kernel_axioms w(1) example_links(1) w(2,3) e t d] e d
  show ?thesis unfolding example_links(2) by blast
qed

end
