(* ===== verification/NlEncap.thy ===== *)
theory NlEncap
  imports NlTc Go_Net
begin

text \<open>
  Destinations and encapsulations of routes, the first part of
  \<open>pkg/github.com/vishvananda/netlink/route_linux.go\<close> with \<open>nl/mpls_linux.go\<close>, \<open>nl/seg6_linux.go\<close>,
  \<open>nl/seg6local_linux.go\<close> and \<open>nl/lwt_linux.go\<close>: MPLS label stacks, segment lists, local segment
  actions, eBPF programs and \<open>via\<close> addresses, each with its encoder and its decoder. The interfaces
  \<open>Destination\<close> and \<open>Encap\<close> are datatypes. A decoder that reads past the end of its input panics.
\<close>

datatype route_error =
    RParse int | LackOfBytes | InvalidMPLSDst | UnknownMPLSEncap u16 | UnknownSEG6 u16 | BadSegmentList nat
  | BpfParse int | BpfAttrType u16 | BpfRouteAttr | BpfUnknown u16 u16 | ViaTooSmall nat | ViaFamily int
  | NoSegment | InvalidNH4 | EmptyBpf | NothingGiven | NewDstFamily | SrcFamily | GwFamily

section \<open>MPLS\<close>

definition mpls_entry :: "int \<Rightarrow> bool \<Rightarrow> bytes" where
  "mpls_entry label final = be32 (word_of_int (if final then push_bit 12 label OR push_bit 8 1 else push_bit 12 label))"

fun EncodeMPLSStack :: "int list \<Rightarrow> bytes" where
  "EncodeMPLSStack [] = []"
| "EncodeMPLSStack (label # labels) = mpls_entry label (labels = []) @ EncodeMPLSStack labels"

fun mpls_labels :: "bytes \<Rightarrow> int list" where
  "mpls_labels (b0 # b1 # b2 # b3 # buf) =
     (let l = (ucast b3 OR push_bit 8 (ucast b2) OR push_bit 16 (ucast b1) OR push_bit 24 (ucast b0) :: u32)
      in uint (drop_bit 12 l) # (if drop_bit 8 l AND 1 > 0 then [] else mpls_labels buf))"
| "mpls_labels buf = []"

text \<open>A nil stack, \<open>None\<close>, is the answer to a buffer that does not hold whole entries.\<close>

definition DecodeMPLSStack :: "bytes \<Rightarrow> int list option" where
  "DecodeMPLSStack buf = (if length buf mod 4 \<noteq> 0 then None else Some (mpls_labels buf))"

lemma length_EncodeMPLSStack [simp]: "length (EncodeMPLSStack ls) = 4 * length ls"
  by (induction ls) (auto simp: mpls_entry_def)

lemma mpls_labels_be32:
  "mpls_labels (be32 l @ buf) = uint (drop_bit 12 l) # (if drop_bit 8 l AND 1 > 0 then [] else mpls_labels buf)"
  by (simp add: be32_def le32_def word_bytes32)

lemma mpls_word:
  fixes final :: bool
  assumes "0 \<le> label" and "label < 2 ^ 20"
  defines "l \<equiv> word_of_int (if final then push_bit 12 label OR push_bit 8 1 else push_bit 12 label) :: u32"
  shows "uint (drop_bit 12 l) = label" and "drop_bit 8 l AND 1 > 0 \<longleftrightarrow> final"
proof -
  have tb: "take_bit 20 label = label" using assms(1,2) by (simp add: take_bit_int_eq_self)
  have l: "l = push_bit 12 (word_of_int label) OR (if final then push_bit 8 1 else 0)"
    unfolding l_def by (rule bit_word_eqI) (auto simp: bit_simps bit_word_of_int_iff)
  have b: "n < 20" if "bit label n" for n using tb that by (metis bit_take_bit_iff)
  have k: "bit (256::int) m \<longleftrightarrow> m = 8" "bit (256::nat) m \<longleftrightarrow> m = 8" for m
    using bit_exp_iff [where 'a = int, of 8 m] bit_exp_iff [where 'a = nat, of 8 m] by auto
  have d: "drop_bit 12 l = word_of_int label"
    unfolding l by (rule bit_word_eqI) (auto simp: bit_simps bit_word_of_int_iff k dest: b)
  show "uint (drop_bit 12 l) = label"
    unfolding d using assms(1,2) by (simp add: uint_word_of_int take_bit_int_eq_self)
  have "drop_bit 8 l AND 1 = (if final then 1 else 0)"
    unfolding l by (rule bit_word_eqI) (auto simp: bit_simps bit_word_of_int_iff k)
  then show "drop_bit 8 l AND 1 > 0 \<longleftrightarrow> final" by simp
qed

text \<open>A label stack of 20-bit labels comes back as it was.\<close>

lemma MPLSStack_roundtrip:
  assumes "\<And>l. l \<in> set labels \<Longrightarrow> 0 \<le> l \<and> l < 2 ^ 20"
  shows "DecodeMPLSStack (EncodeMPLSStack labels) = Some labels"
proof -
  have "mpls_labels (EncodeMPLSStack labels) = labels"
    using assms
  proof (induction labels)
    case (Cons l ls)
    then show ?case
      using mpls_word [of l "ls = []"] by (auto simp: mpls_entry_def mpls_labels_be32)
  qed simp
  then show ?thesis by (simp add: DecodeMPLSStack_def)
qed

section \<open>Destinations\<close>

datatype destination = MPLSDestination "int list option" | Via int net_ip

fun dst_Family :: "destination \<Rightarrow> int" where
  "dst_Family (MPLSDestination ls) = FAMILY_MPLS"
| "dst_Family (Via f a) = f"

definition labels_of :: "int list option \<Rightarrow> int list" where
  "labels_of ls = (case ls of None \<Rightarrow> [] | Some l \<Rightarrow> l)"

fun dst_Encode :: "destination \<Rightarrow> bytes" where
  "dst_Encode (MPLSDestination ls) = EncodeMPLSStack (labels_of ls)"
| "dst_Encode (Via f a) = le16 (word_of_int f) @ ip_bytes a"

text \<open>Labels are compared one by one; a nil stack equals only a nil one.\<close>

fun dst_Equal :: "destination \<Rightarrow> destination \<Rightarrow> bool" where
  "dst_Equal (MPLSDestination d) (MPLSDestination x) = (d = x)"
| "dst_Equal (Via f a) (Via g b) = (f = g \<and> IP_Equal a b)"
| "dst_Equal _ _ = False"

definition Via_Decode :: "bytes \<Rightarrow> (route_error + destination) outcome" where
  "Via_Decode b =
     (if length b < 6 then Done (Inl (ViaTooSmall (length b)))
      else obind (value_u16 b) (\<lambda>f.
        let family = uint f in
        if family = FAMILY_V4 then Done (Inr (Via family (Some (take 4 (drop 2 b)))))
        else if family = FAMILY_V6
        then if length b < 18 then Done (Inl (ViaTooSmall (length b))) else Done (Inr (Via family (Some (drop 2 b))))
        else Done (Inl (ViaFamily family))))"

text \<open>The destination behind \<open>RTA_NEWDST\<close>: outside the MPLS family the variable is nil and the call on it panics.\<close>

definition NewDst_Decode :: "int \<Rightarrow> bytes \<Rightarrow> (route_error + destination) outcome" where
  "NewDst_Decode family v =
     (if family = FAMILY_MPLS then Done (Inr (MPLSDestination (DecodeMPLSStack v))) else Panic NilDereference)"

section \<open>Encapsulations\<close>

record SEG6LocalEncap =
  sl_Flags :: "bool list"
  sl_Action :: int
  sl_Segments :: "bytes list"
  sl_Table :: int
  sl_InAddr :: net_ip
  sl_In6Addr :: net_ip
  sl_Iif :: int
  sl_Oif :: int

record bpfObj =
  progFd :: int
  progName :: string

datatype encap = MPLSEncap "int list option" | SEG6Encap int "bytes list" | SEG6Local SEG6LocalEncap | BpfEncap "bpfObj list" int

definition LWTUNNEL_ENCAP_MPLS :: int where "LWTUNNEL_ENCAP_MPLS = 1"
definition LWTUNNEL_ENCAP_SEG6 :: int where "LWTUNNEL_ENCAP_SEG6 = 5"
definition LWTUNNEL_ENCAP_BPF :: int where "LWTUNNEL_ENCAP_BPF = 6"
definition LWTUNNEL_ENCAP_SEG6_LOCAL :: int where "LWTUNNEL_ENCAP_SEG6_LOCAL = 7"

lemmas lwtunnel = LWTUNNEL_ENCAP_MPLS_def LWTUNNEL_ENCAP_SEG6_def LWTUNNEL_ENCAP_BPF_def LWTUNNEL_ENCAP_SEG6_LOCAL_def

fun encap_Type :: "encap \<Rightarrow> int" where
  "encap_Type (MPLSEncap ls) = LWTUNNEL_ENCAP_MPLS"
| "encap_Type (SEG6Encap m ss) = LWTUNNEL_ENCAP_SEG6"
| "encap_Type (SEG6Local s) = LWTUNNEL_ENCAP_SEG6_LOCAL"
| "encap_Type (BpfEncap ps h) = LWTUNNEL_ENCAP_BPF"

text \<open>The common start of the MPLS and SEG6 decoders: one attribute, cut at its length, of one type.\<close>

definition single_attr :: "u16 \<Rightarrow> (u16 \<Rightarrow> route_error) \<Rightarrow> bytes \<Rightarrow> (route_error + bytes) outcome" where
  "single_attr expected unknown buf =
     (if length buf < 4 then Done (Inl LackOfBytes)
      else obind (getle16 buf) (\<lambda>l.
        if length buf < unat l then Done (Inl LackOfBytes)
        else let buf = take (unat l) buf in
          if length buf < 2 then Panic SliceBounds
          else obind (getle16 (drop 2 buf)) (\<lambda>typ.
            if typ \<noteq> expected then Done (Inl (unknown typ)) else Done (Inr (drop 4 buf)))))"

definition MPLSEncap_Decode :: "bytes \<Rightarrow> (route_error + encap) outcome" where
  "MPLSEncap_Decode buf = rbind (single_attr 1 UnknownMPLSEncap buf) (\<lambda>b. Done (Inr (MPLSEncap (DecodeMPLSStack b))))"

definition attr_header :: "bytes \<Rightarrow> u16 \<Rightarrow> bytes" where
  "attr_header s typ = le16 (of_nat (length s + 4)) @ le16 typ @ s"

definition MPLSEncap_Encode :: "int list option \<Rightarrow> bytes" where
  "MPLSEncap_Encode ls = attr_header (EncodeMPLSStack (labels_of ls)) 1"

subsection \<open>Segment lists\<close>

function chunks16 :: "bytes \<Rightarrow> bytes list" where
  "chunks16 buf = (if buf = [] then [] else take 16 buf # chunks16 (drop 16 buf))"
  by pat_completeness auto
termination by (relation "measure length") auto

declare chunks16.simps [simp del]

lemma chunks16_concat: "(\<And>s. s \<in> set ss \<Longrightarrow> length s = 16) \<Longrightarrow> chunks16 (concat ss) = ss"
proof (induction ss)
  case Nil
  then show ?case by (simp add: chunks16.simps)
next
  case (Cons s ss)
  have s: "length s = 16" using Cons.prems by simp
  then have "concat (s # ss) \<noteq> []" by auto
  have "chunks16 (concat ss) = ss" using Cons by simp
  with s \<open>concat (s # ss) \<noteq> []\<close> show ?case by (subst chunks16.simps) simp
qed

text \<open>A segment routing header after \<open>n\<close> bytes: eight bytes that are read, then the segments.\<close>

definition segments_after :: "nat \<Rightarrow> bytes \<Rightarrow> (route_error + bytes list) outcome" where
  "segments_after n buf =
     (if length buf < n + 6 then Panic IndexOutOfRange
      else if length buf < n + 8 then Panic SliceBounds
      else let buf = drop (n + 8) buf in
        if length buf mod 16 \<noteq> 0 then Done (Inl (BadSegmentList (length buf))) else Done (Inr (chunks16 buf)))"

definition DecodeSEG6Encap :: "bytes \<Rightarrow> (route_error + int \<times> bytes list) outcome" where
  "DecodeSEG6Encap buf =
     obind (getle32 buf) (\<lambda>mode. rbind (segments_after 4 buf) (\<lambda>ss. Done (Inr (uint mode, ss))))"

definition DecodeSEG6Srh :: "bytes \<Rightarrow> (route_error + bytes list) outcome" where
  "DecodeSEG6Srh buf = segments_after 0 buf"

definition srh_bytes :: "bytes list \<Rightarrow> bytes" where
  "srh_bytes segments =
     (let nsegs = length segments
      in [0, of_nat (16 * nsegs div 8), 4, of_nat (nsegs - 1), of_nat (nsegs - 1), 0] @ le16 0 @ concat segments)"

definition EncodeSEG6Encap :: "int \<Rightarrow> bytes list \<Rightarrow> route_error + bytes" where
  "EncodeSEG6Encap mode segments =
     (if segments = [] then Inl NoSegment else Inr (le32 (word_of_int mode) @ srh_bytes segments))"

definition EncodeSEG6Srh :: "bytes list \<Rightarrow> route_error + bytes" where
  "EncodeSEG6Srh segments = (if segments = [] then Inl NoSegment else Inr (srh_bytes segments))"

definition SEG6Encap_Decode :: "bytes \<Rightarrow> (route_error + encap) outcome" where
  "SEG6Encap_Decode buf =
     rbind (single_attr 1 UnknownSEG6 buf) (\<lambda>b. rbind (DecodeSEG6Encap b) (\<lambda>(mode, ss). Done (Inr (SEG6Encap mode ss))))"

definition SEG6Encap_Encode :: "int \<Rightarrow> bytes list \<Rightarrow> route_error + bytes" where
  "SEG6Encap_Encode mode segments = ebind (EncodeSEG6Encap mode segments) (\<lambda>s. Inr (attr_header s 1))"

lemma length_srh_bytes: "length (srh_bytes ss) = 8 + length (concat ss)"
  by (simp add: srh_bytes_def Let_def)

lemma segments_after_srh:
  assumes "\<And>s. s \<in> set ss \<Longrightarrow> length s = 16"
  shows "segments_after (length pre) (pre @ srh_bytes ss) = Done (Inr ss)"
proof -
  have l: "length (concat ss) = 16 * length ss" using assms by (induction ss) auto
  have d: "drop 8 (srh_bytes ss) = concat ss" by (simp add: srh_bytes_def Let_def le16_def)
  show ?thesis using l by (simp add: segments_after_def length_srh_bytes d chunks16_concat [OF assms])
qed

lemma single_attr_header:
  assumes "length s < 2 ^ 16 - 4"
  shows "single_attr t u (attr_header s t) = Done (Inr s)"
proof -
  have l: "unat (of_nat (length s + 4) :: u16) = length s + 4" using assms by (intro unat_of_nat16) simp
  have "getle16 (attr_header s t) = Done (of_nat (length s + 4))" by (simp add: attr_header_def)
  moreover have "length (attr_header s t) = length s + 4" by (simp add: attr_header_def)
  moreover have "getle16 (drop 2 (attr_header s t)) = Done t" "drop 4 (attr_header s t) = s"
    by (simp_all add: attr_header_def le16_def word_bytes16)
  ultimately show ?thesis using l by (simp add: single_attr_def)
qed

text \<open>A segment list of up to 4000 addresses comes back with its mode.\<close>

lemma SEG6Encap_roundtrip:
  assumes "ss \<noteq> []" and "length ss \<le> 4000" and "\<And>s. s \<in> set ss \<Longrightarrow> length s = 16" and "0 \<le> mode" and "mode < 2 ^ 32"
  shows "\<exists>b. SEG6Encap_Encode mode ss = Inr b \<and> SEG6Encap_Decode b = Done (Inr (SEG6Encap mode ss))"
proof -
  let ?s = "le32 (word_of_int mode) @ srh_bytes ss"
  have "length (concat ss) = 16 * length ss" using assms(3) by (induction ss) auto
  then have "length ?s < 2 ^ 16 - 4" using assms(2) by (simp add: length_srh_bytes)
  from single_attr_header [OF this] have "single_attr 1 UnknownSEG6 (attr_header ?s 1) = Done (Inr ?s)" .
  moreover have "DecodeSEG6Encap ?s = Done (Inr (mode, ss))"
    using segments_after_srh [of ss "le32 (word_of_int mode)"] assms(3) assms(4,5)
    by (simp add: DecodeSEG6Encap_def uint_word_of_int take_bit_int_eq_self)
  ultimately show ?thesis using assms(1) by (simp add: SEG6Encap_Encode_def EncodeSEG6Encap_def SEG6Encap_Decode_def)
qed

subsection \<open>Local segment actions\<close>

definition zeroSEG6Local :: SEG6LocalEncap where
  "zeroSEG6Local = \<lparr>sl_Flags = replicate 8 False, sl_Action = 0, sl_Segments = [], sl_Table = 0, sl_InAddr = None, sl_In6Addr = None,
     sl_Iif = 0, sl_Oif = 0\<rparr>"

definition sl_set :: "nat \<Rightarrow> SEG6LocalEncap \<Rightarrow> SEG6LocalEncap" where
  "sl_set i e = e\<lparr>sl_Flags := (sl_Flags e)[i := True]\<rparr>"

text \<open>The error of a segment list does not end the loop; a later list overwrites it.\<close>

definition seg6local_attr :: "NetlinkRouteAttr \<Rightarrow> SEG6LocalEncap \<times> route_error option \<Rightarrow> (SEG6LocalEncap \<times> route_error option) outcome" where
  "seg6local_attr attr s =
     (let (e, err) = s; v = ra_Value attr; t = ra_Type attr in
      if t = 1 then obind (value_u32 v) (\<lambda>x. Done (sl_set 1 (e\<lparr>sl_Action := uint x\<rparr>), err))
      else if t = 2
      then obind (DecodeSEG6Srh v) (\<lambda>r. case r of
               Inl x \<Rightarrow> Done (sl_set 2 (e\<lparr>sl_Segments := []\<rparr>), Some x)
             | Inr ss \<Rightarrow> Done (sl_set 2 (e\<lparr>sl_Segments := ss\<rparr>), None))
      else if t = 3 then obind (value_u32 v) (\<lambda>x. Done (sl_set 3 (e\<lparr>sl_Table := uint x\<rparr>), err))
      else if t = 4 then (if length v < 4 then Panic SliceBounds else Done (sl_set 4 (e\<lparr>sl_InAddr := Some (take 4 v)\<rparr>), err))
      else if t = 5 then (if length v < 16 then Panic SliceBounds else Done (sl_set 5 (e\<lparr>sl_In6Addr := Some (take 16 v)\<rparr>), err))
      else if t = 6 then obind (value_u32 v) (\<lambda>x. Done (sl_set 6 (e\<lparr>sl_Iif := uint x\<rparr>), err))
      else if t = 7 then obind (value_u32 v) (\<lambda>x. Done (sl_set 7 (e\<lparr>sl_Oif := uint x\<rparr>), err))
      else Done s)"

definition SEG6Local_Decode :: "bytes \<Rightarrow> (route_error + encap) outcome" where
  "SEG6Local_Decode buf =
     obind (ParseRouteAttr buf) (\<lambda>r. case r of
         Inl e \<Rightarrow> Done (Inl (RParse e))
       | Inr attrs \<Rightarrow>
           obind (each_attr seg6local_attr attrs (zeroSEG6Local, None)) (\<lambda>(e, err).
             case err of None \<Rightarrow> Done (Inr (SEG6Local e)) | Some x \<Rightarrow> Done (Inl x)))"

definition seg6_word :: "u16 \<Rightarrow> int \<Rightarrow> bytes" where
  "seg6_word t x = le16 8 @ le16 t @ le32 (word_of_int x)"

definition SEG6Local_Encode :: "SEG6LocalEncap \<Rightarrow> route_error + bytes" where
  "SEG6Local_Encode e =
     ebind (if sl_Flags e ! 2 then ebind (EncodeSEG6Srh (sl_Segments e)) (\<lambda>srh. Inr (attr_header srh 2)) else Inr []) (\<lambda>srh.
     ebind (if sl_Flags e ! 4 then (case To4 (ip_bytes (sl_InAddr e)) of None \<Rightarrow> Inl InvalidNH4 | Some ip \<Rightarrow> Inr (le16 8 @ le16 4 @ ip)) else Inr []) (\<lambda>nh4.
       Inr (seg6_word 1 (sl_Action e) @ srh @ (if sl_Flags e ! 3 then seg6_word 3 (sl_Table e) else []) @ nh4
         @ (if sl_Flags e ! 5 then le16 20 @ le16 5 @ ip_bytes (sl_In6Addr e) else [])
         @ (if sl_Flags e ! 6 then seg6_word 6 (sl_Iif e) else []) @ (if sl_Flags e ! 7 then seg6_word 7 (sl_Oif e) else []))))"

subsection \<open>Programs\<close>

definition zeroBpfObj :: bpfObj where "zeroBpfObj = \<lparr>progFd = 0, progName = []\<rparr>"

definition bpf_obj_attr :: "NetlinkRouteAttr \<Rightarrow> bpfObj \<Rightarrow> (route_error + bpfObj) outcome" where
  "bpf_obj_attr attr o1 =
     (if ra_Type attr = 1 then obind (getle32 (ra_Value attr)) (\<lambda>x. Done (Inr (o1\<lparr>progFd := uint x\<rparr>)))
      else if ra_Type attr = 2 then Done (Inr (o1\<lparr>progName := bytes_string (ra_Value attr)\<rparr>))
      else Done (Inl (BpfUnknown (ra_Type attr) (ra_Len attr))))"

text \<open>
  The array has four elements, for the types 0 to 3, but type 4 passes the check. The case for the
  headroom compares the type with 256, the largest headroom, so it is never taken.
\<close>

definition bpf_encap_attr :: "NetlinkRouteAttr \<Rightarrow> bpfObj list \<times> int \<Rightarrow> (route_error + bpfObj list \<times> int) outcome" where
  "bpf_encap_attr attr s =
     (let (progs, headroom) = s; t = ra_Type attr in
      if unat t < 1 then Done (Inr s)
      else if unat t > 4 then Done (Inl (BpfAttrType t))
      else if unat t = 256 then obind (getle32 (ra_Value attr)) (\<lambda>x. Done (Inr (progs, uint x)))
      else obind (ParseRouteAttr (ra_Value attr)) (\<lambda>r. case r of
          Inl e \<Rightarrow> Done (Inl BpfRouteAttr)
        | Inr parsedAttrs \<Rightarrow>
            rbind (each_datum bpf_obj_attr parsedAttrs zeroBpfObj) (\<lambda>bpfO.
              if unat t < length progs then Done (Inr (progs[unat t := bpfO], headroom)) else Panic IndexOutOfRange)))"

definition BpfEncap_Decode :: "bytes \<Rightarrow> (route_error + encap) outcome" where
  "BpfEncap_Decode buf =
     (if length buf < 4 then Done (Inl LackOfBytes)
      else obind (ParseRouteAttr buf) (\<lambda>r. case r of
          Inl e \<Rightarrow> Done (Inl (BpfParse e))
        | Inr attrs \<Rightarrow> rbind (each_datum bpf_encap_attr attrs (replicate 4 zeroBpfObj, 0)) (\<lambda>(progs, headroom). Done (Inr (BpfEncap progs headroom)))))"

definition bpf_obj_data :: "nat \<Rightarrow> bpfObj \<Rightarrow> request_data" where
  "bpf_obj_data index attr =
     RtAttr (of_nat index) [] ((if progFd attr \<noteq> 0 then [NewRtAttr 1 (Uint32Attr (word_of_int (progFd attr)))] else [])
       @ (if progName attr \<noteq> [] then [NewRtAttr 2 (ZeroTerminated (progName attr))] else []))"

fun bpf_objs_bytes :: "nat \<Rightarrow> bpfObj list \<Rightarrow> bytes outcome" where
  "bpf_objs_bytes index [] = Done []"
| "bpf_objs_bytes index (attr # attrs) =
     obind (if attr_Len (bpf_obj_data index attr) > 4 then attr_Serialize (bpf_obj_data index attr) else Done []) (\<lambda>b.
       obind (bpf_objs_bytes (index + 1) attrs) (\<lambda>bs. Done (b @ bs)))"

definition BpfEncap_Encode :: "bpfObj list \<Rightarrow> int \<Rightarrow> (route_error + bytes) outcome" where
  "BpfEncap_Encode progs headroom =
     obind (bpf_objs_bytes 0 progs) (\<lambda>buf.
       if length buf \<le> 4 then Done (Inl EmptyBpf)
       else if headroom > 0 then obind (attr_Serialize (NewRtAttr 4 (Uint32Attr (word_of_int headroom)))) (\<lambda>hRoom. Done (Inr (buf @ hRoom)))
       else Done (Inr buf))"

definition SetProg :: "int \<Rightarrow> int \<Rightarrow> string \<Rightarrow> bpfObj list \<Rightarrow> bool \<times> bpfObj list" where
  "SetProg mode fd name progs =
     (if fd \<le> 0 then (False, progs)
      else if mode \<le> 0 \<or> mode \<ge> 4 then (False, progs)
      else (True, progs[nat mode := \<lparr>progFd = fd, progName = name @ ''[fd:'' @ Itoa fd @ '']''\<rparr>]))"

definition SetXmitHeadroom :: "int \<Rightarrow> int \<Rightarrow> bool \<times> int" where
  "SetXmitHeadroom room headroom = (if room > 256 \<or> room < 0 then (False, headroom) else (True, room))"

subsection \<open>The interface\<close>

fun encap_Encode :: "encap \<Rightarrow> (route_error + bytes) outcome" where
  "encap_Encode (MPLSEncap ls) = Done (Inr (MPLSEncap_Encode ls))"
| "encap_Encode (SEG6Encap m ss) = Done (SEG6Encap_Encode m ss)"
| "encap_Encode (SEG6Local e) = Done (SEG6Local_Encode e)"
| "encap_Encode (BpfEncap ps h) = BpfEncap_Encode ps h"

text \<open>The decoder by type number; other types leave the encapsulation nil.\<close>

definition encap_Decode :: "int \<Rightarrow> bytes \<Rightarrow> (route_error + encap option) outcome" where
  "encap_Decode typ v =
     (if typ = LWTUNNEL_ENCAP_MPLS then rbind (MPLSEncap_Decode v) (\<lambda>e. Done (Inr (Some e)))
      else if typ = LWTUNNEL_ENCAP_SEG6 then rbind (SEG6Encap_Decode v) (\<lambda>e. Done (Inr (Some e)))
      else if typ = LWTUNNEL_ENCAP_SEG6_LOCAL then rbind (SEG6Local_Decode v) (\<lambda>e. Done (Inr (Some e)))
      else if typ = LWTUNNEL_ENCAP_BPF then rbind (BpfEncap_Decode v) (\<lambda>e. Done (Inr (Some e)))
      else Done (Inr None))"

lemma MPLSEncap_roundtrip:
  assumes "length ls \<le> 16000" and "\<And>l. l \<in> set ls \<Longrightarrow> 0 \<le> l \<and> l < 2 ^ 20"
  shows "MPLSEncap_Decode (MPLSEncap_Encode (Some ls)) = Done (Inr (MPLSEncap (Some ls)))"
proof -
  have "length (EncodeMPLSStack ls) < 2 ^ 16 - 4" using assms(1) by simp
  from single_attr_header [OF this] show ?thesis
    using MPLSStack_roundtrip [OF assms(2)] by (simp add: MPLSEncap_Decode_def MPLSEncap_Encode_def labels_of_def)
qed

text \<open>
  An encapsulation with programs cannot be read back once a headroom is set: the decoder takes the
  four bytes of the headroom for the attributes of a program.
\<close>

lemma headroom_value:
  assumes "0 < h" and "h \<le> 256"
  shows "bpf_encap_attr \<lparr>ra_Len = 8, ra_Type = 4, ra_Value = le32 (word_of_int h)\<rparr> s
    = Done (Inl (if h = 4 then BpfUnknown 0 4 else BpfRouteAttr))"
proof -
  let ?w = "word_of_int h :: u32"
  have le: "le32 v = le16 (ucast v) @ le16 (ucast (drop_bit 16 v))" for v
    by (simp add: le32_def le16_def) (auto intro!: bit_word_eqI simp: bit_simps)
  have lo: "ucast ?w = (of_nat (nat h) :: u16)" using assms by (simp add: unsigned_of_int take_bit_int_eq_self)
  have "uint (drop_bit 16 ?w) = 0"
    using assms by (simp add: drop_bit_eq_div uint_div_distrib uint_word_of_int take_bit_int_eq_self)
  then have hi: "ucast (drop_bit 16 ?w) = (0 :: u16)" by (metis unsigned_0 uint_0_iff)
  have u: "unat (of_nat (nat h) :: u16) = nat h" using assms by (intro unat_of_nat16) simp
  have "ParseRouteAttr (le32 ?w) = Done (if h = 4 then Inr [\<lparr>ra_Len = 4, ra_Type = 0, ra_Value = []\<rparr>] else Inl EINVAL)"
  proof (cases "h = 4")
    case True
    then show ?thesis
      using u parse_one [of "of_nat (nat h)" 0 "[]" "[]" 0] by (simp add: ParseRouteAttr_def le lo hi ParseRouteAttr_loop.simps [of _ "[]"])
  next
    case False
    then have "netlinkRouteAttrAndValue (le16 (of_nat (nat h)) @ le16 0) = Inl EINVAL"
      using assms u header_read [of "of_nat (nat h)" 0 "[]"] by auto
    with False show ?thesis by (subst ParseRouteAttr_def, subst ParseRouteAttr_loop.simps) (simp add: le lo hi)
  qed
  then show ?thesis by (simp add: bpf_encap_attr_def Let_def bpf_obj_attr_def split: prod.splits)
qed

end
