(* ===== verification/NlRoute.thy ===== *)
theory NlRoute
  imports NlEncap NlHandle
begin

text \<open>
  Routes, \<open>pkg/github.com/vishvananda/netlink/route_linux.go\<close> with \<open>route.go\<close> and
  \<open>nl/route_linux.go\<close>: the message of a route, its decoder \<open>deserializeRoute\<close>, the listing
  \<open>RouteListFiltered\<close> that the alg-daemon uses to find the default route, and the encoder behind
  \<open>RouteAdd\<close>, \<open>RouteReplace\<close> and \<open>RouteDel\<close>. Go's \<open>int\<close> is \<open>int\<close>; conversions to narrower types wrap.
\<close>

section \<open>Messages\<close>

record RtMsg =
  rm_Family :: u8
  rm_Dst_len :: u8
  rm_Src_len :: u8
  rm_Tos :: u8
  rm_Table :: u8
  rm_Protocol :: u8
  rm_Scope :: u8
  rm_Type :: u8
  rm_Flags :: u32

definition SizeofRtMsg :: nat where [tc_sizes]: "SizeofRtMsg = 12"

definition RtMsg_Serialize :: "RtMsg \<Rightarrow> bytes" where [tc_enc]:
  "RtMsg_Serialize x =
     le8 (rm_Family x) @ le8 (rm_Dst_len x) @ le8 (rm_Src_len x) @ le8 (rm_Tos x) @ le8 (rm_Table x) @
     le8 (rm_Protocol x) @ le8 (rm_Scope x) @ le8 (rm_Type x) @ le32 (rm_Flags x)"

definition RtMsg_at :: "nat \<Rightarrow> bytes \<Rightarrow> RtMsg" where [tc_dec]:
  "RtMsg_at n b =
     \<lparr>rm_Family = ru8 n b, rm_Dst_len = ru8 (n + 1) b, rm_Src_len = ru8 (n + 2) b, rm_Tos = ru8 (n + 3) b,
      rm_Table = ru8 (n + 4) b, rm_Protocol = ru8 (n + 5) b, rm_Scope = ru8 (n + 6) b, rm_Type = ru8 (n + 7) b,
      rm_Flags = ru32 (n + 8) b\<rparr>"

definition DeserializeRtMsg :: "bytes \<Rightarrow> RtMsg outcome" where
  "DeserializeRtMsg b = (if length b < SizeofRtMsg then Panic SliceBounds else Done (RtMsg_at 0 b))"

interpretation rm_codec: tc_codec "\<lambda>x. True" SizeofRtMsg RtMsg_Serialize DeserializeRtMsg
  by unfold_locales (auto simp: DeserializeRtMsg_def RtMsg_at_def RtMsg_Serialize_def tc_sizes tc_read split: if_splits)

definition NewRtMsg :: RtMsg where
  "NewRtMsg = \<lparr>rm_Family = 0, rm_Dst_len = 0, rm_Src_len = 0, rm_Tos = 0, rm_Table = 254, rm_Protocol = 3, rm_Scope = 0,
     rm_Type = 1, rm_Flags = 0\<rparr>"

definition NewRtDelMsg :: RtMsg where
  "NewRtDelMsg = \<lparr>rm_Family = 0, rm_Dst_len = 0, rm_Src_len = 0, rm_Tos = 0, rm_Table = 254, rm_Protocol = 0, rm_Scope = 255,
     rm_Type = 0, rm_Flags = 0\<rparr>"

record RtNexthop =
  rn_Len :: u16
  rn_Flags :: u8
  rn_Hops :: u8
  rn_Ifindex :: u32

definition SizeofRtNexthop :: nat where [tc_sizes]: "SizeofRtNexthop = 8"

definition RtNexthop_bytes :: "RtNexthop \<Rightarrow> bytes" where [tc_enc]:
  "RtNexthop_bytes x = le16 (rn_Len x) @ le8 (rn_Flags x) @ le8 (rn_Hops x) @ le32 (rn_Ifindex x)"

definition RtNexthop_at :: "nat \<Rightarrow> bytes \<Rightarrow> RtNexthop" where [tc_dec]:
  "RtNexthop_at n b = \<lparr>rn_Len = ru16 n b, rn_Flags = ru8 (n + 2) b, rn_Hops = ru8 (n + 3) b, rn_Ifindex = ru32 (n + 4) b\<rparr>"

definition DeserializeRtNexthop :: "bytes \<Rightarrow> RtNexthop outcome" where
  "DeserializeRtNexthop b = (if length b < SizeofRtNexthop then Panic SliceBounds else Done (RtNexthop_at 0 b))"

interpretation rn_codec: tc_codec "\<lambda>x. True" SizeofRtNexthop RtNexthop_bytes DeserializeRtNexthop
  by unfold_locales (auto simp: DeserializeRtNexthop_def RtNexthop_at_def RtNexthop_bytes_def tc_sizes tc_read split: if_splits)

definition RtNexthop_Len :: "request_data list \<Rightarrow> nat" where
  "RtNexthop_Len cs =
     (if cs = [] then SizeofRtNexthop else rtaAlignOf (sum_list (map (\<lambda>c. rtaAlignOf (attr_Len c)) cs) + SizeofRtNexthop))"

definition RtNexthop_Serialize :: "RtNexthop \<Rightarrow> request_data list \<Rightarrow> bytes outcome" where
  "RtNexthop_Serialize nh cs =
     (let len = RtNexthop_Len cs; nh = nh\<lparr>rn_Len := of_nat len\<rparr>
      in obind (copy_at 0 (RtNexthop_bytes nh) (replicate len 0)) (\<lambda>buf. serialize_children (rtaAlignOf SizeofRtNexthop) cs buf))"

section \<open>Routes\<close>

record NexthopInfo =
  nh_LinkIndex :: int
  nh_Hops :: int
  nh_Gw :: net_ip
  nh_Flags :: int
  nh_NewDst :: "destination option"
  nh_Encap :: "encap option"
  nh_Via :: "destination option"

record Route =
  rt_LinkIndex :: int
  rt_ILinkIndex :: int
  rt_Scope :: u8
  rt_Dst :: "IPNet option"
  rt_Src :: net_ip
  rt_Gw :: net_ip
  rt_MultiPath :: "NexthopInfo list"
  rt_Protocol :: int
  rt_Priority :: int
  rt_Family :: int
  rt_Table :: int
  rt_Type :: int
  rt_Tos :: int
  rt_Flags :: int
  rt_MPLSDst :: "int option"
  rt_NewDst :: "destination option"
  rt_Encap :: "encap option"
  rt_Via :: "destination option"
  rt_Realm :: int
  rt_MTU :: int
  rt_Window :: int
  rt_Rtt :: int
  rt_RttVar :: int
  rt_Ssthresh :: int
  rt_Cwnd :: int
  rt_AdvMSS :: int
  rt_Reordering :: int
  rt_Hoplimit :: int
  rt_InitCwnd :: int
  rt_Features :: int
  rt_RtoMin :: int
  rt_InitRwnd :: int
  rt_QuickACK :: int
  rt_Congctl :: string
  rt_FastOpenNoCookie :: int

definition zeroRoute :: Route where
  "zeroRoute = \<lparr>rt_LinkIndex = 0, rt_ILinkIndex = 0, rt_Scope = 0, rt_Dst = None, rt_Src = None, rt_Gw = None, rt_MultiPath = [],
     rt_Protocol = 0, rt_Priority = 0, rt_Family = 0, rt_Table = 0, rt_Type = 0, rt_Tos = 0, rt_Flags = 0, rt_MPLSDst = None,
     rt_NewDst = None, rt_Encap = None, rt_Via = None, rt_Realm = 0, rt_MTU = 0, rt_Window = 0, rt_Rtt = 0, rt_RttVar = 0,
     rt_Ssthresh = 0, rt_Cwnd = 0, rt_AdvMSS = 0, rt_Reordering = 0, rt_Hoplimit = 0, rt_InitCwnd = 0, rt_Features = 0,
     rt_RtoMin = 0, rt_InitRwnd = 0, rt_QuickACK = 0, rt_Congctl = [], rt_FastOpenNoCookie = 0\<rparr>"

section \<open>Decoding\<close>

text \<open>What the loop over attributes collects besides the route: the encapsulation and its type.\<close>

abbreviation u32_field :: "bytes \<Rightarrow> (int \<Rightarrow> 'r) \<Rightarrow> ('e + 'r) outcome" where
  "u32_field v g \<equiv> obind (value_u32 v) (\<lambda>x. Done (Inr (g (uint x))))"

definition metric_attr :: "NetlinkRouteAttr \<Rightarrow> Route \<Rightarrow> (route_error + Route) outcome" where
  "metric_attr metric r =
     (let v = ra_Value metric; t = ra_Type metric in
      if t = 2 then u32_field v (\<lambda>x. r\<lparr>rt_MTU := x\<rparr>)
      else if t = 3 then u32_field v (\<lambda>x. r\<lparr>rt_Window := x\<rparr>)
      else if t = 4 then u32_field v (\<lambda>x. r\<lparr>rt_Rtt := x\<rparr>)
      else if t = 5 then u32_field v (\<lambda>x. r\<lparr>rt_RttVar := x\<rparr>)
      else if t = 6 then u32_field v (\<lambda>x. r\<lparr>rt_Ssthresh := x\<rparr>)
      else if t = 7 then u32_field v (\<lambda>x. r\<lparr>rt_Cwnd := x\<rparr>)
      else if t = 8 then u32_field v (\<lambda>x. r\<lparr>rt_AdvMSS := x\<rparr>)
      else if t = 9 then u32_field v (\<lambda>x. r\<lparr>rt_Reordering := x\<rparr>)
      else if t = 10 then u32_field v (\<lambda>x. r\<lparr>rt_Hoplimit := x\<rparr>)
      else if t = 11 then u32_field v (\<lambda>x. r\<lparr>rt_InitCwnd := x\<rparr>)
      else if t = 12 then u32_field v (\<lambda>x. r\<lparr>rt_Features := x\<rparr>)
      else if t = 13 then u32_field v (\<lambda>x. r\<lparr>rt_RtoMin := x\<rparr>)
      else if t = 14 then u32_field v (\<lambda>x. r\<lparr>rt_InitRwnd := x\<rparr>)
      else if t = 15 then u32_field v (\<lambda>x. r\<lparr>rt_QuickACK := x\<rparr>)
      else if t = 16 then obind (BytesToString v) (\<lambda>x. Done (Inr (r\<lparr>rt_Congctl := x\<rparr>)))
      else if t = 17 then u32_field v (\<lambda>x. r\<lparr>rt_FastOpenNoCookie := x\<rparr>)
      else Done (Inr r))"

definition parse_attrs :: "bytes \<Rightarrow> (route_error + NetlinkRouteAttr list) outcome" where
  "parse_attrs b = obind (ParseRouteAttr b) (\<lambda>r. case r of Inl e \<Rightarrow> Done (Inl (RParse e)) | Inr as \<Rightarrow> Done (Inr as))"

subsection \<open>Next hops\<close>

definition nexthop_attr :: "int \<Rightarrow> NetlinkRouteAttr \<Rightarrow> NexthopInfo \<times> bytes \<times> bytes \<Rightarrow> (route_error + NexthopInfo \<times> bytes \<times> bytes) outcome" where
  "nexthop_attr family attr s =
     (let (info, encap, encapType) = s; v = ra_Value attr; t = ra_Type attr in
      if t = 5 then Done (Inr (info\<lparr>nh_Gw := Some v\<rparr>, encap, encapType))
      else if t = 19 then rbind (NewDst_Decode family v) (\<lambda>d. Done (Inr (info\<lparr>nh_NewDst := Some d\<rparr>, encap, encapType)))
      else if t = 21 then Done (Inr (info, encap, v))
      else if t = 22 then Done (Inr (info, v, encapType))
      else if t = 18 then rbind (Via_Decode v) (\<lambda>d. Done (Inr (info\<lparr>nh_Via := Some d\<rparr>, encap, encapType)))
      else Done (Inr s))"

text \<open>Of the encapsulations of a next hop only MPLS is decoded.\<close>

definition parseRtNexthop :: "int \<Rightarrow> bytes \<Rightarrow> (route_error + NexthopInfo \<times> bytes) outcome" where
  "parseRtNexthop family value =
     (if length value < SizeofRtNexthop then Done (Inl LackOfBytes)
      else obind (DeserializeRtNexthop value) (\<lambda>nh.
        if length value < unat (rn_Len nh) then Done (Inl LackOfBytes)
        else if unat (rn_Len nh) < SizeofRtNexthop then Panic SliceBounds
        else let info = \<lparr>nh_LinkIndex = sint (rn_Ifindex nh), nh_Hops = uint (rn_Hops nh), nh_Gw = None, nh_Flags = uint (rn_Flags nh),
                   nh_NewDst = None, nh_Encap = None, nh_Via = None\<rparr>
          in rbind (parse_attrs (drop SizeofRtNexthop (take (unat (rn_Len nh)) value))) (\<lambda>attrs.
             rbind (each_datum (nexthop_attr family) attrs (info, [], [])) (\<lambda>(info, encap, encapType).
             rbind (if encap \<noteq> [] \<and> encapType \<noteq> []
                    then obind (value_u16 encapType) (\<lambda>typ.
                      if uint typ = LWTUNNEL_ENCAP_MPLS then rbind (MPLSEncap_Decode encap) (\<lambda>e. Done (Inr (info\<lparr>nh_Encap := Some e\<rparr>)))
                      else Done (Inr (info\<lparr>nh_Encap := None\<rparr>)))
                    else Done (Inr info)) (\<lambda>info. Done (Inr (info, drop (unat (rn_Len nh)) value)))))))"

lemma parseRtNexthop_shorter: "parseRtNexthop family value = Done (Inr (info, rest)) \<Longrightarrow> length rest < length value"
  by (auto simp: parseRtNexthop_def SizeofRtNexthop_def Let_def split: if_splits)

text \<open>The loop ends because every next hop takes at least its header.\<close>

function multipath_loop :: "int \<Rightarrow> NexthopInfo list \<Rightarrow> bytes \<Rightarrow> (route_error + NexthopInfo list) outcome" where
  "multipath_loop family acc rest =
     (if rest = [] then Done (Inr acc)
      else case parseRtNexthop family rest of
          Done (Inr (info, buf)) \<Rightarrow> multipath_loop family (acc @ [info]) buf
        | Done (Inl e) \<Rightarrow> Done (Inl e)
        | Panic p \<Rightarrow> Panic p
        | Hang \<Rightarrow> Hang)"
  by pat_completeness auto
termination by (relation "measure (\<lambda>(family, acc, rest). length rest)") (auto dest: parseRtNexthop_shorter)

declare multipath_loop.simps [simp del]

subsection \<open>deserializeRoute\<close>

definition dst_attr :: "RtMsg \<Rightarrow> bytes \<Rightarrow> Route \<Rightarrow> route_error + Route" where
  "dst_attr msg v r =
     (if uint (rm_Family msg) = FAMILY_MPLS
      then case DecodeMPLSStack v of Some [l] \<Rightarrow> Inr (r\<lparr>rt_MPLSDst := Some l\<rparr>) | _ \<Rightarrow> Inl InvalidMPLSDst
      else Inr (r\<lparr>rt_Dst := Some \<lparr>ipn_IP = Some v, ipn_Mask = CIDRMask (uint (rm_Dst_len msg)) (8 * int (length v))\<rparr>\<rparr>))"

definition route_attr :: "RtMsg \<Rightarrow> NetlinkRouteAttr \<Rightarrow> Route \<times> bytes \<times> bytes \<Rightarrow> (route_error + Route \<times> bytes \<times> bytes) outcome" where
  "route_attr msg attr s =
     (let (r, encap, encapType) = s; v = ra_Value attr; t = ra_Type attr; keep = (\<lambda>r. (r, encap, encapType)) in
      if t = 5 then Done (Inr (keep (r\<lparr>rt_Gw := Some v\<rparr>)))
      else if t = 7 then Done (Inr (keep (r\<lparr>rt_Src := Some v\<rparr>)))
      else if t = 1 then Done (ebind (dst_attr msg v r) (\<lambda>r. Inr (keep r)))
      else if t = 4 then u32_field v (\<lambda>x. keep (r\<lparr>rt_LinkIndex := x\<rparr>))
      else if t = 3 then u32_field v (\<lambda>x. keep (r\<lparr>rt_ILinkIndex := x\<rparr>))
      else if t = 6 then u32_field v (\<lambda>x. keep (r\<lparr>rt_Priority := x\<rparr>))
      else if t = 11 then u32_field v (\<lambda>x. keep (r\<lparr>rt_Realm := x\<rparr>))
      else if t = 15 then u32_field v (\<lambda>x. keep (r\<lparr>rt_Table := x\<rparr>))
      else if t = 9 then rbind (multipath_loop (uint (rm_Family msg)) (rt_MultiPath r) v) (\<lambda>nhs. Done (Inr (keep (r\<lparr>rt_MultiPath := nhs\<rparr>))))
      else if t = 19 then rbind (NewDst_Decode (uint (rm_Family msg)) v) (\<lambda>d. Done (Inr (keep (r\<lparr>rt_NewDst := Some d\<rparr>))))
      else if t = 18 then rbind (Via_Decode v) (\<lambda>d. Done (Inr (keep (r\<lparr>rt_Via := Some d\<rparr>))))
      else if t = 21 then Done (Inr (r, encap, v))
      else if t = 22 then Done (Inr (r, v, encapType))
      else if t = 8 then rbind (parse_attrs v) (\<lambda>metrics. rbind (each_datum metric_attr metrics r) (\<lambda>r. Done (Inr (keep r))))
      else Done (Inr s))"

definition route_base :: "RtMsg \<Rightarrow> Route" where
  "route_base msg = zeroRoute\<lparr>rt_Scope := rm_Scope msg, rt_Protocol := uint (rm_Protocol msg), rt_Table := uint (rm_Table msg),
     rt_Type := uint (rm_Type msg), rt_Tos := uint (rm_Tos msg), rt_Flags := uint (rm_Flags msg), rt_Family := uint (rm_Family msg)\<rparr>"

definition deserializeRoute :: "bytes \<Rightarrow> (route_error + Route) outcome" where
  "deserializeRoute m =
     obind (DeserializeRtMsg m) (\<lambda>msg.
     rbind (parse_attrs (drop SizeofRtMsg m)) (\<lambda>attrs.
     rbind (each_datum (route_attr msg) attrs (route_base msg, [], [])) (\<lambda>(route, encap, encapType).
       if encap \<noteq> [] \<and> encapType \<noteq> []
       then obind (value_u16 encapType) (\<lambda>typ. rbind (encap_Decode (uint typ) encap) (\<lambda>e. Done (Inr (route\<lparr>rt_Encap := e\<rparr>))))
       else Done (Inr route))))"

section \<open>Listing\<close>

definition RT_FILTER_PROTOCOL :: u64 where "RT_FILTER_PROTOCOL = 0x2"
definition RT_FILTER_SCOPE :: u64 where "RT_FILTER_SCOPE = 0x4"
definition RT_FILTER_TYPE :: u64 where "RT_FILTER_TYPE = 0x8"
definition RT_FILTER_TOS :: u64 where "RT_FILTER_TOS = 0x10"
definition RT_FILTER_IIF :: u64 where "RT_FILTER_IIF = 0x20"
definition RT_FILTER_OIF :: u64 where "RT_FILTER_OIF = 0x40"
definition RT_FILTER_DST :: u64 where "RT_FILTER_DST = 0x80"
definition RT_FILTER_SRC :: u64 where "RT_FILTER_SRC = 0x100"
definition RT_FILTER_GW :: u64 where "RT_FILTER_GW = 0x200"
definition RT_FILTER_TABLE :: u64 where "RT_FILTER_TABLE = 0x400"
definition RT_FILTER_HOPLIMIT :: u64 where "RT_FILTER_HOPLIMIT = 0x800"
definition RT_FILTER_REALM :: u64 where "RT_FILTER_REALM = 0x8000"

lemmas rt_filters = RT_FILTER_PROTOCOL_def RT_FILTER_SCOPE_def RT_FILTER_TYPE_def RT_FILTER_TOS_def RT_FILTER_IIF_def
  RT_FILTER_OIF_def RT_FILTER_DST_def RT_FILTER_SRC_def RT_FILTER_GW_def RT_FILTER_TABLE_def RT_FILTER_HOPLIMIT_def
  RT_FILTER_REALM_def

text \<open>
  The switch over the filter mask: the first case that applies decides. The case of the destination
  applies whenever its bit is set, so the hop limit behind it is compared only without that bit.
\<close>

definition route_skipped :: "Route \<Rightarrow> u64 \<Rightarrow> Route \<Rightarrow> bool" where
  "route_skipped flt fmask route =
     (let on = (\<lambda>bit. fmask AND bit \<noteq> 0) in
      if on RT_FILTER_TABLE \<and> rt_Table flt \<noteq> 0 \<and> rt_Table route \<noteq> rt_Table flt then True
      else if on RT_FILTER_PROTOCOL \<and> rt_Protocol route \<noteq> rt_Protocol flt then True
      else if on RT_FILTER_SCOPE \<and> rt_Scope route \<noteq> rt_Scope flt then True
      else if on RT_FILTER_TYPE \<and> rt_Type route \<noteq> rt_Type flt then True
      else if on RT_FILTER_TOS \<and> rt_Tos route \<noteq> rt_Tos flt then True
      else if on RT_FILTER_REALM \<and> rt_Realm route \<noteq> rt_Realm flt then True
      else if on RT_FILTER_OIF \<and> rt_LinkIndex route \<noteq> rt_LinkIndex flt then True
      else if on RT_FILTER_IIF \<and> rt_ILinkIndex route \<noteq> rt_ILinkIndex flt then True
      else if on RT_FILTER_GW \<and> \<not> IP_Equal (rt_Gw route) (rt_Gw flt) then True
      else if on RT_FILTER_SRC \<and> \<not> IP_Equal (rt_Src route) (rt_Src flt) then True
      else if on RT_FILTER_DST
      then (rt_MPLSDst flt = None \<or> rt_MPLSDst route = None \<or> rt_MPLSDst flt \<noteq> rt_MPLSDst route)
           \<and> \<not> ipNetEqual (rt_Dst route) (rt_Dst flt)
      else if on RT_FILTER_HOPLIMIT \<and> rt_Hoplimit route \<noteq> rt_Hoplimit flt then True
      else False)"

text \<open>The messages that are not decoded: cloned routes, and other tables unless the filter asks for a table.\<close>

definition route_ignored :: "Route option \<Rightarrow> u64 \<Rightarrow> RtMsg \<Rightarrow> bool" where
  "route_ignored flt fmask msg \<longleftrightarrow>
     rm_Flags msg AND 0x200 \<noteq> 0
     \<or> rm_Table msg \<noteq> 254 \<and> (flt = None \<or> flt \<noteq> None \<and> fmask AND RT_FILTER_TABLE = 0)"

fun filter_routes :: "Route option \<Rightarrow> u64 \<Rightarrow> bytes list \<Rightarrow> (route_error + Route list) outcome" where
  "filter_routes flt fmask [] = Done (Inr [])"
| "filter_routes flt fmask (m # ms) =
     obind (DeserializeRtMsg m) (\<lambda>msg.
       if route_ignored flt fmask msg then filter_routes flt fmask ms
       else rbind (deserializeRoute m) (\<lambda>route.
         if (case flt of None \<Rightarrow> False | Some f \<Rightarrow> route_skipped f fmask route) then filter_routes flt fmask ms
         else rbind (filter_routes flt fmask ms) (\<lambda>routes. Done (Inr (route # routes)))))"

definition RTM_NEWROUTE :: int where "RTM_NEWROUTE = 24"
definition RTM_DELROUTE :: int where "RTM_DELROUTE = 25"
definition RTM_GETROUTE :: int where "RTM_GETROUTE = 26"

definition route_dump :: "int \<Rightarrow> request_data list" where
  "route_dump family = [StructData (RtMsg_Serialize (NewRtMsg\<lparr>rm_Family := word_of_int family\<rparr>))]"

definition nl_RouteListFiltered :: "nl_os \<Rightarrow> bool \<Rightarrow> Handle \<Rightarrow> int \<Rightarrow> Route option \<Rightarrow> u64 \<Rightarrow> nl_state
    \<Rightarrow> ((route_error call_error + Route list) \<times> nl_state) outcome" where
  "nl_RouteListFiltered os extack h family flt fmask st =
     list_request os extack h RTM_GETROUTE NLM_F_DUMP (word_of_int RTM_NEWROUTE) (route_dump family) (filter_routes flt fmask) st"

definition nl_RouteList :: "nl_os \<Rightarrow> bool \<Rightarrow> Handle \<Rightarrow> int option \<Rightarrow> int \<Rightarrow> nl_state
    \<Rightarrow> ((route_error call_error + Route list) \<times> nl_state) outcome" where
  "nl_RouteList os extack h linkIndex family st =
     nl_RouteListFiltered os extack h family (map_option (\<lambda>i. zeroRoute\<lparr>rt_LinkIndex := i\<rparr>) linkIndex) RT_FILTER_OIF st"

section \<open>Encoding\<close>

text \<open>An address of the route: its family has to be the one seen so far, unless there was none (\<open>-1\<close>).\<close>

definition address_attr :: "int \<Rightarrow> route_error \<Rightarrow> net_ip \<Rightarrow> int \<Rightarrow> route_error + int \<times> request_data list" where
  "address_attr t err ip family =
     (if ip = None then Inr (family, [])
      else if family \<noteq> - 1 \<and> family \<noteq> GetIPFamily ip then Inl err
      else Inr (GetIPFamily ip, [NewRtAttr t (family_bytes ip)]))"

definition newdst_attr :: "destination option \<Rightarrow> int \<Rightarrow> route_error + request_data list" where
  "newdst_attr d family =
     (case d of
        None \<Rightarrow> Inr []
      | Some d \<Rightarrow> if family \<noteq> - 1 \<and> family \<noteq> dst_Family d then Inl NewDstFamily else Inr [NewRtAttr 19 (dst_Encode d)])"

text \<open>The type and the encapsulation; the route itself marks that of a program as nested, a next hop does not.\<close>

definition encap_attrs :: "bool \<Rightarrow> encap option \<Rightarrow> (route_error + request_data list) outcome" where
  "encap_attrs in_route e =
     (case e of
        None \<Rightarrow> Done (Inr [])
      | Some e \<Rightarrow>
          rbind (encap_Encode e) (\<lambda>buf. Done (Inr
            [NewRtAttr 21 (le16 (word_of_int (encap_Type e))),
             NewRtAttr (if in_route \<and> encap_Type e = LWTUNNEL_ENCAP_BPF then 22 OR 0x8000 else 22) buf])))"

definition via_attr :: "destination option \<Rightarrow> request_data list" where
  "via_attr v = (case v of None \<Rightarrow> [] | Some d \<Rightarrow> [NewRtAttr 18 (dst_Encode d)])"

definition nexthop_bytes :: "int \<Rightarrow> NexthopInfo \<Rightarrow> (route_error + bytes) outcome" where
  "nexthop_bytes family nh =
     (let rtnh = \<lparr>rn_Len = 0, rn_Flags = word_of_int (nh_Flags nh), rn_Hops = word_of_int (nh_Hops nh), rn_Ifindex = word_of_int (nh_LinkIndex nh)\<rparr>
      in rbind (Done (address_attr 5 GwFamily (nh_Gw nh) family)) (\<lambda>(_, gw).
         rbind (Done (newdst_attr (nh_NewDst nh) family)) (\<lambda>newdst.
         rbind (encap_attrs False (nh_Encap nh)) (\<lambda>encap.
         obind (RtNexthop_Serialize rtnh (gw @ newdst @ encap @ via_attr (nh_Via nh))) (\<lambda>b. Done (Inr b))))))"

fun nexthops_bytes :: "int \<Rightarrow> NexthopInfo list \<Rightarrow> (route_error + bytes) outcome" where
  "nexthops_bytes family [] = Done (Inr [])"
| "nexthops_bytes family (nh # nhs) =
     rbind (nexthop_bytes family nh) (\<lambda>b. rbind (nexthops_bytes family nhs) (\<lambda>bs. Done (Inr (b @ bs))))"

definition multipath_attr :: "int \<Rightarrow> NexthopInfo list \<Rightarrow> (route_error + request_data list) outcome" where
  "multipath_attr family nhs =
     (if nhs = [] then Done (Inr []) else rbind (nexthops_bytes family nhs) (\<lambda>buf. Done (Inr [NewRtAttr 9 buf])))"

definition positive_attr :: "int \<Rightarrow> int \<Rightarrow> request_data list" where
  "positive_attr t x = (if x > 0 then [NewRtAttr t (Uint32Attr (word_of_int x))] else [])"

definition route_metrics :: "Route \<Rightarrow> request_data list" where
  "route_metrics r =
     positive_attr 2 (rt_MTU r) @ positive_attr 3 (rt_Window r) @ positive_attr 4 (rt_Rtt r) @ positive_attr 5 (rt_RttVar r) @
     positive_attr 6 (rt_Ssthresh r) @ positive_attr 7 (rt_Cwnd r) @ positive_attr 8 (rt_AdvMSS r) @
     positive_attr 9 (rt_Reordering r) @ positive_attr 10 (rt_Hoplimit r) @ positive_attr 11 (rt_InitCwnd r) @
     positive_attr 12 (rt_Features r) @ positive_attr 13 (rt_RtoMin r) @ positive_attr 14 (rt_InitRwnd r) @
     positive_attr 15 (rt_QuickACK r) @ (if rt_Congctl r \<noteq> [] then [NewRtAttr 16 (ZeroTerminated (rt_Congctl r))] else []) @
     positive_attr 17 (rt_FastOpenNoCookie r)"

text \<open>The destination: the family, the message with its prefix length, and the attribute.\<close>

definition route_dst :: "Route \<Rightarrow> RtMsg \<Rightarrow> int \<times> RtMsg \<times> request_data list" where
  "route_dst r msg =
     (case Option.bind (rt_Dst r) ipn_IP of
        Some ip \<Rightarrow>
          (GetIPFamily (Some ip), msg\<lparr>rm_Dst_len := word_of_int (fst (mask_Size (ipn_Mask (the (rt_Dst r)))))\<rparr>,
           [NewRtAttr 1 (family_bytes (Some ip))])
      | None \<Rightarrow>
          (case rt_MPLSDst r of
             Some l \<Rightarrow> (FAMILY_MPLS, msg\<lparr>rm_Dst_len := 20, rm_Type := 1\<rparr>, [NewRtAttr 1 (EncodeMPLSStack [l])])
           | None \<Rightarrow> (- 1, msg, [])))"

definition route_msg :: "Route \<Rightarrow> int \<Rightarrow> RtMsg \<Rightarrow> RtMsg" where
  "route_msg r family msg =
     (let msg = (if rt_Table r > 0 then msg\<lparr>rm_Table := (if rt_Table r \<ge> 256 then 0 else word_of_int (rt_Table r))\<rparr> else msg);
          msg = (if rt_Tos r > 0 then msg\<lparr>rm_Tos := word_of_int (rt_Tos r)\<rparr> else msg);
          msg = (if rt_Protocol r > 0 then msg\<lparr>rm_Protocol := word_of_int (rt_Protocol r)\<rparr> else msg);
          msg = (if rt_Type r > 0 then msg\<lparr>rm_Type := word_of_int (rt_Type r)\<rparr> else msg)
      in msg\<lparr>rm_Flags := word_of_int (rt_Flags r), rm_Scope := rt_Scope r, rm_Family := word_of_int family\<rparr>)"

definition route_data :: "Route \<Rightarrow> RtMsg \<Rightarrow> (route_error + request_data list) outcome" where
  "route_data r msg =
     (if Option.bind (rt_Dst r) ipn_IP = None \<and> rt_Src r = None \<and> rt_Gw r = None \<and> rt_MPLSDst r = None
      then Done (Inl NothingGiven)
      else let (family, msg, dst) = route_dst r msg in
        rbind (Done (newdst_attr (rt_NewDst r) family)) (\<lambda>newdst.
        rbind (encap_attrs True (rt_Encap r)) (\<lambda>encap.
        rbind (Done (address_attr 7 SrcFamily (rt_Src r) family)) (\<lambda>(family, src).
        rbind (Done (address_attr 5 GwFamily (rt_Gw r) family)) (\<lambda>(family, gw).
        rbind (multipath_attr family (rt_MultiPath r)) (\<lambda>multipath.
          let table = (if rt_Table r \<ge> 256 then [NewRtAttr 15 (le32 (word_of_int (rt_Table r)))] else []);
              metrics = route_metrics r
          in Done (Inr (StructData (RtMsg_Serialize (route_msg r family msg)) #
               dst @ newdst @ encap @ src @ gw @ via_attr (rt_Via r) @ multipath @ table @ positive_attr 6 (rt_Priority r) @
               positive_attr 11 (rt_Realm r) @ (if metrics = [] then [] else [RtAttr 8 [] metrics]) @
               [NewRtAttr 4 (le32 (word_of_int (rt_LinkIndex r)))]))))))))"

definition routeHandle :: "nl_os \<Rightarrow> bool \<Rightarrow> Handle \<Rightarrow> int \<Rightarrow> int \<Rightarrow> RtMsg \<Rightarrow> Route \<Rightarrow> nl_state
    \<Rightarrow> (route_error call_error option \<times> nl_state) outcome" where
  "routeHandle os extack h proto flags msg route st = modify_request os extack h proto flags (route_data route msg) st"

definition nl_RouteAdd :: "nl_os \<Rightarrow> bool \<Rightarrow> Handle \<Rightarrow> Route \<Rightarrow> nl_state \<Rightarrow> (route_error call_error option \<times> nl_state) outcome" where
  "nl_RouteAdd os extack h route st = routeHandle os extack h RTM_NEWROUTE (NLM_F_CREATE OR NLM_F_EXCL OR NLM_F_ACK) NewRtMsg route st"

definition nl_RouteAppend :: "nl_os \<Rightarrow> bool \<Rightarrow> Handle \<Rightarrow> Route \<Rightarrow> nl_state \<Rightarrow> (route_error call_error option \<times> nl_state) outcome" where
  "nl_RouteAppend os extack h route st = routeHandle os extack h RTM_NEWROUTE (NLM_F_CREATE OR NLM_F_APPEND OR NLM_F_ACK) NewRtMsg route st"

definition nl_RouteAddEcmp :: "nl_os \<Rightarrow> bool \<Rightarrow> Handle \<Rightarrow> Route \<Rightarrow> nl_state \<Rightarrow> (route_error call_error option \<times> nl_state) outcome" where
  "nl_RouteAddEcmp os extack h route st = routeHandle os extack h RTM_NEWROUTE (NLM_F_CREATE OR NLM_F_ACK) NewRtMsg route st"

definition nl_RouteReplace :: "nl_os \<Rightarrow> bool \<Rightarrow> Handle \<Rightarrow> Route \<Rightarrow> nl_state \<Rightarrow> (route_error call_error option \<times> nl_state) outcome" where
  "nl_RouteReplace os extack h route st = routeHandle os extack h RTM_NEWROUTE (NLM_F_CREATE OR NLM_F_REPLACE OR NLM_F_ACK) NewRtMsg route st"

definition nl_RouteDel :: "nl_os \<Rightarrow> bool \<Rightarrow> Handle \<Rightarrow> Route \<Rightarrow> nl_state \<Rightarrow> (route_error call_error option \<times> nl_state) outcome" where
  "nl_RouteDel os extack h route st = routeHandle os extack h RTM_DELROUTE NLM_F_ACK NewRtDelMsg route st"

end
