(* ===== verification/NlRouteProps.thy ===== *)
theory NlRouteProps
  imports NlRoute
begin

text \<open>
  What routes keep on their way through a netlink message: the round trip of the encoder behind
  \<open>RouteAdd\<close> and the decoder \<open>deserializeRoute\<close>, over all metrics and next hops, and the listing of
  default routes that the alg-daemon relies on.
\<close>

lemma each_datum_keeps:
  assumes "\<And>a s s'. a \<in> set as \<Longrightarrow> g a s = Done (Inr s') \<Longrightarrow> f s' = f s" and "each_datum g as s = Done (Inr s')"
  shows "f s' = f s"
  using assms
proof (induction as arbitrary: s)
  case (Cons a as)
  then obtain t where "g a s = Done (Inr t)" and "each_datum g as t = Done (Inr s')"
    by (auto simp: each_datum_Cons simp del: each_datum.simps)
  with Cons show ?case by (metis list.set_intros)
qed simp

section \<open>Metrics\<close>

lemma parse_attrs_wires:
  assumes "\<And>a. a \<in> set as \<Longrightarrow> is_attr a \<and> attr_Len a < 2 ^ 16"
  shows "parse_attrs (concat (map attr_wire as)) = Done (Inr (map attr_parsed as))"
  using parse_wires [OF assms, of as "[]"] by (simp add: parse_attrs_def ParseRouteAttr_def)

lemma metric_fields:
  assumes "0 \<le> x" and "x < 2 ^ 32"
  shows
    "rt_MTU r = 0 \<Longrightarrow> each_datum metric_attr (map attr_parsed (positive_attr 2 x)) r = Done (Inr (r\<lparr>rt_MTU := x\<rparr>))"
    "rt_Window r = 0 \<Longrightarrow> each_datum metric_attr (map attr_parsed (positive_attr 3 x)) r = Done (Inr (r\<lparr>rt_Window := x\<rparr>))"
    "rt_Rtt r = 0 \<Longrightarrow> each_datum metric_attr (map attr_parsed (positive_attr 4 x)) r = Done (Inr (r\<lparr>rt_Rtt := x\<rparr>))"
    "rt_RttVar r = 0 \<Longrightarrow> each_datum metric_attr (map attr_parsed (positive_attr 5 x)) r = Done (Inr (r\<lparr>rt_RttVar := x\<rparr>))"
    "rt_Ssthresh r = 0 \<Longrightarrow> each_datum metric_attr (map attr_parsed (positive_attr 6 x)) r = Done (Inr (r\<lparr>rt_Ssthresh := x\<rparr>))"
    "rt_Cwnd r = 0 \<Longrightarrow> each_datum metric_attr (map attr_parsed (positive_attr 7 x)) r = Done (Inr (r\<lparr>rt_Cwnd := x\<rparr>))"
    "rt_AdvMSS r = 0 \<Longrightarrow> each_datum metric_attr (map attr_parsed (positive_attr 8 x)) r = Done (Inr (r\<lparr>rt_AdvMSS := x\<rparr>))"
    "rt_Reordering r = 0 \<Longrightarrow> each_datum metric_attr (map attr_parsed (positive_attr 9 x)) r = Done (Inr (r\<lparr>rt_Reordering := x\<rparr>))"
    "rt_Hoplimit r = 0 \<Longrightarrow> each_datum metric_attr (map attr_parsed (positive_attr 10 x)) r = Done (Inr (r\<lparr>rt_Hoplimit := x\<rparr>))"
    "rt_InitCwnd r = 0 \<Longrightarrow> each_datum metric_attr (map attr_parsed (positive_attr 11 x)) r = Done (Inr (r\<lparr>rt_InitCwnd := x\<rparr>))"
    "rt_Features r = 0 \<Longrightarrow> each_datum metric_attr (map attr_parsed (positive_attr 12 x)) r = Done (Inr (r\<lparr>rt_Features := x\<rparr>))"
    "rt_RtoMin r = 0 \<Longrightarrow> each_datum metric_attr (map attr_parsed (positive_attr 13 x)) r = Done (Inr (r\<lparr>rt_RtoMin := x\<rparr>))"
    "rt_InitRwnd r = 0 \<Longrightarrow> each_datum metric_attr (map attr_parsed (positive_attr 14 x)) r = Done (Inr (r\<lparr>rt_InitRwnd := x\<rparr>))"
    "rt_QuickACK r = 0 \<Longrightarrow> each_datum metric_attr (map attr_parsed (positive_attr 15 x)) r = Done (Inr (r\<lparr>rt_QuickACK := x\<rparr>))"
    "rt_FastOpenNoCookie r = 0 \<Longrightarrow> each_datum metric_attr (map attr_parsed (positive_attr 17 x)) r = Done (Inr (r\<lparr>rt_FastOpenNoCookie := x\<rparr>))"
  using assms by (cases "x = 0"; simp add: positive_attr_def metric_attr_def NewRtAttr_def Uint32Attr_def uint_of_int32)+


definition u32_int :: "int \<Rightarrow> bool" where
  "u32_int x \<longleftrightarrow> 0 \<le> x \<and> x < 2 ^ 32"

definition metrics_ok :: "Route \<Rightarrow> bool" where
  "metrics_ok r \<longleftrightarrow> u32_int (rt_MTU r) \<and> u32_int (rt_Window r) \<and> u32_int (rt_Rtt r) \<and> u32_int (rt_RttVar r) \<and> u32_int (rt_Ssthresh r)
     \<and> u32_int (rt_Cwnd r) \<and> u32_int (rt_AdvMSS r) \<and> u32_int (rt_Reordering r) \<and> u32_int (rt_Hoplimit r) \<and> u32_int (rt_InitCwnd r)
     \<and> u32_int (rt_Features r) \<and> u32_int (rt_RtoMin r) \<and> u32_int (rt_InitRwnd r) \<and> u32_int (rt_QuickACK r)
     \<and> u32_int (rt_FastOpenNoCookie r) \<and> CHR 0x00 \<notin> set (rt_Congctl r) \<and> length (rt_Congctl r) < 60000"

definition with_metrics :: "Route \<Rightarrow> Route \<Rightarrow> Route" where
  "with_metrics m r = r\<lparr>rt_MTU := rt_MTU m, rt_Window := rt_Window m, rt_Rtt := rt_Rtt m, rt_RttVar := rt_RttVar m,
     rt_Ssthresh := rt_Ssthresh m, rt_Cwnd := rt_Cwnd m, rt_AdvMSS := rt_AdvMSS m, rt_Reordering := rt_Reordering m,
     rt_Hoplimit := rt_Hoplimit m, rt_InitCwnd := rt_InitCwnd m, rt_Features := rt_Features m, rt_RtoMin := rt_RtoMin m,
     rt_InitRwnd := rt_InitRwnd m, rt_QuickACK := rt_QuickACK m, rt_Congctl := rt_Congctl m, rt_FastOpenNoCookie := rt_FastOpenNoCookie m\<rparr>"

lemma congctl_field:
  assumes "rt_Congctl r = []" and "CHR 0x00 \<notin> set s"
  shows "each_datum metric_attr (map attr_parsed (if s \<noteq> [] then [NewRtAttr 16 (ZeroTerminated s)] else [])) r
    = Done (Inr (r\<lparr>rt_Congctl := s\<rparr>))"
  using assms by (simp add: metric_attr_def NewRtAttr_def)

lemma route_metrics_decode:
  assumes "metrics_ok m" and "with_metrics zeroRoute r = r"
  shows "each_datum metric_attr (map attr_parsed (route_metrics m)) r = Done (Inr (with_metrics m r))"
proof -
  have z: "rt_MTU r = 0" "rt_Window r = 0" "rt_Rtt r = 0" "rt_RttVar r = 0" "rt_Ssthresh r = 0" "rt_Cwnd r = 0" "rt_AdvMSS r = 0"
    "rt_Reordering r = 0" "rt_Hoplimit r = 0" "rt_InitCwnd r = 0" "rt_Features r = 0" "rt_RtoMin r = 0" "rt_InitRwnd r = 0"
    "rt_QuickACK r = 0" "rt_Congctl r = []" "rt_FastOpenNoCookie r = 0"
    by (subst assms(2) [symmetric], simp add: with_metrics_def zeroRoute_def)+
  show ?thesis
    using assms(1) unfolding metrics_ok_def u32_int_def route_metrics_def
    by (simp add: each_datum_append metric_fields congctl_field z with_metrics_def del: each_datum.simps)
qed

text \<open>A metric attribute is small, so the whole nest fits its 16-bit length.\<close>

lemma positive_attr_small: "a \<in> set (positive_attr t x) \<Longrightarrow> is_attr a \<and> attr_Len a = 8"
  by (simp add: positive_attr_def split: if_splits)

lemma route_metrics_small:
  assumes "metrics_ok m" and "a \<in> set (route_metrics m)"
  shows "is_attr a \<and> attr_Len a < 2 ^ 16"
  using assms by (auto simp: route_metrics_def metrics_ok_def dest: positive_attr_small split: if_splits)

lemma positive_attr_size: "sum_list (map (\<lambda>c. rtaAlignOf (attr_Len c)) (positive_attr t x)) \<le> 8"
  by (simp add: positive_attr_def)

lemma route_metrics_size:
  assumes "metrics_ok m"
  shows "attr_Len (RtAttr 8 [] (route_metrics m)) < 2 ^ 16"
proof -
  have "rtaAlignOf (attr_Len (NewRtAttr 16 (ZeroTerminated (rt_Congctl m)))) < 60009"
    using assms rtaAlignOf_lt [of "5 + length (rt_Congctl m)"] by (simp add: metrics_ok_def)
  then have "sum_list (map (\<lambda>c. rtaAlignOf (attr_Len c)) (route_metrics m)) \<le> 60009 + 15 * 8"
    unfolding route_metrics_def map_append sum_list_append
    using positive_attr_size [of 2 "rt_MTU m"] positive_attr_size [of 3 "rt_Window m"] positive_attr_size [of 4 "rt_Rtt m"]
      positive_attr_size [of 5 "rt_RttVar m"] positive_attr_size [of 6 "rt_Ssthresh m"] positive_attr_size [of 7 "rt_Cwnd m"]
      positive_attr_size [of 8 "rt_AdvMSS m"] positive_attr_size [of 9 "rt_Reordering m"] positive_attr_size [of 10 "rt_Hoplimit m"]
      positive_attr_size [of 11 "rt_InitCwnd m"] positive_attr_size [of 12 "rt_Features m"] positive_attr_size [of 13 "rt_RtoMin m"]
      positive_attr_size [of 14 "rt_InitRwnd m"] positive_attr_size [of 15 "rt_QuickACK m"] positive_attr_size [of 17 "rt_FastOpenNoCookie m"]
    by (simp split: if_splits)
  then show ?thesis using rtaAlignOf_lt [of "sum_list (map (\<lambda>c. rtaAlignOf (attr_Len c)) (route_metrics m)) + 4"] by simp
qed

section \<open>Addresses and next hops\<close>

text \<open>
  The routes that the message can carry as they are: addresses in the form of the family, numbers in
  the range of their attributes, and no next hops, labels or encapsulation.
\<close>

definition plain_address :: "int \<Rightarrow> net_ip \<Rightarrow> bool" where
  "plain_address family ip \<longleftrightarrow>
     (case ip of None \<Rightarrow> True | Some b \<Rightarrow> GetIPFamily ip = family \<and> family_bytes ip = b \<and> (length b = 4 \<or> length b = 16))"

definition plain_dst :: "int \<Rightarrow> IPNet option \<Rightarrow> bool" where
  "plain_dst family n \<longleftrightarrow>
     (case n of
        None \<Rightarrow> True
      | Some d \<Rightarrow> ipn_IP d \<noteq> None \<and> plain_address family (ipn_IP d)
          \<and> (let ones = fst (mask_Size (ipn_Mask d)); bits = 8 * int (length (ip_bytes (ipn_IP d)))
             in 0 \<le> ones \<and> ones \<le> bits \<and> ipn_Mask d = CIDRMask ones bits))"

definition ip_attr :: "int \<Rightarrow> net_ip \<Rightarrow> request_data list" where
  "ip_attr t ip = (if ip = None then [] else [NewRtAttr t (ip_bytes ip)])"

lemma plain_address_attr:
  assumes "plain_address family ip"
  shows "address_attr t err ip (- 1) = Inr (if ip = None then - 1 else family, ip_attr t ip)"
    and "address_attr t err ip family = Inr (family, ip_attr t ip)"
  using assms by (auto simp: plain_address_def address_attr_def ip_attr_def ip_bytes_def split: option.splits)

lemma ip_attr_small: "plain_address family ip \<Longrightarrow> a \<in> set (ip_attr t ip) \<Longrightarrow> is_attr a \<and> attr_Len a \<le> 20"
  by (auto simp: plain_address_def ip_attr_def ip_bytes_def split: option.splits if_splits)

text \<open>Next hops that the message can carry as they are.\<close>

definition plain_nexthop :: "int \<Rightarrow> NexthopInfo \<Rightarrow> bool" where
  "plain_nexthop family nh \<longleftrightarrow> plain_address family (nh_Gw nh) \<and> nh_NewDst nh = None \<and> nh_Encap nh = None \<and> nh_Via nh = None
     \<and> - (2 ^ 31) \<le> nh_LinkIndex nh \<and> nh_LinkIndex nh < 2 ^ 31 \<and> 0 \<le> nh_Hops nh \<and> nh_Hops nh < 256 \<and> 0 \<le> nh_Flags nh \<and> nh_Flags nh < 256"

definition nexthop_wire :: "NexthopInfo \<Rightarrow> bytes" where
  "nexthop_wire nh =
     RtNexthop_bytes \<lparr>rn_Len = (if nh_Gw nh = None then 8 else of_nat (12 + length (ip_bytes (nh_Gw nh)))), rn_Flags = word_of_int (nh_Flags nh),
       rn_Hops = word_of_int (nh_Hops nh), rn_Ifindex = word_of_int (nh_LinkIndex nh)\<rparr> @ concat (map attr_wire (ip_attr 5 (nh_Gw nh)))"

lemma plain_ip_length: "plain_address family (Some b) \<Longrightarrow> length b = 4 \<or> length b = 16"
  by (simp add: plain_address_def)

lemma length_RtNexthop_bytes [simp]: "length (RtNexthop_bytes h) = 8"
  by (simp add: RtNexthop_bytes_def)

lemma nexthop_bytes_plain:
  assumes "plain_nexthop family nh"
  shows "nexthop_bytes family nh = Done (Inr (nexthop_wire nh))"
proof -
  have a: "address_attr 5 GwFamily (nh_Gw nh) family = Inr (family, ip_attr 5 (nh_Gw nh))"
    using assms plain_address_attr(2) by (simp add: plain_nexthop_def)
  show ?thesis
  proof (cases "nh_Gw nh")
    case None
    with a assms show ?thesis
      by (simp add: nexthop_bytes_def plain_nexthop_def newdst_attr_def encap_attrs_def via_attr_def RtNexthop_Serialize_def RtNexthop_Len_def
          ip_attr_def nexthop_wire_def SizeofRtNexthop_def RtNexthop_bytes_def copy_at_def Let_def)
  next
    case (Some b)
    then have l: "length b = 4 \<or> length b = 16" using assms plain_ip_length [of family b] by (simp add: plain_nexthop_def)
    define h where "h = \<lparr>rn_Len = of_nat (12 + length b), rn_Flags = word_of_int (nh_Flags nh), rn_Hops = word_of_int (nh_Hops nh),
      rn_Ifindex = word_of_int (nh_LinkIndex nh) :: u32\<rparr>"
    have w: "attr_wire (NewRtAttr 5 b) = le16 (of_nat (4 + length b)) @ le16 5 @ b"
      using l by (auto simp: NewRtAttr_def pad4_id)
    have "copy_at 8 (attr_wire (NewRtAttr 5 b)) (RtNexthop_bytes h @ replicate (4 + length b) 0) = Done (RtNexthop_bytes h @ attr_wire (NewRtAttr 5 b))"
      by (simp add: copy_at_def w)
    moreover have "copy_at 0 (RtNexthop_bytes h) (replicate (12 + length b) 0) = Done (RtNexthop_bytes h @ replicate (4 + length b) 0)"
      by (simp add: copy_at_def)
    moreover have "RtNexthop_Len [NewRtAttr 5 b] = 12 + length b" using l by (auto simp: RtNexthop_Len_def SizeofRtNexthop_def)
    moreover have "h\<lparr>rn_Len := 0, rn_Len := of_nat (12 + length b)\<rparr> = h" by (simp add: h_def)
    ultimately have "RtNexthop_Serialize (h\<lparr>rn_Len := 0\<rparr>) [NewRtAttr 5 b] = Done (RtNexthop_bytes h @ attr_wire (NewRtAttr 5 b))"
      by (simp add: RtNexthop_Serialize_def SizeofRtNexthop_def attr_Serialize_wire Let_def del: of_nat_add)
    with a assms Some show ?thesis
      by (simp add: nexthop_bytes_def plain_nexthop_def newdst_attr_def encap_attrs_def via_attr_def ip_attr_def nexthop_wire_def h_def ip_bytes_def Let_def)
  qed
qed

lemma parse_nexthop:
  assumes "plain_nexthop family nh"
  shows "parseRtNexthop f (nexthop_wire nh @ rest) = Done (Inr (nh, rest))"
proof -
  define h where "h = \<lparr>rn_Len = (if nh_Gw nh = None then 8 else of_nat (12 + length (ip_bytes (nh_Gw nh)))) :: u16, rn_Flags = word_of_int (nh_Flags nh),
       rn_Hops = word_of_int (nh_Hops nh), rn_Ifindex = word_of_int (nh_LinkIndex nh)\<rparr>"
  define as where "as = ip_attr 5 (nh_Gw nh)"
  have w: "nexthop_wire nh = RtNexthop_bytes h @ concat (map attr_wire as)" by (simp add: nexthop_wire_def h_def as_def)
  have n: "unat (rn_Len h) = length (nexthop_wire nh)" "8 \<le> unat (rn_Len h)"
    using assms plain_ip_length [of family "the (nh_Gw nh)"]
    by (auto simp: w h_def as_def ip_attr_def plain_nexthop_def ip_bytes_def NewRtAttr_def)
  have small: "\<And>a. a \<in> set as \<Longrightarrow> is_attr a \<and> attr_Len a < 2 ^ 16"
    using assms ip_attr_small [of family "nh_Gw nh"] by (fastforce simp: as_def plain_nexthop_def)
  have info: "each_datum (nexthop_attr f) (map attr_parsed as)
      (\<lparr>nh_LinkIndex = sint (rn_Ifindex h), nh_Hops = uint (rn_Hops h), nh_Gw = None, nh_Flags = uint (rn_Flags h), nh_NewDst = None, nh_Encap = None, nh_Via = None\<rparr>, [], [])
      = Done (Inr (nh, [], []))"
    using assms by (cases "nh_Gw nh") (simp_all add: as_def h_def ip_attr_def plain_nexthop_def nexthop_attr_def ip_bytes_def sint_of_int32 uint_of_int8)
  have "DeserializeRtNexthop (nexthop_wire nh @ rest) = Done h" by (simp add: w rn_codec.dec_enc)
  then show ?thesis
    using n info by (simp add: parseRtNexthop_def SizeofRtNexthop_def w parse_attrs_wires [OF small])
qed

lemma multipath_plain:
  assumes "\<And>nh. nh \<in> set nhs \<Longrightarrow> plain_nexthop family nh"
  shows "nexthops_bytes family nhs = Done (Inr (concat (map nexthop_wire nhs)))"
    and "multipath_loop f acc (concat (map nexthop_wire nhs)) = Done (Inr (acc @ nhs))"
proof -
  show "nexthops_bytes family nhs = Done (Inr (concat (map nexthop_wire nhs)))"
    using assms by (induction nhs) (simp_all add: nexthop_bytes_plain)
  show "multipath_loop f acc (concat (map nexthop_wire nhs)) = Done (Inr (acc @ nhs))"
    using assms
  proof (induction nhs arbitrary: acc)
    case (Cons nh nhs)
    then have "nexthop_wire nh \<noteq> []" using length_RtNexthop_bytes by (metis nexthop_wire_def append_is_Nil_conv list.size(3) zero_neq_numeral)
    moreover have "parseRtNexthop f (nexthop_wire nh @ rest) = Done (Inr (nh, rest))" for rest
      using Cons.prems parse_nexthop [of family nh] by simp
    ultimately show ?case using Cons by (simp add: multipath_loop.simps [of f acc "nexthop_wire nh @ r" for r])
  qed (simp add: multipath_loop.simps)
qed

lemma nexthop_wire_length: "plain_nexthop family nh \<Longrightarrow> length (nexthop_wire nh) \<le> 28"
  using plain_ip_length [of family "the (nh_Gw nh)"]
  by (auto simp: nexthop_wire_def plain_nexthop_def ip_attr_def ip_bytes_def NewRtAttr_def)

section \<open>Routes\<close>

definition plain_route :: "Route \<Rightarrow> bool" where
  "plain_route r \<longleftrightarrow>
     plain_dst (rt_Family r) (rt_Dst r) \<and> plain_address (rt_Family r) (rt_Src r) \<and> plain_address (rt_Family r) (rt_Gw r)
     \<and> (rt_Dst r \<noteq> None \<or> rt_Src r \<noteq> None \<or> rt_Gw r \<noteq> None)
     \<and> u32_int (rt_LinkIndex r) \<and> rt_ILinkIndex r = 0 \<and> (\<forall>nh \<in> set (rt_MultiPath r). plain_nexthop (rt_Family r) nh)
     \<and> length (rt_MultiPath r) \<le> 2000 \<and> rt_MPLSDst r = None \<and> rt_NewDst r = None
     \<and> rt_Encap r = None \<and> rt_Via r = None \<and> 0 < rt_Protocol r \<and> rt_Protocol r < 256 \<and> 0 < rt_Type r \<and> rt_Type r < 256
     \<and> 0 \<le> rt_Tos r \<and> rt_Tos r < 256 \<and> 0 < rt_Table r \<and> rt_Table r < 2 ^ 32 \<and> u32_int (rt_Flags r) \<and> u32_int (rt_Priority r)
     \<and> u32_int (rt_Realm r) \<and> metrics_ok r"

definition plain_msg :: "Route \<Rightarrow> RtMsg" where
  "plain_msg r = \<lparr>rm_Family = word_of_int (rt_Family r), rm_Dst_len = (case rt_Dst r of None \<Rightarrow> 0 | Some d \<Rightarrow> word_of_int (fst (mask_Size (ipn_Mask d)))),
     rm_Src_len = 0, rm_Tos = word_of_int (rt_Tos r), rm_Table = (if rt_Table r \<ge> 256 then 0 else word_of_int (rt_Table r)),
     rm_Protocol = word_of_int (rt_Protocol r), rm_Scope = rt_Scope r, rm_Type = word_of_int (rt_Type r), rm_Flags = word_of_int (rt_Flags r)\<rparr>"

definition plain_attrs :: "Route \<Rightarrow> request_data list" where
  "plain_attrs r = ip_attr 1 (Option.bind (rt_Dst r) ipn_IP) @ ip_attr 7 (rt_Src r) @ ip_attr 5 (rt_Gw r) @
     (if rt_MultiPath r = [] then [] else [NewRtAttr 9 (concat (map nexthop_wire (rt_MultiPath r)))]) @
     (if rt_Table r \<ge> 256 then [NewRtAttr 15 (le32 (word_of_int (rt_Table r)))] else []) @ positive_attr 6 (rt_Priority r) @
     positive_attr 11 (rt_Realm r) @ (if route_metrics r = [] then [] else [RtAttr 8 [] (route_metrics r)]) @
     [NewRtAttr 4 (le32 (word_of_int (rt_LinkIndex r)))]"

lemma route_fields:
  "rt_Src r = None \<Longrightarrow> each_datum (route_attr msg) (map attr_parsed (ip_attr 7 ip)) (r, e, et) = Done (Inr (r\<lparr>rt_Src := ip\<rparr>, e, et))"
  "rt_Gw r = None \<Longrightarrow> each_datum (route_attr msg) (map attr_parsed (ip_attr 5 ip)) (r, e, et) = Done (Inr (r\<lparr>rt_Gw := ip\<rparr>, e, et))"
  "rt_Priority r = 0 \<Longrightarrow> u32_int x \<Longrightarrow> each_datum (route_attr msg) (map attr_parsed (positive_attr 6 x)) (r, e, et)
     = Done (Inr (r\<lparr>rt_Priority := x\<rparr>, e, et))"
  "rt_Realm r = 0 \<Longrightarrow> u32_int x \<Longrightarrow> each_datum (route_attr msg) (map attr_parsed (positive_attr 11 x)) (r, e, et)
     = Done (Inr (r\<lparr>rt_Realm := x\<rparr>, e, et))"
  "rt_Table r = (if x \<ge> 256 then 0 else x) \<Longrightarrow> u32_int x \<Longrightarrow>
     each_datum (route_attr msg) (map attr_parsed (if x \<ge> 256 then [NewRtAttr 15 (le32 (word_of_int x))] else [])) (r, e, et)
     = Done (Inr (r\<lparr>rt_Table := x\<rparr>, e, et))"
  "u32_int x \<Longrightarrow> each_datum (route_attr msg) [attr_parsed (NewRtAttr 4 (le32 (word_of_int x)))] (r, e, et)
     = Done (Inr (r\<lparr>rt_LinkIndex := x\<rparr>, e, et))"
  by (cases "ip = None" "x = 0" rule: case_split [case_product case_split];
      fastforce simp: route_attr_def Let_def positive_attr_def NewRtAttr_def Uint32Attr_def uint_of_int32 ip_bytes_def ip_attr_def u32_int_def)+

lemma multipath_field:
  assumes "\<And>nh. nh \<in> set nhs \<Longrightarrow> plain_nexthop family nh" and "rt_MultiPath r = []"
  shows "each_datum (route_attr msg) (map attr_parsed (if nhs = [] then [] else [NewRtAttr 9 (concat (map nexthop_wire nhs))])) (r, e, et)
    = Done (Inr (r\<lparr>rt_MultiPath := nhs\<rparr>, e, et))"
proof (cases "nhs = []")
  case False
  have "multipath_loop (uint (rm_Family msg)) [] (concat (map nexthop_wire nhs)) = Done (Inr nhs)"
    using multipath_plain(2) [OF assms(1), of nhs "uint (rm_Family msg)" "[]"] by simp
  with False assms(2) show ?thesis by (simp add: route_attr_def)
qed (use assms(2) in simp)

lemma plain_route_data:
  assumes "plain_route r"
  shows "route_data r NewRtMsg = Done (Inr (StructData (RtMsg_Serialize (plain_msg r)) # plain_attrs r))"
proof -
  let ?f = "rt_Family r"
  let ?m = "NewRtMsg\<lparr>rm_Dst_len := rm_Dst_len (plain_msg r)\<rparr>"
  have d: "route_dst r NewRtMsg = (if rt_Dst r = None then - 1 else ?f, ?m, ip_attr 1 (Option.bind (rt_Dst r) ipn_IP))"
    and n: "Option.bind (rt_Dst r) ipn_IP = None \<longleftrightarrow> rt_Dst r = None"
    using assms by (auto simp: plain_route_def plain_dst_def route_dst_def plain_address_def ip_attr_def plain_msg_def NewRtMsg_def
        ip_bytes_def split: option.splits)
  have m: "route_msg r ?f ?m = plain_msg r"
    using assms by (cases "rt_Tos r = 0") (simp_all add: plain_route_def route_msg_def plain_msg_def NewRtMsg_def Let_def)
  have a: "plain_address ?f (rt_Src r)" "plain_address ?f (rt_Gw r)"
    and p: "rt_MPLSDst r = None" "rt_NewDst r = None" "rt_Encap r = None" "rt_Via r = None"
    and g: "rt_Dst r \<noteq> None \<or> rt_Src r \<noteq> None \<or> rt_Gw r \<noteq> None"
    and nh: "\<And>nh. nh \<in> set (rt_MultiPath r) \<Longrightarrow> plain_nexthop ?f nh"
    using assms by (simp_all add: plain_route_def)
  have mp: "multipath_attr ?f (rt_MultiPath r)
      = Done (Inr (if rt_MultiPath r = [] then [] else [NewRtAttr 9 (concat (map nexthop_wire (rt_MultiPath r)))]))"
    using multipath_plain(1) [OF nh] by (simp add: multipath_attr_def)
  note pa = a [THEN plain_address_attr(1)] a [THEN plain_address_attr(2)]
  have src: "address_attr 7 SrcFamily (rt_Src r) (if rt_Dst r = None then - 1 else ?f)
      = Inr (if rt_Dst r = None \<and> rt_Src r = None then - 1 else ?f, ip_attr 7 (rt_Src r))"
    by (cases "rt_Dst r = None") (simp_all only: if_True if_False pa simp_thms split: if_split)
  have gw: "address_attr 5 GwFamily (rt_Gw r) (if rt_Dst r = None \<and> rt_Src r = None then - 1 else ?f) = Inr (?f, ip_attr 5 (rt_Gw r))"
    using g by (cases "rt_Dst r = None \<and> rt_Src r = None") (simp_all only: if_True if_False pa simp_thms)
  have "\<not> (Option.bind (rt_Dst r) ipn_IP = None \<and> rt_Src r = None \<and> rt_Gw r = None \<and> rt_MPLSDst r = None)" using g n by auto
  then show ?thesis
    unfolding route_data_def
    by (simp only: if_not_P) (simp add: d src gw m p newdst_attr_def encap_attrs_def via_attr_def mp plain_attrs_def Let_def
        split del: if_split)
qed

lemma plain_attrs_small:
  assumes "plain_route r" and "a \<in> set (plain_attrs r)"
  shows "is_attr a \<and> attr_Len a < 2 ^ 16"
proof -
  have "plain_address (rt_Family r) (Option.bind (rt_Dst r) ipn_IP)" "plain_address (rt_Family r) (rt_Src r)"
    "plain_address (rt_Family r) (rt_Gw r)" and m: "metrics_ok r"
    using assms(1) by (auto simp: plain_route_def plain_dst_def plain_address_def split: option.splits)
  note ips = this(1-3) [THEN ip_attr_small]
  have "length (concat (map nexthop_wire (rt_MultiPath r))) \<le> 2000 * 28"
  proof -
    have "sum_list (map (\<lambda>nh. length (nexthop_wire nh)) (rt_MultiPath r)) \<le> length (rt_MultiPath r) * 28"
      using assms(1) nexthop_wire_length sum_list_mono [of "rt_MultiPath r" "\<lambda>nh. length (nexthop_wire nh)" "\<lambda>_. 28"]
      by (auto simp: plain_route_def sum_list_triv)
    also have "\<dots> \<le> 2000 * 28" using assms(1) by (intro mult_right_mono) (simp_all add: plain_route_def)
    finally show ?thesis by (simp add: length_concat comp_def)
  qed
  then have nh: "attr_Len (NewRtAttr 9 (concat (map nexthop_wire (rt_MultiPath r)))) < 2 ^ 16" by simp
  have "a \<in> set (ip_attr 1 (Option.bind (rt_Dst r) ipn_IP)) \<union> set (ip_attr 7 (rt_Src r)) \<union> set (ip_attr 5 (rt_Gw r))
      \<or> a \<in> set (positive_attr 6 (rt_Priority r)) \<union> set (positive_attr 11 (rt_Realm r)) \<or> a = RtAttr 8 [] (route_metrics r)
      \<or> a = NewRtAttr 9 (concat (map nexthop_wire (rt_MultiPath r))) \<or> a = NewRtAttr 15 (le32 (word_of_int (rt_Table r))) \<or> a = NewRtAttr 4 (le32 (word_of_int (rt_LinkIndex r)))"
    using assms(2) unfolding plain_attrs_def by (auto split: if_splits)
  then show ?thesis
    using ips [of a] positive_attr_small [of a] route_metrics_size [OF m] nh by (elim disjE) (fastforce simp del: attr_Len.simps(1))+
qed

lemma plain_dst_field:
  assumes "plain_dst family (rt_Dst m)" and "rt_Dst r = None" and "uint (rm_Family msg) \<noteq> FAMILY_MPLS"
    and "rm_Dst_len msg = (case rt_Dst m of None \<Rightarrow> 0 | Some d \<Rightarrow> word_of_int (fst (mask_Size (ipn_Mask d))))"
  shows "each_datum (route_attr msg) (map attr_parsed (ip_attr 1 (Option.bind (rt_Dst m) ipn_IP))) (r, e, et)
    = Done (Inr (r\<lparr>rt_Dst := rt_Dst m\<rparr>, e, et))"
proof (cases "rt_Dst m")
  case None
  with assms(2) show ?thesis by (simp add: ip_attr_def)
next
  case (Some d)
  then obtain b where b: "ipn_IP d = Some b" "length b = 4 \<or> length b = 16"
    using assms(1) by (auto simp: plain_dst_def plain_address_def split: option.splits)
  define ones where "ones = fst (mask_Size (ipn_Mask d))"
  have o: "0 \<le> ones" "ones \<le> 8 * int (length b)" "ipn_Mask d = CIDRMask ones (8 * int (length b))"
    using assms(1) Some b(1) by (simp_all add: plain_dst_def ones_def ip_bytes_def Let_def)
  have "uint (word_of_int ones :: u8) = ones" using b(2) o(1,2) by (intro uint_of_int8) auto
  then have u: "uint (rm_Dst_len msg) = ones" using assms(4) Some by (simp add: ones_def)
  have "Some \<lparr>ipn_IP = Some b, ipn_Mask = CIDRMask (uint (rm_Dst_len msg)) (8 * int (length b))\<rparr> = rt_Dst m"
    unfolding u o(3) [symmetric] using Some b(1) by simp
  moreover have "route_attr msg (attr_parsed (NewRtAttr 1 b)) (r, e, et)
      = Done (Inr (r\<lparr>rt_Dst := Some \<lparr>ipn_IP = Some b, ipn_Mask = CIDRMask (uint (rm_Dst_len msg)) (8 * int (length b))\<rparr>\<rparr>, e, et))"
    using assms(3) by (simp add: route_attr_def dst_attr_def)
  ultimately have "route_attr msg (attr_parsed (NewRtAttr 1 b)) (r, e, et) = Done (Inr (r\<lparr>rt_Dst := rt_Dst m\<rparr>, e, et))" by simp
  moreover have "ip_attr 1 (Option.bind (rt_Dst m) ipn_IP) = [NewRtAttr 1 b]"
    using Some b(1) by (simp add: ip_attr_def ip_bytes_def)
  ultimately show ?thesis by simp
qed

lemma metrics_field:
  assumes "metrics_ok m" and "with_metrics zeroRoute r = r"
  shows "each_datum (route_attr msg) (map attr_parsed (if route_metrics m = [] then [] else [RtAttr 8 [] (route_metrics m)])) (r, e, et)
    = Done (Inr (with_metrics m r, e, et))"
proof -
  note d = route_metrics_decode [OF assms]
  have p: "parse_attrs (ra_Value (attr_parsed (RtAttr 8 [] (route_metrics m)))) = Done (Inr (map attr_parsed (route_metrics m)))"
    using parse_children [of "route_metrics m" 8, OF route_metrics_small [OF assms(1)]] by (simp add: parse_attrs_def)
  show ?thesis
  proof (cases "route_metrics m = []")
    case True
    with d show ?thesis by simp
  next
    case False
    with p d show ?thesis by (simp add: route_attr_def Let_def del: attr_parsed.simps) (simp add: attr_parsed.simps)
  qed
qed

lemma deserializeRoute_data:
  assumes "\<And>a. a \<in> set as \<Longrightarrow> is_attr a \<and> attr_Len a < 2 ^ 16"
    and "each_datum (route_attr msg) (map attr_parsed as) (route_base msg, [], []) = Done (Inr (r, [], []))"
  shows "deserializeRoute (concat (map attr_wire (StructData (RtMsg_Serialize msg) # as))) = Done (Inr r)"
proof -
  have l: "length (RtMsg_Serialize msg) = SizeofRtMsg" using rm_codec.enc_length by simp
  show ?thesis using assms(2) by (simp add: deserializeRoute_def rm_codec.dec_enc l parse_attrs_wires [OF assms(1)])
qed

lemma GetIPFamily_cases: "GetIPFamily ip = FAMILY_V4 \<or> GetIPFamily ip = FAMILY_V6"
  by (simp add: GetIPFamily_def)

lemma plain_route_decode:
  assumes "plain_route r"
  shows "each_datum (route_attr (plain_msg r)) (map attr_parsed (plain_attrs r)) (route_base (plain_msg r), [], []) = Done (Inr (r, [], []))"
proof -
  have f: "rt_Family r = FAMILY_V4 \<or> rt_Family r = FAMILY_V6"
    using assms GetIPFamily_cases [of "rt_Src r"] GetIPFamily_cases [of "rt_Gw r"] GetIPFamily_cases [of "ipn_IP (the (rt_Dst r))"]
    by (auto simp: plain_route_def plain_address_def plain_dst_def split: option.splits)
  then have u: "uint (word_of_int (rt_Family r) :: u8) = rt_Family r" and n: "uint (rm_Family (plain_msg r)) \<noteq> FAMILY_MPLS"
    by (auto simp: families plain_msg_def)
  let ?b = "route_base (plain_msg r)"
  have d: "plain_dst (rt_Family r) (rt_Dst r)" and m: "metrics_ok r"
    and p: "u32_int (rt_LinkIndex r)" "u32_int (rt_Priority r)" "u32_int (rt_Realm r)" "u32_int (rt_Table r)" "0 < rt_Table r"
    and nh: "\<And>nh. nh \<in> set (rt_MultiPath r) \<Longrightarrow> plain_nexthop (rt_Family r) nh"
    using assms by (auto simp: plain_route_def u32_int_def)
  have t: "rt_Table ?b = (if rt_Table r \<ge> 256 then 0 else rt_Table r)"
    using p(5) by (simp add: route_base_def plain_msg_def uint_of_int8)
  have z: "rt_Dst ?b = None" "rt_Src ?b = None" "rt_Gw ?b = None" "rt_MultiPath ?b = []" "rt_Priority ?b = 0" "rt_Realm ?b = 0"
    by (simp_all add: route_base_def zeroRoute_def)
  define c where "c = ?b\<lparr>rt_Dst := rt_Dst r, rt_Src := rt_Src r, rt_Gw := rt_Gw r, rt_MultiPath := rt_MultiPath r, rt_Table := rt_Table r, rt_Priority := rt_Priority r,
      rt_Realm := rt_Realm r\<rparr>"
  have w: "with_metrics zeroRoute c = c"
    by (simp add: c_def with_metrics_def route_base_def zeroRoute_def)
  have l: "rm_Dst_len (plain_msg r) = (case rt_Dst r of None \<Rightarrow> 0 | Some d \<Rightarrow> word_of_int (fst (mask_Size (ipn_Mask d))))"
    by (simp add: plain_msg_def)
  have "each_datum (route_attr (plain_msg r)) (map attr_parsed (plain_attrs r)) (?b, [], [])
      = Done (Inr ((with_metrics r c)\<lparr>rt_LinkIndex := rt_LinkIndex r\<rparr>, [], []))"
    unfolding plain_attrs_def map_append each_datum_append
    by (simp add: plain_dst_field [OF d z(1) n l] route_fields p t z multipath_field [OF nh] metrics_field [OF m w, unfolded c_def] c_def split del: if_split del: each_datum.simps)
  moreover have "(with_metrics r c)\<lparr>rt_LinkIndex := rt_LinkIndex r\<rparr> = r"
    using assms u by (intro Route.equality) (simp_all add: c_def with_metrics_def route_base_def plain_msg_def zeroRoute_def plain_route_def
        u32_int_def uint_of_int8 uint_of_int32)
  ultimately show ?thesis by simp
qed

section \<open>Listing\<close>

lemma route_skipped_default [simp]: "route_skipped zeroRoute RT_FILTER_DST route \<longleftrightarrow> rt_Dst route \<noteq> None"
  by (simp add: route_skipped_def rt_filters zeroRoute_def ipNetEqual_def split: option.splits)

lemma filter_routes_decoded:
  assumes "list_all2 (\<lambda>m r. (\<exists>msg. DeserializeRtMsg m = Done msg \<and> route_ignored (Some f) fmask msg = ign r)
     \<and> deserializeRoute m = Done (Inr r)) ms rs"
  shows "filter_routes (Some f) fmask ms = Done (Inr (filter (\<lambda>r. \<not> ign r \<and> \<not> route_skipped f fmask r) rs))"
  using assms by (induction rule: list_all2_induct) auto

text \<open>The bytes of a route as the encoder of the library lays them out.\<close>

definition encoded_route :: "Route \<Rightarrow> bytes" where
  "encoded_route r = (case route_data r NewRtMsg of Done (Inr data) \<Rightarrow> concat (map attr_wire data) | _ \<Rightarrow> [])"

lemma encoded_route_decode:
  assumes "plain_route r"
  shows "DeserializeRtMsg (encoded_route r) = Done (plain_msg r)" and "deserializeRoute (encoded_route r) = Done (Inr r)"
  using deserializeRoute_data [OF plain_attrs_small [OF assms] plain_route_decode [OF assms]]
  by (simp_all add: encoded_route_def plain_route_data [OF assms] rm_codec.dec_enc)

lemma route_ignored_plain:
  assumes "plain_route r"
  shows "route_ignored (Some f) RT_FILTER_DST (plain_msg r) \<longleftrightarrow> bit (rt_Flags r) 9 \<or> rt_Table r \<noteq> 254"
proof -
  have "rm_Flags (plain_msg r) AND 2 ^ 9 = 0 \<longleftrightarrow> \<not> bit (rt_Flags r) 9"
    by (simp add: plain_msg_def and_exp_eq_0_iff_not_bit bit_simps del: power_numeral)
  moreover have "rm_Table (plain_msg r) = 254 \<longleftrightarrow> rt_Table r = 254"
  proof
    assume a: "rm_Table (plain_msg r) = 254"
    then show "rt_Table r = 254"
      using assms uint_of_int8 [of "rt_Table r"] by (auto simp: plain_msg_def plain_route_def split: if_splits)
  qed (simp add: plain_msg_def)
  ultimately show ?thesis by (simp add: route_ignored_def rt_filters)
qed

text \<open>The listing that looks for default routes, with the state after it.\<close>

definition default_routes :: "Route list \<Rightarrow> Route list" where
  "default_routes rs = filter (\<lambda>r. rt_Table r = 254 \<and> rt_Dst r = None \<and> \<not> bit (rt_Flags r) 9) rs"

lemma default_routes_follows:
  assumes "answered os st RTM_GETROUTE NLM_F_DUMP (route_dump family) parts 0"
    and "selected (word_of_int RTM_NEWROUTE) parts = map encoded_route rs" and "\<And>r. r \<in> set rs \<Longrightarrow> plain_route r"
  shows "\<exists>st'. nl_RouteListFiltered os extack None family (Some zeroRoute) RT_FILTER_DST st
      = Done (Inr (default_routes rs), st') \<and> follows st st'"
proof -
  define ign where "ign r \<longleftrightarrow> bit (rt_Flags r) 9 \<or> rt_Table r \<noteq> 254" for r :: Route
  have "list_all2 (\<lambda>m r. (\<exists>msg. DeserializeRtMsg m = Done msg \<and> route_ignored (Some zeroRoute) RT_FILTER_DST msg = ign r)
     \<and> deserializeRoute m = Done (Inr r)) (map encoded_route rs) rs"
    using assms(3) by (simp add: list_all2_conv_all_nth encoded_route_decode route_ignored_plain ign_def)
  from filter_routes_decoded [OF this]
  have f: "filter_routes (Some zeroRoute) RT_FILTER_DST (map encoded_route rs)
      = Done (Inr (filter (\<lambda>r. \<not> ign r \<and> rt_Dst r = None) rs))" by simp
  moreover have "(\<lambda>r. \<not> ign r \<and> rt_Dst r = None) = (\<lambda>r. rt_Table r = 254 \<and> rt_Dst r = None \<and> \<not> bit (rt_Flags r) 9)"
    by (auto simp: ign_def)
  ultimately show ?thesis
    using list_request_answered [OF assms(1), of "filter_routes (Some zeroRoute) RT_FILTER_DST" "word_of_int RTM_NEWROUTE" _ extack] assms(2)
    by (simp add: nl_RouteListFiltered_def default_routes_def)
qed

text \<open>The listing that looks for default routes: when the kernel answers the dump with the encodings of routes, in
any number of datagrams, the call returns exactly the routes of the main table that are not cloned and
have no destination, in the order of the kernel and with every field as it was encoded.\<close>

theorem default_routes_listed:
  assumes "answered os st RTM_GETROUTE NLM_F_DUMP (route_dump family) parts 0"
    and "selected (word_of_int RTM_NEWROUTE) parts = map encoded_route rs" and "\<And>r. r \<in> set rs \<Longrightarrow> plain_route r"
  shows "\<exists>st'. nl_RouteListFiltered os extack None family (Some zeroRoute) RT_FILTER_DST st
      = Done (Inr (filter (\<lambda>r. rt_Table r = 254 \<and> rt_Dst r = None \<and> \<not> bit (rt_Flags r) 9) rs), st') \<and> st_open st' = st_open st"
  using default_routes_follows [OF assms] unfolding default_routes_def follows_def by blast


text \<open>The default route by way of 10.0.0.1 on the device 2, and the route of a network in another table.\<close>

definition example_default :: Route where
  "example_default = zeroRoute\<lparr>rt_LinkIndex := 2, rt_Gw := Some [10, 0, 0, 1], rt_Protocol := 16, rt_Priority := 100, rt_Family := 2,
     rt_Table := 254, rt_Type := 1, rt_MTU := 1450, rt_Congctl := ''bbr''\<rparr>"

definition example_network :: Route where
  "example_network = zeroRoute\<lparr>rt_LinkIndex := 3, rt_Dst := Some \<lparr>ipn_IP = Some [10, 1, 0, 0], ipn_Mask = CIDRMask 16 32\<rparr>,
     rt_Src := Some [10, 1, 0, 7], rt_Protocol := 2, rt_Family := 2, rt_Table := 1000, rt_Type := 1\<rparr>"

lemma example_routes_plain: "plain_route example_default" "plain_route example_network"
  by (simp_all add: plain_route_def example_default_def example_network_def zeroRoute_def plain_dst_def plain_address_def u32_int_def
      metrics_ok_def GetIPFamily_def family_bytes_def ip_bytes_def To4_def families mask_Size_CIDRMask)

lemma example_routes_short: "r \<in> set [example_network, example_default] \<Longrightarrow> length (encoded_route r) < 60000"
  by (auto simp: encoded_route_def plain_route_data example_routes_plain)
    (simp_all add: plain_attrs_def plain_msg_def example_default_def example_network_def zeroRoute_def ip_attr_def positive_attr_def route_metrics_def
      NewRtAttr_def ip_bytes_def Uint32Attr_def ZeroTerminated_def pad4_def rtaAlignOf_eq RtMsg_Serialize_def)


lemma default_routes_listed_witness:
  "\<exists>st'. nl_RouteListFiltered (reply_os (word_of_int RTM_NEWROUTE) (map encoded_route [example_network, example_default])) False None FAMILY_V4
     (Some zeroRoute) RT_FILTER_DST idle_state = Done (Inr [example_default], st')"
proof -
  let ?rs = "[example_network, example_default]"
  have "answered (reply_os (word_of_int RTM_NEWROUTE) (map encoded_route ?rs)) idle_state RTM_GETROUTE NLM_F_DUMP (route_dump FAMILY_V4)
     (map (script_msg 1 (word_of_int RTM_NEWROUTE) NLM_F_MULTI) (map encoded_route ?rs)) 0"
    using example_routes_short by (intro reply_os_answered) (auto simp: RTM_NEWROUTE_def NLMSG_DONE_def NLMSG_ERROR_def)
  from default_routes_listed [OF this, of ?rs False] show ?thesis
    using example_routes_plain by (auto simp: script_msg_def example_default_def example_network_def zeroRoute_def)
qed

section \<open>Routes without a device, and the filter\<close>

lemma metric_attr_LinkIndex: "metric_attr a r = Done (Inr r') \<Longrightarrow> rt_LinkIndex r' = rt_LinkIndex r"
  by (auto simp: metric_attr_def Let_def split: if_splits)

lemma route_attr_LinkIndex:
  assumes "ra_Type a \<noteq> 4" and "route_attr msg a s = Done (Inr s')"
  shows "rt_LinkIndex (fst s') = rt_LinkIndex (fst s)"
proof -
  have m: "rt_LinkIndex r' = rt_LinkIndex r" if "each_datum metric_attr as r = Done (Inr r')" for as r r'
    using each_datum_keeps [where f = rt_LinkIndex, OF metric_attr_LinkIndex that] by simp
  have d: "rt_LinkIndex r' = rt_LinkIndex r" if "dst_attr msg v r = Inr r'" for v r r'
    using that by (auto simp: dst_attr_def split: if_splits option.splits list.splits)
  show ?thesis
    using assms(2) assms(1) unfolding route_attr_def Let_def case_prod_unfold
    by (simp split: if_split_asm) (auto dest: m d)
qed

text \<open>
  A message without \<open>RTA_OIF\<close> leaves the device at 0. The kernel sends a route with several next hops
  that way: their devices are in \<open>RTA_MULTIPATH\<close>.
\<close>

lemma no_oif_device:
  assumes "deserializeRoute m = Done (Inr r)" and "parse_attrs (drop SizeofRtMsg m) = Done (Inr as)"
    and "\<And>a. a \<in> set as \<Longrightarrow> ra_Type a \<noteq> 4"
  shows "rt_LinkIndex r = 0"
proof -
  let ?tail = "\<lambda>(r1, e, t). if e \<noteq> [] \<and> t \<noteq> []
      then obind (value_u16 t) (\<lambda>typ. rbind (encap_Decode (uint typ) e) (\<lambda>e. Done (Inr (r1\<lparr>rt_Encap := e\<rparr>)))) else Done (Inr r1)"
  from assms(1) obtain msg where "rbind (each_datum (route_attr msg) as (route_base msg, [], [])) ?tail = Done (Inr r)"
    unfolding deserializeRoute_def by (auto simp only: obind_Done_iff assms(2) rbind_simps)
  then obtain r1 e t where s: "each_datum (route_attr msg) as (route_base msg, [], []) = Done (Inr (r1, e, t))" and tail: "?tail (r1, e, t) = Done (Inr r)"
    unfolding rbind_Inr_iff split_paired_Ex by blast
  from tail have "rt_LinkIndex r = rt_LinkIndex r1" by (auto split: if_split_asm)
  also have "\<dots> = rt_LinkIndex (fst (route_base msg, [], []))"
    using each_datum_keeps [where f = "\<lambda>s. rt_LinkIndex (fst s)", OF route_attr_LinkIndex [OF assms(3)] s] by simp
  finally show ?thesis by (simp add: route_base_def zeroRoute_def)
qed

text \<open>With the bit of the destination set, the hop limit of the filter makes no difference.\<close>

lemma hoplimit_not_compared:
  assumes "fmask AND RT_FILTER_DST \<noteq> 0"
  shows "route_skipped f fmask (r\<lparr>rt_Hoplimit := x\<rparr>) = route_skipped f fmask (r\<lparr>rt_Hoplimit := y\<rparr>)"
  using assms by (simp add: route_skipped_def Let_def)

end
