(* ===== verification/AlgMain.thy ===== *)
theory AlgMain
  imports AlgProc TcNetlink NlRouteProps
begin

text \<open>
  Start-up and shutdown of the alg-daemon, \<open>cmd/alg-daemon/main.go\<close>, with the lookup of the host
  NIC and its speed, \<open>cmd/daemon/common/lib.go\<close>. The host is reached through the netlink calls
  and the shell of \<open>TcNetlink\<close>, the file system and the environment variables.
\<close>

section \<open>The host NIC\<close>

datatype 'e nic_error = ListRoutesErr 'e | NoDefaultRoute int | LinkIndexErr 'e | ReadSpeedErr 'e | ParseSpeedErr num_error

text \<open>The loop only decides whether a warning about several devices is printed.\<close>

fun routes_differ :: "int \<Rightarrow> Route list \<Rightarrow> bool" where
  "routes_differ linkIndex [] = False"
| "routes_differ linkIndex (route # routes) =
     (if linkIndex \<noteq> 0 \<and> linkIndex \<noteq> rt_LinkIndex route then True else routes_differ (rt_LinkIndex route) routes)"

text \<open>The answer of \<open>RouteListFiltered\<close>, the warning, the first route.\<close>

definition lookupDefaultRoute :: "(int \<Rightarrow> 'e + Route list) \<Rightarrow> int \<Rightarrow> 'e nic_error + bool \<times> Route" where
  "lookupDefaultRoute RouteListFiltered family =
     (case RouteListFiltered family of
        Inl e \<Rightarrow> Inl (ListRoutesErr e)
      | Inr routes \<Rightarrow>
          (case routes of
             [] \<Rightarrow> Inl (NoDefaultRoute family)
           | route # _ \<Rightarrow> Inr (routes_differ 0 routes, route)))"

definition GetMasterIntf :: "(int \<Rightarrow> 'e + Route list) \<Rightarrow> (int \<Rightarrow> 'e + nl_link) \<Rightarrow> 'e nic_error + string" where
  "GetMasterIntf RouteListFiltered LinkByIndex =
     (case lookupDefaultRoute RouteListFiltered FAMILY_V4 of
        Inl e \<Rightarrow> Inl e
      | Inr (_, route) \<Rightarrow>
          (case LinkByIndex (rt_LinkIndex route) of Inl e \<Rightarrow> Inl (LinkIndexErr e) | Inr link \<Rightarrow> Inr (link_Name link)))"

definition GetNetworkInterfaceSpeed :: "(string \<Rightarrow> 'e + string) \<Rightarrow> string \<Rightarrow> 'e nic_error + u64" where
  "GetNetworkInterfaceSpeed ReadFile interfaceName =
     (case ReadFile (''/sys/class/net/'' @ interfaceName @ ''/speed'') of
        Inl e \<Rightarrow> Inl (ReadSpeedErr e)
      | Inr content \<Rightarrow>
          (case ParseUint (TrimSpace content) 64 of Inl e \<Rightarrow> Inl (ParseSpeedErr e) | Inr speed \<Rightarrow> Inr (of_nat speed)))"

section \<open>Parameters\<close>

definition DefaultInterval :: int where "DefaultInterval = 100"
definition DefaultPercent :: int where "DefaultPercent = 10"
definition DefaultRatio :: f64 where "DefaultRatio = Fin 6305039478318694 (- 53)"
definition DefaultPace :: int where "DefaultPace = 10"
definition IfbName :: string where "IfbName = ''bwmifb0''"
definition MinBandwidth :: int where "MinBandwidth = 10"
definition alg_PerMB :: int where "alg_PerMB = 1024 * 1024 div 8"

lemmas alg_consts = DefaultInterval_def DefaultPercent_def DefaultRatio_def DefaultPace_def IfbName_def MinBandwidth_def alg_PerMB_def

text \<open>An unset variable reads as the empty string; a value outside its range is replaced by the default.\<close>

definition env_int :: "(string \<Rightarrow> string) \<Rightarrow> string \<Rightarrow> int \<Rightarrow> (int \<Rightarrow> bool) \<Rightarrow> num_error + int" where
  "env_int Getenv name dflt invalid =
     (let v = Getenv name
      in if v \<noteq> [] then (case Atoi v of Inl e \<Rightarrow> Inl e | Inr i \<Rightarrow> Inr (if invalid i then dflt else i)) else Inr dflt)"

text \<open>Comparison of doubles: false when one of them is not a number. The bounds are 0.5 and 0.9.\<close>

definition fle :: "f64 \<Rightarrow> f64 \<Rightarrow> bool" where
  "fle x y \<longleftrightarrow> x \<noteq> FNaN \<and> y \<noteq> FNaN \<and> \<not> flt y x"

definition ratio_low :: f64 where "ratio_low = Fin 1 (- 1)"
definition ratio_high :: f64 where "ratio_high = Fin 8106479329266893 (- 53)"

definition env_ratio :: "(string \<Rightarrow> string) \<Rightarrow> (string \<Rightarrow> num_error + f64) \<Rightarrow> num_error + f64" where
  "env_ratio Getenv ParseFloat =
     (let v = Getenv ''BwReferRatio''
      in if v \<noteq> [] then (case ParseFloat v of
                 Inl e \<Rightarrow> Inl e
               | Inr r \<Rightarrow> Inr (if fle r ratio_low \<or> flt ratio_high r then DefaultRatio else r))
         else Inr DefaultRatio)"

section \<open>The run\<close>

text \<open>
  Everything outside the process: routes and links, files, the environment, the conversion of
  decimal text to doubles, the kernel calls, the number of processors and the pinned maps.
\<close>

record ('h, 'e, 'c, 's, 'i) alg_world =
  w_Routes :: "int \<Rightarrow> 'e + Route list"
  w_LinkByIndex :: "int \<Rightarrow> 'e + nl_link"
  w_ReadFile :: "string \<Rightarrow> 'e + string"
  w_Getenv :: "string \<Rightarrow> string"
  w_ParseFloat :: "string \<Rightarrow> num_error + f64"
  w_Netlink :: "('h, 'e) netlink_ops"
  w_Shell :: "('h, 'e) shell"
  w_Netns :: "('h, 'e) with_netns"
  w_Custom :: string
  w_NumCPU :: int
  w_NewTcbpf :: "'h \<Rightarrow> (string \<times> errno) + ('c, 's, 'i) Tcbpf"
  w_Ebpf :: "('c, 's, 'i) ebpf_ops"

datatype 'e alg_error = HostNicErr "'e nic_error" | SpeedErr "'e nic_error" | IntervalErr num_error
  | EnableEgressErr "'e dev_error" | EnableIngressErr "'e tc_error" | InitMapsErr "string \<times> errno" | PercentErr num_error
  | MinBandwidthErr num_error | PaceErr num_error | RatioErr num_error | Cancelled

text \<open>A started goroutine: the process data it works on and the arguments of \<open>Run\<close>.\<close>

record ('c, 's, 'i) run_call =
  rc_proc :: "('c, 's, 'i) DaemonProc"
  rc_direction :: string
  rc_minBandwidth :: u64
  rc_pace :: int
  rc_ratio :: f64

text \<open>
  The speed of the NIC: the file, else the environment. A value that is not a number there ends the
  run with the error of the file, because the error of the conversion is a new variable.
\<close>

definition host_speed :: "('h, 'e, 'c, 's, 'i) alg_world \<Rightarrow> string \<Rightarrow> 'e alg_error + u64" where
  "host_speed w HostNICName =
     (case GetNetworkInterfaceSpeed (w_ReadFile w) HostNICName of
        Inr speed \<Rightarrow> Inr speed
      | Inl e \<Rightarrow>
         (let speed = w_Getenv w ''HostNICSpeed''
          in if speed \<noteq> [] then (case Atoi speed of Inl _ \<Rightarrow> Inl (SpeedErr e) | Inr speedInt \<Rightarrow> Inr (word_of_int speedInt))
             else Inl (SpeedErr e)))"

text \<open>The part after the maps are opened; its result is the error sent and the goroutines started.\<close>

definition alg_configure ::
  "('h, 'e, 'c, 's, 'i) alg_world \<Rightarrow> u64 \<Rightarrow> int \<Rightarrow> ('c, 's, 'i) Tcbpf \<Rightarrow>
   'e alg_error \<times> ('c, 's, 'i) run_call list \<times> ('c, 's, 'i) Tcbpf" where
  "alg_configure w hostNICSpeed intervalInt edtBpf =
     (let totalBandWidth = hostNICSpeed * 1024 * 1024 div 8 in
      case env_int (w_Getenv w) ''DefaultFlowBwPercent'' DefaultPercent (\<lambda>i. i \<le> 0 \<or> i > 50) of
        Inl e \<Rightarrow> (PercentErr e, [], edtBpf)
      | Inr percentInt \<Rightarrow>
      let DefaultFlowConfig = \<lparr>BandWidthRequestM = hostNICSpeed div word_of_int percentInt, BandWidthLimitM = hostNICSpeed,
            qos_Priority = 0\<rparr>;
          edtBpf = AddEgressConfig (w_Ebpf w) 0 DefaultFlowConfig (AddIngressConfig (w_Ebpf w) 0 DefaultFlowConfig edtBpf);
          daemonProcess = NewDaemonProc totalBandWidth totalBandWidth (word_of_int intervalInt) edtBpf
      in case env_int (w_Getenv w) ''MinBandwidth'' MinBandwidth (\<lambda>i. i \<le> 1 \<or> i > 50) of
        Inl e \<Rightarrow> (MinBandwidthErr e, [], edtBpf)
      | Inr minBandwidthInt \<Rightarrow>
     (case env_int (w_Getenv w) ''BwAdjustPace'' DefaultPace (\<lambda>i. i \<le> 0 \<or> minBandwidthInt > 50) of
        Inl e \<Rightarrow> (PaceErr e, [], edtBpf)
      | Inr paceInt \<Rightarrow>
     (case env_ratio (w_Getenv w) (w_ParseFloat w) of
        Inl e \<Rightarrow> (RatioErr e, [], edtBpf)
      | Inr ratioFloat \<Rightarrow>
         let call = (\<lambda>direction. \<lparr>rc_proc = daemonProcess, rc_direction = direction,
               rc_minBandwidth = word_of_int (minBandwidthInt * alg_PerMB), rc_pace = paceInt, rc_ratio = ratioFloat\<rparr>)
         in (Cancelled, [call ''egress'', call ''ingress''], edtBpf))))"

text \<open>
  \<open>runAlg\<close> until it returns, which after a complete start is when its context is cancelled. The
  deferred calls run in reverse order of their registration; their errors are logged. The result
  is the error sent on the channel, the goroutines started, the maps as they were left and the host.
\<close>

definition runAlg ::
  "('h, 'e, 'c, 's, 'i) alg_world \<Rightarrow> 'h \<Rightarrow>
   'e alg_error \<times> ('c, 's, 'i) run_call list \<times> ('c, 's, 'i) Tcbpf option \<times> 'h" where
  "runAlg w h =
     (case GetMasterIntf (w_Routes w) (w_LinkByIndex w) of
        Inl e \<Rightarrow> (HostNicErr e, [], None, h)
      | Inr HostNICName \<Rightarrow>
     (case host_speed w HostNICName of
        Inl e \<Rightarrow> (e, [], None, h)
      | Inr hostNICSpeed \<Rightarrow>
     (case env_int (w_Getenv w) ''BwAdjustInterval'' DefaultInterval (\<lambda>i. i < 20 \<or> i > 1000) of
        Inl e \<Rightarrow> (IntervalErr e, [], None, h)
      | Inr intervalInt \<Rightarrow>
     (case EnableDevQos (w_Shell w) (w_Netns w) HostNICName [] EgressBpfSection h of
        (Some e, h) \<Rightarrow> (EnableEgressErr e, [], None, h)
      | (None, h) \<Rightarrow>
     (let disableEgress = (\<lambda>h. snd (DisableDevQos (w_Shell w) (w_Netns w) HostNICName [] h))
      in case EnableIngressQos (w_Netlink w) (w_Shell w) (w_Netns w) (w_Custom w) (w_NumCPU w) HostNICName IfbName h of
        (Some e, h) \<Rightarrow> (EnableIngressErr e, [], None, disableEgress h)
      | (None, h) \<Rightarrow>
     (let disableIngress = (\<lambda>h. snd (DisableIngressQos (w_Netlink w) (w_Shell w) (w_Netns w) HostNICName IfbName h))
      in case w_NewTcbpf w h of
        Inl e \<Rightarrow> (InitMapsErr e, [], None, disableEgress (disableIngress h))
      | Inr edtBpf \<Rightarrow>
          let (e, calls, edtBpf) = alg_configure w hostNICSpeed intervalInt edtBpf
          in (e, calls, Some edtBpf, disableEgress (disableIngress h))))))))"

section \<open>Properties\<close>

lemma env_int_cases:
  assumes "env_int G name dflt invalid = Inr i"
  shows "i = dflt \<or> \<not> invalid i"
  using assms by (auto simp: env_int_def Let_def split: if_splits sum.splits)

lemma flt_default: "flt ratio_low DefaultRatio" "\<not> flt ratio_high DefaultRatio"
  by (simp_all add: ratio_low_def ratio_high_def DefaultRatio_def flt.simps)

lemma env_ratio_range:
  assumes "env_ratio G P = Inr r"
  shows "r = FNaN \<or> flt ratio_low r \<and> \<not> flt ratio_high r"
proof -
  have "flt ratio_low r" if "\<not> fle r ratio_low" "r \<noteq> FNaN" using that by (auto simp: fle_def ratio_low_def)
  then show ?thesis using assms flt_default by (auto simp: env_ratio_def Let_def split: if_splits sum.splits)
qed

lemma configured_calls:
  assumes "alg_configure w speed i t = (e, calls, t')" and "c \<in> set calls"
  obtains m where "e = Cancelled" "rc_direction c = ''egress'' \<or> rc_direction c = ''ingress''" "2 \<le> m" "m \<le> 50"
    "rc_minBandwidth c = word_of_int (m * alg_PerMB)" "1 \<le> rc_pace c"
    "rc_ratio c = FNaN \<or> flt ratio_low (rc_ratio c) \<and> \<not> flt ratio_high (rc_ratio c)" "alg_Interval (rc_proc c) = word_of_int i"
proof -
  from assms obtain p m pc r where m: "env_int (w_Getenv w) ''MinBandwidth'' MinBandwidth (\<lambda>i. i \<le> 1 \<or> i > 50) = Inr m"
    and pc: "env_int (w_Getenv w) ''BwAdjustPace'' DefaultPace (\<lambda>i. i \<le> 0 \<or> m > 50) = Inr pc"
    and r: "env_ratio (w_Getenv w) (w_ParseFloat w) = Inr r" and e: "e = Cancelled"
    and c: "rc_direction c = ''egress'' \<or> rc_direction c = ''ingress''" "rc_minBandwidth c = word_of_int (m * alg_PerMB)" "rc_pace c = pc"
      "rc_ratio c = r" "alg_Interval (rc_proc c) = word_of_int i"
    by (auto simp: alg_configure_def Let_def NewDaemonProc_def split: sum.splits)
  have "2 \<le> m" "m \<le> 50" using env_int_cases [OF m] by (auto simp: MinBandwidth_def)
  moreover have "1 \<le> pc" using env_int_cases [OF pc] by (auto simp: DefaultPace_def)
  ultimately show ?thesis using that [of m] e c env_ratio_range [OF r] by simp
qed

lemma runAlg_calls:
  assumes "runAlg w h = (e, calls, t, h')" and "c \<in> set calls"
  obtains speed i u u' where "alg_configure w speed i u = (e, calls, u')" "20 \<le> i" "i \<le> 1000"
proof -
  from assms obtain speed i u u' where a: "alg_configure w speed i u = (e, calls, u')"
    "env_int (w_Getenv w) ''BwAdjustInterval'' DefaultInterval (\<lambda>i. i < 20 \<or> i > 1000) = Inr i"
    by (auto simp: runAlg_def Let_def split: sum.splits prod.splits option.splits)
  have "20 \<le> i" "i \<le> 1000" using env_int_cases [OF a(2)] by (auto simp: DefaultInterval_def)
  with a(1) show ?thesis by (rule that)
qed


context tc_tool
begin

lemma disable_always: "cmd_word d \<Longrightarrow> prog (snd (DisableDevQos sh W d [] h)) d = None"
  using disable_detaches [of d h _ W] disable_absent [of d h W] by (cases "prog h d") fastforce+

end

text \<open>C21: However the alg-daemon ends after it has attached the egress program to the NIC, by an error of
  a later step or because it is told to stop, the program is no longer attached when it has returned.\<close>

theorem runAlg_detaches:
  assumes "tc_tool (w_Shell w) prog" and "GetMasterIntf (w_Routes w) (w_LinkByIndex w) = Inr nic" and "cmd_word nic"
    and "runAlg w h = (e, calls, t, h')"
    and "e \<notin> range SpeedErr \<union> range IntervalErr \<union> range EnableEgressErr"
  shows "prog h' nic = None"
proof -
  note off = tc_tool.disable_always [OF assms(1,3)]
  have "\<exists>k. h' = snd (DisableDevQos (w_Shell w) (w_Netns w) nic [] k)"
    using assms(4,5)
    by (auto simp: runAlg_def assms(2) host_speed_def Let_def split: sum.splits prod.splits option.splits if_splits)
  then show ?thesis using off by auto
qed

definition example_world ::
  "(kernel, unit, u32 \<Rightarrow> TcEdtThrottleCfg, u32 \<Rightarrow> TcEdtThrottleStat, TcEdtIdKey \<rightharpoonup> u32) alg_world" where
  "example_world = \<lparr>w_Routes = (\<lambda>family. Inr [zeroRoute\<lparr>rt_LinkIndex := 1\<rparr>]), w_LinkByIndex = (\<lambda>i. Inr example_nic),
     w_ReadFile = (\<lambda>path. Inl ()), w_Getenv = (\<lambda>v. if v = ''HostNICSpeed'' then FormatUint 1000 else []),
     w_ParseFloat = (\<lambda>s. Inl ErrSyntax), w_Netlink = kernel_netlink, w_Shell = kernel_shell, w_Netns = no_netns,
     w_Custom = '''', w_NumCPU = 4, w_NewTcbpf = (\<lambda>h. Inr example_tcbpf), w_Ebpf = kernel_ops\<rparr>"

lemma example_run:
  obtains c d t h' where "runAlg example_world example_kernel = (Cancelled, [c, d], Some t, h')"
    and "GetMasterIntf (w_Routes example_world) (w_LinkByIndex example_world) = Inr ''eth0''"
proof -
  have m: "GetMasterIntf (w_Routes example_world) (w_LinkByIndex example_world) = Inr ''eth0''"
    by (simp add: GetMasterIntf_def lookupDefaultRoute_def example_world_def example_nic_def zeroLinkAttrs_def)
  have s: "host_speed example_world ''eth0'' = Inr 1000"
    by (simp add: host_speed_def GetNetworkInterfaceSpeed_def example_world_def Atoi_Format Let_def)
  have g: "env_int (w_Getenv example_world) v d b = Inr d" if "v \<noteq> ''HostNICSpeed''" for v d b
    using that by (simp add: env_int_def example_world_def Let_def)
  have r: "env_ratio (w_Getenv example_world) P = Inr DefaultRatio" for P by (simp add: env_ratio_def example_world_def Let_def)
  define h1 where "h1 = snd (EnableDevQos kernel_shell no_netns ''eth0'' [] EgressBpfSection example_kernel)"
  have e: "EnableDevQos kernel_shell no_netns ''eth0'' [] EgressBpfSection example_kernel = (None, h1)"
    unfolding h1_def by (simp add: EnableDevQos_def doCmd_def enable_cmds_def kernel_shell_def host_shell_def example_kernel_def EdtBpfProgPath_def EgressBpfSection_def Let_def)
  have "kn_devs h1 = [Some example_nic]" "kn_filters h1 = (\<lambda>i. [])"
    unfolding h1_def by (simp_all add: EnableDevQos_def doCmd_def enable_cmds_def kernel_shell_def host_shell_def example_kernel_def EdtBpfProgPath_def EgressBpfSection_def Let_def)
  then obtain h2 where i: "EnableIngressQos kernel_netlink kernel_shell no_netns '''' 4 ''eth0'' ''bwmifb0'' h1 = (None, h2)"
    by (rule enable_one_nic)
  have f: "w_Shell example_world = kernel_shell" "w_Netns example_world = no_netns" "w_Netlink example_world = kernel_netlink"
    "w_Custom example_world = ''''" "w_NumCPU example_world = 4" "w_NewTcbpf example_world = (\<lambda>h. Inr example_tcbpf)"
    by (simp_all add: example_world_def)
  have "\<exists>c d t h'. runAlg example_world example_kernel = (Cancelled, [c, d], Some t, h')"
    by (simp add: runAlg_def m s g f e i IfbName_def alg_configure_def r Let_def)
  then show ?thesis using m that by blast
qed


theorem runAlg_detaches_witness:
  "\<exists>calls t h'. runAlg example_world example_kernel = (Cancelled, calls, t, h') \<and> host_prog (kn_host h') ''eth0'' = None"
proof -
  obtain c d t h' where r: "runAlg example_world example_kernel = (Cancelled, [c, d], Some t, h')"
    and m: "GetMasterIntf (w_Routes example_world) (w_LinkByIndex example_world) = Inr ''eth0''" by (rule example_run)
  have "tc_tool (w_Shell example_world) (\<lambda>h. host_prog (kn_host h))" using kernel_tc by (simp add: example_world_def)
  from runAlg_detaches [OF this m _ r] r show ?thesis by (auto simp: cmd_word_def)
qed

end
