(* ===== verification/CniPlugin.thy ===== *)
theory CniPlugin
  imports RpcServer Netlink_Types
begin

text \<open>
  The CNI plugin, \<open>cmd/cni-plugin\<close>: it is run by the container runtime after the other plugins
  when a pod's network is added or deleted, finds the pod's veth pair and sends a request to the
  node daemon over the socket of \<open>pkg/rpc/cnirpc.go\<close>. The CNI library, the network namespaces and
  the connection are arguments.
\<close>

section \<open>Arguments of a call\<close>

record CmdArgs =
  arg_ContainerID :: string
  arg_Netns :: string
  arg_Args :: string
  arg_StdinData :: string

record ('raw, 'res) NetConf =
  nc_CNIVersion :: string
  nc_RawPrevResult :: "'raw option"
  nc_PrevResult :: "'res option"
  nc_Log_level :: string

record ArgsSpec =
  K8S_POD_NAME :: string
  K8S_POD_NAMESPACE :: string

text \<open>
  What is used of \<open>encoding/json\<close> and of the CNI library; \<open>cni_ParsePrevResult\<close> works on the network
  configuration in place, and \<open>cni_PrintResult\<close> may panic on a nil result.
\<close>

record ('raw, 'res, 'x) cni_lib =
  cni_Unmarshal :: "string \<Rightarrow> 'x + ('raw, 'res) NetConf"
  cni_Marshal :: "'raw \<Rightarrow> 'x + string"
  cni_NewResult :: "string \<Rightarrow> string \<Rightarrow> 'x + 'res"
  cni_NewResultFromResult :: "'res \<Rightarrow> 'x + 'res"
  cni_ParsePrevResult :: "('raw, 'res) NetConf \<Rightarrow> 'x + ('raw, 'res) NetConf"
  cni_LoadArgs :: "string \<Rightarrow> 'x + ArgsSpec"
  cni_PrintResult :: "'res option \<Rightarrow> string \<Rightarrow> 'x option outcome"

datatype 'x arg_error = SerializePrevErr 'x | ParsePrevErr 'x | ConvertPrevErr 'x | LoadNetConfErr 'x
  | ParseConfErr string "'x arg_error" | NetConfigErr 'x | PrevResultErr 'x | CniArgsErr 'x

definition parsePrevResult ::
  "('raw, 'res, 'x) cni_lib \<Rightarrow> ('raw, 'res) NetConf \<Rightarrow> 'x arg_error + ('raw, 'res) NetConf" where
  "parsePrevResult L n =
     (case nc_RawPrevResult n of
        None \<Rightarrow> Inr n
      | Some raw \<Rightarrow>
     (case cni_Marshal L raw of
        Inl e \<Rightarrow> Inl (SerializePrevErr e)
      | Inr resultBytes \<Rightarrow>
     (case cni_NewResult L (nc_CNIVersion n) resultBytes of
        Inl e \<Rightarrow> Inl (ParsePrevErr e)
      | Inr res \<Rightarrow>
     (case cni_NewResultFromResult L res of
        Inl e \<Rightarrow> Inl (ConvertPrevErr e)
      | Inr prev \<Rightarrow> Inr (n\<lparr>nc_PrevResult := Some prev\<rparr>)))))"

definition loadNetConf :: "('raw, 'res, 'x) cni_lib \<Rightarrow> string \<Rightarrow> 'x arg_error + ('raw, 'res) NetConf" where
  "loadNetConf L bytes =
     (case cni_Unmarshal L bytes of Inl e \<Rightarrow> Inl (LoadNetConfErr e) | Inr n \<Rightarrow> parsePrevResult L n)"

definition ParseArgs ::
  "('raw, 'res, 'x) cni_lib \<Rightarrow> CmdArgs \<Rightarrow> 'x arg_error + (('raw, 'res) NetConf \<times> 'res option \<times> ArgsSpec)" where
  "ParseArgs L args =
     (case loadNetConf L (arg_StdinData args) of
        Inl e \<Rightarrow> Inl (ParseConfErr (arg_StdinData args) e)
      | Inr n \<Rightarrow>
     (case cni_ParsePrevResult L n of
        Inl e \<Rightarrow> Inl (NetConfigErr e)
      | Inr n \<Rightarrow>
     (case (case nc_PrevResult n of None \<Rightarrow> Inr None | Some r \<Rightarrow> map_sum id Some (cni_NewResultFromResult L r)) of
        Inl e \<Rightarrow> Inl (PrevResultErr e)
      | Inr prevRes \<Rightarrow>
     (case cni_LoadArgs L (arg_Args args) of
        Inl e \<Rightarrow> Inl (CniArgsErr e)
      | Inr cniArgs \<Rightarrow> Inr (n, prevRes, cniArgs)))))"

text \<open>\<open>SetLogLevel\<close>: the level of the logger, \<open>logrus.ParseLevel\<close> being an argument.\<close>

definition defaultLogLevel :: nat where "defaultLogLevel = 4"

definition SetLogLevel :: "(string \<Rightarrow> 'x + nat) \<Rightarrow> string \<Rightarrow> nat" where
  "SetLogLevel ParseLevel levelStr = (case ParseLevel levelStr of Inl _ \<Rightarrow> defaultLogLevel | Inr level \<Rightarrow> level)"

section \<open>The veth pair\<close>

record VethPeer =
  VethHostMac :: string
  VethHostName :: string
  VethLXCMac :: string
  VethLXCName :: string
  VethIP :: string
  VethIPv6 :: string
  VethHostIdx :: int

definition zeroVethPeer :: VethPeer where
  "zeroVethPeer = \<lparr>VethHostMac = [], VethHostName = [], VethLXCMac = [], VethLXCName = [], VethIP = [], VethIPv6 = [], VethHostIdx = 0\<rparr>"

text \<open>\<open>net.HardwareAddr.String\<close>: lower-case hexadecimal bytes separated by colons.\<close>

definition hex_digit :: "nat \<Rightarrow> char" where
  "hex_digit d = ''0123456789abcdef'' ! d"

definition hw_String :: "bytes \<Rightarrow> string" where
  "hw_String a = Join (map (\<lambda>b. [hex_digit (unat b div 16), hex_digit (unat b mod 16)]) a) '':''"

text \<open>
  Namespaces and the netlink calls made in them; an address is given by its printed form.
\<close>

record ('ns, 'x) ns_ops =
  ns_GetNS :: "string \<Rightarrow> 'x + 'ns"
  ns_Enter :: "'ns \<Rightarrow> 'x option"
  ns_LinkList :: "'ns \<Rightarrow> 'x + nl_link list"
  ns_VethPeerIndex :: "'ns \<Rightarrow> LinkAttrs \<Rightarrow> 'x + int"
  ns_AddrList :: "'ns \<Rightarrow> nl_link \<Rightarrow> int \<Rightarrow> 'x + string list"
  ns_LinkByIndex :: "int \<Rightarrow> 'x + nl_link"

datatype 'x veth_error = OpenNetnsErr string 'x | EnterErr 'x | NotVeth | PeerIndexErr 'x | NoLinkFound
  | PeerLookupErr int 'x | NoHostName | NoLXCMac | NoIP | NoHostIdx

definition first_addr :: "'x + string list \<Rightarrow> string" where
  "first_addr r = (case r of Inl _ \<Rightarrow> [] | Inr [] \<Rightarrow> [] | Inr (a # _) \<Rightarrow> a)"

text \<open>What the function executed in the namespace leaves in the captured variables.\<close>

record veth_vars =
  vv_LXCMac :: string
  vv_LXCName :: string
  vv_peerIndex :: int
  vv_IP :: string
  vv_IPv6 :: string

definition zero_vars :: veth_vars where
  "zero_vars = \<lparr>vv_LXCMac = [], vv_LXCName = [], vv_peerIndex = 0, vv_IP = [], vv_IPv6 = []\<rparr>"

fun scan_links :: "('ns, 'x) ns_ops \<Rightarrow> 'ns \<Rightarrow> nl_link list \<Rightarrow> 'x veth_error + veth_vars" where
  "scan_links V ns [] = Inl NoLinkFound"
| "scan_links V ns (link # links) =
     (if link_Type link \<noteq> ''veth'' then scan_links V ns links
      else case link of
             Veth a x \<Rightarrow>
               (case ns_VethPeerIndex V ns a of
                  Inl e \<Rightarrow> Inl (PeerIndexErr e)
                | Inr peerIndex \<Rightarrow>
                    Inr \<lparr>vv_LXCMac = hw_String (ip_bytes (la_HardwareAddr a)), vv_LXCName = la_Name a, vv_peerIndex = peerIndex,
                         vv_IP = first_addr (ns_AddrList V ns link 2), vv_IPv6 = first_addr (ns_AddrList V ns link 10)\<rparr>)
           | _ \<Rightarrow> Inl NotVeth)"

text \<open>A failing \<open>LinkList\<close> ends the function without an error and without values.\<close>

definition veth_in_ns :: "('ns, 'x) ns_ops \<Rightarrow> 'ns \<Rightarrow> 'x veth_error + veth_vars" where
  "veth_in_ns V ns =
     (case ns_Enter V ns of
        Some e \<Rightarrow> Inl (EnterErr e)
      | None \<Rightarrow> (case ns_LinkList V ns of Inl _ \<Rightarrow> Inr zero_vars | Inr links \<Rightarrow> scan_links V ns links))"

text \<open>The result from the variables and the attributes of the link on the host.\<close>

definition peer_info :: "veth_vars \<Rightarrow> LinkAttrs \<Rightarrow> 'x veth_error + VethPeer" where
  "peer_info v a =
     (if la_Name a = [] then Inl NoHostName
      else if vv_LXCMac v = [] then Inl NoLXCMac
      else if vv_IP v = [] \<and> vv_IPv6 v = [] then Inl NoIP
      else if la_Index a = 0 then Inl NoHostIdx
      else Inr \<lparr>VethHostMac = hw_String (ip_bytes (la_HardwareAddr a)), VethHostName = la_Name a, VethLXCMac = vv_LXCMac v,
                VethLXCName = vv_LXCName v, VethIP = vv_IP v, VethIPv6 = vv_IPv6 v, VethHostIdx = la_Index a\<rparr>)"

definition GetVethPeerInfo :: "('ns, 'x) ns_ops \<Rightarrow> string \<Rightarrow> 'x veth_error + VethPeer" where
  "GetVethPeerInfo V nspath =
     (case ns_GetNS V nspath of
        Inl e \<Rightarrow> Inl (OpenNetnsErr nspath e)
      | Inr netNs \<Rightarrow>
     (case veth_in_ns V netNs of
        Inl e \<Rightarrow> Inl e
      | Inr v \<Rightarrow>
     (case ns_LinkByIndex V (vv_peerIndex v) of
        Inl e \<Rightarrow> Inl (PeerLookupErr (vv_peerIndex v) e)
      | Inr peer \<Rightarrow> peer_info v (link_Attrs peer))))"

section \<open>The connection\<close>

definition NetQosSocketPath :: string where "NetQosSocketPath = ''/var/run/bwm/netqos.socket''"

text \<open>
  \<open>dial\<close> is \<open>grpc.DialContext\<close> on the socket; a connection is used for calls \<open>call\<close>, which change the
  state of the daemon and give the reply or an error of the transport.
\<close>

type_synonym ('req, 'rep, 'g, 'st) rpc_call = "'req \<Rightarrow> 'st \<Rightarrow> ('g + 'rep) \<times> 'st"

datatype 'g rpc_client_error = DialErr string 'g | SetQosCallErr string string 'g | FlowCallErr 'g

definition newRpcClient :: "(string \<Rightarrow> 'g + 'conn) \<Rightarrow> string \<Rightarrow> 'g rpc_client_error + 'conn" where
  "newRpcClient dial socketPath = (case dial socketPath of Inl e \<Rightarrow> Inl (DialErr socketPath e) | Inr grpcConn \<Rightarrow> Inr grpcConn)"

definition NewNetQosRpcClient :: "(string \<Rightarrow> 'g + 'conn) \<Rightarrow> 'g rpc_client_error + 'conn" where
  "NewNetQosRpcClient dial = newRpcClient dial NetQosSocketPath"

text \<open>The two messages have the same fields.\<close>

type_synonym UnSetQosRequest = SetQosRequest

definition client_SetQosRequest ::
  "(SetQosRequest, 'rep, 'g, 'st) rpc_call \<Rightarrow> SetQosRequest \<Rightarrow> 'st \<Rightarrow> ('g rpc_client_error + 'rep) \<times> 'st" where
  "client_SetQosRequest call setQosRequest st =
     (case call setQosRequest st of
        (Inl e, st) \<Rightarrow> (Inl (SetQosCallErr (req_K8SPodNamespace setQosRequest) (req_K8SPodName setQosRequest) e), st)
      | (Inr setQosReply, st) \<Rightarrow> (Inr setQosReply, st))"

definition client_UnSetQosRequest ::
  "(UnSetQosRequest, 'rep, 'g, 'st) rpc_call \<Rightarrow> UnSetQosRequest \<Rightarrow> 'st \<Rightarrow> ('g rpc_client_error + 'rep) \<times> 'st" where
  "client_UnSetQosRequest call unSetQosRequest st =
     (case call unSetQosRequest st of
        (Inl e, st) \<Rightarrow> (Inl (SetQosCallErr (req_K8SPodNamespace unSetQosRequest) (req_K8SPodName unSetQosRequest) e), st)
      | (Inr unSetQosReply, st) \<Rightarrow> (Inr unSetQosReply, st))"

definition SetFlowRequest ::
  "(QosFlow, 'rep, 'g, 'st) rpc_call \<Rightarrow> QosFlow \<Rightarrow> 'st \<Rightarrow> ('g rpc_client_error + 'rep) \<times> 'st" where
  "SetFlowRequest call setQosFlow st =
     (case call setQosFlow st of (Inl e, st) \<Rightarrow> (Inl (FlowCallErr e), st) | (Inr setFlowReply, st) \<Rightarrow> (Inr setFlowReply, st))"

definition UnSetFlowRequest ::
  "(QosFlow, 'rep, 'g, 'st) rpc_call \<Rightarrow> QosFlow \<Rightarrow> 'st \<Rightarrow> ('g rpc_client_error + 'rep) \<times> 'st" where
  "UnSetFlowRequest call unSetQosFlow st =
     (case call unSetQosFlow st of (Inl e, st) \<Rightarrow> (Inl (FlowCallErr e), st) | (Inr unSetFlowReply, st) \<Rightarrow> (Inr unSetFlowReply, st))"

section \<open>The commands\<close>

datatype ('x, 'g, 'r) cni_error = ArgErr CmdArgs "'x arg_error" | VethErr "'x veth_error" | ClientFailure "'g rpc_client_error"
  | RequestErr "'g rpc_client_error" | SetFailed string string 'r | PrintErr 'x

definition qos_request :: "CmdArgs \<Rightarrow> ArgsSpec \<Rightarrow> VethPeer \<Rightarrow> SetQosRequest" where
  "qos_request args argSpec vethPeer = \<lparr>req_K8SPodName = K8S_POD_NAME argSpec, req_K8SPodNamespace = K8S_POD_NAMESPACE argSpec,
     req_VethIpv4 = VethIP vethPeer, req_VethIpv6 = VethIPv6 vethPeer, req_HostMac = VethHostMac vethPeer,
     req_VethHostIdx = word_of_int (VethHostIdx vethPeer), req_VethLXCMac = VethLXCMac vethPeer,
     req_VethHostName = VethHostName vethPeer, req_VethLXCName = VethLXCName vethPeer, req_ContainerId = arg_ContainerID args,
     req_Netns = arg_Netns args\<rparr>"

definition cmdAdd ::
  "('raw, 'res, 'x) cni_lib \<Rightarrow> ('ns, 'x) ns_ops \<Rightarrow> (string \<Rightarrow> 'g + (SetQosRequest, 'j QosReply, 'g, 'st) rpc_call) \<Rightarrow> CmdArgs \<Rightarrow> 'st \<Rightarrow>
   (('x, 'g, 'j rpc_error option) cni_error option \<times> 'st) outcome" where
  "cmdAdd L V dial args st =
     (case ParseArgs L args of
        Inl e \<Rightarrow> Done (Some (ArgErr args e), st)
      | Inr (n, _, argSpec) \<Rightarrow>
     (case GetVethPeerInfo V (arg_Netns args) of
        Inl e \<Rightarrow> Done (Some (VethErr e), st)
      | Inr vethPeer \<Rightarrow>
     (case NewNetQosRpcClient dial of
        Inl e \<Rightarrow> Done (Some (ClientFailure e), st)
      | Inr cniRpcClient \<Rightarrow>
     (case client_SetQosRequest cniRpcClient (qos_request args argSpec vethPeer) st of
        (Inl e, st) \<Rightarrow> Done (Some (RequestErr e), st)
      | (Inr rep, st) \<Rightarrow>
          if \<not> rep_Success rep
          then Done (Some (SetFailed (K8S_POD_NAMESPACE argSpec) (K8S_POD_NAME argSpec) (rep_FailReason rep)), st)
          else obind (cni_PrintResult L (nc_PrevResult n) (nc_CNIVersion n)) (\<lambda>e. Done (map_option PrintErr e, st))))))"

definition cmdDel ::
  "('raw, 'res, 'x) cni_lib \<Rightarrow> ('ns, 'x) ns_ops \<Rightarrow> (string \<Rightarrow> 'g + (UnSetQosRequest, 'j QosReply, 'g, 'st) rpc_call) \<Rightarrow> CmdArgs \<Rightarrow> 'st \<Rightarrow>
   ('x, 'g, 'j rpc_error option) cni_error option \<times> 'st" where
  "cmdDel L V dial args st =
     (case ParseArgs L args of
        Inl e \<Rightarrow> (Some (ArgErr args e), st)
      | Inr (n, _, argSpec) \<Rightarrow>
         let vethPeer = (case GetVethPeerInfo V (arg_Netns args) of Inl _ \<Rightarrow> zeroVethPeer | Inr v \<Rightarrow> v)
         in case NewNetQosRpcClient dial of
              Inl e \<Rightarrow> (Some (ClientFailure e), st)
            | Inr cniRpcClient \<Rightarrow>
               (case client_UnSetQosRequest cniRpcClient (qos_request args argSpec vethPeer) st of
                  (Inl e, st) \<Rightarrow> (Some (RequestErr e), st)
                | (Inr rep, st) \<Rightarrow> (None, st)))"

section \<open>The server\<close>

text \<open>
  \<open>RunRpcServer\<close> up to the moment it serves: the directory is made, a left-over socket is removed, a
  missing one being no error, and the socket is opened. The result is the error sent on the channel, if
  any; the file mode mask it sets meanwhile is left out.
\<close>

datatype 'x serve_error = MkdirErr 'x | UnlinkErr 'x | ListenErr 'x | ServeErr 'x

record 'x serve_ops =
  so_MkdirAll :: "string \<Rightarrow> 'x option"
  so_Unlink :: "string \<Rightarrow> ('x \<times> bool) option"
  so_Listen :: "string \<Rightarrow> 'x option"
  so_Serve :: "'x option"

definition RunRpcServer :: "'x serve_ops \<Rightarrow> 'x serve_error option" where
  "RunRpcServer S =
     (case so_MkdirAll S ''/var/run/bwm'' of
        Some e \<Rightarrow> Some (MkdirErr e)
      | None \<Rightarrow>
     (case so_Unlink S NetQosSocketPath of
        Some (e, False) \<Rightarrow> Some (UnlinkErr e)
      | _ \<Rightarrow>
     (case so_Listen S NetQosSocketPath of
        Some e \<Rightarrow> Some (ListenErr e)
      | None \<Rightarrow> map_option ServeErr (so_Serve S))))"

section \<open>Calls and handlers\<close>

text \<open>
  What a gRPC connection promises: a reply without an error is the reply of the handler, which has
  been run once on the daemon's state. Nothing is promised about a call that fails.
\<close>

locale rpc_connection =
  fixes call :: "('req, 'rep, 'g, 'st) rpc_call" and handler :: "'req \<Rightarrow> 'st \<Rightarrow> ('rep \<times> 'err option \<times> 'st) outcome"
  assumes replied: "call req st = (Inr rep, st') \<Longrightarrow> handler req st = Done (rep, None, st')"
begin

lemma handled:
  assumes "case call req st of (Inl e, st') \<Rightarrow> False | (Inr r, st') \<Rightarrow> r = rep \<and> st' = st1"
  shows "handler req st = Done (rep, None, st1)"
  using assms by (intro replied) (auto split: prod.splits sum.splits)

end

text \<open>A connection that runs the handler at once and passes errors and crashes of the daemon on.\<close>

datatype 'err local_error = Status 'err | Unavailable

definition local_call :: "('req \<Rightarrow> 'st \<Rightarrow> ('rep \<times> 'err option \<times> 'st) outcome) \<Rightarrow> ('req, 'rep, 'err local_error, 'st) rpc_call" where
  "local_call handler req st =
     (case handler req st of
        Done (rep, None, st') \<Rightarrow> (Inr rep, st')
      | Done (rep, Some e, st') \<Rightarrow> (Inl (Status e), st')
      | _ \<Rightarrow> (Inl Unavailable, st))"

text \<open>\<open>UnSetQos\<close> as a handler: its error is always nil.\<close>

definition unset_handler ::
  "('c, 's, 'i) ebpf_ops \<Rightarrow> UnSetQosRequest \<Rightarrow> ('c, 's, 'i, 'k) RpcService \<Rightarrow>
   ('j QosReply \<times> 'j rpc_error option \<times> ('c, 's, 'i, 'k) RpcService) outcome" where
  "unset_handler E req st = obind (UnSetQos E (req_ContainerId req) st) (\<lambda>(rep, st'). Done (rep, None, st'))"

lemma local_connection: "rpc_connection (local_call handler) handler"
  by unfold_locales (auto simp: local_call_def split: outcome.splits prod.splits option.splits)

interpretation set_conn: rpc_connection "local_call (SetQos K J E)" "SetQos K J E"
  for K :: "('k, 'j) k8s_ops" and J :: "string \<Rightarrow> 'j + NetQosAnnotation" and E :: "('c, 's, 'i) ebpf_ops"
  by (rule local_connection)

interpretation unset_conn: rpc_connection
  "local_call (unset_handler E :: UnSetQosRequest \<Rightarrow> ('c, 's, 'i, 'k) RpcService \<Rightarrow> ('j QosReply \<times> 'j rpc_error option \<times> _) outcome)"
  "unset_handler E" for E :: "('c, 's, 'i) ebpf_ops"
  by (rule local_connection)

lemma cmdAdd_request:
  assumes "rpc_connection call handler" and "dial NetQosSocketPath = Inr call" and "cmdAdd L V dial args st = Done (None, st')"
  obtains n argSpec vethPeer rep where "GetVethPeerInfo V (arg_Netns args) = Inr vethPeer"
    "handler (qos_request args argSpec vethPeer) st = Done (rep, None, st')" "rep_Success rep"
proof -
  from assms(2,3) obtain argSpec vethPeer rep where v: "GetVethPeerInfo V (arg_Netns args) = Inr vethPeer"
    and c: "client_SetQosRequest call (qos_request args argSpec vethPeer) st = (Inr rep, st')" and r: "rep_Success rep"
    by (auto simp: cmdAdd_def NewNetQosRpcClient_def newRpcClient_def split: sum.splits prod.splits if_splits)
  have "handler (qos_request args argSpec vethPeer) st = Done (rep, None, st')"
    using c by (intro rpc_connection.handled [OF assms(1)]) (auto simp: client_SetQosRequest_def split: prod.splits sum.splits)
  with v r show ?thesis using that by blast
qed

lemma cmdDel_request:
  assumes "rpc_connection call handler" and "dial NetQosSocketPath = Inr call" and "cmdDel L V dial args st = (None, st')"
  obtains argSpec vethPeer rep where "handler (qos_request args argSpec vethPeer) st = Done (rep, None, st')"
proof -
  from assms(2,3) obtain argSpec vethPeer rep where
    c: "client_UnSetQosRequest call (qos_request args argSpec vethPeer) st = (Inr rep, st')"
    by (auto simp: cmdDel_def NewNetQosRpcClient_def newRpcClient_def Let_def split: sum.splits prod.splits)
  have "handler (qos_request args argSpec vethPeer) st = Done (rep, None, st')"
    using c by (intro rpc_connection.handled [OF assms(1)]) (auto simp: client_UnSetQosRequest_def split: prod.splits sum.splits)
  then show ?thesis using that by blast
qed


section \<open>A concrete call\<close>

definition example_cni :: "(unit, unit, unit) cni_lib" where
  "example_cni = \<lparr>cni_Unmarshal = (\<lambda>b. Inr \<lparr>nc_CNIVersion = ''1.0.0'', nc_RawPrevResult = Some (), nc_PrevResult = None, nc_Log_level = ''info''\<rparr>),
     cni_Marshal = (\<lambda>r. Inr ''''), cni_NewResult = (\<lambda>v b. Inr ()), cni_NewResultFromResult = Inr, cni_ParsePrevResult = Inr,
     cni_LoadArgs = (\<lambda>a. Inr \<lparr>K8S_POD_NAME = ''web'', K8S_POD_NAMESPACE = ''default''\<rparr>),
     cni_PrintResult = (\<lambda>r v. if r = None then Panic NilDereference else Done None)\<rparr>"

definition example_veth :: "bytes \<Rightarrow> string \<Rightarrow> int \<Rightarrow> nl_link" where
  "example_veth mac n i = Veth (zeroLinkAttrs\<lparr>la_Index := i, la_MTU := 1500, la_TxQLen := 1000, la_Name := n, la_HardwareAddr := Some mac, la_NumTxQueues := 1\<rparr>) zeroVeth"

definition example_ns :: "(unit, unit) ns_ops" where
  "example_ns = \<lparr>ns_GetNS = (\<lambda>p. Inr ()), ns_Enter = (\<lambda>ns. None),
     ns_LinkList = (\<lambda>ns. Inr [Device (link_Attrs (example_veth [] ''lo'' 1)), example_veth [2, 0, 0, 0, 0, 2] ''eth0'' 2]),
     ns_VethPeerIndex = (\<lambda>ns a. Inr 7), ns_AddrList = (\<lambda>ns l f. if f = 2 then Inr [dotted [10, 0, 0, 2]] else Inl ()),
     ns_LinkByIndex = (\<lambda>i. Inr (example_veth [2, 0, 0, 0, 0, 1] ''veth0'' i))\<rparr>"

definition example_args :: CmdArgs where
  "example_args = \<lparr>arg_ContainerID = ''c1'', arg_Netns = ''/proc/7/ns/net'', arg_Args = '''', arg_StdinData = ''''\<rparr>"

lemma dotted_neq_Nil [simp]: "dotted [a, b, c, d] \<noteq> []"
  by (simp add: dotted_def)

lemma example_peer:
  "GetVethPeerInfo example_ns p = Inr \<lparr>VethHostMac = ''02:00:00:00:00:01'', VethHostName = ''veth0'', VethLXCMac = ''02:00:00:00:00:02'',
     VethLXCName = ''eth0'', VethIP = dotted [10, 0, 0, 2], VethIPv6 = [], VethHostIdx = 7\<rparr>"
proof -
  have "hw_String [2, 0, 0, 0, 0, 1] = ''02:00:00:00:00:01''" "hw_String [2, 0, 0, 0, 0, 2] = ''02:00:00:00:00:02''"
    by (simp_all add: hw_String_def hex_digit_def)
  then show ?thesis
    by (simp add: GetVethPeerInfo_def peer_info_def veth_in_ns_def example_ns_def example_veth_def zeroLinkAttrs_def ip_bytes_def first_addr_def Let_def)
qed

lemma example_parse: "\<exists>n. ParseArgs example_cni a = Inr (n, Some (), \<lparr>K8S_POD_NAME = ''web'', K8S_POD_NAMESPACE = ''default''\<rparr>)
    \<and> nc_PrevResult n = Some ()"
  by (simp add: ParseArgs_def loadNetConf_def parsePrevResult_def example_cni_def)

lemma example_qos_request:
  "qos_request example_args \<lparr>K8S_POD_NAME = ''web'', K8S_POD_NAMESPACE = ''default''\<rparr> \<lparr>VethHostMac = ''02:00:00:00:00:01'',
     VethHostName = ''veth0'', VethLXCMac = ''02:00:00:00:00:02'', VethLXCName = ''eth0'', VethIP = dotted [10, 0, 0, 2], VethIPv6 = [],
     VethHostIdx = 7\<rparr> = example_setqos"
  by (simp add: qos_request_def example_args_def example_setqos_def)


end
