(* ===== verification/CmdCtl.thy ===== *)
theory CmdCtl
  imports CniPlugin
begin

text \<open>
  The command line tool, \<open>cmd/cmdctl\<close>: \<open>list\<close>, \<open>set\<close> and \<open>unset\<close> for single flows. A command is
  checked and turned into a request to the daemon; the connection is the one of \<open>CniPlugin\<close>.
\<close>

section \<open>Options\<close>

datatype config_error = NilOption | BadPriority string | BadRequest string | BadLimit string | PriorityRange int

text \<open>The fields are converted before the range of the priority is checked; bandwidths have no range.\<close>

definition ConvertConfig :: "string \<Rightarrow> string \<Rightarrow> string \<Rightarrow> config_error + QosConfig" where
  "ConvertConfig priority reqbandwidth limitbandwidth =
     (if priority = [] \<or> reqbandwidth = [] \<or> limitbandwidth = [] then Inl NilOption
      else case Atoi priority of
        Inl _ \<Rightarrow> Inl (BadPriority priority)
      | Inr pri \<Rightarrow>
     (case Atoi reqbandwidth of
        Inl _ \<Rightarrow> Inl (BadRequest reqbandwidth)
      | Inr reqBw \<Rightarrow>
     (case Atoi limitbandwidth of
        Inl _ \<Rightarrow> Inl (BadLimit limitbandwidth)
      | Inr limitBw \<Rightarrow>
         let config = \<lparr>BandWidthRequestM = word_of_int reqBw, BandWidthLimitM = word_of_int limitBw, qos_Priority = word_of_int pri\<rparr>
         in if pri > 2 \<or> pri < 0 then Inl (PriorityRange pri) else Inr config)))"

datatype ('g, 'r, 'm) ctl_error = ArgCount | BadDirection | BadPort string | BadAddr string | ConfigFailed config_error
  | FlowRpcErr "'g rpc_client_error" | FlowFailed 'r | ListErr 'g | MarshalErr 'm | BadListArg

text \<open>The address argument: everything before the last colon, and the port after it.\<close>

definition parse_endpoint :: "string \<Rightarrow> ('g, 'r, 'm) ctl_error + (string \<times> int)" where
  "parse_endpoint ipaddr =
     (case LastIndex ipaddr (CHR '':'') of
        None \<Rightarrow> Inl (BadAddr ipaddr)
      | Some index \<Rightarrow>
         (case Atoi (drop (index + 1) ipaddr) of
            Inl _ \<Rightarrow> Inl (BadPort (drop (index + 1) ipaddr))
          | Inr port \<Rightarrow> Inr (take index ipaddr, port)))"

definition zeroQosFlow :: QosFlow where
  "zeroQosFlow = \<lparr>flow_Direct = [], flow_Ip = [], flow_Port = 0, flow_LocalId = 0, SendBandWidthRequestM = 0, SendBandWidthLimitM = 0,
     SendPriority = 0, RecvBandWidthRequestM = 0, RecvBandWidthLimitM = 0, RecvPriority = 0\<rparr>"

definition flow_request :: "string \<Rightarrow> string \<Rightarrow> int \<Rightarrow> QosFlow" where
  "flow_request direction ip port =
     zeroQosFlow\<lparr>flow_Direct := direction, flow_Ip := ip, flow_Port := ConvertPortToBigEndian (word_of_int port)\<rparr>"

definition with_config :: "string \<Rightarrow> QosConfig \<Rightarrow> QosFlow \<Rightarrow> QosFlow" where
  "with_config direction config req =
     (if direction = ''egress'' then req\<lparr>SendPriority := qos_Priority config, SendBandWidthRequestM := BandWidthRequestM config,
           SendBandWidthLimitM := BandWidthLimitM config\<rparr>
      else if direction = ''ingress'' then req\<lparr>RecvPriority := qos_Priority config, RecvBandWidthRequestM := BandWidthRequestM config,
           RecvBandWidthLimitM := BandWidthLimitM config\<rparr>
      else req)"

section \<open>Commands\<close>

definition cmdSet ::
  "(QosFlow, 'j QosReply, 'g, 'st) rpc_call \<Rightarrow> string list \<Rightarrow> 'st \<Rightarrow> ('g, 'j rpc_error option, 'm) ctl_error option \<times> 'st" where
  "cmdSet call args st =
     (if length args < 5 then (Some ArgCount, st)
      else let direction = args ! 0; ipaddr = args ! 1; priority = args ! 2; reqBandwidth = args ! 3; limitBandwidth = args ! 4 in
      if direction \<noteq> ''egress'' \<and> direction \<noteq> ''ingress'' then (Some BadDirection, st)
      else case parse_endpoint ipaddr of
        Inl e \<Rightarrow> (Some e, st)
      | Inr (ip, port) \<Rightarrow>
     (case ConvertConfig priority reqBandwidth limitBandwidth of
        Inl e \<Rightarrow> (Some (ConfigFailed e), st)
      | Inr config \<Rightarrow>
     (case SetFlowRequest call (with_config direction config (flow_request direction ip port)) st of
        (Inl e, st) \<Rightarrow> (Some (FlowRpcErr e), st)
      | (Inr rep, st) \<Rightarrow> (if \<not> rep_Success rep then Some (FlowFailed (rep_FailReason rep)) else None, st))))"

definition cmdUnSet ::
  "(QosFlow, 'j QosReply, 'g, 'st) rpc_call \<Rightarrow> string list \<Rightarrow> 'st \<Rightarrow> ('g, 'j rpc_error option, 'm) ctl_error option \<times> 'st" where
  "cmdUnSet call args st =
     (if length args < 2 then (Some ArgCount, st)
      else let direction = args ! 0; ipaddr = args ! 1 in
      if direction \<noteq> ''egress'' \<and> direction \<noteq> ''ingress'' then (Some BadDirection, st)
      else case parse_endpoint ipaddr of
        Inl e \<Rightarrow> (Some e, st)
      | Inr (ip, port) \<Rightarrow>
     (case UnSetFlowRequest call (flow_request direction ip port) st of
        (Inl e, st) \<Rightarrow> (Some (FlowRpcErr e), st)
      | (Inr rep, st) \<Rightarrow> (if \<not> rep_Success rep then Some (FlowFailed (rep_FailReason rep)) else None, st)))"

text \<open>Printing stops at the first message that cannot be marshalled; what is printed comes first in the result.\<close>

fun print_all :: "('a \<Rightarrow> 'm + string) \<Rightarrow> 'a list \<Rightarrow> string list \<times> ('g, 'r, 'm) ctl_error option" where
  "print_all MarshalIndent [] = ([], None)"
| "print_all MarshalIndent (x # xs) =
     (case MarshalIndent x of
        Inl e \<Rightarrow> ([], Some (MarshalErr e))
      | Inr json \<Rightarrow> (let (out, err) = print_all MarshalIndent xs in (json # out, err)))"

definition cmdList ::
  "('g + QosPodInfo list) \<Rightarrow> ('g + QosFlow list) \<Rightarrow> (QosPodInfo \<Rightarrow> 'm + string) \<Rightarrow> (QosFlow \<Rightarrow> 'm + string) \<Rightarrow> string list \<Rightarrow>
   string list \<times> ('g, 'r, 'm) ctl_error option" where
  "cmdList listPods listFlows MarshalPod MarshalFlow args =
     (if length args \<noteq> 1 then ([], Some ArgCount)
      else if args ! 0 = ''podinfo'' then
        (case listPods of Inl e \<Rightarrow> ([], Some (ListErr e)) | Inr podInfos \<Rightarrow> print_all MarshalPod podInfos)
      else if args ! 0 = ''specflow'' then
        (case listFlows of
           Inl e \<Rightarrow> ([], Some (ListErr e))
         | Inr qosFlows \<Rightarrow>
             print_all MarshalFlow (map (\<lambda>f. f\<lparr>flow_Port := convertBigEndianPortToLittle (flow_Port f)\<rparr>) qosFlows))
      else ([], Some BadListArg))"

section \<open>What a successful command did\<close>

lemma ConvertConfig_ok:
  "ConvertConfig p r l = Inr c \<longleftrightarrow> (\<exists>pri reqBw limitBw. Atoi p = Inr pri \<and> Atoi r = Inr reqBw \<and> Atoi l = Inr limitBw
     \<and> 0 \<le> pri \<and> pri \<le> 2 \<and> c = \<lparr>BandWidthRequestM = word_of_int reqBw, BandWidthLimitM = word_of_int limitBw, qos_Priority = word_of_int pri\<rparr>)"
proof -
  have "Atoi [] \<noteq> Inr i" for i by (simp add: Atoi_def ParseUint_def)
  then show ?thesis by (auto simp: ConvertConfig_def Let_def split: sum.splits)
qed

definition direction_entry :: "('c, 's, 'i) ebpf_ops \<Rightarrow> string \<Rightarrow> u32 \<Rightarrow> ('c, 's, 'i) Tcbpf \<Rightarrow> errno + TcEdtThrottleCfg" where
  "direction_entry E direction j t =
     ops_Lookup (cfg_ops E) j (if direction = ''egress'' then EgressThrottleCfgMap t else IngressThrottleCfgMap t)"

lemma flow_entry_small: "MinFlowID \<le> i \<Longrightarrow> i \<le> MaxFlowID \<Longrightarrow> unat (ucast i :: u32) < MAX_MAP_SIZE"
  by (simp add: id_consts MAX_MAP_SIZE_def word_le_nat_alt)

lemma SetFlow_configures:
  assumes laws: "ebpf_laws E" and wf: "idm_wf (svc_IDmanager st)"
    and dir: "flow_Direct req = ''egress'' \<or> flow_Direct req = ''ingress''"
    and ok: "SetFlow E req st = (Done (rep, None, st') :: ('j QosReply \<times> _) outcome)"
  shows "\<exists>i t'. MinFlowID \<le> i \<and> i \<le> MaxFlowID \<and> flow_idof (svc_IDmanager st') (flow_key req) = Some i \<and> svc_Edt st' = Some t'
    \<and> direction_entry E (flow_Direct req) (ucast i) t'
        = Inr (throttle_of (if flow_Direct req = ''egress'' then send_config req else recv_config req))"
proof -
  obtain r info idm where a: "AllocateProcessId (request_flow req) (svc_IDmanager st) = Done (r, info, idm)"
    using ok by (auto simp: SetFlow_def)
  obtain i where i: "r = Inr i" using ok a by (cases r) (auto simp: SetFlow_def Let_def)
  have fw: "flow_wf (svc_IDmanager st)" using wf by (simp add: idm_wf_def)
  note range = flows.alloc_result(3,4) [OF fw a [unfolded i]]
  have k: "proc_ProcessId info = flow_key req"
    using AllocateProcessId_info [OF a [unfolded i]] by (simp add: request_flow_def)
  obtain ip where ip: "ConvertIpToUint32 (flow_Ip req) = Done ip" using ok a i by (auto simp: SetFlow_def Let_def)
  obtain t where t: "svc_Edt st = Some t"
    using ok a i ip dir by (auto simp: SetFlow_def Let_def with_edt_def split: option.splits)
  note small = flow_entry_small [OF range]
  note look = egress.addcfg_lookup [OF ebpf_lawsD(1) [OF laws] small] ingress.addcfg_lookup [OF ebpf_lawsD(1) [OF laws] small]
  have "\<exists>t' info'. svc_IDmanager st' = InsertProcessInfo (flow_key req) info' idm \<and> proc_LocalId info' = i \<and> svc_Edt st' = Some t'
      \<and> direction_entry E (flow_Direct req) (ucast i) t'
        = Inr (throttle_of (if flow_Direct req = ''egress'' then send_config req else recv_config req))"
  proof (cases "flow_Direct req = ''egress''")
    case True
    then show ?thesis using ok a i ip t k by (auto simp: SetFlow_def Let_def with_edt_def direction_entry_def look) (rule exI, rule conjI, rule refl, simp)
  next
    case False
    with dir have "flow_Direct req = ''ingress''" by simp
    then show ?thesis using ok a i ip t k by (auto simp: SetFlow_def Let_def with_edt_def direction_entry_def look) (rule exI, rule conjI, rule refl, simp)
  qed
  then obtain t' info' where s: "svc_IDmanager st' = InsertProcessInfo (flow_key req) info' idm" "proc_LocalId info' = i" "svc_Edt st' = Some t'"
    "direction_entry E (flow_Direct req) (ucast i) t'
        = Inr (throttle_of (if flow_Direct req = ''egress'' then send_config req else recv_config req))" by blast
  have "flow_idof (svc_IDmanager st') (flow_key req) = Some i" using s(1,2) by (simp add: InsertProcessInfo_def flow_idof_def)
  with s range show ?thesis by blast
qed

lemma parse_endpoint_ok:
  assumes "parse_endpoint addr = (Inr (ip, port) :: ('g, 'r, 'm) ctl_error + _)"
  shows "\<exists>s. addr = ip @ CHR '':'' # s \<and> Atoi s = Inr port"
proof -
  obtain i where i: "LastIndex addr (CHR '':'') = Some i" "Atoi (drop (i + 1) addr) = Inr port" "ip = take i addr"
    using assms by (auto simp: parse_endpoint_def split: option.splits sum.splits)
  then have "addr ! i = CHR '':''" "i < length addr" using LastIndex_Some_iff [of addr "CHR '':''" i] by auto
  then have "addr = ip @ CHR '':'' # drop (i + 1) addr" using i(3) by (metis Suc_eq_plus1 id_take_nth_drop)
  with i(2) show ?thesis by blast
qed

text \<open>C19: A flow set with the command line tool is configured: when \<open>set\<close> reports success, the address
  was an address and a port, the priority was 0, 1 or 2, the daemon holds a flow id between 100 and 999
  under the direction, address and port, and the configuration of that id in the map of the direction is
  the bandwidths given, read as integers and taken modulo 2 to the 64.\<close>

theorem cmdSet_configures:
  fixes E :: "('c, 's, 'i) ebpf_ops" and call :: "(QosFlow, 'j QosReply, 'g, ('c, 's, 'i, 'k) RpcService) rpc_call"
  assumes "ebpf_laws E" and "idm_wf (svc_IDmanager st)"
    and "rpc_connection call (SetFlow E :: _ \<Rightarrow> _ \<Rightarrow> ('j QosReply \<times> 'j rpc_error option \<times> _) outcome)"
    and "cmdSet call [direction, addr, p, r, l] st = (None :: ('g, 'j rpc_error option, 'm) ctl_error option, st')"
  shows "\<exists>ip s port pri reqBw limitBw i t'. addr = ip @ CHR '':'' # s \<and> Atoi s = Inr port
    \<and> Atoi p = Inr pri \<and> 0 \<le> pri \<and> pri \<le> 2 \<and> Atoi r = Inr reqBw \<and> Atoi l = Inr limitBw
    \<and> 100 \<le> i \<and> i \<le> 999 \<and> flow_idof (svc_IDmanager st') (flow_key (flow_request direction ip port)) = Some i
    \<and> svc_Edt st' = Some t'
    \<and> direction_entry E direction (ucast i) t' = Inr (throttle_of
        \<lparr>BandWidthRequestM = word_of_int reqBw, BandWidthLimitM = word_of_int limitBw, qos_Priority = word_of_int pri\<rparr>)"
proof -
  from assms(4) have dir: "direction = ''egress'' \<or> direction = ''ingress''"
    by (auto simp: cmdSet_def Let_def split: if_splits)
  from assms(4) dir obtain ip port where pe: "parse_endpoint addr = (Inr (ip, port) :: ('g, 'j rpc_error option, 'm) ctl_error + _)"
    by (auto simp: cmdSet_def Let_def split: sum.splits)
  from assms(4) dir pe obtain config where cc: "ConvertConfig p r l = Inr config"
    by (auto simp: cmdSet_def Let_def split: sum.splits)
  let ?req = "with_config direction config (flow_request direction ip port)"
  obtain rep where "call ?req st = (Inr rep, st')"
    using assms(4) dir by (auto simp: cmdSet_def Let_def pe cc SetFlowRequest_def split: sum.splits prod.splits if_splits)
  then have sf: "SetFlow E ?req st = Done (rep, None :: 'j rpc_error option, st')" by (rule rpc_connection.replied [OF assms(3)])
  have rq: "flow_Direct ?req = direction" "flow_key ?req = flow_key (flow_request direction ip port)"
    "(if direction = ''egress'' then send_config ?req else recv_config ?req) = config"
    using dir by (auto simp: with_config_def flow_request_def zeroQosFlow_def flow_key_def send_config_def recv_config_def)
  obtain s where s: "addr = ip @ CHR '':'' # s" "Atoi s = Inr port" using parse_endpoint_ok [OF pe] by blast
  from cc obtain pri reqBw limitBw where c: "Atoi p = Inr pri" "0 \<le> pri" "pri \<le> 2" "Atoi r = Inr reqBw" "Atoi l = Inr limitBw"
    "config = \<lparr>BandWidthRequestM = word_of_int reqBw, BandWidthLimitM = word_of_int limitBw, qos_Priority = word_of_int pri\<rparr>"
    unfolding ConvertConfig_ok by blast
  from SetFlow_configures [OF assms(1,2) _ sf] dir obtain i t' where "MinFlowID \<le> i" "i \<le> MaxFlowID"
    "flow_idof (svc_IDmanager st') (flow_key (flow_request direction ip port)) = Some i" "svc_Edt st' = Some t'"
    "direction_entry E direction (ucast i) t' = Inr (throttle_of config)"
    unfolding rq by blast
  with s c show ?thesis by (auto simp: id_consts)
qed

lemma example_SetFlow:
  "\<exists>rep st'. rep_Success rep \<and> SetFlow kernel_ops (with_config ''egress'' example_qos (flow_request ''egress'' (dotted [10, 0, 0, 2]) 80)) example_svc
     = (Done (rep, None, st') :: (unit QosReply \<times> unit rpc_error option \<times> _) outcome)"
proof -
  let ?req = "with_config ''egress'' example_qos (flow_request ''egress'' (dotted [10, 0, 0, 2]) 80)"
  have "\<exists>info idm. AllocateProcessId (request_flow ?req) (svc_IDmanager example_svc) = Done (Inr 100, info, idm)"
    by (simp add: AllocateProcessId_def example_svc_def NewPodIDManager_def scan_free.simps id_consts Let_def)
  moreover have "flow_Ip ?req = dotted [10, 0, 0, 2]" "flow_Direct ?req = ''egress''" "svc_Edt example_svc = Some example_tcbpf"
    by (simp_all add: with_config_def flow_request_def example_svc_def)
  ultimately show ?thesis using example_ip by (auto simp: SetFlow_def Let_def with_edt_def succeeded_def)
qed

theorem cmdSet_configures_witness:
  "\<exists>st' (i::u16) t'. cmdSet (local_call (SetFlow kernel_ops)) [''egress'', dotted [10, 0, 0, 2] @ '':'' @ FormatUint 80, FormatUint 1, FormatUint 20, FormatUint 100] example_svc
      = (None :: (unit rpc_error local_error, unit rpc_error option, unit) ctl_error option, st')
    \<and> 100 \<le> i \<and> i \<le> 999 \<and> svc_Edt st' = Some t' \<and> direction_entry kernel_ops ''egress'' (ucast i) t' = Inr (throttle_of example_qos)"
proof -
  let ?call = "local_call (SetFlow kernel_ops)"
  let ?addr = "dotted [10, 0, 0, 2] @ '':'' @ FormatUint 80"
  obtain rep st' where s: "rep_Success rep" "SetFlow kernel_ops (with_config ''egress'' example_qos (flow_request ''egress'' (dotted [10, 0, 0, 2]) 80)) example_svc
     = (Done (rep, None, st') :: (unit QosReply \<times> unit rpc_error option \<times> _) outcome)" using example_SetFlow by blast
  have d: "CHR '':'' \<notin> set (FormatUint n)" for n using FormatUint_digits [of "CHR '':''" n] by (auto simp: is_digit_def)
  have at: "Atoi (FormatUint 1) = Inr 1" "Atoi (FormatUint 20) = Inr 20" "Atoi (FormatUint 100) = Inr 100" "Atoi (FormatUint 80) = Inr 80"
    by (simp_all add: Atoi_Format)
  have pe: "parse_endpoint ?addr = (Inr (dotted [10, 0, 0, 2], 80) :: (unit rpc_error local_error, unit rpc_error option, unit) ctl_error + _)"
    using LastIndex_append [OF d, of "dotted [10, 0, 0, 2]" 80] by (simp add: parse_endpoint_def at)
  have cc: "ConvertConfig (FormatUint 1) (FormatUint 20) (FormatUint 100) = Inr example_qos"
    by (simp del: One_nat_def add: ConvertConfig_def at example_qos_def)
  have c: "cmdSet ?call [''egress'', ?addr, FormatUint 1, FormatUint 20, FormatUint 100] example_svc
      = (None :: (unit rpc_error local_error, unit rpc_error option, unit) ctl_error option, st')"
    using s by (simp del: One_nat_def add: cmdSet_def pe [simplified] cc SetFlowRequest_def local_call_def)
  obtain i :: u16 and t' where "100 \<le> i" "i \<le> 999" "svc_Edt st' = Some t'"
    "direction_entry kernel_ops ''egress'' (ucast i) t' = Inr (throttle_of example_qos)"
    using cmdSet_configures [OF kernel_ops_laws example_svc_wf local_connection c] at
    by (auto simp del: One_nat_def simp add: example_qos_def)
  with c show ?thesis by blast
qed

end
