(* ===== verification/NodeSystem.thy ===== *)
theory NodeSystem
  imports AlgRun DaemonMain AlgMain CmdCtl
begin

text \<open>
  The two daemons of a node together. They share the six pinned maps and nothing else: the node
  daemon writes the configurations of pods and flows, the alg-daemon reads configurations and
  statistics and writes rates back. Here the requests that reach the node daemon, its restarts and
  the passes of the allocator are interleaved, and a pass may be overlapped by requests between its
  read and its write.
\<close>

section \<open>Priorities in the maps\<close>

text \<open>The allocator indexes an array of three with the priority of a configuration.\<close>

definition maps_prios_ok :: "('c, 's, 'i) ebpf_ops \<Rightarrow> ('c, 's, 'i) Tcbpf \<Rightarrow> bool" where
  "maps_prios_ok E t \<longleftrightarrow> map_prios_ok (cfg_ops E) (EgressThrottleCfgMap t) \<and> map_prios_ok (cfg_ops E) (IngressThrottleCfgMap t)"

context throttle_side
begin

lemma wcfg_prios:
  assumes "array_map (cfg_ops E) MaxObjSize" and "cfg_Priority v < 3" and "map_prios_ok (cfg_ops E) (getc t)"
  shows "map_prios_ok (cfg_ops E) (getc (snd (wcfg k v t)))"
proof (cases "unat k < MaxObjSize")
  case True
  then show ?thesis using assms(2,3) by (auto simp: map_prios_ok_def wcfg_lookup [OF assms(1) True] split: if_splits)
next
  case False
  then show ?thesis using assms(3) wcfg_beyond [OF assms(1), of k v t] by simp
qed

end

text \<open>Of the operations of the wrapper only the writes of configurations matter.\<close>

named_theorems prios "what keeps the priorities of the configuration maps"

lemma keeps_prios [prios]:
  "maps_prios_ok E (snd (SingleWriteEgressThrottleStat E k w t)) = maps_prios_ok E t"
  "maps_prios_ok E (snd (SingleWriteIngressThrottleStat E k w t)) = maps_prios_ok E t"
  "maps_prios_ok E (snd (UpdateEgressThrottleId E j x t)) = maps_prios_ok E t"
  "maps_prios_ok E (snd (UpdateIngressThrottleId E j x t)) = maps_prios_ok E t"
  "maps_prios_ok E (snd (DeleteEgressThrottleId E j t)) = maps_prios_ok E t"
  "maps_prios_ok E (snd (DeleteIngressThrottleId E j t)) = maps_prios_ok E t"
  by (simp_all add: maps_prios_ok_def tcbpf_defs split_beta)

lemma cfg_write_prios [prios]:
  assumes "ebpf_laws E" and "cfg_Priority v < 3" and "maps_prios_ok E t"
  shows "maps_prios_ok E (snd (SingleWriteEgressThrottleCfg E k v t))"
    and "maps_prios_ok E (snd (SingleWriteIngressThrottleCfg E k v t))"
  using assms egress.wcfg_prios [OF ebpf_laws_arrays(1) [OF assms(1)] assms(2), of t k]
    ingress.wcfg_prios [OF ebpf_laws_arrays(1) [OF assms(1)] assms(2), of t k]
    egress.wcfg_frame(3) [of E k v t] ingress.wcfg_frame(3) [of E k v t]
  by (simp_all add: maps_prios_ok_def egress_maps_def ingress_maps_def)

lemma add_prios [prios]:
  assumes "ebpf_laws E" and "qos_Priority q < 3" and "maps_prios_ok E t"
  shows "maps_prios_ok E (AddEgressConfig E k q t)" and "maps_prios_ok E (AddIngressConfig E k q t)"
  using assms by (simp_all add: egress.addcfg_wcfg ingress.addcfg_wcfg throttle_of_def Let_def prios)

lemma zero_prios [prios]: "cfg_Priority zeroThrottleCfg < 3"
  by (simp add: zeroThrottleCfg_def)

section \<open>Requests keep the priorities\<close>

lemma le2_less3: "(p::u32) \<le> 2 \<Longrightarrow> p < 3"
  by (simp add: word_le_nat_alt word_less_nat_alt)

lemma pod_request_prios:
  assumes "GetPodNetQosRequest J pod = Inr req"
  shows "qos_Priority (EgressQosConfig req) < 3" "qos_Priority (IngressQosConfig req) < 3"
proof -
  from assms obtain eg ing where
    r: "direction_qos J QosegressAnno pod zeroQosConfig = Inr eg" "direction_qos J QosingressAnno pod zeroQosConfig = Inr ing"
      "EgressQosConfig req = eg" "IngressQosConfig req = ing"
    by (auto simp: GetPodNetQosRequest_def zeroNetQosReq_def split: sum.splits)
  have z: "qos_Priority zeroQosConfig \<le> 2" by (simp add: zeroQosConfig_def)
  show "qos_Priority (EgressQosConfig req) < 3" "qos_Priority (IngressQosConfig req) < 3"
    using r direction_qos_priority [OF r(1) z] direction_qos_priority [OF r(2) z] by (auto intro: le2_less3)
qed

lemma install_pod_prios:
  assumes "ebpf_laws E" and "maps_prios_ok E t"
    and "qos_Priority (EgressQosConfig q) < 3" and "qos_Priority (IngressQosConfig q) < 3"
  shows "maps_prios_ok E (snd (install_pod E key i e g q t))"
proof -
  obtain e1 t1 where 1: "UpdateEgressThrottleId E key e t = (e1, t1)" by fastforce
  obtain e2 t2 where 2: "UpdateIngressThrottleId E key g t1 = (e2, t2)" by fastforce
  have "maps_prios_ok E t1" "maps_prios_ok E t2"
    using assms(2) keeps_prios(3) [of E key e t] keeps_prios(4) [of E key g t1] 1 2 by simp_all
  then show ?thesis using assms(1,3,4) by (auto simp: install_pod_def 1 2 prios split: option.splits)
qed

text \<open>The daemon works on opened maps that hold no other priority than 0, 1 and 2.\<close>

definition svc_prios_ok :: "('c, 's, 'i) ebpf_ops \<Rightarrow> ('c, 's, 'i, 'k) RpcService \<Rightarrow> bool" where
  "svc_prios_ok E st \<longleftrightarrow> (\<exists>t. svc_Edt st = Some t \<and> maps_prios_ok E t)"

text \<open>\<open>SetQos\<close> writes the maps, if at all, by \<open>install_pod\<close> for a request that was read from the pod.\<close>

lemma SetQos_edt:
  fixes J :: "string \<Rightarrow> 'j + NetQosAnnotation"
  assumes "SetQos K J E req st = Done (rep, err, st')"
  obtains (same) "svc_Edt st' = svc_Edt st"
  | (installs) pod q key i e g t where "GetPodNetQosRequest J pod = Inr q" "svc_Edt st = Some t"
      "svc_Edt st' = Some (snd (install_pod E key i e g q t :: 'j rpc_error option \<times> _))"
proof (cases "GetPodFromEtcd K (req_K8SPodNamespace req) (req_K8SPodName req) (svc_K8s st)")
  case (Inl x)
  then show thesis using assms same by (auto simp: SetQos_def)
next
  case pod: (Inr pod)
  show thesis
  proof (cases "GetPodNetQosRequest J pod")
    case (Inl x)
    then show thesis using assms pod same by (auto simp: SetQos_def)
  next
    case q: (Inr q)
    from assms pod q obtain r info idm where
      a: "AllocatePodId (request_pod req pod q) (svc_IDmanager st) = Done (r, info, idm)" by (auto simp: SetQos_def)
    show thesis
    proof (cases r)
      case (Inl x)
      then show thesis using assms pod q a same by (auto simp: SetQos_def Let_def)
    next
      case (Inr i)
      obtain perr k where p: "PatchPodQosInfo K pod \<lparr>patch_LocalId = i, patch_ContainerId = req_ContainerId req,
          patch_VethIpv4 = req_VethIpv4 req, patch_VethIpv6 = req_VethIpv6 req\<rparr> (svc_K8s st) = (perr, k)" by fastforce
      show thesis
      proof (cases perr)
        case None
        with assms pod q a Inr p obtain ip where ip: "ConvertIpToUint32 (req_VethIpv4 req) = Done ip"
          by (auto simp: SetQos_def Let_def)
        with assms pod q a Inr p None obtain t where t: "svc_Edt st = Some t"
          by (auto simp: SetQos_def Let_def with_edt_def split: option.splits)
        define ins where "ins = (install_pod E \<lparr>key_Ip = ip, key_Port = 0\<rparr> i
            (GenerateClassId (qos_Priority (EgressQosConfig (pod_NetQosReq info))) i)
            (GenerateClassId (qos_Priority (IngressQosConfig (pod_NetQosReq info))) i) q t :: 'j rpc_error option \<times> _)"
        have "svc_Edt st' = Some (snd ins)"
          using assms pod q a Inr p None ip t
          by (auto simp: SetQos_def Let_def with_edt_def ins_def split: prod.splits option.splits)
        then show thesis unfolding ins_def by (rule installs [OF q t])
      qed (use assms pod q a Inr p same in \<open>auto simp: SetQos_def Let_def\<close>)
    qed
  qed
qed

lemma SetQos_prios:
  assumes "ebpf_laws E" and "svc_prios_ok E st" and "SetQos K J E req st = Done (rep, err, st')"
  shows "svc_prios_ok E st'"
  using assms(3)
proof (cases rule: SetQos_edt)
  case (installs pod q key i e g t)
  then show ?thesis
    using install_pod_prios [OF assms(1) _ pod_request_prios [OF installs(1)]] assms(2) by (simp add: svc_prios_ok_def)
qed (use assms(2) in \<open>simp add: svc_prios_ok_def\<close>)

lemma UnSetQos_prios:
  assumes "ebpf_laws E" and "svc_prios_ok E st" and "UnSetQos E cid st = Done (rep, st')"
  shows "svc_prios_ok E st'"
proof -
  have "maps_prios_ok E (clear_pod E i ip t)" if "maps_prios_ok E t" for i ip t
    using that assms(1) by (simp add: clear_pod_def Let_def prios)
  then show ?thesis using assms(2,3)
    by (auto simp: svc_prios_ok_def UnSetQos_def Let_def with_edt_def split: sum.splits)
qed

lemma SetFlow_prios:
  assumes "ebpf_laws E" and "svc_prios_ok E st" and "SetFlow E req st = Done (rep, err, st')"
    and "SendPriority req < 3" and "RecvPriority req < 3"
  shows "svc_prios_ok E st'"
proof -
  have c: "qos_Priority (send_config req) < 3" "qos_Priority (recv_config req) < 3"
    using assms(4,5) by (simp_all add: send_config_def recv_config_def)
  obtain r info idm where a: "AllocateProcessId (request_flow req) (svc_IDmanager st) = Done (r, info, idm)"
    using assms(3) by (auto simp: SetFlow_def)
  show ?thesis
  proof (cases r)
    case (Inr i)
    then show ?thesis using assms(1,2,3) a c
      by (auto simp: svc_prios_ok_def SetFlow_def Let_def with_edt_def prios split: if_splits)
  qed (use assms(2,3) a in \<open>auto simp: svc_prios_ok_def SetFlow_def Let_def\<close>)
qed

lemma UnSetFlow_prios:
  assumes "ebpf_laws E" and "svc_prios_ok E st" and "UnSetFlow E req st = Done (rep, st')"
  shows "svc_prios_ok E st'"
  using assms by (auto simp: svc_prios_ok_def UnSetFlow_def Let_def with_edt_def prios split: sum.splits if_splits)

text \<open>The command line tool checks the priority; what it sends in a request passes the check.\<close>

lemma cmdSet_prios:
  assumes "ebpf_laws E" and "svc_prios_ok E st"
    and "cmdSet (local_call (SetFlow E :: _ \<Rightarrow> _ \<Rightarrow> ('j QosReply \<times> 'j rpc_error option \<times> _) outcome)) args st
      = (err :: ('j rpc_error local_error, 'j rpc_error option, 'm) ctl_error option, st')"
  shows "svc_prios_ok E st'"
proof (cases "st' = st")
  case False
  let ?req = "\<lambda>config ip port. with_config (args ! 0) config (flow_request (args ! 0) ip port)"
  obtain ip port config where p: "ConvertConfig (args ! 2) (args ! 3) (args ! 4) = Inr config"
    and s: "snd (local_call (SetFlow E :: _ \<Rightarrow> _ \<Rightarrow> ('j QosReply \<times> 'j rpc_error option \<times> _) outcome) (?req config ip port) st) = st'"
  proof -
    from assms(3) False obtain ip port where e: "parse_endpoint (args ! 1) = (Inr (ip, port) :: ('j rpc_error local_error, 'j rpc_error option, 'm) ctl_error + _)"
      by (auto simp: cmdSet_def Let_def split: if_splits sum.splits)
    from assms(3) False e obtain config where "ConvertConfig (args ! 2) (args ! 3) (args ! 4) = Inr config"
      by (auto simp: cmdSet_def Let_def split: if_splits sum.splits)
    moreover from this assms(3) False e
    have "snd (local_call (SetFlow E :: _ \<Rightarrow> _ \<Rightarrow> ('j QosReply \<times> 'j rpc_error option \<times> _) outcome) (?req config ip port) st) = st'"
      by (auto simp: cmdSet_def Let_def SetFlowRequest_def split: if_splits sum.splits prod.splits)
    ultimately show thesis by (rule that)
  qed
  from p obtain pri :: int where "0 \<le> pri" "pri \<le> 2" "qos_Priority config = word_of_int pri"
    unfolding ConvertConfig_ok by auto
  moreover have "pri = 0 \<or> pri = 1 \<or> pri = 2" using \<open>0 \<le> pri\<close> \<open>pri \<le> 2\<close> by auto
  ultimately have "qos_Priority config < 3" by (auto simp: word_less_def)
  then have r: "SendPriority (?req config ip port) < 3" "RecvPriority (?req config ip port) < 3"
    by (simp_all add: with_config_def flow_request_def zeroQosFlow_def)
  obtain rep :: "'j QosReply" and e :: "'j rpc_error option" where "SetFlow E (?req config ip port) st = Done (rep, e, st')"
    using s False by (auto simp: local_call_def split: outcome.splits prod.splits option.splits)
  then show ?thesis by (rule SetFlow_prios [OF assms(1,2) _ r])
qed (use assms(2) in simp)

text \<open>\<open>UnSetFlow\<close> as a handler: its error is always nil.\<close>

definition unset_flow_handler ::
  "('c, 's, 'i) ebpf_ops \<Rightarrow> QosFlow \<Rightarrow> ('c, 's, 'i, 'k) RpcService \<Rightarrow>
   ('j QosReply \<times> 'j rpc_error option \<times> ('c, 's, 'i, 'k) RpcService) outcome" where
  "unset_flow_handler E req st = obind (UnSetFlow E req st) (\<lambda>(rep, st'). Done (rep, None, st'))"

lemma cmdUnSet_prios:
  assumes "ebpf_laws E" and "svc_prios_ok E st"
    and "cmdUnSet (local_call (unset_flow_handler E :: _ \<Rightarrow> _ \<Rightarrow> ('j QosReply \<times> 'j rpc_error option \<times> _) outcome)) args st = (err, st')"
  shows "svc_prios_ok E st'"
proof -
  let ?call = "local_call (unset_flow_handler E :: _ \<Rightarrow> _ \<Rightarrow> ('j QosReply \<times> 'j rpc_error option \<times> _) outcome)"
  have call: "svc_prios_ok E st''" if "?call req st = (x, st'')" for req x st''
    using that assms(2) UnSetFlow_prios [OF assms(1,2), of req]
    by (auto simp: local_call_def unset_flow_handler_def split: outcome.splits prod.splits option.splits)
  then show ?thesis using assms(2,3)
    by (auto simp: cmdUnSet_def Let_def UnSetFlowRequest_def split: if_splits sum.splits prod.splits)
qed

section \<open>Restarts keep the priorities\<close>

definition pods_prios_ok :: "IDManager \<Rightarrow> bool" where
  "pods_prios_ok s \<longleftrightarrow> (\<forall>p \<in> ran (containerIdMap s). qos_Priority (EgressQosConfig (pod_NetQosReq p)) < 3
     \<and> qos_Priority (IngressQosConfig (pod_NetQosReq p)) < 3)"

lemma InsertPodInfo_prios:
  assumes "pods_prios_ok s" and "qos_Priority (EgressQosConfig (pod_NetQosReq p)) < 3"
    and "qos_Priority (IngressQosConfig (pod_NetQosReq p)) < 3"
  shows "pods_prios_ok (InsertPodInfo c p s)"
  using assms by (auto simp: pods_prios_ok_def InsertPodInfo_def ran_def split: if_splits)

lemma recover_pods_prios:
  assumes "recover_pods J pods s = Inr s'" and "pods_prios_ok s"
  shows "pods_prios_ok s'"
  using assms
proof (induction pods arbitrary: s)
  case (Cons pod pods)
  have "pods_prios_ok (InsertPodInfo c (recovered_pod pod d q) s)" if "GetPodNetQosRequest J pod = Inr q" for c d q
    using pod_request_prios [OF that] Cons.prems(2) by (intro InsertPodInfo_prios) (simp_all add: recovered_pod_def)
  then show ?case using Cons by (auto split: sum.splits if_splits)
qed simp

lemma restore_pods_prios:
  assumes "ebpf_laws E" and "restore_pods E infos err t = Done (err', t')" and "maps_prios_ok E t"
    and "\<And>p. p \<in> set infos \<Longrightarrow> qos_Priority (EgressQosConfig (pod_NetQosReq p)) < 3 \<and> qos_Priority (IngressQosConfig (pod_NetQosReq p)) < 3"
  shows "maps_prios_ok E t'"
  using assms(2-4)
proof (induction infos arbitrary: err t)
  case (Cons p infos)
  from Cons.prems(1) obtain err1 t1 where 1: "restore_pod E p err t = Done (err1, t1)" "restore_pods E infos err1 t1 = Done (err', t')"
    by auto
  have "maps_prios_ok E t1"
    using 1(1) assms(1) Cons.prems(2) Cons.prems(3) [of p]
    by (auto simp: restore_pod_def Let_def split_beta prios)
  with Cons 1(2) show ?case by auto
qed simp

lemma daemon_Run_prios:
  fixes J :: "string \<Rightarrow> 'j + NetQosAnnotation"
  assumes "ebpf_laws E" and "maps_prios_ok E t" and "daemon_Run client J E (Inr t) order = Done (err, [serving, st])"
  shows "svc_prios_ok E st"
proof -
  from assms(3) obtain k store where c: "client = Inr (k, store)" by (auto simp: daemon_Run_def split: sum.splits)
  with assms(3) obtain s where s: "recoverIdmanagerFromCache J store NewPodIDManager = Inr s"
    by (auto simp: daemon_Run_def split: sum.splits)
  with assms(3) c obtain err' t' where
    r: "restore_pods E (ListPodInfo (order s) s) (None :: 'j rpc_error option) t = Done (err', t')" "svc_Edt st = Some t'"
    by (auto simp: daemon_Run_def Let_def)
  have "pods_prios_ok NewPodIDManager" by (simp add: pods_prios_ok_def NewPodIDManager_def)
  then have "pods_prios_ok s" using s recover_pods_prios
    by (fastforce simp: recoverIdmanagerFromCache_def split: sum.splits)
  then have "qos_Priority (EgressQosConfig (pod_NetQosReq p)) < 3 \<and> qos_Priority (IngressQosConfig (pod_NetQosReq p)) < 3"
    if "p \<in> set (ListPodInfo (order s) s)" for p
    using that by (auto simp: pods_prios_ok_def ListPodInfo_def List.map_filter_def ran_def)
  from restore_pods_prios [OF assms(1) r(1) assms(2) this] r(2) show ?thesis by (simp add: svc_prios_ok_def)
qed

section \<open>The node\<close>

text \<open>
  What reaches the node daemon: set-up and tear-down of pods, the commands of the command line tool,
  and restarts, which recover the pods and write their configurations again. A request that ends the
  daemon has no successor; the restart that follows it does.
\<close>

inductive request_step :: "('k, 'j) k8s_ops \<Rightarrow> (string \<Rightarrow> 'j + NetQosAnnotation) \<Rightarrow> ('c, 's, 'i) ebpf_ops \<Rightarrow>
    ('c, 's, 'i, 'k) RpcService \<Rightarrow> ('c, 's, 'i, 'k) RpcService \<Rightarrow> bool"
  for K :: "('k, 'j) k8s_ops" and J :: "string \<Rightarrow> 'j + NetQosAnnotation" and E :: "('c, 's, 'i) ebpf_ops" where
  pod_set: "SetQos K J E req st = Done (rep, err, st') \<Longrightarrow> request_step K J E st st'"
| pod_unset: "UnSetQos E cid st = (Done (rep, st') :: ('j QosReply \<times> _) outcome) \<Longrightarrow> request_step K J E st st'"
| ctl_set: "cmdSet (local_call (SetFlow E :: _ \<Rightarrow> _ \<Rightarrow> ('j QosReply \<times> 'j rpc_error option \<times> _) outcome)) args st
      = (cerr :: ('j rpc_error local_error, 'j rpc_error option, unit) ctl_error option, st') \<Longrightarrow> request_step K J E st st'"
| ctl_unset: "cmdUnSet (local_call (unset_flow_handler E :: _ \<Rightarrow> _ \<Rightarrow> ('j QosReply \<times> 'j rpc_error option \<times> _) outcome)) args st
      = (cerr :: ('j rpc_error local_error, 'j rpc_error option, unit) ctl_error option, st') \<Longrightarrow> request_step K J E st st'"
| restart: "svc_Edt st = Some t \<Longrightarrow> daemon_Run client J E (Inr t) order = Done (rerr, [serving, st']) \<Longrightarrow> request_step K J E st st'"

inductive_cases request_stepE: "request_step K J E st st'"

text \<open>The pass of one of the goroutines that \<open>runAlg\<close> started.\<close>

definition call_pass ::
  "('c, 's, 'i) ebpf_ops \<Rightarrow> ('c, 's, 'i) run_call \<Rightarrow> (('c, 's, 'i) Tcbpf \<Rightarrow> ('c, 's, 'i) Tcbpf) \<Rightarrow>
   ('c, 's, 'i) DaemonProc \<Rightarrow> (bool \<times> ('c, 's, 'i) DaemonProc) outcome" where
  "call_pass E c env d = Run_pass_with E (rc_direction c) (rc_minBandwidth c) (word_of_int (rc_pace c)) (rc_ratio c) env d"

text \<open>
  A node is the service of the node daemon, whose maps are the pinned ones, and the process data of
  the alg-daemon. During a pass the node daemon may go through any number of steps; the pass writes
  on top of what they left.
\<close>

inductive node_reachable :: "('k, 'j) k8s_ops \<Rightarrow> (string \<Rightarrow> 'j + NetQosAnnotation) \<Rightarrow> ('h, 'e, 'c, 's, 'i) alg_world \<Rightarrow>
    ('c, 's, 'i) run_call list \<Rightarrow> ('c, 's, 'i, 'k) RpcService \<Rightarrow> ('c, 's, 'i) DaemonProc \<Rightarrow> bool"
  for K :: "('k, 'j) k8s_ops" and J :: "string \<Rightarrow> 'j + NetQosAnnotation" and w :: "('h, 'e, 'c, 's, 'i) alg_world"
    and calls :: "('c, 's, 'i) run_call list" where
  started: "alg_configure w speed interval t = (e, calls, t') \<Longrightarrow> maps_prios_ok (w_Ebpf w) t \<Longrightarrow> svc_Edt st = Some t' \<Longrightarrow>
    c \<in> set calls \<Longrightarrow> node_reachable K J w calls st (rc_proc c)"
| request: "node_reachable K J w calls st d \<Longrightarrow> request_step K J (w_Ebpf w) st st' \<Longrightarrow> node_reachable K J w calls st' d"
| pass: "node_reachable K J w calls st d \<Longrightarrow> svc_Edt st = Some t \<Longrightarrow> (request_step K J (w_Ebpf w))\<^sup>*\<^sup>* st st' \<Longrightarrow> svc_Edt st' = Some t' \<Longrightarrow>
    c \<in> set calls \<Longrightarrow> call_pass (w_Ebpf w) c (\<lambda>_. t') (d\<lparr>EbpfEdt := t\<rparr>) = Done (ok, d') \<Longrightarrow>
    node_reachable K J w calls (st'\<lparr>svc_Edt := Some (EbpfEdt d')\<rparr>) d'"

lemma request_step_prios:
  assumes "ebpf_laws E" and "request_step K J E st st'" and "svc_prios_ok E st"
  shows "svc_prios_ok E st'"
  using assms(2)
proof (cases rule: request_step.cases)
  case (restart t client order rerr serving)
  then show ?thesis using assms(3) by (intro daemon_Run_prios [OF assms(1)]) (auto simp: svc_prios_ok_def)
qed (rule SetQos_prios [OF assms(1,3)] UnSetQos_prios [OF assms(1,3)] cmdSet_prios [OF assms(1,3)] cmdUnSet_prios [OF assms(1,3)], assumption)+

lemma requests_prios:
  assumes "ebpf_laws E" and "(request_step K J E)\<^sup>*\<^sup>* st st'" and "svc_prios_ok E st"
  shows "svc_prios_ok E st'"
  using assms(2,3) by (induction rule: rtranclp_induct) (auto intro: request_step_prios [OF assms(1)])

section \<open>Passes keep the priorities\<close>

definition both_slots :: "('c, 's, 'i) DaemonProc \<Rightarrow> bool" where
  "both_slots d \<longleftrightarrow> slots MaxObjSize (EgressDataEntry d) \<and> slots MaxObjSize (IngressDataEntry d)"

lemma Run_pass_other_entry:
  "Run_pass_with E ''egress'' mb pace ratio env d = Done (b, d') \<Longrightarrow> IngressDataEntry d' = IngressDataEntry d"
  "Run_pass_with E ''ingress'' mb pace ratio env d = Done (b, d') \<Longrightarrow> EgressDataEntry d' = EgressDataEntry d"
  by (auto simp: Run_pass_with_def lookupEdtProcData_def set_data_entry_def updateThrottleCfg_def Let_def
      split: prod.splits option.splits)

lemma either_pass:
  assumes "ebpf_laws E" and "both_slots d" and "maps_prios_ok E (EbpfEdt d)" and "maps_prios_ok E (env (EbpfEdt d))"
    and "pace \<noteq> 0" and dir: "dir = ''egress'' \<or> dir = ''ingress''"
  shows "\<exists>d'. Run_pass_with E dir mb pace ratio env d = Done (True, d') \<and> both_slots d' \<and> maps_prios_ok E (EbpfEdt d')"
  using dir
proof
  assume [simp]: "dir = ''egress''"
  from alg_egress.pass_prios [OF ebpf_laws_arrays [OF assms(1)] _ assms(5), of d mb ratio env] assms(2,3) obtain d' where
    d': "Run_pass_with E ''egress'' mb pace ratio env d = Done (True, d')" "slots MaxObjSize (EgressDataEntry d')"
      "ingress_maps (EbpfEdt d') = ingress_maps (env (EbpfEdt d))" "map_prios_ok (cfg_ops E) (EgressThrottleCfgMap (EbpfEdt d'))"
    by (auto simp: both_slots_def maps_prios_ok_def)
  then show ?thesis using assms(2,4) Run_pass_other_entry(1) [OF d'(1)]
    by (auto simp: both_slots_def maps_prios_ok_def ingress_maps_def)
next
  assume [simp]: "dir = ''ingress''"
  from alg_ingress.pass_prios [OF ebpf_laws_arrays [OF assms(1)] _ assms(5), of d mb ratio env] assms(2,3) obtain d' where
    d': "Run_pass_with E ''ingress'' mb pace ratio env d = Done (True, d')" "slots MaxObjSize (IngressDataEntry d')"
      "egress_maps (EbpfEdt d') = egress_maps (env (EbpfEdt d))" "map_prios_ok (cfg_ops E) (IngressThrottleCfgMap (EbpfEdt d'))"
    by (auto simp: both_slots_def maps_prios_ok_def)
  then show ?thesis using assms(2,4) Run_pass_other_entry(2) [OF d'(1)]
    by (auto simp: both_slots_def maps_prios_ok_def egress_maps_def)
qed

text \<open>What \<open>runAlg\<close> starts its goroutines with.\<close>

lemma configured_pass:
  assumes "alg_configure w speed i t = (e, calls, t')" and "c \<in> set calls"
  shows "(word_of_int (rc_pace c) :: u64) \<noteq> 0" and "rc_direction c = ''egress'' \<or> rc_direction c = ''ingress''"
    and "both_slots (rc_proc c)" and "ebpf_laws (w_Ebpf w) \<Longrightarrow> maps_prios_ok (w_Ebpf w) t \<Longrightarrow> maps_prios_ok (w_Ebpf w) t'"
proof -
  obtain m where m: "rc_direction c = ''egress'' \<or> rc_direction c = ''ingress''" "1 \<le> rc_pace c"
    by (rule configured_calls [OF assms])
  from assms obtain m :: int where "env_int (w_Getenv w) ''BwAdjustPace'' DefaultPace (\<lambda>i. i \<le> 0 \<or> m > 50) = Inr (rc_pace c)"
    by (auto simp: alg_configure_def Let_def split: sum.splits)
  then have "rc_pace c < 2 ^ 63"
    using Atoi_range by (fastforce simp: env_int_def Let_def DefaultPace_def split: if_splits sum.splits)
  then have "uint (word_of_int (rc_pace c) :: u64) = rc_pace c" using m(2) by (intro uint_of_int64) auto
  then show "(word_of_int (rc_pace c) :: u64) \<noteq> 0" using m(2) by auto
  show "rc_direction c = ''egress'' \<or> rc_direction c = ''ingress''" by (rule m(1))
  show "both_slots (rc_proc c)" using assms
    by (auto simp: alg_configure_def Let_def NewDaemonProc_def both_slots_def slots_def split: sum.splits)
  show "maps_prios_ok (w_Ebpf w) t'" if "ebpf_laws (w_Ebpf w)" "maps_prios_ok (w_Ebpf w) t"
    using assms that by (auto simp: alg_configure_def Let_def prios split: sum.splits)
qed

lemma both_slots_maps [simp]: "both_slots (d\<lparr>EbpfEdt := t\<rparr>) = both_slots d"
  by (simp add: both_slots_def)

lemma call_pass_ok:
  assumes "alg_configure w speed i t0 = (e, calls, t1)" and "c \<in> set calls" and "ebpf_laws (w_Ebpf w)"
    and "both_slots d" and "maps_prios_ok (w_Ebpf w) t" and "maps_prios_ok (w_Ebpf w) (env t)"
  shows "\<exists>d'. call_pass (w_Ebpf w) c env (d\<lparr>EbpfEdt := t\<rparr>) = Done (True, d') \<and> both_slots d' \<and> maps_prios_ok (w_Ebpf w) (EbpfEdt d')"
  unfolding call_pass_def using either_pass [OF assms(3), of "d\<lparr>EbpfEdt := t\<rparr>" env] configured_pass(1,2) [OF assms(1,2)] assms(4-6) by simp

lemma node_reachable_inv:
  assumes "node_reachable K J w calls st d" and "ebpf_laws (w_Ebpf w)"
  shows "both_slots d \<and> svc_prios_ok (w_Ebpf w) st \<and> (\<exists>speed i t e t'. alg_configure w speed i t = (e, calls, t'))"
  using assms(1)
proof (induction rule: node_reachable.induct)
  case (started speed interval t e t' st c)
  have "svc_prios_ok (w_Ebpf w) st"
    using configured_pass(4) [OF started(1,4) assms(2) started(2)] started(3) by (simp add: svc_prios_ok_def)
  with configured_pass(3) [OF started(1,4)] started(1) show ?case by blast
next
  case (request st d st')
  then show ?case using request_step_prios [OF assms(2)] by blast
next
  case (pass st d t st' t' c ok d')
  then have m: "maps_prios_ok (w_Ebpf w) t" "maps_prios_ok (w_Ebpf w) t'"
    using requests_prios [OF assms(2) pass(3)] by (auto simp: svc_prios_ok_def)
  from pass obtain speed i t0 e t1 where "alg_configure w speed i t0 = (e, calls, t1)" by blast
  from call_pass_ok [OF this _ assms(2), of c d t "\<lambda>_. t'"] pass m
  have "both_slots d'" "svc_prios_ok (w_Ebpf w) (st'\<lparr>svc_Edt := Some (EbpfEdt d')\<rparr>)" by (auto simp: svc_prios_ok_def)
  with pass show ?case by blast
qed

text \<open>C5: The allocator never stops for what the node daemon writes: from the start of both daemons on maps
  without foreign priorities, after any interleaving of pod set-ups and tear-downs, flow commands,
  daemon restarts and allocator passes, also with requests handled in the middle of a pass, the
  pinned configurations have the priorities 0, 1 and 2 only, and the next pass of either
  direction runs to its end and leaves them so, whatever it is overlapped by that does the same.\<close>

theorem allocator_never_panics:
  assumes "ebpf_laws (w_Ebpf w)" and "node_reachable K J w calls st d" and "c \<in> set calls"
  shows "\<exists>t. svc_Edt st = Some t \<and> maps_prios_ok (w_Ebpf w) t
    \<and> (\<forall>env. maps_prios_ok (w_Ebpf w) (env t) \<longrightarrow>
         (\<exists>d'. call_pass (w_Ebpf w) c env (d\<lparr>EbpfEdt := t\<rparr>) = Done (True, d') \<and> maps_prios_ok (w_Ebpf w) (EbpfEdt d')))"
proof -
  obtain t speed i t0 e t1 where "both_slots d" "svc_Edt st = Some t" "maps_prios_ok (w_Ebpf w) t"
    "alg_configure w speed i t0 = (e, calls, t1)"
    using node_reachable_inv [OF assms(2,1)] by (auto simp: svc_prios_ok_def)
  then show ?thesis using call_pass_ok [OF _ assms(3,1)] by blast
qed

text \<open>The example: both daemons start on zeroed maps, a pod is set up, and the egress pass follows.\<close>

lemma example_configure: "\<exists>e c d t'. alg_configure example_world 1000 100 example_tcbpf = (e, [c, d], t')"
proof -
  have g: "env_int (w_Getenv example_world) v d b = Inr d" if "v \<noteq> ''HostNICSpeed''" for v d b
    using that by (simp add: env_int_def example_world_def Let_def)
  have r: "env_ratio (w_Getenv example_world) P = Inr DefaultRatio" for P by (simp add: env_ratio_def example_world_def Let_def)
  show ?thesis by (simp add: alg_configure_def g r Let_def)
qed

lemma example_maps_prios: "maps_prios_ok kernel_ops example_tcbpf"
  by (auto simp: maps_prios_ok_def map_prios_ok_def kernel_ops_def kernel_array_def example_tcbpf_def zeroThrottleCfg_def split: if_splits)

theorem allocator_never_panics_witness:
  "\<exists>calls c st d t d'. node_reachable example_cluster example_decoder example_world calls st d \<and> c \<in> set calls
     \<and> pod_idof (svc_IDmanager st) ''c1'' \<noteq> None \<and> svc_Edt st = Some t
     \<and> call_pass kernel_ops c (\<lambda>t. t) (d\<lparr>EbpfEdt := t\<rparr>) = Done (True, d')"
proof -
  have E: "w_Ebpf example_world = kernel_ops" by (simp add: example_world_def)
  obtain e c d t' where conf: "alg_configure example_world 1000 100 example_tcbpf = (e, [c, d], t')" using example_configure by blast
  define st where "st = example_svc\<lparr>svc_Edt := Some t'\<rparr>"
  have n: "node_reachable example_cluster example_decoder example_world [c, d] st (rc_proc c)"
    by (rule node_reachable.started [OF conf]) (simp_all add: E example_maps_prios st_def)
  obtain rep st' where s: "SetQos example_cluster example_decoder kernel_ops example_setqos st = Done (rep, None, st')"
    unfolding st_def using example_SetQos_on by blast
  have r: "node_reachable example_cluster example_decoder example_world [c, d] st' (rc_proc c)"
    by (rule node_reachable.request [OF n]) (unfold E, rule request_step.pod_set [OF s])
  have "pod_idof (svc_IDmanager st') ''c1'' \<noteq> None"
    by (rule SetQos_success [OF s]) (simp add: pod_idof_def InsertPodInfo_def example_setqos_def)
  moreover obtain t d' where "svc_Edt st' = Some t" "call_pass kernel_ops c (\<lambda>t. t) ((rc_proc c)\<lparr>EbpfEdt := t\<rparr>) = Done (True, d')"
    using allocator_never_panics [OF _ r, of c] kernel_ops_laws unfolding E by auto
  ultimately show ?thesis using r by (intro exI conjI) auto
qed

end
