(* ===== verification/NlLinkData.thy ===== *)
theory NlLinkData
  imports NlLinkTypes
begin

text \<open>
  The data of the kinds of links, \<open>link_linux.go\<close>: for every kind the parser of \<open>IFLA_INFO_DATA\<close>, which
  fills the record of the kind from the attributes, and the encoder behind \<open>LinkAdd\<close>, which gives the
  attributes that are added to \<open>IFLA_LINKINFO\<close>. Attribute types are the numbers of \<open>nl/link_linux.go\<close>.
  A parser reads numbers in the byte order of the machine, which is little-endian.
\<close>

section \<open>Parsers\<close>

definition vlan_datum :: "NetlinkRouteAttr \<Rightarrow> VlanData \<Rightarrow> VlanData outcome" where
  "vlan_datum d x =
     (let v = ra_Value d; t = ra_Type d in
      if t = 1 then obind (value_u16 v) (\<lambda>n. Done (x\<lparr>vl_VlanId := uint n\<rparr>))
      else if t = 5 then obind (value_be16 v) (\<lambda>n. Done (x\<lparr>vl_VlanProtocol := uint n\<rparr>))
      else Done x)"

definition parseVlanData :: "NetlinkRouteAttr list \<Rightarrow> VlanData \<Rightarrow> VlanData outcome" where
  "parseVlanData = each_attr vlan_datum"

text \<open>An attribute without a value is skipped, except for \<open>IFLA_VXLAN_GBP\<close>. The port range is stored only when
  reading it fails, which it cannot with four bytes, so that it is never stored.\<close>

definition vxlan_datum :: "NetlinkRouteAttr \<Rightarrow> VxlanData \<Rightarrow> VxlanData outcome" where
  "vxlan_datum d x =
     (let v = ra_Value d; t = ra_Type d in
      if v = [] \<and> t \<noteq> 23 then Done x
      else if t = 1 then obind (value_u32 v) (\<lambda>n. Done (x\<lparr>vx_VxlanId := uint n\<rparr>))
      else if t = 3 then obind (value_u32 v) (\<lambda>n. Done (x\<lparr>vx_VtepDevIndex := uint n\<rparr>))
      else if t = 4 then obind (value_take 4 v) (\<lambda>n. Done (x\<lparr>vx_SrcAddr := Some n\<rparr>))
      else if t = 17 then obind (value_take 16 v) (\<lambda>n. Done (x\<lparr>vx_SrcAddr := Some n\<rparr>))
      else if t = 2 then obind (value_take 4 v) (\<lambda>n. Done (x\<lparr>vx_Group := Some n\<rparr>))
      else if t = 16 then obind (value_take 16 v) (\<lambda>n. Done (x\<lparr>vx_Group := Some n\<rparr>))
      else if t = 5 then obind (value_u8 v) (\<lambda>n. Done (x\<lparr>vx_TTL := uint n\<rparr>))
      else if t = 6 then obind (value_u8 v) (\<lambda>n. Done (x\<lparr>vx_TOS := uint n\<rparr>))
      else if t = 7 then obind (value_u8 v) (\<lambda>n. Done (x\<lparr>vx_Learning := n \<noteq> 0\<rparr>))
      else if t = 11 then obind (value_u8 v) (\<lambda>n. Done (x\<lparr>vx_Proxy := n \<noteq> 0\<rparr>))
      else if t = 12 then obind (value_u8 v) (\<lambda>n. Done (x\<lparr>vx_RSC := n \<noteq> 0\<rparr>))
      else if t = 13 then obind (value_u8 v) (\<lambda>n. Done (x\<lparr>vx_L2miss := n \<noteq> 0\<rparr>))
      else if t = 14 then obind (value_u8 v) (\<lambda>n. Done (x\<lparr>vx_L3miss := n \<noteq> 0\<rparr>))
      else if t = 18 then obind (value_u8 v) (\<lambda>n. Done (x\<lparr>vx_UDPCSum := n \<noteq> 0\<rparr>))
      else if t = 19 then obind (value_u8 v) (\<lambda>n. Done (x\<lparr>vx_UDP6ZeroCSumTx := n \<noteq> 0\<rparr>))
      else if t = 20 then obind (value_u8 v) (\<lambda>n. Done (x\<lparr>vx_UDP6ZeroCSumRx := n \<noteq> 0\<rparr>))
      else if t = 23 then Done (x\<lparr>vx_GBP := True\<rparr>)
      else if t = 25 then obind (value_u8 v) (\<lambda>n. Done (x\<lparr>vx_FlowBased := n \<noteq> 0\<rparr>))
      else if t = 8 then obind (value_u32 v) (\<lambda>n. Done (x\<lparr>vx_Age := uint n, vx_NoAge := (n = 0)\<rparr>))
      else if t = 9 then obind (value_u32 v) (\<lambda>n. Done (x\<lparr>vx_Limit := uint n\<rparr>))
      else if t = 15 then obind (value_be16 v) (\<lambda>n. Done (x\<lparr>vx_Port := uint n\<rparr>))
      else if t = 10 then obind (value_take 4 v) (\<lambda>n. Done x)
      else Done x)"

definition parseVxlanData :: "NetlinkRouteAttr list \<Rightarrow> VxlanData \<Rightarrow> VxlanData outcome" where
  "parseVxlanData = each_attr vxlan_datum"

text \<open>A list that does not parse gives no targets; an address of another length is left out.\<close>

definition target_ip :: "bytes \<Rightarrow> bytes list" where
  "target_ip v = (case To4 v of Some ip \<Rightarrow> [ip] | None \<Rightarrow> (case To16 v of Some ip \<Rightarrow> [ip] | None \<Rightarrow> []))"

definition parseBondArpIpTargets :: "bytes \<Rightarrow> bytes list option outcome" where
  "parseBondArpIpTargets v =
     obind (ParseRouteAttr v) (\<lambda>r. case r of
         Inl e \<Rightarrow> Done None
       | Inr ds \<Rightarrow> Done (Some (concat (map (\<lambda>d. target_ip (ra_Value d)) ds))))"

definition bond_datum :: "NetlinkRouteAttr \<Rightarrow> BondData \<Rightarrow> BondData outcome" where
  "bond_datum d x =
     (let v = ra_Value d; t = ra_Type d in
      if t = 1 then obind (value_u8 v) (\<lambda>n. Done (x\<lparr>bo_Mode := uint n\<rparr>))
      else if t = 2 then obind (value_u32 v) (\<lambda>n. Done (x\<lparr>bo_ActiveSlave := uint n\<rparr>))
      else if t = 3 then obind (value_u32 v) (\<lambda>n. Done (x\<lparr>bo_Miimon := uint n\<rparr>))
      else if t = 4 then obind (value_u32 v) (\<lambda>n. Done (x\<lparr>bo_UpDelay := uint n\<rparr>))
      else if t = 5 then obind (value_u32 v) (\<lambda>n. Done (x\<lparr>bo_DownDelay := uint n\<rparr>))
      else if t = 6 then obind (value_u8 v) (\<lambda>n. Done (x\<lparr>bo_UseCarrier := uint n\<rparr>))
      else if t = 7 then obind (value_u32 v) (\<lambda>n. Done (x\<lparr>bo_ArpInterval := uint n\<rparr>))
      else if t = 8 then obind (parseBondArpIpTargets v) (\<lambda>n. Done (x\<lparr>bo_ArpIpTargets := n\<rparr>))
      else if t = 9 then obind (value_u32 v) (\<lambda>n. Done (x\<lparr>bo_ArpValidate := uint n\<rparr>))
      else if t = 10 then obind (value_u32 v) (\<lambda>n. Done (x\<lparr>bo_ArpAllTargets := uint n\<rparr>))
      else if t = 11 then obind (value_u32 v) (\<lambda>n. Done (x\<lparr>bo_Primary := uint n\<rparr>))
      else if t = 12 then obind (value_u8 v) (\<lambda>n. Done (x\<lparr>bo_PrimaryReselect := uint n\<rparr>))
      else if t = 13 then obind (value_u8 v) (\<lambda>n. Done (x\<lparr>bo_FailOverMac := uint n\<rparr>))
      else if t = 14 then obind (value_u8 v) (\<lambda>n. Done (x\<lparr>bo_XmitHashPolicy := uint n\<rparr>))
      else if t = 15 then obind (value_u32 v) (\<lambda>n. Done (x\<lparr>bo_ResendIgmp := uint n\<rparr>))
      else if t = 16 then obind (value_u8 v) (\<lambda>n. Done (x\<lparr>bo_NumPeerNotif := uint n\<rparr>))
      else if t = 17 then obind (value_u8 v) (\<lambda>n. Done (x\<lparr>bo_AllSlavesActive := uint n\<rparr>))
      else if t = 18 then obind (value_u32 v) (\<lambda>n. Done (x\<lparr>bo_MinLinks := uint n\<rparr>))
      else if t = 19 then obind (value_u32 v) (\<lambda>n. Done (x\<lparr>bo_LpInterval := uint n\<rparr>))
      else if t = 20 then obind (value_u32 v) (\<lambda>n. Done (x\<lparr>bo_PacketsPerSlave := uint n\<rparr>))
      else if t = 21 then obind (value_u8 v) (\<lambda>n. Done (x\<lparr>bo_LacpRate := uint n\<rparr>))
      else if t = 22 then obind (value_u8 v) (\<lambda>n. Done (x\<lparr>bo_AdSelect := uint n\<rparr>))
      else if t = 24 then obind (value_u16 v) (\<lambda>n. Done (x\<lparr>bo_AdActorSysPrio := uint n\<rparr>))
      else if t = 25 then obind (value_u16 v) (\<lambda>n. Done (x\<lparr>bo_AdUserPortKey := uint n\<rparr>))
      else if t = 26 then obind (value_take 6 v) (\<lambda>n. Done (x\<lparr>bo_AdActorSystem := Some n\<rparr>))
      else if t = 27 then obind (value_u8 v) (\<lambda>n. Done (x\<lparr>bo_TlbDynamicLb := uint n\<rparr>))
      else Done x)"

definition parseBondData :: "NetlinkRouteAttr list \<Rightarrow> BondData \<Rightarrow> BondData outcome" where
  "parseBondData = each_attr bond_datum"

definition bond_slave_datum :: "NetlinkRouteAttr \<Rightarrow> BondSlave \<Rightarrow> BondSlave outcome" where
  "bond_slave_datum d x =
     (let v = ra_Value d; t = ra_Type d in
      if t = 1 then obind (value_u8 v) (\<lambda>n. Done (x\<lparr>bs_State := n\<rparr>))
      else if t = 2 then obind (value_u8 v) (\<lambda>n. Done (x\<lparr>bs_MiiStatus := n\<rparr>))
      else if t = 3 then obind (value_u32 v) (\<lambda>n. Done (x\<lparr>bs_LinkFailureCount := n\<rparr>))
      else if t = 4 then obind (value_take 6 v) (\<lambda>n. Done (x\<lparr>bs_PermHardwareAddr := Some n\<rparr>))
      else if t = 5 then obind (value_u16 v) (\<lambda>n. Done (x\<lparr>bs_QueueId := n\<rparr>))
      else if t = 6 then obind (value_u16 v) (\<lambda>n. Done (x\<lparr>bs_AggregatorId := n\<rparr>))
      else if t = 7 then obind (value_u8 v) (\<lambda>n. Done (x\<lparr>bs_AdActorOperPortState := n\<rparr>))
      else if t = 8 then obind (value_u16 v) (\<lambda>n. Done (x\<lparr>bs_AdPartnerOperPortState := n\<rparr>))
      else Done x)"

definition zeroBondSlave :: BondSlave where
  "zeroBondSlave = \<lparr>bs_State = 0, bs_MiiStatus = 0, bs_LinkFailureCount = 0, bs_PermHardwareAddr = None, bs_QueueId = 0,
     bs_AggregatorId = 0, bs_AdActorOperPortState = 0, bs_AdPartnerOperPortState = 0\<rparr>"

definition parseBondSlaveData :: "NetlinkRouteAttr list \<Rightarrow> BondSlave \<Rightarrow> BondSlave outcome" where
  "parseBondSlaveData = each_attr bond_slave_datum"

definition parseVrfSlaveData :: "NetlinkRouteAttr list \<Rightarrow> u32 \<Rightarrow> u32 outcome" where
  "parseVrfSlaveData = each_attr (\<lambda>d x. if ra_Type d = 1 then value_u32 (ra_Value d) else Done x)"

text \<open>The code reads four bytes of the two-byte value, the last two from its padding, and converts the number
  to 16 bits, which leaves the first two. \<open>IPVtap\<close> has a copy of this parser.\<close>

definition iPVlan_datum :: "NetlinkRouteAttr \<Rightarrow> IPVlanData \<Rightarrow> IPVlanData outcome" where
  "iPVlan_datum d x =
     (let v = ra_Value d; t = ra_Type d in
      if t = 1 then obind (value_u16 v) (\<lambda>n. Done (x\<lparr>iv_Mode := n\<rparr>))
      else if t = 2 then obind (value_u16 v) (\<lambda>n. Done (x\<lparr>iv_Flag := n\<rparr>))
      else Done x)"

definition parseIPVlanData :: "NetlinkRouteAttr list \<Rightarrow> IPVlanData \<Rightarrow> IPVlanData outcome" where
  "parseIPVlanData = each_attr iPVlan_datum"

text \<open>
  An unknown mode leaves the mode as it is; a count empties the list; addresses that do not parse end in
  a panic. \<open>Macvtap\<close> has the data of \<open>Macvlan\<close> and its parser.
\<close>

definition macvlan_mode :: "u32 \<Rightarrow> u16 \<Rightarrow> u16" where
  "macvlan_mode n dflt =
     (if n = 1 then 1 else if n = 2 then 2 else if n = 4 then 3 else if n = 8 then 4 else if n = 16 then 5 else dflt)"

definition mac_list :: "NetlinkRouteAttr list \<Rightarrow> bytes list \<Rightarrow> bytes list outcome" where
  "mac_list = each_attr (\<lambda>d macs. obind (value_take 6 (ra_Value d)) (\<lambda>m. Done (macs @ [m])))"

definition macvlan_datum :: "NetlinkRouteAttr \<Rightarrow> MacvlanData \<Rightarrow> MacvlanData outcome" where
  "macvlan_datum d x =
     (let v = ra_Value d; t = ra_Type d in
      if t = 1 then obind (value_u32 v) (\<lambda>n. Done (x\<lparr>mv_Mode := macvlan_mode n (mv_Mode x)\<rparr>))
      else if t = 6 then obind (value_u32 v) (\<lambda>n. Done (x\<lparr>mv_MACAddrs := []\<rparr>))
      else if t = 5
        then obind (ParseRouteAttr v) (\<lambda>r. case r of Inl e \<Rightarrow> Panic CalledPanic
          | Inr macs \<Rightarrow> obind (mac_list macs (mv_MACAddrs x)) (\<lambda>l. Done (x\<lparr>mv_MACAddrs := l\<rparr>)))
      else Done x)"

definition parseMacvlanData :: "NetlinkRouteAttr list \<Rightarrow> MacvlanData \<Rightarrow> MacvlanData outcome" where
  "parseMacvlanData = each_attr macvlan_datum"

definition geneve_datum :: "NetlinkRouteAttr \<Rightarrow> GeneveData \<Rightarrow> GeneveData outcome" where
  "geneve_datum d x =
     (let v = ra_Value d; t = ra_Type d in
      if t = 1 then obind (value_u32 v) (\<lambda>n. Done (x\<lparr>gn_ID := n\<rparr>))
      else if t = 2 \<or> t = 7 then Done (x\<lparr>gn_Remote := Some v\<rparr>)
      else if t = 5 then obind (value_be16 v) (\<lambda>n. Done (x\<lparr>gn_Dport := n\<rparr>))
      else if t = 3 then obind (value_u8 v) (\<lambda>n. Done (x\<lparr>gn_Ttl := n\<rparr>))
      else if t = 4 then obind (value_u8 v) (\<lambda>n. Done (x\<lparr>gn_Tos := n\<rparr>))
      else Done x)"

definition parseGeneveData :: "NetlinkRouteAttr list \<Rightarrow> GeneveData \<Rightarrow> GeneveData outcome" where
  "parseGeneveData = each_attr geneve_datum"

text \<open>\<open>IFLA_GRE_OKEY\<close> (5) goes to the key for input and \<open>IFLA_GRE_IKEY\<close> (4) to the one for output, unlike in \<open>Gretun\<close>.\<close>

definition gretap_datum :: "NetlinkRouteAttr \<Rightarrow> GretapData \<Rightarrow> GretapData outcome" where
  "gretap_datum d x =
     (let v = ra_Value d; t = ra_Type d in
      if t = 5 then obind (value_be32 v) (\<lambda>n. Done (x\<lparr>gt_IKey := n\<rparr>))
      else if t = 4 then obind (value_be32 v) (\<lambda>n. Done (x\<lparr>gt_OKey := n\<rparr>))
      else if t = 6 then Done (x\<lparr>gt_Local := Some v\<rparr>)
      else if t = 7 then Done (x\<lparr>gt_Remote := Some v\<rparr>)
      else if t = 16 then obind (value_be16 v) (\<lambda>n. Done (x\<lparr>gt_EncapSport := n\<rparr>))
      else if t = 17 then obind (value_be16 v) (\<lambda>n. Done (x\<lparr>gt_EncapDport := n\<rparr>))
      else if t = 2 then obind (value_be16 v) (\<lambda>n. Done (x\<lparr>gt_IFlags := n\<rparr>))
      else if t = 3 then obind (value_be16 v) (\<lambda>n. Done (x\<lparr>gt_OFlags := n\<rparr>))
      else if t = 8 then obind (value_u8 v) (\<lambda>n. Done (x\<lparr>gt_Ttl := n\<rparr>))
      else if t = 9 then obind (value_u8 v) (\<lambda>n. Done (x\<lparr>gt_Tos := n\<rparr>))
      else if t = 10 then obind (value_u8 v) (\<lambda>n. Done (x\<lparr>gt_PMtuDisc := n\<rparr>))
      else if t = 14 then obind (value_u16 v) (\<lambda>n. Done (x\<lparr>gt_EncapType := n\<rparr>))
      else if t = 15 then obind (value_u16 v) (\<lambda>n. Done (x\<lparr>gt_EncapFlags := n\<rparr>))
      else if t = 18 then Done (x\<lparr>gt_FlowBased := True\<rparr>)
      else Done x)"

definition parseGretapData :: "NetlinkRouteAttr list \<Rightarrow> GretapData \<Rightarrow> GretapData outcome" where
  "parseGretapData = each_attr gretap_datum"

definition gretun_datum :: "NetlinkRouteAttr \<Rightarrow> GretunData \<Rightarrow> GretunData outcome" where
  "gretun_datum d x =
     (let v = ra_Value d; t = ra_Type d in
      if t = 4 then obind (value_be32 v) (\<lambda>n. Done (x\<lparr>gr_IKey := n\<rparr>))
      else if t = 5 then obind (value_be32 v) (\<lambda>n. Done (x\<lparr>gr_OKey := n\<rparr>))
      else if t = 6 then Done (x\<lparr>gr_Local := Some v\<rparr>)
      else if t = 7 then Done (x\<lparr>gr_Remote := Some v\<rparr>)
      else if t = 2 then obind (value_be16 v) (\<lambda>n. Done (x\<lparr>gr_IFlags := n\<rparr>))
      else if t = 3 then obind (value_be16 v) (\<lambda>n. Done (x\<lparr>gr_OFlags := n\<rparr>))
      else if t = 8 then obind (value_u8 v) (\<lambda>n. Done (x\<lparr>gr_Ttl := n\<rparr>))
      else if t = 9 then obind (value_u8 v) (\<lambda>n. Done (x\<lparr>gr_Tos := n\<rparr>))
      else if t = 10 then obind (value_u8 v) (\<lambda>n. Done (x\<lparr>gr_PMtuDisc := n\<rparr>))
      else if t = 14 then obind (value_u16 v) (\<lambda>n. Done (x\<lparr>gr_EncapType := n\<rparr>))
      else if t = 15 then obind (value_u16 v) (\<lambda>n. Done (x\<lparr>gr_EncapFlags := n\<rparr>))
      else if t = 16 then obind (value_be16 v) (\<lambda>n. Done (x\<lparr>gr_EncapSport := n\<rparr>))
      else if t = 17 then obind (value_be16 v) (\<lambda>n. Done (x\<lparr>gr_EncapDport := n\<rparr>))
      else Done x)"

definition parseGretunData :: "NetlinkRouteAttr list \<Rightarrow> GretunData \<Rightarrow> GretunData outcome" where
  "parseGretunData = each_attr gretun_datum"

definition iptun_datum :: "NetlinkRouteAttr \<Rightarrow> IptunData \<Rightarrow> IptunData outcome" where
  "iptun_datum d x =
     (let v = ra_Value d; t = ra_Type d in
      if v = [] then Done x
      else if t = 2 then obind (value_take 4 v) (\<lambda>n. Done (x\<lparr>ip_Local := Some n\<rparr>))
      else if t = 3 then obind (value_take 4 v) (\<lambda>n. Done (x\<lparr>ip_Remote := Some n\<rparr>))
      else if t = 4 then obind (value_u8 v) (\<lambda>n. Done (x\<lparr>ip_Ttl := n\<rparr>))
      else if t = 5 then obind (value_u8 v) (\<lambda>n. Done (x\<lparr>ip_Tos := n\<rparr>))
      else if t = 10 then obind (value_u8 v) (\<lambda>n. Done (x\<lparr>ip_PMtuDisc := n\<rparr>))
      else if t = 17 then obind (value_be16 v) (\<lambda>n. Done (x\<lparr>ip_EncapSport := n\<rparr>))
      else if t = 18 then obind (value_be16 v) (\<lambda>n. Done (x\<lparr>ip_EncapDport := n\<rparr>))
      else if t = 15 then obind (value_u16 v) (\<lambda>n. Done (x\<lparr>ip_EncapType := n\<rparr>))
      else if t = 16 then obind (value_u16 v) (\<lambda>n. Done (x\<lparr>ip_EncapFlags := n\<rparr>))
      else if t = 19 then Done (x\<lparr>ip_FlowBased := True\<rparr>)
      else if t = 9 then obind (value_u8 v) (\<lambda>n. Done (x\<lparr>ip_Proto := n\<rparr>))
      else Done x)"

definition parseIptunData :: "NetlinkRouteAttr list \<Rightarrow> IptunData \<Rightarrow> IptunData outcome" where
  "parseIptunData = each_attr iptun_datum"

definition ip6tnl_datum :: "NetlinkRouteAttr \<Rightarrow> Ip6tnlData \<Rightarrow> Ip6tnlData outcome" where
  "ip6tnl_datum d x =
     (let v = ra_Value d; t = ra_Type d in
      if t = 2 then obind (value_take 16 v) (\<lambda>n. Done (x\<lparr>i6_Local := Some n\<rparr>))
      else if t = 3 then obind (value_take 16 v) (\<lambda>n. Done (x\<lparr>i6_Remote := Some n\<rparr>))
      else if t = 4 then obind (value_u8 v) (\<lambda>n. Done (x\<lparr>i6_Ttl := n\<rparr>))
      else if t = 5 then obind (value_u8 v) (\<lambda>n. Done (x\<lparr>i6_Tos := n\<rparr>))
      else if t = 8 then obind (value_u32 v) (\<lambda>n. Done (x\<lparr>i6_Flags := n\<rparr>))
      else if t = 9 then obind (value_u8 v) (\<lambda>n. Done (x\<lparr>i6_Proto := n\<rparr>))
      else if t = 7 then obind (value_u32 v) (\<lambda>n. Done (x\<lparr>i6_FlowInfo := n\<rparr>))
      else if t = 6 then obind (value_u8 v) (\<lambda>n. Done (x\<lparr>i6_EncapLimit := n\<rparr>))
      else if t = 15 then obind (value_u16 v) (\<lambda>n. Done (x\<lparr>i6_EncapType := n\<rparr>))
      else if t = 16 then obind (value_u16 v) (\<lambda>n. Done (x\<lparr>i6_EncapFlags := n\<rparr>))
      else if t = 17 then obind (value_be16 v) (\<lambda>n. Done (x\<lparr>i6_EncapSport := n\<rparr>))
      else if t = 18 then obind (value_be16 v) (\<lambda>n. Done (x\<lparr>i6_EncapDport := n\<rparr>))
      else Done x)"

definition parseIp6tnlData :: "NetlinkRouteAttr list \<Rightarrow> Ip6tnlData \<Rightarrow> Ip6tnlData outcome" where
  "parseIp6tnlData = each_attr ip6tnl_datum"

definition sittun_datum :: "NetlinkRouteAttr \<Rightarrow> SittunData \<Rightarrow> SittunData outcome" where
  "sittun_datum d x =
     (let v = ra_Value d; t = ra_Type d in
      if t = 2 then obind (value_take 4 v) (\<lambda>n. Done (x\<lparr>st_Local := Some n\<rparr>))
      else if t = 3 then obind (value_take 4 v) (\<lambda>n. Done (x\<lparr>st_Remote := Some n\<rparr>))
      else if t = 4 then obind (value_u8 v) (\<lambda>n. Done (x\<lparr>st_Ttl := n\<rparr>))
      else if t = 5 then obind (value_u8 v) (\<lambda>n. Done (x\<lparr>st_Tos := n\<rparr>))
      else if t = 10 then obind (value_u8 v) (\<lambda>n. Done (x\<lparr>st_PMtuDisc := n\<rparr>))
      else if t = 9 then obind (value_u8 v) (\<lambda>n. Done (x\<lparr>st_Proto := n\<rparr>))
      else if t = 15 then obind (value_u16 v) (\<lambda>n. Done (x\<lparr>st_EncapType := n\<rparr>))
      else if t = 16 then obind (value_u16 v) (\<lambda>n. Done (x\<lparr>st_EncapFlags := n\<rparr>))
      else if t = 17 then obind (value_be16 v) (\<lambda>n. Done (x\<lparr>st_EncapSport := n\<rparr>))
      else if t = 18 then obind (value_be16 v) (\<lambda>n. Done (x\<lparr>st_EncapDport := n\<rparr>))
      else Done x)"

definition parseSittunData :: "NetlinkRouteAttr list \<Rightarrow> SittunData \<Rightarrow> SittunData outcome" where
  "parseSittunData = each_attr sittun_datum"

definition vti_datum :: "NetlinkRouteAttr \<Rightarrow> VtiData \<Rightarrow> VtiData outcome" where
  "vti_datum d x =
     (let v = ra_Value d; t = ra_Type d in
      if t = 4 then Done (x\<lparr>vt_Local := Some v\<rparr>)
      else if t = 5 then Done (x\<lparr>vt_Remote := Some v\<rparr>)
      else if t = 2 then obind (value_be32 v) (\<lambda>n. Done (x\<lparr>vt_IKey := n\<rparr>))
      else if t = 3 then obind (value_be32 v) (\<lambda>n. Done (x\<lparr>vt_OKey := n\<rparr>))
      else Done x)"

definition parseVtiData :: "NetlinkRouteAttr list \<Rightarrow> VtiData \<Rightarrow> VtiData outcome" where
  "parseVtiData = each_attr vti_datum"

definition parseVrfData :: "NetlinkRouteAttr list \<Rightarrow> u32 \<Rightarrow> u32 outcome" where
  "parseVrfData = each_attr (\<lambda>d x. if ra_Type d = 1 then value_u32 (ra_Value d) else Done x)"

definition bridge_datum :: "NetlinkRouteAttr \<Rightarrow> BridgeData \<Rightarrow> BridgeData outcome" where
  "bridge_datum d x =
     (let v = ra_Value d; t = ra_Type d in
      if t = 4 then obind (value_u32 v) (\<lambda>n. Done (x\<lparr>br_AgeingTime := Some n\<rparr>))
      else if t = 2 then obind (value_u32 v) (\<lambda>n. Done (x\<lparr>br_HelloTime := Some n\<rparr>))
      else if t = 23 then obind (value_u8 v) (\<lambda>n. Done (x\<lparr>br_MulticastSnooping := Some (n = 1)\<rparr>))
      else if t = 7 then obind (value_u8 v) (\<lambda>n. Done (x\<lparr>br_VlanFiltering := Some (n = 1)\<rparr>))
      else Done x)"

definition parseBridgeData :: "NetlinkRouteAttr list \<Rightarrow> BridgeData \<Rightarrow> BridgeData outcome" where
  "parseBridgeData = each_attr bridge_datum"

definition gTP_datum :: "NetlinkRouteAttr \<Rightarrow> GTPData \<Rightarrow> GTPData outcome" where
  "gTP_datum d x =
     (let v = ra_Value d; t = ra_Type d in
      if t = 1 then obind (getle32 v) (\<lambda>n. Done (x\<lparr>gp_FD0 := uint n\<rparr>))
      else if t = 2 then obind (getle32 v) (\<lambda>n. Done (x\<lparr>gp_FD1 := uint n\<rparr>))
      else if t = 3 then obind (getle32 v) (\<lambda>n. Done (x\<lparr>gp_PDPHashsize := uint n\<rparr>))
      else if t = 4 then obind (getle32 v) (\<lambda>n. Done (x\<lparr>gp_Role := uint n\<rparr>))
      else Done x)"

definition parseGTPData :: "NetlinkRouteAttr list \<Rightarrow> GTPData \<Rightarrow> GTPData outcome" where
  "parseGTPData = each_attr gTP_datum"

text \<open>
  The index of the parent is written to the attributes of the link, which the caller overwrites
  afterwards; what stays is the identifier.
\<close>

definition xfrmi_datum :: "NetlinkRouteAttr \<Rightarrow> int \<times> u32 \<Rightarrow> (int \<times> u32) outcome" where
  "xfrmi_datum d s =
     (if ra_Type d = 1 then obind (getle32 (ra_Value d)) (\<lambda>n. Done (uint n, snd s))
      else if ra_Type d = 2 then obind (getle32 (ra_Value d)) (\<lambda>n. Done (fst s, n))
      else Done s)"

definition parseXfrmiData :: "NetlinkRouteAttr list \<Rightarrow> int \<times> u32 \<Rightarrow> (int \<times> u32) outcome" where
  "parseXfrmiData = each_attr xfrmi_datum"

definition tuntap_datum :: "NetlinkRouteAttr \<Rightarrow> TuntapData \<Rightarrow> TuntapData outcome" where
  "tuntap_datum d x =
     (let v = ra_Value d; t = ra_Type d in
      if t = 1 then obind (getle32 v) (\<lambda>n. Done (x\<lparr>tt_Owner := n\<rparr>))
      else if t = 2 then obind (getle32 v) (\<lambda>n. Done (x\<lparr>tt_Group := n\<rparr>))
      else if t = 3 then obind (value_u8 v) (\<lambda>n. Done (x\<lparr>tt_Mode := ucast n\<rparr>))
      else if t = 6 then obind (value_u8 v) (\<lambda>n. Done (x\<lparr>tt_NonPersist := (n = 0)\<rparr>))
      else Done x)"

definition parseTuntapData :: "NetlinkRouteAttr list \<Rightarrow> TuntapData \<Rightarrow> TuntapData outcome" where
  "parseTuntapData = each_attr tuntap_datum"

definition iPoIB_datum :: "NetlinkRouteAttr \<Rightarrow> IPoIBData \<Rightarrow> IPoIBData outcome" where
  "iPoIB_datum d x =
     (let v = ra_Value d; t = ra_Type d in
      if t = 1 then obind (getle16 v) (\<lambda>n. Done (x\<lparr>ib_Pkey := n\<rparr>))
      else if t = 2 then obind (getle16 v) (\<lambda>n. Done (x\<lparr>ib_Mode := n\<rparr>))
      else if t = 3 then obind (getle16 v) (\<lambda>n. Done (x\<lparr>ib_Umcast := n\<rparr>))
      else Done x)"

definition parseIPoIBData :: "NetlinkRouteAttr list \<Rightarrow> IPoIBData \<Rightarrow> IPoIBData outcome" where
  "parseIPoIBData = each_attr iPoIB_datum"

definition can_datum :: "NetlinkRouteAttr \<Rightarrow> CanData \<Rightarrow> CanData outcome" where
  "can_datum d x =
     (let v = ra_Value d; t = ra_Type d in
      if t = 1
        then obind (u32_from 0 v) (\<lambda>n0. obind (u32_from 4 v) (\<lambda>n1. obind (u32_from 8 v) (\<lambda>n2. 
          obind (u32_from 12 v) (\<lambda>n3. obind (u32_from 16 v) (\<lambda>n4. obind (u32_from 20 v) (\<lambda>n5. 
          obind (u32_from 24 v) (\<lambda>n6. obind (u32_from 28 v) (\<lambda>n7.
          Done (x\<lparr>cn_BitRate := n0, cn_SamplePoint := n1, cn_TimeQuanta := n2, cn_PropagationSegment := n3,
            cn_PhaseSegment1 := n4, cn_PhaseSegment2 := n5, cn_SyncJumpWidth := n6, cn_BitRatePreScaler := n7\<rparr>)))))))))
      else if t = 2
        then obind (value_take 16 v) (\<lambda>n0. obind (u32_from 16 v) (\<lambda>n1. obind (u32_from 20 v) (\<lambda>n2. 
          obind (u32_from 24 v) (\<lambda>n3. obind (u32_from 28 v) (\<lambda>n4. obind (u32_from 32 v) (\<lambda>n5. 
          obind (u32_from 36 v) (\<lambda>n6. obind (u32_from 40 v) (\<lambda>n7. obind (u32_from 44 v) (\<lambda>n8.
          Done (x\<lparr>cn_Name := bytes_string n0, cn_TimeSegment1Min := n1, cn_TimeSegment1Max := n2,
            cn_TimeSegment2Min := n3, cn_TimeSegment2Max := n4, cn_SyncJumpWidthMax := n5,
            cn_BitRatePreScalerMin := n6, cn_BitRatePreScalerMax := n7, cn_BitRatePreScalerInc := n8\<rparr>))))))))))
      else if t = 3 then obind (getle32 v) (\<lambda>n. Done (x\<lparr>cn_ClockFrequency := n\<rparr>))
      else if t = 4 then obind (getle32 v) (\<lambda>n. Done (x\<lparr>cn_State := n\<rparr>))
      else if t = 5
        then obind (u32_from 0 v) (\<lambda>n0. obind (u32_from 4 v) (\<lambda>n1.
          Done (x\<lparr>cn_Mask := n0, cn_Flags := n1\<rparr>)))
      else if t = 8
        then obind (getle16 v) (\<lambda>n0. obind (u16_from 2 v) (\<lambda>n1. Done (x\<lparr>cn_TxError := n0, cn_RxError := n1\<rparr>)))
      else if t = 6 then obind (getle32 v) (\<lambda>n. Done (x\<lparr>cn_RestartMs := n\<rparr>))
      else Done x)"

definition parseCanData :: "NetlinkRouteAttr list \<Rightarrow> CanData \<Rightarrow> CanData outcome" where
  "parseCanData = each_attr can_datum"

definition bareUDP_datum :: "NetlinkRouteAttr \<Rightarrow> BareUDPData \<Rightarrow> BareUDPData outcome" where
  "bareUDP_datum d x =
     (let v = ra_Value d; t = ra_Type d in
      if t = 1 then obind (getbe16 v) (\<lambda>n. Done (x\<lparr>bu_Port := n\<rparr>))
      else if t = 2 then obind (getbe16 v) (\<lambda>n. Done (x\<lparr>bu_EtherType := n\<rparr>))
      else if t = 3 then obind (getle16 v) (\<lambda>n. Done (x\<lparr>bu_SrcPortMin := n\<rparr>))
      else if t = 4 then Done (x\<lparr>bu_MultiProto := True\<rparr>)
      else Done x)"

definition parseBareUDPData :: "NetlinkRouteAttr list \<Rightarrow> BareUDPData \<Rightarrow> BareUDPData outcome" where
  "parseBareUDPData = each_attr bareUDP_datum"

section \<open>Encoders\<close>

definition boolAttr :: "bool \<Rightarrow> bytes" where "boolAttr b = Uint8Attr (if b then 1 else 0)"
definition boolToByte :: "bool \<Rightarrow> bytes" where "boolToByte x = (if x then [1] else [0])"

definition attr_if :: "bool \<Rightarrow> int \<Rightarrow> bytes \<Rightarrow> request_data list" where
  "attr_if c t d = (if c then [NewRtAttr t d] else [])"

text \<open>\<open>data := linkInfo.AddRtAttr(IFLA_INFO_DATA, nil)\<close> with what is added to it.\<close>

definition info_data :: "request_data list \<Rightarrow> request_data" where
  "info_data cs = RtAttr 2 [] cs"

definition addVlanAttrs :: "VlanData \<Rightarrow> request_data list" where
  "addVlanAttrs x =
     [info_data ([NewRtAttr 1 (le16 (word_of_int (vl_VlanId x)))] @
        attr_if (vl_VlanProtocol x \<noteq> 0) 5 (htons (word_of_int (vl_VlanProtocol x))))]"

definition ip46_attr :: "int \<Rightarrow> int \<Rightarrow> net_ip \<Rightarrow> request_data list" where
  "ip46_attr t4 t6 ip =
     (if ip = None then []
      else case To4 (ip_bytes ip) of
          Some a \<Rightarrow> [NewRtAttr t4 a]
        | None \<Rightarrow> (case To16 (ip_bytes ip) of Some a \<Rightarrow> [NewRtAttr t6 a] | None \<Rightarrow> []))"

text \<open>In flow-based mode the identifier of the link itself is reset before it is sent.\<close>

definition vxlan_sent :: "VxlanData \<Rightarrow> VxlanData" where
  "vxlan_sent x = (if vx_FlowBased x then x\<lparr>vx_VxlanId := 0\<rparr> else x)"

definition vxlan_attrs :: "VxlanData \<Rightarrow> request_data list" where
  "vxlan_attrs x =
     [NewRtAttr 1 (Uint32Attr (word_of_int (vx_VxlanId x)))] @
     attr_if (vx_VtepDevIndex x \<noteq> 0) 3 (Uint32Attr (word_of_int (vx_VtepDevIndex x))) @
     ip46_attr 4 17 (vx_SrcAddr x) @ ip46_attr 2 16 (vx_Group x) @
     [NewRtAttr 5 (Uint8Attr (word_of_int (vx_TTL x))), NewRtAttr 6 (Uint8Attr (word_of_int (vx_TOS x)))] @
     [NewRtAttr 7 (boolAttr (vx_Learning x)), NewRtAttr 11 (boolAttr (vx_Proxy x))] @
     [NewRtAttr 12 (boolAttr (vx_RSC x)), NewRtAttr 13 (boolAttr (vx_L2miss x))] @
     [NewRtAttr 14 (boolAttr (vx_L3miss x))] @
     [NewRtAttr 19 (boolAttr (vx_UDP6ZeroCSumTx x)), NewRtAttr 20 (boolAttr (vx_UDP6ZeroCSumRx x))] @
     attr_if (vx_UDPCSum x) 18 (boolAttr (vx_UDPCSum x)) @ attr_if (vx_GBP x) 23 [] @
     attr_if (vx_FlowBased x) 25 (boolAttr (vx_FlowBased x)) @
     (if vx_NoAge x then [NewRtAttr 8 (Uint32Attr 0)] else attr_if (vx_Age x > 0) 8 (Uint32Attr (word_of_int (vx_Age x)))) @
     attr_if (vx_Limit x > 0) 9 (Uint32Attr (word_of_int (vx_Limit x))) @
     attr_if (vx_Port x > 0) 15 (htons (word_of_int (vx_Port x))) @
     attr_if (vx_PortLow x > 0 \<or> vx_PortHigh x > 0) 10 (be16 (word_of_int (vx_PortLow x)) @ be16 (word_of_int (vx_PortHigh x)))"

definition addVxlanAttrs :: "VxlanData \<Rightarrow> request_data list" where
  "addVxlanAttrs x = [info_data (vxlan_attrs (vxlan_sent x))]"

text \<open>The options of a bond that are not negative.\<close>

definition nonneg8 :: "int \<Rightarrow> int \<Rightarrow> request_data list" where
  "nonneg8 t n = attr_if (n \<ge> 0) t (Uint8Attr (word_of_int n))"

definition nonneg16 :: "int \<Rightarrow> int \<Rightarrow> request_data list" where
  "nonneg16 t n = attr_if (n \<ge> 0) t (Uint16Attr (word_of_int n))"

definition nonneg32 :: "int \<Rightarrow> int \<Rightarrow> request_data list" where
  "nonneg32 t n = attr_if (n \<ge> 0) t (Uint32Attr (word_of_int n))"

fun target_attrs :: "int \<Rightarrow> bytes list \<Rightarrow> request_data list" where
  "target_attrs i [] = []"
| "target_attrs i (ip # ips) = map (NewRtAttr i) (target_ip ip) @ target_attrs (i + 1) ips"

definition addBondAttrs :: "BondData \<Rightarrow> request_data list" where
  "addBondAttrs x = [info_data (
     nonneg8 1 (bo_Mode x) @ nonneg32 2 (bo_ActiveSlave x) @ nonneg32 3 (bo_Miimon x) @ nonneg32 4 (bo_UpDelay x) @
     nonneg32 5 (bo_DownDelay x) @ nonneg8 6 (bo_UseCarrier x) @ nonneg32 7 (bo_ArpInterval x) @
     (case bo_ArpIpTargets x of None \<Rightarrow> [] | Some ips \<Rightarrow> [RtAttr 8 [] (target_attrs 0 ips)]) @
     nonneg32 9 (bo_ArpValidate x) @ nonneg32 10 (bo_ArpAllTargets x) @ nonneg32 11 (bo_Primary x) @
     nonneg8 12 (bo_PrimaryReselect x) @ nonneg8 13 (bo_FailOverMac x) @ nonneg8 14 (bo_XmitHashPolicy x) @
     nonneg32 15 (bo_ResendIgmp x) @ nonneg8 16 (bo_NumPeerNotif x) @ nonneg8 17 (bo_AllSlavesActive x) @
     nonneg32 18 (bo_MinLinks x) @ nonneg32 19 (bo_LpInterval x) @ nonneg32 20 (bo_PacketsPerSlave x) @
     nonneg8 21 (bo_LacpRate x) @ nonneg8 22 (bo_AdSelect x) @ nonneg16 24 (bo_AdActorSysPrio x) @
     nonneg16 25 (bo_AdUserPortKey x) @
     (case bo_AdActorSystem x of None \<Rightarrow> [] | Some m \<Rightarrow> [NewRtAttr 26 m]) @
     nonneg8 27 (bo_TlbDynamicLb x))]"

definition addBondSlaveAttrs :: "BondSlave \<Rightarrow> request_data list" where
  "addBondSlaveAttrs x = [RtAttr 5 []
     ([NewRtAttr 1 (Uint8Attr (bs_State x)), NewRtAttr 2 (Uint8Attr (bs_MiiStatus x)), NewRtAttr 3 (Uint32Attr (bs_LinkFailureCount x)),
       NewRtAttr 5 (Uint16Attr (bs_QueueId x)), NewRtAttr 6 (Uint16Attr (bs_AggregatorId x)),
       NewRtAttr 7 (Uint8Attr (bs_AdActorOperPortState x)), NewRtAttr 8 (Uint16Attr (bs_AdPartnerOperPortState x))] @
      (case bs_PermHardwareAddr x of None \<Rightarrow> [] | Some mac \<Rightarrow> [NewRtAttr 4 mac]))]"

definition addIPVlanAttrs :: "IPVlanData \<Rightarrow> request_data list" where
  "addIPVlanAttrs x = [info_data [NewRtAttr 1 (Uint16Attr (iv_Mode x)), NewRtAttr 2 (Uint16Attr (iv_Flag x))]]"

text \<open>\<open>macvlanModes[link.Mode]\<close> panics for a mode that is not in the table.\<close>

definition macvlanModes :: "u32 list" where "macvlanModes = [0, 1, 2, 4, 8, 16]"

definition addMacvlanAttrs :: "MacvlanData \<Rightarrow> request_data list outcome" where
  "addMacvlanAttrs x =
     (if mv_Mode x = 0 then Done []
      else if unat (mv_Mode x) < length macvlanModes
      then Done [info_data [NewRtAttr 1 (Uint32Attr (macvlanModes ! unat (mv_Mode x)))]]
      else Panic IndexOutOfRange)"

text \<open>In flow-based mode the attribute goes next to the data, not into it.\<close>

definition addGeneveAttrs :: "GeneveData \<Rightarrow> request_data list" where
  "addGeneveAttrs x =
     (if gn_FlowBased x then [info_data [], NewRtAttr 6 (boolAttr (gn_FlowBased x))]
      else [info_data (
        (case gn_Remote x of None \<Rightarrow> [] | Some ip \<Rightarrow> (case To4 ip of Some a \<Rightarrow> [NewRtAttr 2 a] | None \<Rightarrow> [NewRtAttr 7 ip])) @
        attr_if (gn_ID x \<noteq> 0) 1 (Uint32Attr (gn_ID x)) @ attr_if (gn_Dport x \<noteq> 0) 5 (htons (gn_Dport x)) @
        attr_if (gn_Ttl x \<noteq> 0) 3 (Uint8Attr (gn_Ttl x)) @ attr_if (gn_Tos x \<noteq> 0) 4 (Uint8Attr (gn_Tos x)))])"

definition gre_ip :: "int \<Rightarrow> net_ip \<Rightarrow> request_data list" where
  "gre_ip t ip = (case ip of None \<Rightarrow> [] | Some b \<Rightarrow> [NewRtAttr t (case To4 b of Some a \<Rightarrow> a | None \<Rightarrow> b)])"

definition GRE_KEY :: u16 where "GRE_KEY = 0x2000"

text \<open>A key that is set also sets its flag, in the link itself.\<close>

definition gretap_sent :: "GretapData \<Rightarrow> GretapData" where
  "gretap_sent x = (if gt_FlowBased x then x
     else x\<lparr>gt_IFlags := (if gt_IKey x \<noteq> 0 then gt_IFlags x OR GRE_KEY else gt_IFlags x),
           gt_OFlags := (if gt_OKey x \<noteq> 0 then gt_OFlags x OR GRE_KEY else gt_OFlags x)\<rparr>)"

definition gretap_attrs :: "GretapData \<Rightarrow> request_data list" where
  "gretap_attrs x =
     (if gt_FlowBased x then [NewRtAttr 18 (boolAttr (gt_FlowBased x))]
      else gre_ip 6 (gt_Local x) @ gre_ip 7 (gt_Remote x) @ attr_if (gt_IKey x \<noteq> 0) 4 (htonl (gt_IKey x)) @
        attr_if (gt_OKey x \<noteq> 0) 5 (htonl (gt_OKey x)) @ [NewRtAttr 2 (htons (gt_IFlags x)), NewRtAttr 3 (htons (gt_OFlags x))] @
        attr_if (gt_Link x \<noteq> 0) 1 (Uint32Attr (gt_Link x)) @
        [NewRtAttr 10 (Uint8Attr (gt_PMtuDisc x)), NewRtAttr 8 (Uint8Attr (gt_Ttl x)), NewRtAttr 9 (Uint8Attr (gt_Tos x)),
         NewRtAttr 14 (Uint16Attr (gt_EncapType x)), NewRtAttr 15 (Uint16Attr (gt_EncapFlags x)),
         NewRtAttr 16 (htons (gt_EncapSport x)), NewRtAttr 17 (htons (gt_EncapDport x))])"

definition addGretapAttrs :: "GretapData \<Rightarrow> request_data list" where
  "addGretapAttrs x = [info_data (gretap_attrs (gretap_sent x))]"

definition gretun_sent :: "GretunData \<Rightarrow> GretunData" where
  "gretun_sent x = x\<lparr>gr_IFlags := (if gr_IKey x \<noteq> 0 then gr_IFlags x OR GRE_KEY else gr_IFlags x),
     gr_OFlags := (if gr_OKey x \<noteq> 0 then gr_OFlags x OR GRE_KEY else gr_OFlags x)\<rparr>"

definition gretun_attrs :: "GretunData \<Rightarrow> request_data list" where
  "gretun_attrs x =
     gre_ip 6 (gr_Local x) @ gre_ip 7 (gr_Remote x) @ attr_if (gr_IKey x \<noteq> 0) 4 (htonl (gr_IKey x)) @
     attr_if (gr_OKey x \<noteq> 0) 5 (htonl (gr_OKey x)) @ [NewRtAttr 2 (htons (gr_IFlags x)), NewRtAttr 3 (htons (gr_OFlags x))] @
     attr_if (gr_Link x \<noteq> 0) 1 (Uint32Attr (gr_Link x)) @
     [NewRtAttr 10 (Uint8Attr (gr_PMtuDisc x)), NewRtAttr 8 (Uint8Attr (gr_Ttl x)), NewRtAttr 9 (Uint8Attr (gr_Tos x)),
      NewRtAttr 14 (Uint16Attr (gr_EncapType x)), NewRtAttr 15 (Uint16Attr (gr_EncapFlags x)),
      NewRtAttr 16 (htons (gr_EncapSport x)), NewRtAttr 17 (htons (gr_EncapDport x))]"

definition addGretunAttrs :: "GretunData \<Rightarrow> request_data list" where
  "addGretunAttrs x = [info_data (gretun_attrs (gretun_sent x))]"

definition addXdpAttrs :: "LinkXdp \<Rightarrow> request_data" where
  "addXdpAttrs x = RtAttr (43 OR 0x8000) []
     ([NewRtAttr 1 (le32 (word_of_int (xd_Fd x)))] @ attr_if (xd_Flags x \<noteq> 0) 3 (le32 (xd_Flags x)))"

definition ip4_attr :: "int \<Rightarrow> net_ip \<Rightarrow> request_data list" where
  "ip4_attr t ip = (case To4 (ip_bytes ip) of None \<Rightarrow> [] | Some a \<Rightarrow> [NewRtAttr t a])"

definition ip16_attr :: "int \<Rightarrow> net_ip \<Rightarrow> request_data list" where
  "ip16_attr t ip = (case To16 (ip_bytes ip) of None \<Rightarrow> [] | Some a \<Rightarrow> [NewRtAttr t a])"

text \<open>Here, too, the attribute of the flow-based mode goes next to the data, which is not there at all.\<close>

definition addIptunAttrs :: "IptunData \<Rightarrow> request_data list" where
  "addIptunAttrs x =
     (if ip_FlowBased x then [NewRtAttr 19 (boolAttr (ip_FlowBased x))]
      else [info_data (ip4_attr 2 (ip_Local x) @ ip4_attr 3 (ip_Remote x) @ attr_if (ip_Link x \<noteq> 0) 1 (Uint32Attr (ip_Link x)) @
        [NewRtAttr 10 (Uint8Attr (ip_PMtuDisc x)), NewRtAttr 4 (Uint8Attr (ip_Ttl x)), NewRtAttr 5 (Uint8Attr (ip_Tos x)),
         NewRtAttr 15 (Uint16Attr (ip_EncapType x)), NewRtAttr 16 (Uint16Attr (ip_EncapFlags x)),
         NewRtAttr 17 (htons (ip_EncapSport x)), NewRtAttr 18 (htons (ip_EncapDport x)), NewRtAttr 9 (Uint8Attr (ip_Proto x))])])"

definition addIp6tnlAttrs :: "Ip6tnlData \<Rightarrow> request_data list" where
  "addIp6tnlAttrs x = [info_data (
     attr_if (i6_Link x \<noteq> 0) 1 (Uint32Attr (i6_Link x)) @ ip16_attr 2 (i6_Local x) @ ip16_attr 3 (i6_Remote x) @
     [NewRtAttr 4 (Uint8Attr (i6_Ttl x)), NewRtAttr 5 (Uint8Attr (i6_Tos x)), NewRtAttr 8 (Uint32Attr (i6_Flags x)),
      NewRtAttr 9 (Uint8Attr (i6_Proto x)), NewRtAttr 7 (Uint32Attr (i6_FlowInfo x)), NewRtAttr 6 (Uint8Attr (i6_EncapLimit x)),
      NewRtAttr 15 (Uint16Attr (i6_EncapType x)), NewRtAttr 16 (Uint16Attr (i6_EncapFlags x)),
      NewRtAttr 17 (htons (i6_EncapSport x)), NewRtAttr 18 (htons (i6_EncapDport x))])]"

definition addSittunAttrs :: "SittunData \<Rightarrow> request_data list" where
  "addSittunAttrs x = [info_data (
     attr_if (st_Link x \<noteq> 0) 1 (Uint32Attr (st_Link x)) @ ip4_attr 2 (st_Local x) @ ip4_attr 3 (st_Remote x) @
     attr_if (st_Ttl x > 0) 4 (Uint8Attr (st_Ttl x)) @
     [NewRtAttr 9 (Uint8Attr (st_Proto x)), NewRtAttr 5 (Uint8Attr (st_Tos x)), NewRtAttr 10 (Uint8Attr (st_PMtuDisc x)),
      NewRtAttr 6 (Uint8Attr (st_EncapLimit x)), NewRtAttr 15 (Uint16Attr (st_EncapType x)), NewRtAttr 16 (Uint16Attr (st_EncapFlags x)),
      NewRtAttr 17 (htons (st_EncapSport x)), NewRtAttr 18 (htons (st_EncapDport x))])]"

text \<open>The local address decides about the form of both addresses.\<close>

definition vti_ip :: "bool \<Rightarrow> int \<Rightarrow> net_ip \<Rightarrow> request_data list" where
  "vti_ip v4 t ip = (if v4 then ip4_attr t ip else case ip of None \<Rightarrow> [] | Some b \<Rightarrow> [NewRtAttr t b])"

definition addVtiAttrs :: "VtiData \<Rightarrow> request_data list" where
  "addVtiAttrs x =
     (let v4 = (To4 (ip_bytes (vt_Local x)) \<noteq> None)
      in [info_data (vti_ip v4 4 (vt_Local x) @ vti_ip v4 5 (vt_Remote x) @ attr_if (vt_Link x \<noteq> 0) 1 (Uint32Attr (vt_Link x)) @
           [NewRtAttr 2 (htonl (vt_IKey x)), NewRtAttr 3 (htonl (vt_OKey x))])])"

definition addVrfAttrs :: "u32 \<Rightarrow> request_data list" where
  "addVrfAttrs table = [info_data [NewRtAttr 1 (le32 table)]]"

definition addBridgeAttrs :: "BridgeData \<Rightarrow> request_data list" where
  "addBridgeAttrs x = [info_data (
     (case br_MulticastSnooping x of None \<Rightarrow> [] | Some b \<Rightarrow> [NewRtAttr 23 (boolToByte b)]) @
     (case br_AgeingTime x of None \<Rightarrow> [] | Some n \<Rightarrow> [NewRtAttr 4 (Uint32Attr n)]) @
     (case br_HelloTime x of None \<Rightarrow> [] | Some n \<Rightarrow> [NewRtAttr 2 (Uint32Attr n)]) @
     (case br_VlanFiltering x of None \<Rightarrow> [] | Some b \<Rightarrow> [NewRtAttr 7 (boolToByte b)]))]"

definition addGTPAttrs :: "GTPData \<Rightarrow> request_data list" where
  "addGTPAttrs x = [info_data (
     [NewRtAttr 1 (Uint32Attr (word_of_int (gp_FD0 x))), NewRtAttr 2 (Uint32Attr (word_of_int (gp_FD1 x))), NewRtAttr 3 (Uint32Attr 131072)] @
     attr_if (gp_Role x \<noteq> 0) 4 (Uint32Attr (word_of_int (gp_Role x))))]"

definition addXfrmiAttrs :: "int \<Rightarrow> u32 \<Rightarrow> request_data list" where
  "addXfrmiAttrs parentIndex ifid = [info_data (
     [NewRtAttr 1 (Uint32Attr (word_of_int parentIndex))] @ attr_if (ifid \<noteq> 0) 2 (Uint32Attr ifid))]"

definition addIPoIBAttrs :: "IPoIBData \<Rightarrow> request_data list" where
  "addIPoIBAttrs x = [info_data [NewRtAttr 1 (Uint16Attr (ib_Pkey x)), NewRtAttr 2 (Uint16Attr (ib_Mode x)), NewRtAttr 3 (Uint16Attr (ib_Umcast x))]]"

definition addBareUDPAttrs :: "BareUDPData \<Rightarrow> request_data list" where
  "addBareUDPAttrs x = [info_data (
     [NewRtAttr 1 (Uint16Attr (Swap16 (bu_Port x))), NewRtAttr 2 (Uint16Attr (Swap16 (bu_EtherType x)))] @
     attr_if (bu_SrcPortMin x \<noteq> 0) 3 (Uint16Attr (bu_SrcPortMin x)) @ attr_if (bu_MultiProto x) 4 [])]"

end
