(* ===== verification/NlLinkMsg.thy ===== *)
theory NlLinkMsg
  imports NlLinkData NlHandle Go_Strings
begin

text \<open>
  Messages about links: \<open>IfInfomsg\<close> of \<open>nl/nl_linux.go\<close>, the structs about virtual functions of
  \<open>nl/link_linux.go\<close>, the bridge flags of \<open>protinfo_linux.go\<close>, and \<open>LinkDeserialize\<close> of \<open>link_linux.go\<close>, which
  makes a link out of a message. For tun devices it also reads \<open>/sys\<close>; the contents of a file are a parameter.
\<close>

section \<open>IfInfomsg\<close>

record IfInfomsg =
  im_Family :: u8
  im_Pad :: u8
  im_Type :: u16
  im_Index :: u32
  im_Flags :: u32
  im_Change :: u32

definition SizeofIfInfomsg :: nat where [tc_sizes]: "SizeofIfInfomsg = 16"

definition IfInfomsg_Serialize :: "IfInfomsg \<Rightarrow> bytes" where [tc_enc]:
  "IfInfomsg_Serialize x =
     le8 (im_Family x) @ le8 (im_Pad x) @ le16 (im_Type x) @ le32 (im_Index x) @ le32 (im_Flags x) @ le32 (im_Change x)"

definition IfInfomsg_at :: "nat \<Rightarrow> bytes \<Rightarrow> IfInfomsg" where [tc_dec]:
  "IfInfomsg_at n b =
     \<lparr>im_Family = ru8 n b, im_Pad = ru8 (n + 1) b, im_Type = ru16 (n + 2) b, im_Index = ru32 (n + 4) b,
      im_Flags = ru32 (n + 8) b, im_Change = ru32 (n + 12) b\<rparr>"

definition DeserializeIfInfomsg :: "bytes \<Rightarrow> IfInfomsg outcome" where
  "DeserializeIfInfomsg b = (if length b < SizeofIfInfomsg then Panic SliceBounds else Done (IfInfomsg_at 0 b))"

interpretation im_codec: tc_codec "\<lambda>x. True" SizeofIfInfomsg IfInfomsg_Serialize DeserializeIfInfomsg
  by unfold_locales (auto simp: DeserializeIfInfomsg_def IfInfomsg_at_def IfInfomsg_Serialize_def tc_sizes tc_read split: if_splits)

definition NewIfInfomsg :: "int \<Rightarrow> IfInfomsg" where
  "NewIfInfomsg family = \<lparr>im_Family = word_of_int family, im_Pad = 0, im_Type = 0, im_Index = 0, im_Flags = 0, im_Change = 0\<rparr>"

definition encap_types :: "(u16 \<times> string) list" where
  "encap_types = [
    (0, ''generic''), (1, ''ether''), (2, ''eether''), (3, ''ax25''), (4, ''pronet''), (5, ''chaos''), (6, ''ieee802''),
    (7, ''arcnet''), (8, ''atalk''), (15, ''dlci''), (19, ''atm''), (23, ''metricom''), (24, ''ieee1394''), (32, ''infiniband''),
    (256, ''slip''), (257, ''cslip''), (258, ''slip6''), (259, ''cslip6''), (260, ''rsrvd''), (264, ''adapt''), (270, ''rose''),
    (271, ''x25''), (272, ''hwx25''), (512, ''ppp''), (513, ''hdlc''), (516, ''lapb''), (517, ''ddcmp''), (518, ''rawhdlc''),
    (768, ''ipip''), (769, ''tunnel6''), (770, ''frad''), (771, ''skip''), (772, ''loopback''), (773, ''ltalk''), (774, ''fddi''),
    (775, ''bif''), (776, ''sit''), (777, ''ip/ddp''), (778, ''gre''), (779, ''pimreg''), (780, ''hippi''), (781, ''ash''),
    (782, ''econet''), (783, ''irda''), (784, ''fcpp''), (785, ''fcal''), (786, ''fcpl''), (787, ''fcfb0''), (788, ''fcfb1''),
    (789, ''fcfb2''), (790, ''fcfb3''), (791, ''fcfb4''), (792, ''fcfb5''), (793, ''fcfb6''), (794, ''fcfb7''), (795, ''fcfb8''),
    (796, ''fcfb9''), (797, ''fcfb10''), (798, ''fcfb11''), (799, ''fcfb12''), (800, ''tr''), (801, ''ieee802.11''),
    (802, ''ieee802.11/prism''), (803, ''ieee802.11/radiotap''), (804, ''ieee802.15.4''), (65534, ''none''), (65535, ''void'')]"

definition EncapType :: "u16 \<Rightarrow> string" where
  "EncapType t = (case map_of encap_types t of Some s \<Rightarrow> s | None \<Rightarrow> ''unknown'' @ FormatUint (unat t))"

text \<open>The flags of the kernel and those of the package \<open>net\<close>.\<close>

definition IFF_UP :: u32 where "IFF_UP = 0x1"
definition IFF_BROADCAST :: u32 where "IFF_BROADCAST = 0x2"
definition IFF_LOOPBACK :: u32 where "IFF_LOOPBACK = 0x8"
definition IFF_POINTOPOINT :: u32 where "IFF_POINTOPOINT = 0x10"
definition IFF_NOARP :: u32 where "IFF_NOARP = 0x80"
definition IFF_PROMISC :: u32 where "IFF_PROMISC = 0x100"
definition IFF_ALLMULTI :: u32 where "IFF_ALLMULTI = 0x200"
definition IFF_MULTICAST :: u32 where "IFF_MULTICAST = 0x1000"
definition FlagUp :: u64 where "FlagUp = 1"
definition FlagBroadcast :: u64 where "FlagBroadcast = 2"
definition FlagLoopback :: u64 where "FlagLoopback = 4"
definition FlagPointToPoint :: u64 where "FlagPointToPoint = 8"
definition FlagMulticast :: u64 where "FlagMulticast = 16"

definition flag_pairs :: "(u32 \<times> u64) list" where
  "flag_pairs = [(IFF_UP, FlagUp), (IFF_BROADCAST, FlagBroadcast), (IFF_LOOPBACK, FlagLoopback),
     (IFF_POINTOPOINT, FlagPointToPoint), (IFF_MULTICAST, FlagMulticast)]"

definition linkFlags :: "u32 \<Rightarrow> u64" where
  "linkFlags rawFlags = fold (\<lambda>(i, g) f. if rawFlags AND i \<noteq> 0 then f OR g else f) flag_pairs 0"

section \<open>Virtual functions\<close>

definition le64 :: "u64 \<Rightarrow> bytes" where "le64 v = le32 (ucast v) @ le32 (ucast (drop_bit 32 v))"

definition ru64 :: "nat \<Rightarrow> bytes \<Rightarrow> u64" where "ru64 n b = ucast (ru32 n b) OR push_bit 32 (ucast (ru32 (n + 4) b))"

lemma length_le64 [simp]: "length (le64 v) = 8"
  by (simp add: le64_def)

lemma word_halves64: "(ucast (ucast v :: u32) :: u64) OR push_bit 32 (ucast (ucast (drop_bit 32 v) :: u32)) = v"
  by (rule bit_word_eqI) (auto simp: bit_simps)

lemma read64 [tc_read]:
  "length xs \<le> n \<Longrightarrow> ru64 n (xs @ r) = ru64 (n - length xs) r" "ru64 0 (le64 v @ r) = v"
proof -
  assume a: "length xs \<le> n"
  then have b: "length xs \<le> n + 4" and c: "n + 4 - length xs = n - length xs + 4" by linarith+
  show "ru64 n (xs @ r) = ru64 (n - length xs) r" unfolding ru64_def read_skip(3) [OF a] read_skip(3) [OF b] c ..
next
  have "ru32 4 (le32 a @ le32 b @ r) = b" for a b by (simp add: tc_read)
  then show "ru64 0 (le64 v @ r) = v"
    unfolding ru64_def le64_def using word_halves64 [of v] by (simp add: read_here)
qed

record VfMac =
  fm_Vf :: u32
  fm_Mac :: bytes

definition SizeofVfMac :: nat where [tc_sizes]: "SizeofVfMac = 36"

definition VfMac_Serialize :: "VfMac \<Rightarrow> bytes" where [tc_enc]:
  "VfMac_Serialize x = le32 (fm_Vf x) @ fm_Mac x"

definition VfMac_at :: "nat \<Rightarrow> bytes \<Rightarrow> VfMac" where [tc_dec]:
  "VfMac_at n b = \<lparr>fm_Vf = ru32 n b, fm_Mac = rbytes (n + 4) 32 b\<rparr>"

definition DeserializeVfMac :: "bytes \<Rightarrow> VfMac outcome" where
  "DeserializeVfMac b = (if length b < SizeofVfMac then Panic SliceBounds else Done (VfMac_at 0 b))"

interpretation fm_codec: tc_codec "(\<lambda>x. length (fm_Mac x) = 32)" SizeofVfMac VfMac_Serialize DeserializeVfMac
  by unfold_locales (auto simp: DeserializeVfMac_def VfMac_at_def VfMac_Serialize_def tc_sizes tc_read split: if_splits)

record VfVlan =
  fl_Vf :: u32
  fl_Vlan :: u32
  fl_Qos :: u32

definition SizeofVfVlan :: nat where [tc_sizes]: "SizeofVfVlan = 12"

definition VfVlan_Serialize :: "VfVlan \<Rightarrow> bytes" where [tc_enc]:
  "VfVlan_Serialize x = le32 (fl_Vf x) @ le32 (fl_Vlan x) @ le32 (fl_Qos x)"

definition VfVlan_at :: "nat \<Rightarrow> bytes \<Rightarrow> VfVlan" where [tc_dec]:
  "VfVlan_at n b = \<lparr>fl_Vf = ru32 n b, fl_Vlan = ru32 (n + 4) b, fl_Qos = ru32 (n + 8) b\<rparr>"

definition DeserializeVfVlan :: "bytes \<Rightarrow> VfVlan outcome" where
  "DeserializeVfVlan b = (if length b < SizeofVfVlan then Panic SliceBounds else Done (VfVlan_at 0 b))"

interpretation fl_codec: tc_codec "(\<lambda>x. True)" SizeofVfVlan VfVlan_Serialize DeserializeVfVlan
  by unfold_locales (auto simp: DeserializeVfVlan_def VfVlan_at_def VfVlan_Serialize_def tc_sizes tc_read split: if_splits)

record VfTxRate =
  ft_Vf :: u32
  ft_Rate :: u32

definition SizeofVfTxRate :: nat where [tc_sizes]: "SizeofVfTxRate = 8"

definition VfTxRate_Serialize :: "VfTxRate \<Rightarrow> bytes" where [tc_enc]:
  "VfTxRate_Serialize x = le32 (ft_Vf x) @ le32 (ft_Rate x)"

definition VfTxRate_at :: "nat \<Rightarrow> bytes \<Rightarrow> VfTxRate" where [tc_dec]:
  "VfTxRate_at n b = \<lparr>ft_Vf = ru32 n b, ft_Rate = ru32 (n + 4) b\<rparr>"

definition DeserializeVfTxRate :: "bytes \<Rightarrow> VfTxRate outcome" where
  "DeserializeVfTxRate b = (if length b < SizeofVfTxRate then Panic SliceBounds else Done (VfTxRate_at 0 b))"

interpretation ft_codec: tc_codec "(\<lambda>x. True)" SizeofVfTxRate VfTxRate_Serialize DeserializeVfTxRate
  by unfold_locales (auto simp: DeserializeVfTxRate_def VfTxRate_at_def VfTxRate_Serialize_def tc_sizes tc_read split: if_splits)

record VfRate =
  fr_Vf :: u32
  fr_MinTxRate :: u32
  fr_MaxTxRate :: u32

definition SizeofVfRate :: nat where [tc_sizes]: "SizeofVfRate = 12"

definition VfRate_Serialize :: "VfRate \<Rightarrow> bytes" where [tc_enc]:
  "VfRate_Serialize x = le32 (fr_Vf x) @ le32 (fr_MinTxRate x) @ le32 (fr_MaxTxRate x)"

definition VfRate_at :: "nat \<Rightarrow> bytes \<Rightarrow> VfRate" where [tc_dec]:
  "VfRate_at n b = \<lparr>fr_Vf = ru32 n b, fr_MinTxRate = ru32 (n + 4) b, fr_MaxTxRate = ru32 (n + 8) b\<rparr>"

definition DeserializeVfRate :: "bytes \<Rightarrow> VfRate outcome" where
  "DeserializeVfRate b = (if length b < SizeofVfRate then Panic SliceBounds else Done (VfRate_at 0 b))"

interpretation fr_codec: tc_codec "(\<lambda>x. True)" SizeofVfRate VfRate_Serialize DeserializeVfRate
  by unfold_locales (auto simp: DeserializeVfRate_def VfRate_at_def VfRate_Serialize_def tc_sizes tc_read split: if_splits)

record VfSpoofchk =
  fs_Vf :: u32
  fs_Setting :: u32

definition SizeofVfSpoofchk :: nat where [tc_sizes]: "SizeofVfSpoofchk = 8"

definition VfSpoofchk_Serialize :: "VfSpoofchk \<Rightarrow> bytes" where [tc_enc]:
  "VfSpoofchk_Serialize x = le32 (fs_Vf x) @ le32 (fs_Setting x)"

definition VfSpoofchk_at :: "nat \<Rightarrow> bytes \<Rightarrow> VfSpoofchk" where [tc_dec]:
  "VfSpoofchk_at n b = \<lparr>fs_Vf = ru32 n b, fs_Setting = ru32 (n + 4) b\<rparr>"

definition DeserializeVfSpoofchk :: "bytes \<Rightarrow> VfSpoofchk outcome" where
  "DeserializeVfSpoofchk b = (if length b < SizeofVfSpoofchk then Panic SliceBounds else Done (VfSpoofchk_at 0 b))"

interpretation fs_codec: tc_codec "(\<lambda>x. True)" SizeofVfSpoofchk VfSpoofchk_Serialize DeserializeVfSpoofchk
  by unfold_locales (auto simp: DeserializeVfSpoofchk_def VfSpoofchk_at_def VfSpoofchk_Serialize_def tc_sizes tc_read split: if_splits)

record VfLinkState =
  fk_Vf :: u32
  fk_LinkState :: u32

definition SizeofVfLinkState :: nat where [tc_sizes]: "SizeofVfLinkState = 8"

definition VfLinkState_Serialize :: "VfLinkState \<Rightarrow> bytes" where [tc_enc]:
  "VfLinkState_Serialize x = le32 (fk_Vf x) @ le32 (fk_LinkState x)"

definition VfLinkState_at :: "nat \<Rightarrow> bytes \<Rightarrow> VfLinkState" where [tc_dec]:
  "VfLinkState_at n b = \<lparr>fk_Vf = ru32 n b, fk_LinkState = ru32 (n + 4) b\<rparr>"

definition DeserializeVfLinkState :: "bytes \<Rightarrow> VfLinkState outcome" where
  "DeserializeVfLinkState b = (if length b < SizeofVfLinkState then Panic SliceBounds else Done (VfLinkState_at 0 b))"

interpretation fk_codec: tc_codec "(\<lambda>x. True)" SizeofVfLinkState VfLinkState_Serialize DeserializeVfLinkState
  by unfold_locales (auto simp: DeserializeVfLinkState_def VfLinkState_at_def VfLinkState_Serialize_def tc_sizes tc_read split: if_splits)

record VfRssQueryEn =
  fq_Vf :: u32
  fq_Setting :: u32

definition SizeofVfRssQueryEn :: nat where [tc_sizes]: "SizeofVfRssQueryEn = 8"

definition VfRssQueryEn_Serialize :: "VfRssQueryEn \<Rightarrow> bytes" where [tc_enc]:
  "VfRssQueryEn_Serialize x = le32 (fq_Vf x) @ le32 (fq_Setting x)"

definition VfRssQueryEn_at :: "nat \<Rightarrow> bytes \<Rightarrow> VfRssQueryEn" where [tc_dec]:
  "VfRssQueryEn_at n b = \<lparr>fq_Vf = ru32 n b, fq_Setting = ru32 (n + 4) b\<rparr>"

definition DeserializeVfRssQueryEn :: "bytes \<Rightarrow> VfRssQueryEn outcome" where
  "DeserializeVfRssQueryEn b = (if length b < SizeofVfRssQueryEn then Panic SliceBounds else Done (VfRssQueryEn_at 0 b))"

interpretation fq_codec: tc_codec "(\<lambda>x. True)" SizeofVfRssQueryEn VfRssQueryEn_Serialize DeserializeVfRssQueryEn
  by unfold_locales (auto simp: DeserializeVfRssQueryEn_def VfRssQueryEn_at_def VfRssQueryEn_Serialize_def tc_sizes tc_read split: if_splits)

record VfTrust =
  fu_Vf :: u32
  fu_Setting :: u32

definition SizeofVfTrust :: nat where [tc_sizes]: "SizeofVfTrust = 8"

definition VfTrust_Serialize :: "VfTrust \<Rightarrow> bytes" where [tc_enc]:
  "VfTrust_Serialize x = le32 (fu_Vf x) @ le32 (fu_Setting x)"

definition VfTrust_at :: "nat \<Rightarrow> bytes \<Rightarrow> VfTrust" where [tc_dec]:
  "VfTrust_at n b = \<lparr>fu_Vf = ru32 n b, fu_Setting = ru32 (n + 4) b\<rparr>"

definition DeserializeVfTrust :: "bytes \<Rightarrow> VfTrust outcome" where
  "DeserializeVfTrust b = (if length b < SizeofVfTrust then Panic SliceBounds else Done (VfTrust_at 0 b))"

interpretation fu_codec: tc_codec "(\<lambda>x. True)" SizeofVfTrust VfTrust_Serialize DeserializeVfTrust
  by unfold_locales (auto simp: DeserializeVfTrust_def VfTrust_at_def VfTrust_Serialize_def tc_sizes tc_read split: if_splits)

record VfGUID =
  fg_Vf :: u32
  fg_Rsvd :: u32
  fg_GUID :: u64

definition SizeofVfGUID :: nat where [tc_sizes]: "SizeofVfGUID = 16"

definition VfGUID_Serialize :: "VfGUID \<Rightarrow> bytes" where [tc_enc]:
  "VfGUID_Serialize x = le32 (fg_Vf x) @ le32 (fg_Rsvd x) @ le64 (fg_GUID x)"

definition VfGUID_at :: "nat \<Rightarrow> bytes \<Rightarrow> VfGUID" where [tc_dec]:
  "VfGUID_at n b = \<lparr>fg_Vf = ru32 n b, fg_Rsvd = ru32 (n + 4) b, fg_GUID = ru64 (n + 8) b\<rparr>"

definition DeserializeVfGUID :: "bytes \<Rightarrow> VfGUID outcome" where
  "DeserializeVfGUID b = (if length b < SizeofVfGUID then Panic SliceBounds else Done (VfGUID_at 0 b))"

interpretation fg_codec: tc_codec "(\<lambda>x. True)" SizeofVfGUID VfGUID_Serialize DeserializeVfGUID
  by unfold_locales (auto simp: DeserializeVfGUID_def VfGUID_at_def VfGUID_Serialize_def tc_sizes tc_read split: if_splits)

record VfStats =
  fv_RxPackets :: u64
  fv_TxPackets :: u64
  fv_RxBytes :: u64
  fv_TxBytes :: u64
  fv_Multicast :: u64
  fv_Broadcast :: u64
  fv_RxDropped :: u64
  fv_TxDropped :: u64

definition zeroVfStats :: VfStats where
  "zeroVfStats = \<lparr>fv_RxPackets = 0, fv_TxPackets = 0, fv_RxBytes = 0, fv_TxBytes = 0, fv_Multicast = 0, fv_Broadcast = 0,
     fv_RxDropped = 0, fv_TxDropped = 0\<rparr>"

text \<open>A value of fewer than eight bytes ends the loop; attributes that do not parse leave all counters zero.\<close>

fun vf_counters :: "NetlinkRouteAttr list \<Rightarrow> VfStats \<Rightarrow> VfStats" where
  "vf_counters [] s = s"
| "vf_counters (d # ds) s =
     (let t = ra_Type d; n = ru64 0 (ra_Value d) in
      if length (ra_Value d) < 8 then s
      else vf_counters ds
        (if t = 0 then s\<lparr>fv_RxPackets := n\<rparr>
         else if t = 1 then s\<lparr>fv_TxPackets := n\<rparr>
         else if t = 2 then s\<lparr>fv_RxBytes := n\<rparr>
         else if t = 3 then s\<lparr>fv_TxBytes := n\<rparr>
         else if t = 5 then s\<lparr>fv_Multicast := n\<rparr>
         else if t = 4 then s\<lparr>fv_Broadcast := n\<rparr>
         else if t = 6 then s\<lparr>fv_RxDropped := n\<rparr>
         else if t = 7 then s\<lparr>fv_TxDropped := n\<rparr>
         else s))"

definition DeserializeVfStats :: "bytes \<Rightarrow> VfStats outcome" where
  "DeserializeVfStats b =
     obind (ParseRouteAttr b) (\<lambda>r. case r of
         Inl e \<Rightarrow> Done zeroVfStats
       | Inr stats \<Rightarrow> Done (vf_counters stats zeroVfStats))"

definition zeroVfInfo :: VfInfo where
  "zeroVfInfo = \<lparr>vf_ID = 0, vf_Mac = None, vf_Vlan = 0, vf_Qos = 0, vf_TxRate = 0, vf_Spoofchk = False, vf_LinkState = 0,
     vf_MaxTxRate = 0, vf_MinTxRate = 0, vf_RxPackets = 0, vf_TxPackets = 0, vf_RxBytes = 0, vf_TxBytes = 0, vf_Multicast = 0,
     vf_Broadcast = 0, vf_RxDropped = 0, vf_TxDropped = 0, vf_RssQuery = 0, vf_Trust = 0\<rparr>"

definition vf_datum :: "NetlinkRouteAttr \<Rightarrow> VfInfo \<Rightarrow> VfInfo outcome" where
  "vf_datum d x =
     (let v = ra_Value d; t = ra_Type d in
      if t = 1 then obind (DeserializeVfMac v) (\<lambda>m. Done (x\<lparr>vf_Mac := Some (take 6 (fm_Mac m))\<rparr>))
      else if t = 2 then obind (DeserializeVfVlan v) (\<lambda>m. Done (x\<lparr>vf_Vlan := uint (fl_Vlan m), vf_Qos := uint (fl_Qos m)\<rparr>))
      else if t = 3 then obind (DeserializeVfTxRate v) (\<lambda>m. Done (x\<lparr>vf_TxRate := uint (ft_Rate m)\<rparr>))
      else if t = 4 then obind (DeserializeVfSpoofchk v) (\<lambda>m. Done (x\<lparr>vf_Spoofchk := fs_Setting m \<noteq> 0\<rparr>))
      else if t = 5 then obind (DeserializeVfLinkState v) (\<lambda>m. Done (x\<lparr>vf_LinkState := fk_LinkState m\<rparr>))
      else if t = 6 then obind (DeserializeVfRate v) (\<lambda>m. Done (x\<lparr>vf_MaxTxRate := fr_MaxTxRate m, vf_MinTxRate := fr_MinTxRate m\<rparr>))
      else if t = 8 then obind (DeserializeVfStats v) (\<lambda>s. Done (x\<lparr>vf_RxPackets := fv_RxPackets s, vf_TxPackets := fv_TxPackets s,
          vf_RxBytes := fv_RxBytes s, vf_TxBytes := fv_TxBytes s, vf_Multicast := fv_Multicast s, vf_Broadcast := fv_Broadcast s,
          vf_RxDropped := fv_RxDropped s, vf_TxDropped := fv_TxDropped s\<rparr>))
      else if t = 7 then obind (DeserializeVfRssQueryEn v) (\<lambda>m. Done (x\<lparr>vf_RssQuery := fq_Setting m\<rparr>))
      else if t = 9 then obind (DeserializeVfTrust v) (\<lambda>m. Done (x\<lparr>vf_Trust := fu_Setting m\<rparr>))
      else Done x)"

definition parseVfInfo :: "NetlinkRouteAttr list \<Rightarrow> int \<Rightarrow> VfInfo outcome" where
  "parseVfInfo data i = each_attr vf_datum data (zeroVfInfo\<lparr>vf_ID := i\<rparr>)"

section \<open>Errors\<close>

text \<open>
  The errors of the operations on links. An error number, from the kernel or from the parser of
  attributes, is the same value in both cases, as in the code, which compares it with \<open>EINVAL\<close> and \<open>ENODEV\<close>.
\<close>

datatype link_error =
    LinkOs nl_error | StatsTooShort | VfElement u16 | LinkNotFound string | MoreThanOne | EmptyName | TuntapModeUnknown u16
  | NeedsParent string | IoctlFailed string nat int | NoPersistFailed int | DeviceNotExist | ProtinfoNotFound int
  | GuidTooShort | BadLabel string string | EthtoolFailed string int | EnslaveFailed string string int | ShortStats

definition link_attrs_of :: "bytes \<Rightarrow> (link_error + NetlinkRouteAttr list) outcome" where
  "link_attrs_of b = obind (ParseRouteAttr b) (\<lambda>r. Done (map_sum (\<lambda>e. LinkOs (Errno e)) id r))"

fun vf_loop :: "nat \<Rightarrow> NetlinkRouteAttr list \<Rightarrow> (link_error + VfInfo list) outcome" where
  "vf_loop i [] = Done (Inr [])"
| "vf_loop i (d # ds) =
     (if ra_Type d \<noteq> 1 then Done (Inl (VfElement (ra_Type d)))
      else rbind (link_attrs_of (ra_Value d)) (\<lambda>as. obind (parseVfInfo as (int i)) (\<lambda>vf.
        rbind (vf_loop (i + 1) ds) (\<lambda>vfs. Done (Inr (vf # vfs))))))"

definition parseVfInfoList :: "NetlinkRouteAttr list \<Rightarrow> (link_error + VfInfo list) outcome" where
  "parseVfInfoList data = vf_loop 0 data"

section \<open>Programs and bridge ports\<close>

definition xdp_datum :: "NetlinkRouteAttr \<Rightarrow> LinkXdp \<Rightarrow> LinkXdp outcome" where
  "xdp_datum d x =
     (let v = ra_Value d; t = ra_Type d in
      if t = 1 then obind (value_u32 v) (\<lambda>n. Done (x\<lparr>xd_Fd := uint n\<rparr>))
      else if t = 2 then obind (value_u8 v) (\<lambda>n. Done (x\<lparr>xd_AttachMode := ucast n, xd_Attached := n \<noteq> 0\<rparr>))
      else if t = 3 then obind (value_u32 v) (\<lambda>n. Done (x\<lparr>xd_Flags := n\<rparr>))
      else if t = 4 then obind (value_u32 v) (\<lambda>n. Done (x\<lparr>xd_ProgId := n\<rparr>))
      else Done x)"

definition zeroXdp :: LinkXdp where
  "zeroXdp = \<lparr>xd_Fd = 0, xd_Attached = False, xd_AttachMode = 0, xd_Flags = 0, xd_ProgId = 0\<rparr>"

definition parseLinkXdp :: "bytes \<Rightarrow> (link_error + LinkXdp) outcome" where
  "parseLinkXdp data = rbind (link_attrs_of data) (\<lambda>as. obind (each_attr xdp_datum as zeroXdp) (\<lambda>x. Done (Inr x)))"

definition protinfo_datum :: "NetlinkRouteAttr \<Rightarrow> Protinfo \<Rightarrow> Protinfo outcome" where
  "protinfo_datum d x =
     (let v = ra_Value d; t = ra_Type d in
      if t = 4 then obind (value_u8 v) (\<lambda>n. Done (x\<lparr>pi_Hairpin := n \<noteq> 0\<rparr>))
      else if t = 5 then obind (value_u8 v) (\<lambda>n. Done (x\<lparr>pi_Guard := n \<noteq> 0\<rparr>))
      else if t = 7 then obind (value_u8 v) (\<lambda>n. Done (x\<lparr>pi_FastLeave := n \<noteq> 0\<rparr>))
      else if t = 6 then obind (value_u8 v) (\<lambda>n. Done (x\<lparr>pi_RootBlock := n \<noteq> 0\<rparr>))
      else if t = 8 then obind (value_u8 v) (\<lambda>n. Done (x\<lparr>pi_Learning := n \<noteq> 0\<rparr>))
      else if t = 9 then obind (value_u8 v) (\<lambda>n. Done (x\<lparr>pi_Flood := n \<noteq> 0\<rparr>))
      else if t = 10 then obind (value_u8 v) (\<lambda>n. Done (x\<lparr>pi_ProxyArp := n \<noteq> 0\<rparr>))
      else if t = 12 then obind (value_u8 v) (\<lambda>n. Done (x\<lparr>pi_ProxyArpWiFi := n \<noteq> 0\<rparr>))
      else Done x)"

definition zeroProtinfo :: Protinfo where
  "zeroProtinfo = \<lparr>pi_Hairpin = False, pi_Guard = False, pi_FastLeave = False, pi_RootBlock = False, pi_Learning = False,
     pi_Flood = False, pi_ProxyArp = False, pi_ProxyArpWiFi = False\<rparr>"

definition parseProtinfo :: "NetlinkRouteAttr list \<Rightarrow> Protinfo outcome" where
  "parseProtinfo infos = each_attr protinfo_datum infos zeroProtinfo"

text \<open>\<open>String\<close> lists the flags that are set; the nil pointer is \<open>None\<close>.\<close>

definition Protinfo_String :: "Protinfo option \<Rightarrow> string" where
  "Protinfo_String p =
     (case p of
        None \<Rightarrow> ''<nil>''
      | Some x \<Rightarrow> Join (map snd (filter fst [(pi_Hairpin x, ''Hairpin''), (pi_Guard x, ''Guard''), (pi_FastLeave x, ''FastLeave''),
          (pi_RootBlock x, ''RootBlock''), (pi_Learning x, ''Learning''), (pi_Flood x, ''Flood''), (pi_ProxyArp x, ''ProxyArp''),
          (pi_ProxyArpWiFi x, ''ProxyArpWiFi'')])) '' '')"

section \<open>Links\<close>

text \<open>\<open>readSysPropAsInt64\<close>: \<open>strconv.ParseInt\<close> with base 0, which takes the base from a prefix and allows
underscores between digits.\<close>

definition lower :: "char \<Rightarrow> nat" where "lower c = of_char c OR 32"

definition digit_in :: "char \<Rightarrow> nat option" where
  "digit_in c =
     (if is_digit c then Some (digit_val c) else if 97 \<le> lower c \<and> lower c \<le> 122 then Some (lower c - 87) else None)"

fun digits_value :: "nat \<Rightarrow> nat \<Rightarrow> string \<Rightarrow> nat option" where
  "digits_value base n [] = Some n"
| "digits_value base n (c # cs) =
     (if c = CHR ''_'' then digits_value base n cs
      else case digit_in c of
          None \<Rightarrow> None
        | Some d \<Rightarrow> if d < base then digits_value base (n * base + d) cs else None)"

text \<open>Every underscore follows a digit or the prefix, and a digit follows it.\<close>

fun underscores_ok :: "bool \<Rightarrow> string \<Rightarrow> bool" where
  "underscores_ok after [] = True"
| "underscores_ok after (c # cs) =
     (if c = CHR ''_'' then after \<and> cs \<noteq> [] \<and> hd cs \<noteq> CHR ''_'' \<and> underscores_ok False cs else underscores_ok True cs)"

definition number_base :: "string \<Rightarrow> nat \<times> string" where
  "number_base s =
     (case s of
        c0 # c1 # r \<Rightarrow>
          if c0 \<noteq> CHR ''0'' then (10, s)
          else if r = [] then (8, [c1])
          else if lower c1 = 98 then (2, r)
          else if lower c1 = 111 then (8, r)
          else if lower c1 = 120 then (16, r)
          else (8, c1 # r)
      | _ \<Rightarrow> (if s = ''0'' then (8, []) else (10, s)))"

definition ParseUint0 :: "string \<Rightarrow> nat option" where
  "ParseUint0 s =
     (let (base, ds) = number_base s
      in if s = [] \<or> \<not> underscores_ok (ds \<noteq> s) ds then None
         else case digits_value base 0 ds of Some n \<Rightarrow> if n < 2 ^ 64 then Some n else None | None \<Rightarrow> None)"

definition ParseInt0 :: "string \<Rightarrow> int option" where
  "ParseInt0 s =
     (let neg = (s \<noteq> [] \<and> hd s = CHR ''-'');
          ds = (if s \<noteq> [] \<and> (hd s = CHR ''-'' \<or> hd s = CHR ''+'') then tl s else s)
      in case ParseUint0 ds of
           None \<Rightarrow> None
         | Some n \<Rightarrow> if neg then (if n \<le> 2 ^ 63 then Some (- int n) else None) else if n < 2 ^ 63 then Some (int n) else None)"

definition readSysPropAsInt64 :: "(string \<Rightarrow> string option) \<Rightarrow> string \<Rightarrow> string \<Rightarrow> int option" where
  "readSysPropAsInt64 readFile ifname prop =
     (case readFile (''/sys/class/net/'' @ ifname @ ''/'' @ prop) of
        None \<Rightarrow> None
      | Some contents \<Rightarrow> ParseInt0 (TrimSpace contents))"

definition link_of_kind :: "string \<Rightarrow> nl_link" where
  "link_of_kind k =
     (let a = zeroLinkAttrs in
      if k = ''dummy'' then Dummy a
      else if k = ''ifb'' then Ifb a
      else if k = ''dhcifb'' then DhcIfb a
      else if k = ''bridge'' then Bridge a zeroBridge
      else if k = ''vlan'' then Vlan a zeroVlan
      else if k = ''veth'' then Veth a zeroVeth
      else if k = ''wireguard'' then Wireguard a
      else if k = ''vxlan'' then Vxlan a zeroVxlan
      else if k = ''bond'' then Bond a zeroBond
      else if k = ''ipvlan'' then IPVlan a zeroIPVlan
      else if k = ''ipvtap'' then IPVtap a zeroIPVlan
      else if k = ''macvlan'' then Macvlan a zeroMacvlan
      else if k = ''macvtap'' then Macvtap a zeroMacvlan
      else if k = ''geneve'' then Geneve a zeroGeneve
      else if k = ''gretap'' \<or> k = ''ip6gretap'' then Gretap a zeroGretap
      else if k = ''ipip'' then Iptun a zeroIptun
      else if k = ''ip6tnl'' then Ip6tnl a zeroIp6tnl
      else if k = ''sit'' then Sittun a zeroSittun
      else if k = ''gre'' \<or> k = ''ip6gre'' then Gretun a zeroGretun
      else if k = ''vti'' \<or> k = ''vti6'' then Vti a zeroVti
      else if k = ''vrf'' then Vrf a 0
      else if k = ''gtp'' then GTP a zeroGTP
      else if k = ''xfrm'' then Xfrmi a 0
      else if k = ''tun'' then Tuntap a zeroTuntap
      else if k = ''ipoib'' then IPoIB a zeroIPoIB
      else if k = ''can'' then Can a zeroCan
      else if k = ''bareudp'' then BareUDP a zeroBareUDP
      else GenericLink a k)"

text \<open>The switch on the kind before the data: the kind and the Go type of the link go together, so that the
type decides here. Without a kind there is no link yet and the data are skipped.\<close>

fun parse_link_data :: "NetlinkRouteAttr list \<Rightarrow> nl_link \<Rightarrow> nl_link outcome" where
  "parse_link_data ds (Vlan a x) = obind (parseVlanData ds x) (\<lambda>x. Done (Vlan a x))"
| "parse_link_data ds (Vxlan a x) = obind (parseVxlanData ds x) (\<lambda>x. Done (Vxlan a x))"
| "parse_link_data ds (Bond a x) = obind (parseBondData ds x) (\<lambda>x. Done (Bond a x))"
| "parse_link_data ds (IPVlan a x) = obind (parseIPVlanData ds x) (\<lambda>x. Done (IPVlan a x))"
| "parse_link_data ds (IPVtap a x) = obind (parseIPVlanData ds x) (\<lambda>x. Done (IPVtap a x))"
| "parse_link_data ds (Macvlan a x) = obind (parseMacvlanData ds x) (\<lambda>x. Done (Macvlan a x))"
| "parse_link_data ds (Macvtap a x) = obind (parseMacvlanData ds x) (\<lambda>x. Done (Macvtap a x))"
| "parse_link_data ds (Geneve a x) = obind (parseGeneveData ds x) (\<lambda>x. Done (Geneve a x))"
| "parse_link_data ds (Gretap a x) = obind (parseGretapData ds x) (\<lambda>x. Done (Gretap a x))"
| "parse_link_data ds (Iptun a x) = obind (parseIptunData ds x) (\<lambda>x. Done (Iptun a x))"
| "parse_link_data ds (Ip6tnl a x) = obind (parseIp6tnlData ds x) (\<lambda>x. Done (Ip6tnl a x))"
| "parse_link_data ds (Sittun a x) = obind (parseSittunData ds x) (\<lambda>x. Done (Sittun a x))"
| "parse_link_data ds (Gretun a x) = obind (parseGretunData ds x) (\<lambda>x. Done (Gretun a x))"
| "parse_link_data ds (Vti a x) = obind (parseVtiData ds x) (\<lambda>x. Done (Vti a x))"
| "parse_link_data ds (Vrf a x) = obind (parseVrfData ds x) (\<lambda>x. Done (Vrf a x))"
| "parse_link_data ds (Bridge a x) = obind (parseBridgeData ds x) (\<lambda>x. Done (Bridge a x))"
| "parse_link_data ds (GTP a x) = obind (parseGTPData ds x) (\<lambda>x. Done (GTP a x))"
| "parse_link_data ds (Xfrmi a x) =
     obind (parseXfrmiData ds (la_ParentIndex a, x)) (\<lambda>(p, x). Done (Xfrmi (a\<lparr>la_ParentIndex := p\<rparr>) x))"
| "parse_link_data ds (Tuntap a x) = obind (parseTuntapData ds x) (\<lambda>x. Done (Tuntap a x))"
| "parse_link_data ds (IPoIB a x) = obind (parseIPoIBData ds x) (\<lambda>x. Done (IPoIB a x))"
| "parse_link_data ds (Can a x) = obind (parseCanData ds x) (\<lambda>x. Done (Can a x))"
| "parse_link_data ds (BareUDP a x) = obind (parseBareUDPData ds x) (\<lambda>x. Done (BareUDP a x))"
| "parse_link_data ds l = Done l"

text \<open>What the loops of \<open>LinkDeserialize\<close> collect; without a kind \<open>ac_link\<close> is \<open>None\<close> and \<open>ac_type\<close> empty.\<close>

record link_acc =
  ac_base :: LinkAttrs
  ac_link :: "nl_link option"
  ac_stats32 :: "u32 list option"
  ac_stats64 :: "LinkStatistics option"
  ac_type :: string
  ac_slave :: "LinkSlave option"
  ac_slaveType :: string

definition slave_data :: "NetlinkRouteAttr list \<Rightarrow> LinkSlave option \<Rightarrow> LinkSlave option outcome" where
  "slave_data ds s =
     (case s of
        Some (SBond b) \<Rightarrow> obind (parseBondSlaveData ds b) (\<lambda>b. Done (Some (SBond b)))
      | Some (SVrf t) \<Rightarrow> obind (parseVrfSlaveData ds t) (\<lambda>t. Done (Some (SVrf t)))
      | None \<Rightarrow> Done None)"

definition info_attr :: "NetlinkRouteAttr \<Rightarrow> link_acc \<Rightarrow> (link_error + link_acc) outcome" where
  "info_attr info s =
     (let v = ra_Value info; t = ra_Type info in
      if t = 1 then obind (value_string v) (\<lambda>k. Done (Inr (s\<lparr>ac_type := k, ac_link := Some (link_of_kind k)\<rparr>)))
      else if t = 2
        then rbind (link_attrs_of v) (\<lambda>ds.
          case ac_link s of
            None \<Rightarrow> Done (Inr s)
          | Some l \<Rightarrow> obind (parse_link_data ds l) (\<lambda>l. Done (Inr (s\<lparr>ac_link := Some l\<rparr>))))
      else if t = 4
        then obind (value_string v) (\<lambda>k. Done (Inr (s\<lparr>ac_slaveType := k,
          ac_slave := (if k = ''bond'' then Some (SBond zeroBondSlave) else if k = ''vrf'' then Some (SVrf 0) else ac_slave s)\<rparr>)))
      else if t = 5
        then (if ac_slaveType s = ''bond'' \<or> ac_slaveType s = ''vrf''
              then rbind (link_attrs_of v) (\<lambda>ds. obind (slave_data ds (ac_slave s)) (\<lambda>sl. Done (Inr (s\<lparr>ac_slave := sl\<rparr>))))
              else Done (Inr s))
      else Done (Inr s))"

abbreviation base_u32 :: "bytes \<Rightarrow> link_acc \<Rightarrow> (u32 \<Rightarrow> LinkAttrs \<Rightarrow> LinkAttrs) \<Rightarrow> (link_error + link_acc) outcome" where
  "base_u32 v s g \<equiv> obind (value_u32 v) (\<lambda>n. Done (Inr (s\<lparr>ac_base := g n (ac_base s)\<rparr>)))"

definition AF_BRIDGE :: u8 where "AF_BRIDGE = 7"
definition RTM_NEWLINK :: int where "RTM_NEWLINK = 16"

definition link_attr :: "NlMsghdr option \<Rightarrow> IfInfomsg \<Rightarrow> NetlinkRouteAttr \<Rightarrow> link_acc \<Rightarrow> (link_error + link_acc) outcome" where
  "link_attr hdr msg attr s =
     (let v = ra_Value attr; t = ra_Type attr; base = ac_base s in
      if t = 18 then rbind (link_attrs_of v) (\<lambda>infos. each_datum info_attr infos s)
      else if t = 1 then Done (Inr (if \<exists>b \<in> set v. b \<noteq> 0 then s\<lparr>ac_base := base\<lparr>la_HardwareAddr := Some v\<rparr>\<rparr> else s))
      else if t = 3 then obind (value_string v) (\<lambda>n. Done (Inr (s\<lparr>ac_base := base\<lparr>la_Name := n\<rparr>\<rparr>)))
      else if t = 4 then base_u32 v s (\<lambda>n a. a\<lparr>la_MTU := uint n\<rparr>)
      else if t = 5 then base_u32 v s (\<lambda>n a. a\<lparr>la_ParentIndex := uint n\<rparr>)
      else if t = 10 then base_u32 v s (\<lambda>n a. a\<lparr>la_MasterIndex := uint n\<rparr>)
      else if t = 13 then base_u32 v s (\<lambda>n a. a\<lparr>la_TxQLen := uint n\<rparr>)
      else if t = 20 then obind (value_string v) (\<lambda>n. Done (Inr (s\<lparr>ac_base := base\<lparr>la_Alias := n\<rparr>\<rparr>)))
      else if t = 7
        then Done (if length v < 92 then Inl StatsTooShort else Inr (s\<lparr>ac_stats32 := Some (map (\<lambda>i. ru32 (4 * i) v) [0..<23])\<rparr>))
      else if t = 23
        then Done (if length v < 184 then Inl StatsTooShort else Inr (s\<lparr>ac_stats64 := Some (map (\<lambda>i. ru64 (8 * i) v) [0..<23])\<rparr>))
      else if t = 43 then rbind (parseLinkXdp v) (\<lambda>x. Done (Inr (s\<lparr>ac_base := base\<lparr>la_Xdp := Some x\<rparr>\<rparr>)))
      else if t = 12 OR 0x8000
        then (if (\<exists>h. hdr = Some h \<and> h_Type h = word_of_int RTM_NEWLINK) \<and> im_Family msg = AF_BRIDGE
              then rbind (link_attrs_of v) (\<lambda>as. obind (parseProtinfo as) (\<lambda>p. Done (Inr (s\<lparr>ac_base := base\<lparr>la_Protinfo := Some p\<rparr>\<rparr>))))
              else Done (Inr s))
      else if t = 16 then obind (value_u8 v) (\<lambda>n. Done (Inr (s\<lparr>ac_base := base\<lparr>la_OperState := n\<rparr>\<rparr>)))
      else if t = 36 then base_u32 v s (\<lambda>n a. a\<lparr>la_PhysSwitchID := uint n\<rparr>)
      else if t = 37 then base_u32 v s (\<lambda>n a. a\<lparr>la_NetNsID := uint n\<rparr>)
      else if t = 41 then base_u32 v s (\<lambda>n a. a\<lparr>la_GSOMaxSize := n\<rparr>)
      else if t = 40 then base_u32 v s (\<lambda>n a. a\<lparr>la_GSOMaxSegs := n\<rparr>)
      else if t = 22
        then rbind (link_attrs_of v) (\<lambda>ds. rbind (parseVfInfoList ds) (\<lambda>vfs. Done (Inr (s\<lparr>ac_base := base\<lparr>la_Vfs := vfs\<rparr>\<rparr>))))
      else if t = 31 then base_u32 v s (\<lambda>n a. a\<lparr>la_NumTxQueues := uint n\<rparr>)
      else if t = 32 then base_u32 v s (\<lambda>n a. a\<lparr>la_NumRxQueues := uint n\<rparr>)
      else if t = 27 then base_u32 v s (\<lambda>n a. a\<lparr>la_Group := n\<rparr>)
      else Done (Inr s))"

text \<open>A tun device whose mode netlink does not give: the mode, persistence and owners come from \<open>/sys\<close>.\<close>

definition IFF_TUN :: u16 where "IFF_TUN = 0x1"
definition IFF_TAP :: u16 where "IFF_TAP = 0x2"

definition tun_flags :: "int \<Rightarrow> TuntapData \<Rightarrow> TuntapData" where
  "tun_flags flags x =
     x\<lparr>tt_Mode := (if flags AND 1 \<noteq> 0 then IFF_TUN else if flags AND 2 \<noteq> 0 then IFF_TAP else tt_Mode x),
       tt_NonPersist := (flags AND 0x800 = 0)\<rparr>"

definition sysfs_tuntap :: "(string \<Rightarrow> string option) \<Rightarrow> string \<Rightarrow> TuntapData \<Rightarrow> TuntapData" where
  "sysfs_tuntap readFile ifname x =
     (if tt_Mode x \<noteq> 0 then x
      else let x = (case readSysPropAsInt64 readFile ifname ''tun_flags'' of Some flags \<Rightarrow> tun_flags flags x | None \<Rightarrow> x);
               x = (case readSysPropAsInt64 readFile ifname ''owner'' of
                      Some owner \<Rightarrow> if owner > 0 then x\<lparr>tt_Owner := word_of_int owner\<rparr> else x | None \<Rightarrow> x)
           in (case readSysPropAsInt64 readFile ifname ''group'' of
                 Some grp \<Rightarrow> if grp > 0 then x\<lparr>tt_Group := word_of_int grp\<rparr> else x | None \<Rightarrow> x))"

definition link_base :: "IfInfomsg \<Rightarrow> LinkAttrs" where
  "link_base msg =
     NewLinkAttrs\<lparr>la_Index := sint (im_Index msg), la_RawFlags := im_Flags msg, la_Flags := linkFlags (im_Flags msg),
       la_EncapType := EncapType (im_Type msg), la_NetNsID := - 1,
       la_Promisc := (if im_Flags msg AND IFF_PROMISC \<noteq> 0 then 1 else 0),
       la_Allmulti := (if im_Flags msg AND IFF_ALLMULTI \<noteq> 0 then 1 else 0),
       la_Multi := (if im_Flags msg AND IFF_MULTICAST \<noteq> 0 then 1 else 0)\<rparr>"

definition link_finish :: "(string \<Rightarrow> string option) \<Rightarrow> link_acc \<Rightarrow> nl_link" where
  "link_finish readFile s =
     (let stats = (case ac_stats64 s of Some x \<Rightarrow> Some x | None \<Rightarrow> map_option to64 (ac_stats32 s));
          base = (ac_base s)\<lparr>la_Statistics := stats, la_Slave := ac_slave s\<rparr>;
          link = (case ac_link s of Some l \<Rightarrow> l | None \<Rightarrow> Device zeroLinkAttrs)
      in case set_attrs base link of
           Tuntap a x \<Rightarrow> Tuntap a (sysfs_tuntap readFile (la_Name a) x)
         | l \<Rightarrow> l)"

definition LinkDeserialize :: "(string \<Rightarrow> string option) \<Rightarrow> NlMsghdr option \<Rightarrow> bytes \<Rightarrow> (link_error + nl_link) outcome" where
  "LinkDeserialize readFile hdr m =
     obind (DeserializeIfInfomsg m) (\<lambda>msg.
       rbind (link_attrs_of (drop SizeofIfInfomsg m)) (\<lambda>attrs.
         rbind (each_datum (link_attr hdr msg) attrs
             \<lparr>ac_base = link_base msg, ac_link = None, ac_stats32 = None, ac_stats64 = None, ac_type = [], ac_slave = None, ac_slaveType = []\<rparr>)
           (\<lambda>s. Done (Inr (link_finish readFile s)))))"

end
