(* ===== verification/NlLink.thy ===== *)
theory NlLink
  imports NlLinkMsg
begin

text \<open>
  Operations on links, \<open>link_linux.go\<close> and \<open>LinkGetProtinfo\<close>: looking a link up by index, name or alias, listing, adding
  with all kinds of data, modifying and deleting. \<open>ensureIndex\<close> looks up an index that is missing and stores it in
  the link, so that every operation gives the link back. Go's \<open>int\<close> is \<open>int\<close>; \<open>int32(index)\<close> and \<open>uint32(x)\<close> wrap.
\<close>

section \<open>Context and state\<close>

text \<open>
  What the calls on \<open>/dev/net/tun\<close> give: a descriptor, the name of the device in 16 bytes for \<open>TUNSETIFF\<close>, error
  numbers otherwise. \<open>Control\<close> on an open file runs its function. The context is the operating system, the global
  switch \<open>EnableErrorMessageReporting\<close>, the handle, and the files below \<open>/sys\<close>.
\<close>

record tun_os =
  tn_open :: "int list \<Rightarrow> int + int"
  tn_setiff :: "int \<Rightarrow> string \<Rightarrow> u16 \<Rightarrow> int + string"
  tn_owner :: "int \<Rightarrow> u32 \<Rightarrow> int option"
  tn_group :: "int \<Rightarrow> u32 \<Rightarrow> int option"
  tn_nonblock :: "int \<Rightarrow> int option"
  tn_persist :: "int \<Rightarrow> bool \<Rightarrow> int option"

record link_ctx =
  lc_os :: nl_os
  lc_ack :: bool
  lc_h :: Handle
  lc_file :: "string \<Rightarrow> string option"
  lc_tun :: tun_os

text \<open>The flag \<open>lookupByDump\<close> of the handle next to the sockets.\<close>

type_synonym link_state = "bool \<times> nl_state"

definition RTM_DELLINK :: int where "RTM_DELLINK = 17"
definition RTM_GETLINK :: int where "RTM_GETLINK = 18"
definition RTM_SETLINK :: int where "RTM_SETLINK = 19"
definition ENODEV :: int where "ENODEV = 19"

definition link_call :: "link_ctx \<Rightarrow> int \<Rightarrow> int \<Rightarrow> u16 \<Rightarrow> request_data list \<Rightarrow> link_state
    \<Rightarrow> ((link_error + bytes list) \<times> link_state) outcome" where
  "link_call c proto flags resType data s =
     obind (do_request (lc_os c) (lc_ack c) (lc_h c) proto flags resType data (snd s))
       (\<lambda>(r, st). Done (map_sum LinkOs id r, (fst s, st)))"

text \<open>The first part of most requests: the family and the index; and \<open>IFLA_EXT_MASK\<close> with \<open>RTEXT_FILTER_VF\<close>.\<close>

definition info_msg :: "u8 \<Rightarrow> int \<Rightarrow> u32 \<Rightarrow> u32 \<Rightarrow> request_data" where
  "info_msg family index flags change =
     StructData (IfInfomsg_Serialize ((NewIfInfomsg 0)\<lparr>im_Family := family, im_Index := word_of_int index, im_Flags := flags, im_Change := change\<rparr>))"

definition ext_mask :: request_data where "ext_mask = NewRtAttr 29 (Uint32Attr 1)"

section \<open>Looking links up\<close>

definition execGetLink :: "link_ctx \<Rightarrow> request_data list \<Rightarrow> link_state \<Rightarrow> ((link_error + nl_link) \<times> link_state) outcome" where
  "execGetLink c data s =
     obind (link_call c RTM_GETLINK NLM_F_ACK 0 data s) (\<lambda>(r, s).
       case r of
         Inl e \<Rightarrow> Done (Inl (if e = LinkOs (Errno ENODEV) then LinkNotFound ''Link not found'' else e), s)
       | Inr [] \<Rightarrow> Done (Inl (LinkNotFound ''Link not found''), s)
       | Inr [m] \<Rightarrow> obind (LinkDeserialize (lc_file c) None m) (\<lambda>r. Done (r, s))
       | Inr _ \<Rightarrow> Done (Inl MoreThanOne, s))"

definition LinkByIndex :: "link_ctx \<Rightarrow> int \<Rightarrow> link_state \<Rightarrow> ((link_error + nl_link) \<times> link_state) outcome" where
  "LinkByIndex c index s = execGetLink c [info_msg 0 index 0 0, ext_mask] s"

fun links_of :: "(string \<Rightarrow> string option) \<Rightarrow> bytes list \<Rightarrow> (link_error + nl_link list) outcome" where
  "links_of file [] = Done (Inr [])"
| "links_of file (m # ms) =
     rbind (LinkDeserialize file None m) (\<lambda>l. rbind (links_of file ms) (\<lambda>ls. Done (Inr (l # ls))))"

definition LinkList :: "link_ctx \<Rightarrow> link_state \<Rightarrow> ((link_error + nl_link list) \<times> link_state) outcome" where
  "LinkList c s =
     obind (link_call c RTM_GETLINK NLM_F_DUMP (word_of_int RTM_NEWLINK) [info_msg 0 0 0 0, ext_mask] s) (\<lambda>(r, s).
       case r of Inl e \<Rightarrow> Done (Inl e, s) | Inr ms \<Rightarrow> obind (links_of (lc_file c) ms) (\<lambda>r. Done (r, s)))"

text \<open>The first link of the list with the name or the alias.\<close>

definition find_link :: "(nl_link \<Rightarrow> bool) \<Rightarrow> string \<Rightarrow> link_error + nl_link list \<Rightarrow> link_error + nl_link" where
  "find_link p msg r =
     ebind r (\<lambda>links. case List.find p links of Some l \<Rightarrow> Inr l | None \<Rightarrow> Inl (LinkNotFound msg))"

definition linkByNameDump :: "link_ctx \<Rightarrow> string \<Rightarrow> link_state \<Rightarrow> ((link_error + nl_link) \<times> link_state) outcome" where
  "linkByNameDump c name s =
     obind (LinkList c s) (\<lambda>(r, s). Done (find_link (\<lambda>l. link_Name l = name) (''Link '' @ name @ '' not found'') r, s))"

definition linkByAliasDump :: "link_ctx \<Rightarrow> string \<Rightarrow> link_state \<Rightarrow> ((link_error + nl_link) \<times> link_state) outcome" where
  "linkByAliasDump c alias s =
     obind (LinkList c s) (\<lambda>(r, s). Done (find_link (\<lambda>l. la_Alias (link_Attrs l) = alias) (''Link alias '' @ alias @ '' not found'') r, s))"

text \<open>A kernel that cannot look a link up by its name answers \<open>EINVAL\<close>; from then on the handle lists all links.\<close>

definition lookup_or_dump :: "link_ctx \<Rightarrow> request_data \<Rightarrow> (link_state \<Rightarrow> ((link_error + nl_link) \<times> link_state) outcome)
    \<Rightarrow> link_state \<Rightarrow> ((link_error + nl_link) \<times> link_state) outcome" where
  "lookup_or_dump c attr dump s =
     (if fst s then dump s
      else obind (execGetLink c [info_msg 0 0 0 0, ext_mask, attr] s) (\<lambda>(r, s).
        if r = Inl (LinkOs (Errno EINVAL)) then dump (True, snd s) else Done (r, s)))"

definition nl_LinkByName :: "link_ctx \<Rightarrow> string \<Rightarrow> link_state \<Rightarrow> ((link_error + nl_link) \<times> link_state) outcome" where
  "nl_LinkByName c name s = lookup_or_dump c (NewRtAttr 3 (ZeroTerminated name)) (linkByNameDump c name) s"

definition LinkByAlias :: "link_ctx \<Rightarrow> string \<Rightarrow> link_state \<Rightarrow> ((link_error + nl_link) \<times> link_state) outcome" where
  "LinkByAlias c alias s = lookup_or_dump c (NewRtAttr 20 (ZeroTerminated alias)) (linkByAliasDump c alias) s"

definition ensureIndex :: "link_ctx \<Rightarrow> nl_link \<Rightarrow> link_state \<Rightarrow> (nl_link \<times> link_state) outcome" where
  "ensureIndex c link s =
     (if link_Index link \<noteq> 0 then Done (link, s)
      else obind (nl_LinkByName c (link_Name link) s) (\<lambda>(r, s).
        case r of
          Inl e \<Rightarrow> Done (link, s)
        | Inr l \<Rightarrow> Done (set_attrs ((link_Attrs link)\<lparr>la_Index := link_Index l\<rparr>) link, s)))"

section \<open>Modifying links\<close>

type_synonym link_result = "(link_error option \<times> nl_link \<times> link_state) outcome"

definition link_exec :: "link_ctx \<Rightarrow> int \<Rightarrow> int \<Rightarrow> request_data list \<Rightarrow> nl_link \<Rightarrow> link_state \<Rightarrow> link_result" where
  "link_exec c proto flags data link s =
     obind (link_call c proto flags 0 data s) (\<lambda>(r, s). Done (case r of Inl e \<Rightarrow> (Some e, link, s) | Inr _ \<Rightarrow> (None, link, s)))"

text \<open>The index is ensured, then a request about it is executed: with flags to change, or with attributes.\<close>

definition link_request :: "link_ctx \<Rightarrow> int \<Rightarrow> (int \<Rightarrow> request_data list) \<Rightarrow> nl_link \<Rightarrow> link_state \<Rightarrow> link_result" where
  "link_request c proto data link s =
     obind (ensureIndex c link s) (\<lambda>(link, s). link_exec c proto NLM_F_ACK (data (link_Index link)) link s)"

definition set_flag :: "link_ctx \<Rightarrow> int \<Rightarrow> u32 \<Rightarrow> bool \<Rightarrow> nl_link \<Rightarrow> link_state \<Rightarrow> link_result" where
  "set_flag c proto flag on = link_request c proto (\<lambda>i. [info_msg 0 i (if on then flag else 0) flag])"

definition set_attr :: "link_ctx \<Rightarrow> request_data \<Rightarrow> nl_link \<Rightarrow> link_state \<Rightarrow> link_result" where
  "set_attr c attr = link_request c RTM_SETLINK (\<lambda>i. [info_msg 0 i 0 0, attr])"

definition LinkSetARPOff :: "link_ctx \<Rightarrow> nl_link \<Rightarrow> link_state \<Rightarrow> link_result" where
  "LinkSetARPOff c = set_flag c RTM_SETLINK IFF_NOARP True"

definition LinkSetARPOn :: "link_ctx \<Rightarrow> nl_link \<Rightarrow> link_state \<Rightarrow> link_result" where
  "LinkSetARPOn c = set_flag c RTM_SETLINK IFF_NOARP False"

definition SetPromiscOn :: "link_ctx \<Rightarrow> nl_link \<Rightarrow> link_state \<Rightarrow> link_result" where
  "SetPromiscOn c = set_flag c RTM_SETLINK IFF_PROMISC True"

definition SetPromiscOff :: "link_ctx \<Rightarrow> nl_link \<Rightarrow> link_state \<Rightarrow> link_result" where
  "SetPromiscOff c = set_flag c RTM_SETLINK IFF_PROMISC False"

definition LinkSetAllmulticastOn :: "link_ctx \<Rightarrow> nl_link \<Rightarrow> link_state \<Rightarrow> link_result" where
  "LinkSetAllmulticastOn c = set_flag c RTM_NEWLINK IFF_ALLMULTI True"

definition LinkSetAllmulticastOff :: "link_ctx \<Rightarrow> nl_link \<Rightarrow> link_state \<Rightarrow> link_result" where
  "LinkSetAllmulticastOff c = set_flag c RTM_NEWLINK IFF_ALLMULTI False"

definition LinkSetMulticastOn :: "link_ctx \<Rightarrow> nl_link \<Rightarrow> link_state \<Rightarrow> link_result" where
  "LinkSetMulticastOn c = set_flag c RTM_NEWLINK IFF_MULTICAST True"

definition LinkSetMulticastOff :: "link_ctx \<Rightarrow> nl_link \<Rightarrow> link_state \<Rightarrow> link_result" where
  "LinkSetMulticastOff c = set_flag c RTM_NEWLINK IFF_MULTICAST False"

definition nl_LinkSetUp :: "link_ctx \<Rightarrow> nl_link \<Rightarrow> link_state \<Rightarrow> link_result" where
  "nl_LinkSetUp c = set_flag c RTM_NEWLINK IFF_UP True"

definition LinkSetDown :: "link_ctx \<Rightarrow> nl_link \<Rightarrow> link_state \<Rightarrow> link_result" where
  "LinkSetDown c = set_flag c RTM_NEWLINK IFF_UP False"

definition LinkSetMTU :: "link_ctx \<Rightarrow> int \<Rightarrow> nl_link \<Rightarrow> link_state \<Rightarrow> link_result" where
  "LinkSetMTU c mtu = set_attr c (NewRtAttr 4 (le32 (word_of_int mtu)))"

definition LinkSetName :: "link_ctx \<Rightarrow> string \<Rightarrow> nl_link \<Rightarrow> link_state \<Rightarrow> link_result" where
  "LinkSetName c name = set_attr c (NewRtAttr 3 (NonZeroTerminated name))"

definition LinkSetAlias :: "link_ctx \<Rightarrow> string \<Rightarrow> nl_link \<Rightarrow> link_state \<Rightarrow> link_result" where
  "LinkSetAlias c name = set_attr c (NewRtAttr 20 (NonZeroTerminated name))"

definition LinkSetHardwareAddr :: "link_ctx \<Rightarrow> net_ip \<Rightarrow> nl_link \<Rightarrow> link_state \<Rightarrow> link_result" where
  "LinkSetHardwareAddr c hwaddr = set_attr c (NewRtAttr 1 (ip_bytes hwaddr))"

definition LinkSetTxQLen :: "link_ctx \<Rightarrow> int \<Rightarrow> nl_link \<Rightarrow> link_state \<Rightarrow> link_result" where
  "LinkSetTxQLen c qlen = set_attr c (NewRtAttr 13 (le32 (word_of_int qlen)))"

definition LinkSetGroup :: "link_ctx \<Rightarrow> int \<Rightarrow> nl_link \<Rightarrow> link_state \<Rightarrow> link_result" where
  "LinkSetGroup c grp = set_attr c (NewRtAttr 27 (le32 (word_of_int grp)))"

definition LinkSetMasterByIndex :: "link_ctx \<Rightarrow> int \<Rightarrow> nl_link \<Rightarrow> link_state \<Rightarrow> link_result" where
  "LinkSetMasterByIndex c masterIndex = set_attr c (NewRtAttr 10 (le32 (word_of_int masterIndex)))"

definition LinkSetNoMaster :: "link_ctx \<Rightarrow> nl_link \<Rightarrow> link_state \<Rightarrow> link_result" where
  "LinkSetNoMaster c = LinkSetMasterByIndex c 0"

text \<open>The index of the master may be looked up, too; the master is given back with it.\<close>

definition LinkSetMaster :: "link_ctx \<Rightarrow> nl_link option \<Rightarrow> nl_link \<Rightarrow> link_state
    \<Rightarrow> (link_error option \<times> nl_link option \<times> nl_link \<times> link_state) outcome" where
  "LinkSetMaster c master link s =
     obind (case master of None \<Rightarrow> Done (None, s) | Some m \<Rightarrow> obind (ensureIndex c m s) (\<lambda>(m, s). Done (Some m, s))) (\<lambda>(master, s).
       let index = (case master of None \<Rightarrow> 0 | Some m \<Rightarrow> link_Index m)
       in if index \<le> 0 then Done (Some DeviceNotExist, master, link, s)
          else obind (LinkSetMasterByIndex c index link s) (\<lambda>(e, link, s). Done (e, master, link, s)))"

definition LinkSetNsPid :: "link_ctx \<Rightarrow> int \<Rightarrow> nl_link \<Rightarrow> link_state \<Rightarrow> link_result" where
  "LinkSetNsPid c nspid = set_attr c (NewRtAttr 19 (le32 (word_of_int nspid)))"

definition LinkSetNsFd :: "link_ctx \<Rightarrow> int \<Rightarrow> nl_link \<Rightarrow> link_state \<Rightarrow> link_result" where
  "LinkSetNsFd c fd = set_attr c (NewRtAttr 28 (le32 (word_of_int fd)))"

text \<open>A call that goes through the package's own handle; the state is that of this handle, too.\<close>

definition LinkSetXdpFdWithFlags :: "link_ctx \<Rightarrow> int \<Rightarrow> int \<Rightarrow> nl_link \<Rightarrow> link_state \<Rightarrow> link_result" where
  "LinkSetXdpFdWithFlags c fd flags =
     set_attr (c\<lparr>lc_h := None\<rparr>) (addXdpAttrs (zeroXdp\<lparr>xd_Fd := fd, xd_Flags := word_of_int flags\<rparr>))"

definition LinkSetXdpFd :: "link_ctx \<Rightarrow> int \<Rightarrow> nl_link \<Rightarrow> link_state \<Rightarrow> link_result" where
  "LinkSetXdpFd c fd = LinkSetXdpFdWithFlags c fd 0"

subsection \<open>Virtual functions\<close>

definition vf_attr :: "int \<Rightarrow> bytes \<Rightarrow> request_data" where
  "vf_attr t b = RtAttr 22 [] [RtAttr 1 [] [NewRtAttr t b]]"

definition LinkSetVfHardwareAddr :: "link_ctx \<Rightarrow> int \<Rightarrow> net_ip \<Rightarrow> nl_link \<Rightarrow> link_state \<Rightarrow> link_result" where
  "LinkSetVfHardwareAddr c vf hwaddr =
     set_attr c (vf_attr 1 (VfMac_Serialize \<lparr>fm_Vf = word_of_int vf,
       fm_Mac = take 32 (ip_bytes hwaddr) @ replicate (32 - length (ip_bytes hwaddr)) 0\<rparr>))"

definition LinkSetVfVlanQos :: "link_ctx \<Rightarrow> int \<Rightarrow> int \<Rightarrow> int \<Rightarrow> nl_link \<Rightarrow> link_state \<Rightarrow> link_result" where
  "LinkSetVfVlanQos c vf vlan qos =
     set_attr c (vf_attr 2 (VfVlan_Serialize \<lparr>fl_Vf = word_of_int vf, fl_Vlan = word_of_int vlan, fl_Qos = word_of_int qos\<rparr>))"

definition LinkSetVfVlan :: "link_ctx \<Rightarrow> int \<Rightarrow> int \<Rightarrow> nl_link \<Rightarrow> link_state \<Rightarrow> link_result" where
  "LinkSetVfVlan c vf vlan =
     set_attr c (vf_attr 2 (VfVlan_Serialize \<lparr>fl_Vf = word_of_int vf, fl_Vlan = word_of_int vlan, fl_Qos = 0\<rparr>))"

definition LinkSetVfTxRate :: "link_ctx \<Rightarrow> int \<Rightarrow> int \<Rightarrow> nl_link \<Rightarrow> link_state \<Rightarrow> link_result" where
  "LinkSetVfTxRate c vf rate =
     set_attr c (vf_attr 3 (VfTxRate_Serialize \<lparr>ft_Vf = word_of_int vf, ft_Rate = word_of_int rate\<rparr>))"

definition LinkSetVfRate :: "link_ctx \<Rightarrow> int \<Rightarrow> int \<Rightarrow> int \<Rightarrow> nl_link \<Rightarrow> link_state \<Rightarrow> link_result" where
  "LinkSetVfRate c vf minRate maxRate =
     set_attr c (vf_attr 6 (VfRate_Serialize \<lparr>fr_Vf = word_of_int vf, fr_MinTxRate = word_of_int minRate, fr_MaxTxRate = word_of_int maxRate\<rparr>))"

definition LinkSetVfState :: "link_ctx \<Rightarrow> int \<Rightarrow> u32 \<Rightarrow> nl_link \<Rightarrow> link_state \<Rightarrow> link_result" where
  "LinkSetVfState c vf state =
     set_attr c (vf_attr 5 (VfLinkState_Serialize \<lparr>fk_Vf = word_of_int vf, fk_LinkState = state\<rparr>))"

definition LinkSetVfSpoofchk :: "link_ctx \<Rightarrow> int \<Rightarrow> bool \<Rightarrow> nl_link \<Rightarrow> link_state \<Rightarrow> link_result" where
  "LinkSetVfSpoofchk c vf check =
     set_attr c (vf_attr 4 (VfSpoofchk_Serialize \<lparr>fs_Vf = word_of_int vf, fs_Setting = (if check then 1 else 0)\<rparr>))"

definition LinkSetVfTrust :: "link_ctx \<Rightarrow> int \<Rightarrow> bool \<Rightarrow> nl_link \<Rightarrow> link_state \<Rightarrow> link_result" where
  "LinkSetVfTrust c vf state =
     set_attr c (vf_attr 9 (VfTrust_Serialize \<lparr>fu_Vf = word_of_int vf, fu_Setting = (if state then 1 else 0)\<rparr>))"

text \<open>The identifier is read from the address in network byte order, before anything is sent.\<close>

definition LinkSetVfGUID :: "link_ctx \<Rightarrow> int \<Rightarrow> net_ip \<Rightarrow> int \<Rightarrow> nl_link \<Rightarrow> link_state \<Rightarrow> link_result" where
  "LinkSetVfGUID c vf vfGuid guidType link s =
     (let b = ip_bytes vfGuid in
      if length b < 8 then Done (Some GuidTooShort, link, s)
      else set_attr c (vf_attr guidType (VfGUID_Serialize \<lparr>fg_Vf = word_of_int vf, fg_Rsvd = 0, fg_GUID = ru64 0 (rev (take 8 b))\<rparr>)) link s)"

definition LinkSetVfNodeGUID :: "link_ctx \<Rightarrow> int \<Rightarrow> net_ip \<Rightarrow> nl_link \<Rightarrow> link_state \<Rightarrow> link_result" where
  "LinkSetVfNodeGUID c vf g = LinkSetVfGUID (c\<lparr>lc_h := None\<rparr>) vf g 10"

definition LinkSetVfPortGUID :: "link_ctx \<Rightarrow> int \<Rightarrow> net_ip \<Rightarrow> nl_link \<Rightarrow> link_state \<Rightarrow> link_result" where
  "LinkSetVfPortGUID c vf g = LinkSetVfGUID (c\<lparr>lc_h := None\<rparr>) vf g 11"

subsection \<open>Bridge ports, bonds and macvlan\<close>

definition setProtinfoAttr :: "link_ctx \<Rightarrow> int \<Rightarrow> bool \<Rightarrow> nl_link \<Rightarrow> link_state \<Rightarrow> link_result" where
  "setProtinfoAttr c attr mode =
     link_request c RTM_SETLINK (\<lambda>i. [info_msg AF_BRIDGE i 0 0, RtAttr (12 OR 0x8000) [] [NewRtAttr attr (boolToByte mode)]])"

definition LinkSetHairpin :: "link_ctx \<Rightarrow> bool \<Rightarrow> nl_link \<Rightarrow> link_state \<Rightarrow> link_result" where
  "LinkSetHairpin c = setProtinfoAttr c 4"

definition LinkSetGuard :: "link_ctx \<Rightarrow> bool \<Rightarrow> nl_link \<Rightarrow> link_state \<Rightarrow> link_result" where
  "LinkSetGuard c = setProtinfoAttr c 5"

definition LinkSetFastLeave :: "link_ctx \<Rightarrow> bool \<Rightarrow> nl_link \<Rightarrow> link_state \<Rightarrow> link_result" where
  "LinkSetFastLeave c = setProtinfoAttr c 7"

definition LinkSetLearning :: "link_ctx \<Rightarrow> bool \<Rightarrow> nl_link \<Rightarrow> link_state \<Rightarrow> link_result" where
  "LinkSetLearning c = setProtinfoAttr c 8"

definition LinkSetRootBlock :: "link_ctx \<Rightarrow> bool \<Rightarrow> nl_link \<Rightarrow> link_state \<Rightarrow> link_result" where
  "LinkSetRootBlock c = setProtinfoAttr c 6"

definition LinkSetFlood :: "link_ctx \<Rightarrow> bool \<Rightarrow> nl_link \<Rightarrow> link_state \<Rightarrow> link_result" where
  "LinkSetFlood c = setProtinfoAttr c 9"

definition LinkSetBrProxyArp :: "link_ctx \<Rightarrow> bool \<Rightarrow> nl_link \<Rightarrow> link_state \<Rightarrow> link_result" where
  "LinkSetBrProxyArp c = setProtinfoAttr c 10"

definition LinkSetBrProxyArpWiFi :: "link_ctx \<Rightarrow> bool \<Rightarrow> nl_link \<Rightarrow> link_state \<Rightarrow> link_result" where
  "LinkSetBrProxyArpWiFi c = setProtinfoAttr c 12"

definition LinkSetBondSlaveQueueId :: "link_ctx \<Rightarrow> u16 \<Rightarrow> nl_link \<Rightarrow> link_state \<Rightarrow> link_result" where
  "LinkSetBondSlaveQueueId c queueId = set_attr c (RtAttr 18 [] [RtAttr 5 [] [NewRtAttr 5 (Uint16Attr queueId)]])"

definition kind_info :: "nl_link \<Rightarrow> request_data list \<Rightarrow> request_data" where
  "kind_info link cs = RtAttr 18 [] (NewRtAttr 1 (NonZeroTerminated (link_Type link)) # cs)"

text \<open>The modes are those of \<open>MACVLAN_MACADDR_ADD\<close>, \<open>DEL\<close>, \<open>FLUSH\<close> and \<open>SET\<close>.\<close>

definition macaddr_attrs :: "net_ip list \<Rightarrow> u32 \<Rightarrow> request_data list" where
  "macaddr_attrs addrs mode =
     NewRtAttr 3 (le32 mode) #
     (if mode = 0 \<or> mode = 1 then (if length addrs = 1 then [NewRtAttr 4 (ip_bytes (hd addrs))] else [])
      else if mode = 3 then [RtAttr 5 [] (map (\<lambda>a. NewRtAttr 4 (ip_bytes a)) addrs)]
      else [])"

definition macvlanMACAddrChange :: "link_ctx \<Rightarrow> net_ip list \<Rightarrow> u32 \<Rightarrow> nl_link \<Rightarrow> link_state \<Rightarrow> link_result" where
  "macvlanMACAddrChange c addrs mode link s =
     link_request c RTM_NEWLINK (\<lambda>i. [info_msg 0 i 0 0, kind_info link [info_data (macaddr_attrs addrs mode)]]) link s"

definition MacvlanMACAddrAdd :: "link_ctx \<Rightarrow> net_ip \<Rightarrow> nl_link \<Rightarrow> link_state \<Rightarrow> link_result" where
  "MacvlanMACAddrAdd c addr = macvlanMACAddrChange c [addr] 0"

definition MacvlanMACAddrDel :: "link_ctx \<Rightarrow> net_ip \<Rightarrow> nl_link \<Rightarrow> link_state \<Rightarrow> link_result" where
  "MacvlanMACAddrDel c addr = macvlanMACAddrChange c [addr] 1"

definition MacvlanMACAddrFlush :: "link_ctx \<Rightarrow> nl_link \<Rightarrow> link_state \<Rightarrow> link_result" where
  "MacvlanMACAddrFlush c = macvlanMACAddrChange c [] 2"

definition MacvlanMACAddrSet :: "link_ctx \<Rightarrow> net_ip list \<Rightarrow> nl_link \<Rightarrow> link_state \<Rightarrow> link_result" where
  "MacvlanMACAddrSet c addrs = macvlanMACAddrChange c addrs 3"

text \<open>A mode outside the table panics, after the index has been ensured.\<close>

definition LinkSetMacvlanMode :: "link_ctx \<Rightarrow> u16 \<Rightarrow> nl_link \<Rightarrow> link_state \<Rightarrow> link_result" where
  "LinkSetMacvlanMode c mode link s =
     obind (ensureIndex c link s) (\<lambda>(link, s).
       if unat mode < length macvlanModes
       then link_exec c RTM_NEWLINK NLM_F_ACK
         [info_msg 0 (link_Index link) 0 0, kind_info link [info_data [NewRtAttr 1 (Uint32Attr (macvlanModes ! unat mode))]]] link s
       else Panic IndexOutOfRange)"

definition nl_LinkDel :: "link_ctx \<Rightarrow> nl_link \<Rightarrow> link_state \<Rightarrow> link_result" where
  "nl_LinkDel c = link_request c RTM_DELLINK (\<lambda>i. [info_msg 0 i 0 0])"

section \<open>Adding links\<close>

text \<open>What the encoder of a kind changes in the link itself.\<close>

fun sent_link :: "nl_link \<Rightarrow> nl_link" where
  "sent_link (Vxlan a x) = Vxlan a (vxlan_sent x)"
| "sent_link (Gretap a x) = Gretap a (gretap_sent x)"
| "sent_link (Gretun a x) = Gretun a (gretun_sent x)"
| "sent_link l = l"

definition ns_attr :: "namespace option \<Rightarrow> request_data list" where
  "ns_attr ns =
     (case ns of
        None \<Rightarrow> []
      | Some (NsPid n) \<Rightarrow> [NewRtAttr 19 (Uint32Attr (word_of_int n))]
      | Some (NsFd n) \<Rightarrow> [NewRtAttr 28 (Uint32Attr (word_of_int n))])"

definition int_attr :: "bool \<Rightarrow> int \<Rightarrow> int \<Rightarrow> request_data list" where
  "int_attr b t n = attr_if b t (Uint32Attr (word_of_int n))"

definition addVethAttrs :: "LinkAttrs \<Rightarrow> VethData \<Rightarrow> request_data list" where
  "addVethAttrs base x =
     [info_data [RtAttr 1 []
        (info_msg 0 0 0 0 # NewRtAttr 3 (ZeroTerminated (ve_PeerName x)) # int_attr (la_TxQLen base \<ge> 0) 13 (la_TxQLen base) @
         int_attr (la_NumTxQueues base > 0) 31 (la_NumTxQueues base) @ int_attr (la_NumRxQueues base > 0) 32 (la_NumRxQueues base) @
         int_attr (la_MTU base > 0) 4 (la_MTU base) @
         (case ve_PeerHardwareAddr x of None \<Rightarrow> [] | Some a \<Rightarrow> [NewRtAttr 1 a]) @ ns_attr (ve_PeerNamespace x))]]"

fun kind_data :: "nl_link \<Rightarrow> request_data list outcome" where
  "kind_data (Vlan a x) = Done (addVlanAttrs x)"
| "kind_data (Veth a x) = Done (addVethAttrs a x)"
| "kind_data (Vxlan a x) = Done (addVxlanAttrs x)"
| "kind_data (Bond a x) = Done (addBondAttrs x)"
| "kind_data (IPVlan a x) = Done (addIPVlanAttrs x)"
| "kind_data (IPVtap a x) = Done (addIPVlanAttrs x)"
| "kind_data (Macvlan a x) = addMacvlanAttrs x"
| "kind_data (Macvtap a x) = addMacvlanAttrs x"
| "kind_data (Geneve a x) = Done (addGeneveAttrs x)"
| "kind_data (Gretap a x) = Done (addGretapAttrs x)"
| "kind_data (Iptun a x) = Done (addIptunAttrs x)"
| "kind_data (Ip6tnl a x) = Done (addIp6tnlAttrs x)"
| "kind_data (Sittun a x) = Done (addSittunAttrs x)"
| "kind_data (Gretun a x) = Done (addGretunAttrs x)"
| "kind_data (Vti a x) = Done (addVtiAttrs x)"
| "kind_data (Vrf a x) = Done (addVrfAttrs x)"
| "kind_data (Bridge a x) = Done (addBridgeAttrs x)"
| "kind_data (GTP a x) = Done (addGTPAttrs x)"
| "kind_data (Xfrmi a x) = Done (addXfrmiAttrs (la_ParentIndex a) x)"
| "kind_data (IPoIB a x) = Done (addIPoIBAttrs x)"
| "kind_data (BareUDP a x) = Done (addBareUDPAttrs x)"
| "kind_data l = Done []"

text \<open>The flags of the package \<open>net\<close> that are set are asked for and marked as changed.\<close>

definition raw_flags :: "u64 \<Rightarrow> u32" where
  "raw_flags flags = fold (\<lambda>(i, g) f. if flags AND g \<noteq> 0 then f OR i else f) flag_pairs 0"

definition link_base_attrs :: "LinkAttrs \<Rightarrow> request_data list" where
  "link_base_attrs base =
     int_attr (la_ParentIndex base \<noteq> 0) 5 (la_ParentIndex base) @
     [NewRtAttr 3 (ZeroTerminated (la_Name base))] @
     attr_if (la_Alias base \<noteq> []) 20 (NonZeroTerminated (la_Alias base)) @
     int_attr (la_MTU base > 0) 4 (la_MTU base) @
     int_attr (la_TxQLen base \<ge> 0) 13 (la_TxQLen base) @
     (case la_HardwareAddr base of None \<Rightarrow> [] | Some a \<Rightarrow> [NewRtAttr 1 a]) @
     int_attr (la_NumTxQueues base > 0) 31 (la_NumTxQueues base) @
     int_attr (la_NumRxQueues base > 0) 32 (la_NumRxQueues base) @
     attr_if (la_GSOMaxSegs base > 0) 40 (Uint32Attr (la_GSOMaxSegs base)) @
     attr_if (la_GSOMaxSize base > 0) 41 (Uint32Attr (la_GSOMaxSize base)) @
     attr_if (la_Group base > 0) 27 (Uint32Attr (la_Group base)) @
     ns_attr (la_Namespace base) @
     (case la_Xdp base of None \<Rightarrow> [] | Some x \<Rightarrow> [addXdpAttrs x])"

definition link_body :: "nl_link \<Rightarrow> (link_error + request_data list) outcome" where
  "link_body link =
     (let base = link_Attrs link; f = raw_flags (la_Flags base) in
      if la_ParentIndex base = 0 \<and> (link_Type link = ''ipvlan'' \<or> link_Type link = ''ipoib'') then Done (Inl (NeedsParent (link_Type link)))
      else obind (kind_data link) (\<lambda>cs. Done (Inr (info_msg 0 (la_Index base) f f # link_base_attrs base @ [kind_info link cs]))))"

text \<open>After the request: the index, and the master, which cannot be set while creating.\<close>

definition link_master :: "link_ctx \<Rightarrow> nl_link \<Rightarrow> link_state \<Rightarrow> link_result" where
  "link_master c link s =
     obind (ensureIndex c link s) (\<lambda>(link, s).
       if la_MasterIndex (link_Attrs link) \<noteq> 0 then LinkSetMasterByIndex c (la_MasterIndex (link_Attrs link)) link s else Done (None, link, s))"

definition modify_plain :: "link_ctx \<Rightarrow> int \<Rightarrow> nl_link \<Rightarrow> link_state \<Rightarrow> link_result" where
  "modify_plain c flags link s =
     obind (link_body link) (\<lambda>r.
       case r of
         Inl e \<Rightarrow> Done (Some e, link, (fst s, snd (newNetlinkRequest (lc_h c) RTM_NEWLINK flags (snd s))))
       | Inr data \<Rightarrow>
           obind (link_exec c RTM_NEWLINK flags data (sent_link link) s) (\<lambda>(e, link, s).
             if e \<noteq> None then Done (e, link, s) else link_master c link s))"

subsection \<open>Tun and tap devices\<close>

definition trim_zeros :: "string \<Rightarrow> string" where
  "trim_zeros n = rev (dropWhile (\<lambda>c. c = CHR 0x00) (rev (dropWhile (\<lambda>c. c = CHR 0x00) n)))"

definition cleanupFds :: "int list \<Rightarrow> nl_state \<Rightarrow> nl_state" where
  "cleanupFds fds st = fold close_fd fds st"

definition tun_request_flags :: "TuntapData \<Rightarrow> u16" where
  "tun_request_flags x =
     (if tt_Flags x \<noteq> 0 then tt_Flags x else if tt_Queues x = 0 then 0x8000 OR 0x2000 else 0x100 OR 0x1000) OR tt_Mode x"

text \<open>Opening one queue. When \<open>TUNSETIFF\<close> fails the new descriptor is closed, when a later step fails it is not.\<close>

definition tun_queue :: "tun_os \<Rightarrow> string \<Rightarrow> TuntapData \<Rightarrow> nat \<Rightarrow> nl_state \<Rightarrow> (link_error + int \<times> string) \<times> nl_state" where
  "tun_queue tn name x i st =
     (case tn_open tn (st_open st) of
        Inl e \<Rightarrow> (Inl (LinkOs (Errno e)), st)
      | Inr fd \<Rightarrow>
          (let st = st\<lparr>st_open := fd # st_open st\<rparr> in
           case tn_setiff tn fd (take 15 name @ replicate (16 - length (take 15 name)) (CHR 0x00)) (tun_request_flags x) of
             Inl e \<Rightarrow> (Inl (IoctlFailed ''TUNSETIFF'' i e), close_fd fd st)
           | Inr n \<Rightarrow>
               (case tn_owner tn fd (tt_Owner x) of
                  Some e \<Rightarrow> (Inl (IoctlFailed ''TUNSETOWNER'' i e), st)
                | None \<Rightarrow>
                    (case tn_group tn fd (tt_Group x) of
                       Some e \<Rightarrow> (Inl (IoctlFailed ''TUNSETGROUP'' i e), st)
                     | None \<Rightarrow>
                         (case tn_nonblock tn fd of
                            Some e \<Rightarrow> (Inl (IoctlFailed ''set to non-blocking'' i e), st)
                          | None \<Rightarrow> (Inr (fd, trim_zeros n), st))))))"

text \<open>The queues from number \<open>i\<close> on. Every one is asked for by the name the link had at first; the name that the
kernel gives to queue 0 is the result's second part.\<close>

fun tun_queues :: "tun_os \<Rightarrow> string \<Rightarrow> TuntapData \<Rightarrow> nat \<Rightarrow> nat \<Rightarrow> int list \<Rightarrow> string \<Rightarrow> nl_state
    \<Rightarrow> (link_error + int list) \<times> string \<times> nl_state" where
  "tun_queues tn name x i 0 fds nm st = (Inr fds, nm, st)"
| "tun_queues tn name x i (Suc n) fds nm st =
     (case tun_queue tn name x i st of
        (Inl e, st) \<Rightarrow> (Inl e, nm, cleanupFds fds st)
      | (Inr (fd, got), st) \<Rightarrow> tun_queues tn name x (i + 1) n (fds @ [fd]) (if i = 0 then got else nm) st)"

text \<open>What follows when the device exists: making it persistent, its index, its master, the descriptors.\<close>

definition tun_finish :: "link_ctx \<Rightarrow> TuntapData \<Rightarrow> int list \<Rightarrow> nl_link \<Rightarrow> link_state \<Rightarrow> link_result" where
  "tun_finish c x fds link s =
     (if \<not> tt_NonPersist x \<and> fds = [] then Panic IndexOutOfRange
      else case (if tt_NonPersist x then None else tn_persist (lc_tun c) (hd fds) True) of
          Some e \<Rightarrow> Done (Some (NoPersistFailed e), link, (fst s, cleanupFds fds (snd s)))
        | None \<Rightarrow>
            obind (link_master c link s) (\<lambda>(e, link, s).
              if e \<noteq> None then Done (e, link, (fst s, cleanupFds fds (snd s)))
              else if tt_Queues x = 0 then Done (None, link, (fst s, cleanupFds fds (snd s)))
              else Done (None, Tuntap (link_Attrs link) (x\<lparr>tt_Fds := fds\<rparr>), s)))"

definition modify_tuntap :: "link_ctx \<Rightarrow> LinkAttrs \<Rightarrow> TuntapData \<Rightarrow> link_state \<Rightarrow> link_result" where
  "modify_tuntap c a x s =
     (if tt_Mode x < IFF_TUN \<or> tt_Mode x > IFF_TAP then Done (Some (TuntapModeUnknown (tt_Mode x)), Tuntap a x, s)
      else case tun_queues (lc_tun c) (la_Name a) x 0 (nat (if tt_Queues x = 0 then 1 else tt_Queues x)) [] (la_Name a) (snd s) of
          (Inl e, nm, st) \<Rightarrow> Done (Some e, Tuntap (a\<lparr>la_Name := nm\<rparr>) x, (fst s, st))
        | (Inr fds, nm, st) \<Rightarrow> tun_finish c x fds (Tuntap (a\<lparr>la_Name := nm\<rparr>) x) (fst s, st))"

definition linkModify :: "link_ctx \<Rightarrow> int \<Rightarrow> nl_link \<Rightarrow> link_state \<Rightarrow> link_result" where
  "linkModify c flags link s =
     (case link of
        Tuntap a x \<Rightarrow> modify_tuntap c a x s
      | _ \<Rightarrow> if link_Name link = [] then Done (Some EmptyName, link, s) else modify_plain c flags link s)"

definition nl_LinkAdd :: "link_ctx \<Rightarrow> nl_link \<Rightarrow> link_state \<Rightarrow> link_result" where
  "nl_LinkAdd c = linkModify c (NLM_F_CREATE OR NLM_F_EXCL OR NLM_F_ACK)"

definition LinkModify :: "link_ctx \<Rightarrow> nl_link \<Rightarrow> link_state \<Rightarrow> link_result" where
  "LinkModify c = linkModify c (1 OR NLM_F_ACK)"

text \<open>\<open>link.(*Bridge)\<close> panics on another type.\<close>

definition with_bridge :: "(BridgeData \<Rightarrow> BridgeData) \<Rightarrow> link_ctx \<Rightarrow> nl_link \<Rightarrow> link_state \<Rightarrow> link_result" where
  "with_bridge g c link s =
     (case link of Bridge a x \<Rightarrow> linkModify c NLM_F_ACK (Bridge a (g x)) s | _ \<Rightarrow> Panic CalledPanic)"

definition BridgeSetMcastSnoop :: "link_ctx \<Rightarrow> bool \<Rightarrow> nl_link \<Rightarrow> link_state \<Rightarrow> link_result" where
  "BridgeSetMcastSnoop c on = with_bridge (\<lambda>x. x\<lparr>br_MulticastSnooping := Some on\<rparr>) c"

definition BridgeSetVlanFiltering :: "link_ctx \<Rightarrow> bool \<Rightarrow> nl_link \<Rightarrow> link_state \<Rightarrow> link_result" where
  "BridgeSetVlanFiltering c on = with_bridge (\<lambda>x. x\<lparr>br_VlanFiltering := Some on\<rparr>) c"

subsection \<open>Bridge port flags\<close>

text \<open>The first message about the link that has the attribute decides.\<close>

fun protinfo_of :: "int \<Rightarrow> bytes list \<Rightarrow> (link_error + Protinfo) outcome" where
  "protinfo_of index [] = Done (Inl (ProtinfoNotFound index))"
| "protinfo_of index (m # ms) =
     obind (DeserializeIfInfomsg m) (\<lambda>ans.
       if sint (im_Index ans) \<noteq> index then protinfo_of index ms
       else rbind (link_attrs_of (drop SizeofIfInfomsg m)) (\<lambda>attrs.
         case List.find (\<lambda>a. ra_Type a = 12 OR 0x8000) attrs of
           None \<Rightarrow> protinfo_of index ms
         | Some a \<Rightarrow> rbind (link_attrs_of (ra_Value a)) (\<lambda>infos. obind (parseProtinfo infos) (\<lambda>p. Done (Inr p)))))"

definition LinkGetProtinfo :: "link_ctx \<Rightarrow> nl_link \<Rightarrow> link_state \<Rightarrow> ((link_error + Protinfo) \<times> nl_link \<times> link_state) outcome" where
  "LinkGetProtinfo c link s =
     obind (ensureIndex c link s) (\<lambda>(link, s).
       obind (link_call c RTM_GETLINK NLM_F_DUMP 0 [info_msg AF_BRIDGE 0 0 0] s) (\<lambda>(r, s).
         case r of
           Inl e \<Rightarrow> Done (Inl e, link, s)
         | Inr ms \<Rightarrow> obind (protinfo_of (link_Index link) ms) (\<lambda>r. Done (r, link, s))))"

end
