(* ===== verification/NlLinkProps.thy ===== *)
theory NlLinkProps
  imports NlLink
begin

text \<open>
  What is read back of a link: for every kind the parser against the encoder of \<open>NlLinkData\<close>, then the message of a
  kernel about a link against \<open>LinkDeserialize\<close>, and the lookups by index and by name over a socket.
\<close>

section \<open>Values and lists of attributes\<close>

abbreviation in_u8 :: "int \<Rightarrow> bool" where "in_u8 i \<equiv> 0 \<le> i \<and> i < 256"
abbreviation in_u16 :: "int \<Rightarrow> bool" where "in_u16 i \<equiv> 0 \<le> i \<and> i < 65536"
abbreviation in_u32 :: "int \<Rightarrow> bool" where "in_u32 i \<equiv> 0 \<le> i \<and> i < 4294967296"

lemma uint_of_ints [simp]:
  "in_u8 i \<Longrightarrow> uint (word_of_int i :: u8) = i" "in_u16 i \<Longrightarrow> uint (word_of_int i :: u16) = i"
  "in_u32 i \<Longrightarrow> uint (word_of_int i :: u32) = i"
  by (simp_all add: uint_of_int8 uint_of_int16 uint_of_int32)

definition ip4 :: "net_ip \<Rightarrow> bool" where "ip4 ip \<longleftrightarrow> (case ip of None \<Rightarrow> True | Some b \<Rightarrow> length b = 4)"

definition ip46 :: "net_ip \<Rightarrow> bool" where
  "ip46 ip \<longleftrightarrow> (case ip of None \<Rightarrow> True | Some b \<Rightarrow> length b = 4 \<or> length b = 16 \<and> To4 b = None)"

named_theorems link_read \<open>parsing what an encoder wrote\<close>

lemma le_reads [simp]: "value_u16 (le16 w) = Done w" "value_u8 [b] = Done b"
  using value_reads(3) [of w] by (simp_all add: Uint16Attr_def value_u8_def)

lemma value_take_exact [simp]: "length b = n \<Longrightarrow> value_take n b = Done b"
  by (simp add: value_take_def)

lemma bool_value [simp]: "value_u8 (boolAttr b) = Done (if b then 1 else 0)" "value_u8 (boolToByte b) = Done (if b then 1 else 0)"
  by (simp_all add: boolAttr_def boolToByte_def value_u8_def Uint8Attr_def)

lemma exact_reads [simp]: "getle32 (Uint32Attr v) = Done v" "getle16 (Uint16Attr w) = Done w"
  by (simp_all add: Uint32Attr_def Uint16Attr_def)

lemma nonempty_values [simp]: "Uint32Attr v \<noteq> []" "Uint16Attr w \<noteq> []" "Uint8Attr b \<noteq> []" "htons w \<noteq> []" "htonl v \<noteq> []" "boolAttr c \<noteq> []"
  by (simp_all add: Uint32Attr_def Uint16Attr_def Uint8Attr_def htons_def htonl_def be32_def be16_def le32_def le16_def boolAttr_def)

section \<open>Data of the kinds\<close>

subsection \<open>vlan\<close>

lemma vlan_parts [link_read]:
  "vl_VlanProtocol r = 0 \<Longrightarrow> in_u16 p \<Longrightarrow>
     each_attr vlan_datum (map attr_parsed (attr_if (p \<noteq> 0) 5 (htons (word_of_int p)))) r = Done (r\<lparr>vl_VlanProtocol := p\<rparr>)"
  by (simp_all add: attr_if_def vlan_datum_def)

lemma vlan_back:
  assumes "in_u16 (vl_VlanId x)" and "in_u16 (vl_VlanProtocol x)" and "addVlanAttrs x = [info_data ds]"
  shows "parseVlanData (map attr_parsed ds) zeroVlan = Done x"
  using assms
  by (cases x) (auto simp: addVlanAttrs_def info_data_def parseVlanData_def link_read vlan_datum_def zeroVlan_def)

lemma info_data_eq [simp]: "info_data a = info_data b \<longleftrightarrow> a = b"
  by (simp add: info_data_def)

subsection \<open>Bridges, ipvlan, macvlan and others without options\<close>

lemma bridge_parts [link_read]:
  "br_MulticastSnooping r = None \<Longrightarrow>
     each_attr bridge_datum (map attr_parsed (case a of None \<Rightarrow> [] | Some b \<Rightarrow> [NewRtAttr 23 (boolToByte b)])) r = Done (r\<lparr>br_MulticastSnooping := a\<rparr>)"
  "br_AgeingTime r = None \<Longrightarrow>
     each_attr bridge_datum (map attr_parsed (case n of None \<Rightarrow> [] | Some n \<Rightarrow> [NewRtAttr 4 (Uint32Attr n)])) r = Done (r\<lparr>br_AgeingTime := n\<rparr>)"
  "br_HelloTime r = None \<Longrightarrow>
     each_attr bridge_datum (map attr_parsed (case n of None \<Rightarrow> [] | Some n \<Rightarrow> [NewRtAttr 2 (Uint32Attr n)])) r = Done (r\<lparr>br_HelloTime := n\<rparr>)"
  "br_VlanFiltering r = None \<Longrightarrow>
     each_attr bridge_datum (map attr_parsed (case a of None \<Rightarrow> [] | Some b \<Rightarrow> [NewRtAttr 7 (boolToByte b)])) r = Done (r\<lparr>br_VlanFiltering := a\<rparr>)"
  by (auto simp: bridge_datum_def split: option.split)

lemma bridge_back: "addBridgeAttrs x = [info_data ds] \<Longrightarrow> parseBridgeData (map attr_parsed ds) zeroBridge = Done x"
  by (cases x) (auto simp: addBridgeAttrs_def info_data_def parseBridgeData_def each_attr_append link_read zeroBridge_def)

lemma ipvlan_back: "addIPVlanAttrs x = [info_data ds] \<Longrightarrow> parseIPVlanData (map attr_parsed ds) zeroIPVlan = Done x"
  by (cases x) (auto simp: addIPVlanAttrs_def info_data_def parseIPVlanData_def iPVlan_datum_def zeroIPVlan_def)

lemma macvlan_back:
  assumes "mv_MACAddrs x = []" and "addMacvlanAttrs x = Done cs"
  shows "cs = [] \<and> x = zeroMacvlan \<or> (\<exists>ds. cs = [info_data ds] \<and> parseMacvlanData (map attr_parsed ds) zeroMacvlan = Done x
    \<and> (\<forall>d \<in> set ds. is_attr d \<and> attr_Len d < 2 ^ 16))"
proof (cases "mv_Mode x = 0")
  case True
  then show ?thesis using assms by (cases x) (simp add: addMacvlanAttrs_def zeroMacvlan_def)
next
  case False
  obtain m where x: "x = \<lparr>mv_Mode = m, mv_MACAddrs = []\<rparr>" using assms(1) by (cases x) simp
  with False assms(2) have m: "unat m < 6" "m \<noteq> 0" "cs = [info_data [NewRtAttr 1 (Uint32Attr (macvlanModes ! unat m))]]"
    by (auto simp: addMacvlanAttrs_def macvlanModes_def split: if_splits)
  then have "unat m = 1 \<or> unat m = 2 \<or> unat m = 3 \<or> unat m = 4 \<or> unat m = 5" using unat_eq_zero [of m] by linarith
  then have "m = 1 \<or> m = 2 \<or> m = 3 \<or> m = 4 \<or> m = 5" by (auto simp: word_unat_eq_iff)
  then have "macvlan_mode (macvlanModes ! unat m) 0 = m" by (auto simp: macvlan_mode_def macvlanModes_def)
  then show ?thesis using m(3) by (simp add: x parseMacvlanData_def macvlan_datum_def zeroMacvlan_def)
qed

lemma vrf_back: "addVrfAttrs x = [info_data ds] \<Longrightarrow> parseVrfData (map attr_parsed ds) 0 = Done x"
  by (auto simp: addVrfAttrs_def info_data_def parseVrfData_def)

lemma ipoib_back: "addIPoIBAttrs x = [info_data ds] \<Longrightarrow> parseIPoIBData (map attr_parsed ds) zeroIPoIB = Done x"
  by (cases x) (auto simp: addIPoIBAttrs_def info_data_def parseIPoIBData_def iPoIB_datum_def zeroIPoIB_def)

lemma gtp_parts [link_read]:
  "gp_Role r = 0 \<Longrightarrow> in_u32 n \<Longrightarrow>
     each_attr gTP_datum (map attr_parsed (attr_if (n \<noteq> 0) 4 (Uint32Attr (word_of_int n)))) r = Done (r\<lparr>gp_Role := n\<rparr>)"
  by (simp_all add: attr_if_def gTP_datum_def)

lemma gtp_back:
  assumes "in_u32 (gp_FD0 x)" and "in_u32 (gp_FD1 x)" and "gp_PDPHashsize x = 131072" and "in_u32 (gp_Role x)" and "addGTPAttrs x = [info_data ds]"
  shows "parseGTPData (map attr_parsed ds) zeroGTP = Done x"
  using assms by (cases x) (auto simp: addGTPAttrs_def info_data_def parseGTPData_def each_attr_append link_read gTP_datum_def zeroGTP_def)

lemma xfrmi_parts [link_read]:
  "snd r = 0 \<Longrightarrow> each_attr xfrmi_datum (map attr_parsed (attr_if (n \<noteq> 0) 2 (Uint32Attr n))) r = Done (fst r, n)"
  by (cases r) (simp_all add: attr_if_def xfrmi_datum_def)

lemma xfrmi_back: "addXfrmiAttrs p x = [info_data ds] \<Longrightarrow> \<exists>q. parseXfrmiData (map attr_parsed ds) (0, 0) = Done (q, x)"
  by (auto simp: addXfrmiAttrs_def info_data_def parseXfrmiData_def each_attr_append link_read xfrmi_datum_def)

lemma Swap16_be: "getbe16 (Uint16Attr (Swap16 w)) = Done w"
proof -
  have m: "(0xff::u16) = mask 8" "(0xff00::u16) = push_bit 8 (mask 8)" by (simp_all add: mask_eq_exp_minus_1)
  have "(ucast (ucast (drop_bit 8 (Swap16 w)) :: u8) :: u16) OR push_bit 8 (ucast (ucast (Swap16 w) :: u8)) = w"
    unfolding Swap16_def m by (rule bit_word_eqI) (auto simp: bit_simps)
  then show ?thesis by (simp add: Uint16Attr_def le16_def)
qed

lemma bareudp_parts [link_read]:
  "bu_SrcPortMin r = 0 \<Longrightarrow>
     each_attr bareUDP_datum (map attr_parsed (attr_if (n \<noteq> 0) 3 (Uint16Attr n))) r = Done (r\<lparr>bu_SrcPortMin := n\<rparr>)"
  "\<not> bu_MultiProto r \<Longrightarrow> each_attr bareUDP_datum (map attr_parsed (attr_if b 4 [])) r = Done (r\<lparr>bu_MultiProto := b\<rparr>)"
  by (simp_all add: attr_if_def bareUDP_datum_def)

lemma bareudp_back: "addBareUDPAttrs x = [info_data ds] \<Longrightarrow> parseBareUDPData (map attr_parsed ds) zeroBareUDP = Done x"
  by (cases x) (auto simp: addBareUDPAttrs_def parseBareUDPData_def each_attr_append link_read bareUDP_datum_def Swap16_be zeroBareUDP_def)

subsection \<open>Tunnels\<close>

lemma To4_of_4 [simp]: "length b = 4 \<Longrightarrow> To4 b = Some b"
  by (simp add: To4_def)

lemma geneve_parts [link_read]:
  "gn_Remote r = None \<Longrightarrow> ip46 ip \<Longrightarrow>
     each_attr geneve_datum (map attr_parsed (case ip of None \<Rightarrow> [] | Some ip \<Rightarrow>
       (case To4 ip of Some a \<Rightarrow> [NewRtAttr 2 a] | None \<Rightarrow> [NewRtAttr 7 ip]))) r = Done (r\<lparr>gn_Remote := ip\<rparr>)"
  "gn_ID r = 0 \<Longrightarrow> each_attr geneve_datum (map attr_parsed (attr_if (n \<noteq> 0) 1 (Uint32Attr n))) r = Done (r\<lparr>gn_ID := n\<rparr>)"
  "gn_Dport r = 0 \<Longrightarrow> each_attr geneve_datum (map attr_parsed (attr_if (p \<noteq> 0) 5 (htons p))) r = Done (r\<lparr>gn_Dport := p\<rparr>)"
  "gn_Ttl r = 0 \<Longrightarrow> each_attr geneve_datum (map attr_parsed (attr_if (b \<noteq> 0) 3 (Uint8Attr b))) r = Done (r\<lparr>gn_Ttl := b\<rparr>)"
  "gn_Tos r = 0 \<Longrightarrow> each_attr geneve_datum (map attr_parsed (attr_if (b \<noteq> 0) 4 (Uint8Attr b))) r = Done (r\<lparr>gn_Tos := b\<rparr>)"
  by (auto simp: attr_if_def geneve_datum_def ip46_def split: option.splits)

definition plain_geneve :: "GeneveData \<Rightarrow> bool" where
  "plain_geneve x \<longleftrightarrow> \<not> gn_FlowBased x \<and> ip46 (gn_Remote x) \<and> gn_UdpCsum x = 0 \<and> gn_UdpZeroCsum6Tx x = 0
     \<and> gn_UdpZeroCsum6Rx x = 0 \<and> gn_Link x = 0"

lemma geneve_back: "plain_geneve x \<Longrightarrow> addGeneveAttrs x = [info_data ds] \<Longrightarrow> parseGeneveData (map attr_parsed ds) zeroGeneve = Done x"
  by (cases x) (auto simp: addGeneveAttrs_def plain_geneve_def parseGeneveData_def each_attr_append link_read zeroGeneve_def)

lemma gretap_parts [link_read]:
  "gt_Local r = None \<Longrightarrow> ip46 ip \<Longrightarrow> each_attr gretap_datum (map attr_parsed (gre_ip 6 ip)) r = Done (r\<lparr>gt_Local := ip\<rparr>)"
  "gt_Remote r = None \<Longrightarrow> ip46 ip \<Longrightarrow> each_attr gretap_datum (map attr_parsed (gre_ip 7 ip)) r = Done (r\<lparr>gt_Remote := ip\<rparr>)"
  "gt_OKey r = 0 \<Longrightarrow> each_attr gretap_datum (map attr_parsed (attr_if (k \<noteq> 0) 4 (htonl k))) r = Done (r\<lparr>gt_OKey := k\<rparr>)"
  "gt_IKey r = 0 \<Longrightarrow> each_attr gretap_datum (map attr_parsed (attr_if (k \<noteq> 0) 5 (htonl k))) r = Done (r\<lparr>gt_IKey := k\<rparr>)"
  by (auto simp: gre_ip_def attr_if_def gretap_datum_def ip46_def split: option.splits)

text \<open>Both keys have to be equal, because the parser exchanges them.\<close>

definition plain_gretap :: "GretapData \<Rightarrow> bool" where
  "plain_gretap x \<longleftrightarrow> x = zeroGretap\<lparr>gt_FlowBased := True\<rparr>
     \<or> \<not> gt_FlowBased x \<and> ip46 (gt_Local x) \<and> ip46 (gt_Remote x) \<and> gt_IKey x = gt_OKey x \<and> gt_Link x = 0"

lemma gretap_back:
  assumes "plain_gretap x" and "addGretapAttrs x = [info_data ds]"
  shows "parseGretapData (map attr_parsed ds) zeroGretap = Done (gretap_sent x)"
proof (cases "gt_FlowBased x")
  case True
  with assms show ?thesis
    by (auto simp: plain_gretap_def addGretapAttrs_def gretap_attrs_def gretap_sent_def parseGretapData_def gretap_datum_def zeroGretap_def)
next
  case False
  define y where "y = gretap_sent x"
  have y: "\<not> gt_FlowBased y" "ip46 (gt_Local y)" "ip46 (gt_Remote y)" "gt_IKey y = gt_OKey y" "gt_Link y = 0"
    using assms(1) False by (auto simp: y_def plain_gretap_def gretap_sent_def)
  have ds: "ds = gretap_attrs y" using assms(2) by (simp add: addGretapAttrs_def y_def)
  have "parseGretapData (map attr_parsed (gretap_attrs y)) zeroGretap = Done y"
    using y by (cases y) (auto simp: gretap_attrs_def parseGretapData_def each_attr_append link_read gretap_datum_def attr_if_def zeroGretap_def)
  then show ?thesis by (simp add: ds y_def)
qed

lemma gretun_parts [link_read]:
  "gr_Local r = None \<Longrightarrow> ip46 ip \<Longrightarrow> each_attr gretun_datum (map attr_parsed (gre_ip 6 ip)) r = Done (r\<lparr>gr_Local := ip\<rparr>)"
  "gr_Remote r = None \<Longrightarrow> ip46 ip \<Longrightarrow> each_attr gretun_datum (map attr_parsed (gre_ip 7 ip)) r = Done (r\<lparr>gr_Remote := ip\<rparr>)"
  "gr_IKey r = 0 \<Longrightarrow> each_attr gretun_datum (map attr_parsed (attr_if (k \<noteq> 0) 4 (htonl k))) r = Done (r\<lparr>gr_IKey := k\<rparr>)"
  "gr_OKey r = 0 \<Longrightarrow> each_attr gretun_datum (map attr_parsed (attr_if (k \<noteq> 0) 5 (htonl k))) r = Done (r\<lparr>gr_OKey := k\<rparr>)"
  by (auto simp: gre_ip_def attr_if_def gretun_datum_def ip46_def split: option.splits)

definition plain_gretun :: "GretunData \<Rightarrow> bool" where
  "plain_gretun x \<longleftrightarrow> ip46 (gr_Local x) \<and> ip46 (gr_Remote x) \<and> gr_Link x = 0"

lemma gretun_back:
  assumes "plain_gretun x" and "addGretunAttrs x = [info_data ds]"
  shows "parseGretunData (map attr_parsed ds) zeroGretun = Done (gretun_sent x)"
proof -
  define y where "y = gretun_sent x"
  have y: "ip46 (gr_Local y)" "ip46 (gr_Remote y)" "gr_Link y = 0"
    using assms(1) by (auto simp: y_def plain_gretun_def gretun_sent_def)
  have ds: "ds = gretun_attrs y" using assms(2) by (simp add: addGretunAttrs_def y_def)
  have "parseGretunData (map attr_parsed (gretun_attrs y)) zeroGretun = Done y"
    using y by (cases y) (auto simp: gretun_attrs_def parseGretunData_def each_attr_append link_read gretun_datum_def attr_if_def zeroGretun_def)
  then show ?thesis by (simp add: ds y_def)
qed

lemma ip_fixed:
  "ip4 ip \<Longrightarrow> ip4_attr t ip = (case ip of None \<Rightarrow> [] | Some b \<Rightarrow> [NewRtAttr t b])"
  "(case ip of None \<Rightarrow> True | Some b \<Rightarrow> length b = 16) \<Longrightarrow> ip16_attr t ip = (case ip of None \<Rightarrow> [] | Some b \<Rightarrow> [NewRtAttr t b])"
  by (auto simp: ip4_def ip4_attr_def ip16_attr_def ip_bytes_def To4_def To16_def split: option.splits)

lemma iptun_parts [link_read]:
  "ip_Local r = None \<Longrightarrow> ip4 ip \<Longrightarrow> each_attr iptun_datum (map attr_parsed (ip4_attr 2 ip)) r = Done (r\<lparr>ip_Local := ip\<rparr>)"
  "ip_Remote r = None \<Longrightarrow> ip4 ip \<Longrightarrow> each_attr iptun_datum (map attr_parsed (ip4_attr 3 ip)) r = Done (r\<lparr>ip_Remote := ip\<rparr>)"
  by (auto simp: ip_fixed iptun_datum_def ip4_def split: option.splits)

definition plain_iptun :: "IptunData \<Rightarrow> bool" where
  "plain_iptun x \<longleftrightarrow> \<not> ip_FlowBased x \<and> ip4 (ip_Local x) \<and> ip4 (ip_Remote x) \<and> ip_Link x = 0"

lemma iptun_back: "plain_iptun x \<Longrightarrow> addIptunAttrs x = [info_data ds] \<Longrightarrow> parseIptunData (map attr_parsed ds) zeroIptun = Done x"
  by (cases x) (auto simp: addIptunAttrs_def plain_iptun_def parseIptunData_def each_attr_append link_read iptun_datum_def attr_if_def zeroIptun_def)

lemma ip6tnl_parts [link_read]:
  "i6_Local r = None \<Longrightarrow> (case ip of None \<Rightarrow> True | Some b \<Rightarrow> length b = 16) \<Longrightarrow>
     each_attr ip6tnl_datum (map attr_parsed (ip16_attr 2 ip)) r = Done (r\<lparr>i6_Local := ip\<rparr>)"
  "i6_Remote r = None \<Longrightarrow> (case ip of None \<Rightarrow> True | Some b \<Rightarrow> length b = 16) \<Longrightarrow>
     each_attr ip6tnl_datum (map attr_parsed (ip16_attr 3 ip)) r = Done (r\<lparr>i6_Remote := ip\<rparr>)"
  by (auto simp: ip_fixed ip6tnl_datum_def split: option.splits)

definition plain_ip6tnl :: "Ip6tnlData \<Rightarrow> bool" where
  "plain_ip6tnl x \<longleftrightarrow> (case i6_Local x of None \<Rightarrow> True | Some b \<Rightarrow> length b = 16) \<and> (case i6_Remote x of None \<Rightarrow> True | Some b \<Rightarrow> length b = 16)
     \<and> i6_Link x = 0"

lemma ip6tnl_back: "plain_ip6tnl x \<Longrightarrow> addIp6tnlAttrs x = [info_data ds] \<Longrightarrow> parseIp6tnlData (map attr_parsed ds) zeroIp6tnl = Done x"
  by (cases x) (simp add: addIp6tnlAttrs_def plain_ip6tnl_def parseIp6tnlData_def each_attr_append link_read ip6tnl_datum_def attr_if_def zeroIp6tnl_def, clarsimp simp: each_attr_append link_read ip6tnl_datum_def)

lemma sittun_parts [link_read]:
  "st_Local r = None \<Longrightarrow> ip4 ip \<Longrightarrow> each_attr sittun_datum (map attr_parsed (ip4_attr 2 ip)) r = Done (r\<lparr>st_Local := ip\<rparr>)"
  "st_Remote r = None \<Longrightarrow> ip4 ip \<Longrightarrow> each_attr sittun_datum (map attr_parsed (ip4_attr 3 ip)) r = Done (r\<lparr>st_Remote := ip\<rparr>)"
  "st_Ttl r = 0 \<Longrightarrow> each_attr sittun_datum (map attr_parsed (attr_if (n > 0) 4 (Uint8Attr n))) r = Done (r\<lparr>st_Ttl := n\<rparr>)"
  by (auto simp: ip_fixed attr_if_def sittun_datum_def ip4_def word_neq_0_conv [symmetric] split: option.splits)

definition plain_sittun :: "SittunData \<Rightarrow> bool" where
  "plain_sittun x \<longleftrightarrow> ip4 (st_Local x) \<and> ip4 (st_Remote x) \<and> st_Link x = 0 \<and> st_EncapLimit x = 0"

lemma sittun_back: "plain_sittun x \<Longrightarrow> addSittunAttrs x = [info_data ds] \<Longrightarrow> parseSittunData (map attr_parsed ds) zeroSittun = Done x"
  by (cases x) (auto simp: addSittunAttrs_def plain_sittun_def parseSittunData_def each_attr_append link_read sittun_datum_def attr_if_def zeroSittun_def word_neq_0_conv [symmetric])

text \<open>The form of the local address decides about the form of both.\<close>

definition vti_family :: "bool \<Rightarrow> net_ip \<Rightarrow> bool" where
  "vti_family v4 ip \<longleftrightarrow> (if v4 then ip4 ip else True)"

definition plain_vti :: "VtiData \<Rightarrow> bool" where
  "plain_vti x \<longleftrightarrow> (let v4 = (To4 (ip_bytes (vt_Local x)) \<noteq> None) in vti_family v4 (vt_Local x) \<and> vti_family v4 (vt_Remote x)) \<and> vt_Link x = 0"

lemma vti_parts [link_read]:
  "vt_Local r = None \<Longrightarrow> vti_family v4 ip \<Longrightarrow> each_attr vti_datum (map attr_parsed (vti_ip v4 4 ip)) r = Done (r\<lparr>vt_Local := ip\<rparr>)"
  "vt_Remote r = None \<Longrightarrow> vti_family v4 ip \<Longrightarrow> each_attr vti_datum (map attr_parsed (vti_ip v4 5 ip)) r = Done (r\<lparr>vt_Remote := ip\<rparr>)"
  by (auto simp: vti_family_def vti_ip_def ip_fixed vti_datum_def split: option.splits)

lemma vti_back: "plain_vti x \<Longrightarrow> addVtiAttrs x = [info_data ds] \<Longrightarrow> parseVtiData (map attr_parsed ds) zeroVti = Done x"
  by (cases x) (auto simp: addVtiAttrs_def plain_vti_def parseVtiData_def each_attr_append link_read vti_datum_def attr_if_def zeroVti_def Let_def)

subsection \<open>vxlan\<close>

lemma vxlan_ip:
  assumes "ip46 ip"
  shows "ip46_attr t u ip = (case ip of None \<Rightarrow> [] | Some b \<Rightarrow> [NewRtAttr (if length b = 4 then t else u) b])"
  using assms by (auto simp: ip46_def ip46_attr_def ip_bytes_def To16_def split: option.splits)

lemma vxlan_parts [link_read]:
  "vx_VtepDevIndex r = 0 \<Longrightarrow> in_u32 n \<Longrightarrow>
     each_attr vxlan_datum (map attr_parsed (attr_if (n \<noteq> 0) 3 (Uint32Attr (word_of_int n)))) r = Done (r\<lparr>vx_VtepDevIndex := n\<rparr>)"
  "vx_SrcAddr r = None \<Longrightarrow> ip46 ip \<Longrightarrow> each_attr vxlan_datum (map attr_parsed (ip46_attr 4 17 ip)) r = Done (r\<lparr>vx_SrcAddr := ip\<rparr>)"
  "vx_Group r = None \<Longrightarrow> ip46 ip \<Longrightarrow> each_attr vxlan_datum (map attr_parsed (ip46_attr 2 16 ip)) r = Done (r\<lparr>vx_Group := ip\<rparr>)"
  "\<not> vx_UDPCSum r \<Longrightarrow> each_attr vxlan_datum (map attr_parsed (attr_if b 18 (boolAttr b))) r = Done (r\<lparr>vx_UDPCSum := b\<rparr>)"
  "\<not> vx_GBP r \<Longrightarrow> each_attr vxlan_datum (map attr_parsed (attr_if b 23 [])) r = Done (r\<lparr>vx_GBP := b\<rparr>)"
  "\<not> vx_FlowBased r \<Longrightarrow> each_attr vxlan_datum (map attr_parsed (attr_if b 25 (boolAttr b))) r = Done (r\<lparr>vx_FlowBased := b\<rparr>)"
  "vx_Limit r = 0 \<Longrightarrow> in_u32 n \<Longrightarrow>
     each_attr vxlan_datum (map attr_parsed (attr_if (n > 0) 9 (Uint32Attr (word_of_int n)))) r = Done (r\<lparr>vx_Limit := n\<rparr>)"
  "vx_Port r = 0 \<Longrightarrow> in_u16 n \<Longrightarrow>
     each_attr vxlan_datum (map attr_parsed (attr_if (n > 0) 15 (htons (word_of_int n)))) r = Done (r\<lparr>vx_Port := n\<rparr>)"
  by (auto simp: attr_if_def vxlan_datum_def vxlan_ip ip46_def split: option.splits)

lemma word_of_int_zero32: "in_u32 n \<Longrightarrow> (word_of_int n :: u32) = 0 \<Longrightarrow> n = 0"
proof -
  assume n: "in_u32 n" and z: "(word_of_int n :: u32) = 0"
  show "n = 0" using uint_of_ints(3) [OF n] unfolding z by simp
qed

lemma vxlan_age [link_read]:
  "vx_Age r = 0 \<Longrightarrow> \<not> vx_NoAge r \<Longrightarrow> in_u32 n \<Longrightarrow> (e \<Longrightarrow> n = 0) \<Longrightarrow>
     each_attr vxlan_datum (map attr_parsed (if e then [NewRtAttr 8 (Uint32Attr 0)] else attr_if (n > 0) 8 (Uint32Attr (word_of_int n)))) r
       = Done (r\<lparr>vx_Age := n, vx_NoAge := e\<rparr>)"
  by (cases r) (use word_of_int_zero32 [of n] in \<open>auto simp: attr_if_def vxlan_datum_def\<close>)

definition plain_vxlan :: "VxlanData \<Rightarrow> bool" where
  "plain_vxlan x \<longleftrightarrow> in_u32 (vx_VxlanId x) \<and> in_u32 (vx_VtepDevIndex x) \<and> ip46 (vx_SrcAddr x) \<and> ip46 (vx_Group x) \<and> in_u8 (vx_TTL x)
     \<and> in_u8 (vx_TOS x) \<and> in_u32 (vx_Age x) \<and> (vx_NoAge x \<longrightarrow> vx_Age x = 0) \<and> in_u32 (vx_Limit x) \<and> in_u16 (vx_Port x)
     \<and> vx_PortLow x = 0 \<and> vx_PortHigh x = 0"

lemma vxlan_sent_fields:
  "plain_vxlan x \<Longrightarrow> plain_vxlan (vxlan_sent x)"
  by (simp add: plain_vxlan_def vxlan_sent_def)

lemma vxlan_back:
  assumes "plain_vxlan x" and "addVxlanAttrs x = [info_data ds]"
  shows "parseVxlanData (map attr_parsed ds) zeroVxlan = Done (vxlan_sent x)"
proof -
  define y where "y = vxlan_sent x"
  have y: "plain_vxlan y" using assms(1) by (simp add: y_def vxlan_sent_fields)
  have p: "attr_if (vx_PortLow y > 0 \<or> vx_PortHigh y > 0) 10 (be16 (word_of_int (vx_PortLow y)) @ be16 (word_of_int (vx_PortHigh y))) = []"
    using y by (simp add: plain_vxlan_def attr_if_def)
  have b: "each_attr vxlan_datum (map attr_parsed [NewRtAttr 1 (Uint32Attr (word_of_int (vx_VxlanId y)))]) r = Done (r\<lparr>vx_VxlanId := vx_VxlanId y\<rparr>)"
    "each_attr vxlan_datum (map attr_parsed [NewRtAttr 5 (Uint8Attr (word_of_int (vx_TTL y))), NewRtAttr 6 (Uint8Attr (word_of_int (vx_TOS y)))]) r
       = Done (r\<lparr>vx_TTL := vx_TTL y, vx_TOS := vx_TOS y\<rparr>)" for r
    using y by (simp_all add: plain_vxlan_def vxlan_datum_def)
  have f: "each_attr vxlan_datum (map attr_parsed [NewRtAttr 7 (boolAttr a), NewRtAttr 11 (boolAttr b)]) r = Done (r\<lparr>vx_Learning := a, vx_Proxy := b\<rparr>)"
    "each_attr vxlan_datum (map attr_parsed [NewRtAttr 12 (boolAttr a), NewRtAttr 13 (boolAttr b)]) r = Done (r\<lparr>vx_RSC := a, vx_L2miss := b\<rparr>)"
    "each_attr vxlan_datum (map attr_parsed [NewRtAttr 14 (boolAttr a)]) r = Done (r\<lparr>vx_L3miss := a\<rparr>)"
    "each_attr vxlan_datum (map attr_parsed [NewRtAttr 19 (boolAttr a), NewRtAttr 20 (boolAttr b)]) r
       = Done (r\<lparr>vx_UDP6ZeroCSumTx := a, vx_UDP6ZeroCSumRx := b\<rparr>)" for a b r
    by (simp_all add: vxlan_datum_def)
  have ds: "ds = vxlan_attrs y" using assms(2) by (simp add: addVxlanAttrs_def y_def)
  have "parseVxlanData (map attr_parsed (vxlan_attrs y)) zeroVxlan = Done y"
    using y [unfolded plain_vxlan_def]
    unfolding vxlan_attrs_def p parseVxlanData_def map_append each_attr_append b f
    by (simp add: b [simplified] f [simplified] link_read zeroVxlan_def del: list.map each_attr.simps) (cases y, simp)
  then show ?thesis by (simp add: ds y_def)
qed

subsection \<open>Bonds\<close>

definition plain_bond :: "BondData \<Rightarrow> bool" where
  "plain_bond x \<longleftrightarrow> (\<forall>i \<in> {bo_Mode x, bo_UseCarrier x, bo_PrimaryReselect x, bo_FailOverMac x, bo_XmitHashPolicy x, bo_NumPeerNotif x,
        bo_AllSlavesActive x, bo_LacpRate x, bo_AdSelect x, bo_TlbDynamicLb x}. in_u8 i)
     \<and> in_u16 (bo_AdActorSysPrio x) \<and> in_u16 (bo_AdUserPortKey x)
     \<and> (\<forall>i \<in> {bo_ActiveSlave x, bo_Miimon x, bo_UpDelay x, bo_DownDelay x, bo_ArpInterval x, bo_ArpValidate x, bo_ArpAllTargets x,
        bo_Primary x, bo_ResendIgmp x, bo_MinLinks x, bo_LpInterval x, bo_PacketsPerSlave x}. in_u32 i)
     \<and> (\<forall>b. bo_AdActorSystem x = Some b \<longrightarrow> length b = 6)
     \<and> (\<forall>ips. bo_ArpIpTargets x = Some ips \<longrightarrow> length ips < 1000 \<and> (\<forall>b \<in> set ips. length b = 4 \<or> length b = 16 \<and> To4 b = None))"

lemma target_ip_id: "length b = 4 \<or> length b = 16 \<and> To4 b = None \<Longrightarrow> target_ip b = [b]"
  by (auto simp: target_ip_def To16_def)

lemma target_attrs_read:
  assumes "\<forall>b \<in> set ips. length b = 4 \<or> length b = 16 \<and> To4 b = None"
  shows "(\<forall>d \<in> set (target_attrs i ips). is_attr d \<and> attr_Len d < 2 ^ 16)
    \<and> concat (map (\<lambda>d. target_ip (ra_Value d)) (map attr_parsed (target_attrs i ips))) = ips"
  using assms by (induction ips arbitrary: i) (auto simp: target_ip_id)

lemma bond_targets [link_read]:
  assumes "bo_ArpIpTargets r = None" and "\<And>ips b. t = Some ips \<Longrightarrow> b \<in> set ips \<Longrightarrow> length b = 4 \<or> length b = 16 \<and> To4 b = None"
  shows "each_attr bond_datum (map attr_parsed (case t of None \<Rightarrow> [] | Some ips \<Rightarrow> [RtAttr 8 [] (target_attrs 0 ips)])) r = Done (r\<lparr>bo_ArpIpTargets := t\<rparr>)"
proof (cases t)
  case (Some ips)
  then have a: "\<forall>b \<in> set ips. length b = 4 \<or> length b = 16 \<and> To4 b = None" using assms(2) by blast
  note t = target_attrs_read [OF a, of 0]
  then have "parseBondArpIpTargets (ra_Value (attr_parsed (RtAttr 8 [] (target_attrs 0 ips)))) = Done (Some ips)"
    using parse_children [of "target_attrs 0 ips" 8] by (simp only: parseBondArpIpTargets_def obind.simps sum.case)
  then show ?thesis using Some by (simp add: bond_datum_def del: attr_Len.simps)
qed (use assms in simp)

lemma bond_system [link_read]:
  "bo_AdActorSystem r = None \<Longrightarrow> (\<And>b. m = Some b \<Longrightarrow> length b = 6) \<Longrightarrow>
     each_attr bond_datum (map attr_parsed (case m of None \<Rightarrow> [] | Some m \<Rightarrow> [NewRtAttr 26 m])) r = Done (r\<lparr>bo_AdActorSystem := m\<rparr>)"
  by (cases m) (simp_all add: bond_datum_def)

lemma bond_back:
  assumes "plain_bond x" and "addBondAttrs x = [info_data ds]"
  shows "parseBondData (map attr_parsed ds) zeroBond = Done x"
  using assms
  by (cases x) (auto simp: plain_bond_def addBondAttrs_def nonneg8_def nonneg16_def nonneg32_def attr_if_def parseBondData_def each_attr_append
    link_read bond_datum_def zeroBond_def)

section \<open>All kinds\<close>

text \<open>
  The kinds whose data survive: values within their widths, addresses of the right form, and no option that the
  encoder or the parser leaves out. The parser does not read the peer of a veth; tun devices are not added
  by netlink, and the data of CAN devices have no encoder.
\<close>

fun plain_kind :: "nl_link \<Rightarrow> bool" where
  "plain_kind (Vlan a x) \<longleftrightarrow> in_u16 (vl_VlanId x) \<and> in_u16 (vl_VlanProtocol x)"
| "plain_kind (Vxlan a x) \<longleftrightarrow> plain_vxlan x"
| "plain_kind (Bond a x) \<longleftrightarrow> plain_bond x"
| "plain_kind (Macvlan a x) \<longleftrightarrow> unat (mv_Mode x) < 6 \<and> mv_MACAddrs x = []"
| "plain_kind (Macvtap a x) \<longleftrightarrow> unat (mv_Mode x) < 6 \<and> mv_MACAddrs x = []"
| "plain_kind (Geneve a x) \<longleftrightarrow> plain_geneve x"
| "plain_kind (Gretap a x) \<longleftrightarrow> plain_gretap x"
| "plain_kind (Gretun a x) \<longleftrightarrow> plain_gretun x"
| "plain_kind (Iptun a x) \<longleftrightarrow> plain_iptun x"
| "plain_kind (Ip6tnl a x) \<longleftrightarrow> plain_ip6tnl x"
| "plain_kind (Sittun a x) \<longleftrightarrow> plain_sittun x"
| "plain_kind (Vti a x) \<longleftrightarrow> plain_vti x"
| "plain_kind (GTP a x) \<longleftrightarrow> in_u32 (gp_FD0 x) \<and> in_u32 (gp_FD1 x) \<and> gp_PDPHashsize x = 131072 \<and> in_u32 (gp_Role x)"
| "plain_kind (GenericLink a k) \<longleftrightarrow> link_of_kind k = GenericLink zeroLinkAttrs k"
| "plain_kind (Can a x) \<longleftrightarrow> x = zeroCan"
| "plain_kind (Tuntap a x) \<longleftrightarrow> False"
| "plain_kind (Device a) \<longleftrightarrow> False"
| "plain_kind l \<longleftrightarrow> True"

fun read_link :: "nl_link \<Rightarrow> nl_link" where
  "read_link (Veth a x) = Veth a zeroVeth"
| "read_link l = sent_link l"

text \<open>What an encoder wrote is one attribute with the data, from which the parser makes the given record.\<close>

definition written :: "request_data list \<Rightarrow> (NetlinkRouteAttr list \<Rightarrow> 'a \<Rightarrow> 'a outcome) \<Rightarrow> 'a \<Rightarrow> 'a \<Rightarrow> bool" where
  "written cs parse z y \<longleftrightarrow> (\<exists>ds. cs = [info_data ds] \<and> (\<forall>d \<in> set ds. is_attr d) \<and> parse (map attr_parsed ds) z = Done y)"

lemma writtenI:
  assumes "\<And>ds. cs = [info_data ds] \<Longrightarrow> parse (map attr_parsed ds) z = Done y" and "\<exists>ds. cs = [info_data ds] \<and> (\<forall>d \<in> set ds. is_attr d)"
  shows "written cs parse z y"
  using assms unfolding written_def by blast

lemma is_attr_parts [simp]:
  "d \<in> set (attr_if c t b) \<Longrightarrow> is_attr d" "d \<in> set (ip46_attr t u ip) \<Longrightarrow> is_attr d" "d \<in> set (nonneg8 t n) \<Longrightarrow> is_attr d"
  "d \<in> set (nonneg16 t n) \<Longrightarrow> is_attr d" "d \<in> set (nonneg32 t n) \<Longrightarrow> is_attr d" "d \<in> set (gre_ip t ip) \<Longrightarrow> is_attr d"
  "d \<in> set (ip4_attr t ip) \<Longrightarrow> is_attr d" "d \<in> set (ip16_attr t ip) \<Longrightarrow> is_attr d" "d \<in> set (vti_ip v4 t ip) \<Longrightarrow> is_attr d"
  by (auto simp: attr_if_def ip46_attr_def nonneg8_def nonneg16_def nonneg32_def gre_ip_def ip4_attr_def ip16_attr_def vti_ip_def
    split: if_splits option.splits)

lemma vlan_written: "in_u16 (vl_VlanId x) \<Longrightarrow> in_u16 (vl_VlanProtocol x) \<Longrightarrow> written (addVlanAttrs x) parseVlanData zeroVlan x"
  by (rule writtenI, rule vlan_back, assumption+) (auto simp: addVlanAttrs_def split: option.splits if_splits)

lemma bridge_written: "written (addBridgeAttrs x) parseBridgeData zeroBridge x"
  by (rule writtenI, rule bridge_back, assumption+) (auto simp: addBridgeAttrs_def split: option.splits if_splits)

lemma ipvlan_written: "written (addIPVlanAttrs x) parseIPVlanData zeroIPVlan x"
  by (rule writtenI, rule ipvlan_back, assumption+) (auto simp: addIPVlanAttrs_def split: option.splits if_splits)

lemma vrf_written: "written (addVrfAttrs x) parseVrfData 0 x"
  by (rule writtenI, rule vrf_back, assumption+) (auto simp: addVrfAttrs_def split: option.splits if_splits)

lemma ipoib_written: "written (addIPoIBAttrs x) parseIPoIBData zeroIPoIB x"
  by (rule writtenI, rule ipoib_back, assumption+) (auto simp: addIPoIBAttrs_def split: option.splits if_splits)

lemma gtp_written: "in_u32 (gp_FD0 x) \<Longrightarrow> in_u32 (gp_FD1 x) \<Longrightarrow> gp_PDPHashsize x = 131072 \<Longrightarrow> in_u32 (gp_Role x) \<Longrightarrow>
     written (addGTPAttrs x) parseGTPData zeroGTP x"
  by (rule writtenI, rule gtp_back, assumption+) (auto simp: addGTPAttrs_def split: option.splits if_splits)

lemma bareudp_written: "written (addBareUDPAttrs x) parseBareUDPData zeroBareUDP x"
  by (rule writtenI, rule bareudp_back, assumption+) (auto simp: addBareUDPAttrs_def split: option.splits if_splits)

lemma geneve_written: "plain_geneve x \<Longrightarrow> written (addGeneveAttrs x) parseGeneveData zeroGeneve x"
  by (rule writtenI, rule geneve_back, assumption+) (auto simp: addGeneveAttrs_def plain_geneve_def split: option.splits if_splits)

lemma gretap_written: "plain_gretap x \<Longrightarrow> written (addGretapAttrs x) parseGretapData zeroGretap (gretap_sent x)"
  by (rule writtenI, rule gretap_back, assumption+) (auto simp: addGretapAttrs_def gretap_attrs_def split: option.splits if_splits)

lemma gretun_written: "plain_gretun x \<Longrightarrow> written (addGretunAttrs x) parseGretunData zeroGretun (gretun_sent x)"
  by (rule writtenI, rule gretun_back, assumption+) (auto simp: addGretunAttrs_def gretun_attrs_def split: option.splits if_splits)

lemma iptun_written: "plain_iptun x \<Longrightarrow> written (addIptunAttrs x) parseIptunData zeroIptun x"
  by (rule writtenI, rule iptun_back, assumption+) (auto simp: addIptunAttrs_def plain_iptun_def split: option.splits if_splits)

lemma ip6tnl_written: "plain_ip6tnl x \<Longrightarrow> written (addIp6tnlAttrs x) parseIp6tnlData zeroIp6tnl x"
  by (rule writtenI, rule ip6tnl_back, assumption+) (auto simp: addIp6tnlAttrs_def split: option.splits if_splits)

lemma sittun_written: "plain_sittun x \<Longrightarrow> written (addSittunAttrs x) parseSittunData zeroSittun x"
  by (rule writtenI, rule sittun_back, assumption+) (auto simp: addSittunAttrs_def split: option.splits if_splits)

lemma vti_written: "plain_vti x \<Longrightarrow> written (addVtiAttrs x) parseVtiData zeroVti x"
  by (rule writtenI, rule vti_back, assumption+) (auto simp: addVtiAttrs_def Let_def split: option.splits if_splits)

lemma vxlan_written: "plain_vxlan x \<Longrightarrow> written (addVxlanAttrs x) parseVxlanData zeroVxlan (vxlan_sent x)"
  by (rule writtenI, rule vxlan_back, assumption+) (auto simp: addVxlanAttrs_def vxlan_attrs_def split: option.splits if_splits)

lemma bond_written: "plain_bond x \<Longrightarrow> written (addBondAttrs x) parseBondData zeroBond x"
  by (rule writtenI, rule bond_back, assumption+) (auto simp: addBondAttrs_def split: option.splits if_splits)

definition carries :: "nl_link \<Rightarrow> request_data list \<Rightarrow> bool" where
  "carries l cs \<longleftrightarrow>
     (cs = [] \<and> read_link l = set_attrs (link_Attrs l) (link_of_kind (link_Type l)))
     \<or> (\<exists>ds a. cs = [info_data ds] \<and> (\<forall>d \<in> set ds. is_attr d)
          \<and> parse_link_data (map attr_parsed ds) (link_of_kind (link_Type l)) = Done (set_attrs a (read_link l)))"

lemmas kinds_written = vlan_written [unfolded written_def] bridge_written [unfolded written_def] ipvlan_written [unfolded written_def] vrf_written [unfolded written_def] ipoib_written [unfolded written_def] gtp_written [unfolded written_def] bareudp_written [unfolded written_def] geneve_written [unfolded written_def] gretap_written [unfolded written_def] gretun_written [unfolded written_def] iptun_written [unfolded written_def] ip6tnl_written [unfolded written_def] sittun_written [unfolded written_def] vti_written [unfolded written_def] vxlan_written [unfolded written_def] bond_written [unfolded written_def]

lemma veth_written: "written (addVethAttrs a x) (\<lambda>ds z. Done z) zeroVeth zeroVeth"
  by (rule writtenI) (simp_all add: addVethAttrs_def)

lemma xfrmi_written: "\<exists>q. written (addXfrmiAttrs p x) parseXfrmiData (0, 0) (q, x)"
proof -
  obtain ds where ds: "addXfrmiAttrs p x = [info_data ds]" "\<forall>d \<in> set ds. is_attr d" by (auto simp: addXfrmiAttrs_def)
  with xfrmi_back [OF ds(1)] show ?thesis unfolding written_def by blast
qed

text \<open>The data of a macvlan may be missing altogether.\<close>

lemma macvlan_written:
  assumes "unat (mv_Mode x) < 6" and "mv_MACAddrs x = []"
  shows "addMacvlanAttrs x = Done [] \<and> x = zeroMacvlan
    \<or> (\<exists>cs. addMacvlanAttrs x = Done cs \<and> written cs parseMacvlanData zeroMacvlan x)"
proof -
  have "\<exists>cs. addMacvlanAttrs x = Done cs" using assms(1) by (simp add: addMacvlanAttrs_def macvlanModes_def)
  then obtain cs where cs: "addMacvlanAttrs x = Done cs" by blast
  with macvlan_back [OF assms(2) cs] show ?thesis by (auto simp: written_def)
qed

lemma kind_read:
  assumes "plain_kind l"
  shows "\<exists>cs. kind_data l = Done cs \<and> carries l cs"
proof (cases l)
  case (Macvlan a x)
  then show ?thesis using assms macvlan_written [of x] by (auto simp: carries_def link_of_kind_def written_def)
next
  case (Macvtap a x)
  then show ?thesis using assms macvlan_written [of x] by (auto simp: carries_def link_of_kind_def written_def)
next
  case (Xfrmi a x)
  obtain q ds where "addXfrmiAttrs (la_ParentIndex a) x = [info_data ds]" "\<forall>d \<in> set ds. is_attr d"
    "parseXfrmiData (map attr_parsed ds) (0, 0) = Done (q, x)"
    using xfrmi_written [of "la_ParentIndex a" x] unfolding written_def by blast
  with Xfrmi show ?thesis by (auto simp: carries_def link_of_kind_def zeroLinkAttrs_def intro!: exI [of _ "zeroLinkAttrs\<lparr>la_ParentIndex := q\<rparr>"])
qed (use assms in \<open>auto simp: carries_def link_of_kind_def intro: kinds_written veth_written [unfolded written_def, simplified]\<close>)

section \<open>A link read back\<close>

definition plain_base :: "LinkAttrs \<Rightarrow> bool" where
  "plain_base a \<longleftrightarrow> in_u32 (la_ParentIndex a) \<and> in_u32 (la_MTU a) \<and> (la_TxQLen a = - 1 \<or> in_u32 (la_TxQLen a)) \<and> in_u32 (la_NumTxQueues a)
     \<and> in_u32 (la_NumRxQueues a) \<and> (\<forall>b. la_HardwareAddr a = Some b \<longrightarrow> (\<exists>x \<in> set b. x \<noteq> 0))"

definition is_device :: "nl_link \<Rightarrow> bool" where "is_device l \<longleftrightarrow> (\<exists>a. l = Device a)"

text \<open>
  What a kernel reports about a link: the attributes of \<open>LinkAdd\<close> with their strings terminated, the kind and the
  data; nothing about the kind of a hardware device.
\<close>

definition reported :: "nl_link \<Rightarrow> request_data list \<Rightarrow> request_data list" where
  "reported l cs =
     (let a = link_Attrs l in
      [NewRtAttr 3 (ZeroTerminated (la_Name a))] @ int_attr (la_ParentIndex a \<noteq> 0) 5 (la_ParentIndex a) @
      attr_if (la_Alias a \<noteq> []) 20 (ZeroTerminated (la_Alias a)) @ int_attr (la_MTU a > 0) 4 (la_MTU a) @
      int_attr (la_TxQLen a \<ge> 0) 13 (la_TxQLen a) @
      (case la_HardwareAddr a of None \<Rightarrow> [] | Some b \<Rightarrow> [NewRtAttr 1 b]) @
      int_attr (la_NumTxQueues a > 0) 31 (la_NumTxQueues a) @ int_attr (la_NumRxQueues a > 0) 32 (la_NumRxQueues a) @
      attr_if (la_GSOMaxSegs a > 0) 40 (Uint32Attr (la_GSOMaxSegs a)) @ attr_if (la_GSOMaxSize a > 0) 41 (Uint32Attr (la_GSOMaxSize a)) @
      attr_if (la_Group a > 0) 27 (Uint32Attr (la_Group a)) @
      (if is_device l then [] else [RtAttr 18 [] (NewRtAttr 1 (ZeroTerminated (link_Type l)) # cs)]))"

text \<open>What is read back: index, flags and type from the header of the message, the rest from the attributes.\<close>

definition read_attrs :: "IfInfomsg \<Rightarrow> LinkAttrs \<Rightarrow> LinkAttrs" where
  "read_attrs msg a =
     (link_base msg)\<lparr>la_Name := la_Name a, la_ParentIndex := la_ParentIndex a, la_Alias := la_Alias a, la_MTU := la_MTU a,
       la_TxQLen := la_TxQLen a, la_HardwareAddr := la_HardwareAddr a, la_NumTxQueues := la_NumTxQueues a,
       la_NumRxQueues := la_NumRxQueues a, la_GSOMaxSegs := la_GSOMaxSegs a, la_GSOMaxSize := la_GSOMaxSize a, la_Group := la_Group a\<rparr>"

abbreviation base_step :: "IfInfomsg \<Rightarrow> request_data list \<Rightarrow> link_acc \<Rightarrow> (LinkAttrs \<Rightarrow> LinkAttrs) \<Rightarrow> bool" where
  "base_step msg ds s f \<equiv> each_datum (link_attr None msg) (map attr_parsed ds) s = Done (Inr (s\<lparr>ac_base := f (ac_base s)\<rparr>))"

lemma base_parts [link_read]:
  "base_step msg [NewRtAttr 3 (ZeroTerminated n)] s (\<lambda>a. a\<lparr>la_Name := n\<rparr>)"
  "la_ParentIndex (ac_base s) = 0 \<Longrightarrow> in_u32 i \<Longrightarrow> base_step msg (int_attr (i \<noteq> 0) 5 i) s (\<lambda>a. a\<lparr>la_ParentIndex := i\<rparr>)"
  "la_Alias (ac_base s) = [] \<Longrightarrow> base_step msg (attr_if (n \<noteq> []) 20 (ZeroTerminated n)) s (\<lambda>a. a\<lparr>la_Alias := n\<rparr>)"
  "la_MTU (ac_base s) = 0 \<Longrightarrow> in_u32 i \<Longrightarrow> base_step msg (int_attr (i > 0) 4 i) s (\<lambda>a. a\<lparr>la_MTU := i\<rparr>)"
  "la_TxQLen (ac_base s) = - 1 \<Longrightarrow> i = - 1 \<or> in_u32 i \<Longrightarrow> base_step msg (int_attr (i \<ge> 0) 13 i) s (\<lambda>a. a\<lparr>la_TxQLen := i\<rparr>)"
  "la_NumTxQueues (ac_base s) = 0 \<Longrightarrow> in_u32 i \<Longrightarrow> base_step msg (int_attr (i > 0) 31 i) s (\<lambda>a. a\<lparr>la_NumTxQueues := i\<rparr>)"
  "la_NumRxQueues (ac_base s) = 0 \<Longrightarrow> in_u32 i \<Longrightarrow> base_step msg (int_attr (i > 0) 32 i) s (\<lambda>a. a\<lparr>la_NumRxQueues := i\<rparr>)"
  "la_GSOMaxSegs (ac_base s) = 0 \<Longrightarrow> base_step msg (attr_if (v > 0) 40 (Uint32Attr v)) s (\<lambda>a. a\<lparr>la_GSOMaxSegs := v\<rparr>)"
  "la_GSOMaxSize (ac_base s) = 0 \<Longrightarrow> base_step msg (attr_if (v > 0) 41 (Uint32Attr v)) s (\<lambda>a. a\<lparr>la_GSOMaxSize := v\<rparr>)"
  "la_Group (ac_base s) = 0 \<Longrightarrow> base_step msg (attr_if (v > 0) 27 (Uint32Attr v)) s (\<lambda>a. a\<lparr>la_Group := v\<rparr>)"
  by (auto simp: int_attr_def attr_if_def link_attr_def word_neq_0_conv [symmetric])

lemma base_hardware [link_read]:
  "la_HardwareAddr (ac_base s) = None \<Longrightarrow> (\<And>b. h = Some b \<Longrightarrow> \<exists>x \<in> set b. x \<noteq> 0) \<Longrightarrow>
     base_step msg (case h of None \<Rightarrow> [] | Some b \<Rightarrow> [NewRtAttr 1 b]) s (\<lambda>a. a\<lparr>la_HardwareAddr := h\<rparr>)"
  by (cases h) (simp_all add: link_attr_def)

lemma children_read:
  assumes "\<And>d. d \<in> set ds \<Longrightarrow> is_attr d" and "attr_Len (RtAttr t [] ds) < 2 ^ 16"
  shows "link_attrs_of (ra_Value (attr_parsed (RtAttr t [] ds))) = Done (Inr (map attr_parsed ds))"
proof -
  have "is_attr d \<and> attr_Len d < 2 ^ 16" if "d \<in> set ds" for d
    using assms attr_Len_child [OF that, of t "[]"] that by (simp del: attr_Len.simps)
  from parse_children [OF this] show ?thesis by (simp only: link_attrs_of_def obind.simps map_sum.simps id_def)
qed

lemma info_read:
  assumes "plain_kind l" and "kind_data l = Done cs" and "attr_Len (RtAttr 18 [] (NewRtAttr 1 (ZeroTerminated (link_Type l)) # cs)) < 2 ^ 16"
  shows "\<exists>a. each_datum (link_attr None msg) (map attr_parsed [RtAttr 18 [] (NewRtAttr 1 (ZeroTerminated (link_Type l)) # cs)]) s
    = Done (Inr (s\<lparr>ac_type := link_Type l, ac_link := Some (set_attrs a (read_link l))\<rparr>))"
proof -
  let ?k = "NewRtAttr 1 (ZeroTerminated (link_Type l))"
  have c: "carries l cs" using kind_read [OF assms(1)] assms(2) by auto
  have cs: "is_attr c" if "c \<in> set cs" for c using c that by (auto simp: carries_def info_data_def)
  have v: "link_attrs_of (ra_Value (attr_parsed (RtAttr 18 [] (?k # cs)))) = Done (Inr (map attr_parsed (?k # cs)))"
    by (rule children_read) (use cs assms(3) in \<open>auto simp del: attr_Len.simps\<close>)
  have "\<exists>a. each_datum info_attr (map attr_parsed (?k # cs)) s = Done (Inr (s\<lparr>ac_type := link_Type l, ac_link := Some (set_attrs a (read_link l))\<rparr>))"
    using c unfolding carries_def
  proof (elim disjE exE conjE)
    fix ds a
    assume ds: "cs = [info_data ds]" "\<forall>d \<in> set ds. is_attr d"
      and p: "parse_link_data (map attr_parsed ds) (link_of_kind (link_Type l)) = Done (set_attrs a (read_link l))"
    have "attr_Len (info_data ds) < 2 ^ 16" using attr_Len_child [of "info_data ds" "?k # cs" 18 "[]"] assms(3) by (simp add: ds(1) del: attr_Len.simps)
    then have "link_attrs_of (ra_Value (attr_parsed (info_data ds))) = Done (Inr (map attr_parsed ds))"
      unfolding info_data_def by (intro children_read) (use ds(2) in auto)
    then show ?thesis using p by (auto simp: info_attr_def ds(1) info_data_def simp del: attr_Len.simps)
  qed (auto simp: info_attr_def intro!: exI [of _ "link_Attrs (link_of_kind (link_Type l))"])
  then obtain a where a: "each_datum info_attr (map attr_parsed (?k # cs)) s = Done (Inr (s\<lparr>ac_type := link_Type l, ac_link := Some (set_attrs a (read_link l))\<rparr>))"
    by blast
  have "link_attr None msg (attr_parsed (RtAttr 18 [] (?k # cs))) s
      = rbind (link_attrs_of (ra_Value (attr_parsed (RtAttr 18 [] (?k # cs))))) (\<lambda>infos. each_datum info_attr infos s)"
    by (simp add: link_attr_def del: attr_Len.simps)
  then have "link_attr None msg (attr_parsed (RtAttr 18 [] (?k # cs))) s = Done (Inr (s\<lparr>ac_type := link_Type l, ac_link := Some (set_attrs a (read_link l))\<rparr>))"
    unfolding v rbind_simps a .
  then show ?thesis by (intro exI [of _ a]) (simp only: list.map each_datum.simps obind.simps sum.case)
qed

definition plain_link :: "nl_link \<Rightarrow> bool" where
  "plain_link l \<longleftrightarrow> plain_base (link_Attrs l) \<and> (is_device l \<or> plain_kind l)"

lemma plain_not_tuntap: "is_device l \<or> plain_kind l \<Longrightarrow> read_link l \<noteq> Tuntap a x \<and> set_attrs b (read_link l) \<noteq> Tuntap a x"
  by (cases l) (auto simp: is_device_def)

lemma link_finish_plain: "(\<And>a x. set_attrs b l \<noteq> Tuntap a x) \<Longrightarrow> (case set_attrs b l of Tuntap a x \<Rightarrow> Tuntap a (f a x) | l \<Rightarrow> l) = set_attrs b l"
  by (cases "set_attrs b l") auto

lemma reported_read:
  assumes "plain_link l" and "kind_data l = Done cs" and "\<And>d. d \<in> set (reported l cs) \<Longrightarrow> attr_Len d < 2 ^ 16"
    and "ac_base s = link_base msg" and "ac_link s = None"
  shows "\<exists>k. each_datum (link_attr None msg) (map attr_parsed (reported l cs)) s =
      Done (Inr (s\<lparr>ac_base := read_attrs msg (link_Attrs l), ac_type := (if is_device l then ac_type s else link_Type l),
        ac_link := (if is_device l then None else Some k)\<rparr>))
    \<and> set_attrs a (if is_device l then Device zeroLinkAttrs else k) = set_attrs a (read_link l)"
proof -
  let ?i = "RtAttr 18 [] (NewRtAttr 1 (ZeroTerminated (link_Type l)) # cs)"
  have b: "plain_base (link_Attrs l)" and k: "is_device l \<or> plain_kind l" using assms(1) by (simp_all add: plain_link_def)
  have "\<exists>k. each_datum (link_attr None msg) (map attr_parsed (if is_device l then [] else [?i])) s
      = Done (Inr (s\<lparr>ac_type := (if is_device l then ac_type s else link_Type l), ac_link := (if is_device l then None else Some k)\<rparr>))
    \<and> set_attrs a (if is_device l then Device zeroLinkAttrs else k) = set_attrs a (read_link l)" if "ac_link s = None" for s
  proof (cases "is_device l")
    case True
    then show ?thesis using that by (auto simp: is_device_def)
  next
    case False
    then have "plain_kind l" "attr_Len ?i < 2 ^ 16" using k assms(3) by (auto simp: reported_def Let_def simp del: attr_Len.simps)
    from info_read [OF this(1) assms(2) this(2), of msg s] obtain b where
      "each_datum (link_attr None msg) (map attr_parsed [?i]) s = Done (Inr (s\<lparr>ac_type := link_Type l, ac_link := Some (set_attrs b (read_link l))\<rparr>))" by blast
    then show ?thesis unfolding if_not_P [OF False] by (intro exI [of _ "set_attrs b (read_link l)"] conjI) (simp_all only: set_attrs_link_Attrs)
  qed
  then have "\<exists>k. each_datum (link_attr None msg) (map attr_parsed (if is_device l then [] else [?i])) (s\<lparr>ac_base := read_attrs msg (link_Attrs l)\<rparr>)
      = Done (Inr (s\<lparr>ac_base := read_attrs msg (link_Attrs l), ac_type := (if is_device l then ac_type s else link_Type l), ac_link := (if is_device l then None else Some k)\<rparr>))
    \<and> set_attrs a (if is_device l then Device zeroLinkAttrs else k) = set_attrs a (read_link l)"
    using assms(5) by fastforce
  then obtain k where k: "each_datum (link_attr None msg) (map attr_parsed (if is_device l then [] else [?i])) (s\<lparr>ac_base := read_attrs msg (link_Attrs l)\<rparr>)
      = Done (Inr (s\<lparr>ac_base := read_attrs msg (link_Attrs l), ac_type := (if is_device l then ac_type s else link_Type l), ac_link := (if is_device l then None else Some k)\<rparr>))"
    "set_attrs a (if is_device l then Device zeroLinkAttrs else k) = set_attrs a (read_link l)" by blast
  have "each_datum (link_attr None msg) (map attr_parsed (reported l cs)) s = each_datum (link_attr None msg) (map attr_parsed (if is_device l then [] else [?i]))
      (s\<lparr>ac_base := read_attrs msg (link_Attrs l)\<rparr>)"
    using b assms(4) unfolding reported_def Let_def map_append each_datum_append plain_base_def
    by (simp add: link_read link_base_def NewLinkAttrs_def zeroLinkAttrs_def read_attrs_def del: list.map each_datum.simps)
  with k show ?thesis by auto
qed

text \<open>
  The message of a kernel about a link: the header with index, flags and type, and the attributes.
\<close>

definition link_message :: "IfInfomsg \<Rightarrow> nl_link \<Rightarrow> request_data list \<Rightarrow> bytes" where
  "link_message msg l cs = IfInfomsg_Serialize msg @ concat (map attr_wire (reported l cs))"

lemma is_attr_reported: "d \<in> set (reported l cs) \<Longrightarrow> is_attr d"
  by (auto simp: reported_def Let_def int_attr_def split: if_splits option.splits)

lemma link_message_read:
  assumes "plain_link l" and "kind_data l = Done cs" and "\<And>d. d \<in> set (reported l cs) \<Longrightarrow> attr_Len d < 2 ^ 16"
  shows "LinkDeserialize file None (link_message msg l cs) = Done (Inr (set_attrs (read_attrs msg (link_Attrs l)) (read_link l)))"
proof -
  let ?s = "\<lparr>ac_base = link_base msg, ac_link = None, ac_stats32 = None, ac_stats64 = None, ac_type = [], ac_slave = None, ac_slaveType = []\<rparr>"
  let ?a = "read_attrs msg (link_Attrs l)"
  have h: "DeserializeIfInfomsg (link_message msg l cs) = Done msg" "drop SizeofIfInfomsg (link_message msg l cs) = concat (map attr_wire (reported l cs))"
    using im_codec.dec_enc im_codec.enc_length [of msg] by (simp_all add: link_message_def)
  have "link_attrs_of (concat (map attr_wire (reported l cs))) = Done (Inr (map attr_parsed (reported l cs)))"
    using parse_wires [of "reported l cs" "[]"] assms(3) is_attr_reported by (simp add: link_attrs_of_def ParseRouteAttr_def)
  moreover obtain k where "each_datum (link_attr None msg) (map attr_parsed (reported l cs)) ?s =
      Done (Inr (?s\<lparr>ac_base := ?a, ac_type := (if is_device l then [] else link_Type l), ac_link := (if is_device l then None else Some k)\<rparr>))"
    and k: "set_attrs ?a (if is_device l then Device zeroLinkAttrs else k) = set_attrs ?a (read_link l)"
    using reported_read [OF assms, where s = ?s and msg = msg and a = ?a] by (auto cong: if_cong)
  moreover have "link_finish file (?s\<lparr>ac_base := ?a, ac_type := (if is_device l then [] else link_Type l), ac_link := (if is_device l then None else Some k)\<rparr>)
      = set_attrs ?a (read_link l)"
  proof -
    have a: "?a\<lparr>la_Statistics := None, la_Slave := None\<rparr> = ?a"
      by (simp add: read_attrs_def link_base_def NewLinkAttrs_def zeroLinkAttrs_def)
    have l: "(case (if is_device l then None else Some k) of Some l \<Rightarrow> l | None \<Rightarrow> Device zeroLinkAttrs) = (if is_device l then Device zeroLinkAttrs else k)"
      by simp
    have t: "set_attrs ?a (read_link l) \<noteq> Tuntap b x" for b x
      using assms(1) plain_not_tuntap by (simp add: plain_link_def)
    show ?thesis
      by (simp add: link_finish_def a l k) (rule link_finish_plain [OF t])
  qed
  ultimately show ?thesis by (simp add: LinkDeserialize_def h)
qed

end
