(* ===== verification/NlLinkOps.thy ===== *)
theory NlLinkOps
  imports NlLinkProps
begin

text \<open>
  The operations of \<open>NlLink\<close> on a kernel that answers: lookups by index and by name, the list of links, and the descriptors
  that a failing \<open>LinkAdd\<close> of a tun device leaves open.
\<close>

section \<open>Requests that are answered\<close>

lemma link_call_replied:
  assumes "lc_h c = None" and "replied (lc_os c) (snd s) proto flags data resType parts r"
  obtains st' where "link_call c proto flags resType data s = Done (map_sum LinkOs id (r (selected resType parts)), fst s, st')"
    and "follows (snd s) st'"
proof -
  obtain st' where "do_request (lc_os c) (lc_ack c) None proto flags resType data (snd s) = Done (r (selected resType parts), st')" "follows (snd s) st'"
    by (rule do_request_follows [OF assms(2)])
  then show ?thesis using that assms(1) by (simp add: link_call_def)
qed

text \<open>One message is the answer, or an error number.\<close>

lemma execGetLink_once:
  assumes "lc_h c = None" and "answered_once (lc_os c) (snd s) RTM_GETLINK NLM_F_ACK data 0 m" and "LinkDeserialize (lc_file c) None m = Done r"
  obtains st' where "execGetLink c data s = Done (r, fst s, st')" and "follows (snd s) st'"
proof -
  obtain st' where "link_call c RTM_GETLINK NLM_F_ACK 0 data s = Done (Inr [m], fst s, st')" "follows (snd s) st'"
    using link_call_replied [OF assms(1) answered_once_replied [OF assms(2)]] by auto
  with that assms(3) show ?thesis by (simp add: execGetLink_def)
qed

lemma execGetLink_refused:
  assumes "lc_h c = None" and "answered (lc_os c) (snd s) RTM_GETLINK NLM_F_ACK data parts (- code)" and "code \<noteq> 0"
  obtains st' where "execGetLink c data s
      = Done (Inl (if uint (scast code :: u64) = ENODEV then LinkNotFound ''Link not found'' else LinkOs (Errno (uint (scast code :: u64)))), fst s, st')"
    and "follows (snd s) st'"
proof -
  obtain st' where "link_call c RTM_GETLINK NLM_F_ACK 0 data s = Done (Inl (LinkOs (Errno (uint (scast code :: u64)))), fst s, st')" "follows (snd s) st'"
    using link_call_replied [OF assms(1) answered_replied [OF assms(2)]] assms(3) by (auto simp: final_result_def)
  with that show ?thesis by (simp add: execGetLink_def)
qed

text \<open>A report of a link: the header, the link and the data of its kind, in the form that is read back.\<close>

type_synonym report = "IfInfomsg \<times> nl_link \<times> request_data list"

definition report_ok :: "report \<Rightarrow> bool" where
  "report_ok p \<longleftrightarrow> (case p of (msg, l, cs) \<Rightarrow> plain_link l \<and> kind_data l = Done cs \<and> (\<forall>d \<in> set (reported l cs). attr_Len d < 2 ^ 16))"

definition report_bytes :: "report \<Rightarrow> bytes" where "report_bytes p = (case p of (msg, l, cs) \<Rightarrow> link_message msg l cs)"

definition report_link :: "report \<Rightarrow> nl_link" where
  "report_link p = (case p of (msg, l, cs) \<Rightarrow> set_attrs (read_attrs msg (link_Attrs l)) (read_link l))"

lemma report_read: "report_ok p \<Longrightarrow> LinkDeserialize file None (report_bytes p) = Done (Inr (report_link p))"
  by (cases p) (simp add: report_ok_def report_bytes_def report_link_def link_message_read)

lemma report_link_simps [simp]:
  "link_Name (report_link (msg, l, cs)) = link_Name l" "link_Index (report_link (msg, l, cs)) = sint (im_Index msg)"
  by (simp_all add: report_link_def read_attrs_def link_base_def)

lemma links_of_reports: "(\<And>p. p \<in> set ps \<Longrightarrow> report_ok p) \<Longrightarrow> links_of file (map report_bytes ps) = Done (Inr (map report_link ps))"
  by (induction ps) (simp_all add: report_read)

lemma LinkByIndex_reported:
  assumes "lc_h c = None" and "answered_once (lc_os c) (snd s) RTM_GETLINK NLM_F_ACK [info_msg 0 index 0 0, ext_mask] 0 (report_bytes p)" and "report_ok p"
  shows "\<exists>st'. LinkByIndex c index s = Done (Inr (report_link p), fst s, st') \<and> follows (snd s) st'"
  using execGetLink_once [OF assms(1,2) report_read [OF assms(3)]] by (auto simp: LinkByIndex_def)

lemma LinkList_reported:
  assumes "lc_h c = None" and "answered (lc_os c) (snd s) RTM_GETLINK NLM_F_DUMP [info_msg 0 0 0 0, ext_mask] parts 0"
    and "selected (word_of_int RTM_NEWLINK) parts = map report_bytes ps" and "\<And>p. p \<in> set ps \<Longrightarrow> report_ok p"
  shows "\<exists>st'. LinkList c s = Done (Inr (map report_link ps), fst s, st') \<and> follows (snd s) st'"
proof -
  obtain st' where "link_call c RTM_GETLINK NLM_F_DUMP (word_of_int RTM_NEWLINK) [info_msg 0 0 0 0, ext_mask] s
      = Done (Inr (map report_bytes ps), fst s, st')" "follows (snd s) st'"
    using link_call_replied [OF assms(1) answered_replied [OF assms(2)], of "word_of_int RTM_NEWLINK"] assms(3) by (auto simp: final_result_def)
  then show ?thesis using links_of_reports [OF assms(4)] by (simp add: LinkList_def)
qed

section \<open>Lookups\<close>



section \<open>Descriptors of tun devices\<close>

text \<open>Every new descriptor differs from the open ones.\<close>

definition tun_fresh :: "tun_os \<Rightarrow> bool" where
  "tun_fresh tn \<longleftrightarrow> (\<forall>fds fd. tn_open tn fds = Inr fd \<longrightarrow> fd \<notin> set fds)"

lemma cleanupFds_open: "distinct (st_open st) \<Longrightarrow> st_open (cleanupFds fds st) = filter (\<lambda>x. x \<notin> set fds) (st_open st)"
proof (induction fds arbitrary: st)
  case (Cons fd fds)
  then show ?case by (auto simp: cleanupFds_def close_fd_def distinct_remove1_removeAll removeAll_filter_not_eq intro!: filter_cong)
qed (simp add: cleanupFds_def)

text \<open>The errors after which the new descriptor stays open.\<close>

definition after_setiff :: "link_error \<Rightarrow> bool" where
  "after_setiff e \<longleftrightarrow> (\<exists>w i k. e = IoctlFailed w i k \<and> w \<noteq> ''TUNSETIFF'')"

lemma tun_queue_open:
  assumes "tun_fresh tn" and "tun_queue tn name x i st = (r, st')"
  shows "case r of
      Inr (fd, n) \<Rightarrow> st_open st' = fd # st_open st \<and> fd \<notin> set (st_open st)
    | Inl e \<Rightarrow> if after_setiff e then \<exists>fd. fd \<notin> set (st_open st) \<and> st_open st' = fd # st_open st else st_open st' = st_open st"
  using assms by (auto simp: tun_queue_def tun_fresh_def after_setiff_def close_fd_def Let_def split: sum.splits option.splits)

lemma tun_queues_open:
  assumes "tun_fresh tn" and "distinct (st_open st)" and "st_open st = rev fds @ open"
    and "tun_queues tn name x i n fds nm st = (Inl e, nm', st')"
  shows "if after_setiff e then \<exists>fd. fd \<notin> set open \<and> st_open st' = fd # open else st_open st' = open"
  using assms(2-)
proof (induction n arbitrary: i fds nm st)
  case (Suc n)
  obtain r st1 where q: "tun_queue tn name x i st = (r, st1)" by fastforce
  note o = tun_queue_open [OF assms(1) q]
  show ?case
  proof (cases r)
    case (Inl e')
    then have e: "e = e'" "st' = cleanupFds fds st1" using Suc.prems(3) q by auto
    have d: "distinct (rev fds @ open)" using Suc.prems(1,2) by simp
    then have f: "filter (\<lambda>x. x \<notin> set fds) (rev fds @ open) = open" by (auto simp: filter_id_conv)
    show ?thesis
    proof (cases "after_setiff e")
      case True
      with o Inl e obtain fd where fd: "fd \<notin> set (st_open st)" "st_open st1 = fd # rev fds @ open" using Suc.prems(2) by auto
      then have "distinct (st_open st1)" using d Suc.prems(2) by simp
      from cleanupFds_open [OF this, of fds] have "st_open st' = fd # open" using fd f Suc.prems(2) by (simp add: e)
      with fd(1) Suc.prems(2) True show ?thesis by auto
    next
      case False
      with o Inl e have "st_open st1 = rev fds @ open" using Suc.prems(2) by simp
      with cleanupFds_open [of st1 fds] d f False show ?thesis by (simp add: e)
    qed
  next
    case (Inr p)
    obtain fd got where p: "p = (fd, got)" by fastforce
    with o Inr have "st_open st1 = fd # st_open st" "fd \<notin> set (st_open st)" by simp_all
    then show ?thesis using Suc.IH [of st1 "fds @ [fd]" "i + 1"] Suc.prems q Inr p by auto
  qed
qed simp

lemma link_call_error: "link_call c proto flags t data s = Done (Inl e, s') \<Longrightarrow> \<exists>n. e = LinkOs n"
proof -
  assume "link_call c proto flags t data s = Done (Inl e, s')"
  then obtain r :: "nl_error + bytes list" where "map_sum LinkOs id r = Inl e" by (auto simp: link_call_def)
  then show ?thesis by (cases r) auto
qed

lemma link_exec_error: "link_exec c proto flags data link s = Done (Some e, link', s') \<Longrightarrow> \<exists>n. e = LinkOs n"
proof -
  assume "link_exec c proto flags data link s = Done (Some e, link', s')"
  then obtain r s1 where "link_call c proto flags 0 data s = Done (r, s1)" "r = Inl e"
    by (auto simp: link_exec_def) (metis (no_types, lifting) old.sum.simps(5,6) option.distinct(1) option.inject prod.inject sum.exhaust)
  then show ?thesis using link_call_error by simp
qed

lemma link_master_error: "link_master c link s = Done (Some e, link', s') \<Longrightarrow> \<exists>n. e = LinkOs n"
  by (auto simp: link_master_def LinkSetMasterByIndex_def set_attr_def link_request_def dest: link_exec_error split: if_splits)

text \<open>A tun device that cannot be set up: when \<open>TUNSETIFF\<close> fails, \<open>LinkAdd\<close> leaves the open descriptors as they were, however
many queues were open already; when the owner, the group or the non-blocking mode cannot be set, it leaves the
descriptor of that queue open, and no other.\<close>

theorem LinkAdd_tun_descriptors:
  assumes "tun_fresh (lc_tun c)" and "distinct (st_open st)"
    and "nl_LinkAdd c (Tuntap a x) (dump, st) = Done (Some (IoctlFailed w i k), link', dump', st')"
  shows "if w = ''TUNSETIFF'' then st_open st' = st_open st else \<exists>fd. fd \<notin> set (st_open st) \<and> st_open st' = fd # st_open st"
proof -
  obtain r nm st1 where q: "tun_queues (lc_tun c) (la_Name a) x 0 (nat (if tt_Queues x = 0 then 1 else tt_Queues x)) [] (la_Name a) st = (r, nm, st1)"
    by (metis prod_cases3)
  have m: "modify_tuntap c a x (dump, st) = Done (Some (IoctlFailed w i k), link', dump', st')"
    using assms(3) by (simp add: nl_LinkAdd_def linkModify_def)
  show ?thesis
  proof (cases r)
    case (Inl e)
    then have "e = IoctlFailed w i k" "st1 = st'" using m q by (auto simp: modify_tuntap_def split: if_splits)
    with tun_queues_open [OF assms(1,2), of "[]" "st_open st"] q Inl show ?thesis by (auto simp: after_setiff_def split: if_splits)
  next
    case (Inr fds)
    then have "tun_finish c x fds (Tuntap (a\<lparr>la_Name := nm\<rparr>) x) (dump, st1) = Done (Some (IoctlFailed w i k), link', dump', st')"
      using m q by (auto simp: modify_tuntap_def split: if_splits)
    then show ?thesis by (auto simp: tun_finish_def dest!: link_master_error split: if_splits option.splits)
  qed
qed

section \<open>Examples\<close>

text \<open>A network card, a vlan on it, and their reports; a kernel that does not know lookups by name.\<close>

definition card :: nl_link where
  "card = Device (NewLinkAttrs\<lparr>la_Name := ''eth0'', la_MTU := 1500, la_TxQLen := 1000, la_HardwareAddr := Some [2, 0, 0, 0, 0, 7]\<rparr>)"

definition card_vlan :: nl_link where
  "card_vlan = Vlan (NewLinkAttrs\<lparr>la_Name := ''eth0.7'', la_ParentIndex := 2, la_Alias := ''storage''\<rparr>) \<lparr>vl_VlanId = 7, vl_VlanProtocol = 0x8100\<rparr>"

definition card_msg :: "u32 \<Rightarrow> IfInfomsg" where
  "card_msg i = \<lparr>im_Family = 0, im_Pad = 0, im_Type = 1, im_Index = i, im_Flags = 0x1043, im_Change = 0\<rparr>"

definition example_reports :: "report list" where
  "example_reports = [(card_msg 2, card, []), (card_msg 5, card_vlan, addVlanAttrs \<lparr>vl_VlanId = 7, vl_VlanProtocol = 0x8100\<rparr>)]"

lemmas example_links = card_def card_vlan_def card_msg_def example_reports_def NewLinkAttrs_def zeroLinkAttrs_def

lemma example_reports_ok: "p \<in> set example_reports \<Longrightarrow> report_ok p"
  by (auto simp: example_links report_ok_def plain_link_def plain_base_def is_device_def reported_def int_attr_def attr_if_def
    addVlanAttrs_def info_data_def rtaAlignOf_eq)


definition old_script :: "u8 \<Rightarrow> (NlMsghdr \<times> bytes) list" where
  "old_script q = (if q = 1 then [script_msg 1 NLMSG_DONE NLM_F_MULTI (le32 (- 22))]
     else map (script_msg 2 (word_of_int RTM_NEWLINK) NLM_F_MULTI) (map report_bytes example_reports) @ [script_msg 2 NLMSG_DONE NLM_F_MULTI (le32 0)])"

abbreviation old_kernel :: nl_os where "old_kernel \<equiv> script_os old_script"

definition no_tun :: tun_os where
  "no_tun = \<lparr>tn_open = (\<lambda>fds. if 8 \<in> set fds then Inl 24 else Inr 8), tn_setiff = (\<lambda>_ n _. Inr n), tn_owner = (\<lambda>_ _. Some 1),
     tn_group = (\<lambda>_ _. None), tn_nonblock = (\<lambda>_. None), tn_persist = (\<lambda>_ _. None)\<rparr>"

definition example_ctx :: "nl_os \<Rightarrow> link_ctx" where
  "example_ctx os = \<lparr>lc_os = os, lc_ack = False, lc_h = None, lc_file = (\<lambda>_. None), lc_tun = no_tun\<rparr>"

lemma report_bytes_short: "p \<in> set example_reports \<Longrightarrow> length (report_bytes p) < 60000"
  by (auto simp: example_links report_bytes_def link_message_def reported_def is_device_def int_attr_def attr_if_def addVlanAttrs_def
    info_data_def IfInfomsg_Serialize_def rtaAlignOf_eq NewRtAttr_def Uint32Attr_def pad4_def htons_def)


lemma LinkAdd_tun_descriptors_witness:
  "\<exists>fd. fd \<notin> set (st_open idle_state)
    \<and> st_open (idle_state\<lparr>st_open := [8]\<rparr>) = fd # st_open idle_state
    \<and> nl_LinkAdd (example_ctx old_kernel) (Tuntap zeroLinkAttrs (zeroTuntap\<lparr>tt_Mode := IFF_TAP\<rparr>)) (False, idle_state)
      = Done (Some (IoctlFailed ''TUNSETOWNER'' 0 1), Tuntap zeroLinkAttrs (zeroTuntap\<lparr>tt_Mode := IFF_TAP\<rparr>), False, idle_state\<lparr>st_open := [8]\<rparr>)"
proof -
  have r: "nl_LinkAdd (example_ctx old_kernel) (Tuntap zeroLinkAttrs (zeroTuntap\<lparr>tt_Mode := IFF_TAP\<rparr>)) (False, idle_state)
      = Done (Some (IoctlFailed ''TUNSETOWNER'' 0 1), Tuntap zeroLinkAttrs (zeroTuntap\<lparr>tt_Mode := IFF_TAP\<rparr>), False, idle_state\<lparr>st_open := [8]\<rparr>)"
    by (simp add: nl_LinkAdd_def linkModify_def modify_tuntap_def tun_queue_def example_ctx_def no_tun_def zeroTuntap_def zeroLinkAttrs_def
      IFF_TUN_def IFF_TAP_def idle_state_def cleanupFds_def word_less_alt)
  have "tun_fresh (lc_tun (example_ctx old_kernel))" "distinct (st_open idle_state)"
    by (auto simp: tun_fresh_def example_ctx_def no_tun_def idle_state_def split: if_splits)
  from LinkAdd_tun_descriptors [OF this r] r show ?thesis by auto
qed

end
