(* ===== verification/AlgNic.thy ===== *)
theory AlgNic
  imports AlgMain NlLinkOps
begin

text \<open>
  The host NIC over netlink: \<open>GetMasterIntf\<close> of \<open>cmd/daemon/common/lib.go\<close> on top of the two calls it makes, the listing of
  routes and the lookup of a link, with the state of the package between them.
\<close>

section \<open>The two calls\<close>

text \<open>The errors of the two calls side by side. The second call is made for the device of the first default route.\<close>

definition GetMasterIntf_netlink :: "link_ctx \<Rightarrow> link_state \<Rightarrow> (((route_error call_error + link_error) nic_error + string) \<times> link_state) outcome" where
  "GetMasterIntf_netlink c s =
     obind (nl_RouteListFiltered (lc_os c) (lc_ack c) (lc_h c) FAMILY_V4 (Some zeroRoute) RT_FILTER_DST (snd s)) (\<lambda>(r, st).
       let routes = (\<lambda>_. map_sum Inl id r)
       in case lookupDefaultRoute routes FAMILY_V4 of
            Inl e \<Rightarrow> Done (Inl e, fst s, st)
          | Inr (_, route) \<Rightarrow>
              obind (LinkByIndex c (rt_LinkIndex route) (fst s, st)) (\<lambda>(l, s). Done (GetMasterIntf routes (\<lambda>_. map_sum Inr id l), s)))"

lemma GetMasterIntf_netlink_listed:
  assumes "nl_RouteListFiltered (lc_os c) (lc_ack c) (lc_h c) FAMILY_V4 (Some zeroRoute) RT_FILTER_DST st = Done (Inr rs, st1)"
  shows "GetMasterIntf_netlink c (dump, st) =
    (case rs of [] \<Rightarrow> Done (Inl (NoDefaultRoute FAMILY_V4), dump, st1)
     | r # _ \<Rightarrow> obind (LinkByIndex c (rt_LinkIndex r) (dump, st1)) (\<lambda>(l, s).
         Done (case l of Inl e \<Rightarrow> Inl (LinkIndexErr (Inr e)) | Inr l \<Rightarrow> Inr (link_Name l), s)))"
  unfolding GetMasterIntf_netlink_def GetMasterIntf_def lookupDefaultRoute_def snd_conv fst_conv assms obind.simps
  by (cases rs; cases "LinkByIndex c (rt_LinkIndex (hd rs)) (dump, st1)") (auto split: sum.split)

text \<open>C29: The name of the host NIC over netlink. The kernel answers the listing with routes and the lookup of the device of the
first route of the main table without a destination with a report of a link: the result is the name of that link, and
both sockets are closed. Without such a route it is the error that there is no default route.\<close>

theorem GetMasterIntf_netlink_name:
  assumes "lc_h c = None" and "answered (lc_os c) st RTM_GETROUTE NLM_F_DUMP (route_dump FAMILY_V4) parts 0"
    and "selected (word_of_int RTM_NEWROUTE) parts = map encoded_route rs" and "\<And>r. r \<in> set rs \<Longrightarrow> plain_route r"
    and "\<And>r. default_routes rs \<noteq> [] \<Longrightarrow> r = hd (default_routes rs) \<Longrightarrow>
      answered_once (lc_os c) (next_state st) RTM_GETLINK NLM_F_ACK [info_msg 0 (rt_LinkIndex r) 0 0, ext_mask] 0 (link_message msg l cs)"
    and "report_ok (msg, l, cs)"
  shows "\<exists>st'. GetMasterIntf_netlink c (dump, st)
      = Done (if default_routes rs = [] then Inl (NoDefaultRoute FAMILY_V4) else Inr (link_Name l), dump, st') \<and> st_open st' = st_open st"
proof -
  have "\<exists>st1. nl_RouteListFiltered (lc_os c) (lc_ack c) (lc_h c) FAMILY_V4 (Some zeroRoute) RT_FILTER_DST st = Done (Inr (default_routes rs), st1)
      \<and> follows st st1"
    unfolding assms(1) by (rule default_routes_follows [OF assms(2-4)])
  then obtain st1 where r: "nl_RouteListFiltered (lc_os c) (lc_ack c) (lc_h c) FAMILY_V4 (Some zeroRoute) RT_FILTER_DST st = Done (Inr (default_routes rs), st1)"
    and f: "follows st st1"
    by (elim exE conjE)
  note listed = GetMasterIntf_netlink_listed [OF r, of dump]
  show ?thesis
  proof (cases "default_routes rs")
    case Nil
    then show ?thesis unfolding listed using f by (intro exI [of _ st1]) (simp add: follows_def)
  next
    case (Cons r rest)
    have "default_routes rs \<noteq> []" "r = hd (default_routes rs)" unfolding Cons by simp_all
    from assms(5) [OF this]
    have "answered_once (lc_os c) (snd (dump, st1)) RTM_GETLINK NLM_F_ACK [info_msg 0 (rt_LinkIndex r) 0 0, ext_mask] 0 (report_bytes (msg, l, cs))"
      unfolding snd_conv answered_follows(2) [OF f, of "lc_os c"] report_bytes_def prod.case .
    from LinkByIndex_reported [OF assms(1) this assms(6)] obtain st2
      where l: "LinkByIndex c (rt_LinkIndex r) (dump, st1) = Done (Inr (report_link (msg, l, cs)), dump, st2)" and g: "follows st1 st2" by auto
    have "st_open st2 = st_open st" using f g by (simp add: follows_def)
    then show ?thesis unfolding listed Cons by (intro exI [of _ st2]) (simp add: l)
  qed
qed

section \<open>An example\<close>

definition nic_script :: "u8 \<Rightarrow> (NlMsghdr \<times> bytes) list" where
  "nic_script q =
     (if q = 1 then map (script_msg 1 (word_of_int RTM_NEWROUTE) NLM_F_MULTI) (map encoded_route [example_network, example_default])
        @ [script_msg 1 NLMSG_DONE NLM_F_MULTI (le32 0)]
      else [script_msg 2 (word_of_int RTM_NEWLINK) 0 (link_message (card_msg 2) card [])])"

lemma GetMasterIntf_netlink_name_witness:
  "\<exists>st'. GetMasterIntf_netlink (example_ctx (script_os nic_script)) (False, idle_state) = Done (Inr ''eth0'', False, st') \<and> st_open st' = []"
proof -
  let ?rs = "[example_network, example_default]" and ?t = "word_of_int RTM_NEWROUTE :: u16" and ?l = "word_of_int RTM_NEWLINK :: u16"
  have t: "?t \<noteq> NLMSG_DONE" "?t \<noteq> NLMSG_ERROR" "?l \<noteq> NLMSG_DONE" "?l \<noteq> NLMSG_ERROR"
    by (simp_all add: RTM_NEWROUTE_def RTM_NEWLINK_def NLMSG_DONE_def NLMSG_ERROR_def)
  have s: "script_state 0 = idle_state" "script_state 1 = next_state idle_state"
    by (simp_all add: script_state_def idle_state_def next_state_def)
  have short: "length b < 60000" if "b \<in> set (map encoded_route ?rs)" for b using that example_routes_short by auto
  have a: "answered (script_os nic_script) (script_state 0) RTM_GETROUTE NLM_F_DUMP (route_dump FAMILY_V4)
      (map (script_msg 1 ?t NLM_F_MULTI) (map encoded_route ?rs)) 0"
    using script_answered [where f = nic_script and n = 0 and bs = "map encoded_route ?rs" and code = 0 and t = ?t, OF _ t(1,2) short]
    by (simp add: nic_script_def)
  have sel: "selected ?t (map (script_msg 1 ?t NLM_F_MULTI) (map encoded_route ?rs)) = map encoded_route ?rs"
    by (simp add: script_msg_def)
  have d: "default_routes ?rs = [example_default]"
    by (simp add: default_routes_def example_default_def example_network_def zeroRoute_def)
  have p: "(card_msg 2, card, []) \<in> set example_reports" by (simp add: example_reports_def)
  have b: "answered_once (script_os nic_script) (script_state 1) RTM_GETLINK NLM_F_ACK data 0 (link_message (card_msg 2) card [])" for data
    using script_answered_once [where f = nic_script and n = 1 and t = ?l and m = "link_message (card_msg 2) card []"] t(3,4)
      report_bytes_short [OF p] by (simp add: nic_script_def report_bytes_def)
  have c: "lc_h (example_ctx (script_os nic_script)) = None" "lc_os (example_ctx (script_os nic_script)) = script_os nic_script"
    by (simp_all add: example_ctx_def)
  have r: "plain_route r" if "r \<in> set ?rs" for r using that example_routes_plain by auto
  show ?thesis
    using GetMasterIntf_netlink_name [OF c(1), unfolded c(2), OF a [unfolded s] sel r b [unfolded s] example_reports_ok [OF p], of False]
    by (simp add: d idle_state_def card_def NewLinkAttrs_def zeroLinkAttrs_def)
qed

end
