(* ===== verification/NlEthtool.thy ===== *)
theory NlEthtool
  imports NlLinkOps
begin

text \<open>
  The ioctls on a UDP socket, \<open>ioctl_linux.go\<close> with \<open>LinkSetBondSlave\<close> and \<open>VethPeerIndex\<close> of \<open>link_linux.go\<close>. What the
  kernel does is an argument: a failing call gives the error number, a call that succeeds what it has written to the
  structure or to the buffer behind the request. The socket is closed on every path.
\<close>

section \<open>Requests\<close>

definition ETHTOOL_GSSET_INFO :: u32 where "ETHTOOL_GSSET_INFO = 0x37"
definition ETHTOOL_GSTATS :: u32 where "ETHTOOL_GSTATS = 0x1d"
definition ETH_SS_STATS :: nat where "ETH_SS_STATS = 1"

record ethtoolSset =
  ss_cmd :: u32
  ss_reserved :: u32
  ss_mask :: u64
  ss_data :: u32

record ethtoolStats =
  es_cmd :: u32
  es_nStats :: u32

record vethEthtoolStats =
  vs_Cmd :: u32
  vs_NStats :: u32
  vs_Peer :: u64

text \<open>A name is cut to 15 bytes; the request for a bond is the name of the master followed by that of the slave.\<close>

definition ifreq_name :: "string \<Rightarrow> bytes" where
  "ifreq_name s = map of_char (take 15 s) @ replicate (16 - length (take 15 s)) 0"

definition newIocltSlaveReq :: "string \<Rightarrow> string \<Rightarrow> bytes" where
  "newIocltSlaveReq slave master = ifreq_name master @ ifreq_name slave"

definition newIocltStringSetReq :: "string \<Rightarrow> bytes \<times> ethtoolSset" where
  "newIocltStringSetReq linkName =
     (ifreq_name linkName, \<lparr>ss_cmd = ETHTOOL_GSSET_INFO, ss_reserved = 0, ss_mask = push_bit ETH_SS_STATS 1, ss_data = 0\<rparr>)"

record eth_os =
  et_socket :: "int list \<Rightarrow> int + int"
  et_enslave :: "int \<Rightarrow> bytes \<Rightarrow> int option"
  et_sset :: "int \<Rightarrow> bytes \<Rightarrow> ethtoolSset \<Rightarrow> int + ethtoolSset"
  et_stats :: "int \<Rightarrow> bytes \<Rightarrow> bytes \<Rightarrow> int + bytes"

text \<open>A call between \<open>getSocketUDP\<close> and the deferred close.\<close>

definition with_udp :: "eth_os \<Rightarrow> (int \<Rightarrow> link_error + 'a) \<Rightarrow> nl_state \<Rightarrow> (link_error + 'a) \<times> nl_state" where
  "with_udp E f st =
     (case et_socket E (st_open st) of
        Inl e \<Rightarrow> (Inl (LinkOs (Errno e)), st)
      | Inr fd \<Rightarrow> (f fd, close_fd fd (st\<lparr>st_open := fd # st_open st\<rparr>)))"

section \<open>Bonds\<close>

definition LinkSetBondSlave :: "eth_os \<Rightarrow> string \<Rightarrow> string \<Rightarrow> nl_state \<Rightarrow> (link_error + unit) \<times> nl_state" where
  "LinkSetBondSlave E name master =
     with_udp E (\<lambda>fd. case et_enslave E fd (newIocltSlaveReq name master) of
       Some e \<Rightarrow> Inl (EnslaveFailed name master e) | None \<Rightarrow> Inr ())"

section \<open>The peer of a veth device\<close>

text \<open>The header followed by room for the counters.\<close>

definition vethStatsSerialize :: "ethtoolStats \<Rightarrow> bytes" where
  "vethStatsSerialize stats = le32 (es_cmd stats) @ le32 (es_nStats stats) @ replicate (unat (es_nStats stats) * 8) 0"

definition vethStatsDeserialize :: "bytes \<Rightarrow> link_error + vethEthtoolStats" where
  "vethStatsDeserialize b =
     (if length b < 16 then Inl ShortStats else Inr \<lparr>vs_Cmd = ru32 0 b, vs_NStats = ru32 4 b, vs_Peer = ru64 8 b\<rparr>)"

definition VethPeerIndex :: "eth_os \<Rightarrow> string \<Rightarrow> nl_state \<Rightarrow> (link_error + int) \<times> nl_state" where
  "VethPeerIndex E name =
     with_udp E (\<lambda>fd.
       let (ifreq, sSet) = newIocltStringSetReq name in
       case et_sset E fd ifreq sSet of
         Inl e \<Rightarrow> Inl (EthtoolFailed name e)
       | Inr sSet \<Rightarrow>
           (case et_stats E fd ifreq (vethStatsSerialize \<lparr>es_cmd = ETHTOOL_GSTATS, es_nStats = ss_data sSet\<rparr>) of
              Inl e \<Rightarrow> Inl (EthtoolFailed name e)
            | Inr buffer \<Rightarrow> map_sum id (\<lambda>v. sint (vs_Peer v)) (vethStatsDeserialize buffer)))"

lemma with_udp_open: "st_open (snd (with_udp E f st)) = st_open st"
  by (auto simp: with_udp_def close_fd_def split: sum.splits)

text \<open>A counter is reported behind the header of the statistics, and the socket had nothing to receive.\<close>

definition peer_reported :: "eth_os \<Rightarrow> nl_state \<Rightarrow> string \<Rightarrow> u64 \<Rightarrow> bool" where
  "peer_reported E st name i \<longleftrightarrow>
     (\<exists>fd sSet rest c n. et_socket E (st_open st) = Inr fd \<and> st_queue st fd = []
       \<and> et_sset E fd (ifreq_name name) (snd (newIocltStringSetReq name)) = Inr sSet
       \<and> et_stats E fd (ifreq_name name) (vethStatsSerialize \<lparr>es_cmd = ETHTOOL_GSTATS, es_nStats = ss_data sSet\<rparr>)
         = Inr (le32 c @ le32 n @ le64 i @ rest))"

lemma close_opened: "st_queue st fd = [] \<Longrightarrow> close_fd fd (st\<lparr>st_open := fd # st_open st\<rparr>) = st"
  by (cases st) (simp add: close_fd_def fun_upd_idem)

lemma VethPeerIndex_reported: "peer_reported E st name i \<Longrightarrow> VethPeerIndex E name st = (Inr (sint i), st)"
  by (auto simp: peer_reported_def VethPeerIndex_def with_udp_def newIocltStringSetReq_def vethStatsDeserialize_def close_opened tc_read)

text \<open>A kernel that knows no counters leaves room for the header only.\<close>

lemma VethPeerIndex_no_counters:
  assumes "et_socket E (st_open st) = Inr fd" and "et_sset E fd (ifreq_name name) (snd (newIocltStringSetReq name)) = Inr sSet"
    and "ss_data sSet = 0" and "et_stats E fd (ifreq_name name) (vethStatsSerialize \<lparr>es_cmd = ETHTOOL_GSTATS, es_nStats = 0\<rparr>) = Inr b"
    and "length b = length (vethStatsSerialize \<lparr>es_cmd = ETHTOOL_GSTATS, es_nStats = 0\<rparr>)"
  shows "fst (VethPeerIndex E name st) = Inl ShortStats"
  using assms by (simp add: VethPeerIndex_def with_udp_def newIocltStringSetReq_def vethStatsDeserialize_def vethStatsSerialize_def)

end
