(* ===== verification/NlAddr.thy ===== *)
theory NlAddr
  imports NlLinkOps
begin

text \<open>
  Addresses of links, \<open>addr_linux.go\<close> with \<open>addr.go\<close> and \<open>nl/addr_linux.go\<close>: the message of an address, its decoder,
  \<open>AddrList\<close>, which the CNI plugin uses, and the encoder behind \<open>AddrAdd\<close>, \<open>AddrReplace\<close> and \<open>AddrDel\<close>, which
  computes a missing broadcast address and stores it in the caller's \<open>Addr\<close>.
\<close>

section \<open>Messages\<close>

record IfAddrmsg =
  ia_Family :: u8
  ia_Prefixlen :: u8
  ia_Flags :: u8
  ia_Scope :: u8
  ia_Index :: u32

definition SizeofIfAddrmsg :: nat where [tc_sizes]: "SizeofIfAddrmsg = 8"

definition IfAddrmsg_Serialize :: "IfAddrmsg \<Rightarrow> bytes" where [tc_enc]:
  "IfAddrmsg_Serialize x = le8 (ia_Family x) @ le8 (ia_Prefixlen x) @ le8 (ia_Flags x) @ le8 (ia_Scope x) @ le32 (ia_Index x)"

definition IfAddrmsg_at :: "nat \<Rightarrow> bytes \<Rightarrow> IfAddrmsg" where [tc_dec]:
  "IfAddrmsg_at n b = \<lparr>ia_Family = ru8 n b, ia_Prefixlen = ru8 (n + 1) b, ia_Flags = ru8 (n + 2) b, ia_Scope = ru8 (n + 3) b, ia_Index = ru32 (n + 4) b\<rparr>"

definition DeserializeIfAddrmsg :: "bytes \<Rightarrow> IfAddrmsg outcome" where
  "DeserializeIfAddrmsg b = (if length b < SizeofIfAddrmsg then Panic SliceBounds else Done (IfAddrmsg_at 0 b))"

interpretation ia_codec: tc_codec "\<lambda>x. True" SizeofIfAddrmsg IfAddrmsg_Serialize DeserializeIfAddrmsg
  by unfold_locales (auto simp: DeserializeIfAddrmsg_def IfAddrmsg_at_def IfAddrmsg_Serialize_def tc_sizes tc_read split: if_splits)

definition NewIfAddrmsg :: "int \<Rightarrow> IfAddrmsg" where
  "NewIfAddrmsg family = \<lparr>ia_Family = word_of_int family, ia_Prefixlen = 0, ia_Flags = 0, ia_Scope = 0, ia_Index = 0\<rparr>"

record IfaCacheInfo =
  ca_Prefered :: u32
  ca_Valid :: u32
  ca_Cstamp :: u32
  ca_Tstamp :: u32

definition SizeofIfaCacheInfo :: nat where [tc_sizes]: "SizeofIfaCacheInfo = 16"

definition IfaCacheInfo_Serialize :: "IfaCacheInfo \<Rightarrow> bytes" where [tc_enc]:
  "IfaCacheInfo_Serialize x = le32 (ca_Prefered x) @ le32 (ca_Valid x) @ le32 (ca_Cstamp x) @ le32 (ca_Tstamp x)"

definition IfaCacheInfo_at :: "nat \<Rightarrow> bytes \<Rightarrow> IfaCacheInfo" where [tc_dec]:
  "IfaCacheInfo_at n b = \<lparr>ca_Prefered = ru32 n b, ca_Valid = ru32 (n + 4) b, ca_Cstamp = ru32 (n + 8) b, ca_Tstamp = ru32 (n + 12) b\<rparr>"

definition DeserializeIfaCacheInfo :: "bytes \<Rightarrow> IfaCacheInfo outcome" where
  "DeserializeIfaCacheInfo b = (if length b < SizeofIfaCacheInfo then Panic SliceBounds else Done (IfaCacheInfo_at 0 b))"

interpretation ca_codec: tc_codec "\<lambda>x. True" SizeofIfaCacheInfo IfaCacheInfo_Serialize DeserializeIfaCacheInfo
  by unfold_locales (auto simp: DeserializeIfaCacheInfo_def IfaCacheInfo_at_def IfaCacheInfo_Serialize_def tc_sizes tc_read split: if_splits)

section \<open>Addresses\<close>

text \<open>The embedded network is a pointer; \<open>None\<close> is nil, and a selection through it panics.\<close>

record Addr =
  ad_IPNet :: "IPNet option"
  ad_Label :: string
  ad_Flags :: int
  ad_Scope :: int
  ad_Peer :: "IPNet option"
  ad_Broadcast :: net_ip
  ad_PreferedLft :: int
  ad_ValidLft :: int
  ad_LinkIndex :: int

definition zeroAddr :: Addr where
  "zeroAddr = \<lparr>ad_IPNet = None, ad_Label = [], ad_Flags = 0, ad_Scope = 0, ad_Peer = None, ad_Broadcast = None, ad_PreferedLft = 0,
     ad_ValidLft = 0, ad_LinkIndex = 0\<rparr>"

definition nets_Equal :: "IPNet option \<Rightarrow> IPNet option \<Rightarrow> bool outcome" where
  "nets_Equal a x =
     (case (a, x) of
        (Some a, Some x) \<Rightarrow> Done (IP_Equal (ipn_IP a) (ipn_IP x) \<and> fst (mask_Size (ipn_Mask a)) = fst (mask_Size (ipn_Mask x)))
      | _ \<Rightarrow> Panic NilDereference)"

definition Addr_Equal :: "Addr \<Rightarrow> Addr \<Rightarrow> bool outcome" where
  "Addr_Equal a x = nets_Equal (ad_IPNet a) (ad_IPNet x)"

definition PeerEqual :: "Addr \<Rightarrow> Addr \<Rightarrow> bool outcome" where
  "PeerEqual a x = nets_Equal (ad_Peer a) (ad_Peer x)"

section \<open>Decoding\<close>

text \<open>The address, the local network and the other one.\<close>

definition addr_datum :: "IfAddrmsg \<Rightarrow> NetlinkRouteAttr \<Rightarrow> Addr \<times> IPNet option \<times> IPNet option \<Rightarrow> (Addr \<times> IPNet option \<times> IPNet option) outcome" where
  "addr_datum msg attr s =
     (let (addr, local, dst) = s; v = ra_Value attr; t = ra_Type attr; n = 8 * int (length v) in
      if t = 1 then Done (addr, local, Some \<lparr>ipn_IP = Some v, ipn_Mask = CIDRMask (uint (ia_Prefixlen msg)) n\<rparr>)
      else if t = 2 then Done (addr, Some \<lparr>ipn_IP = Some v, ipn_Mask = CIDRMask n n\<rparr>, dst)
      else if t = 4 then Done (addr\<lparr>ad_Broadcast := Some v\<rparr>, local, dst)
      else if t = 3 then obind (value_string v) (\<lambda>x. Done (addr\<lparr>ad_Label := x\<rparr>, local, dst))
      else if t = 8 then obind (value_u32 v) (\<lambda>x. Done (addr\<lparr>ad_Flags := uint x\<rparr>, local, dst))
      else if t = 6
      then obind (DeserializeIfaCacheInfo v) (\<lambda>ci. Done (addr\<lparr>ad_PreferedLft := uint (ca_Prefered ci), ad_ValidLft := uint (ca_Valid ci)\<rparr>, local, dst))
      else Done s)"

definition addr_nets :: "int \<Rightarrow> Addr \<Rightarrow> IPNet option \<Rightarrow> IPNet option \<Rightarrow> Addr" where
  "addr_nets family addr local dst =
     (case local of
        None \<Rightarrow> addr\<lparr>ad_IPNet := dst\<rparr>
      | Some l \<Rightarrow>
          if family = FAMILY_V4 \<and> (\<exists>d. dst = Some d \<and> IP_Equal (ipn_IP l) (ipn_IP d)) then addr\<lparr>ad_IPNet := dst\<rparr>
          else addr\<lparr>ad_IPNet := local, ad_Peer := dst\<rparr>)"

text \<open>The address and the family of the message.\<close>

definition parseAddr :: "bytes \<Rightarrow> (link_error + Addr \<times> int) outcome" where
  "parseAddr m =
     obind (DeserializeIfAddrmsg m) (\<lambda>msg.
       rbind (link_attrs_of (drop SizeofIfAddrmsg m)) (\<lambda>attrs.
         obind (each_attr (addr_datum msg) attrs (zeroAddr\<lparr>ad_LinkIndex := uint (ia_Index msg)\<rparr>, None, None)) (\<lambda>(addr, local, dst).
           Done (Inr ((addr_nets (uint (ia_Family msg)) addr local dst)\<lparr>ad_Scope := uint (ia_Scope msg)\<rparr>, uint (ia_Family msg))))))"

section \<open>Listing\<close>

definition RTM_NEWADDR :: int where "RTM_NEWADDR = 20"
definition RTM_DELADDR :: int where "RTM_DELADDR = 21"
definition RTM_GETADDR :: int where "RTM_GETADDR = 22"

text \<open>A message that does not parse ends the loop; the addresses before it are returned with the error.\<close>

fun addrs_of :: "int option \<Rightarrow> int \<Rightarrow> bytes list \<Rightarrow> (link_error option \<times> Addr list) outcome" where
  "addrs_of index family [] = Done (None, [])"
| "addrs_of index family (m # ms) =
     obind (parseAddr m) (\<lambda>r.
       case r of
         Inl e \<Rightarrow> Done (Some e, [])
       | Inr (addr, msgFamily) \<Rightarrow>
           obind (addrs_of index family ms) (\<lambda>(e, addrs).
             if (\<exists>i. index = Some i \<and> ad_LinkIndex addr \<noteq> i) \<or> family \<noteq> FAMILY_ALL \<and> msgFamily \<noteq> family then Done (e, addrs)
             else Done (e, addr # addrs)))"

definition ensure_given :: "link_ctx \<Rightarrow> nl_link option \<Rightarrow> link_state \<Rightarrow> (nl_link option \<times> link_state) outcome" where
  "ensure_given c link s = (case link of None \<Rightarrow> Done (None, s) | Some l \<Rightarrow> obind (ensureIndex c l s) (\<lambda>(l, s). Done (Some l, s)))"

definition AddrList :: "link_ctx \<Rightarrow> nl_link option \<Rightarrow> int \<Rightarrow> link_state
    \<Rightarrow> ((link_error option \<times> Addr list) \<times> nl_link option \<times> link_state) outcome" where
  "AddrList c link family s =
     obind (link_call c RTM_GETADDR NLM_F_DUMP (word_of_int RTM_NEWADDR) [StructData (IfAddrmsg_Serialize (NewIfAddrmsg family))] s) (\<lambda>(r, s).
       case r of
         Inl e \<Rightarrow> Done ((Some e, []), link, s)
       | Inr ms \<Rightarrow> obind (ensure_given c link s) (\<lambda>(link, s).
           obind (addrs_of (map_option link_Index link) family ms) (\<lambda>r. Done (r, link, s))))"

section \<open>Encoding\<close>

definition HasPrefix :: "string \<Rightarrow> string \<Rightarrow> bool" where "HasPrefix s p \<longleftrightarrow> take (length p) s = p"

text \<open>The bytes of an address in the form of a family.\<close>

definition addr_bytes :: "int \<Rightarrow> net_ip \<Rightarrow> bytes" where
  "addr_bytes family ip = ip_bytes (if family = FAMILY_V4 then To4 (ip_bytes ip) else To16 (ip_bytes ip))"

text \<open>
  \<open>calcBroadcast\<close>: a slice as long as the mask, whose size is 0 when it is not the mask of a prefix. The loop over the
  bytes of the address panics when there are more of them.
\<close>

definition broadcast_of :: "bytes \<Rightarrow> bytes \<Rightarrow> int \<Rightarrow> bytes outcome" where
  "broadcast_of ip netmask masklen =
     (let n = nat (masklen div 8) in
      if length ip > n then Panic IndexOutOfRange
      else Done (map2 (\<lambda>a m. a OR NOT m) ip netmask @ replicate (n - length ip) 0))"

definition set_broadcast :: "int \<Rightarrow> int \<times> int \<Rightarrow> bytes \<Rightarrow> net_ip \<Rightarrow> Addr \<Rightarrow> Addr outcome" where
  "set_broadcast family sz ip netmask addr =
     (if family = FAMILY_V4 \<and> ad_Broadcast addr = None \<and> fst sz < 31
      then obind (broadcast_of ip (ip_bytes netmask) (snd sz)) (\<lambda>b. Done (addr\<lparr>ad_Broadcast := Some b\<rparr>))
      else Done addr)"

definition addr_msg :: "int \<Rightarrow> int \<Rightarrow> int \<Rightarrow> Addr \<Rightarrow> IfAddrmsg" where
  "addr_msg family index prefixlen addr =
     (NewIfAddrmsg family)\<lparr>ia_Index := word_of_int index, ia_Scope := word_of_int (ad_Scope addr), ia_Prefixlen := word_of_int prefixlen,
       ia_Flags := (if ad_Flags addr \<noteq> 0 \<and> ad_Flags addr \<le> 0xff then word_of_int (ad_Flags addr) else 0)\<rparr>"

text \<open>The parts of the request for the address with its broadcast address, which is given back.\<close>

definition addr_attrs :: "int \<Rightarrow> IPNet \<Rightarrow> Addr \<Rightarrow> request_data list" where
  "addr_attrs family ipn addr =
     (let peer = (case ad_Peer addr of Some p \<Rightarrow> ipn_IP p | None \<Rightarrow> ipn_IP ipn) in
      [NewRtAttr 2 (addr_bytes family (ipn_IP ipn)), NewRtAttr 1 (addr_bytes family peer)]
      @ attr_if (ad_Flags addr \<noteq> 0 \<and> ad_Flags addr > 0xff) 8 (le32 (word_of_int (ad_Flags addr)))
      @ (if family = FAMILY_V4
         then (case ad_Broadcast addr of None \<Rightarrow> [] | Some b \<Rightarrow> [NewRtAttr 4 b])
           @ attr_if (ad_Label addr \<noteq> []) 3 (ZeroTerminated (ad_Label addr))
         else [])
      @ attr_if (ad_ValidLft addr > 0 \<or> ad_PreferedLft addr > 0) 6
          (IfaCacheInfo_Serialize \<lparr>ca_Prefered = word_of_int (ad_PreferedLft addr), ca_Valid = word_of_int (ad_ValidLft addr), ca_Cstamp = 0, ca_Tstamp = 0\<rparr>))"

definition addr_data :: "int \<Rightarrow> Addr \<Rightarrow> (Addr \<times> request_data list) outcome" where
  "addr_data index addr =
     (case ad_IPNet addr of
        None \<Rightarrow> Panic NilDereference
      | Some ipn \<Rightarrow>
          (let family = GetIPFamily (ipn_IP ipn);
               netmask = (case ad_Peer addr of Some p \<Rightarrow> ipn_Mask p | None \<Rightarrow> ipn_Mask ipn);
               sz = mask_Size netmask
           in obind (set_broadcast family sz (addr_bytes family (ipn_IP ipn)) netmask addr) (\<lambda>addr.
                Done (addr, StructData (IfAddrmsg_Serialize (addr_msg family index (fst sz) addr)) # addr_attrs family ipn addr))))"

text \<open>A request that has been made before; its sequence number was taken then.\<close>

definition run_request :: "link_ctx \<Rightarrow> NetlinkRequest \<Rightarrow> request_data list \<Rightarrow> nl_link \<Rightarrow> link_state \<Rightarrow> link_result" where
  "run_request c req data link s =
     obind (Execute (lc_os c) (lc_ack c) 0 0 (fold (\<lambda>d req. AddData req d) data req) (snd s)) (\<lambda>(r, req, st).
       Done (case r of Inl e \<Rightarrow> Some (LinkOs e) | Inr _ \<Rightarrow> None, link, (fst s, st)))"

type_synonym addr_result = "(link_error option \<times> Addr \<times> nl_link \<times> link_state) outcome"

definition addrHandle :: "link_ctx \<Rightarrow> nl_link \<Rightarrow> Addr \<Rightarrow> NetlinkRequest \<Rightarrow> link_state \<Rightarrow> addr_result" where
  "addrHandle c link addr req s =
     (if ad_Label addr \<noteq> [] \<and> \<not> HasPrefix (ad_Label addr) (link_Name link) then Done (Some (BadLabel (ad_Label addr) (link_Name link)), addr, link, s)
      else obind (ensureIndex c link s) (\<lambda>(link, s).
        obind (addr_data (link_Index link) addr) (\<lambda>(addr, data).
          obind (run_request c req data link s) (\<lambda>(e, link, s). Done (e, addr, link, s)))))"

definition addr_request :: "link_ctx \<Rightarrow> int \<Rightarrow> int \<Rightarrow> nl_link \<Rightarrow> Addr \<Rightarrow> link_state \<Rightarrow> addr_result" where
  "addr_request c proto flags link addr s =
     (let (req, st) = newNetlinkRequest (lc_h c) proto flags (snd s) in addrHandle c link addr req (fst s, st))"

definition AddrAdd :: "link_ctx \<Rightarrow> nl_link \<Rightarrow> Addr \<Rightarrow> link_state \<Rightarrow> addr_result" where
  "AddrAdd c = addr_request c RTM_NEWADDR (NLM_F_CREATE OR NLM_F_EXCL OR NLM_F_ACK)"

definition AddrReplace :: "link_ctx \<Rightarrow> nl_link \<Rightarrow> Addr \<Rightarrow> link_state \<Rightarrow> addr_result" where
  "AddrReplace c = addr_request c RTM_NEWADDR (NLM_F_CREATE OR NLM_F_REPLACE OR NLM_F_ACK)"

definition AddrDel :: "link_ctx \<Rightarrow> nl_link \<Rightarrow> Addr \<Rightarrow> link_state \<Rightarrow> addr_result" where
  "AddrDel c = addr_request c RTM_DELADDR NLM_F_ACK"

section \<open>Broadcast addresses\<close>

lemma length_CIDRMask: "0 \<le> n \<Longrightarrow> n \<le> 32 \<Longrightarrow> CIDRMask n 32 = Some (cidr_bytes 4 (nat n))"
  by (simp add: CIDRMask_def)

lemma length_four: "length b = 4 \<longleftrightarrow> (\<exists>w x y z. b = [w, x, y, z])"
  by (auto simp: length_Suc_conv numeral_eq_Suc)

text \<open>The broadcast address that is filled in: the network part of the address and ones behind it.\<close>

lemma broadcast_of_prefix:
  assumes "length ip = 4" and "0 \<le> n" and "n \<le> 32"
  shows "\<exists>b. broadcast_of ip (ip_bytes (CIDRMask n 32)) 32 = Done b \<and> length b = 4
    \<and> (\<forall>i < 4. b ! i = ip ! i OR NOT (cidr_bytes 4 (nat n) ! i))"
  using assms by (simp add: broadcast_of_def length_CIDRMask ip_bytes_def)

section \<open>Reports\<close>

text \<open>
  An address in the form that is read back: four bytes, or sixteen that are not a mapped address; a mask of a
  prefix; with a peer the local network is the single address, and the peer another address of the same family.
\<close>

definition prefix_net :: "IPNet \<Rightarrow> bytes \<Rightarrow> int \<Rightarrow> bool" where
  "prefix_net net ip n \<longleftrightarrow> net = \<lparr>ipn_IP = Some ip, ipn_Mask = CIDRMask n (8 * int (length ip))\<rparr> \<and> 0 \<le> n \<and> n \<le> 8 * int (length ip)"

definition plain_addr :: "Addr \<Rightarrow> bool" where
  "plain_addr a \<longleftrightarrow>
     (\<exists>net ip n. ad_IPNet a = Some net \<and> prefix_net net ip n \<and> (length ip = 4 \<or> length ip = 16 \<and> To4 ip = None)
       \<and> (case ad_Peer a of None \<Rightarrow> True
          | Some p \<Rightarrow> n = 8 * int (length ip) \<and> (\<exists>q k. prefix_net p q k \<and> length q = length ip \<and> q \<noteq> ip)))
     \<and> in_u32 (ad_Flags a) \<and> in_u8 (ad_Scope a) \<and> in_u32 (ad_PreferedLft a) \<and> in_u32 (ad_ValidLft a) \<and> in_u32 (ad_LinkIndex a)"

definition addr_family :: "Addr \<Rightarrow> int" where "addr_family a = GetIPFamily (ipn_IP (the (ad_IPNet a)))"

text \<open>What a kernel reports: the local address where it differs from the other one or the family is IPv4, the flags always.\<close>

definition addr_net :: "Addr \<Rightarrow> IPNet" where
  "addr_net a = (case ad_Peer a of Some p \<Rightarrow> p | None \<Rightarrow> the (ad_IPNet a))"

definition report_attrs :: "Addr \<Rightarrow> request_data list" where
  "report_attrs a =
     [NewRtAttr 1 (ip_bytes (ipn_IP (addr_net a)))]
     @ attr_if (addr_family a = FAMILY_V4 \<or> ad_Peer a \<noteq> None) 2 (ip_bytes (ipn_IP (the (ad_IPNet a))))
     @ (case ad_Broadcast a of None \<Rightarrow> [] | Some b \<Rightarrow> [NewRtAttr 4 b])
     @ attr_if (ad_Label a \<noteq> []) 3 (ZeroTerminated (ad_Label a))
     @ [NewRtAttr 8 (Uint32Attr (word_of_int (ad_Flags a))),
        NewRtAttr 6 (IfaCacheInfo_Serialize \<lparr>ca_Prefered = word_of_int (ad_PreferedLft a), ca_Valid = word_of_int (ad_ValidLft a), ca_Cstamp = 0, ca_Tstamp = 0\<rparr>)]"

definition addr_report :: "Addr \<Rightarrow> bytes" where
  "addr_report a =
     IfAddrmsg_Serialize \<lparr>ia_Family = word_of_int (addr_family a), ia_Prefixlen = word_of_int (fst (mask_Size (ipn_Mask (addr_net a)))),
       ia_Flags = word_of_int (ad_Flags a), ia_Scope = word_of_int (ad_Scope a), ia_Index = word_of_int (ad_LinkIndex a)\<rparr>
     @ concat (map attr_wire (report_attrs a))"

definition addr_ok :: "Addr \<Rightarrow> bool" where
  "addr_ok a \<longleftrightarrow> plain_addr a \<and> (\<forall>d \<in> set (report_attrs a). attr_Len d < 2 ^ 16)"

lemma prefix_netD:
  assumes "prefix_net net ip n" and "length ip = 4 \<or> length ip = 16"
  shows "ipn_IP net = Some ip" "ipn_Mask net = CIDRMask n (8 * int (length ip))" "mask_Size (ipn_Mask net) = (n, 8 * int (length ip))"
    "in_u8 n" "\<lparr>ipn_IP = Some ip, ipn_Mask = CIDRMask n (8 * int (length ip))\<rparr> = net"
  using assms mask_Size_CIDRMask [of "8 * int (length ip)" n] by (auto simp: prefix_net_def)

lemma addr_net_plain:
  assumes "plain_addr a"
  obtains net ip n q k where "ad_IPNet a = Some net" "prefix_net net ip n" "length ip = 4 \<or> length ip = 16 \<and> To4 ip = None"
    and "prefix_net (addr_net a) q k" "length q = length ip"
    and "if ad_Peer a = None then addr_net a = net else ad_Peer a = Some (addr_net a) \<and> n = 8 * int (length ip) \<and> q \<noteq> ip"
  using assms unfolding plain_addr_def addr_net_def by (cases "ad_Peer a") fastforce+

text \<open>The options after the addresses, each with the field it sets.\<close>

lemma addr_options:
  assumes "in_u32 (ad_Flags a)" and "in_u32 (ad_PreferedLft a)" and "in_u32 (ad_ValidLft a)"
    and "ad_Broadcast r = None" and "ad_Label r = []"
  shows "each_attr (addr_datum msg) (map attr_parsed
      ((case ad_Broadcast a of None \<Rightarrow> [] | Some b \<Rightarrow> [NewRtAttr 4 b])
       @ attr_if (ad_Label a \<noteq> []) 3 (ZeroTerminated (ad_Label a))
       @ [NewRtAttr 8 (Uint32Attr (word_of_int (ad_Flags a))),
          NewRtAttr 6 (IfaCacheInfo_Serialize \<lparr>ca_Prefered = word_of_int (ad_PreferedLft a), ca_Valid = word_of_int (ad_ValidLft a), ca_Cstamp = 0, ca_Tstamp = 0\<rparr>)]))
      (r, local, dst)
    = Done (r\<lparr>ad_Broadcast := ad_Broadcast a, ad_Label := ad_Label a, ad_Flags := ad_Flags a, ad_PreferedLft := ad_PreferedLft a,
        ad_ValidLft := ad_ValidLft a\<rparr>, local, dst)"
  using assms ca_codec.dec_enc [where r = "[]"] by (cases r) (auto simp: attr_if_def addr_datum_def Let_def split: option.splits)

lemma addr_datum_nets:
  "addr_datum msg (attr_parsed (NewRtAttr 1 v)) (r, local, dst)
    = Done (r, local, Some \<lparr>ipn_IP = Some v, ipn_Mask = CIDRMask (uint (ia_Prefixlen msg)) (8 * int (length v))\<rparr>)"
  "addr_datum msg (attr_parsed (NewRtAttr 2 v)) (r, local, dst)
    = Done (r, Some \<lparr>ipn_IP = Some v, ipn_Mask = CIDRMask (8 * int (length v)) (8 * int (length v))\<rparr>, dst)"
  by (simp_all add: addr_datum_def Let_def)

lemma is_attr_report: "d \<in> set (report_attrs a) \<Longrightarrow> is_attr d"
  by (auto simp: report_attrs_def attr_if_def split: if_splits option.splits)

lemma family_of_plain:
  assumes "plain_addr a" "ad_IPNet a = Some net" "prefix_net net ip n"
  shows "addr_family a = (if length ip = 4 then FAMILY_V4 else FAMILY_V6)" "in_u8 (addr_family a)"
proof -
  have "ipn_IP net = Some ip" using assms(3) by (simp add: prefix_net_def)
  moreover obtain net' ip' n' where "ad_IPNet a = Some net'" "prefix_net net' ip' n'" "length ip' = 4 \<or> length ip' = 16 \<and> To4 ip' = None"
    using assms(1) unfolding plain_addr_def by blast
  ultimately have "length ip = 4 \<or> length ip = 16 \<and> To4 ip = None" using assms(2,3) by (auto simp: prefix_net_def)
  then show "addr_family a = (if length ip = 4 then FAMILY_V4 else FAMILY_V6)" "in_u8 (addr_family a)"
    using assms(2) \<open>ipn_IP net = Some ip\<close> by (auto simp: addr_family_def GetIPFamily_def ip_bytes_def families)
qed

text \<open>The choice between the two networks gives the network and the peer of the address.\<close>

lemma addr_nets_plain:
  assumes "ad_IPNet a = Some net" and "prefix_net net ip n" and "prefix_net (addr_net a) q k" and "length q = length ip"
    and "length ip = 4 \<or> length ip = 16"
    and "if ad_Peer a = None then addr_net a = net else ad_Peer a = Some (addr_net a) \<and> n = 8 * int (length ip) \<and> q \<noteq> ip"
    and "ad_Peer r = None"
  shows "addr_nets family r
      (if family = FAMILY_V4 \<or> ad_Peer a \<noteq> None then Some \<lparr>ipn_IP = Some ip, ipn_Mask = CIDRMask (8 * int (length ip)) (8 * int (length ip))\<rparr> else None)
      (Some (addr_net a)) = r\<lparr>ad_IPNet := ad_IPNet a, ad_Peer := ad_Peer a\<rparr>"
proof -
  have l: "length q = 4 \<or> length q = 16" using assms(4,5) by simp
  note i = prefix_netD [OF assms(2,5)] and j = prefix_netD [OF assms(3) l]
  have eq: "IP_Equal (Some ip) (Some q) \<longleftrightarrow> ip = q" using assms(4) by (simp add: IP_Equal_def ip_bytes_def Let_def)
  show ?thesis
  proof (cases "ad_Peer a")
    case None
    moreover from this have "q = ip" using assms(6) i(1) j(1) by simp
    ultimately show ?thesis using assms(1,6,7) eq j(1) by (cases r) (auto simp: addr_nets_def)
  next
    case (Some p)
    then have "\<lparr>ipn_IP = Some ip, ipn_Mask = CIDRMask (8 * int (length ip)) (8 * int (length ip))\<rparr> = net" using assms(6) i(5) by simp
    then show ?thesis using assms(1,6) eq j(1) Some by (auto simp: addr_nets_def)
  qed
qed

lemma addr_report_read:
  assumes "addr_ok a"
  shows "parseAddr (addr_report a) = Done (Inr (a, addr_family a))"
proof -
  have p: "plain_addr a" using assms by (simp add: addr_ok_def)
  have f: "in_u32 (ad_Flags a)" "in_u8 (ad_Scope a)" "in_u32 (ad_PreferedLft a)" "in_u32 (ad_ValidLft a)" "in_u32 (ad_LinkIndex a)"
    using p by (auto simp: plain_addr_def)
  obtain net ip n q k where n: "ad_IPNet a = Some net" "prefix_net net ip n" "length ip = 4 \<or> length ip = 16 \<and> To4 ip = None"
    "prefix_net (addr_net a) q k" "length q = length ip"
    "if ad_Peer a = None then addr_net a = net else ad_Peer a = Some (addr_net a) \<and> n = 8 * int (length ip) \<and> q \<noteq> ip"
    by (rule addr_net_plain [OF p])
  have l: "length ip = 4 \<or> length ip = 16" "length q = 4 \<or> length q = 16" using n(3,5) by auto
  note i = prefix_netD [OF n(2) l(1)] and j = prefix_netD [OF n(4) l(2)]
  note fam = family_of_plain [OF p n(1,2)]
  define msg where "msg = \<lparr>ia_Family = word_of_int (addr_family a), ia_Prefixlen = word_of_int (fst (mask_Size (ipn_Mask (addr_net a)))),
       ia_Flags = word_of_int (ad_Flags a), ia_Scope = word_of_int (ad_Scope a), ia_Index = word_of_int (ad_LinkIndex a)\<rparr>"
  have h: "DeserializeIfAddrmsg (addr_report a) = Done msg" "drop SizeofIfAddrmsg (addr_report a) = concat (map attr_wire (report_attrs a))"
    using ia_codec.dec_enc ia_codec.enc_length [of msg] by (simp_all add: addr_report_def msg_def)
  have m: "uint (ia_Family msg) = addr_family a" "uint (ia_Prefixlen msg) = k" "uint (ia_Scope msg) = ad_Scope a" "uint (ia_Index msg) = ad_LinkIndex a"
    using fam(2) f j(3,4) by (simp_all add: msg_def)
  have w: "link_attrs_of (concat (map attr_wire (report_attrs a))) = Done (Inr (map attr_parsed (report_attrs a)))"
    using parse_wires [of "report_attrs a" "[]"] assms is_attr_report by (simp add: addr_ok_def link_attrs_of_def ParseRouteAttr_def)
  let ?r = "zeroAddr\<lparr>ad_LinkIndex := ad_LinkIndex a\<rparr>"
  have opts: "each_attr (addr_datum msg) (map attr_parsed (report_attrs a)) (?r, None, None)
    = Done (?r\<lparr>ad_Broadcast := ad_Broadcast a, ad_Label := ad_Label a, ad_Flags := ad_Flags a, ad_PreferedLft := ad_PreferedLft a,
        ad_ValidLft := ad_ValidLft a\<rparr>,
        if addr_family a = FAMILY_V4 \<or> ad_Peer a \<noteq> None then Some \<lparr>ipn_IP = Some ip, ipn_Mask = CIDRMask (8 * int (length ip)) (8 * int (length ip))\<rparr> else None,
        Some (addr_net a))"
    unfolding report_attrs_def map_append each_attr_append
    using addr_options [OF f(1,3,4), of ?r msg] i(1) j(1,5) n(1)
    by (simp add: addr_datum_nets attr_if_def m ip_bytes_def each_attr_append zeroAddr_def)
  let ?a = "?r\<lparr>ad_Broadcast := ad_Broadcast a, ad_Label := ad_Label a, ad_Flags := ad_Flags a, ad_PreferedLft := ad_PreferedLft a, ad_ValidLft := ad_ValidLft a\<rparr>"
  have "ad_Peer ?a = None" by (simp add: zeroAddr_def)
  note nets = addr_nets_plain [OF n(1,2,4,5) l(1) n(6) this, of "addr_family a"]
  show ?thesis
    using h w opts nets by (simp add: parseAddr_def m)
qed

section \<open>Listing\<close>

definition on_link :: "nl_link \<Rightarrow> int \<Rightarrow> Addr \<Rightarrow> bool" where
  "on_link l family a \<longleftrightarrow> ad_LinkIndex a = link_Index l \<and> (family = FAMILY_ALL \<or> addr_family a = family)"

lemma addrs_of_reports:
  "(\<And>a. a \<in> set as \<Longrightarrow> addr_ok a) \<Longrightarrow> addrs_of (Some (link_Index l)) family (map addr_report as) = Done (None, filter (on_link l family) as)"
  by (induction as) (auto simp: addr_report_read on_link_def)

text \<open>The addresses of the link and of the family, in the order of the kernel; the socket is closed.\<close>

lemma AddrList_reported:
  assumes "lc_h c = None"
    and "answered (lc_os c) st RTM_GETADDR NLM_F_DUMP [StructData (IfAddrmsg_Serialize (NewIfAddrmsg family))] parts 0"
    and "selected (word_of_int RTM_NEWADDR) parts = map addr_report as" and "\<And>a. a \<in> set as \<Longrightarrow> addr_ok a" and "link_Index l \<noteq> 0"
  obtains st' where "AddrList c (Some l) family (dump, st) = Done ((None, filter (on_link l family) as), Some l, dump, st')" and "follows st st'"
proof -
  have r: "replied (lc_os c) (snd (dump, st)) RTM_GETADDR NLM_F_DUMP [StructData (IfAddrmsg_Serialize (NewIfAddrmsg family))]
      (word_of_int RTM_NEWADDR) parts (final_result 0)"
    using answered_replied [OF assms(2)] by simp
  obtain st' where "link_call c RTM_GETADDR NLM_F_DUMP (word_of_int RTM_NEWADDR) [StructData (IfAddrmsg_Serialize (NewIfAddrmsg family))] (dump, st)
      = Done (map_sum LinkOs id (final_result 0 (selected (word_of_int RTM_NEWADDR) parts)), fst (dump, st), st')" and f: "follows (snd (dump, st)) st'"
    by (rule link_call_replied [OF assms(1) r])
  then have "link_call c RTM_GETADDR NLM_F_DUMP (word_of_int RTM_NEWADDR) [StructData (IfAddrmsg_Serialize (NewIfAddrmsg family))] (dump, st)
      = Done (Inr (map addr_report as), dump, st')" by (simp add: assms(3) final_result_def)
  with addrs_of_reports [OF assms(4), of as l family] assms(5)
  have "AddrList c (Some l) family (dump, st) = Done ((None, filter (on_link l family) as), Some l, dump, st')"
    by (simp add: AddrList_def ensure_given_def ensureIndex_def)
  with f show ?thesis using that by simp
qed

section \<open>Adding\<close>

text \<open>An IPv4 address whose mask is not that of a prefix, such as the nil mask, and that has no broadcast address ends
\<open>AddrAdd\<close>, \<open>AddrReplace\<close> and \<open>AddrDel\<close> with an index panic, before anything is sent.\<close>

theorem addr_without_mask_panics:
  assumes "ad_IPNet a = Some net" and "ipn_IP net = Some ip" and "length ip = 4" and "ad_Peer a = None" and "ad_Broadcast a = None"
    and "mask_Size (ipn_Mask net) = (0, 0)" and "ad_Label a = []" and "link_Index l \<noteq> 0"
  shows "AddrAdd c l a s = Panic IndexOutOfRange \<and> AddrReplace c l a s = Panic IndexOutOfRange \<and> AddrDel c l a s = Panic IndexOutOfRange"
proof -
  have "addr_data i a = Panic IndexOutOfRange" for i
    using assms by (simp add: addr_data_def set_broadcast_def broadcast_of_def addr_bytes_def GetIPFamily_def ip_bytes_def To4_def families Let_def)
  then have r: "addr_request c proto flags l a s = Panic IndexOutOfRange" for proto flags
    using assms(7,8) by (simp add: addr_request_def addrHandle_def ensureIndex_def case_prod_unfold)
  show ?thesis
    by (simp_all add: AddrAdd_def AddrReplace_def AddrDel_def r)
qed

text \<open>What \<open>AddrAdd\<close> makes of an address: the broadcast address of the network is filled in for prefixes shorter than 31.\<close>

definition with_broadcast :: "Addr \<Rightarrow> Addr" where
  "with_broadcast a =
     (let net = addr_net a; n = fst (mask_Size (ipn_Mask net)); ip = ip_bytes (ipn_IP (the (ad_IPNet a))) in
      if ad_Broadcast a = None \<and> n < 31 then a\<lparr>ad_Broadcast := Some (map2 (\<lambda>x m. x OR NOT m) ip (cidr_bytes 4 (nat n)))\<rparr> else a)"

lemma set_broadcast_plain:
  assumes "plain_addr a" and "ad_IPNet a = Some net" and "ipn_IP net = Some ip" and "length ip = 4"
  shows "set_broadcast FAMILY_V4 (mask_Size (ipn_Mask (addr_net a))) ip (ipn_Mask (addr_net a)) a = Done (with_broadcast a)"
proof -
  obtain net' ip' n q k where n: "ad_IPNet a = Some net'" "prefix_net net' ip' n" "prefix_net (addr_net a) q k" "length q = length ip'"
    by (rule addr_net_plain [OF assms(1)])
  then have l: "length q = 4" using assms(2-4) by (auto simp: prefix_net_def)
  have k: "0 \<le> k" "k \<le> 32" using n(3) l by (auto simp: prefix_net_def)
  note j = prefix_netD [OF n(3) disjI1 [OF l]]
  show ?thesis
    using assms(2-4) j(2,3) l k
    by (auto simp: set_broadcast_def with_broadcast_def broadcast_of_def length_CIDRMask ip_bytes_def Let_def)
qed

text \<open>The fields of the address behind the two networks, in the order of the request.\<close>

lemma sent_options:
  assumes "in_u32 (ad_Flags a)" and "in_u32 (ad_PreferedLft a)" and "in_u32 (ad_ValidLft a)"
  shows "each_attr (addr_datum msg) (map attr_parsed
      (attr_if (ad_Flags a \<noteq> 0 \<and> ad_Flags a > 0xff) 8 (le32 (word_of_int (ad_Flags a)))
       @ ((case ad_Broadcast a of None \<Rightarrow> [] | Some b \<Rightarrow> [NewRtAttr 4 b]) @ attr_if (ad_Label a \<noteq> []) 3 (ZeroTerminated (ad_Label a)))
       @ attr_if (ad_ValidLft a > 0 \<or> ad_PreferedLft a > 0) 6
          (IfaCacheInfo_Serialize \<lparr>ca_Prefered = word_of_int (ad_PreferedLft a), ca_Valid = word_of_int (ad_ValidLft a), ca_Cstamp = 0, ca_Tstamp = 0\<rparr>)))
      (zeroAddr\<lparr>ad_LinkIndex := i\<rparr>, local, dst)
    = Done (zeroAddr\<lparr>ad_LinkIndex := i, ad_Broadcast := ad_Broadcast a, ad_Label := ad_Label a,
        ad_Flags := (if ad_Flags a \<le> 0xff then 0 else ad_Flags a), ad_PreferedLft := ad_PreferedLft a, ad_ValidLft := ad_ValidLft a\<rparr>, local, dst)"
  using assms ca_codec.dec_enc [where r = "[]"] by (auto simp: attr_if_def addr_datum_def zeroAddr_def Let_def split: option.splits)

lemma with_broadcast_simps [simp]:
  "ad_IPNet (with_broadcast a) = ad_IPNet a" "ad_Label (with_broadcast a) = ad_Label a" "ad_Flags (with_broadcast a) = ad_Flags a"
  "ad_Scope (with_broadcast a) = ad_Scope a" "ad_Peer (with_broadcast a) = ad_Peer a" "ad_PreferedLft (with_broadcast a) = ad_PreferedLft a"
  "ad_ValidLft (with_broadcast a) = ad_ValidLft a" "ad_LinkIndex (with_broadcast a) = ad_LinkIndex a"
  by (simp_all add: with_broadcast_def Let_def)

lemma is_attr_addr: "d \<in> set (addr_attrs family ipn a) \<Longrightarrow> is_attr d"
  by (auto simp: addr_attrs_def attr_if_def Let_def split: if_splits option.splits)

text \<open>C31: What \<open>AddrAdd\<close> sends for an IPv4 address is read back as this address on the link, with its network, peer, label, scope and
lifetimes, and with the broadcast address that was filled in and that the caller gets, too. Flags below 256 go into the
header of the message, where the decoder does not look for them.\<close>

theorem AddrAdd_sent:
  assumes "plain_addr a" and "ad_IPNet a = Some net" and "ipn_IP net = Some ip" and "length ip = 4" and "in_u32 index"
    and "\<And>d. d \<in> set (addr_attrs FAMILY_V4 net (with_broadcast a)) \<Longrightarrow> attr_Len d < 2 ^ 16"
  shows "\<exists>data. addr_data index a = Done (with_broadcast a, data)
    \<and> parseAddr (concat (map attr_wire data)) =
        Done (Inr ((with_broadcast a)\<lparr>ad_LinkIndex := index, ad_Flags := (if ad_Flags a \<le> 0xff then 0 else ad_Flags a)\<rparr>, FAMILY_V4))"
proof -
  let ?b = "with_broadcast a"
  have f: "in_u32 (ad_Flags ?b)" "in_u8 (ad_Scope a)" "in_u32 (ad_PreferedLft ?b)" "in_u32 (ad_ValidLft ?b)"
    using assms(1) by (auto simp: plain_addr_def)
  obtain n q k where n: "prefix_net net ip n" "prefix_net (addr_net a) q k" "length q = length ip"
    "if ad_Peer a = None then addr_net a = net else ad_Peer a = Some (addr_net a) \<and> n = 8 * int (length ip) \<and> q \<noteq> ip"
  proof -
    obtain net' ip' n q k where o: "ad_IPNet a = Some net'" "prefix_net net' ip' n" "prefix_net (addr_net a) q k" "length q = length ip'"
      "if ad_Peer a = None then addr_net a = net' else ad_Peer a = Some (addr_net a) \<and> n = 8 * int (length ip') \<and> q \<noteq> ip'"
      by (rule addr_net_plain [OF assms(1)])
    have e: "net' = net" "ip' = ip" using o(1,2) assms(2,3) by (auto simp: prefix_net_def)
    show ?thesis by (rule that [OF o(2-5) [unfolded e]])
  qed
  have l: "length ip = 4 \<or> length ip = 16" "length q = 4 \<or> length q = 16" "length q = 4" using assms(4) n(3) by auto
  note i = prefix_netD [OF n(1) l(1)] and j = prefix_netD [OF n(2) l(2)]
  have ip: "addr_bytes FAMILY_V4 (Some ip) = ip" "addr_bytes FAMILY_V4 (Some q) = q" "GetIPFamily (Some ip) = FAMILY_V4"
    using assms(4) l(3) by (simp_all add: addr_bytes_def ip_bytes_def To4_def GetIPFamily_def)
  define msg where "msg = addr_msg FAMILY_V4 index k ?b"
  have d: "addr_data index a = Done (?b, StructData (IfAddrmsg_Serialize msg) # addr_attrs FAMILY_V4 net ?b)"
    using set_broadcast_plain [OF assms(1-4)] assms(2,3) ip n(4) j(3)
    by (auto simp: addr_data_def addr_net_def msg_def Let_def split: option.splits if_splits)
  have m: "uint (ia_Family msg) = FAMILY_V4" "uint (ia_Prefixlen msg) = k" "uint (ia_Scope msg) = ad_Scope a" "uint (ia_Index msg) = index"
    using f(2) assms(5) j(4) by (simp_all add: msg_def addr_msg_def NewIfAddrmsg_def families)
  have h: "DeserializeIfAddrmsg (IfAddrmsg_Serialize msg @ r) = Done msg" "drop SizeofIfAddrmsg (IfAddrmsg_Serialize msg @ r) = r" for r
    using ia_codec.dec_enc ia_codec.enc_length [of msg] by simp_all
  have w: "link_attrs_of (concat (map attr_wire (addr_attrs FAMILY_V4 net ?b))) = Done (Inr (map attr_parsed (addr_attrs FAMILY_V4 net ?b)))"
    using parse_wires [of "addr_attrs FAMILY_V4 net ?b" "[]"] assms(6) is_attr_addr by (simp add: link_attrs_of_def ParseRouteAttr_def)
  have peer: "(case ad_Peer ?b of Some p \<Rightarrow> ipn_IP p | None \<Rightarrow> ipn_IP net) = Some q"
    using n(4) j(1) by (auto split: option.splits if_splits)
  let ?local = "\<lparr>ipn_IP = Some ip, ipn_Mask = CIDRMask (8 * int (length ip)) (8 * int (length ip))\<rparr>"
  let ?r = "zeroAddr\<lparr>ad_LinkIndex := index, ad_Broadcast := ad_Broadcast ?b, ad_Label := ad_Label ?b,
        ad_Flags := (if ad_Flags ?b \<le> 0xff then 0 else ad_Flags ?b), ad_PreferedLft := ad_PreferedLft ?b, ad_ValidLft := ad_ValidLft ?b\<rparr>"
  have opts: "each_attr (addr_datum msg) (map attr_parsed (addr_attrs FAMILY_V4 net ?b)) (zeroAddr\<lparr>ad_LinkIndex := index\<rparr>, None, None)
      = Done (?r, Some ?local, Some (addr_net a))"
    using sent_options [OF f(1,3,4), of msg index "Some ?local" "Some (addr_net a)"] j(5) i(1) ip
    unfolding addr_attrs_def Let_def peer by (simp add: addr_datum_nets m)
  have "ad_Peer ?r = None" by (simp add: zeroAddr_def)
  from addr_nets_plain [OF assms(2) n(1-3) l(1) n(4) this, of FAMILY_V4]
  have nets: "addr_nets FAMILY_V4 ?r (Some ?local) (Some (addr_net a)) = ?r\<lparr>ad_IPNet := ad_IPNet a, ad_Peer := ad_Peer a\<rparr>" by simp
  have "parseAddr (IfAddrmsg_Serialize msg @ concat (map attr_wire (addr_attrs FAMILY_V4 net ?b)))
      = Done (Inr (?r\<lparr>ad_IPNet := ad_IPNet a, ad_Peer := ad_Peer a, ad_Scope := ad_Scope a\<rparr>, FAMILY_V4))"
    using h w opts nets by (simp add: parseAddr_def m)
  then show ?thesis using d by (simp add: zeroAddr_def)
qed

section \<open>Examples\<close>

definition example_addr :: Addr where
  "example_addr = zeroAddr\<lparr>ad_IPNet := Some \<lparr>ipn_IP = Some [10, 0, 3, 2], ipn_Mask = CIDRMask 22 32\<rparr>, ad_Label := ''eth0'', ad_Flags := 128, ad_LinkIndex := 2\<rparr>"

lemma example_prefix: "prefix_net \<lparr>ipn_IP = Some [10, 0, 3, 2], ipn_Mask = CIDRMask 22 32\<rparr> [10, 0, 3, 2] 22"
  by (simp add: prefix_net_def)

lemma example_addr_plain: "plain_addr example_addr"
proof -
  have "ad_IPNet example_addr = Some \<lparr>ipn_IP = Some [10, 0, 3, 2], ipn_Mask = CIDRMask 22 32\<rparr>" "ad_Peer example_addr = None"
    by (simp_all add: example_addr_def zeroAddr_def)
  with example_prefix have "\<exists>net ip n. ad_IPNet example_addr = Some net \<and> prefix_net net ip n \<and> (length ip = 4 \<or> length ip = 16 \<and> To4 ip = None)
       \<and> (case ad_Peer example_addr of None \<Rightarrow> True
          | Some p \<Rightarrow> n = 8 * int (length ip) \<and> (\<exists>q k. prefix_net p q k \<and> length q = length ip \<and> q \<noteq> ip))"
    by (intro exI [of _ "\<lparr>ipn_IP = Some [10, 0, 3, 2], ipn_Mask = CIDRMask 22 32\<rparr>"] exI [of _ "[10, 0, 3, 2]"] exI [of _ 22]) simp
  then show ?thesis by (simp add: plain_addr_def example_addr_def zeroAddr_def)
qed

lemma cidr_22: "cidr_bytes 4 22 = [255, 255, 252, 0]"
  by code_simp

lemma example_with_broadcast: "ad_Broadcast (with_broadcast example_addr) = Some [10, 0, 3, 255]"
  using mask_Size_CIDRMask [of 32 22]
  by (simp add: with_broadcast_def example_addr_def zeroAddr_def addr_net_def ip_bytes_def length_CIDRMask cidr_22 Let_def)

lemma addr_without_mask_panics_witness:
  "AddrDel (example_ctx example_os) (Device (NewLinkAttrs\<lparr>la_Index := 2\<rparr>))
     (zeroAddr\<lparr>ad_IPNet := Some \<lparr>ipn_IP = Some [10, 0, 3, 2], ipn_Mask = None\<rparr>\<rparr>) (False, idle_state) = Panic IndexOutOfRange"
  using addr_without_mask_panics [where a = "zeroAddr\<lparr>ad_IPNet := Some \<lparr>ipn_IP = Some [10, 0, 3, 2], ipn_Mask = None\<rparr>\<rparr>"
      and l = "Device (NewLinkAttrs\<lparr>la_Index := 2\<rparr>)" and ip = "[10, 0, 3, 2]" and net = "\<lparr>ipn_IP = Some [10, 0, 3, 2], ipn_Mask = None\<rparr>"]
  by (simp add: zeroAddr_def NewLinkAttrs_def mask_Size_def ip_bytes_def)

lemma AddrAdd_sent_witness:
  "\<exists>a data. addr_data 2 example_addr = Done (a, data) \<and> ad_Broadcast a = Some [10, 0, 3, 255]
    \<and> parseAddr (concat (map attr_wire data)) = Done (Inr (a\<lparr>ad_Flags := 0\<rparr>, FAMILY_V4))"
proof -
  let ?net = "\<lparr>ipn_IP = Some [10, 0, 3, 2], ipn_Mask = CIDRMask 22 32\<rparr> :: IPNet"
  have n: "ad_IPNet example_addr = Some ?net" "ipn_IP ?net = Some [10, 0, 3, 2]" "ad_Flags example_addr = 128" "ad_Peer example_addr = None"
    "ad_Label example_addr = ''eth0''" "ad_LinkIndex example_addr = 2" "ad_ValidLft example_addr = 0" "ad_PreferedLft example_addr = 0"
    by (simp_all add: example_addr_def zeroAddr_def)
  have d: "attr_Len d < 2 ^ 16" if "d \<in> set (addr_attrs FAMILY_V4 ?net (with_broadcast example_addr))" for d
    using that by (auto simp: addr_attrs_def attr_if_def example_with_broadcast n addr_bytes_def ip_bytes_def To4_def Let_def)
  have i: "(with_broadcast example_addr)\<lparr>ad_LinkIndex := 2, ad_Flags := 0\<rparr> = (with_broadcast example_addr)\<lparr>ad_Flags := 0\<rparr>"
    using n(6) with_broadcast_simps(8) [of example_addr] by (cases "with_broadcast example_addr") simp
  show ?thesis
    using AddrAdd_sent [OF example_addr_plain n(1,2) _ _ d, of 2] example_with_broadcast by (auto simp: n(3) i)
qed

end
