(* ===== verification/CniNet.thy ===== *)
theory CniNet
  imports CniPlugin NlEthtool NlAddr
begin

text \<open>
  The lookup of the pod's veth pair by the CNI plugin, \<open>vethpeer_info.go\<close>, over the netlink library: the links and the
  addresses are listed by sockets of the pod's namespace, the peer of the veth device by one of the host, and each of the
  calls takes the state of the library on. What \<open>CniPlugin\<close> states about \<open>GetVethPeerInfo\<close> over given operations holds
  of it for the operations that give what the kernels report.
\<close>

section \<open>Printing addresses\<close>

text \<open>\<open>net.IP.String\<close>: dots for an IPv4 address, otherwise groups of four digits, the first longest run of zeros left out.\<close>

fun hex_text :: "nat \<Rightarrow> string" where
  "hex_text n = (if n < 16 then [hex_digit n] else hex_text (n div 16) @ [hex_digit (n mod 16)])"

declare hex_text.simps [simp del]

definition v6_groups :: "bytes \<Rightarrow> nat list" where
  "v6_groups b = map (\<lambda>i. unat (b ! (2 * i)) * 256 + unat (b ! (2 * i + 1))) [0..<8]"

definition zero_run :: "nat list \<Rightarrow> nat \<Rightarrow> nat" where "zero_run gs i = length (takeWhile (\<lambda>g. g = 0) (drop i gs))"

definition longest_zeros :: "nat list \<Rightarrow> (nat \<times> nat) option" where
  "longest_zeros gs =
     fold (\<lambda>i r. let l = zero_run gs i in
       if l \<ge> 2 \<and> (case r of None \<Rightarrow> True | Some (s, e) \<Rightarrow> l > e - s) then Some (i, i + l) else r) [0..<8] None"

definition v6_text :: "nat list \<Rightarrow> string" where
  "v6_text gs =
     (case longest_zeros gs of
        None \<Rightarrow> Join (map hex_text gs) '':''
      | Some (s, e) \<Rightarrow> Join (map hex_text (take s gs)) '':'' @ ''::'' @ Join (map hex_text (drop e gs)) '':'')"

definition IP_String :: "net_ip \<Rightarrow> string" where
  "IP_String ip =
     (let b = ip_bytes ip in
      if b = [] then ''<nil>''
      else if length b \<noteq> 4 \<and> length b \<noteq> 16 then CHR ''?'' # concat (map (\<lambda>x. [hex_digit (unat x div 16), hex_digit (unat x mod 16)]) b)
      else case To4 b of Some v \<Rightarrow> dotted v | None \<Rightarrow> v6_text (v6_groups b))"

section \<open>The lookup\<close>

text \<open>The first address of a list, through the embedded pointer; an error leaves the empty string.\<close>

definition first_ip :: "link_error option \<times> Addr list \<Rightarrow> string outcome" where
  "first_ip r =
     (case r of
        (None, a # _) \<Rightarrow> (case ad_IPNet a of None \<Rightarrow> Panic NilDereference | Some net \<Rightarrow> Done (IP_String (ipn_IP net)))
      | _ \<Rightarrow> Done [])"

type_synonym ('x, 'r) lookup = "((('x + link_error) veth_error + 'r) \<times> link_state) outcome"

fun scan_links_netlink :: "link_ctx \<Rightarrow> eth_os \<Rightarrow> nl_link list \<Rightarrow> link_state \<Rightarrow> ('x, veth_vars) lookup" where
  "scan_links_netlink c E [] s = Done (Inl NoLinkFound, s)"
| "scan_links_netlink c E (link # links) s =
     (if link_Type link \<noteq> ''veth'' then scan_links_netlink c E links s
      else case link of
             Veth a x \<Rightarrow>
               (case VethPeerIndex E (la_Name a) (snd s) of
                  (Inl e, st) \<Rightarrow> Done (Inl (PeerIndexErr (Inr e)), fst s, st)
                | (Inr peerIndex, st) \<Rightarrow>
                    obind (AddrList c (Some link) FAMILY_V4 (fst s, st)) (\<lambda>(addrs, link', s). obind (first_ip addrs) (\<lambda>vethIP.
                    obind (AddrList c link' FAMILY_V6 s) (\<lambda>(addrsv6, link', s). obind (first_ip addrsv6) (\<lambda>vethIPv6.
                      Done (Inr \<lparr>vv_LXCMac = hw_String (ip_bytes (la_HardwareAddr a)), vv_LXCName = la_Name a,
                        vv_peerIndex = peerIndex, vv_IP = vethIP, vv_IPv6 = vethIPv6\<rparr>, s))))))
           | _ \<Rightarrow> Done (Inl NotVeth, s))"

text \<open>The namespaces of the pods with what the netlink library finds in them, and the host.\<close>

record ('ns, 'x) node_net =
  nn_GetNS :: "string \<Rightarrow> 'x + 'ns"
  nn_Enter :: "'ns \<Rightarrow> 'x option"
  nn_ctx :: "'ns \<Rightarrow> link_ctx"
  nn_eth :: "'ns \<Rightarrow> eth_os"
  nn_host :: link_ctx

definition veth_in_ns_netlink :: "('ns, 'x) node_net \<Rightarrow> 'ns \<Rightarrow> link_state \<Rightarrow> ('x, veth_vars) lookup" where
  "veth_in_ns_netlink N ns s =
     (case nn_Enter N ns of
        Some e \<Rightarrow> Done (Inl (EnterErr (Inl e)), s)
      | None \<Rightarrow>
          obind (LinkList (nn_ctx N ns) s) (\<lambda>(r, s).
            case r of
              Inl _ \<Rightarrow> Done (Inr zero_vars, s)
            | Inr links \<Rightarrow> scan_links_netlink (nn_ctx N ns) (nn_eth N ns) links s))"

definition GetVethPeerInfo_netlink :: "('ns, 'x) node_net \<Rightarrow> string \<Rightarrow> link_state \<Rightarrow> ('x, VethPeer) lookup" where
  "GetVethPeerInfo_netlink N nspath s =
     (case nn_GetNS N nspath of
        Inl e \<Rightarrow> Done (Inl (OpenNetnsErr nspath (Inl e)), s)
      | Inr netNs \<Rightarrow>
          obind (veth_in_ns_netlink N netNs s) (\<lambda>(r, s).
            case r of
              Inl e \<Rightarrow> Done (Inl e, s)
            | Inr v \<Rightarrow>
                obind (LinkByIndex (nn_host N) (vv_peerIndex v) s) (\<lambda>(r, s).
                  Done (case r of
                      Inl e \<Rightarrow> Inl (PeerLookupErr (vv_peerIndex v) (Inr e))
                    | Inr peer \<Rightarrow> peer_info v (link_Attrs peer), s))))"

section \<open>What the kernels report\<close>

definition addr_text :: "Addr \<Rightarrow> string" where
  "addr_text a = (case ad_IPNet a of None \<Rightarrow> [] | Some net \<Rightarrow> IP_String (ipn_IP net))"

text \<open>The operations of the plain model that give the reported links, addresses and peer.\<close>

definition reported_ops :: "('ns, 'x) node_net \<Rightarrow> report list \<Rightarrow> Addr list \<Rightarrow> Addr list \<Rightarrow> u64 \<Rightarrow> report \<Rightarrow> ('ns, 'x + link_error) ns_ops" where
  "reported_ops N ps as4 as6 i p =
     \<lparr>ns_GetNS = (\<lambda>path. map_sum Inl id (nn_GetNS N path)), ns_Enter = (\<lambda>ns. map_option Inl (nn_Enter N ns)),
      ns_LinkList = (\<lambda>_. Inr (map report_link ps)), ns_VethPeerIndex = (\<lambda>_ _. Inr (sint i)),
      ns_AddrList = (\<lambda>_ l f. Inr (map addr_text (filter (on_link l f) (if f = FAMILY_V4 then as4 else as6)))),
      ns_LinkByIndex = (\<lambda>_. Inr (report_link p))\<rparr>"

text \<open>The links before the first veth device do not matter.\<close>

lemma scan_links_find:
  assumes "List.find (\<lambda>l. link_Type l = ''veth'') links = Some link"
  shows "scan_links_netlink c E links s = scan_links_netlink c E [link] s" "scan_links V ns links = scan_links V ns [link]"
  using assms by (induction links) (auto split: if_splits)

definition first_text :: "Addr list \<Rightarrow> string" where
  "first_text as = (case as of [] \<Rightarrow> [] | a # _ \<Rightarrow> addr_text a)"

lemma first_addr_reported [simp]: "first_addr (Inr (map addr_text as)) = first_text as"
  by (cases as) (simp_all add: first_addr_def first_text_def)

lemma first_ip_reported:
  assumes "\<And>a. a \<in> set as \<Longrightarrow> addr_ok a"
  shows "first_ip (None, filter P as) = Done (first_text (filter P as))"
proof (cases "filter P as")
  case Nil
  then show ?thesis by (simp add: first_ip_def first_text_def)
next
  case (Cons a xs)
  then have "a \<in> set as" by (metis filter_is_subset list.set_intros(1) subsetD)
  then have "ad_IPNet a \<noteq> None" using assms by (auto simp: addr_ok_def plain_addr_def)
  then show ?thesis using Cons by (auto simp: first_ip_def first_text_def addr_text_def)
qed

text \<open>An address of the link, of IPv4 first.\<close>

lemma first_ip_listed:
  assumes "lc_h c = None"
    and "answered (lc_os c) st RTM_GETADDR NLM_F_DUMP [StructData (IfAddrmsg_Serialize (NewIfAddrmsg family))] parts 0"
    and "selected (word_of_int RTM_NEWADDR) parts = map addr_report as" and "\<And>a. a \<in> set as \<Longrightarrow> addr_ok a" and "link_Index l \<noteq> 0"
  obtains r st' where "AddrList c (Some l) family (dump, st) = Done (r, Some l, dump, st')" and "follows st st'"
    and "first_ip r = Done (first_text (filter (on_link l family) as))"
proof -
  obtain st' where "AddrList c (Some l) family (dump, st) = Done ((None, filter (on_link l family) as), Some l, dump, st')" "follows st st'"
    by (rule AddrList_reported [OF assms])
  with first_ip_reported [OF assms(4)] that show ?thesis by blast
qed

text \<open>
  The answers to one lookup: in the namespace the links \<open>ps\<close>, the addresses \<open>as4\<close> and \<open>as6\<close> for the two families and the
  index \<open>i\<close> as the counter of the device \<open>name\<close>; on the host the link \<open>p\<close>. The requests are numbered one after the other.
\<close>

definition pod_answers :: "link_ctx \<Rightarrow> eth_os \<Rightarrow> nl_state \<Rightarrow> report list \<Rightarrow> string \<Rightarrow> u64 \<Rightarrow> Addr list \<Rightarrow> Addr list \<Rightarrow> bool" where
  "pod_answers c E st ps name i as4 as6 \<longleftrightarrow>
     lc_h c = None \<and> (\<forall>p \<in> set ps. report_ok p) \<and> (\<forall>a \<in> set as4 \<union> set as6. addr_ok a) \<and> peer_reported E st name i
     \<and> (\<exists>parts. answered (lc_os c) st RTM_GETLINK NLM_F_DUMP [info_msg 0 0 0 0, ext_mask] parts 0
          \<and> selected (word_of_int RTM_NEWLINK) parts = map report_bytes ps)
     \<and> (\<exists>parts. answered (lc_os c) (next_state st) RTM_GETADDR NLM_F_DUMP [StructData (IfAddrmsg_Serialize (NewIfAddrmsg FAMILY_V4))] parts 0
          \<and> selected (word_of_int RTM_NEWADDR) parts = map addr_report as4)
     \<and> (\<exists>parts. answered (lc_os c) (next_state (next_state st)) RTM_GETADDR NLM_F_DUMP [StructData (IfAddrmsg_Serialize (NewIfAddrmsg FAMILY_V6))] parts 0
          \<and> selected (word_of_int RTM_NEWADDR) parts = map addr_report as6)"

definition host_answers :: "link_ctx \<Rightarrow> nl_state \<Rightarrow> u64 \<Rightarrow> report \<Rightarrow> bool" where
  "host_answers c st i p \<longleftrightarrow>
     lc_h c = None \<and> report_ok p
     \<and> answered_once (lc_os c) (next_state (next_state (next_state st))) RTM_GETLINK NLM_F_ACK [info_msg 0 (sint i) 0 0, ext_mask] 0 (report_bytes p)"

lemma answered_follows2:
  assumes "follows st st1" and "follows st1 st2"
  shows "answered os st2 = answered os (next_state (next_state st))" and "answered_once os st2 = answered_once os (next_state (next_state st))"
proof -
  have "follows (next_state st) st2" using assms by (simp add: follows_def next_state_def)
  then show "answered os st2 = answered os (next_state (next_state st))" "answered_once os st2 = answered_once os (next_state (next_state st))"
    using answered_follows by auto
qed

lemma peer_reported_follows: "follows st st' \<Longrightarrow> peer_reported E st' = peer_reported E st"
  by (simp add: fun_eq_iff peer_reported_def follows_def)

text \<open>The variables of the function that is run in the namespace.\<close>

lemma veth_in_ns_reported:
  assumes "nn_Enter N ns = None" and "pod_answers (nn_ctx N ns) (nn_eth N ns) st ps (la_Name a) i as4 as6"
    and "List.find (\<lambda>l. link_Type l = ''veth'') (map report_link ps) = Some (Veth a x)" and "la_Index a \<noteq> 0"
  obtains v st' where "veth_in_ns_netlink N ns (dump, st) = Done (Inr v, dump, st')" and "vv_peerIndex v = sint i"
    and "veth_in_ns (reported_ops N ps as4 as6 i p) ns = Inr v"
    and "follows (next_state (next_state st)) st'"
proof -
  let ?c = "nn_ctx N ns" and ?E = "nn_eth N ns" and ?l = "Veth a x"
  note as = assms(2) [unfolded pod_answers_def]
  from as have h: "lc_h ?c = None" and ok: "\<And>p. p \<in> set ps \<Longrightarrow> report_ok p" "\<And>a. a \<in> set as4 \<Longrightarrow> addr_ok a" "\<And>a. a \<in> set as6 \<Longrightarrow> addr_ok a"
    and pr: "peer_reported ?E st (la_Name a) i" by auto
  from as obtain ls p4 p6 where l: "answered (lc_os ?c) st RTM_GETLINK NLM_F_DUMP [info_msg 0 0 0 0, ext_mask] ls 0"
      "selected (word_of_int RTM_NEWLINK) ls = map report_bytes ps"
    and q4: "answered (lc_os ?c) (next_state st) RTM_GETADDR NLM_F_DUMP [StructData (IfAddrmsg_Serialize (NewIfAddrmsg FAMILY_V4))] p4 0"
      "selected (word_of_int RTM_NEWADDR) p4 = map addr_report as4"
    and q6: "answered (lc_os ?c) (next_state (next_state st)) RTM_GETADDR NLM_F_DUMP [StructData (IfAddrmsg_Serialize (NewIfAddrmsg FAMILY_V6))] p6 0"
      "selected (word_of_int RTM_NEWADDR) p6 = map addr_report as6" by blast
  have "\<exists>st1. LinkList ?c (dump, st) = Done (Inr (map report_link ps), dump, st1) \<and> follows st st1"
    using LinkList_reported [of ?c "(dump, st)" ls ps] h l ok(1) by simp
  then obtain st1 where s1: "LinkList ?c (dump, st) = Done (Inr (map report_link ps), dump, st1)" "follows st st1" by blast
  have v: "VethPeerIndex ?E (la_Name a) st1 = (Inr (sint i), st1)"
    using VethPeerIndex_reported pr peer_reported_follows [OF s1(2)] by simp
  have li: "link_Index ?l \<noteq> 0" using assms(4) by simp
  obtain r4 st2 where s2: "AddrList ?c (Some ?l) FAMILY_V4 (dump, st1) = Done (r4, Some ?l, dump, st2)" "follows st1 st2"
      "first_ip r4 = Done (first_text (filter (on_link ?l FAMILY_V4) as4))"
    by (rule first_ip_listed [OF h q4(1) [folded answered_follows(1) [OF s1(2)]] q4(2) ok(2) li])
  obtain r6 st3 where s3: "AddrList ?c (Some ?l) FAMILY_V6 (dump, st2) = Done (r6, Some ?l, dump, st3)" "follows st2 st3"
      "first_ip r6 = Done (first_text (filter (on_link ?l FAMILY_V6) as6))"
    by (rule first_ip_listed [OF h q6(1) [folded answered_follows2(1) [OF s1(2) s2(2)]] q6(2) ok(3) li])
  let ?v = "\<lparr>vv_LXCMac = hw_String (ip_bytes (la_HardwareAddr a)), vv_LXCName = la_Name a, vv_peerIndex = sint i,
      vv_IP = first_text (filter (on_link ?l FAMILY_V4) as4),
      vv_IPv6 = first_text (filter (on_link ?l FAMILY_V6) as6)\<rparr>"
  have "veth_in_ns_netlink N ns (dump, st) = Done (Inr ?v, dump, st3)"
    using assms(1) s1(1) v s2(1,3) s3(1,3) by (simp add: veth_in_ns_netlink_def scan_links_find(1) [OF assms(3)])
  moreover have "veth_in_ns (reported_ops N ps as4 as6 i p) ns = Inr ?v"
    using assms(1) by (simp add: veth_in_ns_def reported_ops_def scan_links_find(2) [OF assms(3)] families)
  moreover have "follows (next_state (next_state st)) st3"
    using s1(2) s2(2) s3(2) by (simp add: follows_def next_state_def)
  ultimately show ?thesis using that [of ?v st3] by simp
qed

text \<open>C30: When the kernel of the pod's namespace lists its links with a veth device among them, and its addresses, ethtool gives
the index of the peer, and the host reports that link, then the lookup over netlink gives what \<open>GetVethPeerInfo\<close> gives over
the reported links and the printed addresses: the first veth device, the first IPv4 and IPv6 address of that device, and
the name, hardware address and index of the peer. No descriptor stays open.\<close>

theorem GetVethPeerInfo_reported:
  fixes N :: "('ns, 'x) node_net"
  assumes "nn_GetNS N path = Inr ns" and "nn_Enter N ns = None"
    and "pod_answers (nn_ctx N ns) (nn_eth N ns) st ps (la_Name a) i as4 as6" and "host_answers (nn_host N) st i p"
    and "List.find (\<lambda>l. link_Type l = ''veth'') (map report_link ps) = Some (Veth a x)" and "la_Index a \<noteq> 0"
  shows "\<exists>st'. GetVethPeerInfo_netlink N path (dump, st) = Done (GetVethPeerInfo (reported_ops N ps as4 as6 i p) path, dump, st')
    \<and> st_open st' = st_open st"
proof -
  obtain v st' where v: "veth_in_ns_netlink N ns (dump, st) = Done (Inr v, dump, st')" "vv_peerIndex v = sint i"
      "veth_in_ns (reported_ops N ps as4 as6 i p) ns = Inr v" "follows (next_state (next_state st)) st'"
    by (rule veth_in_ns_reported [OF assms(2,3,5,6)])
  have "answered_once (lc_os (nn_host N)) st' RTM_GETLINK NLM_F_ACK [info_msg 0 (sint i) 0 0, ext_mask] 0 (report_bytes p)"
    using assms(4) answered_follows(2) [OF v(4)] by (simp add: host_answers_def)
  then have "\<exists>st''. LinkByIndex (nn_host N) (sint i) (dump, st') = Done (Inr (report_link p), dump, st'') \<and> follows st' st''"
    using LinkByIndex_reported [of "nn_host N" "(dump, st')" "sint i" p] assms(4) by (simp add: host_answers_def)
  then obtain st'' where "LinkByIndex (nn_host N) (sint i) (dump, st') = Done (Inr (report_link p), dump, st'')" "follows st' st''" by blast
  then show ?thesis
    using v assms(1) by (simp add: GetVethPeerInfo_netlink_def GetVethPeerInfo_def reported_ops_def follows_def next_state_def)
qed

section \<open>A pod\<close>

definition pod_lo :: nl_link where "pod_lo = Device (NewLinkAttrs\<lparr>la_Name := ''lo'', la_MTU := 65536, la_TxQLen := 1000\<rparr>)"

definition pod_eth0 :: LinkAttrs where
  "pod_eth0 = NewLinkAttrs\<lparr>la_Name := ''eth0'', la_ParentIndex := 7, la_MTU := 1500, la_HardwareAddr := Some [2, 0, 0, 0, 0, 2]\<rparr>"

definition host_veth :: LinkAttrs where
  "host_veth = NewLinkAttrs\<lparr>la_Name := ''veth0'', la_ParentIndex := 2, la_MTU := 1500, la_HardwareAddr := Some [2, 0, 0, 0, 0, 1]\<rparr>"

definition pod_links :: "report list" where
  "pod_links = [(card_msg 1, pod_lo, []), (card_msg 2, Veth pod_eth0 zeroVeth, addVethAttrs pod_eth0 zeroVeth)]"

definition host_link :: report where "host_link = (card_msg 7, Veth host_veth zeroVeth, addVethAttrs host_veth zeroVeth)"

definition pod_addr6 :: Addr where
  "pod_addr6 = zeroAddr\<lparr>ad_IPNet := Some \<lparr>ipn_IP = Some [0xfd, 0, 0, 1, 0, 0, 0, 0, 0, 0, 0, 0, 0, 0, 0, 2], ipn_Mask = CIDRMask 64 128\<rparr>, ad_LinkIndex := 2\<rparr>"

definition pod_script :: "u8 \<Rightarrow> (NlMsghdr \<times> bytes) list" where
  "pod_script q =
     (if q = 1 then map (script_msg 1 (word_of_int RTM_NEWLINK) NLM_F_MULTI) (map report_bytes pod_links) @ [script_msg 1 NLMSG_DONE NLM_F_MULTI (le32 0)]
      else if q = 2 then map (script_msg 2 (word_of_int RTM_NEWADDR) NLM_F_MULTI) [addr_report example_addr] @ [script_msg 2 NLMSG_DONE NLM_F_MULTI (le32 0)]
      else map (script_msg 3 (word_of_int RTM_NEWADDR) NLM_F_MULTI) [addr_report pod_addr6] @ [script_msg 3 NLMSG_DONE NLM_F_MULTI (le32 0)])"

definition pod_eth :: eth_os where
  "pod_eth = \<lparr>et_socket = (\<lambda>_. Inr 5), et_enslave = (\<lambda>_ _. None), et_sset = (\<lambda>_ _ s. Inr (s\<lparr>ss_data := 1\<rparr>)),
     et_stats = (\<lambda>_ _ b. Inr (take 8 b @ le64 7))\<rparr>"

definition example_node :: "(unit, unit) node_net" where
  "example_node = \<lparr>nn_GetNS = (\<lambda>_. Inr ()), nn_Enter = (\<lambda>_. None), nn_ctx = (\<lambda>_. example_ctx (script_os pod_script)),
     nn_eth = (\<lambda>_. pod_eth), nn_host = example_ctx (script_os (\<lambda>_. [script_msg 4 (word_of_int RTM_NEWLINK) 0 (report_bytes host_link)]))\<rparr>"

lemmas pod_defs = pod_lo_def pod_eth0_def host_veth_def host_link_def card_msg_def NewLinkAttrs_def zeroLinkAttrs_def zeroVeth_def

lemma pod_links_ok: "p \<in> set (host_link # pod_links) \<Longrightarrow> report_ok p"
  by (auto simp: pod_links_def pod_defs report_ok_def plain_link_def plain_base_def is_device_def reported_def int_attr_def attr_if_def
    addVethAttrs_def info_data_def info_msg_def ns_attr_def IfInfomsg_Serialize_def rtaAlignOf_eq)

lemma pod_links_short: "p \<in> set (host_link # pod_links) \<Longrightarrow> length (report_bytes p) < 60000"
  by (auto simp: pod_links_def pod_defs report_bytes_def link_message_def reported_def is_device_def int_attr_def attr_if_def addVethAttrs_def
    info_data_def info_msg_def ns_attr_def IfInfomsg_Serialize_def rtaAlignOf_eq NewRtAttr_def Uint32Attr_def pad4_def)

lemma pod_addr6_plain: "plain_addr pod_addr6"
proof -
  let ?ip = "[0xfd, 0, 0, 1, 0, 0, 0, 0, 0, 0, 0, 0, 0, 0, 0, 2] :: bytes"
  have "ad_IPNet pod_addr6 = Some \<lparr>ipn_IP = Some ?ip, ipn_Mask = CIDRMask 64 128\<rparr>" "ad_Peer pod_addr6 = None"
    by (simp_all add: pod_addr6_def zeroAddr_def)
  moreover have "prefix_net \<lparr>ipn_IP = Some ?ip, ipn_Mask = CIDRMask 64 128\<rparr> ?ip 64" by (simp add: prefix_net_def)
  moreover have "length ?ip = 16 \<and> To4 ?ip = None" by (simp add: To4_def v4InV6Prefix_def)
  ultimately have "\<exists>net ip n. ad_IPNet pod_addr6 = Some net \<and> prefix_net net ip n \<and> (length ip = 4 \<or> length ip = 16 \<and> To4 ip = None)
       \<and> (case ad_Peer pod_addr6 of None \<Rightarrow> True
          | Some p \<Rightarrow> n = 8 * int (length ip) \<and> (\<exists>q k. prefix_net p q k \<and> length q = length ip \<and> q \<noteq> ip))"
    by fastforce
  then show ?thesis by (simp add: plain_addr_def pod_addr6_def zeroAddr_def)
qed

lemma pod_addrs_ok: "addr_ok example_addr" "addr_ok pod_addr6"
  using example_addr_plain pod_addr6_plain
  by (auto simp: addr_ok_def report_attrs_def addr_net_def example_addr_def pod_addr6_def zeroAddr_def ip_bytes_def attr_if_def
    IfaCacheInfo_Serialize_def rtaAlignOf_eq)

lemma pod_addrs_short: "length (addr_report example_addr) < 60000" "length (addr_report pod_addr6) < 60000"
  by (auto simp: addr_report_def report_attrs_def addr_net_def example_addr_def pod_addr6_def zeroAddr_def ip_bytes_def attr_if_def
    IfaCacheInfo_Serialize_def IfAddrmsg_Serialize_def rtaAlignOf_eq NewRtAttr_def Uint32Attr_def pad4_def)

lemma script_states: "script_state 0 = idle_state" "next_state (script_state n) = script_state (n + 1)"
  by (simp_all add: script_state_def idle_state_def next_state_def)

lemma script_selected: "selected t (map (script_msg n t NLM_F_MULTI) bs) = bs"
  by (simp add: script_msg_def comp_def)

lemma link_types: "(word_of_int RTM_NEWLINK :: u16) \<noteq> NLMSG_DONE" "(word_of_int RTM_NEWLINK :: u16) \<noteq> NLMSG_ERROR"
  "(word_of_int RTM_NEWADDR :: u16) \<noteq> NLMSG_DONE" "(word_of_int RTM_NEWADDR :: u16) \<noteq> NLMSG_ERROR"
  by (simp_all add: RTM_NEWLINK_def RTM_NEWADDR_def NLMSG_DONE_def NLMSG_ERROR_def)

lemma v6_example: "v6_groups [0xfd, 0, 0, 1, 0, 0, 0, 0, 0, 0, 0, 0, 0, 0, 0, 2] = [64768, 1, 0, 0, 0, 0, 0, 2]"
  by (simp add: v6_groups_def upt_rec)

lemma zeros_example: "longest_zeros [64768, 1, 0, 0, 0, 0, 0, 2] = Some (2, 7)"
  by (simp add: longest_zeros_def zero_run_def upt_rec)

lemma hex_example: "hex_text 64768 = ''fd00''" "hex_text 1 = ''1''" "hex_text 2 = ''2''"
  by (simp_all add: hex_text.simps hex_digit_def)

lemma digits_example: "digit_char 1 = CHR ''1''" "digit_char 0 = CHR ''0''" "digit_char 3 = CHR ''3''" "digit_char 2 = CHR ''2''"
  by code_simp+

lemma dotted_example: "IP_String (Some [10, 0, 3, 2]) = ''10.0.3.2''"
  using digits_example by (simp add: IP_String_def ip_bytes_def To4_def dotted_def FormatUint.simps)

lemma v6_text_example: "IP_String (Some [0xfd, 0, 0, 1, 0, 0, 0, 0, 0, 0, 0, 0, 0, 0, 0, 2]) = ''fd00:1::2''"
proof -
  have "v6_text [64768, 1, 0, 0, 0, 0, 0, 2] = ''fd00:1::2''"
    unfolding v6_text_def zeros_example using hex_example by simp
  then show ?thesis using v6_example by (simp add: IP_String_def ip_bytes_def To4_def v4InV6Prefix_def)
qed

lemma example_ctx_simps [simp]: "lc_h (example_ctx os) = None" "lc_os (example_ctx os) = os"
  by (simp_all add: example_ctx_def)

lemma pod_answered: "pod_answers (example_ctx (script_os pod_script)) pod_eth idle_state pod_links ''eth0'' 7 [example_addr] [pod_addr6]"
proof -
  note a = script_answered [where f = pod_script and code = 0, OF _ link_types(1,2)]
    and b = script_answered [where f = pod_script and code = 0, OF _ link_types(3,4)]
  have "answered (script_os pod_script) (script_state 0) RTM_GETLINK NLM_F_DUMP [info_msg 0 0 0 0, ext_mask]
      (map (script_msg (0 + 1) (word_of_int RTM_NEWLINK) NLM_F_MULTI) (map report_bytes pod_links)) 0"
    by (rule a) (use pod_links_short in \<open>auto simp: pod_script_def\<close>)
  moreover have "answered (script_os pod_script) (script_state 1) RTM_GETADDR NLM_F_DUMP [StructData (IfAddrmsg_Serialize (NewIfAddrmsg FAMILY_V4))]
      (map (script_msg (1 + 1) (word_of_int RTM_NEWADDR) NLM_F_MULTI) (map addr_report [example_addr])) 0"
    by (rule b) (use pod_addrs_short in \<open>auto simp: pod_script_def\<close>)
  moreover have "answered (script_os pod_script) (script_state 2) RTM_GETADDR NLM_F_DUMP [StructData (IfAddrmsg_Serialize (NewIfAddrmsg FAMILY_V6))]
      (map (script_msg (2 + 1) (word_of_int RTM_NEWADDR) NLM_F_MULTI) (map addr_report [pod_addr6])) 0"
    by (rule b) (use pod_addrs_short in \<open>auto simp: pod_script_def\<close>)
  moreover have "peer_reported pod_eth idle_state ''eth0'' 7"
    by (auto simp: peer_reported_def pod_eth_def idle_state_def newIocltStringSetReq_def vethStatsSerialize_def)
  moreover have "next_state idle_state = script_state 1" "next_state (next_state idle_state) = script_state 2"
    by (simp_all add: script_states flip: script_states(1))
  moreover have "\<forall>p \<in> set pod_links. report_ok p" "\<forall>a \<in> set [example_addr] \<union> set [pod_addr6]. addr_ok a"
    using pod_links_ok pod_addrs_ok by simp_all
  ultimately show ?thesis
    unfolding pod_answers_def script_states(1) by (metis script_selected example_ctx_simps)
qed

lemma host_answered: "host_answers (nn_host example_node) idle_state 7 host_link"
proof -
  have "answered_once (script_os (\<lambda>_. [script_msg 4 (word_of_int RTM_NEWLINK) 0 (report_bytes host_link)])) (script_state 3) RTM_GETLINK NLM_F_ACK
      [info_msg 0 7 0 0, ext_mask] 0 (report_bytes host_link)"
    by (rule script_answered_once [OF _ link_types(1,2)]) (use pod_links_short in simp_all)
  moreover have "next_state (next_state (next_state idle_state)) = script_state 3"
    by (simp add: script_states flip: script_states(1))
  ultimately show ?thesis using pod_links_ok by (simp add: host_answers_def example_node_def example_ctx_def)
qed

lemma pod_veth: "List.find (\<lambda>l. link_Type l = ''veth'') (map report_link pod_links) = Some (Veth (read_attrs (card_msg 2) pod_eth0) zeroVeth)"
  by (simp add: pod_links_def report_link_def pod_lo_def)

lemma GetVethPeerInfo_reported_witness:
  "\<exists>st'. GetVethPeerInfo_netlink example_node ''/proc/7/ns/net'' (False, idle_state)
      = Done (Inr \<lparr>VethHostMac = ''02:00:00:00:00:01'', VethHostName = ''veth0'', VethLXCMac = ''02:00:00:00:00:02'', VethLXCName = ''eth0'',
          VethIP = ''10.0.3.2'', VethIPv6 = ''fd00:1::2'', VethHostIdx = 7\<rparr>, False, st') \<and> st_open st' = []"
proof -
  let ?a = "read_attrs (card_msg 2) pod_eth0"
  let ?V = "reported_ops example_node pod_links [example_addr] [pod_addr6] 7 host_link"
  have g: "nn_GetNS example_node p = Inr ()" for p by (simp add: example_node_def)
  have n: "nn_Enter example_node () = None" "nn_ctx example_node () = example_ctx (script_os pod_script)"
    "nn_eth example_node () = pod_eth" by (simp_all add: example_node_def)
  have a: "la_Name ?a = ''eth0''" "la_Index ?a = 2" "la_HardwareAddr ?a = Some [2, 0, 0, 0, 0, 2]"
    by (simp_all add: read_attrs_def link_base_def pod_defs)
  have h: "la_Name (link_Attrs (report_link host_link)) = ''veth0''" "la_Index (link_Attrs (report_link host_link)) = 7"
    "la_HardwareAddr (link_Attrs (report_link host_link)) = Some [2, 0, 0, 0, 0, 1]"
    by (simp_all add: report_link_def read_attrs_def link_base_def pod_defs)
  have mac: "hw_String [2, 0, 0, 0, 0, 1] = ''02:00:00:00:00:01''" "hw_String [2, 0, 0, 0, 0, 2] = ''02:00:00:00:00:02''"
    by (simp_all add: hw_String_def hex_digit_def)
  have f: "first_text (filter (on_link (Veth ?a zeroVeth) FAMILY_V4) [example_addr]) = ''10.0.3.2''"
    "first_text (filter (on_link (Veth ?a zeroVeth) FAMILY_V6) [pod_addr6]) = ''fd00:1::2''"
    using dotted_example v6_text_example
    by (simp_all add: first_text_def on_link_def a addr_family_def addr_text_def example_addr_def pod_addr6_def zeroAddr_def GetIPFamily_def
        ip_bytes_def To4_def v4InV6Prefix_def)
  have "veth_in_ns ?V () = Inr \<lparr>vv_LXCMac = ''02:00:00:00:00:02'', vv_LXCName = ''eth0'', vv_peerIndex = 7, vv_IP = ''10.0.3.2'', vv_IPv6 = ''fd00:1::2''\<rparr>"
    using f by (simp add: veth_in_ns_def reported_ops_def n scan_links_find(2) [OF pod_veth] a mac ip_bytes_def families)
  then have "GetVethPeerInfo ?V ''/proc/7/ns/net'' = Inr \<lparr>VethHostMac = ''02:00:00:00:00:01'', VethHostName = ''veth0'', VethLXCMac = ''02:00:00:00:00:02'',
      VethLXCName = ''eth0'', VethIP = ''10.0.3.2'', VethIPv6 = ''fd00:1::2'', VethHostIdx = 7\<rparr>"
    by (simp add: GetVethPeerInfo_def reported_ops_def g n peer_info_def h mac ip_bytes_def)
  moreover have "pod_answers (nn_ctx example_node ()) (nn_eth example_node ()) idle_state pod_links (la_Name ?a) 7 [example_addr] [pod_addr6]"
    using pod_answered by (simp add: n a)
  ultimately show ?thesis
    using GetVethPeerInfo_reported [of example_node "''/proc/7/ns/net''" "()" idle_state pod_links ?a 7 "[example_addr]" "[pod_addr6]" host_link zeroVeth False]
      g n(1) host_answered pod_veth a(2) by (simp add: idle_state_def)
qed

end
