(* ===== verification/NlQdisc.thy ===== *)
theory NlQdisc
  imports NlAddr NlFilter
begin

text \<open>
  Queueing disciplines, \<open>qdisc.go\<close> and \<open>qdisc_linux.go\<close>, with the message of \<open>sfq\<close> in \<open>nl/tc_linux.go\<close>. The interface
  \<open>Qdisc\<close> is a datatype with one constructor for every Go type, which is paired with the attributes that all of them
  embed. The options are parsed into a fresh value of the kind that the message has named before them.
\<close>

section \<open>Types\<close>

record QdiscAttrs =
  qa_LinkIndex :: int
  qa_Handle :: u32
  qa_Parent :: u32
  qa_Refcnt :: u32

record PrioData =
  pr_Bands :: u8
  pr_PriorityMap :: bytes

record HtbData =
  ht_Version :: u32
  ht_Rate2Quantum :: u32
  ht_Defcls :: u32
  ht_Debug :: u32
  ht_DirectPkts :: u32

record NetemData =
  ne_Latency :: u32
  ne_DelayCorr :: u32
  ne_Limit :: u32
  ne_Loss :: u32
  ne_LossCorr :: u32
  ne_Gap :: u32
  ne_Duplicate :: u32
  ne_DuplicateCorr :: u32
  ne_Jitter :: u32
  ne_ReorderProb :: u32
  ne_ReorderCorr :: u32
  ne_CorruptProb :: u32
  ne_CorruptCorr :: u32

record TbfData =
  tb_Rate :: u64
  tb_Limit :: u32
  tb_Buffer :: u32
  tb_Peakrate :: u64
  tb_Minburst :: u32

record FqData =
  fq_PacketLimit :: u32
  fq_FlowPacketLimit :: u32
  fq_Quantum :: u32
  fq_InitialQuantum :: u32
  fq_Pacing :: u32
  fq_FlowDefaultRate :: u32
  fq_FlowMaxRate :: u32
  fq_Buckets :: u32
  fq_FlowRefillDelay :: u32
  fq_LowRateThreshold :: u32

record FqCodelData =
  fc_Target :: u32
  fc_Limit :: u32
  fc_Interval :: u32
  fc_ECN :: u32
  fc_Flows :: u32
  fc_Quantum :: u32
  fc_CEThreshold :: u32
  fc_DropBatchSize :: u32
  fc_MemoryLimit :: u32

record SfqData =
  sf_Quantum :: u8
  sf_Perturb :: u8
  sf_Limit :: u32
  sf_Divisor :: u8

datatype qdisc =
    PfifoFast QdiscAttrs PrioData | Prio QdiscAttrs PrioData | Htb QdiscAttrs HtbData | Netem QdiscAttrs NetemData
  | Tbf QdiscAttrs TbfData | Ingress QdiscAttrs | GenericQdisc QdiscAttrs string | Hfsc QdiscAttrs u16 | Fq QdiscAttrs FqData
  | FqCodel QdiscAttrs FqCodelData | Sfq QdiscAttrs SfqData

fun qdisc_Attrs :: "qdisc \<Rightarrow> QdiscAttrs" where
  "qdisc_Attrs (PfifoFast a x) = a"
| "qdisc_Attrs (Prio a x) = a"
| "qdisc_Attrs (Htb a x) = a"
| "qdisc_Attrs (Netem a x) = a"
| "qdisc_Attrs (Tbf a x) = a"
| "qdisc_Attrs (Ingress a) = a"
| "qdisc_Attrs (GenericQdisc a k) = a"
| "qdisc_Attrs (Hfsc a d) = a"
| "qdisc_Attrs (Fq a x) = a"
| "qdisc_Attrs (FqCodel a x) = a"
| "qdisc_Attrs (Sfq a x) = a"

fun qdisc_Type :: "qdisc \<Rightarrow> string" where
  "qdisc_Type (PfifoFast a x) = ''pfifo_fast''"
| "qdisc_Type (Prio a x) = ''prio''"
| "qdisc_Type (Htb a x) = ''htb''"
| "qdisc_Type (Netem a x) = ''netem''"
| "qdisc_Type (Tbf a x) = ''tbf''"
| "qdisc_Type (Ingress a) = ''ingress''"
| "qdisc_Type (GenericQdisc a k) = k"
| "qdisc_Type (Hfsc a d) = ''hfsc''"
| "qdisc_Type (Fq a x) = ''fq''"
| "qdisc_Type (FqCodel a x) = ''fq_codel''"
| "qdisc_Type (Sfq a x) = ''sfq''"

fun set_qdisc_Attrs :: "QdiscAttrs \<Rightarrow> qdisc \<Rightarrow> qdisc" where
  "set_qdisc_Attrs b (PfifoFast a x) = PfifoFast b x"
| "set_qdisc_Attrs b (Prio a x) = Prio b x"
| "set_qdisc_Attrs b (Htb a x) = Htb b x"
| "set_qdisc_Attrs b (Netem a x) = Netem b x"
| "set_qdisc_Attrs b (Tbf a x) = Tbf b x"
| "set_qdisc_Attrs b (Ingress a) = Ingress b"
| "set_qdisc_Attrs b (GenericQdisc a k) = GenericQdisc b k"
| "set_qdisc_Attrs b (Hfsc a d) = Hfsc b d"
| "set_qdisc_Attrs b (Fq a x) = Fq b x"
| "set_qdisc_Attrs b (FqCodel a x) = FqCodel b x"
| "set_qdisc_Attrs b (Sfq a x) = Sfq b x"

definition zeroQdiscAttrs :: QdiscAttrs where
  "zeroQdiscAttrs = \<lparr>qa_LinkIndex = 0, qa_Handle = 0, qa_Parent = 0, qa_Refcnt = 0\<rparr>"

definition zeroPrio :: PrioData where "zeroPrio = \<lparr>pr_Bands = 0, pr_PriorityMap = replicate 16 0\<rparr>"

definition zeroHtb :: HtbData where
  "zeroHtb = \<lparr>ht_Version = 0, ht_Rate2Quantum = 0, ht_Defcls = 0, ht_Debug = 0, ht_DirectPkts = 0\<rparr>"

definition zeroNetem :: NetemData where
  "zeroNetem = \<lparr>ne_Latency = 0, ne_DelayCorr = 0, ne_Limit = 0, ne_Loss = 0, ne_LossCorr = 0, ne_Gap = 0, ne_Duplicate = 0,
     ne_DuplicateCorr = 0, ne_Jitter = 0, ne_ReorderProb = 0, ne_ReorderCorr = 0, ne_CorruptProb = 0, ne_CorruptCorr = 0\<rparr>"

definition zeroTbf :: TbfData where
  "zeroTbf = \<lparr>tb_Rate = 0, tb_Limit = 0, tb_Buffer = 0, tb_Peakrate = 0, tb_Minburst = 0\<rparr>"

definition zeroFq :: FqData where
  "zeroFq = \<lparr>fq_PacketLimit = 0, fq_FlowPacketLimit = 0, fq_Quantum = 0, fq_InitialQuantum = 0, fq_Pacing = 0, fq_FlowDefaultRate = 0,
     fq_FlowMaxRate = 0, fq_Buckets = 0, fq_FlowRefillDelay = 0, fq_LowRateThreshold = 0\<rparr>"

definition zeroFqCodel :: FqCodelData where
  "zeroFqCodel = \<lparr>fc_Target = 0, fc_Limit = 0, fc_Interval = 0, fc_ECN = 0, fc_Flows = 0, fc_Quantum = 0, fc_CEThreshold = 0,
     fc_DropBatchSize = 0, fc_MemoryLimit = 0\<rparr>"

definition zeroSfq :: SfqData where "zeroSfq = \<lparr>sf_Quantum = 0, sf_Perturb = 0, sf_Limit = 0, sf_Divisor = 0\<rparr>"

text \<open>The constructors with the defaults of the library.\<close>

definition NewPrio :: "QdiscAttrs \<Rightarrow> qdisc" where
  "NewPrio attrs = Prio attrs \<lparr>pr_Bands = 3, pr_PriorityMap = [1, 2, 2, 2, 1, 2, 0, 0, 1, 1, 1, 1, 1, 1, 1, 1]\<rparr>"

definition NewHtb :: "QdiscAttrs \<Rightarrow> qdisc" where
  "NewHtb attrs = Htb attrs \<lparr>ht_Version = 3, ht_Rate2Quantum = 10, ht_Defcls = 0, ht_Debug = 0, ht_DirectPkts = 0\<rparr>"

definition NewHfsc :: "QdiscAttrs \<Rightarrow> qdisc" where "NewHfsc attrs = Hfsc attrs 1"

definition NewFq :: "QdiscAttrs \<Rightarrow> qdisc" where "NewFq attrs = Fq attrs (zeroFq\<lparr>fq_Pacing := 1\<rparr>)"

definition NewFqCodel :: "QdiscAttrs \<Rightarrow> qdisc" where "NewFqCodel attrs = FqCodel attrs (zeroFqCodel\<lparr>fc_ECN := 1\<rparr>)"

section \<open>The message of sfq\<close>

text \<open>
  The Go struct is aligned to 68 bytes, the array it is cast to has the 63 bytes of \<open>SizeofTcSfqQoptV1\<close>. Of what is read
  the library uses the embedded \<open>TcSfqQopt\<close> only.
\<close>

record TcSfqQoptV1 =
  sv_Qopt :: TcSfqQopt
  sv_Depth :: u32
  sv_HeadDrop :: u32
  sv_Limit :: u32
  sv_QthMin :: u32
  sv_QthMax :: u32
  sv_Wlog :: u8
  sv_Plog :: u8
  sv_ScellLog :: u8
  sv_Flags :: u8
  sv_MaxP :: u32
  sv_RedStats :: TcSfqRedStats

definition SizeofTcSfqQoptV1 :: nat where "SizeofTcSfqQoptV1 = SizeofTcSfqQopt + SizeofTcSfqRedStats + 0x1c"

definition TcSfqQoptV1_Serialize :: "TcSfqQoptV1 \<Rightarrow> bytes" where
  "TcSfqQoptV1_Serialize x =
     take SizeofTcSfqQoptV1 (sfq_layout (sv_Qopt x) @ le32 (sv_Depth x) @ le32 (sv_HeadDrop x) @ le32 (sv_Limit x) @ le32 (sv_QthMin x)
       @ le32 (sv_QthMax x) @ le8 (sv_Wlog x) @ le8 (sv_Plog x) @ le8 (sv_ScellLog x) @ le8 (sv_Flags x) @ le32 (sv_MaxP x)
       @ TcSfqRedStats_Serialize (sv_RedStats x))"

definition DeserializeTcSfqQoptV1 :: "bytes \<Rightarrow> TcSfqQopt outcome" where
  "DeserializeTcSfqQoptV1 b =
     (if length b < SizeofTcSfqQoptV1 then Panic SliceBounds
      else Done \<lparr>sq_Quantum = ru8 0 b, sq_Perturb = ru32 4 b, sq_Limit = ru32 8 b, sq_Divisor = ru8 12 b, sq_Flows = ru8 13 b\<rparr>)"

definition zeroSfqV1 :: TcSfqQoptV1 where
  "zeroSfqV1 = \<lparr>sv_Qopt = \<lparr>sq_Quantum = 0, sq_Perturb = 0, sq_Limit = 0, sq_Divisor = 0, sq_Flows = 0\<rparr>, sv_Depth = 0, sv_HeadDrop = 0,
     sv_Limit = 0, sv_QthMin = 0, sv_QthMax = 0, sv_Wlog = 0, sv_Plog = 0, sv_ScellLog = 0, sv_Flags = 0, sv_MaxP = 0,
     sv_RedStats = \<lparr>sr_ProbDrop = 0, sr_ForcedDrop = 0, sr_ProbMark = 0, sr_ForcedMark = 0, sr_ProbMarkHead = 0, sr_ForcedMarkHead = 0\<rparr>\<rparr>"

lemma sfq_read: "DeserializeTcSfqQoptV1 (TcSfqQoptV1_Serialize x) = Done (sv_Qopt x)"
proof -
  define p :: bytes where "p = replicate 3 0"
  define q :: bytes where "q = replicate 2 0"
  have l: "length p = 3" "length q = 2" by (simp_all add: p_def q_def)
  have s: "sfq_layout y = le8 (sq_Quantum y) @ p @ le32 (sq_Perturb y) @ le32 (sq_Limit y) @ le8 (sq_Divisor y) @ le8 (sq_Flows y) @ q" for y
    unfolding sfq_layout_def p_def q_def ..
  obtain r where "TcSfqQoptV1_Serialize x = sfq_layout (sv_Qopt x) @ r" "length r = 47"
    by (simp add: TcSfqQoptV1_Serialize_def SizeofTcSfqQoptV1_def tc_sizes s l) (simp add: tc_enc)
  then show ?thesis
    using l by (simp add: DeserializeTcSfqQoptV1_def SizeofTcSfqQoptV1_def tc_sizes s tc_read)
qed

section \<open>Encoding\<close>

datatype qdisc_error = IngressParent

definition RTM_NEWQDISC :: int where "RTM_NEWQDISC = 36"
definition RTM_DELQDISC :: int where "RTM_DELQDISC = 37"
definition RTM_GETQDISC :: int where "RTM_GETQDISC = 38"

definition netem_options :: "NetemData \<Rightarrow> request_data" where
  "netem_options x =
     RtAttr 2 (TcNetemQopt_Serialize \<lparr>nq_Latency = ne_Latency x, nq_Limit = ne_Limit x, nq_Loss = ne_Loss x, nq_Gap = ne_Gap x,
         nq_Duplicate = ne_Duplicate x, nq_Jitter = ne_Jitter x\<rparr>)
       (attr_if (ne_DelayCorr x > 0 \<or> ne_LossCorr x > 0 \<or> ne_DuplicateCorr x > 0) 1
          (TcNetemCorr_Serialize \<lparr>nc_DelayCorr = ne_DelayCorr x, nc_LossCorr = ne_LossCorr x, nc_DupCorr = ne_DuplicateCorr x\<rparr>)
        @ attr_if (ne_CorruptProb x > 0) 4 (TcNetemCorrupt_Serialize \<lparr>nco_Probability = ne_CorruptProb x, nco_Correlation = ne_CorruptCorr x\<rparr>)
        @ attr_if (ne_ReorderProb x > 0) 3 (TcNetemReorder_Serialize \<lparr>nr_Probability = ne_ReorderProb x, nr_Correlation = ne_ReorderCorr x\<rparr>))"

definition tbf_options :: "TbfData \<Rightarrow> request_data list" where
  "tbf_options x =
     [NewRtAttr 1 (TcTbfQopt_Serialize \<lparr>tbf_Rate = zero_rate\<lparr>rs_Rate := ucast (tb_Rate x)\<rparr>, tbf_Peakrate = zero_rate\<lparr>rs_Rate := ucast (tb_Peakrate x)\<rparr>,
        tbf_Limit = tb_Limit x, tbf_Buffer = tb_Buffer x, tbf_Mtu = 0\<rparr>)]
     @ attr_if (tb_Rate x \<ge> push_bit 32 1) 4 (Uint64Attr (tb_Rate x))
     @ attr_if (tb_Peakrate x \<ge> push_bit 32 1) 5 (Uint64Attr (tb_Peakrate x))
     @ attr_if (tb_Peakrate x > 0) 7 (Uint32Attr (tb_Minburst x))"

definition htb_options :: "HtbData \<Rightarrow> request_data list" where
  "htb_options x = [NewRtAttr 2 (TcHtbGlob_Serialize \<lparr>hg_Version = ht_Version x, hg_Rate2Quantum = ht_Rate2Quantum x,
     hg_Defcls = ht_Defcls x, hg_Debug = ht_Debug x, hg_DirectPkts = ht_DirectPkts x\<rparr>)]"

definition u32_if :: "u32 \<Rightarrow> int \<Rightarrow> request_data list" where
  "u32_if v t = attr_if (v > 0) t (Uint32Attr v)"

definition fq_codel_options :: "FqCodelData \<Rightarrow> request_data list" where
  "fq_codel_options x =
     [NewRtAttr 4 (Uint32Attr (fc_ECN x))] @ u32_if (fc_Limit x) 2 @ u32_if (fc_Interval x) 3 @ u32_if (fc_Flows x) 5
     @ u32_if (fc_Quantum x) 6 @ u32_if (fc_CEThreshold x) 7 @ u32_if (fc_DropBatchSize x) 8 @ u32_if (fc_MemoryLimit x) 9"

definition fq_options :: "FqData \<Rightarrow> request_data list" where
  "fq_options x =
     [NewRtAttr 5 (Uint32Attr (fq_Pacing x))] @ u32_if (fq_Buckets x) 8 @ u32_if (fq_LowRateThreshold x) 11 @ u32_if (fq_Quantum x) 3
     @ u32_if (fq_InitialQuantum x) 4 @ u32_if (fq_FlowRefillDelay x) 9 @ u32_if (fq_FlowPacketLimit x) 2 @ u32_if (fq_FlowMaxRate x) 7
     @ u32_if (fq_FlowDefaultRate x) 6"

text \<open>The options by the switch on the type; \<open>None\<close> is the nil attribute of its default, which is not sent.\<close>

fun qdisc_options :: "qdisc \<Rightarrow> qdisc_error + request_data option" where
  "qdisc_options (Prio a x) = Inr (Some (NewRtAttr 2 (TcPrioMap_Serialize \<lparr>pm_Bands = ucast (pr_Bands x), pm_Priomap = pr_PriorityMap x\<rparr>)))"
| "qdisc_options (Tbf a x) = Inr (Some (RtAttr 2 [] (tbf_options x)))"
| "qdisc_options (Htb a x) = Inr (Some (RtAttr 2 [] (htb_options x)))"
| "qdisc_options (Hfsc a d) = Inr (Some (NewRtAttr 2 (TcHfscOpt_Serialize \<lparr>ho_Defcls = d\<rparr>)))"
| "qdisc_options (Netem a x) = Inr (Some (netem_options x))"
| "qdisc_options (Ingress a) = (if qa_Parent a \<noteq> HANDLE_INGRESS then Inl IngressParent else Inr (Some (NewRtAttr 2 [])))"
| "qdisc_options (FqCodel a x) = Inr (Some (RtAttr 2 [] (fq_codel_options x)))"
| "qdisc_options (Fq a x) = Inr (Some (RtAttr 2 [] (fq_options x)))"
| "qdisc_options (Sfq a x) = Inr (Some (NewRtAttr 2 (TcSfqQoptV1_Serialize (zeroSfqV1\<lparr>sv_Qopt := \<lparr>sq_Quantum = sf_Quantum x,
     sq_Perturb = ucast (sf_Perturb x), sq_Limit = sf_Limit x, sq_Divisor = sf_Divisor x, sq_Flows = 0\<rparr>\<rparr>))))"
| "qdisc_options q = Inr None"

definition qdiscPayload :: "qdisc \<Rightarrow> qdisc_error + request_data list" where
  "qdiscPayload q =
     map_sum id (\<lambda>options. NewRtAttr 1 (ZeroTerminated (qdisc_Type q)) # (case options of None \<Rightarrow> [] | Some d \<Rightarrow> [d])) (qdisc_options q)"

definition qdisc_msg :: "QdiscAttrs \<Rightarrow> u32 \<Rightarrow> TcMsg" where
  "qdisc_msg base info = tc_msg (qa_LinkIndex base) (qa_Handle base) (qa_Parent base) info"

definition qdisc_request :: "int \<Rightarrow> qdisc \<Rightarrow> qdisc_error + request_data list" where
  "qdisc_request cmd q =
     map_sum id (\<lambda>ds. StructData (TcMsg_Serialize (qdisc_msg (qdisc_Attrs q) 0)) # ds) (if cmd \<noteq> RTM_DELQDISC then qdiscPayload q else Inr [])"

type_synonym qdisc_result = "(qdisc_error call_error option \<times> nl_state) outcome"

definition qdiscModify :: "link_ctx \<Rightarrow> int \<Rightarrow> int \<Rightarrow> qdisc \<Rightarrow> nl_state \<Rightarrow> qdisc_result" where
  "qdiscModify c cmd flags q = modify_request (lc_os c) (lc_ack c) (lc_h c) cmd (flags OR NLM_F_ACK) (Done (qdisc_request cmd q))"

definition QdiscDel :: "link_ctx \<Rightarrow> qdisc \<Rightarrow> nl_state \<Rightarrow> qdisc_result" where
  "QdiscDel c = qdiscModify c RTM_DELQDISC 0"

definition QdiscChange :: "link_ctx \<Rightarrow> qdisc \<Rightarrow> nl_state \<Rightarrow> qdisc_result" where
  "QdiscChange c = qdiscModify c RTM_NEWQDISC 0"

definition QdiscReplace :: "link_ctx \<Rightarrow> qdisc \<Rightarrow> nl_state \<Rightarrow> qdisc_result" where
  "QdiscReplace c = qdiscModify c RTM_NEWQDISC (NLM_F_CREATE OR NLM_F_REPLACE)"

definition QdiscAdd :: "link_ctx \<Rightarrow> qdisc \<Rightarrow> nl_state \<Rightarrow> qdisc_result" where
  "QdiscAdd c = qdiscModify c RTM_NEWQDISC (NLM_F_CREATE OR NLM_F_EXCL)"

section \<open>Decoding\<close>

definition value_u64 :: "bytes \<Rightarrow> u64 outcome" where
  "value_u64 v = (if length v < 8 then Panic SliceBounds else Done (ru64 0 v))"

definition parsePrioData :: "bytes \<Rightarrow> PrioData outcome" where
  "parsePrioData v = obind (DeserializeTcPrioMap v) (\<lambda>m. Done \<lparr>pr_Bands = ucast (pm_Bands m), pr_PriorityMap = pm_Priomap m\<rparr>)"

definition parsePfifoFastData :: "bytes \<Rightarrow> PrioData outcome" where "parsePfifoFastData = parsePrioData"

definition htb_datum :: "NetlinkRouteAttr \<Rightarrow> HtbData \<Rightarrow> HtbData outcome" where
  "htb_datum d x =
     (if ra_Type d = 2
      then obind (DeserializeTcHtbGlob (ra_Value d)) (\<lambda>g. Done \<lparr>ht_Version = hg_Version g, ht_Rate2Quantum = hg_Rate2Quantum g,
        ht_Defcls = hg_Defcls g, ht_Debug = hg_Debug g, ht_DirectPkts = hg_DirectPkts g\<rparr>)
      else Done x)"

definition parseHtbData :: "NetlinkRouteAttr list \<Rightarrow> HtbData \<Rightarrow> HtbData outcome" where "parseHtbData = each_attr htb_datum"

definition fq_codel_datum :: "NetlinkRouteAttr \<Rightarrow> FqCodelData \<Rightarrow> FqCodelData outcome" where
  "fq_codel_datum d x =
     (let v = getle32 (ra_Value d); t = ra_Type d in
      if t = 1 then obind v (\<lambda>n. Done (x\<lparr>fc_Target := n\<rparr>))
      else if t = 2 then obind v (\<lambda>n. Done (x\<lparr>fc_Limit := n\<rparr>))
      else if t = 3 then obind v (\<lambda>n. Done (x\<lparr>fc_Interval := n\<rparr>))
      else if t = 4 then obind v (\<lambda>n. Done (x\<lparr>fc_ECN := n\<rparr>))
      else if t = 5 then obind v (\<lambda>n. Done (x\<lparr>fc_Flows := n\<rparr>))
      else if t = 6 then obind v (\<lambda>n. Done (x\<lparr>fc_Quantum := n\<rparr>))
      else if t = 7 then obind v (\<lambda>n. Done (x\<lparr>fc_CEThreshold := n\<rparr>))
      else if t = 8 then obind v (\<lambda>n. Done (x\<lparr>fc_DropBatchSize := n\<rparr>))
      else if t = 9 then obind v (\<lambda>n. Done (x\<lparr>fc_MemoryLimit := n\<rparr>))
      else Done x)"

definition parseFqCodelData :: "NetlinkRouteAttr list \<Rightarrow> FqCodelData \<Rightarrow> FqCodelData outcome" where "parseFqCodelData = each_attr fq_codel_datum"

definition parseHfscData :: "bytes \<Rightarrow> u16 outcome" where "parseHfscData v = getle16 v"

definition fq_datum :: "NetlinkRouteAttr \<Rightarrow> FqData \<Rightarrow> FqData outcome" where
  "fq_datum d x =
     (let v = getle32 (ra_Value d); t = ra_Type d in
      if t = 8 then obind v (\<lambda>n. Done (x\<lparr>fq_Buckets := n\<rparr>))
      else if t = 11 then obind v (\<lambda>n. Done (x\<lparr>fq_LowRateThreshold := n\<rparr>))
      else if t = 3 then obind v (\<lambda>n. Done (x\<lparr>fq_Quantum := n\<rparr>))
      else if t = 5 then obind v (\<lambda>n. Done (x\<lparr>fq_Pacing := n\<rparr>))
      else if t = 4 then obind v (\<lambda>n. Done (x\<lparr>fq_InitialQuantum := n\<rparr>))
      else if t = 9 then obind v (\<lambda>n. Done (x\<lparr>fq_FlowRefillDelay := n\<rparr>))
      else if t = 2 then obind v (\<lambda>n. Done (x\<lparr>fq_FlowPacketLimit := n\<rparr>))
      else if t = 1 then obind v (\<lambda>n. Done (x\<lparr>fq_PacketLimit := n\<rparr>))
      else if t = 7 then obind v (\<lambda>n. Done (x\<lparr>fq_FlowMaxRate := n\<rparr>))
      else if t = 6 then obind v (\<lambda>n. Done (x\<lparr>fq_FlowDefaultRate := n\<rparr>))
      else Done x)"

definition parseFqData :: "NetlinkRouteAttr list \<Rightarrow> FqData \<Rightarrow> FqData outcome" where "parseFqData = each_attr fq_datum"

definition netem_datum :: "NetlinkRouteAttr \<Rightarrow> NetemData \<Rightarrow> NetemData outcome" where
  "netem_datum d x =
     (let v = ra_Value d; t = ra_Type d in
      if t = 1 then obind (DeserializeTcNetemCorr v) (\<lambda>w.
        Done (x\<lparr>ne_DelayCorr := nc_DelayCorr w, ne_LossCorr := nc_LossCorr w, ne_DuplicateCorr := nc_DupCorr w\<rparr>))
      else if t = 4 then obind (DeserializeTcNetemCorrupt v) (\<lambda>w. Done (x\<lparr>ne_CorruptProb := nco_Probability w, ne_CorruptCorr := nco_Correlation w\<rparr>))
      else if t = 3 then obind (DeserializeTcNetemReorder v) (\<lambda>w. Done (x\<lparr>ne_ReorderProb := nr_Probability w, ne_ReorderCorr := nr_Correlation w\<rparr>))
      else Done x)"

definition parseNetemData :: "bytes \<Rightarrow> NetemData \<Rightarrow> (link_error + NetemData) outcome" where
  "parseNetemData value x =
     obind (DeserializeTcNetemQopt value) (\<lambda>opt.
       rbind (link_attrs_of (drop SizeofTcNetemQopt value)) (\<lambda>data.
         obind (each_attr netem_datum data (x\<lparr>ne_Latency := nq_Latency opt, ne_Limit := nq_Limit opt, ne_Loss := nq_Loss opt,
           ne_Gap := nq_Gap opt, ne_Duplicate := nq_Duplicate opt, ne_Jitter := nq_Jitter opt\<rparr>)) (\<lambda>x. Done (Inr x))))"

definition tbf_datum :: "NetlinkRouteAttr \<Rightarrow> TbfData \<Rightarrow> TbfData outcome" where
  "tbf_datum d x =
     (let v = ra_Value d; t = ra_Type d in
      if t = 1 then obind (DeserializeTcTbfQopt v) (\<lambda>w.
        Done (x\<lparr>tb_Rate := ucast (rs_Rate (tbf_Rate w)), tb_Peakrate := ucast (rs_Rate (tbf_Peakrate w)), tb_Limit := tbf_Limit w, tb_Buffer := tbf_Buffer w\<rparr>))
      else if t = 4 then obind (value_u64 v) (\<lambda>n. Done (x\<lparr>tb_Rate := n\<rparr>))
      else if t = 5 then obind (value_u64 v) (\<lambda>n. Done (x\<lparr>tb_Peakrate := n\<rparr>))
      else if t = 7 then obind (value_u32 v) (\<lambda>n. Done (x\<lparr>tb_Minburst := n\<rparr>))
      else Done x)"

definition parseTbfData :: "NetlinkRouteAttr list \<Rightarrow> TbfData \<Rightarrow> TbfData outcome" where "parseTbfData = each_attr tbf_datum"

definition parseSfqData :: "bytes \<Rightarrow> SfqData outcome" where
  "parseSfqData v =
     obind (DeserializeTcSfqQoptV1 v) (\<lambda>w. Done \<lparr>sf_Quantum = sq_Quantum w, sf_Perturb = ucast (sq_Perturb w), sf_Limit = sq_Limit w,
       sf_Divisor = sq_Divisor w\<rparr>)"

definition qdisc_of_kind :: "string \<Rightarrow> qdisc" where
  "qdisc_of_kind k =
     (let a = zeroQdiscAttrs in
      if k = ''pfifo_fast'' then PfifoFast a zeroPrio
      else if k = ''prio'' then Prio a zeroPrio
      else if k = ''tbf'' then Tbf a zeroTbf
      else if k = ''ingress'' then Ingress a
      else if k = ''htb'' then Htb a zeroHtb
      else if k = ''fq'' then Fq a zeroFq
      else if k = ''hfsc'' then Hfsc a 0
      else if k = ''fq_codel'' then FqCodel a zeroFqCodel
      else if k = ''netem'' then Netem a zeroNetem
      else if k = ''sfq'' then Sfq a zeroSfq
      else GenericQdisc a k)"

definition nested :: "bytes \<Rightarrow> (NetlinkRouteAttr list \<Rightarrow> 'a outcome) \<Rightarrow> (link_error + 'a) outcome" where
  "nested v parse = rbind (link_attrs_of v) (\<lambda>data. obind (parse data) (\<lambda>x. Done (Inr x)))"

fun parse_qdisc_options :: "bytes \<Rightarrow> qdisc \<Rightarrow> (link_error + qdisc) outcome" where
  "parse_qdisc_options v (PfifoFast a x) = obind (parsePfifoFastData v) (\<lambda>x. Done (Inr (PfifoFast a x)))"
| "parse_qdisc_options v (Prio a x) = obind (parsePrioData v) (\<lambda>x. Done (Inr (Prio a x)))"
| "parse_qdisc_options v (Tbf a x) = nested v (\<lambda>data. obind (parseTbfData data x) (\<lambda>x. Done (Tbf a x)))"
| "parse_qdisc_options v (Hfsc a d) = obind (parseHfscData v) (\<lambda>d. Done (Inr (Hfsc a d)))"
| "parse_qdisc_options v (Htb a x) = nested v (\<lambda>data. obind (parseHtbData data x) (\<lambda>x. Done (Htb a x)))"
| "parse_qdisc_options v (Fq a x) = nested v (\<lambda>data. obind (parseFqData data x) (\<lambda>x. Done (Fq a x)))"
| "parse_qdisc_options v (FqCodel a x) = nested v (\<lambda>data. obind (parseFqCodelData data x) (\<lambda>x. Done (FqCodel a x)))"
| "parse_qdisc_options v (Netem a x) = rbind (parseNetemData v x) (\<lambda>x. Done (Inr (Netem a x)))"
| "parse_qdisc_options v (Sfq a x) = obind (parseSfqData v) (\<lambda>x. Done (Inr (Sfq a x)))"
| "parse_qdisc_options v q = Done (Inr q)"

text \<open>One attribute of a message; options before a kind are skipped. The kind and the type of the value go together.\<close>

definition qdisc_attr :: "NetlinkRouteAttr \<Rightarrow> qdisc option \<Rightarrow> (link_error + qdisc option) outcome" where
  "qdisc_attr attr q =
     (if ra_Type attr = 1 then obind (value_string (ra_Value attr)) (\<lambda>k. Done (Inr (Some (qdisc_of_kind k))))
      else if ra_Type attr = 2
      then (case q of None \<Rightarrow> Done (Inr None) | Some q \<Rightarrow> rbind (parse_qdisc_options (ra_Value attr) q) (\<lambda>q. Done (Inr (Some q))))
      else Done (Inr q))"

text \<open>One message; those of other links are skipped, and one without a kind ends in a nil pointer.\<close>

definition decode_qdisc :: "u32 option \<Rightarrow> bytes \<Rightarrow> (link_error + qdisc option) outcome" where
  "decode_qdisc index m =
     obind (DeserializeTcMsg m) (\<lambda>msg.
       rbind (link_attrs_of (drop (TcMsg_Len msg) m)) (\<lambda>attrs.
         if \<exists>i. index = Some i \<and> tm_Ifindex msg \<noteq> i then Done (Inr None)
         else rbind (each_datum qdisc_attr attrs None) (\<lambda>q.
           case q of
             None \<Rightarrow> Panic NilDereference
           | Some q \<Rightarrow> Done (Inr (Some (set_qdisc_Attrs \<lparr>qa_LinkIndex = sint (tm_Ifindex msg), qa_Handle = tm_Handle msg,
               qa_Parent = tm_Parent msg, qa_Refcnt = tm_Info msg\<rparr> q))))))"

fun decode_qdiscs :: "u32 option \<Rightarrow> bytes list \<Rightarrow> (link_error + qdisc list) outcome" where
  "decode_qdiscs index [] = Done (Inr [])"
| "decode_qdiscs index (m # ms) =
     rbind (decode_qdisc index m) (\<lambda>q. rbind (decode_qdiscs index ms) (\<lambda>qs. Done (Inr (case q of None \<Rightarrow> qs | Some q \<Rightarrow> q # qs))))"

text \<open>The request is made before the index of the link is looked up, which may send requests of its own.\<close>

definition QdiscList :: "link_ctx \<Rightarrow> nl_link option \<Rightarrow> link_state \<Rightarrow> ((link_error + qdisc list) \<times> nl_link option \<times> link_state) outcome" where
  "QdiscList c link s =
     (let (req, st) = newNetlinkRequest (lc_h c) RTM_GETQDISC NLM_F_DUMP (snd s) in
      obind (ensure_given c link (fst s, st)) (\<lambda>(link, s).
        let index = map_option (\<lambda>l. word_of_int (link_Index l)) link;
            msg = (tc_msg 0 0 0 0)\<lparr>tm_Ifindex := (case index of None \<Rightarrow> 0 | Some i \<Rightarrow> i)\<rparr>
        in obind (Execute (lc_os c) (lc_ack c) 0 (word_of_int RTM_NEWQDISC) (AddData req (StructData (TcMsg_Serialize msg))) (snd s)) (\<lambda>(r, req, st).
          case r of
            Inl e \<Rightarrow> Done (Inl (LinkOs e), link, fst s, st)
          | Inr msgs \<Rightarrow> obind (decode_qdiscs index msgs) (\<lambda>r. Done (r, link, fst s, st)))))"

section \<open>Round trip\<close>

text \<open>What comes back of a queueing discipline that was sent: not the target of \<open>fq_codel\<close> and the packet limit of \<open>fq\<close>, and
some fields only next to others.\<close>

fun sent_qdisc :: "qdisc \<Rightarrow> qdisc" where
  "sent_qdisc (PfifoFast a x) = PfifoFast a zeroPrio"
| "sent_qdisc (Netem a x) = Netem a (x\<lparr>ne_CorruptCorr := (if ne_CorruptProb x > 0 then ne_CorruptCorr x else 0),
     ne_ReorderCorr := (if ne_ReorderProb x > 0 then ne_ReorderCorr x else 0)\<rparr>)"
| "sent_qdisc (Tbf a x) = Tbf a (x\<lparr>tb_Minburst := (if tb_Peakrate x > 0 then tb_Minburst x else 0)\<rparr>)"
| "sent_qdisc (Fq a x) = Fq a (x\<lparr>fq_PacketLimit := 0\<rparr>)"
| "sent_qdisc (FqCodel a x) = FqCodel a (x\<lparr>fc_Target := 0\<rparr>)"
| "sent_qdisc q = q"

fun plain_qdisc :: "qdisc \<Rightarrow> bool" where
  "plain_qdisc (Prio a x) \<longleftrightarrow> length (pr_PriorityMap x) = 16"
| "plain_qdisc (GenericQdisc a k) \<longleftrightarrow> qdisc_of_kind k = GenericQdisc zeroQdiscAttrs k"
| "plain_qdisc q \<longleftrightarrow> True"

lemma value_u64_attr [simp]: "value_u64 (Uint64Attr v) = Done v"
proof -
  have "Uint64Attr v = le64 v" by (simp add: Uint64Attr_def le64_def)
  then show ?thesis using read64(2) [of v "[]"] by (simp add: value_u64_def)
qed

lemma rate_low: "(r :: u64) < push_bit 32 1 \<Longrightarrow> ucast (ucast r :: u32) = r"
proof -
  assume "r < push_bit 32 1"
  then have "uint r < 2 ^ 32" by (simp add: word_less_def push_bit_eq_mult)
  then show ?thesis by (simp add: word_uint_eq_iff unsigned_ucast_eq unsigned_take_bit_eq take_bit_int_eq_self)
qed

lemma fq_codel_steps:
  "each_attr fq_codel_datum [attr_parsed (NewRtAttr 4 (Uint32Attr v))] x = Done (x\<lparr>fc_ECN := v\<rparr>)"
  "fc_Limit x = 0 \<Longrightarrow> each_attr fq_codel_datum (map attr_parsed (u32_if v 2)) x = Done (x\<lparr>fc_Limit := v\<rparr>)"
  "fc_Interval x = 0 \<Longrightarrow> each_attr fq_codel_datum (map attr_parsed (u32_if v 3)) x = Done (x\<lparr>fc_Interval := v\<rparr>)"
  "fc_Flows x = 0 \<Longrightarrow> each_attr fq_codel_datum (map attr_parsed (u32_if v 5)) x = Done (x\<lparr>fc_Flows := v\<rparr>)"
  "fc_Quantum x = 0 \<Longrightarrow> each_attr fq_codel_datum (map attr_parsed (u32_if v 6)) x = Done (x\<lparr>fc_Quantum := v\<rparr>)"
  "fc_CEThreshold x = 0 \<Longrightarrow> each_attr fq_codel_datum (map attr_parsed (u32_if v 7)) x = Done (x\<lparr>fc_CEThreshold := v\<rparr>)"
  "fc_DropBatchSize x = 0 \<Longrightarrow> each_attr fq_codel_datum (map attr_parsed (u32_if v 8)) x = Done (x\<lparr>fc_DropBatchSize := v\<rparr>)"
  "fc_MemoryLimit x = 0 \<Longrightarrow> each_attr fq_codel_datum (map attr_parsed (u32_if v 9)) x = Done (x\<lparr>fc_MemoryLimit := v\<rparr>)"
  by (auto simp: fq_codel_datum_def u32_if_def attr_if_def Let_def word_gt_0)

lemma fq_codel_back: "each_attr fq_codel_datum (map attr_parsed (fq_codel_options x)) zeroFqCodel = Done (x\<lparr>fc_Target := 0\<rparr>)"
  unfolding fq_codel_options_def map_append each_attr_append list.map fq_codel_steps(1)
  by (simp add: fq_codel_steps zeroFqCodel_def)

lemma fq_steps:
  "each_attr fq_datum [attr_parsed (NewRtAttr 5 (Uint32Attr v))] x = Done (x\<lparr>fq_Pacing := v\<rparr>)"
  "fq_Buckets x = 0 \<Longrightarrow> each_attr fq_datum (map attr_parsed (u32_if v 8)) x = Done (x\<lparr>fq_Buckets := v\<rparr>)"
  "fq_LowRateThreshold x = 0 \<Longrightarrow> each_attr fq_datum (map attr_parsed (u32_if v 11)) x = Done (x\<lparr>fq_LowRateThreshold := v\<rparr>)"
  "fq_Quantum x = 0 \<Longrightarrow> each_attr fq_datum (map attr_parsed (u32_if v 3)) x = Done (x\<lparr>fq_Quantum := v\<rparr>)"
  "fq_InitialQuantum x = 0 \<Longrightarrow> each_attr fq_datum (map attr_parsed (u32_if v 4)) x = Done (x\<lparr>fq_InitialQuantum := v\<rparr>)"
  "fq_FlowRefillDelay x = 0 \<Longrightarrow> each_attr fq_datum (map attr_parsed (u32_if v 9)) x = Done (x\<lparr>fq_FlowRefillDelay := v\<rparr>)"
  "fq_FlowPacketLimit x = 0 \<Longrightarrow> each_attr fq_datum (map attr_parsed (u32_if v 2)) x = Done (x\<lparr>fq_FlowPacketLimit := v\<rparr>)"
  "fq_FlowMaxRate x = 0 \<Longrightarrow> each_attr fq_datum (map attr_parsed (u32_if v 7)) x = Done (x\<lparr>fq_FlowMaxRate := v\<rparr>)"
  "fq_FlowDefaultRate x = 0 \<Longrightarrow> each_attr fq_datum (map attr_parsed (u32_if v 6)) x = Done (x\<lparr>fq_FlowDefaultRate := v\<rparr>)"
  by (auto simp: fq_datum_def u32_if_def attr_if_def Let_def word_gt_0)

lemma fq_back: "each_attr fq_datum (map attr_parsed (fq_options x)) zeroFq = Done (x\<lparr>fq_PacketLimit := 0\<rparr>)"
  unfolding fq_options_def map_append each_attr_append list.map fq_steps(1)
  by (simp add: fq_steps zeroFq_def)

lemma tbf_back:
  "each_attr tbf_datum (map attr_parsed (tbf_options x)) zeroTbf = Done (x\<lparr>tb_Minburst := (if tb_Peakrate x > 0 then tb_Minburst x else 0)\<rparr>)"
  using rate_low [of "tb_Rate x"] rate_low [of "tb_Peakrate x"]
  by (cases x) (auto simp: tbf_options_def attr_if_def tbf_datum_def tbf_codec.dec_enc_exact zeroTbf_def Let_def not_le)

text \<open>An attribute with a message in front of its children: the parts that the decoder separates.\<close>

lemma headed_children:
  assumes "4 dvd length d" and "\<And>c. c \<in> set cs \<Longrightarrow> is_attr c \<and> attr_Len c < 2 ^ 16"
  shows "ra_Value (attr_parsed (RtAttr t d cs)) = d @ concat (map attr_wire cs)"
    and "link_attrs_of (concat (map attr_wire cs)) = Done (Inr (map attr_parsed cs))"
proof -
  have "map (\<lambda>a. pad4 (attr_wire a)) cs = map attr_wire cs"
    using assms(2) pad4_attr_wire by (intro map_cong) auto
  then show "ra_Value (attr_parsed (RtAttr t d cs)) = d @ concat (map attr_wire cs)"
    by (cases "cs = []") (simp_all add: pad4_id [OF assms(1)] del: map_eq_conv)
  show "link_attrs_of (concat (map attr_wire cs)) = Done (Inr (map attr_parsed cs))"
    using parse_wires [OF assms(2), of cs "[]"] by (simp add: link_attrs_of_def ParseRouteAttr_def)
qed

lemma netem_back:
  "parseNetemData (ra_Value (attr_parsed (netem_options x))) zeroNetem
    = Done (Inr (x\<lparr>ne_CorruptCorr := (if ne_CorruptProb x > 0 then ne_CorruptCorr x else 0),
        ne_ReorderCorr := (if ne_ReorderProb x > 0 then ne_ReorderCorr x else 0)\<rparr>))"
proof -
  obtain q cs where o: "netem_options x = RtAttr 2 (TcNetemQopt_Serialize q) cs"
    and q: "q = \<lparr>nq_Latency = ne_Latency x, nq_Limit = ne_Limit x, nq_Loss = ne_Loss x, nq_Gap = ne_Gap x,
         nq_Duplicate = ne_Duplicate x, nq_Jitter = ne_Jitter x\<rparr>"
    and cs: "cs = attr_if (ne_DelayCorr x > 0 \<or> ne_LossCorr x > 0 \<or> ne_DuplicateCorr x > 0) 1
          (TcNetemCorr_Serialize \<lparr>nc_DelayCorr = ne_DelayCorr x, nc_LossCorr = ne_LossCorr x, nc_DupCorr = ne_DuplicateCorr x\<rparr>)
        @ attr_if (ne_CorruptProb x > 0) 4 (TcNetemCorrupt_Serialize \<lparr>nco_Probability = ne_CorruptProb x, nco_Correlation = ne_CorruptCorr x\<rparr>)
        @ attr_if (ne_ReorderProb x > 0) 3 (TcNetemReorder_Serialize \<lparr>nr_Probability = ne_ReorderProb x, nr_Correlation = ne_ReorderCorr x\<rparr>)"
    by (simp add: netem_options_def)
  have "is_attr c \<and> attr_Len c < 2 ^ 16" if "c \<in> set cs" for c
    using that by (auto simp: cs attr_if_def NewRtAttr_def nc_codec.enc_length nco_codec.enc_length nr_codec.enc_length tc_sizes split: if_splits)
  moreover have len: "length (TcNetemQopt_Serialize q) = 24" by (simp add: nq_codec.enc_length tc_sizes)
  ultimately have p: "ra_Value (attr_parsed (netem_options x)) = TcNetemQopt_Serialize q @ concat (map attr_wire cs)"
    "link_attrs_of (concat (map attr_wire cs)) = Done (Inr (map attr_parsed cs))"
    unfolding o using headed_children [of "TcNetemQopt_Serialize q" cs] by simp_all
  let ?x = "zeroNetem\<lparr>ne_Latency := nq_Latency q, ne_Limit := nq_Limit q, ne_Loss := nq_Loss q,
           ne_Gap := nq_Gap q, ne_Duplicate := nq_Duplicate q, ne_Jitter := nq_Jitter q\<rparr>"
  have "each_attr netem_datum (map attr_parsed cs) ?x = Done (x\<lparr>ne_CorruptCorr := (if ne_CorruptProb x > 0 then ne_CorruptCorr x else 0),
        ne_ReorderCorr := (if ne_ReorderProb x > 0 then ne_ReorderCorr x else 0)\<rparr>)"
    by (cases x) (auto simp: cs q attr_if_def netem_datum_def nc_codec.dec_enc_exact nco_codec.dec_enc_exact nr_codec.dec_enc_exact zeroNetem_def Let_def word_gt_0)
  then show ?thesis
    using p nq_codec.dec_enc [of q] len by (simp add: parseNetemData_def tc_sizes)
qed

lemma htb_back: "each_attr htb_datum (map attr_parsed (htb_options x)) zeroHtb = Done x"
  by (cases x) (simp add: htb_options_def htb_datum_def hg_codec.dec_enc_exact)

lemma prio_back:
  assumes "length (pr_PriorityMap x) = 16"
  shows "parsePrioData (TcPrioMap_Serialize \<lparr>pm_Bands = ucast (pr_Bands x), pm_Priomap = pr_PriorityMap x\<rparr>) = Done x"
  using assms by (cases x) (simp add: parsePrioData_def pm_codec.dec_enc_exact)

lemma sfq_back:
  "parseSfqData (TcSfqQoptV1_Serialize (zeroSfqV1\<lparr>sv_Qopt := \<lparr>sq_Quantum = sf_Quantum x, sq_Perturb = ucast (sf_Perturb x), sq_Limit = sf_Limit x,
     sq_Divisor = sf_Divisor x, sq_Flows = 0\<rparr>\<rparr>)) = Done x"
  by (cases x) (simp add: parseSfqData_def sfq_read)

text \<open>The options of a value, read into a fresh one of its kind.\<close>

lemma small_children:
  "c \<in> set (tbf_options x) \<Longrightarrow> is_attr c \<and> attr_Len c < 2 ^ 16"
  "c \<in> set (fq_codel_options y) \<Longrightarrow> is_attr c \<and> attr_Len c < 2 ^ 16"
  "c \<in> set (fq_options z) \<Longrightarrow> is_attr c \<and> attr_Len c < 2 ^ 16"
  "c \<in> set (htb_options h) \<Longrightarrow> is_attr c \<and> attr_Len c < 2 ^ 16"
  by (auto simp: htb_options_def hg_codec.enc_length tbf_options_def fq_codel_options_def fq_options_def u32_if_def attr_if_def NewRtAttr_def tbf_codec.enc_length tc_sizes
    Uint64Attr_def split: if_splits)

lemma nested_children:
  assumes "\<And>c. c \<in> set cs \<Longrightarrow> is_attr c \<and> attr_Len c < 2 ^ 16"
  shows "nested (ra_Value (attr_parsed (RtAttr t [] cs))) parse = obind (parse (map attr_parsed cs)) (\<lambda>x. Done (Inr x))"
  using parse_children [OF assms, of cs t] by (simp add: nested_def link_attrs_of_def del: attr_parsed.simps)

lemma parsed_type: "ra_Type (attr_parsed (RtAttr t d cs)) = t"
  by simp

lemma nested_small:
  "nested (ra_Value (attr_parsed (RtAttr t [] (tbf_options x)))) p = obind (p (map attr_parsed (tbf_options x))) (\<lambda>x. Done (Inr x))"
  "nested (ra_Value (attr_parsed (RtAttr t [] (fq_codel_options y)))) p = obind (p (map attr_parsed (fq_codel_options y))) (\<lambda>x. Done (Inr x))"
  "nested (ra_Value (attr_parsed (RtAttr t [] (fq_options z)))) p = obind (p (map attr_parsed (fq_options z))) (\<lambda>x. Done (Inr x))"
  "nested (ra_Value (attr_parsed (RtAttr t [] (htb_options h)))) p = obind (p (map attr_parsed (htb_options h))) (\<lambda>x. Done (Inr x))"
  using nested_children small_children by blast+

lemma options_back:
  assumes "plain_qdisc q" and "qdisc_options q = Inr (Some d)"
  shows "is_attr d" "ra_Type (attr_parsed d) = 2"
    and "parse_qdisc_options (ra_Value (attr_parsed d)) (qdisc_of_kind (qdisc_Type q)) = Done (Inr (set_qdisc_Attrs zeroQdiscAttrs (sent_qdisc q)))"
proof -
  have "is_attr d \<and> ra_Type (attr_parsed d) = 2
    \<and> parse_qdisc_options (ra_Value (attr_parsed d)) (qdisc_of_kind (qdisc_Type q)) = Done (Inr (set_qdisc_Attrs zeroQdiscAttrs (sent_qdisc q)))"
  proof (cases q)
    case (Netem a x)
    then have "d = netem_options x" using assms(2) by simp
    then show ?thesis using netem_back [of x] by (simp add: Netem qdisc_of_kind_def netem_options_def parsed_type del: attr_parsed.simps)
  next
    case (Tbf a x)
    then show ?thesis using assms(2)
      by (auto simp: tbf_back nested_small parsed_type qdisc_of_kind_def parseTbfData_def simp del: attr_parsed.simps)
  next
    case (Fq a x)
    then show ?thesis using assms(2)
      by (auto simp: fq_back nested_small parsed_type qdisc_of_kind_def parseFqData_def simp del: attr_parsed.simps)
  next
    case (FqCodel a x)
    then show ?thesis using assms(2)
      by (auto simp: fq_codel_back nested_small parsed_type qdisc_of_kind_def parseFqCodelData_def simp del: attr_parsed.simps)
  next
    case (Htb a x)
    then show ?thesis using assms(2)
      by (auto simp: htb_back nested_small parsed_type qdisc_of_kind_def parseHtbData_def simp del: attr_parsed.simps)
  qed (use assms prio_back sfq_back in \<open>auto simp: qdisc_of_kind_def parsePfifoFastData_def parseHfscData_def TcHfscOpt_Serialize_def split: if_splits\<close>)
  then show "is_attr d" "ra_Type (attr_parsed d) = 2"
    "parse_qdisc_options (ra_Value (attr_parsed d)) (qdisc_of_kind (qdisc_Type q)) = Done (Inr (set_qdisc_Attrs zeroQdiscAttrs (sent_qdisc q)))"
    by simp_all
qed

lemma no_options_back:
  "plain_qdisc q \<Longrightarrow> qdisc_options q = Inr None \<Longrightarrow> qdisc_of_kind (qdisc_Type q) = set_qdisc_Attrs zeroQdiscAttrs (sent_qdisc q)"
  by (cases q) (auto simp: qdisc_of_kind_def split: if_splits)

section \<open>Listing\<close>

text \<open>The report of a queueing discipline: its attributes in the header and what \<open>QdiscAdd\<close> sends for it.\<close>

definition qdisc_report :: "qdisc \<Rightarrow> bytes" where
  "qdisc_report q =
     TcMsg_Serialize (qdisc_msg (qdisc_Attrs q) (qa_Refcnt (qdisc_Attrs q)))
     @ (case qdiscPayload q of Inl e \<Rightarrow> [] | Inr ds \<Rightarrow> concat (map attr_wire ds))"

definition in_s32 :: "int \<Rightarrow> bool" where "in_s32 i \<longleftrightarrow> - (2 ^ 31) \<le> i \<and> i < 2 ^ 31"

definition qdisc_ok :: "qdisc \<Rightarrow> bool" where
  "qdisc_ok q \<longleftrightarrow> plain_qdisc q \<and> in_s32 (qa_LinkIndex (qdisc_Attrs q))
     \<and> (\<exists>ds. qdiscPayload q = Inr ds \<and> (\<forall>d \<in> set ds. attr_Len d < 2 ^ 16))"

lemma sint_in_s32: "in_s32 i \<Longrightarrow> sint (word_of_int i :: u32) = i"
  unfolding in_s32_def by (rule sint_of_int32) simp_all

lemma sent_simps [simp]: "qdisc_Attrs (sent_qdisc q) = qdisc_Attrs q" "set_qdisc_Attrs b (set_qdisc_Attrs a q) = set_qdisc_Attrs b q"
  "set_qdisc_Attrs (qdisc_Attrs q) (sent_qdisc q) = sent_qdisc q"
  by (cases q; simp)+

lemma qdisc_attrs_back:
  assumes "plain_qdisc q" and "qdiscPayload q = Inr ds"
  shows "each_datum qdisc_attr (map attr_parsed ds) None = Done (Inr (Some (set_qdisc_Attrs zeroQdiscAttrs (sent_qdisc q))))"
    and "d \<in> set ds \<Longrightarrow> is_attr d"
proof -
  obtain r where r: "qdisc_options q = Inr r" "ds = NewRtAttr 1 (ZeroTerminated (qdisc_Type q)) # (case r of None \<Rightarrow> [] | Some d \<Rightarrow> [d])"
    using assms(2) by (cases "qdisc_options q") (auto simp: qdiscPayload_def)
  have k: "qdisc_attr (attr_parsed (NewRtAttr 1 (ZeroTerminated (qdisc_Type q)))) None = Done (Inr (Some (qdisc_of_kind (qdisc_Type q))))"
    by (simp add: qdisc_attr_def)
  show "each_datum qdisc_attr (map attr_parsed ds) None = Done (Inr (Some (set_qdisc_Attrs zeroQdiscAttrs (sent_qdisc q))))"
    using r k no_options_back [OF assms(1)] options_back [OF assms(1)]
    by (cases r) (simp_all add: qdisc_attr_def [of "attr_parsed d" for d])
  show "d \<in> set ds \<Longrightarrow> is_attr d"
    using r options_back(1) [OF assms(1)] by (auto split: option.splits)
qed

lemma qdisc_read:
  assumes "qdisc_ok q"
  shows "decode_qdisc index (qdisc_report q)
    = Done (Inr (if index = None \<or> index = Some (word_of_int (qa_LinkIndex (qdisc_Attrs q))) then Some (sent_qdisc q) else None))"
proof -
  let ?a = "qdisc_Attrs q"
  let ?m = "qdisc_msg ?a (qa_Refcnt ?a)"
  obtain ds where ds: "qdiscPayload q = Inr ds" "\<And>d. d \<in> set ds \<Longrightarrow> attr_Len d < 2 ^ 16" and p: "plain_qdisc q" "in_s32 (qa_LinkIndex ?a)"
    using assms by (auto simp: qdisc_ok_def)
  have v: "length (tm_Pad ?m) = 3" by (simp add: qdisc_msg_def tc_msg_def)
  have h: "DeserializeTcMsg (qdisc_report q) = Done ?m" "drop (TcMsg_Len ?m) (qdisc_report q) = concat (map attr_wire ds)"
    using tm_codec.dec_enc [OF v] tm_codec.enc_length [OF v] by (simp_all add: qdisc_report_def ds(1) tc_sizes)
  have w: "link_attrs_of (concat (map attr_wire ds)) = Done (Inr (map attr_parsed ds))"
    using parse_wires [of ds "[]"] ds(2) qdisc_attrs_back(2) [OF p(1) ds(1)] by (simp add: link_attrs_of_def ParseRouteAttr_def)
  have m: "tm_Ifindex ?m = word_of_int (qa_LinkIndex ?a)" "tm_Handle ?m = qa_Handle ?a" "tm_Parent ?m = qa_Parent ?a" "tm_Info ?m = qa_Refcnt ?a"
    by (simp_all add: qdisc_msg_def tc_msg_def)
  have a: "\<lparr>qa_LinkIndex = qa_LinkIndex ?a, qa_Handle = qa_Handle ?a, qa_Parent = qa_Parent ?a, qa_Refcnt = qa_Refcnt ?a\<rparr> = ?a"
    by simp
  have s: "set_qdisc_Attrs \<lparr>qa_LinkIndex = qa_LinkIndex ?a, qa_Handle = qa_Handle ?a, qa_Parent = qa_Parent ?a, qa_Refcnt = qa_Refcnt ?a\<rparr> (sent_qdisc q)
      = sent_qdisc q" by (simp only: a sent_simps)
  show ?thesis
    using h w qdisc_attrs_back(1) [OF p(1) ds(1)] sint_in_s32 [OF p(2)] s
    by (cases index) (auto simp: decode_qdisc_def m)
qed

lemma decode_qdiscs_reports:
  assumes "\<And>q. q \<in> set qs \<Longrightarrow> qdisc_ok q" and "in_s32 i"
  shows "decode_qdiscs (Some (word_of_int i)) (map qdisc_report qs)
    = Done (Inr (map sent_qdisc (filter (\<lambda>q. qa_LinkIndex (qdisc_Attrs q) = i) qs)))"
  using assms(1)
proof (induction qs)
  case (Cons q qs)
  have "in_s32 (qa_LinkIndex (qdisc_Attrs q))" using Cons.prems [of q] by (simp add: qdisc_ok_def)
  then have "word_of_int i = (word_of_int (qa_LinkIndex (qdisc_Attrs q)) :: u32) \<longleftrightarrow> qa_LinkIndex (qdisc_Attrs q) = i"
    using sint_in_s32 assms(2) by metis
  then show ?case using Cons by (simp add: qdisc_read)
qed simp

text \<open>C40: The queueing disciplines of a link that a kernel reports with the parameters \<open>QdiscAdd\<close> sends for them are listed in
order by \<open>QdiscList\<close> with all their fields, except those that are never sent: the target of an \<open>fq_codel\<close>, the packet limit
of an \<open>fq\<close>, the map of a \<open>pfifo_fast\<close>, and fields without a base value, such as the burst at a peak rate of 0.\<close>

theorem QdiscList_reported:
  assumes "lc_h c = None" and "answered (lc_os c) st RTM_GETQDISC NLM_F_DUMP [StructData (TcMsg_Serialize (tc_msg (link_Index l) 0 0 0))] parts 0"
    and "selected (word_of_int RTM_NEWQDISC) parts = map qdisc_report qs" and "\<And>q. q \<in> set qs \<Longrightarrow> qdisc_ok q"
    and "link_Index l \<noteq> 0" and "in_s32 (link_Index l)"
  shows "\<exists>st'. QdiscList c (Some l) (dump, st)
      = Done (Inr (map sent_qdisc (filter (\<lambda>q. qa_LinkIndex (qdisc_Attrs q) = link_Index l) qs)), Some l, dump, st')
    \<and> st_open st' = st_open st"
proof -
  let ?t = "word_of_int RTM_NEWQDISC :: u16"
  obtain st' where r: "do_request (lc_os c) (lc_ack c) None RTM_GETQDISC NLM_F_DUMP ?t [StructData (TcMsg_Serialize (tc_msg (link_Index l) 0 0 0))] st
      = Done (final_result 0 (selected ?t parts), st')" and f: "follows st st'"
    by (rule do_request_follows [OF answered_replied [OF assms(2)]])
  obtain req st1 where n: "newNetlinkRequest None RTM_GETQDISC NLM_F_DUMP st = (req, st1)" by fastforce
  from r obtain req' where e: "Execute (lc_os c) (lc_ack c) 0 ?t (AddData req (StructData (TcMsg_Serialize (tc_msg (link_Index l) 0 0 0)))) st1
      = Done (Inr (map qdisc_report qs), req', st')"
    by (auto simp: do_request_def n final_result_def assms(3))
  have m: "(tc_msg 0 0 0 0)\<lparr>tm_Ifindex := word_of_int (link_Index l)\<rparr> = tc_msg (link_Index l) 0 0 0" by (simp add: tc_msg_def)
  show ?thesis
    using n e m f decode_qdiscs_reports [OF assms(4,6)] assms(1,5)
    by (simp add: QdiscList_def ensure_given_def ensureIndex_def follows_def)
qed

section \<open>Examples\<close>

definition example_qa :: "int \<Rightarrow> u32 \<Rightarrow> QdiscAttrs" where
  "example_qa i h = \<lparr>qa_LinkIndex = i, qa_Handle = h, qa_Parent = HANDLE_ROOT, qa_Refcnt = 2\<rparr>"

definition example_tbf :: TbfData where
  "example_tbf = \<lparr>tb_Rate = 0x2540BE400, tb_Limit = 300000, tb_Buffer = 3125, tb_Peakrate = 0, tb_Minburst = 1600\<rparr>"

definition example_qdiscs :: "qdisc list" where
  "example_qdiscs = [NewHtb (example_qa 2 0x10000), GenericQdisc (example_qa 1 0) ''noqueue'', Tbf (example_qa 2 0x20000) example_tbf,
     FqCodel (example_qa 2 0x30000) (zeroFqCodel\<lparr>fc_ECN := 1, fc_Target := 5000, fc_Limit := 10240\<rparr>)]"

lemma example_qdiscs_ok: "q \<in> set example_qdiscs \<Longrightarrow> qdisc_ok q"
  by (auto simp: example_qdiscs_def NewHtb_def qdisc_ok_def qdiscPayload_def htb_options_def tbf_options_def fq_codel_options_def u32_if_def
    attr_if_def hg_codec.enc_length tbf_codec.enc_length tc_sizes example_qa_def example_tbf_def zeroFqCodel_def in_s32_def qdisc_of_kind_def
    Uint64Attr_def rtaAlignOf_eq)

lemma example_qdiscs_short: "q \<in> set example_qdiscs \<Longrightarrow> length (qdisc_report q) < 60000"
  by (auto simp: example_qdiscs_def NewHtb_def qdisc_report_def qdiscPayload_def htb_options_def tbf_options_def fq_codel_options_def u32_if_def
    attr_if_def hg_codec.enc_length tbf_codec.enc_length tc_sizes example_tbf_def zeroFqCodel_def NewRtAttr_def pad4_def
    Uint64Attr_def rtaAlignOf_eq qdisc_msg_def tc_msg_def TcMsg_Serialize_def)

lemma QdiscList_reported_witness:
  "\<exists>st'. QdiscList (example_ctx (reply_os (word_of_int RTM_NEWQDISC) (map qdisc_report example_qdiscs))) (Some (Device (zeroLinkAttrs\<lparr>la_Index := 2\<rparr>)))
      (False, idle_state)
    = Done (Inr [NewHtb (example_qa 2 0x10000), Tbf (example_qa 2 0x20000) (example_tbf\<lparr>tb_Minburst := 0\<rparr>),
        FqCodel (example_qa 2 0x30000) (zeroFqCodel\<lparr>fc_ECN := 1, fc_Limit := 10240\<rparr>)], Some (Device (zeroLinkAttrs\<lparr>la_Index := 2\<rparr>)), False, st')
    \<and> st_open st' = []"
proof -
  let ?t = "word_of_int RTM_NEWQDISC :: u16" and ?l = "Device (zeroLinkAttrs\<lparr>la_Index := 2\<rparr>)"
  have t: "?t \<noteq> NLMSG_DONE" "?t \<noteq> NLMSG_ERROR" by (simp_all add: RTM_NEWQDISC_def NLMSG_DONE_def NLMSG_ERROR_def)
  have a: "answered (reply_os ?t (map qdisc_report example_qdiscs)) idle_state RTM_GETQDISC NLM_F_DUMP
      [StructData (TcMsg_Serialize (tc_msg (link_Index ?l) 0 0 0))] (map (script_msg 1 ?t NLM_F_MULTI) (map qdisc_report example_qdiscs)) 0"
    by (rule reply_os_answered [OF t]) (use example_qdiscs_short in auto)
  have s: "selected ?t (map (script_msg 1 ?t NLM_F_MULTI) (map qdisc_report example_qdiscs)) = map qdisc_report example_qdiscs"
    by (simp add: script_msg_def comp_def)
  have f: "map sent_qdisc (filter (\<lambda>q. qa_LinkIndex (qdisc_Attrs q) = 2) example_qdiscs)
      = [NewHtb (example_qa 2 0x10000), Tbf (example_qa 2 0x20000) (example_tbf\<lparr>tb_Minburst := 0\<rparr>),
        FqCodel (example_qa 2 0x30000) (zeroFqCodel\<lparr>fc_ECN := 1, fc_Limit := 10240\<rparr>)]"
    by (simp add: example_qdiscs_def NewHtb_def example_qa_def example_tbf_def zeroFqCodel_def)
  have c: "lc_h (example_ctx os) = None" "lc_os (example_ctx os) = os" for os by (simp_all add: example_ctx_def)
  show ?thesis
    using QdiscList_reported [where c = "example_ctx (reply_os ?t (map qdisc_report example_qdiscs))" and st = idle_state and l = ?l and dump = False
        and qs = example_qdiscs, unfolded c, OF refl a s example_qdiscs_ok]
    by (simp add: f in_s32_def idle_state_def del: map_map)
qed

end
