(* ===== verification/NlClass.thy ===== *)
theory NlClass
  imports NlQdisc
begin

text \<open>
  Classes of queueing disciplines, \<open>class.go\<close> and \<open>class_linux.go\<close>: the options of htb classes with their rate tables, the
  service curves of hfsc classes, and the statistics of a class in their old and their new form.
\<close>

section \<open>Types\<close>

record GnetStatsBasic =
  gb_Bytes :: u64
  gb_Packets :: u32

record GnetStatsRateEst =
  gr_Bps :: u32
  gr_Pps :: u32

record GnetStatsQueue =
  gq_Qlen :: u32
  gq_Backlog :: u32
  gq_Drops :: u32
  gq_Requeues :: u32
  gq_Overlimits :: u32

record ClassStatistics =
  cs_Basic :: GnetStatsBasic
  cs_Queue :: GnetStatsQueue
  cs_RateEst :: GnetStatsRateEst

definition NewClassStatistics :: ClassStatistics where
  "NewClassStatistics = \<lparr>cs_Basic = \<lparr>gb_Bytes = 0, gb_Packets = 0\<rparr>,
     cs_Queue = \<lparr>gq_Qlen = 0, gq_Backlog = 0, gq_Drops = 0, gq_Requeues = 0, gq_Overlimits = 0\<rparr>, cs_RateEst = \<lparr>gr_Bps = 0, gr_Pps = 0\<rparr>\<rparr>"

record ClassAttrs =
  cl_LinkIndex :: int
  cl_Handle :: u32
  cl_Parent :: u32
  cl_Leaf :: u32
  cl_Statistics :: "ClassStatistics option"

record HtbClassData =
  hc_Rate :: u64
  hc_Ceil :: u64
  hc_Buffer :: u32
  hc_Cbuffer :: u32
  hc_Quantum :: u32
  hc_Level :: u32
  hc_Prio :: u32

record ServiceCurve =
  sc_m1 :: u32
  sc_d :: u32
  sc_m2 :: u32

record HfscClassData =
  hs_Rsc :: ServiceCurve
  hs_Fsc :: ServiceCurve
  hs_Usc :: ServiceCurve

datatype nl_class = HtbClass ClassAttrs HtbClassData | HfscClass ClassAttrs HfscClassData | GenericClass ClassAttrs string

fun class_Attrs :: "nl_class \<Rightarrow> ClassAttrs" where
  "class_Attrs (HtbClass a x) = a"
| "class_Attrs (HfscClass a x) = a"
| "class_Attrs (GenericClass a k) = a"

fun class_Type :: "nl_class \<Rightarrow> string" where
  "class_Type (HtbClass a x) = ''htb''"
| "class_Type (HfscClass a x) = ''hfsc''"
| "class_Type (GenericClass a k) = k"

fun set_class_Attrs :: "ClassAttrs \<Rightarrow> nl_class \<Rightarrow> nl_class" where
  "set_class_Attrs b (HtbClass a x) = HtbClass b x"
| "set_class_Attrs b (HfscClass a x) = HfscClass b x"
| "set_class_Attrs b (GenericClass a k) = GenericClass b k"

definition zeroClassAttrs :: ClassAttrs where
  "zeroClassAttrs = \<lparr>cl_LinkIndex = 0, cl_Handle = 0, cl_Parent = 0, cl_Leaf = 0, cl_Statistics = None\<rparr>"

definition zeroHtbClass :: HtbClassData where
  "zeroHtbClass = \<lparr>hc_Rate = 0, hc_Ceil = 0, hc_Buffer = 0, hc_Cbuffer = 0, hc_Quantum = 0, hc_Level = 0, hc_Prio = 0\<rparr>"

definition zeroCurve :: ServiceCurve where "zeroCurve = \<lparr>sc_m1 = 0, sc_d = 0, sc_m2 = 0\<rparr>"

definition zeroHfscClass :: HfscClassData where "zeroHfscClass = \<lparr>hs_Rsc = zeroCurve, hs_Fsc = zeroCurve, hs_Usc = zeroCurve\<rparr>"

definition NewHfscClass :: "ClassAttrs \<Rightarrow> nl_class" where "NewHfscClass attrs = HfscClass attrs zeroHfscClass"

definition ServiceCurve_Attrs :: "ServiceCurve \<Rightarrow> u32 \<times> u32 \<times> u32" where "ServiceCurve_Attrs c = (sc_m1 c, sc_d c, sc_m2 c)"

definition SetUsc :: "u32 \<Rightarrow> u32 \<Rightarrow> u32 \<Rightarrow> HfscClassData \<Rightarrow> HfscClassData" where
  "SetUsc m1 d m2 x = x\<lparr>hs_Usc := \<lparr>sc_m1 = m1, sc_d = d, sc_m2 = m2\<rparr>\<rparr>"

definition SetFsc :: "u32 \<Rightarrow> u32 \<Rightarrow> u32 \<Rightarrow> HfscClassData \<Rightarrow> HfscClassData" where
  "SetFsc m1 d m2 x = x\<lparr>hs_Fsc := \<lparr>sc_m1 = m1, sc_d = d, sc_m2 = m2\<rparr>\<rparr>"

definition SetRsc :: "u32 \<Rightarrow> u32 \<Rightarrow> u32 \<Rightarrow> HfscClassData \<Rightarrow> HfscClassData" where
  "SetRsc m1 d m2 x = x\<lparr>hs_Rsc := \<lparr>sc_m1 = m1, sc_d = d, sc_m2 = m2\<rparr>\<rparr>"

definition SetSC :: "u32 \<Rightarrow> u32 \<Rightarrow> u32 \<Rightarrow> HfscClassData \<Rightarrow> HfscClassData" where "SetSC m1 d m2 x = SetFsc m1 d m2 (SetRsc m1 d m2 x)"

definition SetUL :: "u32 \<Rightarrow> u32 \<Rightarrow> u32 \<Rightarrow> HfscClassData \<Rightarrow> HfscClassData" where "SetUL = SetUsc"

definition SetLS :: "u32 \<Rightarrow> u32 \<Rightarrow> u32 \<Rightarrow> HfscClassData \<Rightarrow> HfscClassData" where "SetLS = SetFsc"

section \<open>Encoding\<close>

datatype class_error = RateTableFailed | CeilTableFailed

definition RTM_NEWTCLASS :: int where "RTM_NEWTCLASS = 40"
definition RTM_DELTCLASS :: int where "RTM_DELTCLASS = 41"
definition RTM_GETTCLASS :: int where "RTM_GETTCLASS = 42"

definition htb_class_options :: "clock \<Rightarrow> HtbClassData \<Rightarrow> class_error + request_data list" where
  "htb_class_options ck x =
     (let (rtab, tcrate, r) = CalcRtable ck (zero_rate\<lparr>rs_Rate := ucast (hc_Rate x)\<rparr>) (-1) 1600 1;
          (ctab, tcceil, c) = CalcRtable ck (zero_rate\<lparr>rs_Rate := ucast (hc_Ceil x)\<rparr>) (-1) 1600 1
      in if r < 0 then Inl RateTableFailed
         else if c < 0 then Inl CeilTableFailed
         else Inr ([NewRtAttr 1 (TcHtbCopt_Serialize \<lparr>htb_Rate = tcrate, htb_Ceil = tcceil, htb_Buffer = hc_Buffer x,
                htb_Cbuffer = hc_Cbuffer x, htb_Quantum = hc_Quantum x, htb_Level = hc_Level x, htb_Prio = hc_Prio x\<rparr>),
              NewRtAttr 4 (SerializeRtab rtab), NewRtAttr 3 (SerializeRtab ctab)]
            @ attr_if (hc_Rate x \<ge> push_bit 32 1) 6 (Uint64Attr (hc_Rate x))
            @ attr_if (hc_Ceil x \<ge> push_bit 32 1) 7 (Uint64Attr (hc_Ceil x))))"

text \<open>The rates of a curve are sent in bytes.\<close>

definition curve_attr :: "int \<Rightarrow> ServiceCurve \<Rightarrow> request_data" where
  "curve_attr t c = (let (m1, d, m2) = ServiceCurve_Attrs c in
     NewRtAttr t (SerializeHfscCurve (Curve_Set \<lparr>cv_m1 = 0, cv_d = 0, cv_m2 = 0\<rparr> (m1 div 8) d (m2 div 8))))"

definition hfsc_class_options :: "HfscClassData \<Rightarrow> request_data list" where
  "hfsc_class_options x = [curve_attr 1 (hs_Rsc x), curve_attr 2 (hs_Fsc x), curve_attr 3 (hs_Usc x)]"

text \<open>The switch is on the name of the type: a \<open>GenericClass\<close> with one of the two names fails the type assertion.\<close>

fun class_options :: "clock \<Rightarrow> nl_class \<Rightarrow> (class_error + request_data list) outcome" where
  "class_options ck (HtbClass a x) = Done (htb_class_options ck x)"
| "class_options ck (HfscClass a x) = Done (Inr (hfsc_class_options x))"
| "class_options ck (GenericClass a k) = (if k = ''htb'' \<or> k = ''hfsc'' then Panic TypeAssertion else Done (Inr []))"

definition classPayload :: "clock \<Rightarrow> nl_class \<Rightarrow> (class_error + request_data list) outcome" where
  "classPayload ck c = rbind (class_options ck c) (\<lambda>cs. Done (Inr [NewRtAttr 1 (ZeroTerminated (class_Type c)), RtAttr 2 [] cs]))"

definition class_msg :: "ClassAttrs \<Rightarrow> TcMsg" where
  "class_msg base = tc_msg (cl_LinkIndex base) (cl_Handle base) (cl_Parent base) 0"

definition class_request :: "clock \<Rightarrow> int \<Rightarrow> nl_class \<Rightarrow> (class_error + request_data list) outcome" where
  "class_request ck cmd c =
     rbind (if cmd \<noteq> RTM_DELTCLASS then classPayload ck c else Done (Inr [])) (\<lambda>ds.
       Done (Inr (StructData (TcMsg_Serialize (class_msg (class_Attrs c))) # ds)))"

type_synonym class_result = "(class_error call_error option \<times> nl_state) outcome"

definition classModify :: "clock \<Rightarrow> link_ctx \<Rightarrow> int \<Rightarrow> int \<Rightarrow> nl_class \<Rightarrow> nl_state \<Rightarrow> class_result" where
  "classModify ck c cmd flags cls = modify_request (lc_os c) (lc_ack c) (lc_h c) cmd (flags OR NLM_F_ACK) (class_request ck cmd cls)"

definition ClassDel :: "clock \<Rightarrow> link_ctx \<Rightarrow> nl_class \<Rightarrow> nl_state \<Rightarrow> class_result" where
  "ClassDel ck c = classModify ck c RTM_DELTCLASS 0"

definition ClassChange :: "clock \<Rightarrow> link_ctx \<Rightarrow> nl_class \<Rightarrow> nl_state \<Rightarrow> class_result" where
  "ClassChange ck c = classModify ck c RTM_NEWTCLASS 0"

definition ClassReplace :: "clock \<Rightarrow> link_ctx \<Rightarrow> nl_class \<Rightarrow> nl_state \<Rightarrow> class_result" where
  "ClassReplace ck c = classModify ck c RTM_NEWTCLASS NLM_F_CREATE"

definition ClassAdd :: "clock \<Rightarrow> link_ctx \<Rightarrow> nl_class \<Rightarrow> nl_state \<Rightarrow> class_result" where
  "ClassAdd ck c = classModify ck c RTM_NEWTCLASS (NLM_F_CREATE OR NLM_F_EXCL)"

section \<open>Decoding\<close>

definition htb_class_datum :: "NetlinkRouteAttr \<Rightarrow> HtbClassData \<Rightarrow> HtbClassData outcome" where
  "htb_class_datum d x =
     (let v = ra_Value d; t = ra_Type d in
      if t = 1 then obind (DeserializeTcHtbCopt v) (\<lambda>w. Done \<lparr>hc_Rate = ucast (rs_Rate (htb_Rate w)), hc_Ceil = ucast (rs_Rate (htb_Ceil w)),
        hc_Buffer = htb_Buffer w, hc_Cbuffer = htb_Cbuffer w, hc_Quantum = htb_Quantum w, hc_Level = htb_Level w, hc_Prio = htb_Prio w\<rparr>)
      else if t = 6 then obind (value_u64 v) (\<lambda>n. Done (x\<lparr>hc_Rate := n\<rparr>))
      else if t = 7 then obind (value_u64 v) (\<lambda>n. Done (x\<lparr>hc_Ceil := n\<rparr>))
      else Done x)"

definition parseHtbClassData :: "NetlinkRouteAttr list \<Rightarrow> HtbClassData \<Rightarrow> HtbClassData outcome" where
  "parseHtbClassData = each_attr htb_class_datum"

text \<open>Every attribute is read as a curve, also one of another type.\<close>

definition hfsc_class_datum :: "NetlinkRouteAttr \<Rightarrow> HfscClassData \<Rightarrow> HfscClassData outcome" where
  "hfsc_class_datum d x =
     obind (DeserializeHfscCurve (ra_Value d)) (\<lambda>c.
       let (m1, e, m2) = Curve_Attrs c; curve = \<lparr>sc_m1 = m1 * 8, sc_d = e, sc_m2 = m2 * 8\<rparr>; t = ra_Type d in
       if t = 1 then Done (x\<lparr>hs_Rsc := curve\<rparr>)
       else if t = 2 then Done (x\<lparr>hs_Fsc := curve\<rparr>)
       else if t = 3 then Done (x\<lparr>hs_Usc := curve\<rparr>)
       else Done x)"

definition parseHfscClassData :: "NetlinkRouteAttr list \<Rightarrow> HfscClassData \<Rightarrow> HfscClassData outcome" where
  "parseHfscClassData = each_attr hfsc_class_datum"

text \<open>\<open>binary.Read\<close> fails on too few bytes; its structs have no padding.\<close>

definition parseTcStats :: "bytes \<Rightarrow> link_error + ClassStatistics" where
  "parseTcStats v =
     (if length v < 36 then Inl ShortStats
      else Inr \<lparr>cs_Basic = \<lparr>gb_Bytes = ru64 0 v, gb_Packets = ru32 8 v\<rparr>,
        cs_Queue = \<lparr>gq_Qlen = ru32 28 v, gq_Backlog = ru32 32 v, gq_Drops = ru32 12 v, gq_Requeues = 0, gq_Overlimits = ru32 16 v\<rparr>,
        cs_RateEst = \<lparr>gr_Bps = ru32 20 v, gr_Pps = ru32 24 v\<rparr>\<rparr>)"

definition stats_datum :: "NetlinkRouteAttr \<Rightarrow> ClassStatistics \<Rightarrow> (link_error + ClassStatistics) outcome" where
  "stats_datum d s =
     (let v = ra_Value d; t = ra_Type d in
      if t = 1 then Done (if length v < 12 then Inl ShortStats else Inr (s\<lparr>cs_Basic := \<lparr>gb_Bytes = ru64 0 v, gb_Packets = ru32 8 v\<rparr>\<rparr>))
      else if t = 3 then Done (if length v < 20 then Inl ShortStats else Inr (s\<lparr>cs_Queue := \<lparr>gq_Qlen = ru32 0 v, gq_Backlog = ru32 4 v,
        gq_Drops = ru32 8 v, gq_Requeues = ru32 12 v, gq_Overlimits = ru32 16 v\<rparr>\<rparr>))
      else if t = 2 then Done (if length v < 8 then Inl ShortStats else Inr (s\<lparr>cs_RateEst := \<lparr>gr_Bps = ru32 0 v, gr_Pps = ru32 4 v\<rparr>\<rparr>))
      else Done (Inr s))"

definition parseTcStats2 :: "bytes \<Rightarrow> (link_error + ClassStatistics) outcome" where
  "parseTcStats2 v = rbind (link_attrs_of v) (\<lambda>as. each_datum stats_datum as NewClassStatistics)"

definition class_of_kind :: "string \<Rightarrow> nl_class" where
  "class_of_kind k =
     (if k = ''htb'' then HtbClass zeroClassAttrs zeroHtbClass
      else if k = ''hfsc'' then HfscClass zeroClassAttrs zeroHfscClass
      else GenericClass zeroClassAttrs k)"

fun parse_class_options :: "bytes \<Rightarrow> nl_class \<Rightarrow> (link_error + nl_class) outcome" where
  "parse_class_options v (HtbClass a x) = nested v (\<lambda>data. obind (parseHtbClassData data x) (\<lambda>x. Done (HtbClass a x)))"
| "parse_class_options v (HfscClass a x) = nested v (\<lambda>data. obind (parseHfscClassData data x) (\<lambda>x. Done (HfscClass a x)))"
| "parse_class_options v c = Done (Inr c)"

definition class_attr :: "NetlinkRouteAttr \<Rightarrow> nl_class option \<times> ClassStatistics option
    \<Rightarrow> (link_error + nl_class option \<times> ClassStatistics option) outcome" where
  "class_attr attr s =
     (let (c, stats) = s; v = ra_Value attr; t = ra_Type attr in
      if t = 1 then obind (value_string v) (\<lambda>k. Done (Inr (Some (class_of_kind k), stats)))
      else if t = 2
      then (case c of None \<Rightarrow> Done (Inr s) | Some c \<Rightarrow> rbind (parse_class_options v c) (\<lambda>c. Done (Inr (Some c, stats))))
      else if t = 3 then Done (map_sum id (\<lambda>x. (c, Some x)) (parseTcStats v))
      else if t = 7 then rbind (parseTcStats2 v) (\<lambda>x. Done (Inr (c, Some x)))
      else Done (Inr s))"

definition decode_class :: "bytes \<Rightarrow> (link_error + nl_class) outcome" where
  "decode_class m =
     obind (DeserializeTcMsg m) (\<lambda>msg.
       rbind (link_attrs_of (drop (TcMsg_Len msg) m)) (\<lambda>attrs.
         rbind (each_datum class_attr attrs (None, None)) (\<lambda>(c, stats).
           case c of
             None \<Rightarrow> Panic NilDereference
           | Some c \<Rightarrow> Done (Inr (set_class_Attrs \<lparr>cl_LinkIndex = sint (tm_Ifindex msg), cl_Handle = tm_Handle msg,
               cl_Parent = tm_Parent msg, cl_Leaf = 0, cl_Statistics = stats\<rparr> c)))))"

fun decode_classes :: "bytes list \<Rightarrow> (link_error + nl_class list) outcome" where
  "decode_classes [] = Done (Inr [])"
| "decode_classes (m # ms) = rbind (decode_class m) (\<lambda>c. rbind (decode_classes ms) (\<lambda>cs. Done (Inr (c # cs))))"

definition ClassList :: "link_ctx \<Rightarrow> nl_link option \<Rightarrow> u32 \<Rightarrow> link_state \<Rightarrow> ((link_error + nl_class list) \<times> nl_link option \<times> link_state) outcome" where
  "ClassList c link parent s =
     (let (req, st) = newNetlinkRequest (lc_h c) RTM_GETTCLASS NLM_F_DUMP (snd s) in
      obind (ensure_given c link (fst s, st)) (\<lambda>(link, s).
        let msg = tc_msg (case link of None \<Rightarrow> 0 | Some l \<Rightarrow> link_Index l) 0 parent 0
        in obind (Execute (lc_os c) (lc_ack c) 0 (word_of_int RTM_NEWTCLASS) (AddData req (StructData (TcMsg_Serialize msg))) (snd s)) (\<lambda>(r, req, st).
          case r of
            Inl e \<Rightarrow> Done (Inl (LinkOs e), link, fst s, st)
          | Inr msgs \<Rightarrow> obind (decode_classes msgs) (\<lambda>r. Done (r, link, fst s, st)))))"

section \<open>Round trip\<close>

text \<open>The rates of a curve come back as multiples of eight.\<close>

definition sent_curve :: "ServiceCurve \<Rightarrow> ServiceCurve" where
  "sent_curve c = \<lparr>sc_m1 = sc_m1 c div 8 * 8, sc_d = sc_d c, sc_m2 = sc_m2 c div 8 * 8\<rparr>"

fun sent_class :: "nl_class \<Rightarrow> nl_class" where
  "sent_class (HtbClass a x) = HtbClass (a\<lparr>cl_Leaf := 0\<rparr>) x"
| "sent_class (HfscClass a x) = HfscClass (a\<lparr>cl_Leaf := 0\<rparr>) \<lparr>hs_Rsc = sent_curve (hs_Rsc x), hs_Fsc = sent_curve (hs_Fsc x), hs_Usc = sent_curve (hs_Usc x)\<rparr>"
| "sent_class (GenericClass a k) = GenericClass (a\<lparr>cl_Leaf := 0\<rparr>) k"

definition stats_attr :: "ClassStatistics \<Rightarrow> request_data" where
  "stats_attr s = RtAttr 7 []
     [NewRtAttr 1 (le64 (gb_Bytes (cs_Basic s)) @ le32 (gb_Packets (cs_Basic s)) @ le32 0),
      NewRtAttr 2 (le32 (gr_Bps (cs_RateEst s)) @ le32 (gr_Pps (cs_RateEst s))),
      NewRtAttr 3 (le32 (gq_Qlen (cs_Queue s)) @ le32 (gq_Backlog (cs_Queue s)) @ le32 (gq_Drops (cs_Queue s)) @ le32 (gq_Requeues (cs_Queue s))
        @ le32 (gq_Overlimits (cs_Queue s)))]"

text \<open>The report of a class: what \<open>ClassAdd\<close> sends for it, and its statistics.\<close>

definition class_report :: "clock \<Rightarrow> nl_class \<Rightarrow> bytes" where
  "class_report ck c =
     TcMsg_Serialize (class_msg (class_Attrs c))
     @ (case classPayload ck c of Done (Inr ds) \<Rightarrow> concat (map attr_wire ds) | _ \<Rightarrow> [])
     @ (case cl_Statistics (class_Attrs c) of None \<Rightarrow> [] | Some s \<Rightarrow> attr_wire (stats_attr s))"

fun plain_class :: "nl_class \<Rightarrow> bool" where
  "plain_class (GenericClass a k) \<longleftrightarrow> k \<noteq> ''htb'' \<and> k \<noteq> ''hfsc'' \<and> length k < 60000"
| "plain_class c \<longleftrightarrow> True"

lemma stats_back: "parseTcStats2 (ra_Value (attr_parsed (stats_attr s))) = Done (Inr s)"
proof -
  have "link_attrs_of (ra_Value (attr_parsed (stats_attr s))) = Done (Inr (map attr_parsed (case stats_attr s of RtAttr t d cs \<Rightarrow> cs)))"
    unfolding stats_attr_def request_data.case link_attrs_of_def
    by (subst parse_children) (auto simp: NewRtAttr_def)
  then show ?thesis
    using read_here(3) [of _ "[]"]
    by (cases s) (simp add: parseTcStats2_def stats_attr_def stats_datum_def NewClassStatistics_def tc_read del: attr_parsed.simps(1))
qed

lemma CalcRtable_rate:
  obtains rtab r n where "CalcRtable ck rate (-1) mtu l = (rtab, r, int n)" "rs_Rate r = rs_Rate rate" "length rtab = 256"
  by (simp add: CalcRtable_def Let_def)

lemma length_SerializeRtab: "length (SerializeRtab t) = 4 * length t"
  by (induction t) (simp_all add: SerializeRtab_def)

lemma htb_class_back:
  obtains cs where "htb_class_options ck x = Inr cs" "each_attr htb_class_datum (map attr_parsed cs) zeroHtbClass = Done x"
    and "\<And>c. c \<in> set cs \<Longrightarrow> is_attr c \<and> attr_Len c < 1100" "length cs \<le> 5"
proof -
  obtain rtab r n where r: "CalcRtable ck (zero_rate\<lparr>rs_Rate := ucast (hc_Rate x)\<rparr>) (-1) 1600 1 = (rtab, r, int n)"
    "rs_Rate r = ucast (hc_Rate x)" "length rtab = 256"
    by (rule CalcRtable_rate [of ck "zero_rate\<lparr>rs_Rate := ucast (hc_Rate x)\<rparr>" 1600 1]) simp
  obtain ctab c m where c: "CalcRtable ck (zero_rate\<lparr>rs_Rate := ucast (hc_Ceil x)\<rparr>) (-1) 1600 1 = (ctab, c, int m)"
    "rs_Rate c = ucast (hc_Ceil x)" "length ctab = 256"
    by (rule CalcRtable_rate [of ck "zero_rate\<lparr>rs_Rate := ucast (hc_Ceil x)\<rparr>" 1600 1]) simp
  obtain cs where cs: "htb_class_options ck x = Inr cs"
    "cs = [NewRtAttr 1 (TcHtbCopt_Serialize \<lparr>htb_Rate = r, htb_Ceil = c, htb_Buffer = hc_Buffer x,
                htb_Cbuffer = hc_Cbuffer x, htb_Quantum = hc_Quantum x, htb_Level = hc_Level x, htb_Prio = hc_Prio x\<rparr>),
              NewRtAttr 4 (SerializeRtab rtab), NewRtAttr 3 (SerializeRtab ctab)]
            @ attr_if (hc_Rate x \<ge> push_bit 32 1) 6 (Uint64Attr (hc_Rate x))
            @ attr_if (hc_Ceil x \<ge> push_bit 32 1) 7 (Uint64Attr (hc_Ceil x))"
    by (simp add: htb_class_options_def r(1) c(1))
  moreover have "each_attr htb_class_datum (map attr_parsed cs) zeroHtbClass = Done x"
    using rate_low [of "hc_Rate x"] rate_low [of "hc_Ceil x"]
    by (cases x) (auto simp: cs(2) attr_if_def htb_class_datum_def htb_codec.dec_enc_exact r(2) c(2) zeroHtbClass_def Let_def not_le)
  moreover have "is_attr d \<and> attr_Len d < 1100" if "d \<in> set cs" for d
    using that by (auto simp: cs(2) attr_if_def NewRtAttr_def htb_codec.enc_length tc_sizes length_SerializeRtab r(3) c(3) Uint64Attr_def split: if_splits)
  moreover have "length cs \<le> 5" by (simp add: cs(2) attr_if_def)
  ultimately show ?thesis using that by blast
qed

lemma curve_back:
  "hfsc_class_datum (attr_parsed (curve_attr 1 c)) x = Done (x\<lparr>hs_Rsc := sent_curve c\<rparr>)"
  "hfsc_class_datum (attr_parsed (curve_attr 2 c)) x = Done (x\<lparr>hs_Fsc := sent_curve c\<rparr>)"
  "hfsc_class_datum (attr_parsed (curve_attr 3 c)) x = Done (x\<lparr>hs_Usc := sent_curve c\<rparr>)"
  by (simp_all add: hfsc_class_datum_def curve_attr_def ServiceCurve_Attrs_def Curve_Set_def cv_codec.dec_enc_exact Curve_Attrs_def sent_curve_def Let_def)

lemma hfsc_class_back:
  "each_attr hfsc_class_datum (map attr_parsed (hfsc_class_options x)) zeroHfscClass
    = Done \<lparr>hs_Rsc = sent_curve (hs_Rsc x), hs_Fsc = sent_curve (hs_Fsc x), hs_Usc = sent_curve (hs_Usc x)\<rparr>"
  by (simp add: hfsc_class_options_def curve_back zeroHfscClass_def)

text \<open>The options of a class, read into a fresh one of its kind.\<close>

lemma class_options_back:
  assumes "plain_class c"
  obtains cs where "class_options ck c = Done (Inr cs)" "attr_Len (RtAttr 2 [] cs) < 6000"
    and "parse_class_options (ra_Value (attr_parsed (RtAttr 2 [] cs))) (class_of_kind (class_Type c)) = Done (Inr (set_class_Attrs zeroClassAttrs (sent_class c)))"
proof -
  have small: "attr_Len (RtAttr 2 [] cs) < 6000" if c: "\<And>c. c \<in> set cs \<Longrightarrow> is_attr c \<and> attr_Len c < 1100" "length cs \<le> 5" for cs
  proof -
    have "rtaAlignOf (attr_Len c) \<le> 1104" if "c \<in> set cs" for c
      using c(1) [OF that] rtaAlignOf_lt [of "attr_Len c"] by linarith
    then have "sum_list (map (\<lambda>c. rtaAlignOf (attr_Len c)) cs) \<le> length cs * 1104" by (rule sum_list_le)
    also have "\<dots> \<le> 5520" using c(2) by simp
    finally show ?thesis using rtaAlignOf_lt [of "sum_list (map (\<lambda>c. rtaAlignOf (attr_Len c)) cs) + 4"]
      by (cases "cs = []") auto
  qed
  have nest: "nested (ra_Value (attr_parsed (RtAttr 2 [] cs))) f = obind (f (map attr_parsed cs)) (\<lambda>x. Done (Inr x))"
    if "\<And>c. c \<in> set cs \<Longrightarrow> is_attr c \<and> attr_Len c < 1100" for cs and f :: "NetlinkRouteAttr list \<Rightarrow> nl_class outcome"
    using that by (intro nested_children) fastforce
  show ?thesis
  proof (cases c)
    case (HtbClass a x)
    obtain cs where cs: "htb_class_options ck x = Inr cs" "each_attr htb_class_datum (map attr_parsed cs) zeroHtbClass = Done x"
      "\<And>c. c \<in> set cs \<Longrightarrow> is_attr c \<and> attr_Len c < 1100" "length cs \<le> 5" by (rule htb_class_back) blast
    show ?thesis
      by (rule that [of cs]) (use cs small [OF cs(3,4)] nest [OF cs(3)] HtbClass in \<open>simp_all add: class_of_kind_def parseHtbClassData_def zeroClassAttrs_def del: attr_parsed.simps attr_Len.simps\<close>)
  next
    case (HfscClass a x)
    have cs: "is_attr d \<and> attr_Len d < 1100" if "d \<in> set (hfsc_class_options x)" for d
      using that by (auto simp: hfsc_class_options_def curve_attr_def ServiceCurve_Attrs_def NewRtAttr_def cv_codec.enc_length)
    have l: "length (hfsc_class_options x) \<le> 5" by (simp add: hfsc_class_options_def)
    show ?thesis
      by (rule that [of "hfsc_class_options x"]) (use hfsc_class_back [of x] small [OF cs l] nest [OF cs] HfscClass in \<open>simp_all add: class_of_kind_def parseHfscClassData_def zeroClassAttrs_def del: attr_parsed.simps attr_Len.simps\<close>)
  next
    case (GenericClass a k)
    then show ?thesis using assms by (intro that [of "[]"]) (simp_all add: class_of_kind_def zeroClassAttrs_def)
  qed
qed

lemma class_read:
  assumes "plain_class c" and "in_s32 (cl_LinkIndex (class_Attrs c))"
  shows "decode_class (class_report ck c) = Done (Inr (sent_class c))"
proof -
  let ?a = "class_Attrs c" and ?stats = "case cl_Statistics (class_Attrs c) of None \<Rightarrow> [] | Some s \<Rightarrow> [stats_attr s]"
  obtain cs where cs: "class_options ck c = Done (Inr cs)" "attr_Len (RtAttr 2 [] cs) < 6000"
    "parse_class_options (ra_Value (attr_parsed (RtAttr 2 [] cs))) (class_of_kind (class_Type c)) = Done (Inr (set_class_Attrs zeroClassAttrs (sent_class c)))"
    by (rule class_options_back [OF assms(1)])
  let ?ds = "[NewRtAttr 1 (ZeroTerminated (class_Type c)), RtAttr 2 [] cs] @ ?stats"
  have r: "class_report ck c = TcMsg_Serialize (class_msg ?a) @ concat (map attr_wire ?ds)"
    by (simp add: class_report_def classPayload_def cs(1) del: attr_wire.simps split: option.splits)
  have v: "length (tm_Pad (class_msg ?a)) = 3" by (simp add: class_msg_def tc_msg_def)
  have h: "DeserializeTcMsg (class_report ck c) = Done (class_msg ?a)" "drop (TcMsg_Len (class_msg ?a)) (class_report ck c) = concat (map attr_wire ?ds)"
    using tm_codec.dec_enc [OF v] tm_codec.enc_length [OF v] unfolding r by (simp_all add: tc_sizes del: attr_wire.simps)
  have "is_attr d \<and> attr_Len d < 2 ^ 16" if "d \<in> set ?ds" for d
  proof -
    have "length (class_Type c) < 60000" using assms(1) by (cases c) simp_all
    then show ?thesis using that cs(2)
      by (auto simp: stats_attr_def NewRtAttr_def rtaAlignOf_eq simp del: attr_Len.simps(1) split: option.splits)
        (auto simp: rtaAlignOf_eq)
  qed
  then have w: "link_attrs_of (concat (map attr_wire ?ds)) = Done (Inr (map attr_parsed ?ds))"
    using parse_wires [of ?ds "[]"] by (simp add: link_attrs_of_def ParseRouteAttr_def del: attr_wire.simps attr_parsed.simps)
  have st: "each_datum class_attr (map attr_parsed ?stats) (x, None) = Done (Inr (x, cl_Statistics ?a))" for x
    using stats_back by (auto simp: class_attr_def stats_attr_def parsed_type simp del: attr_parsed.simps split: option.splits)
  have l: "each_datum class_attr (map attr_parsed ?ds) (None, None) = Done (Inr (Some (set_class_Attrs zeroClassAttrs (sent_class c)), cl_Statistics ?a))"
    unfolding map_append each_datum_append
    using cs(3) st by (simp add: class_attr_def parsed_type del: attr_parsed.simps(1))
  have m: "tm_Ifindex (class_msg ?a) = word_of_int (cl_LinkIndex ?a)" "tm_Handle (class_msg ?a) = cl_Handle ?a" "tm_Parent (class_msg ?a) = cl_Parent ?a"
    by (simp_all add: class_msg_def tc_msg_def)
  have e: "set_class_Attrs \<lparr>cl_LinkIndex = cl_LinkIndex ?a, cl_Handle = cl_Handle ?a, cl_Parent = cl_Parent ?a, cl_Leaf = 0, cl_Statistics = cl_Statistics ?a\<rparr>
      (set_class_Attrs zeroClassAttrs (sent_class c)) = sent_class c"
    by (cases c) simp_all
  define ds where "ds = ?ds"
  show ?thesis
    using h [folded ds_def] w [folded ds_def] l [folded ds_def] e sint_in_s32 [OF assms(2)] by (simp add: decode_class_def m)
qed

lemma decode_classes_reports:
  assumes "\<And>c. c \<in> set cs \<Longrightarrow> plain_class c \<and> in_s32 (cl_LinkIndex (class_Attrs c))"
  shows "decode_classes (map (class_report ck) cs) = Done (Inr (map sent_class cs))"
  using assms by (induction cs) (simp_all add: class_read)

text \<open>The classes that a kernel reports with the options that \<open>ClassAdd\<close> sends for them and with their statistics are listed by
\<open>ClassList\<close> in order: htb classes with every field, also rates of \<open>2 ^ 32\<close> bytes and more, hfsc classes with the rates of
their curves rounded down to multiples of eight, all with their statistics and without the leaf.\<close>

theorem ClassList_reported:
  assumes "lc_h c = None" and "answered (lc_os c) st RTM_GETTCLASS NLM_F_DUMP [StructData (TcMsg_Serialize (tc_msg (link_Index l) 0 parent 0))] parts 0"
    and "selected (word_of_int RTM_NEWTCLASS) parts = map (class_report ck) cs"
    and "\<And>c. c \<in> set cs \<Longrightarrow> plain_class c \<and> in_s32 (cl_LinkIndex (class_Attrs c))" and "link_Index l \<noteq> 0"
  shows "\<exists>st'. ClassList c (Some l) parent (dump, st) = Done (Inr (map sent_class cs), Some l, dump, st') \<and> st_open st' = st_open st"
proof -
  let ?t = "word_of_int RTM_NEWTCLASS :: u16" and ?m = "StructData (TcMsg_Serialize (tc_msg (link_Index l) 0 parent 0))"
  obtain st' where r: "do_request (lc_os c) (lc_ack c) None RTM_GETTCLASS NLM_F_DUMP ?t [?m] st = Done (final_result 0 (selected ?t parts), st')"
    and f: "follows st st'"
    by (rule do_request_follows [OF answered_replied [OF assms(2)]])
  obtain req st1 where n: "newNetlinkRequest None RTM_GETTCLASS NLM_F_DUMP st = (req, st1)" by fastforce
  from r obtain req' where e: "Execute (lc_os c) (lc_ack c) 0 ?t (AddData req ?m) st1 = Done (Inr (map (class_report ck) cs), req', st')"
    by (auto simp: do_request_def n final_result_def assms(3))
  show ?thesis
    using n e f decode_classes_reports [OF assms(4)] assms(1,5)
    by (simp add: ClassList_def ensure_given_def ensureIndex_def follows_def)
qed

definition example_classes :: "nl_class list" where
  "example_classes =
     [HtbClass \<lparr>cl_LinkIndex = 2, cl_Handle = 0x10001, cl_Parent = 0x10000, cl_Leaf = 0,
        cl_Statistics = Some (NewClassStatistics\<lparr>cs_Basic := \<lparr>gb_Bytes = 0x200000000, gb_Packets = 9\<rparr>\<rparr>)\<rparr>
        \<lparr>hc_Rate = 0x2540BE400, hc_Ceil = 125000, hc_Buffer = 8, hc_Cbuffer = 8, hc_Quantum = 1514, hc_Level = 0, hc_Prio = 1\<rparr>,
      HfscClass \<lparr>cl_LinkIndex = 2, cl_Handle = 0x10002, cl_Parent = 0x10000, cl_Leaf = 0, cl_Statistics = None\<rparr>
        (SetSC 1000 5 10001 zeroHfscClass)]"

lemma class_report_short:
  assumes "plain_class c" and "length (class_Type c) < 1000"
  shows "length (class_report ck c) < 60000"
proof -
  obtain cs where cs: "class_options ck c = Done (Inr cs)" "attr_Len (RtAttr 2 [] cs) < 6000"
    by (rule class_options_back [OF assms(1)]) blast
  have v: "length (tm_Pad (class_msg (class_Attrs c))) = 3" by (simp add: class_msg_def tc_msg_def)
  have "length (attr_wire (RtAttr 2 [] cs)) < 6004"
    using cs(2) rtaAlignOf_lt [of "attr_Len (RtAttr 2 [] cs)"] unfolding length_wire_RtAttr by linarith
  moreover have "length (attr_wire (NewRtAttr 1 (ZeroTerminated (class_Type c)))) < 1009"
    using assms(2) rtaAlignOf_lt [of "length (class_Type c) + 1"] by (simp add: NewRtAttr_def)
  moreover have "length (attr_wire (stats_attr s)) < 100" for s
    by (simp add: stats_attr_def NewRtAttr_def pad4_def rtaAlignOf_eq)
  then have "length (case cl_Statistics (class_Attrs c) of None \<Rightarrow> [] | Some s \<Rightarrow> attr_wire (stats_attr s)) < 100"
    by (simp split: option.splits)
  moreover have "length (class_report ck c) = 20 + length (attr_wire (NewRtAttr 1 (ZeroTerminated (class_Type c)))) + length (attr_wire (RtAttr 2 [] cs))
      + length (case cl_Statistics (class_Attrs c) of None \<Rightarrow> [] | Some s \<Rightarrow> attr_wire (stats_attr s))"
    using tm_codec.enc_length [OF v] by (simp add: class_report_def classPayload_def cs(1) tc_sizes del: attr_wire.simps)
  ultimately show ?thesis by linarith
qed

lemma example_classes_ok: "c \<in> set example_classes \<Longrightarrow> plain_class c \<and> in_s32 (cl_LinkIndex (class_Attrs c)) \<and> length (class_Type c) < 1000"
  by (auto simp: example_classes_def in_s32_def)

lemma ClassList_reported_witness:
  "\<exists>st'. ClassList (example_ctx (reply_os (word_of_int RTM_NEWTCLASS) (map (class_report no_clock) example_classes)))
      (Some (Device (zeroLinkAttrs\<lparr>la_Index := 2\<rparr>))) 0 (False, idle_state)
    = Done (Inr [hd example_classes,
        HfscClass \<lparr>cl_LinkIndex = 2, cl_Handle = 0x10002, cl_Parent = 0x10000, cl_Leaf = 0, cl_Statistics = None\<rparr> (SetSC 1000 5 10000 zeroHfscClass)],
        Some (Device (zeroLinkAttrs\<lparr>la_Index := 2\<rparr>)), False, st')
    \<and> st_open st' = []"
proof -
  let ?t = "word_of_int RTM_NEWTCLASS :: u16" and ?l = "Device (zeroLinkAttrs\<lparr>la_Index := 2\<rparr>)"
  let ?ms = "map (class_report no_clock) example_classes"
  have t: "?t \<noteq> NLMSG_DONE" "?t \<noteq> NLMSG_ERROR" by (simp_all add: RTM_NEWTCLASS_def NLMSG_DONE_def NLMSG_ERROR_def)
  have a: "answered (reply_os ?t ?ms) idle_state RTM_GETTCLASS NLM_F_DUMP
      [StructData (TcMsg_Serialize (tc_msg (link_Index ?l) 0 0 0))] (map (script_msg 1 ?t NLM_F_MULTI) ?ms) 0"
    by (rule reply_os_answered [OF t]) (use class_report_short example_classes_ok in auto)
  have s: "selected ?t (map (script_msg 1 ?t NLM_F_MULTI) ?ms) = ?ms" by (simp add: script_msg_def comp_def)
  have f: "map sent_class example_classes = [hd example_classes,
        HfscClass \<lparr>cl_LinkIndex = 2, cl_Handle = 0x10002, cl_Parent = 0x10000, cl_Leaf = 0, cl_Statistics = None\<rparr> (SetSC 1000 5 10000 zeroHfscClass)]"
    by (simp add: example_classes_def sent_curve_def SetSC_def SetFsc_def SetRsc_def zeroHfscClass_def zeroCurve_def)
  have c: "lc_h (example_ctx os) = None" "lc_os (example_ctx os) = os" for os by (simp_all add: example_ctx_def)
  have "plain_class c \<and> in_s32 (cl_LinkIndex (class_Attrs c))" if "c \<in> set example_classes" for c using example_classes_ok [OF that] by simp
  from ClassList_reported [where c = "example_ctx (reply_os ?t ?ms)" and st = idle_state and l = ?l and dump = False and parent = 0
        and ck = no_clock and cs = example_classes, unfolded c, OF refl a s this]
  show ?thesis by (simp add: f idle_state_def del: map_map)
qed

end
