(* ===== verification/IngressNet.thy ===== *)
theory IngressNet
  imports TcNetlink NlAddr
begin

text \<open>
  The redirection of \<open>pkg/tc/netlink.go\<close> over the netlink library: \<open>NicIngressFilterToIfb\<close> on top of the five kinds of calls
  it makes, from bytes to the state of the package. What \<open>TcNetlink\<close> takes from a kernel by its laws, the messages show:
  the filter the kernel is asked for, and what is found of it when the daemon starts again.
\<close>

section \<open>The calls\<close>

text \<open>\<open>FilterList\<close> for any link: the request is made before the index of the link is looked up.\<close>

definition FilterList_link :: "clock \<Rightarrow> link_ctx \<Rightarrow> nl_link option \<Rightarrow> u32 \<Rightarrow> link_state
    \<Rightarrow> ((modify_error + nl_filter list) \<times> nl_link option \<times> link_state) outcome" where
  "FilterList_link ck c link parent s =
     (let (req, st) = newNetlinkRequest (lc_h c) RTM_GETTFILTER NLM_F_DUMP (snd s) in
      obind (ensure_given c link (fst s, st)) (\<lambda>(link, s).
        let msg = tc_msg (case link of None \<Rightarrow> 0 | Some l \<Rightarrow> link_Index l) 0 parent 0
        in obind (Execute (lc_os c) (lc_ack c) 0 (word_of_int RTM_NEWTFILTER) (AddData req (StructData (TcMsg_Serialize msg))) (snd s)) (\<lambda>(r, req, st).
          case r of
            Inl e \<Rightarrow> Done (Inl (ExecErr e), link, fst s, st)
          | Inr msgs \<Rightarrow> obind (decode_filters ck msgs) (\<lambda>r. Done (map_sum EncodeErr id r, link, fst s, st)))))"

type_synonym ingress_error = "(link_error + modify_error) tc_error"

fun scan_filters_netlink :: "link_ctx \<Rightarrow> string \<Rightarrow> string \<Rightarrow> nl_filter list \<Rightarrow> nl_state \<Rightarrow> ((ingress_error + bool) \<times> nl_state) outcome" where
  "scan_filters_netlink c filterType hostNicName [] st = Done (Inr False, st)"
| "scan_filters_netlink c filterType hostNicName (tmpFilter # fs) st =
     (if filter_Type tmpFilter = filterType
      then if fa_Priority (filter_Attrs tmpFilter) = 2 then Done (Inr True, st)
           else obind (nl_FilterDel (lc_os c) (lc_ack c) (lc_h c) tmpFilter st) (\<lambda>(e, st).
             case e of
               Some e \<Rightarrow> Done (Inl (DelFilterErr hostNicName tmpFilter (Inr (ExecErr e))), st)
             | None \<Rightarrow> scan_filters_netlink c filterType hostNicName fs st)
      else scan_filters_netlink c filterType hostNicName fs st)"

definition redirect_type :: "string \<Rightarrow> string" where
  "redirect_type Custom = (if Custom = ''DAHUA'' then ''dhcmatchall'' else ''matchall'')"

text \<open>The end of the function, after the loop over the filters.\<close>

definition add_redirect :: "clock \<Rightarrow> link_ctx \<Rightarrow> string \<Rightarrow> int \<Rightarrow> string \<Rightarrow> link_state \<Rightarrow> (ingress_error option \<times> link_state) outcome" where
  "add_redirect ck c Custom linkIndex ifbName s =
     obind (nl_LinkByName c ifbName s) (\<lambda>(r, s).
       case r of
         Inl e \<Rightarrow> Done (Some (GetIntfErr ifbName (Inl e)), s)
       | Inr ifbLink \<Rightarrow>
           obind (nl_FilterReplace ck (lc_os c) (lc_ack c) (lc_h c) (redirect_filter Custom linkIndex (link_Index ifbLink)) (snd s)) (\<lambda>(e, st).
             Done (map_option (\<lambda>e. AddFilterErr (Inr e)) e, fst s, st)))"

definition NicIngressFilterToIfb_netlink :: "clock \<Rightarrow> link_ctx \<Rightarrow> string \<Rightarrow> string \<Rightarrow> string \<Rightarrow> link_state
    \<Rightarrow> (ingress_error option \<times> link_state) outcome" where
  "NicIngressFilterToIfb_netlink ck c Custom hostNicName ifbName s =
     obind (nl_LinkByName c hostNicName s) (\<lambda>(r, s).
       case r of
         Inl e \<Rightarrow> Done (Some (GetIntfErr hostNicName (Inl e)), s)
       | Inr link \<Rightarrow>
           obind (FilterList_link ck c (Some link) HANDLE_MIN_INGRESS s) (\<lambda>(r, link', s).
             case r of
               Inl e \<Rightarrow> Done (Some (ListFilterErr hostNicName (Inr e)), s)
             | Inr filterList \<Rightarrow>
                 obind (scan_filters_netlink c (redirect_type Custom) hostNicName filterList (snd s)) (\<lambda>(r, st).
                   case r of
                     Inl e \<Rightarrow> Done (Some e, fst s, st)
                   | Inr True \<Rightarrow> Done (None, fst s, st)
                   | Inr False \<Rightarrow> add_redirect ck c Custom (link_Index (case link' of None \<Rightarrow> link | Some l \<Rightarrow> l)) ifbName (fst s, st))))"

section \<open>Calls that are answered\<close>

definition name_request :: "string \<Rightarrow> request_data list" where
  "name_request name = [info_msg 0 0 0 0, ext_mask, NewRtAttr 3 (ZeroTerminated name)]"

lemma LinkByName_reported:
  assumes "lc_h c = None" and "answered_once (lc_os c) st RTM_GETLINK NLM_F_ACK (name_request name) 0 (report_bytes p)" and "report_ok p"
  obtains st' where "nl_LinkByName c name (False, st) = Done (Inr (report_link p), False, st')" and "follows st st'"
proof -
  have "answered_once (lc_os c) (snd (False, st)) RTM_GETLINK NLM_F_ACK (name_request name) 0 (report_bytes p)" using assms(2) by simp
  from execGetLink_once [OF assms(1) this report_read [OF assms(3)]] obtain st'
    where "execGetLink c (name_request name) (False, st) = Done (Inr (report_link p), False, st')" "follows st st'" by auto
  then show ?thesis using that by (simp add: nl_LinkByName_def lookup_or_dump_def name_request_def)
qed

lemma FilterList_reported:
  assumes "lc_h c = None" and "answered (lc_os c) st RTM_GETTFILTER NLM_F_DUMP [StructData (TcMsg_Serialize (tc_msg (link_Index l) 0 parent 0))] parts 0"
    and "decode_filters ck (selected (word_of_int RTM_NEWTFILTER) parts) = Done (Inr fs)" and "link_Index l \<noteq> 0"
  obtains st' where "FilterList_link ck c (Some l) parent (dump, st) = Done (Inr fs, Some l, dump, st')" and "follows st st'"
proof -
  let ?t = "word_of_int RTM_NEWTFILTER :: u16" and ?d = "[StructData (TcMsg_Serialize (tc_msg (link_Index l) 0 parent 0))]"
  obtain st' where r: "do_request (lc_os c) (lc_ack c) None RTM_GETTFILTER NLM_F_DUMP ?t ?d st = Done (final_result 0 (selected ?t parts), st')"
    and f: "follows st st'"
    by (rule do_request_follows [OF answered_replied [OF assms(2)]])
  obtain req st1 where n: "newNetlinkRequest None RTM_GETTFILTER NLM_F_DUMP st = (req, st1)" by fastforce
  obtain req' where "Execute (lc_os c) (lc_ack c) 0 ?t (fold (\<lambda>d req. AddData req d) ?d req) st1 = Done (final_result 0 (selected ?t parts), req', st')"
    by (rule do_request_executed [OF r n])
  then have e: "Execute (lc_os c) (lc_ack c) 0 ?t (AddData req (hd ?d)) st1 = Done (Inr (selected ?t parts), req', st')"
    by (simp add: final_result_def)
  have "FilterList_link ck c (Some l) parent (dump, st) = Done (Inr fs, Some l, dump, st')"
    using n e assms(1,3,4) by (simp add: FilterList_link_def ensure_given_def ensureIndex_def)
  then show ?thesis using f by (rule that)
qed

lemma FilterReplace_answered:
  assumes "filter_data ck f = Done (Inr data)" and "answered os st RTM_NEWTFILTER (NLM_F_CREATE OR NLM_F_ACK) data parts code"
  obtains st' where "nl_FilterReplace ck os ack None f st
      = Done (if code = 0 then None else Some (ExecErr (Errno (uint (scast (- code) :: u64)))), st')" and "follows st st'"
proof -
  obtain st' where r: "do_request os ack None RTM_NEWTFILTER (NLM_F_CREATE OR NLM_F_ACK) 0 data st = Done (final_result code (selected 0 parts), st')"
    and f: "follows st st'"
    by (rule do_request_follows [OF answered_replied [OF assms(2)]])
  obtain req st1 where n: "newNetlinkRequest None RTM_NEWTFILTER (NLM_F_CREATE OR NLM_F_ACK) st = (req, st1)" by fastforce
  obtain req' where "Execute os ack 0 0 (fold (\<lambda>d req. AddData req d) data req) st1 = Done (final_result code (selected 0 parts), req', st')"
    by (rule do_request_executed [OF r n])
  then have "nl_FilterReplace ck os ack None f st
      = Done (if code = 0 then None else Some (ExecErr (Errno (uint (scast (- code) :: u64)))), st')"
    using n assms(1) by (simp add: nl_FilterReplace_def filterModify_def final_result_def)
  then show ?thesis using f by (rule that)
qed

lemma scan_none: "\<forall>f \<in> set fs. filter_Type f \<noteq> T \<Longrightarrow> scan_filters_netlink c T nic fs st = Done (Inr False, st)"
  by (induction fs) auto

lemma scan_kept:
  "\<forall>f \<in> set fs. filter_Type f \<noteq> T \<Longrightarrow> filter_Type g = T \<Longrightarrow> fa_Priority (filter_Attrs g) = 2
    \<Longrightarrow> scan_filters_netlink c T nic (fs @ g # gs) st = Done (Inr True, st)"
  by (induction fs) auto

section \<open>The filter on the wire\<close>

lemma filter_payload_data:
  assumes "filter_payload ck f = Done (Inr m)"
  obtains data where "filter_data ck f = Done (Inr data)" and "m = concat (map attr_wire data)"
proof (cases "filter_data ck f")
  case (Done r)
  then show ?thesis using assms that by (cases r) (auto simp: filter_payload_def)
qed (use assms in \<open>simp_all add: filter_payload_def\<close>)

lemma redirect_wire:
  assumes "- (2 ^ 31) \<le> i" and "i < 2 ^ 31" and "0 \<le> j" and "j < 2 ^ 31"
  obtains data where "filter_data ck (redirect_filter Custom i j) = Done (Inr data)"
    and "decode_filter ck (concat (map attr_wire data)) = Done (Inr (Some (filter_sent (redirect_filter Custom i j))))"
proof -
  let ?a = "\<lparr>fa_LinkIndex = i, fa_Handle = 0, fa_Parent = HANDLE_MIN_INGRESS, fa_Priority = 2, fa_Protocol = ETH_P_ALL\<rparr>"
  let ?act = "(NewMirredAction j)\<lparr>ma_MirredAction := TCA_EGRESS_REDIR\<rparr>"
  have v: "valid_fa ?a" using assms(1,2) by (simp add: valid_fa_def)
  have w: "\<forall>x \<in> set [AMirred ?act]. valid_action x"
    using assms(3,4) by (simp add: NewMirredAction_def no_attrs_def valid_attrs_def TC_ACT_STOLEN_def)
  show ?thesis
  proof (cases "Custom = ''DAHUA''")
    case True
    obtain kind opts where k: "encode_action ck (AMirred ?act) = Inr (kind, opts)" "length kind = 6" "length opts = 1" "attr_Len (hd opts) = 32"
      by (simp add: NewMirredAction_def)
    then obtain o1 where o: "opts = [o1]" "attr_Len o1 = 32" by (cases opts) auto
    have e: "EncodeActions ck (map Some [AMirred ?act]) = Done (Inr [action_table 1 kind opts])"
      using k(1) by (simp add: EncodeActions_def del: encode_action.simps)
    have l: "attr_Len (RtAttr 2 [] [action_table 1 kind opts]) < 2 ^ 15"
      using k(2) o by (simp add: action_table_def rtaAlignOf_eq)
    from matchall_sent [OF v w e l, of 0] obtain m
      where m: "filter_payload ck (redirect_filter Custom i j) = Done (Inr m)" "decode_filter ck m = Done (Inr (Some (redirect_filter Custom i j)))"
      using True by (auto simp: redirect_filter_def Let_def)
    obtain data where "filter_data ck (redirect_filter Custom i j) = Done (Inr data)" "m = concat (map attr_wire data)"
      by (rule filter_payload_data [OF m(1)])
    then show ?thesis using m(2) True by (intro that) (simp_all add: redirect_filter_def Let_def)
  next
    case False
    show ?thesis
      using that decode_payload [OF v, of "''matchall''" "[]" ck "MatchAll no_fa 0 []"] False
      by (simp add: redirect_filter_def filter_data_def fresh_filter_def parseMatchAllData_def Let_def)
  qed
qed

section \<open>The redirection\<close>

text \<open>The answers up to the loop over the filters: the NIC and the filters of its ingress side.\<close>

definition nic_answers :: "clock \<Rightarrow> link_ctx \<Rightarrow> nl_state \<Rightarrow> string \<Rightarrow> report \<Rightarrow> nl_filter list \<Rightarrow> bool" where
  "nic_answers ck c st nic p fs \<longleftrightarrow>
     lc_h c = None \<and> report_ok p \<and> link_Index (report_link p) \<noteq> 0
     \<and> answered_once (lc_os c) st RTM_GETLINK NLM_F_ACK (name_request nic) 0 (report_bytes p)
     \<and> (\<exists>parts. answered (lc_os c) (next_state st) RTM_GETTFILTER NLM_F_DUMP
            [StructData (TcMsg_Serialize (tc_msg (link_Index (report_link p)) 0 HANDLE_MIN_INGRESS 0))] parts 0
          \<and> decode_filters ck (selected (word_of_int RTM_NEWTFILTER) parts) = Done (Inr fs))"

lemma NicIngressFilterToIfb_scanned:
  assumes "nic_answers ck c st nic p fs"
  obtains st' where "NicIngressFilterToIfb_netlink ck c Custom nic ifb (False, st)
      = obind (scan_filters_netlink c (redirect_type Custom) nic fs st') (\<lambda>(r, st). case r of
          Inl e \<Rightarrow> Done (Some e, False, st)
        | Inr True \<Rightarrow> Done (None, False, st)
        | Inr False \<Rightarrow> add_redirect ck c Custom (link_Index (report_link p)) ifb (False, st))"
    and "follows (next_state st) st'"
proof -
  from assms obtain parts where a: "lc_h c = None" "report_ok p" "link_Index (report_link p) \<noteq> 0"
    "answered_once (lc_os c) st RTM_GETLINK NLM_F_ACK (name_request nic) 0 (report_bytes p)"
    "answered (lc_os c) (next_state st) RTM_GETTFILTER NLM_F_DUMP
       [StructData (TcMsg_Serialize (tc_msg (link_Index (report_link p)) 0 HANDLE_MIN_INGRESS 0))] parts 0"
    "decode_filters ck (selected (word_of_int RTM_NEWTFILTER) parts) = Done (Inr fs)"
    unfolding nic_answers_def by blast
  obtain st1 where l: "nl_LinkByName c nic (False, st) = Done (Inr (report_link p), False, st1)" "follows st st1"
    by (rule LinkByName_reported [OF a(1,4,2)])
  obtain st2 where f: "FilterList_link ck c (Some (report_link p)) HANDLE_MIN_INGRESS (False, st1) = Done (Inr fs, Some (report_link p), False, st2)"
    "follows st1 st2"
    by (rule FilterList_reported [OF a(1) a(5) [folded answered_follows(1) [OF l(2)]] a(6,3)])
  show ?thesis
  proof (rule that)
    show "follows (next_state st) st2" using l(2) f(2) by (simp add: follows_trans)
  qed (simp only: NicIngressFilterToIfb_netlink_def l f obind.simps prod.case sum.case option.case fst_conv snd_conv)
qed

text \<open>A filter of its type with the right priority is taken for the redirection, whatever its actions; nothing is sent.\<close>

lemma NicIngressFilterToIfb_kept:
  assumes "nic_answers ck c st nic p (fs @ f # gs)" and "\<forall>f \<in> set fs. filter_Type f \<noteq> redirect_type Custom"
    and "filter_Type f = redirect_type Custom" and "fa_Priority (filter_Attrs f) = 2"
  shows "\<exists>st'. NicIngressFilterToIfb_netlink ck c Custom nic ifb (False, st) = Done (None, False, st') \<and> follows (next_state st) st'"
proof -
  obtain st1 where r: "NicIngressFilterToIfb_netlink ck c Custom nic ifb (False, st)
      = obind (scan_filters_netlink c (redirect_type Custom) nic (fs @ f # gs) st1) (\<lambda>(r, st). case r of
          Inl e \<Rightarrow> Done (Some e, False, st)
        | Inr True \<Rightarrow> Done (None, False, st)
        | Inr False \<Rightarrow> add_redirect ck c Custom (link_Index (report_link p)) ifb (False, st))" "follows (next_state st) st1"
    by (rule NicIngressFilterToIfb_scanned [OF assms(1)])
  then show ?thesis using scan_kept [OF assms(2-4)] by simp
qed


section \<open>An example\<close>

definition ifb_report :: report where
  "ifb_report = (card_msg 3, Ifb (NewLinkAttrs\<lparr>la_Name := ''ifb0'', la_MTU := 1500, la_TxQLen := 1000\<rparr>), [])"

definition card_report :: report where "card_report = (card_msg 2, card, [])"

definition basic_fa :: FilterAttrs where "basic_fa = example_fa\<lparr>fa_LinkIndex := 2, fa_Priority := 49152\<rparr>"

definition basic_filter :: bytes where
  "basic_filter = TcMsg_Serialize (filter_msg basic_fa) @ attr_wire (NewRtAttr 1 (ZeroTerminated ''basic'')) @ attr_wire (RtAttr 2 [] [])"

definition ingress_script :: "u8 \<Rightarrow> (NlMsghdr \<times> bytes) list" where
  "ingress_script q =
     (if q = 1 then [script_msg 1 (word_of_int RTM_NEWLINK) 0 (report_bytes card_report)]
      else if q = 2 then map (script_msg 2 (word_of_int RTM_NEWTFILTER) NLM_F_MULTI) [basic_filter] @ [script_msg 2 NLMSG_DONE NLM_F_MULTI (le32 0)]
      else if q = 3 then [script_msg 3 (word_of_int RTM_NEWLINK) 0 (report_bytes ifb_report)]
      else [script_msg 4 NLMSG_DONE NLM_F_MULTI (le32 0)])"

lemma example_devices_ok: "report_ok card_report" "report_ok ifb_report"
  by (auto simp: card_report_def ifb_report_def example_links report_ok_def plain_link_def plain_base_def is_device_def reported_def int_attr_def
    attr_if_def rtaAlignOf_eq)

lemma example_devices_short: "length (report_bytes card_report) < 60000" "length (report_bytes ifb_report) < 60000"
  by (auto simp: card_report_def ifb_report_def example_links report_bytes_def link_message_def reported_def is_device_def int_attr_def attr_if_def
    IfInfomsg_Serialize_def rtaAlignOf_eq NewRtAttr_def Uint32Attr_def pad4_def htons_def)

lemma basic_filter_read: "decode_filter no_clock basic_filter = Done (Inr (Some (GenericFilter basic_fa ''basic'')))"
proof -
  have "valid_fa basic_fa" by (simp add: valid_fa_def basic_fa_def example_fa_def)
  from decode_payload [OF this, of "''basic''" "[]" no_clock "GenericFilter no_fa ''basic''"] show ?thesis
    by (simp add: basic_filter_def fresh_filter_def)
qed

lemma basic_filter_short: "length basic_filter < 60000"
  by (simp add: basic_filter_def filter_msg_def tc_msg_def TcMsg_Serialize_def rtaAlignOf_eq pad4_def NewRtAttr_def)


end
