(* ===== verification/Spec2Isabelle.thy ===== *)
theory Spec2Isabelle
  imports NodeSystem AlgNic CniNet NlClass IngressNet
begin

text \<open>
  BeeQos: bandwidth management for Kubernetes pods. This is the root of a verification of the Go
  code of the repository; all paths below are relative to \<open>src/bwm\<close>.

  \<^bold>\<open>The program.\<close> A node runs two daemons. The node daemon (\<open>cmd/daemon\<close>) gives every pod and every
  configured flow a 16-bit local id and writes its bandwidth request into pinned eBPF maps. It is
  called over a socket by the CNI plugin (\<open>cmd/cni-plugin\<close>) when a pod's network is added or deleted
  and by the command line tool \<open>bwmctl\<close> (\<open>cmd/cmdctl\<close>) for single flows; pods carry their requests in
  annotations, and the ids are stored there too, so that a restarted daemon recovers them. The
  alg-daemon (\<open>cmd/alg-daemon\<close>) attaches the eBPF programs to the host NIC, redirects ingress traffic
  to an IFB device through netlink, and then runs one loop per direction that reads statistics and
  configurations from the maps, divides the bandwidth of the link among the objects with traffic
  and writes the rates back. The two daemons share the six maps and nothing else.

  \<^bold>\<open>The theories\<close>, in the order of their imports.

  \<^item> \<open>Go_Prelude\<close>, \<open>Go_Strings\<close>, \<open>Go_Float\<close>: the Go language and library as the code uses them.
    Integers are words of their width; \<open>outcome\<close> is a value, a run-time panic or a call that never
    returns; \<open>strings\<close>, \<open>strconv\<close>, \<open>encoding/binary\<close>; doubles as sign, mantissa and exponent
    with rounding to nearest even.
  \<^item> \<open>Common_Types\<close>, \<open>IdManager\<close>: \<open>cmd/daemon/common/types.go\<close> and \<open>cmd/daemon/idmanager\<close>. The
    four Go maps are the fields of the record \<open>IDManager\<close>; every method is one state change, because
    it holds the mutex for its whole body. The locale \<open>id_pool\<close> is the contract of one id pool,
    interpreted on pods and on flows: ids are unique, in range, and the forward and backward maps agree.
  \<^item> \<open>Nets\<close>, \<open>Tcbpf\<close>, \<open>BpfUtils\<close>: \<open>pkg/nets\<close> and \<open>pkg/bpfgo\<close>. The record \<open>Tcbpf\<close> holds the six
    maps; the locales \<open>array_map\<close> and \<open>lru_map\<close> state what \<open>bpf(2)\<close> promises of them, and
    \<open>throttle_side\<close>, interpreted on egress and ingress, is what one direction of the wrapper promises.
    \<open>BpfUtils\<close> builds and runs the \<open>tc\<close> commands; \<open>tc_tool\<close> says what the tool does.
  \<^item> \<open>AlgProc\<close>, \<open>AlgAlloc\<close>, \<open>AlgProps\<close>, \<open>AlgRun\<close>: \<open>cmd/alg-daemon/algproc/daemon_proc.go\<close>. \<open>AlgProc\<close> is
    the code, loop by loop; \<open>AlgAlloc\<close> brings the two allocation loops to a closed form; \<open>AlgProps\<close>
    bounds the total that is handed out, shows that no bandwidth is left over while an object wants
    more, and that a busy object climbs to its guaranteed rate; \<open>AlgRun\<close> lifts this to passes over the
    maps, for both directions by the locale \<open>alg_direction\<close>.
  \<^item> \<open>K8sLib\<close>, \<open>RpcServer\<close>, \<open>DaemonMain\<close>: \<open>cmd/daemon/k8slib\<close>, \<open>cmd/daemon/rpcserver\<close> and
    \<open>cmd/daemon/main.go\<close>. Annotations are parsed and printed, requests handled with every error return
    and panic, and a restart rebuilds the ID manager and the maps. \<open>rpc_step\<close> is the step relation of
    a daemon that handles requests.
  \<^item> \<open>CniPlugin\<close>, \<open>CmdCtl\<close>: \<open>cmd/cni-plugin\<close>, \<open>pkg/rpc\<close> and \<open>cmd/cmdctl\<close>; the locale \<open>rpc_connection\<close>
    connects a client call to the handler that answers it. \<open>CniNet\<close> puts the lookup of the veth pair on top of the netlink
    calls it makes: links and addresses come from messages, the index of the peer from ethtool.
  \<^item> \<open>NlAttr\<close>, \<open>NlSocket\<close>, \<open>NlHandle\<close>, \<open>NlTc\<close>, \<open>Netlink_Types\<close>, \<open>NlAction\<close>, \<open>NlFilter\<close>: the part of the
    netlink library under \<open>pkg/github.com/vishvananda\<close> that carries the ingress redirection, from
    bytes to filters: attributes and their parser, requests and the receive loop of \<open>Execute\<close>,
    sockets in other namespaces, the fixed-size traffic control messages (one \<open>tc_codec\<close>
    interpretation each), actions, and the requests and answers of \<open>FilterAdd\<close>, \<open>FilterReplace\<close>,
    \<open>FilterDel\<close> and \<open>FilterList\<close>.
  \<^item> \<open>Go_Net\<close>, \<open>NlEncap\<close>, \<open>NlRoute\<close>, \<open>NlRouteProps\<close>: \<open>route_linux.go\<close> with \<open>route.go\<close> and the messages
    in \<open>nl\<close>. Addresses, masks and networks of Go's \<open>net\<close>; MPLS stacks, segment lists, local segment actions and
    eBPF encapsulations; the record \<open>Route\<close>, its decoder and encoder, \<open>RouteListFiltered\<close> and the calls
    that add, replace and delete.
  \<^item> \<open>NlLinkTypes\<close>, \<open>NlLinkData\<close>, \<open>NlLinkMsg\<close>, \<open>NlLink\<close>, \<open>NlLinkProps\<close>, \<open>NlLinkOps\<close>: \<open>link.go\<close>,
    \<open>link_linux.go\<close> and \<open>nl/link_linux.go\<close>. The interface \<open>Link\<close> is the datatype \<open>nl_link\<close>, one constructor for
    every Go type; the parser and the encoder of the data of each kind; \<open>LinkDeserialize\<close>; the calls of a handle, whose
    state is the flag \<open>lookupByDump\<close> next to the sockets. \<open>NlLinkProps\<close> has one round trip for each kind, \<open>NlLinkOps\<close>
    the calls against a kernel that answers with reports of links. \<open>NlAddr\<close> has the addresses of \<open>addr_linux.go\<close>: decoding,
    \<open>AddrList\<close>, and the encoder behind \<open>AddrAdd\<close>; \<open>NlEthtool\<close> the ioctls of \<open>LinkSetBondSlave\<close> and \<open>VethPeerIndex\<close>.
  \<^item> \<open>NlQdisc\<close>, \<open>NlClass\<close>: \<open>qdisc.go\<close>, \<open>qdisc_linux.go\<close>, \<open>class.go\<close> and \<open>class_linux.go\<close>. The interfaces
    \<open>Qdisc\<close> and \<open>Class\<close> are the datatypes \<open>qdisc\<close> and \<open>nl_class\<close>; the options of every kind are encoded and parsed, and
    listed from the messages of the kernel.
  \<^item> \<open>TcNetlink\<close>, \<open>AlgMain\<close>: \<open>pkg/tc/netlink.go\<close> and \<open>cmd/alg-daemon/main.go\<close>; the locale \<open>net_kernel\<close>
    extends \<open>tc_tool\<close> by the links and filters of the kernel. \<open>AlgNic\<close> puts \<open>GetMasterIntf\<close> on top of the
    netlink calls it makes: the routes and the link come from messages. \<open>IngressNet\<close> does the same for
    \<open>NicIngressFilterToIfb\<close>: lookups, the list of filters and the request for the new one.
  \<^item> \<open>NodeSystem\<close>: both daemons on the shared maps, interleaved. \<open>node_reachable\<close> allows requests and
    restarts of the node daemon between the read and the write of an allocator pass.

  \<^bold>\<open>What is shown.\<close> For the allocator: safety and totals of a round, progress, what a pass changes in
  the maps, and that no sequence of requests, restarts and passes makes it panic; also that a
  configuration written during a pass is lost, and that a priority above 2 would stop it. For the
  node daemon: ids are unique after any sequence of requests, a set-up installs exactly its pod, a
  tear-down undoes it, a restart recovers what the annotations say; also which requests end the
  process, and how an interleaved tear-down lets two pods share an id. For the clients: a pod's life
  cycle through the plugin and a flow set by \<open>bwmctl\<close>. For the network set-up: what
  enabling and disabling ingress leaves in the kernel, that programs are detached at the end,
  that the parameters of the allocator are in range whatever the environment says. For the netlink
  library: attributes, messages, actions and filters round trip, where they do; a \<open>MatchAll\<close> filter
  does not, it is sent without its actions; \<open>Execute\<close> returns what the kernel answered and leaks no
  descriptor, except for a failing socket option. Routes come back with every field, links with the attributes and data that
  \<open>LinkAdd\<close> sends; lookups by name go over to listing on old kernels; \<open>LinkAdd\<close> of a tun device leaks a
  descriptor in three error paths and none in the others; the host NIC is the link behind the first default route.
  The redirection of the default build, over netlink, succeeds and asks for a filter without an action; a restarted daemon takes
  such a filter for the redirection. The veth lookup of the plugin over netlink agrees with its model over plain lists of links and addresses; the message of
  \<open>AddrAdd\<close> reads back with the broadcast address filled in, and an address without a proper mask makes it panic.
  Queueing disciplines and classes are listed as they were sent, up to the fields that are never sent and the rates of
  service curves, which are rounded to multiples of 8.
  A kernel that answers is \<open>answered\<close> of \<open>NlHandle\<close>; \<open>script_os\<close> is one that answers from a list. The concrete
  definitions named \<open>example_...\<close>, \<open>kernel_...\<close> and \<open>pod_...\<close> are instances on which the hypotheses hold.

  \<^bold>\<open>Parameters.\<close> Code outside the repository is an argument, with its documented behaviour as named
  hypotheses: the eBPF map library (\<open>ebpf_ops\<close>, \<open>ebpf_laws\<close>), the Kubernetes API and the JSON decoder
  (\<open>k8s_ops\<close>), the shell and the \<open>tc\<close> tool (\<open>tc_tool\<close>), the kernel behind netlink (\<open>netlink_ops\<close>,
  \<open>net_kernel\<close>), system calls on sockets (\<open>nl_os\<close>), gRPC connections (\<open>rpc_call\<close>,
  \<open>rpc_connection\<close>), the CNI library, \<open>strconv.ParseFloat\<close>, the clock behind \<open>Xmittime\<close>. The order in
  which a Go map is walked is an argument. The host is little endian.

  \<^bold>\<open>Bounds and loops.\<close> No definition uses fuel. The scan for a free id and the wait for the pinned
  maps are \<open>partial_function (option)\<close>, with theorems on when they return; the receive loop of \<open>Execute\<close>
  ends in \<open>Hang\<close> where a read blocks forever; all other loops recurse on lists or have a measure. The
  map size 5000, the id ranges 100 to 999 and 1000 to 5999 and the three priorities are those of the code.

  \<^bold>\<open>Granularity.\<close> One method of the ID manager, one map operation and one handled request are atomic,
  except where a theorem splits them: the two halves of a set-up, and the read and the write of a
  pass. The two loops of the allocator work on disjoint maps and buffers and are taken one pass at a
  time. A byte slice is its bytes, without spare capacity.

  \<^bold>\<open>Not modelled.\<close> Logging, signal handling, sleeping, the cobra wrappers, the generated gRPC and
  eBPF loader code, and \<open>pkg/bpfgo/cmd\<close>, which does not build. Of routes, links and addresses: \<open>RouteGet\<close>, the subscriptions,
  printing, and the tables from option names to numbers. Of queueing disciplines and classes: \<open>NewNetem\<close>, \<open>NewHtbClass\<close>
  and the conversions to clock ticks, which compute with floats. The rest of the vendored netlink library, neighbours, IPsec, devlink, conntrack and ipset, is not called by the program. In
  \<open>TcNetlink\<close> the netlink calls are parameters with laws about the kernel's state; \<open>IngressNet\<close> shows the messages of the
  redirection, but no model of the kernel says what it does with a request. The eBPF programs are C code; only the split of a
  class id is modelled.
\<close>

end
